(* ===== verification/Prelude.thy ===== *)
theory Prelude
  imports Main "HOL-Library.Char_ord" "HOL-Library.List_Lexorder"
begin

text \<open>
  What every component of the development shares: the error-passing combinators that stand for
  Rust's \<open>?\<close> operator and for SQLite transactions, the list operations that stand for SQL
  statements over a table (a list of rows in \<open>rowid\<close> order), the integer casts \<open>as i64\<close> and
  \<open>as u64\<close>, and the parts of Rust's \<open>str\<close> the services use on UTF-8 byte strings.
\<close>

named_theorems res_iff \<open>success and failure of the error-passing combinators\<close>
named_theorems table_simps \<open>effects of SQL statements on rows, keys and counts\<close>

section \<open>Results\<close>

text \<open>\<open>rbind\<close> is \<open>?\<close>: the first error ends the computation.\<close>

definition rbind :: "'e + 'a \<Rightarrow> ('a \<Rightarrow> 'e + 'b) \<Rightarrow> 'e + 'b" where
  "rbind m f = (case m of Inl e \<Rightarrow> Inl e | Inr x \<Rightarrow> f x)"

definition guard :: "bool \<Rightarrow> 'e \<Rightarrow> 'e + unit" where
  "guard c e = (if c then Inr () else Inl e)"

definition ok_or :: "'a option \<Rightarrow> 'e \<Rightarrow> 'e + 'a" where
  "ok_or x e = (case x of None \<Rightarrow> Inl e | Some v \<Rightarrow> Inr v)"

definition map_err :: "('e \<Rightarrow> 'f) \<Rightarrow> 'e + 'a \<Rightarrow> 'f + 'a" where
  "map_err g m = (case m of Inl e \<Rightarrow> Inl (g e) | Inr x \<Rightarrow> Inr x)"

definition is_ok :: "'e + 'a \<Rightarrow> bool" where
  "is_ok m = (case m of Inl _ \<Rightarrow> False | Inr _ \<Rightarrow> True)"

text \<open>
  A transaction: the body computes the result and the new state, an error rolls back to the
  state at \<open>begin\<close> (dropping an uncommitted \<open>sqlx::Transaction\<close> rolls it back).
\<close>

definition with_tx :: "'s \<Rightarrow> 'e + ('a \<times> 's) \<Rightarrow> ('e + 'a) \<times> 's" where
  "with_tx s body = (case body of Inl e \<Rightarrow> (Inl e, s) | Inr (x, s') \<Rightarrow> (Inr x, s'))"

text \<open>Collecting an iterator of results into a result of a list: the first error wins.\<close>

fun rmap :: "('a \<Rightarrow> 'e + 'b) \<Rightarrow> 'a list \<Rightarrow> 'e + 'b list" where
  "rmap f [] = Inr []"
| "rmap f (x # xs) = (case f x of Inl e \<Rightarrow> Inl e
     | Inr y \<Rightarrow> (case rmap f xs of Inl e \<Rightarrow> Inl e | Inr ys \<Rightarrow> Inr (y # ys)))"

lemma rmap_Inr_iff: "rmap f xs = Inr ys \<longleftrightarrow> map f xs = map Inr ys"
proof (induction xs arbitrary: ys)
  case (Cons x xs)
  show ?case using Cons [of "tl ys"] by (cases ys; cases "f x"; cases "rmap f xs") auto
qed auto

lemma rbind_simps [simp]:
  "rbind (Inl e) f = Inl e" "rbind (Inr x) f = f x"
  by (simp_all add: rbind_def)

lemma rbind_Inr_iff [res_iff]: "rbind m f = Inr y \<longleftrightarrow> (\<exists>x. m = Inr x \<and> f x = Inr y)"
  by (cases m) simp_all

lemma rbind_Inl_iff: "rbind m f = Inl e \<longleftrightarrow> m = Inl e \<or> (\<exists>x. m = Inr x \<and> f x = Inl e)"
  by (cases m) simp_all

lemma rbind_assoc: "rbind (rbind m f) g = rbind m (\<lambda>x. rbind (f x) g)"
  by (cases m) simp_all

lemma guard_simps [simp]: "guard True e = Inr ()" "guard False e = Inl e"
  by (simp_all add: guard_def)

lemma guard_Inr_iff [res_iff]: "guard c e = Inr u \<longleftrightarrow> c"
  by (cases c) simp_all

lemma guard_Inl_iff [res_iff]: "guard c e = Inl e' \<longleftrightarrow> \<not> c \<and> e' = e"
  by (cases c) auto

lemma ok_or_simps [simp]: "ok_or None e = Inl e" "ok_or (Some x) e = Inr x"
  by (simp_all add: ok_or_def)

lemma ok_or_Inr_iff [res_iff]: "ok_or x e = Inr v \<longleftrightarrow> x = Some v"
  by (cases x) simp_all

lemma ok_or_Inl_iff [res_iff]: "ok_or x e = Inl e' \<longleftrightarrow> x = None \<and> e' = e"
  by (cases x) auto

lemma map_err_simps [simp]: "map_err g (Inl e) = Inl (g e)" "map_err g (Inr x) = Inr x"
  by (simp_all add: map_err_def)

lemma map_err_Inr_iff [res_iff]: "map_err g m = Inr v \<longleftrightarrow> m = Inr v"
  by (cases m) simp_all

lemma is_ok_simps [simp]: "\<not> is_ok (Inl e)" "is_ok (Inr x)"
  by (simp_all add: is_ok_def)

lemma is_ok_iff: "is_ok m \<longleftrightarrow> (\<exists>x. m = Inr x)"
  by (cases m) simp_all

lemma with_tx_simps [simp]:
  "with_tx s (Inl e) = (Inl e, s)" "with_tx s (Inr (x, s')) = (Inr x, s')"
  by (simp_all add: with_tx_def)

lemma with_tx_Inr_iff [res_iff]: "with_tx s b = (Inr x, s') \<longleftrightarrow> b = Inr (x, s')"
  by (cases b) (auto simp: with_tx_def)

lemma with_tx_Inl_iff [res_iff]: "with_tx s b = (Inl e, s') \<longleftrightarrow> b = Inl e \<and> s' = s"
  by (cases b) (auto simp: with_tx_def)

lemma with_tx_cases:
  "with_tx s b = r \<Longrightarrow> (\<And>e. b = Inl e \<Longrightarrow> r = (Inl e, s) \<Longrightarrow> P)
    \<Longrightarrow> (\<And>x s'. b = Inr (x, s') \<Longrightarrow> r = (Inr x, s') \<Longrightarrow> P) \<Longrightarrow> P"
  by (cases b) auto

section \<open>Tables\<close>

text \<open>\<open>UPDATE\<close>, \<open>DELETE\<close>, \<open>COUNT\<close>, \<open>fetch_optional\<close> and \<open>fetch_one\<close> over a table.\<close>

definition sql_update :: "('r \<Rightarrow> bool) \<Rightarrow> ('r \<Rightarrow> 'r) \<Rightarrow> 'r list \<Rightarrow> 'r list" where
  "sql_update p f rows = map (\<lambda>r. if p r then f r else r) rows"

definition sql_delete :: "('r \<Rightarrow> bool) \<Rightarrow> 'r list \<Rightarrow> 'r list" where
  "sql_delete p rows = filter (\<lambda>r. \<not> p r) rows"

definition sql_count :: "('r \<Rightarrow> bool) \<Rightarrow> 'r list \<Rightarrow> nat" where
  "sql_count p rows = length (filter p rows)"

definition fetch_optional :: "'r list \<Rightarrow> 'r option" where
  "fetch_optional rows = (case rows of [] \<Rightarrow> None | r # _ \<Rightarrow> Some r)"

text \<open>\<open>ORDER BY ts DESC LIMIT n\<close> among the rows satisfying \<open>p\<close>; equal times: later rowid first.\<close>

definition newest :: "nat \<Rightarrow> ('r \<Rightarrow> 't::linorder) \<Rightarrow> 'r list \<Rightarrow> 'r list" where
  "newest n ts rows = take n (rev (sort_key ts rows))"

text \<open>\<open>DELETE ... WHERE p AND key NOT IN (SELECT key ... WHERE p ORDER BY ts DESC LIMIT n)\<close>.\<close>

definition keep_newest ::
    "nat \<Rightarrow> ('r \<Rightarrow> 'k) \<Rightarrow> ('r \<Rightarrow> 't::linorder) \<Rightarrow> ('r \<Rightarrow> bool) \<Rightarrow> 'r list \<Rightarrow> 'r list" where
  "keep_newest n key ts p rows =
     sql_delete (\<lambda>r. p r \<and> key r \<notin> set (map key (newest n ts (filter p rows)))) rows"

lemma set_sql_update [table_simps]:
  "set (sql_update p f rows) = {r \<in> set rows. \<not> p r} \<union> f ` {r \<in> set rows. p r}"
  by (auto simp: sql_update_def)

lemma set_sql_delete [table_simps]: "set (sql_delete p rows) = {r \<in> set rows. \<not> p r}"
  by (auto simp: sql_delete_def)

lemma sql_update_append [table_simps]:
  "sql_update p f (xs @ ys) = sql_update p f xs @ sql_update p f ys"
  by (simp add: sql_update_def)

lemma length_sql_update [table_simps]: "length (sql_update p f rows) = length rows"
  by (simp add: sql_update_def)

lemma map_sql_update [table_simps]:
  "(\<And>r. p r \<Longrightarrow> g (f r) = g r) \<Longrightarrow> map g (sql_update p f rows) = map g rows"
  by (simp add: sql_update_def)

lemma distinct_sql_delete [table_simps]:
  "distinct (map g rows) \<Longrightarrow> distinct (map g (sql_delete p rows))"
  by (simp add: sql_delete_def distinct_map_filter)

lemma filter_sql_update:
  "(\<And>r. p r \<Longrightarrow> q (f r) = q r) \<Longrightarrow> filter q (sql_update p f rows) = sql_update p f (filter q rows)"
  by (induction rows) (auto simp: sql_update_def)

lemma filter_sql_update_frame:
  "(\<And>r. p r \<Longrightarrow> \<not> q r) \<Longrightarrow> (\<And>r. p r \<Longrightarrow> \<not> q (f r)) \<Longrightarrow> filter q (sql_update p f rows) = filter q rows"
  by (induction rows) (auto simp: sql_update_def)

lemma filter_sql_delete_frame:
  "(\<And>r. p r \<Longrightarrow> \<not> q r) \<Longrightarrow> filter q (sql_delete p rows) = filter q rows"
  by (induction rows) (auto simp: sql_delete_def)

lemma sql_delete_twice: "sql_delete p (sql_delete q rows) = sql_delete (\<lambda>r. q r \<or> p r) rows"
  by (simp add: sql_delete_def conj_commute)

lemma sql_count_delete_le: "sql_count p (sql_delete q rows) \<le> sql_count p rows"
  by (induction rows) (auto simp: sql_count_def sql_delete_def)

lemma sql_count_append [table_simps]:
  "sql_count p (xs @ ys) = sql_count p xs + sql_count p ys"
  by (simp add: sql_count_def)

lemma sql_count_Nil [simp]: "sql_count p [] = 0"
  by (simp add: sql_count_def)

lemma sql_count_Cons [simp]: "sql_count p (r # rows) = (if p r then 1 else 0) + sql_count p rows"
  by (simp add: sql_count_def)

lemma sql_count_pos: "0 < sql_count p rows \<longleftrightarrow> (\<exists>r \<in> set rows. p r)"
  by (induction rows) auto

lemma sql_count_le_key:
  "distinct (map key rows) \<Longrightarrow> (\<And>r. p r \<Longrightarrow> key r = k) \<Longrightarrow> sql_count p rows \<le> 1"
proof (induction rows)
  case (Cons r rows)
  show ?case
  proof (cases "p r")
    case True
    then have "\<not> (\<exists>r' \<in> set rows. p r')" using Cons.prems by force
    then show ?thesis using True by (simp add: sql_count_pos [symmetric])
  next
    case False
    then show ?thesis using Cons by simp
  qed
qed simp

lemma fetch_optional_Some_mem: "fetch_optional rows = Some r \<Longrightarrow> r \<in> set rows"
  by (cases rows) (auto simp: fetch_optional_def)

lemma fetch_optional_None_iff: "fetch_optional rows = None \<longleftrightarrow> rows = []"
  by (cases rows) (auto simp: fetch_optional_def)

lemma fetch_optional_ex: "r \<in> set rows \<Longrightarrow> \<exists>r'. fetch_optional rows = Some r' \<and> r' \<in> set rows"
  by (cases rows) (auto simp: fetch_optional_def)

lemma fetch_optional_unique:
  assumes "r \<in> set rows" "\<And>r'. r' \<in> set rows \<Longrightarrow> r' = r"
  shows "fetch_optional rows = Some r"
proof (cases rows)
  case (Cons a list)
  then have "a = r" using assms(2) [of a] by simp
  then show ?thesis using Cons by (simp add: fetch_optional_def)
qed (use assms(1) in simp)

lemma fetch_optional_Nil [simp]: "fetch_optional [] = None"
  and fetch_optional_Cons [simp]: "fetch_optional (r # rs) = Some r"
  by (simp_all add: fetch_optional_def)

lemma length_newest: "length (newest n ts rows) \<le> n"
  by (simp add: newest_def)

lemma set_newest_subset: "set (newest n ts rows) \<subseteq> set rows"
  by (auto simp: newest_def dest: in_set_takeD)

lemma set_keep_newest_subset: "set (keep_newest n key ts p rows) \<subseteq> set rows"
  by (auto simp: keep_newest_def table_simps)

lemma keep_newest_other: "r \<in> set rows \<Longrightarrow> \<not> p r \<Longrightarrow> r \<in> set (keep_newest n key ts p rows)"
  by (auto simp: keep_newest_def table_simps)

lemma filter_keep_newest_frame:
  "(\<And>r. p r \<Longrightarrow> \<not> q r) \<Longrightarrow> filter q (keep_newest n key ts p rows) = filter q rows"
  unfolding keep_newest_def by (rule filter_sql_delete_frame) blast

lemma distinct_keep_newest [table_simps]:
  "distinct (map g rows) \<Longrightarrow> distinct (map g (keep_newest n key ts p rows))"
  by (simp add: keep_newest_def table_simps)

lemma sql_count_keep_newest:
  assumes "distinct (map key rows)"
  shows "sql_count p (keep_newest n key ts p rows) \<le> n"
proof -
  let ?new = "newest n ts (filter p rows)"
  let ?kept = "filter p (keep_newest n key ts p rows)"
  have sub: "key ` set ?kept \<subseteq> key ` set ?new"
    by (auto simp: keep_newest_def table_simps)
  have "distinct (map key (keep_newest n key ts p rows))" using assms by (rule distinct_keep_newest)
  then have "distinct (map key ?kept)" by (simp add: distinct_map_filter)
  then have "length ?kept = card (key ` set ?kept)"
    by (metis distinct_card length_map list.set_map)
  also have "\<dots> \<le> card (key ` set ?new)" using sub by (simp add: card_mono)
  also have "\<dots> \<le> card (set ?new)" by (simp add: card_image_le)
  also have "\<dots> \<le> length ?new" by (rule card_length)
  also have "\<dots> \<le> n" by (rule length_newest)
  finally show ?thesis by (simp add: sql_count_def)
qed

text \<open>The row inserted last survives when it is at least as recent as the others.\<close>

lemma insort_key_snoc: "ts a \<le> ts x \<Longrightarrow> insort_key ts a (ys @ [x]) = insort_key ts a ys @ [x]"
  by (induction ys) auto

lemma sort_key_snoc: "(\<And>r. r \<in> set rows \<Longrightarrow> ts r \<le> ts x) \<Longrightarrow> sort_key ts (rows @ [x]) = sort_key ts rows @ [x]"
  by (induction rows) (auto simp: insort_key_snoc)

lemma newest_snoc:
  "0 < n \<Longrightarrow> (\<And>r. r \<in> set rows \<Longrightarrow> ts r \<le> ts x) \<Longrightarrow> x \<in> set (newest n ts (rows @ [x]))"
  by (cases n) (auto simp: newest_def sort_key_snoc)

lemma keep_newest_snoc:
  assumes "0 < n" "p x" "\<And>r. r \<in> set rows \<Longrightarrow> p r \<Longrightarrow> ts r \<le> ts x"
  shows "x \<in> set (keep_newest n key ts p (rows @ [x]))"
proof -
  have "x \<in> set (newest n ts (filter p rows @ [x]))" using assms(1,3) by (intro newest_snoc) auto
  then show ?thesis using assms(2) by (auto simp: keep_newest_def table_simps)
qed

text \<open>A row that was not kept is at most as recent as every kept one.\<close>

lemma keep_newest_order:
  assumes "r \<in> set rows" "p r" "r \<notin> set (keep_newest n key ts p rows)"
    and "r' \<in> set (newest n ts (filter p rows))"
  shows "ts r \<le> ts r'"
proof -
  let ?s = "rev (sort_key ts (filter p rows))"
  have "key r \<notin> set (map key (newest n ts (filter p rows)))"
    using assms(1-3) by (auto simp: keep_newest_def table_simps)
  then have "r \<notin> set (take n ?s)" by (auto simp: newest_def)
  moreover have "r \<in> set ?s" using assms(1,2) by simp
  ultimately have "r \<in> set (drop n ?s)"
    by (metis append_take_drop_id Un_iff set_append)
  moreover have "sorted_wrt (\<ge>) (map ts ?s)"
    using sorted_sort_key [of ts "filter p rows"] by (simp only: rev_map [symmetric] sorted_wrt_rev)
  then have "sorted_wrt (\<ge>) (map ts (take n ?s) @ map ts (drop n ?s))"
    by (simp only: map_append [symmetric] append_take_drop_id)
  then have "\<forall>x \<in> set (map ts (take n ?s)). \<forall>y \<in> set (map ts (drop n ?s)). y \<le> x"
    by (auto simp only: sorted_wrt_append)
  ultimately show ?thesis using assms(4) by (auto simp: newest_def)
qed

subsection \<open>Tables with a key\<close>

text \<open>
  The contract between the schema and the statements that use a table: \<open>rows\<close> reads the table,
  \<open>put\<close> rewrites it, \<open>insert_row\<close> is the checked \<open>INSERT\<close>. The schema promises that an insert
  that goes through appends one row whose key was free; the clients get the uniqueness of the
  key after every statement.
\<close>

locale keyed_table =
  fixes rows :: "'db \<Rightarrow> 'r list"
    and put :: "('r list \<Rightarrow> 'r list) \<Rightarrow> 'db \<Rightarrow> 'db"
    and key :: "'r \<Rightarrow> 'k"
    and insert_row :: "'r \<Rightarrow> 'db \<Rightarrow> 'e + 'db"
  assumes rows_put: "rows (put f d) = f (rows d)"
    and insert_rows: "insert_row r d = Inr d' \<Longrightarrow> rows d' = rows d @ [r]"
    and insert_fresh: "insert_row r d = Inr d' \<Longrightarrow> key r \<notin> key ` set (rows d)"
begin

lemma insert_keys: "insert_row r d = Inr d' \<Longrightarrow> distinct (map key (rows d)) \<Longrightarrow> distinct (map key (rows d'))"
  using insert_rows insert_fresh by fastforce

lemma update_keys:
  "(\<And>r. p r \<Longrightarrow> key (f r) = key r) \<Longrightarrow> distinct (map key (rows d))
    \<Longrightarrow> distinct (map key (rows (put (sql_update p f) d)))"
  by (simp add: rows_put map_sql_update)

lemma delete_keys:
  "distinct (map key (rows d)) \<Longrightarrow> distinct (map key (rows (put (sql_delete p) d)))"
  by (simp add: rows_put distinct_sql_delete)

lemma keep_keys:
  "distinct (map key (rows d)) \<Longrightarrow> distinct (map key (rows (put (keep_newest n key ts p) d)))"
  by (simp add: rows_put distinct_keep_newest)

lemma row_unique:
  "distinct (map key (rows d)) \<Longrightarrow> r \<in> set (rows d) \<Longrightarrow> r' \<in> set (rows d) \<Longrightarrow> key r = key r' \<Longrightarrow> r = r'"
  by (auto simp: distinct_map inj_on_def)

lemma insert_subset: "insert_row r d = Inr d' \<Longrightarrow> set (rows d) \<subseteq> set (rows d') \<and> r \<in> set (rows d')"
  using insert_rows by fastforce

end

section \<open>Integers\<close>

text \<open>
  \<open>u64\<close> values are naturals below \<open>2 ^ 64\<close> and \<open>i64\<close> values integers; the casts between them
  write out the two's-complement wrap-around of Rust's \<open>as\<close>.
\<close>

type_synonym u64 = nat
type_synonym i64 = int

definition as_i64 :: "u64 \<Rightarrow> i64" where
  "as_i64 n = (if n mod 2 ^ 64 < 2 ^ 63 then int (n mod 2 ^ 64) else int (n mod 2 ^ 64) - 2 ^ 64)"

lemma int_less_power: "int m < 2 ^ k \<longleftrightarrow> m < 2 ^ k"
  by (metis of_nat_less_iff of_nat_numeral of_nat_power)

lemma int_mod_power: "int n mod 2 ^ k = int (n mod 2 ^ k)"
  by (simp add: zmod_int)

lemma as_i64_int [code]:
  "as_i64 n = (let i = int n mod 2 ^ 64 in if i < 2 ^ 63 then i else i - 2 ^ 64)"
  unfolding as_i64_def Let_def int_mod_power int_less_power by (rule refl)

definition as_u64 :: "i64 \<Rightarrow> u64" where
  "as_u64 i = nat (i mod 2 ^ 64)"

definition u64_max :: nat where
  "u64_max = 2 ^ 64 - 1"

definition sat_add :: "u64 \<Rightarrow> u64 \<Rightarrow> u64" where
  "sat_add a b = min (a + b) u64_max"

lemma sat_add_int [code]: "sat_add a b = nat (min (int a + int b) (2 ^ 64 - 1))"
  by (simp add: sat_add_def u64_max_def min_def nat_add_distrib)

definition sat_sub :: "u64 \<Rightarrow> u64 \<Rightarrow> u64" where
  "sat_sub a b = a - b"

definition i64_sat_sub :: "i64 \<Rightarrow> i64 \<Rightarrow> i64" where
  "i64_sat_sub a b = max (- (2 ^ 63)) (min (2 ^ 63 - 1) (a - b))"

lemma i64_sat_sub_exact:
  "- (2 ^ 63) \<le> a - b \<Longrightarrow> a - b \<le> 2 ^ 63 - 1 \<Longrightarrow> i64_sat_sub a b = a - b"
  by (simp add: i64_sat_sub_def)

lemma as_u64_small: "0 \<le> i \<Longrightarrow> i < 2 ^ 64 \<Longrightarrow> as_u64 i = nat i"
  by (simp only: as_u64_def mod_pos_pos_trivial)

lemma as_u64_of_nat: "n < 2 ^ 64 \<Longrightarrow> as_u64 (int n) = n"
  by (subst as_u64_small) simp_all

lemma as_u64_lt: "as_u64 i < 2 ^ 64"
  by (simp add: as_u64_def nat_less_iff)

lemma as_i64_small: "n < 2 ^ 63 \<Longrightarrow> as_i64 n = int n"
  by (simp add: as_i64_def)

lemma as_i64_as_u64_pos: "0 \<le> i \<Longrightarrow> i < 2 ^ 63 \<Longrightarrow> as_i64 (as_u64 i) = i"
  by (simp add: as_u64_small as_i64_small nat_less_iff)

lemma as_u64_Suc_neq: "as_u64 (i + 1) \<noteq> as_u64 i"
proof
  assume "as_u64 (i + 1) = as_u64 i"
  then have "(i + 1) mod 2 ^ 64 = i mod 2 ^ 64"
    unfolding as_u64_def by (subst (asm) eq_nat_nat_iff) simp_all
  then have "(2 :: int) ^ 64 dvd (i + 1) - i" by (simp only: mod_eq_dvd_iff)
  then show False by simp
qed

section \<open>Strings\<close>

text \<open>
  A Rust \<open>str\<close> is its UTF-8 bytes, a \<open>char list\<close> here; \<open>len()\<close> is the number of bytes.
  \<open>utf8_chars\<close> groups the bytes into scalar values: a scalar starts at a byte outside
  \<open>0x80..0xBF\<close>.
\<close>

definition is_continuation :: "char \<Rightarrow> bool" where
  "is_continuation c \<longleftrightarrow> 128 \<le> (of_char c :: nat) \<and> (of_char c :: nat) < 192"

function utf8_chars :: "string \<Rightarrow> string list" where
  "utf8_chars [] = []"
| "utf8_chars (c # cs) = (c # takeWhile is_continuation cs) # utf8_chars (dropWhile is_continuation cs)"
  by pat_completeness auto
termination
  by (relation "measure length") (auto simp: le_imp_less_Suc length_dropWhile_le)

lemma concat_utf8_chars: "concat (utf8_chars s) = s"
  by (induction s rule: utf8_chars.induct) auto

text \<open>\<open>char::is_control\<close>: U+0000..U+001F and U+007F..U+009F.\<close>

definition is_control :: "string \<Rightarrow> bool" where
  "is_control u = (case map of_char u :: nat list of
     [a] \<Rightarrow> a < 32 \<or> a = 127
   | [a, b] \<Rightarrow> a = 194 \<and> 128 \<le> b \<and> b < 160
   | _ \<Rightarrow> False)"

text \<open>\<open>char::is_whitespace\<close>: the Unicode property \<open>White_Space\<close>.\<close>

definition is_whitespace :: "string \<Rightarrow> bool" where
  "is_whitespace u = (case map of_char u :: nat list of
     [a] \<Rightarrow> (9 \<le> a \<and> a \<le> 13) \<or> a = 32
   | [a, b] \<Rightarrow> a = 194 \<and> (b = 133 \<or> b = 160)
   | [a, b, c] \<Rightarrow> (a = 225 \<and> b = 154 \<and> c = 128)
       \<or> (a = 226 \<and> b = 128 \<and> ((128 \<le> c \<and> c \<le> 138) \<or> c = 168 \<or> c = 169 \<or> c = 175))
       \<or> (a = 226 \<and> b = 129 \<and> c = 159)
       \<or> (a = 227 \<and> b = 128 \<and> c = 128)
   | _ \<Rightarrow> False)"

definition has_control :: "string \<Rightarrow> bool" where
  "has_control s = list_ex is_control (utf8_chars s)"

definition str_trim :: "string \<Rightarrow> string" where
  "str_trim s = concat (rev (dropWhile is_whitespace (rev (dropWhile is_whitespace (utf8_chars s)))))"

definition to_ascii_lowercase :: "string \<Rightarrow> string" where
  "to_ascii_lowercase s = map (\<lambda>c. if 65 \<le> (of_char c :: nat) \<and> (of_char c :: nat) \<le> 90
     then char_of ((of_char c :: nat) + 32) else c) s"

text \<open>\<open>str::split\<close> on one byte: always at least one piece.\<close>

fun split_on :: "char \<Rightarrow> string \<Rightarrow> string list" where
  "split_on d [] = [[]]"
| "split_on d (c # cs) = (if c = d then [] # split_on d cs
     else (case split_on d cs of [] \<Rightarrow> [[c]] | p # ps \<Rightarrow> (c # p) # ps))"

definition strip_prefix :: "string \<Rightarrow> string \<Rightarrow> string option" where
  "strip_prefix p s = (if take (length p) s = p then Some (drop (length p) s) else None)"

lemma split_on_not_Nil [simp]: "split_on d s \<noteq> []"
  by (induction s) (auto split: list.splits)

lemma strip_prefix_Some_iff [res_iff]: "strip_prefix p s = Some t \<longleftrightarrow> s = p @ t"
proof
  assume "strip_prefix p s = Some t"
  then have "take (length p) s = p" "t = drop (length p) s"
    by (simp_all add: strip_prefix_def split: if_splits)
  then show "s = p @ t" by (metis append_take_drop_id)
qed (simp add: strip_prefix_def)

section \<open>Decimal numbers\<close>

fun string_of_nat :: "nat \<Rightarrow> string" where
  "string_of_nat n = (if n < 10 then [char_of (n + 48)]
     else string_of_nat (n div 10) @ [char_of (n mod 10 + 48)])"

declare string_of_nat.simps [simp del]

text \<open>Decimal texts are read back.\<close>

definition nat_of_string :: "string \<Rightarrow> nat" where
  "nat_of_string s = foldl (\<lambda>n c. 10 * n + (of_char c - 48)) 0 s"

lemma nat_of_string_of_nat: "nat_of_string (string_of_nat n) = n"
proof (induction n rule: string_of_nat.induct)
  case (1 n)
  show ?case
  proof (cases "n < 10")
    case True
    then show ?thesis by (subst string_of_nat.simps) (simp add: nat_of_string_def)
  next
    case False
    have "n mod 10 < 10" by simp
    then have "(n mod 10 + 48) mod 256 = n mod 10 + 48" by (intro mod_less) linarith
    moreover from False 1 have "nat_of_string (string_of_nat (n div 10)) = n div 10" by simp
    ultimately show ?thesis using False
      by (subst string_of_nat.simps) (simp add: nat_of_string_def)
  qed
qed

lemma digits_of_nat: "c \<in> set (string_of_nat n) \<Longrightarrow> CHR ''0'' \<le> c \<and> c \<le> CHR ''9''"
proof (induction n rule: string_of_nat.induct)
  case (1 n)
  have "(m + 48) mod 256 = m + 48" if "m < 10" for m :: nat using that by simp
  then have digit: "CHR ''0'' \<le> (char_of (m + 48) :: char) \<and> (char_of (m + 48) :: char) \<le> CHR ''9''" if "m < 10" for m :: nat
    using that by (simp add: less_eq_char_def)
  show ?case using 1 digit [of n] digit [of "n mod 10"]
    by (cases "n < 10") (auto simp: string_of_nat.simps [of n])
qed

lemma string_of_nat_not_Nil [simp]: "string_of_nat n \<noteq> []"
  by (subst string_of_nat.simps) simp

text \<open>\<open>str::parse\<close> for an unsigned type with maximum \<open>m\<close>: digits after an optional plus sign.\<close>

definition parse_unsigned :: "nat \<Rightarrow> string \<Rightarrow> nat option" where
  "parse_unsigned m s =
     (let ds = (case s of c # cs \<Rightarrow> if c = CHR ''+'' then cs else s | [] \<Rightarrow> [])
      in if ds \<noteq> [] \<and> list_all (\<lambda>c. CHR ''0'' \<le> c \<and> c \<le> CHR ''9'') ds \<and> nat_of_string ds \<le> m
         then Some (nat_of_string ds) else None)"

lemma parse_unsigned_string_of_nat: "n \<le> m \<Longrightarrow> parse_unsigned m (string_of_nat n) = Some n"
proof -
  assume n: "n \<le> m"
  have digits: "list_all (\<lambda>c. CHR ''0'' \<le> c \<and> c \<le> CHR ''9'') (string_of_nat n)"
    using digits_of_nat [of _ n] by (simp add: list_all_iff)
  have "(case string_of_nat n of c # cs \<Rightarrow> if c = CHR ''+'' then cs else string_of_nat n | [] \<Rightarrow> []) = string_of_nat n"
  proof (cases "string_of_nat n")
    case (Cons c cs)
    then have "c \<noteq> CHR ''+''" using digits by (auto simp: less_eq_char_def)
    then show ?thesis using Cons by simp
  qed simp
  then show ?thesis using n digits by (simp only: parse_unsigned_def Let_def nat_of_string_of_nat) simp
qed

lemma parse_unsigned_le: "parse_unsigned m s = Some n \<Longrightarrow> n \<le> m"
  by (auto simp: parse_unsigned_def Let_def split: if_split_asm)

text \<open>\<open>std::str::from_utf8\<close>: well-formed sequences of one to four bytes.\<close>

fun utf8_valid :: "nat list \<Rightarrow> bool" where
  "utf8_valid [] = True"
| "utf8_valid (a # as) =
     (if a < 128 then utf8_valid as
      else (case as of [] \<Rightarrow> False | b # bs \<Rightarrow>
        if 194 \<le> a \<and> a \<le> 223 then 128 \<le> b \<and> b < 192 \<and> utf8_valid bs
        else (case bs of [] \<Rightarrow> False | c # cs \<Rightarrow>
          if 224 \<le> a \<and> a \<le> 239 then (if a = 224 then 160 else 128) \<le> b \<and> b < (if a = 237 then 160 else 192)
             \<and> 128 \<le> c \<and> c < 192 \<and> utf8_valid cs
          else (case cs of [] \<Rightarrow> False | d # ds \<Rightarrow>
             240 \<le> a \<and> a \<le> 244 \<and> (if a = 240 then 144 else 128) \<le> b \<and> b < (if a = 244 then 144 else 192)
             \<and> 128 \<le> c \<and> c < 192 \<and> 128 \<le> d \<and> d < 192 \<and> utf8_valid ds))))"

lemma utf8_valid_ascii: "(\<And>b. b \<in> set bs \<Longrightarrow> b < 128) \<Longrightarrow> utf8_valid bs"
  by (induction bs) auto

end
