(* ===== verification/RelayModels.thy ===== *)
theory RelayModels
  imports Prelude
begin

text \<open>
  The data of the team relay (\<open>services/team-relay/src/models.rs\<close>, \<open>error.rs\<close>): the request
  and response structures, the socket messages, the error enumeration with its HTTP and socket
  renderings, and \<open>libs\<close>, the record of the third-party functions the relay calls. Structures
  whose JSON form never reaches the state are still declared, since the handlers take and return
  them. Identifiers, roles and statuses are strings, as in the code.
\<close>

section \<open>Errors\<close>

text \<open>
  The message texts are user-facing Chinese sentences that no code branches on; the constructor
  is what \<open>IntoResponse\<close> and \<open>socket_error\<close> dispatch on.
\<close>

datatype relay_error =
    Validation
  | Authentication
  | PermissionDenied
  | NotFound
  | Conflict
  | Unavailable
  | Storage
  | Internal

type_synonym 'a relay_result = "relay_error + 'a"

text \<open>What SQLite reports for a rejected statement: \<open>is_unique_violation()\<close> or another error.\<close>

datatype sql_error = UniqueViolation | CheckViolation | ForeignKeyViolation | RowNotFound

definition from_sql :: "sql_error \<Rightarrow> relay_error" where
  "from_sql e = Storage"

definition map_conflict :: "sql_error \<Rightarrow> relay_error" where
  "map_conflict e = (case e of UniqueViolation \<Rightarrow> Conflict | _ \<Rightarrow> Storage)"

fun http_status :: "relay_error \<Rightarrow> nat" where
  "http_status Validation = 400"
| "http_status Authentication = 401"
| "http_status PermissionDenied = 403"
| "http_status NotFound = 404"
| "http_status Conflict = 409"
| "http_status Unavailable = 503"
| "http_status Storage = 500"
| "http_status Internal = 500"

fun http_code :: "relay_error \<Rightarrow> string" where
  "http_code Validation = ''validation''"
| "http_code Authentication = ''authentication''"
| "http_code PermissionDenied = ''permissionDenied''"
| "http_code NotFound = ''notFound''"
| "http_code Conflict = ''conflict''"
| "http_code Unavailable = ''unavailable''"
| "http_code Storage = ''internal''"
| "http_code Internal = ''internal''"

fun socket_error_code :: "relay_error \<Rightarrow> string" where
  "socket_error_code Validation = ''validation''"
| "socket_error_code Authentication = ''authentication''"
| "socket_error_code PermissionDenied = ''permissionDenied''"
| "socket_error_code NotFound = ''notFound''"
| "socket_error_code Conflict = ''conflict''"
| "socket_error_code Unavailable = ''unavailable''"
| "socket_error_code Storage = ''internal''"
| "socket_error_code Internal = ''internal''"

section \<open>Requests and responses\<close>

record register_account_input =
  rai_email :: string
  rai_password :: string
  rai_display_name :: string

record login_input =
  li_email :: string
  li_password :: string

record account_session_output =
  aso_account_id :: string
  aso_email :: string
  aso_token :: string
  aso_expires_at :: string

record account_registration_output =
  aro_verification_required :: bool
  aro_verification_expires_at :: "string option"
  aro_account_session :: "account_session_output option"

record device_registration =
  dr_id :: string
  dr_name :: string
  dr_encryption_public_key :: string
  dr_signing_public_key :: string
  dr_fingerprint :: string

record bootstrap_workspace_input =
  bwi_workspace_id :: string
  bwi_workspace_name :: string
  bwi_member_id :: string
  bwi_device :: device_registration

record device_session_output =
  dso_workspace_id :: string
  dso_member_id :: string
  dso_device_id :: string
  dso_role :: string
  dso_key_epoch :: i64
  dso_token :: string
  dso_expires_at :: string

record create_workspace_invitation_input =
  cwi_email :: string
  cwi_role :: string
  cwi_member_id :: string

record workspace_invitation_output =
  wio_invitation_id :: string
  wio_token :: string
  wio_expires_at :: string

record accept_workspace_invitation_input =
  awi_token :: string
  awi_device :: device_registration

record workspace_member_view =
  wmv_id :: string
  wmv_display_name :: string
  wmv_role :: string
  wmv_status :: string

record workspace_device_view =
  wdv_id :: string
  wdv_member_id :: string
  wdv_name :: string
  wdv_encryption_public_key :: string
  wdv_signing_public_key :: string
  wdv_fingerprint :: string
  wdv_status :: string

record workspace_snapshot_view =
  wsv_id :: string
  wsv_name :: string
  wsv_key_epoch :: i64
  wsv_members :: "workspace_member_view list"
  wsv_devices :: "workspace_device_view list"

record relay_audit_event =
  rae_id :: string
  rae_workspace_id :: string
  rae_actor_member_id :: string
  rae_action :: string
  rae_target_type :: string
  rae_target_id :: string
  rae_created_at :: string

record update_member_input =
  umi_role :: string
  umi_status :: string

record device_challenge_input =
  dci_workspace_id :: string
  dci_device_id :: string

record device_challenge_output =
  dco_challenge_id :: string
  dco_challenge :: string
  dco_expires_at :: string

record create_device_session_input =
  cds_challenge_id :: string
  cds_challenge :: string
  cds_signature :: string

record team_terminal_invitation =
  tti_schema_version :: nat
  tti_room_id :: string
  tti_workspace_id :: string
  tti_key_epoch :: i64
  tti_host_member_id :: string
  tti_host_device_id :: string
  tti_recipient_member_id :: string
  tti_recipient_device_id :: string
  tti_ephemeral_public_key :: string
  tti_key_nonce :: string
  tti_wrapped_room_key :: string
  tti_replay_from_sequence :: u64
  tti_next_input_sequence :: u64
  tti_created_at :: string
  tti_expires_at :: string
  tti_signature :: "string option"

record team_terminal_encrypted_frame =
  tef_schema_version :: nat
  tef_workspace_id :: string
  tef_room_id :: string
  tef_key_epoch :: i64
  tef_sender_member_id :: string
  tef_sender_device_id :: string
  tef_direction :: string
  tef_kind :: string
  tef_sequence :: u64
  tef_lease_id :: "string option"
  tef_lease_generation :: u64
  tef_nonce :: string
  tef_ciphertext :: string
  tef_signature :: "string option"

record create_room_input =
  cri_room_id :: string
  cri_key_epoch :: i64

record room_view =
  rv_id :: string
  rv_workspace_id :: string
  rv_host_member_id :: string
  rv_host_device_id :: string
  rv_key_epoch :: i64
  rv_status :: string

record routed_room_invitation =
  rri_room_id :: string
  rri_invitation :: team_terminal_invitation

record grant_control_input =
  gci_device_id :: string
  gci_duration_seconds :: u64

record control_lease_output =
  clo_lease_id :: string
  clo_member_id :: string
  clo_device_id :: string
  clo_generation :: u64
  clo_expires_at :: string

record terminal_participant_output =
  tpo_member_id :: string
  tpo_device_id :: string
  tpo_role :: string
  tpo_joined_at :: string

text \<open>\<open>ClientSocketMessage\<close> has the one variant \<open>Frame\<close>; parsing failures are the other branch.\<close>

datatype client_socket_message = ClientFrame team_terminal_encrypted_frame

datatype server_socket_message =
    Ready u64 u64
  | Accepted string u64
  | ServerFrame team_terminal_encrypted_frame
  | Control "control_lease_output option"
  | Participants "terminal_participant_output list"
  | Closed
  | SocketError string

record verification_email =
  ve_recipient :: string
  ve_token :: string
  ve_expires_at :: string

record account_auth =
  aa_account_id :: string
  aa_email :: string
  aa_display_name :: string

record device_auth =
  da_account_id :: string
  da_workspace_id :: string
  da_member_id :: string
  da_device_id :: string
  da_role :: string
  da_key_epoch :: i64
  da_token_hash :: string

section \<open>Third-party functions\<close>

text \<open>
  The crates the relay calls, as a parameter of every operation that uses them: \<open>uuid\<close>
  (\<open>Uuid::parse_str(..).is_ok()\<close>), \<open>base64\<close> (\<open>URL_SAFE_NO_PAD\<close>), \<open>sha2\<close> (digest in lower-case
  hexadecimal), \<open>chrono\<close> (\<open>to_rfc3339\<close> of a UTC instant and \<open>parse_from_rfc3339\<close>, instants in
  nanoseconds), \<open>ed25519_dalek\<close>, \<open>argon2\<close> and \<open>serde_json\<close>/\<open>serde_jcs\<close>. Strings and byte
  strings are both lists of bytes.
\<close>

record libs =
  uuid_ok :: "string \<Rightarrow> bool"
  b64_decode :: "string \<Rightarrow> string option"
  b64_encode :: "string \<Rightarrow> string"
  sha256_hex :: "string \<Rightarrow> string"
  to_rfc3339 :: "int \<Rightarrow> string"
  parse_rfc3339 :: "string \<Rightarrow> int option"
  ed_key_ok :: "string \<Rightarrow> bool"
  ed_signature_ok :: "string \<Rightarrow> bool"
  ed_verify :: "string \<Rightarrow> string \<Rightarrow> string \<Rightarrow> bool"
  argon_hash :: "string \<Rightarrow> string \<Rightarrow> string option"
  argon_verify :: "string \<Rightarrow> string \<Rightarrow> bool"
  jcs_invitation :: "team_terminal_invitation \<Rightarrow> string option"
  jcs_frame :: "team_terminal_encrypted_frame \<Rightarrow> string option"
  json_invitation :: "team_terminal_invitation \<Rightarrow> string option"
  parse_invitation :: "string \<Rightarrow> team_terminal_invitation option"
  json_frame :: "team_terminal_encrypted_frame \<Rightarrow> string option"
  parse_frame :: "string \<Rightarrow> team_terminal_encrypted_frame option"
  parse_client_message :: "string \<Rightarrow> client_socket_message option"
  json_server :: "server_socket_message \<Rightarrow> string option"

text \<open>The error frame of a socket, with the fixed text used should the encoder fail.\<close>

definition socket_error_fallback :: string where
  "socket_error_fallback = ''{\"type\":\"error\",\"code\":\"internal\"}''"

definition socket_error :: "libs \<Rightarrow> relay_error \<Rightarrow> string" where
  "socket_error L e = (case json_server L (SocketError (socket_error_code e)) of
     Some payload \<Rightarrow> payload | None \<Rightarrow> socket_error_fallback)"

text \<open>
  What one request draws from outside: the successive readings of the clock (\<open>Utc::now()\<close>), the
  random UUIDs, the blocks of 32 random bytes and the salts, each indexed by order of use.
\<close>

record env =
  clock :: "nat \<Rightarrow> int"
  uuids :: "nat \<Rightarrow> string"
  rand :: "nat \<Rightarrow> string"
  salts :: "nat \<Rightarrow> string"

definition nanos_per_second :: int where
  "nanos_per_second = 1000000000"

definition seconds :: "int \<Rightarrow> int" where
  "seconds n = n * nanos_per_second"

definition minutes :: "int \<Rightarrow> int" where
  "minutes n = seconds (60 * n)"

definition hours :: "int \<Rightarrow> int" where
  "hours n = minutes (60 * n)"

text \<open>
  The documented order of \<open>chrono\<close>: over a range of UTC instants the RFC 3339 texts compare as
  the instants do. The database compares the texts.
\<close>

definition stamps_ordered :: "libs \<Rightarrow> int \<Rightarrow> int \<Rightarrow> bool" where
  "stamps_ordered L lo hi \<longleftrightarrow>
     (\<forall>a b. lo \<le> a \<longrightarrow> a \<le> hi \<longrightarrow> lo \<le> b \<longrightarrow> b \<le> hi \<longrightarrow>
        (to_rfc3339 L a < to_rfc3339 L b \<longleftrightarrow> a < b))"

section \<open>Input checks of the store\<close>

definition validate_uuid :: "libs \<Rightarrow> string \<Rightarrow> unit relay_result" where
  "validate_uuid L v = guard (\<not> (64 < length v \<or> \<not> uuid_ok L v)) Validation"

definition clean_email :: "string \<Rightarrow> string relay_result" where
  "clean_email raw =
     (let v = to_ascii_lowercase (str_trim raw);
          parts = split_on (CHR ''@'') v;
          local_part = (case parts of p # _ \<Rightarrow> p | [] \<Rightarrow> []);
          domain = (case parts of _ # p # _ \<Rightarrow> p | _ \<Rightarrow> [])
      in if 254 < length v \<or> local_part = [] \<or> domain = [] \<or> CHR ''.'' \<notin> set domain
            \<or> 2 < length parts
            \<or> list_ex (\<lambda>u. is_control u \<or> is_whitespace u) (utf8_chars v)
         then Inl Validation else Inr v)"

definition clean_name :: "string \<Rightarrow> string relay_result" where
  "clean_name raw =
     (let v = str_trim raw
      in if v = [] \<or> 256 < length v \<or> has_control v then Inl Validation else Inr v)"

definition validate_password :: "string \<Rightarrow> unit relay_result" where
  "validate_password v = guard (\<not> (length v < 12 \<or> 1024 < length v \<or> has_control v)) Validation"

definition validate_token_shape :: "libs \<Rightarrow> string \<Rightarrow> unit relay_result" where
  "validate_token_shape L v =
     guard (\<not> (length v \<noteq> 43 \<or> (case b64_decode L v of None \<Rightarrow> True | Some bytes \<Rightarrow> length bytes \<noteq> 32)))
       Authentication"

definition NUL :: string where
  "NUL = [char_of (0 :: nat)]"

definition token_hash :: "libs \<Rightarrow> string \<Rightarrow> string \<Rightarrow> string" where
  "token_hash L domain tok =
     ''sha256:'' @ sha256_hex L (''cnshell-team-relay-v1'' @ NUL @ domain @ NUL @ tok)"

definition new_token :: "libs \<Rightarrow> string \<Rightarrow> string \<Rightarrow> string \<times> string" where
  "new_token L bytes domain = (let tok = b64_encode L bytes in (tok, token_hash L domain tok))"

definition decode_public_key :: "libs \<Rightarrow> string \<Rightarrow> string \<Rightarrow> string relay_result" where
  "decode_public_key L v prefix =
     rbind (ok_or (strip_prefix (prefix @ '':'') v) Validation) (\<lambda>encoded.
     rbind (ok_or (b64_decode L encoded) Validation) (\<lambda>bytes.
     rbind (guard (length bytes = 32) Validation) (\<lambda>_. Inr bytes)))"

definition validate_device :: "libs \<Rightarrow> device_registration \<Rightarrow> unit relay_result" where
  "validate_device L d =
     rbind (validate_uuid L (dr_id d)) (\<lambda>_.
     rbind (clean_name (dr_name d)) (\<lambda>_.
     rbind (decode_public_key L (dr_encryption_public_key d) ''x25519'') (\<lambda>encryption.
     rbind (decode_public_key L (dr_signing_public_key d) ''ed25519'') (\<lambda>signing.
     rbind (guard (ed_key_ok L signing) Validation) (\<lambda>_.
     guard (dr_fingerprint d =
        ''sha256:'' @ sha256_hex L (''cnshell-team-device-v1'' @ NUL @ encryption @ signing)) Validation)))))"

definition verify_device_session_signature ::
    "libs \<Rightarrow> string \<Rightarrow> string \<Rightarrow> string \<Rightarrow> string \<Rightarrow> unit relay_result" where
  "verify_device_session_signature L signing_public_key challenge_id challenge signature =
     rbind (decode_public_key L signing_public_key ''ed25519'') (\<lambda>public.
     rbind (guard (ed_key_ok L public) Validation) (\<lambda>_.
     rbind (ok_or (strip_prefix ''ed25519:'' signature) Validation) (\<lambda>encoded.
     rbind (ok_or (b64_decode L encoded) Validation) (\<lambda>sig.
     rbind (guard (ed_signature_ok L sig) Validation) (\<lambda>_.
     guard (ed_verify L public
        (''cnshell-relay-device-session-v1'' @ NUL @ challenge_id @ NUL @ challenge) sig)
       Authentication)))))"

section \<open>Roles\<close>

definition role_in :: "string \<Rightarrow> string list \<Rightarrow> bool" where
  "role_in role roles = List.member roles role"

definition require_permission :: "string \<Rightarrow> string \<Rightarrow> unit relay_result" where
  "require_permission role permission =
     (let allowed =
        (if permission = ''memberRead'' then role_in role [''owner'', ''admin'', ''operator'', ''viewer'']
         else if permission = ''memberManage'' then role_in role [''owner'', ''admin'']
         else if permission = ''terminalView'' then role_in role [''owner'', ''admin'', ''operator'', ''viewer'']
         else if permission = ''terminalControl'' then role_in role [''owner'', ''admin'', ''operator'']
         else if permission = ''shareManage'' then role_in role [''owner'', ''admin'']
         else False)
      in if allowed then Inr () else Inl PermissionDenied)"

definition require_device_permission :: "device_auth \<Rightarrow> string \<Rightarrow> unit relay_result" where
  "require_device_permission auth permission = require_permission (da_role auth) permission"

named_theorems permission_iff \<open>which roles hold each permission\<close>

lemma permission_memberRead [permission_iff]:
  "require_permission role ''memberRead'' = Inr u \<longleftrightarrow> role \<in> {''owner'', ''admin'', ''operator'', ''viewer''}"
  by (auto simp: require_permission_def role_in_def)

lemma permission_memberManage [permission_iff]:
  "require_permission role ''memberManage'' = Inr u \<longleftrightarrow> role \<in> {''owner'', ''admin''}"
  by (auto simp: require_permission_def role_in_def)

lemma permission_terminalView [permission_iff]:
  "require_permission role ''terminalView'' = Inr u \<longleftrightarrow> role \<in> {''owner'', ''admin'', ''operator'', ''viewer''}"
  by (auto simp: require_permission_def role_in_def)

lemma permission_terminalControl [permission_iff]:
  "require_permission role ''terminalControl'' = Inr u \<longleftrightarrow> role \<in> {''owner'', ''admin'', ''operator''}"
  by (auto simp: require_permission_def role_in_def)

lemma permission_shareManage [permission_iff]:
  "require_permission role ''shareManage'' = Inr u \<longleftrightarrow> role \<in> {''owner'', ''admin''}"
  by (auto simp: require_permission_def role_in_def)

lemma require_permission_err: "require_permission role p = Inl e \<Longrightarrow> e = PermissionDenied"
  by (auto simp: require_permission_def Let_def split: if_splits)

lemma clean_email_shape:
  assumes "clean_email raw = Inr v"
  shows "length v \<le> 254 \<and> (\<exists>l d. v = l @ ''@'' @ d \<and> l \<noteq> [] \<and> CHR ''.'' \<in> set d \<and> CHR ''@'' \<notin> set l
    \<and> CHR ''@'' \<notin> set d)"
proof -
  have split2: "split_on c s = [l, d] \<Longrightarrow> s = l @ c # d \<and> c \<notin> set l \<and> c \<notin> set d" for c s l d
  proof (induction s arbitrary: l d)
    case (Cons x xs)
    have single: "split_on c t = [u] \<Longrightarrow> t = u \<and> c \<notin> set u" for t u
      by (induction t arbitrary: u) (auto split: if_splits list.splits)
    from Cons show ?case by (auto split: if_splits list.splits dest: single)
  qed simp
  have "length v \<le> 254" using assms by (auto simp: clean_email_def Let_def split: if_splits)
  moreover obtain l d where "split_on (CHR ''@'') v = [l, d]" "l \<noteq> []" "CHR ''.'' \<in> set d"
    using assms by (auto simp: clean_email_def Let_def split: if_splits list.splits)
  ultimately show ?thesis using split2 [of "CHR ''@''" v l d] by auto
qed

end
