(* ===== verification/RelayDb.thy ===== *)
theory RelayDb
  imports RelayModels
begin

text \<open>
  The relay's SQLite database (\<open>services/team-relay/migrations\<close>): one record per table, with the
  columns in the schema's order, \<open>db\<close> for the whole database (each table a list of rows in
  \<open>rowid\<close> order), the checked \<open>INSERT\<close> of each table (primary and unique keys, \<open>CHECK\<close>s on
  computed values, foreign keys: the connection sets \<open>foreign_keys(true)\<close>), the shared
  statements of \<open>store.rs\<close> (\<open>audit\<close>, \<open>advance_epoch\<close>, \<open>close_workspace_rooms\<close>) and the
  cascading \<open>DELETE\<close> of a workspace. \<open>keys_ok\<close> and \<open>refs_ok\<close> are the schema's uniqueness and
  reference constraints; the components show that their operations keep them.
\<close>

section \<open>Tables\<close>

record account =
  acc_id :: string
  acc_email :: string
  acc_display_name :: string
  acc_password_hash :: string
  acc_status :: string
  acc_created_at :: string
  acc_updated_at :: string
  acc_email_verified_at :: "string option"
  acc_email_verification_sent_at :: "string option"

record account_session =
  acs_id :: string
  acs_account_id :: string
  acs_token_hash :: string
  acs_expires_at :: string
  acs_revoked_at :: "string option"
  acs_created_at :: string

record email_verification =
  ev_id :: string
  ev_account_id :: string
  ev_token_hash :: string
  ev_expires_at :: string
  ev_used_at :: "string option"
  ev_last_sent_at :: string
  ev_created_at :: string

record workspace =
  ws_id :: string
  ws_name :: string
  ws_key_epoch :: i64
  ws_status :: string
  ws_created_at :: string
  ws_updated_at :: string

record member =
  mem_id :: string
  mem_workspace_id :: string
  mem_account_id :: string
  mem_display_name :: string
  mem_role :: string
  mem_status :: string
  mem_joined_at :: string
  mem_updated_at :: string
  mem_removed_at :: "string option"

record device =
  dev_id :: string
  dev_workspace_id :: string
  dev_member_id :: string
  dev_name :: string
  dev_encryption_public_key :: string
  dev_signing_public_key :: string
  dev_fingerprint :: string
  dev_status :: string
  dev_created_at :: string
  dev_updated_at :: string
  dev_revoked_at :: "string option"

record device_session =
  ds_id :: string
  ds_device_id :: string
  ds_token_hash :: string
  ds_expires_at :: string
  ds_revoked_at :: "string option"
  ds_created_at :: string

record device_challenge =
  dc_id :: string
  dc_device_id :: string
  dc_challenge_hash :: string
  dc_expires_at :: string
  dc_used_at :: "string option"
  dc_created_at :: string

record workspace_invitation =
  wi_id :: string
  wi_workspace_id :: string
  wi_invited_by_member_id :: string
  wi_member_id :: string
  wi_email :: string
  wi_role :: string
  wi_token_hash :: string
  wi_expires_at :: string
  wi_accepted_at :: "string option"
  wi_revoked_at :: "string option"
  wi_created_at :: string

record terminal_room =
  tr_id :: string
  tr_workspace_id :: string
  tr_host_member_id :: string
  tr_host_device_id :: string
  tr_key_epoch :: i64
  tr_status :: string
  tr_next_output_sequence :: i64
  tr_lease_generation :: i64
  tr_created_at :: string
  tr_closed_at :: "string option"

record room_invitation =
  ri_room_id :: string
  ri_recipient_device_id :: string
  ri_envelope_json :: string
  ri_expires_at :: string
  ri_accepted_at :: "string option"
  ri_created_at :: string

record room_participant =
  rp_room_id :: string
  rp_member_id :: string
  rp_device_id :: string
  rp_next_input_sequence :: i64
  rp_joined_at :: string
  rp_removed_at :: "string option"

record control_lease =
  cl_room_id :: string
  cl_lease_id :: string
  cl_member_id :: string
  cl_device_id :: string
  cl_generation :: i64
  cl_expires_at :: string
  cl_created_at :: string

record relay_frame =
  rf_room_id :: string
  rf_sequence :: i64
  rf_envelope_json :: string
  rf_encoded_bytes :: i64
  rf_created_at :: string

record audit_row =
  ar_id :: string
  ar_workspace_id :: string
  ar_actor_member_id :: string
  ar_action :: string
  ar_target_type :: string
  ar_target_id :: string
  ar_created_at :: string

record db =
  db_accounts :: "account list"
  db_account_sessions :: "account_session list"
  db_email_verifications :: "email_verification list"
  db_workspaces :: "workspace list"
  db_members :: "member list"
  db_devices :: "device list"
  db_device_sessions :: "device_session list"
  db_device_challenges :: "device_challenge list"
  db_workspace_invitations :: "workspace_invitation list"
  db_rooms :: "terminal_room list"
  db_room_invitations :: "room_invitation list"
  db_participants :: "room_participant list"
  db_leases :: "control_lease list"
  db_frames :: "relay_frame list"
  db_audit_rows :: "audit_row list"
definition empty_db :: db where
  "empty_db = \<lparr>db_accounts = [], db_account_sessions = [], db_email_verifications = [],
     db_workspaces = [], db_members = [], db_devices = [], db_device_sessions = [],
     db_device_challenges = [], db_workspace_invitations = [], db_rooms = [],
     db_room_invitations = [], db_participants = [], db_leases = [], db_frames = [],
     db_audit_rows = []\<rparr>"

definition has_key :: "('r \<Rightarrow> 'k) \<Rightarrow> 'k \<Rightarrow> 'r list \<Rightarrow> bool" where
  "has_key key k rows = list_ex (\<lambda>r. key r = k) rows"

lemma has_key_iff [simp]: "has_key key k rows \<longleftrightarrow> k \<in> key ` set rows"
  by (auto simp: has_key_def list_ex_iff)

text \<open>\<open>INSERT ... ON CONFLICT(key) DO UPDATE\<close>.\<close>

definition sql_upsert :: "('r \<Rightarrow> bool) \<Rightarrow> ('r \<Rightarrow> 'r) \<Rightarrow> 'r \<Rightarrow> 'r list \<Rightarrow> 'r list" where
  "sql_upsert same upd row rows =
     (if list_ex same rows then sql_update same upd rows else rows @ [row])"

text \<open>SQLite checks \<open>CHECK\<close> and uniqueness while inserting, foreign keys at the statement's end.\<close>

definition constraints :: "bool \<Rightarrow> bool \<Rightarrow> bool \<Rightarrow> 'd \<Rightarrow> sql_error + 'd" where
  "constraints check unique refs d =
     (if \<not> check then Inl CheckViolation
      else if \<not> unique then Inl UniqueViolation
      else if \<not> refs then Inl ForeignKeyViolation
      else Inr d)"

lemma constraints_Inr_iff [res_iff]:
  "constraints c u r d = Inr d' \<longleftrightarrow> c \<and> u \<and> r \<and> d' = d"
  by (auto simp: constraints_def)

section \<open>Checked inserts\<close>

definition valid_roles :: "string list" where
  "valid_roles = [''owner'', ''admin'', ''operator'', ''viewer'']"

definition insert_account :: "account \<Rightarrow> db \<Rightarrow> sql_error + db" where
  "insert_account r d = constraints True
     (\<not> has_key acc_id (acc_id r) (db_accounts d)
      \<and> \<not> has_key (\<lambda>a. to_ascii_lowercase (acc_email a)) (to_ascii_lowercase (acc_email r)) (db_accounts d))
     True (d\<lparr>db_accounts := db_accounts d @ [r]\<rparr>)"

definition insert_account_session :: "account_session \<Rightarrow> db \<Rightarrow> sql_error + db" where
  "insert_account_session r d = constraints True
     (\<not> has_key acs_id (acs_id r) (db_account_sessions d)
      \<and> \<not> has_key acs_token_hash (acs_token_hash r) (db_account_sessions d))
     (has_key acc_id (acs_account_id r) (db_accounts d))
     (d\<lparr>db_account_sessions := db_account_sessions d @ [r]\<rparr>)"

definition insert_email_verification :: "email_verification \<Rightarrow> db \<Rightarrow> sql_error + db" where
  "insert_email_verification r d = constraints True
     (\<not> has_key ev_id (ev_id r) (db_email_verifications d)
      \<and> \<not> has_key ev_token_hash (ev_token_hash r) (db_email_verifications d))
     (has_key acc_id (ev_account_id r) (db_accounts d))
     (d\<lparr>db_email_verifications := db_email_verifications d @ [r]\<rparr>)"

definition insert_workspace :: "workspace \<Rightarrow> db \<Rightarrow> sql_error + db" where
  "insert_workspace r d = constraints (1 \<le> ws_key_epoch r)
     (\<not> has_key ws_id (ws_id r) (db_workspaces d)) True
     (d\<lparr>db_workspaces := db_workspaces d @ [r]\<rparr>)"

definition insert_member :: "member \<Rightarrow> db \<Rightarrow> sql_error + db" where
  "insert_member r d = constraints (role_in (mem_role r) valid_roles)
     (\<not> has_key mem_id (mem_id r) (db_members d)
      \<and> \<not> has_key (\<lambda>m. (mem_workspace_id m, mem_account_id m)) (mem_workspace_id r, mem_account_id r) (db_members d))
     (has_key ws_id (mem_workspace_id r) (db_workspaces d)
      \<and> has_key acc_id (mem_account_id r) (db_accounts d))
     (d\<lparr>db_members := db_members d @ [r]\<rparr>)"

definition insert_device_row :: "device \<Rightarrow> db \<Rightarrow> sql_error + db" where
  "insert_device_row r d = constraints True
     (\<not> has_key dev_id (dev_id r) (db_devices d))
     (has_key ws_id (dev_workspace_id r) (db_workspaces d)
      \<and> has_key mem_id (dev_member_id r) (db_members d))
     (d\<lparr>db_devices := db_devices d @ [r]\<rparr>)"

definition insert_device_session :: "device_session \<Rightarrow> db \<Rightarrow> sql_error + db" where
  "insert_device_session r d = constraints True
     (\<not> has_key ds_id (ds_id r) (db_device_sessions d)
      \<and> \<not> has_key ds_token_hash (ds_token_hash r) (db_device_sessions d))
     (has_key dev_id (ds_device_id r) (db_devices d))
     (d\<lparr>db_device_sessions := db_device_sessions d @ [r]\<rparr>)"

definition insert_device_challenge :: "device_challenge \<Rightarrow> db \<Rightarrow> sql_error + db" where
  "insert_device_challenge r d = constraints True
     (\<not> has_key dc_id (dc_id r) (db_device_challenges d))
     (has_key dev_id (dc_device_id r) (db_devices d))
     (d\<lparr>db_device_challenges := db_device_challenges d @ [r]\<rparr>)"

definition insert_workspace_invitation :: "workspace_invitation \<Rightarrow> db \<Rightarrow> sql_error + db" where
  "insert_workspace_invitation r d = constraints
     (role_in (wi_role r) [''admin'', ''operator'', ''viewer''])
     (\<not> has_key wi_id (wi_id r) (db_workspace_invitations d)
      \<and> \<not> has_key wi_token_hash (wi_token_hash r) (db_workspace_invitations d))
     (has_key ws_id (wi_workspace_id r) (db_workspaces d)
      \<and> has_key mem_id (wi_invited_by_member_id r) (db_members d))
     (d\<lparr>db_workspace_invitations := db_workspace_invitations d @ [r]\<rparr>)"

definition insert_room :: "terminal_room \<Rightarrow> db \<Rightarrow> sql_error + db" where
  "insert_room r d = constraints True
     (\<not> has_key tr_id (tr_id r) (db_rooms d))
     (has_key ws_id (tr_workspace_id r) (db_workspaces d)
      \<and> has_key mem_id (tr_host_member_id r) (db_members d)
      \<and> has_key dev_id (tr_host_device_id r) (db_devices d))
     (d\<lparr>db_rooms := db_rooms d @ [r]\<rparr>)"

definition participant_refs :: "room_participant \<Rightarrow> db \<Rightarrow> bool" where
  "participant_refs r d \<longleftrightarrow> has_key tr_id (rp_room_id r) (db_rooms d)
     \<and> has_key mem_id (rp_member_id r) (db_members d) \<and> has_key dev_id (rp_device_id r) (db_devices d)"

definition insert_participant :: "room_participant \<Rightarrow> db \<Rightarrow> sql_error + db" where
  "insert_participant r d = constraints True
     (\<not> has_key (\<lambda>p. (rp_room_id p, rp_device_id p)) (rp_room_id r, rp_device_id r) (db_participants d))
     (participant_refs r d)
     (d\<lparr>db_participants := db_participants d @ [r]\<rparr>)"

definition insert_frame :: "relay_frame \<Rightarrow> db \<Rightarrow> sql_error + db" where
  "insert_frame r d = constraints True
     (\<not> has_key (\<lambda>f. (rf_room_id f, rf_sequence f)) (rf_room_id r, rf_sequence r) (db_frames d))
     (has_key tr_id (rf_room_id r) (db_rooms d))
     (d\<lparr>db_frames := db_frames d @ [r]\<rparr>)"

definition insert_audit_row :: "audit_row \<Rightarrow> db \<Rightarrow> sql_error + db" where
  "insert_audit_row r d = constraints True
     (\<not> has_key ar_id (ar_id r) (db_audit_rows d))
     (has_key ws_id (ar_workspace_id r) (db_workspaces d)
      \<and> has_key mem_id (ar_actor_member_id r) (db_members d))
     (d\<lparr>db_audit_rows := db_audit_rows d @ [r]\<rparr>)"

text \<open>The upserts of \<open>terminal.rs\<close>.\<close>

definition upsert_room_invitation :: "room_invitation \<Rightarrow> db \<Rightarrow> sql_error + db" where
  "upsert_room_invitation r d = constraints True True
     (has_key tr_id (ri_room_id r) (db_rooms d)
      \<and> has_key dev_id (ri_recipient_device_id r) (db_devices d))
     (d\<lparr>db_room_invitations := sql_upsert
        (\<lambda>i. ri_room_id i = ri_room_id r \<and> ri_recipient_device_id i = ri_recipient_device_id r)
        (\<lambda>i. i\<lparr>ri_envelope_json := ri_envelope_json r, ri_expires_at := ri_expires_at r,
               ri_accepted_at := None, ri_created_at := ri_created_at r\<rparr>)
        r (db_room_invitations d)\<rparr>)"

definition upsert_participant :: "room_participant \<Rightarrow> db \<Rightarrow> sql_error + db" where
  "upsert_participant r d = constraints True True (participant_refs r d)
     (d\<lparr>db_participants := sql_upsert
        (\<lambda>p. rp_room_id p = rp_room_id r \<and> rp_device_id p = rp_device_id r)
        (\<lambda>p. p\<lparr>rp_member_id := rp_member_id r, rp_removed_at := None\<rparr>)
        r (db_participants d)\<rparr>)"

definition upsert_lease :: "control_lease \<Rightarrow> db \<Rightarrow> sql_error + db" where
  "upsert_lease r d = constraints True
     (\<not> list_ex (\<lambda>l. cl_lease_id l = cl_lease_id r \<and> cl_room_id l \<noteq> cl_room_id r) (db_leases d))
     (has_key tr_id (cl_room_id r) (db_rooms d)
      \<and> has_key mem_id (cl_member_id r) (db_members d) \<and> has_key dev_id (cl_device_id r) (db_devices d))
     (d\<lparr>db_leases := sql_upsert (\<lambda>l. cl_room_id l = cl_room_id r)
        (\<lambda>l. l\<lparr>cl_lease_id := cl_lease_id r, cl_member_id := cl_member_id r,
               cl_device_id := cl_device_id r, cl_generation := cl_generation r,
               cl_expires_at := cl_expires_at r, cl_created_at := cl_created_at r\<rparr>)
        r (db_leases d)\<rparr>)"

section \<open>Shared statements\<close>

definition MAX_AUDIT_EVENTS :: nat where
  "MAX_AUDIT_EVENTS = 4096"

text \<open>\<open>audit\<close>: append one event, then keep the 4096 newest of the workspace.\<close>

definition audit ::
    "libs \<Rightarrow> string \<Rightarrow> int \<Rightarrow> string \<Rightarrow> string \<Rightarrow> string \<Rightarrow> string \<Rightarrow> string \<Rightarrow> db \<Rightarrow> db relay_result" where
  "audit L uuid t workspace_id member_id action target_type target_id d =
     rbind (map_err from_sql (insert_audit_row
       \<lparr>ar_id = uuid, ar_workspace_id = workspace_id, ar_actor_member_id = member_id,
        ar_action = action, ar_target_type = target_type, ar_target_id = target_id,
        ar_created_at = to_rfc3339 L t\<rparr> d)) (\<lambda>d.
     Inr (d\<lparr>db_audit_rows := keep_newest MAX_AUDIT_EVENTS ar_id ar_created_at
        (\<lambda>r. ar_workspace_id r = workspace_id) (db_audit_rows d)\<rparr>))"

definition active_workspace :: "string \<Rightarrow> workspace \<Rightarrow> bool" where
  "active_workspace workspace_id w \<longleftrightarrow> ws_id w = workspace_id \<and> ws_status w = ''active''"

definition advance_epoch :: "string \<Rightarrow> string \<Rightarrow> db \<Rightarrow> (i64 \<times> db) relay_result" where
  "advance_epoch workspace_id now d =
     (case fetch_optional (filter (active_workspace workspace_id) (db_workspaces d)) of
        None \<Rightarrow> Inl (from_sql RowNotFound)
      | Some w \<Rightarrow> Inr (ws_key_epoch w + 1,
          d\<lparr>db_workspaces := sql_update (active_workspace workspace_id)
             (\<lambda>w. w\<lparr>ws_key_epoch := ws_key_epoch w + 1, ws_updated_at := now\<rparr>) (db_workspaces d)\<rparr>))"

definition close_workspace_rooms :: "string \<Rightarrow> string \<Rightarrow> db \<Rightarrow> db" where
  "close_workspace_rooms workspace_id now d = d\<lparr>db_rooms := sql_update
     (\<lambda>r. tr_workspace_id r = workspace_id \<and> tr_status r = ''active'')
     (\<lambda>r. r\<lparr>tr_status := ''closed'', tr_closed_at := Some now\<rparr>) (db_rooms d)\<rparr>"

section \<open>Constraints of the schema\<close>

definition keys_ok :: "db \<Rightarrow> bool" where
  "keys_ok d \<longleftrightarrow>
     distinct (map acc_id (db_accounts d))
   \<and> distinct (map (\<lambda>a. to_ascii_lowercase (acc_email a)) (db_accounts d))
   \<and> distinct (map acs_id (db_account_sessions d))
   \<and> distinct (map acs_token_hash (db_account_sessions d))
   \<and> distinct (map ev_id (db_email_verifications d))
   \<and> distinct (map ev_token_hash (db_email_verifications d))
   \<and> distinct (map ws_id (db_workspaces d))
   \<and> distinct (map mem_id (db_members d))
   \<and> distinct (map (\<lambda>m. (mem_workspace_id m, mem_account_id m)) (db_members d))
   \<and> distinct (map dev_id (db_devices d))
   \<and> distinct (map ds_id (db_device_sessions d))
   \<and> distinct (map ds_token_hash (db_device_sessions d))
   \<and> distinct (map dc_id (db_device_challenges d))
   \<and> distinct (map wi_id (db_workspace_invitations d))
   \<and> distinct (map wi_token_hash (db_workspace_invitations d))
   \<and> distinct (map tr_id (db_rooms d))
   \<and> distinct (map (\<lambda>i. (ri_room_id i, ri_recipient_device_id i)) (db_room_invitations d))
   \<and> distinct (map (\<lambda>p. (rp_room_id p, rp_device_id p)) (db_participants d))
   \<and> distinct (map cl_room_id (db_leases d))
   \<and> distinct (map (\<lambda>f. (rf_room_id f, rf_sequence f)) (db_frames d))
   \<and> distinct (map ar_id (db_audit_rows d))"

text \<open>The foreign keys of the schema.\<close>

definition refs_ok :: "db \<Rightarrow> bool" where
  "refs_ok d \<longleftrightarrow>
     acs_account_id ` set (db_account_sessions d) \<subseteq> acc_id ` set (db_accounts d)
   \<and> ev_account_id ` set (db_email_verifications d) \<subseteq> acc_id ` set (db_accounts d)
   \<and> mem_workspace_id ` set (db_members d) \<subseteq> ws_id ` set (db_workspaces d)
   \<and> mem_account_id ` set (db_members d) \<subseteq> acc_id ` set (db_accounts d)
   \<and> dev_workspace_id ` set (db_devices d) \<subseteq> ws_id ` set (db_workspaces d)
   \<and> dev_member_id ` set (db_devices d) \<subseteq> mem_id ` set (db_members d)
   \<and> ds_device_id ` set (db_device_sessions d) \<subseteq> dev_id ` set (db_devices d)
   \<and> dc_device_id ` set (db_device_challenges d) \<subseteq> dev_id ` set (db_devices d)
   \<and> wi_workspace_id ` set (db_workspace_invitations d) \<subseteq> ws_id ` set (db_workspaces d)
   \<and> wi_invited_by_member_id ` set (db_workspace_invitations d) \<subseteq> mem_id ` set (db_members d)
   \<and> tr_workspace_id ` set (db_rooms d) \<subseteq> ws_id ` set (db_workspaces d)
   \<and> tr_host_member_id ` set (db_rooms d) \<subseteq> mem_id ` set (db_members d)
   \<and> tr_host_device_id ` set (db_rooms d) \<subseteq> dev_id ` set (db_devices d)
   \<and> ri_room_id ` set (db_room_invitations d) \<subseteq> tr_id ` set (db_rooms d)
   \<and> ri_recipient_device_id ` set (db_room_invitations d) \<subseteq> dev_id ` set (db_devices d)
   \<and> rp_room_id ` set (db_participants d) \<subseteq> tr_id ` set (db_rooms d)
   \<and> rp_member_id ` set (db_participants d) \<subseteq> mem_id ` set (db_members d)
   \<and> rp_device_id ` set (db_participants d) \<subseteq> dev_id ` set (db_devices d)
   \<and> cl_room_id ` set (db_leases d) \<subseteq> tr_id ` set (db_rooms d)
   \<and> cl_member_id ` set (db_leases d) \<subseteq> mem_id ` set (db_members d)
   \<and> cl_device_id ` set (db_leases d) \<subseteq> dev_id ` set (db_devices d)
   \<and> rf_room_id ` set (db_frames d) \<subseteq> tr_id ` set (db_rooms d)
   \<and> ar_workspace_id ` set (db_audit_rows d) \<subseteq> ws_id ` set (db_workspaces d)
   \<and> ar_actor_member_id ` set (db_audit_rows d) \<subseteq> mem_id ` set (db_members d)"

text \<open>
  \<open>DELETE FROM workspaces WHERE id=?\<close> with its \<open>ON DELETE CASCADE\<close>s; the keys without an action
  are checked once the cascades are done, and a dangling one rejects the statement.
\<close>

definition cascade_delete :: "string \<Rightarrow> db \<Rightarrow> db" where
  "cascade_delete workspace_id d =
     (let workspaces = sql_delete (\<lambda>w. ws_id w = workspace_id) (db_workspaces d);
          members = sql_delete (\<lambda>m. mem_workspace_id m = workspace_id) (db_members d);
          gone_member = (\<lambda>i. list_ex (\<lambda>m. mem_id m = i \<and> mem_workspace_id m = workspace_id) (db_members d));
          gone = (\<lambda>v. dev_workspace_id v = workspace_id \<or> gone_member (dev_member_id v));
          devices = sql_delete gone (db_devices d);
          gone_device = (\<lambda>i. list_ex (\<lambda>v. dev_id v = i \<and> gone v) (db_devices d));
          rooms = sql_delete (\<lambda>r. tr_workspace_id r = workspace_id) (db_rooms d);
          gone_room = (\<lambda>i. list_ex (\<lambda>r. tr_id r = i \<and> tr_workspace_id r = workspace_id) (db_rooms d))
      in d\<lparr>db_workspaces := workspaces, db_members := members, db_devices := devices,
           db_device_sessions := sql_delete (\<lambda>s. gone_device (ds_device_id s)) (db_device_sessions d),
           db_device_challenges := sql_delete (\<lambda>c. gone_device (dc_device_id c)) (db_device_challenges d),
           db_workspace_invitations :=
             sql_delete (\<lambda>i. wi_workspace_id i = workspace_id) (db_workspace_invitations d),
           db_rooms := rooms,
           db_room_invitations := sql_delete (\<lambda>i. gone_room (ri_room_id i)) (db_room_invitations d),
           db_participants := sql_delete (\<lambda>p. gone_room (rp_room_id p)) (db_participants d),
           db_leases := sql_delete (\<lambda>l. gone_room (cl_room_id l)) (db_leases d),
           db_frames := sql_delete (\<lambda>f. gone_room (rf_room_id f)) (db_frames d),
           db_audit_rows := sql_delete (\<lambda>a. ar_workspace_id a = workspace_id) (db_audit_rows d)\<rparr>)"

definition delete_workspace_row :: "string \<Rightarrow> db \<Rightarrow> sql_error + (nat \<times> db)" where
  "delete_workspace_row workspace_id d =
     (let d' = cascade_delete workspace_id d
      in if refs_ok d' then Inr (sql_count (\<lambda>w. ws_id w = workspace_id) (db_workspaces d), d')
         else Inl ForeignKeyViolation)"

section \<open>The tables as keyed tables\<close>

lemmas insert_defs = insert_account_def insert_account_session_def insert_email_verification_def
  insert_workspace_def insert_member_def insert_device_row_def insert_device_session_def
  insert_device_challenge_def insert_workspace_invitation_def insert_room_def insert_participant_def
  insert_frame_def insert_audit_row_def

interpretation accounts: keyed_table db_accounts "\<lambda>f d. d\<lparr>db_accounts := f (db_accounts d)\<rparr>" acc_id insert_account
  by unfold_locales (auto simp: insert_defs res_iff)

interpretation account_sessions: keyed_table db_account_sessions
    "\<lambda>f d. d\<lparr>db_account_sessions := f (db_account_sessions d)\<rparr>" acs_id insert_account_session
  by unfold_locales (auto simp: insert_defs res_iff)

interpretation email_verifications: keyed_table db_email_verifications
    "\<lambda>f d. d\<lparr>db_email_verifications := f (db_email_verifications d)\<rparr>" ev_id insert_email_verification
  by unfold_locales (auto simp: insert_defs res_iff)

interpretation workspaces: keyed_table db_workspaces "\<lambda>f d. d\<lparr>db_workspaces := f (db_workspaces d)\<rparr>" ws_id insert_workspace
  by unfold_locales (auto simp: insert_defs res_iff)

interpretation members: keyed_table db_members "\<lambda>f d. d\<lparr>db_members := f (db_members d)\<rparr>" mem_id insert_member
  by unfold_locales (auto simp: insert_defs res_iff)

interpretation member_accounts: keyed_table db_members "\<lambda>f d. d\<lparr>db_members := f (db_members d)\<rparr>"
    "\<lambda>m. (mem_workspace_id m, mem_account_id m)" insert_member
  by unfold_locales (auto simp: insert_defs res_iff)

interpretation devices: keyed_table db_devices "\<lambda>f d. d\<lparr>db_devices := f (db_devices d)\<rparr>" dev_id insert_device_row
  by unfold_locales (auto simp: insert_defs res_iff)

interpretation device_sessions: keyed_table db_device_sessions
    "\<lambda>f d. d\<lparr>db_device_sessions := f (db_device_sessions d)\<rparr>" ds_id insert_device_session
  by unfold_locales (auto simp: insert_defs res_iff)

interpretation device_session_hashes: keyed_table db_device_sessions
    "\<lambda>f d. d\<lparr>db_device_sessions := f (db_device_sessions d)\<rparr>" ds_token_hash insert_device_session
  by unfold_locales (auto simp: insert_defs res_iff)

interpretation device_challenges: keyed_table db_device_challenges
    "\<lambda>f d. d\<lparr>db_device_challenges := f (db_device_challenges d)\<rparr>" dc_id insert_device_challenge
  by unfold_locales (auto simp: insert_defs res_iff)

interpretation workspace_invitations: keyed_table db_workspace_invitations
    "\<lambda>f d. d\<lparr>db_workspace_invitations := f (db_workspace_invitations d)\<rparr>" wi_id insert_workspace_invitation
  by unfold_locales (auto simp: insert_defs res_iff)

interpretation rooms: keyed_table db_rooms "\<lambda>f d. d\<lparr>db_rooms := f (db_rooms d)\<rparr>" tr_id insert_room
  by unfold_locales (auto simp: insert_defs res_iff)

interpretation participants: keyed_table db_participants "\<lambda>f d. d\<lparr>db_participants := f (db_participants d)\<rparr>"
    "\<lambda>p. (rp_room_id p, rp_device_id p)" insert_participant
  by unfold_locales (auto simp: insert_defs res_iff)

interpretation frames: keyed_table db_frames "\<lambda>f d. d\<lparr>db_frames := f (db_frames d)\<rparr>"
    "\<lambda>f. (rf_room_id f, rf_sequence f)" insert_frame
  by unfold_locales (auto simp: insert_defs res_iff)

interpretation audit_rows: keyed_table db_audit_rows "\<lambda>f d. d\<lparr>db_audit_rows := f (db_audit_rows d)\<rparr>" ar_id insert_audit_row
  by unfold_locales (auto simp: insert_defs res_iff)

text \<open>The keys of a table after an upsert.\<close>

lemma distinct_sql_upsert:
  assumes "distinct (map key rows)" "\<And>r. same r \<longleftrightarrow> key r = key row" "\<And>r. key (upd r) = key r"
  shows "distinct (map key (sql_upsert same upd row rows))"
proof (cases "list_ex same rows")
  case True
  then show ?thesis using assms by (simp add: sql_upsert_def map_sql_update)
next
  case False
  then show ?thesis using assms by (auto simp: sql_upsert_def list_ex_iff)
qed

lemma set_sql_upsert_subset:
  "set (sql_upsert same upd row rows) \<subseteq> set rows \<union> upd ` set rows \<union> {row}"
  by (auto simp: sql_upsert_def sql_update_def)

text \<open>Every checked insert and upsert keeps the uniqueness constraints.\<close>

named_theorems keeps_keys \<open>statements and operations that keep \<open>keys_ok\<close>\<close>

lemma insert_keeps_keys [keeps_keys]:
  "insert_account ra d = Inr d' \<Longrightarrow> keys_ok d \<Longrightarrow> keys_ok d'"
  "insert_account_session ras d = Inr d' \<Longrightarrow> keys_ok d \<Longrightarrow> keys_ok d'"
  "insert_email_verification re d = Inr d' \<Longrightarrow> keys_ok d \<Longrightarrow> keys_ok d'"
  "insert_workspace rw d = Inr d' \<Longrightarrow> keys_ok d \<Longrightarrow> keys_ok d'"
  "insert_member rm d = Inr d' \<Longrightarrow> keys_ok d \<Longrightarrow> keys_ok d'"
  "insert_device_row rd d = Inr d' \<Longrightarrow> keys_ok d \<Longrightarrow> keys_ok d'"
  "insert_device_session rds d = Inr d' \<Longrightarrow> keys_ok d \<Longrightarrow> keys_ok d'"
  "insert_device_challenge rdc d = Inr d' \<Longrightarrow> keys_ok d \<Longrightarrow> keys_ok d'"
  "insert_workspace_invitation rwi d = Inr d' \<Longrightarrow> keys_ok d \<Longrightarrow> keys_ok d'"
  "insert_room rr d = Inr d' \<Longrightarrow> keys_ok d \<Longrightarrow> keys_ok d'"
  "insert_participant rp d = Inr d' \<Longrightarrow> keys_ok d \<Longrightarrow> keys_ok d'"
  "insert_frame rf d = Inr d' \<Longrightarrow> keys_ok d \<Longrightarrow> keys_ok d'"
  "insert_audit_row rar d = Inr d' \<Longrightarrow> keys_ok d \<Longrightarrow> keys_ok d'"
  by (auto simp: insert_defs res_iff keys_ok_def)

lemma upsert_room_invitation_keys [keeps_keys]:
  "upsert_room_invitation r d = Inr d' \<Longrightarrow> keys_ok d \<Longrightarrow> keys_ok d'"
  by (auto simp: upsert_room_invitation_def res_iff keys_ok_def intro!: distinct_sql_upsert)

lemma upsert_participant_keys [keeps_keys]:
  "upsert_participant r d = Inr d' \<Longrightarrow> keys_ok d \<Longrightarrow> keys_ok d'"
  by (auto simp: upsert_participant_def res_iff keys_ok_def intro!: distinct_sql_upsert)

lemma upsert_lease_keys [keeps_keys]:
  "upsert_lease r d = Inr d' \<Longrightarrow> keys_ok d \<Longrightarrow> keys_ok d'"
  by (auto simp: upsert_lease_def res_iff keys_ok_def intro!: distinct_sql_upsert)

lemma audit_keys [keeps_keys]: "audit L u t w m a ty ti d = Inr d' \<Longrightarrow> keys_ok d \<Longrightarrow> keys_ok d'"
  by (auto simp: audit_def res_iff insert_audit_row_def keys_ok_def intro!: distinct_keep_newest)

lemma advance_epoch_keys [keeps_keys]: "advance_epoch w now d = Inr (e, d') \<Longrightarrow> keys_ok d \<Longrightarrow> keys_ok d'"
  by (auto simp: advance_epoch_def keys_ok_def map_sql_update split: option.splits)

lemma close_workspace_rooms_keys [keeps_keys]: "keys_ok d \<Longrightarrow> keys_ok (close_workspace_rooms w now d)"
  by (simp add: close_workspace_rooms_def keys_ok_def map_sql_update)

lemma cascade_delete_keys [keeps_keys]: "keys_ok d \<Longrightarrow> keys_ok (cascade_delete w d)"
  by (simp add: cascade_delete_def Let_def keys_ok_def distinct_sql_delete)

section \<open>What the shared statements change\<close>

named_theorems db_effect \<open>success of a statement, with the new database in closed form\<close>

lemma audit_Inr [db_effect]:
  assumes "audit L u t w m a ty ti d = Inr d'"
  shows "\<exists>rows. d' = d\<lparr>db_audit_rows := rows\<rparr>
    \<and> filter (\<lambda>r. ar_workspace_id r \<noteq> w) rows = filter (\<lambda>r. ar_workspace_id r \<noteq> w) (db_audit_rows d)"
proof -
  let ?row = "\<lparr>ar_id = u, ar_workspace_id = w, ar_actor_member_id = m, ar_action = a,
    ar_target_type = ty, ar_target_id = ti, ar_created_at = to_rfc3339 L t\<rparr>"
  let ?rows = "keep_newest MAX_AUDIT_EVENTS ar_id ar_created_at (\<lambda>r. ar_workspace_id r = w)
    (db_audit_rows d @ [?row])"
  have "d' = d\<lparr>db_audit_rows := ?rows\<rparr>"
    using assms by (auto simp: audit_def insert_audit_row_def res_iff)
  moreover have "filter (\<lambda>r. ar_workspace_id r \<noteq> w) ?rows = filter (\<lambda>r. ar_workspace_id r \<noteq> w) (db_audit_rows d)"
    by (subst filter_keep_newest_frame) simp_all
  ultimately show ?thesis by blast
qed

lemma audit_fields:
  assumes "audit L u t w m a ty ti d = Inr d'"
  shows "db_accounts d' = db_accounts d \<and> db_account_sessions d' = db_account_sessions d
    \<and> db_email_verifications d' = db_email_verifications d \<and> db_workspaces d' = db_workspaces d
    \<and> db_members d' = db_members d \<and> db_devices d' = db_devices d
    \<and> db_device_sessions d' = db_device_sessions d \<and> db_device_challenges d' = db_device_challenges d
    \<and> db_workspace_invitations d' = db_workspace_invitations d \<and> db_rooms d' = db_rooms d
    \<and> db_room_invitations d' = db_room_invitations d \<and> db_participants d' = db_participants d
    \<and> db_leases d' = db_leases d \<and> db_frames d' = db_frames d"
  using audit_Inr [OF assms] by auto

lemma audit_capped:
  assumes "audit L u t w m a ty ti d = Inr d'" "keys_ok d"
  shows "sql_count (\<lambda>r. ar_workspace_id r = w) (db_audit_rows d') \<le> MAX_AUDIT_EVENTS"
proof -
  let ?row = "\<lparr>ar_id = u, ar_workspace_id = w, ar_actor_member_id = m, ar_action = a,
    ar_target_type = ty, ar_target_id = ti, ar_created_at = to_rfc3339 L t\<rparr>"
  have "distinct (map ar_id (db_audit_rows d @ [?row]))"
    and "db_audit_rows d' = keep_newest MAX_AUDIT_EVENTS ar_id ar_created_at (\<lambda>r. ar_workspace_id r = w)
      (db_audit_rows d @ [?row])"
    using assms by (auto simp: audit_def insert_audit_row_def res_iff keys_ok_def)
  then show ?thesis by (simp only: sql_count_keep_newest)
qed

lemma advance_epoch_Inr [db_effect]:
  "advance_epoch w now d = Inr (e, d') \<longleftrightarrow>
     (\<exists>r. fetch_optional (filter (active_workspace w) (db_workspaces d)) = Some r
        \<and> e = ws_key_epoch r + 1
        \<and> d' = d\<lparr>db_workspaces := sql_update (active_workspace w)
             (\<lambda>w. w\<lparr>ws_key_epoch := ws_key_epoch w + 1, ws_updated_at := now\<rparr>) (db_workspaces d)\<rparr>)"
  by (auto simp: advance_epoch_def split: option.splits)

lemma close_workspace_rooms_closed:
  "r \<in> set (db_rooms (close_workspace_rooms w now d)) \<Longrightarrow> tr_workspace_id r = w \<Longrightarrow> tr_status r \<noteq> ''active''"
  by (simp add: close_workspace_rooms_def set_sql_update) (elim disjE conjE imageE, simp_all)

lemma close_workspace_rooms_frame:
  "filter (\<lambda>r. tr_workspace_id r \<noteq> w) (db_rooms (close_workspace_rooms w now d))
     = filter (\<lambda>r. tr_workspace_id r \<noteq> w) (db_rooms d)"
  unfolding close_workspace_rooms_def by simp (rule filter_sql_update_frame, auto)

end
