(* ===== verification/RelaySample.thy ===== *)
theory RelaySample
  imports RelayDb
begin

text \<open>
  A small concrete relay, on which the theorems with hypotheses are applied: toy instances of the
  third-party functions that satisfy the laws assumed of them (instants as eight big-endian
  bytes, so that their order is the order of the texts), two workspaces, an owner and an operator
  with a device and a session each, an open room with a control lease.
\<close>

fun big_endian :: "nat \<Rightarrow> int \<Rightarrow> string" where
  "big_endian 0 n = []"
| "big_endian (Suc k) n = char_of (n div 256 ^ k mod 256) # big_endian k (n mod 256 ^ k)"

lemma char_of_int: "0 \<le> a \<Longrightarrow> (char_of (a :: int) :: char) = char_of (nat a)"
  by (simp add: char_of_def bit_nat_iff)

lemma char_less_iff: "0 \<le> a \<Longrightarrow> a < 256 \<Longrightarrow> 0 \<le> b \<Longrightarrow> b < 256
    \<Longrightarrow> (char_of a :: char) < char_of b \<longleftrightarrow> a < (b :: int)"
  by (auto simp: less_char_def char_of_int)

text \<open>Comparing two numbers by quotient and remainder.\<close>

lemma less_by_div_mod:
  fixes a b q :: int
  assumes "0 < q"
  shows "a < b \<longleftrightarrow> a div q < b div q \<or> a div q = b div q \<and> a mod q < b mod q"
proof -
  have ab: "a = q * (a div q) + a mod q" "b = q * (b div q) + b mod q" by simp_all
  have r: "0 \<le> a mod q" "a mod q < q" "0 \<le> b mod q" "b mod q < q" using assms by simp_all
  consider "a div q < b div q" | "a div q = b div q" | "b div q < a div q" by linarith
  then show ?thesis
  proof cases
    case 1
    then have "q * (a div q) + q * 1 \<le> q * (b div q)" using assms
      by (simp only: distrib_left [symmetric]) (simp add: mult_left_mono)
    then show ?thesis using 1 ab r by linarith
  next
    case 2
    then show ?thesis using ab by (metis add_less_cancel_left less_irrefl)
  next
    case 3
    then have "q * (b div q) + q * 1 \<le> q * (a div q)" using assms
      by (simp only: distrib_left [symmetric]) (simp add: mult_left_mono)
    then show ?thesis using 3 ab r by linarith
  qed
qed

lemma div_less_of_less_mult:
  fixes a q n :: int
  assumes "0 < q" "a < n * q"
  shows "a div q < n"
proof (rule ccontr)
  assume "\<not> a div q < n"
  then have "n * q \<le> (a div q) * q" using assms(1) by (simp add: mult_right_mono)
  also have "\<dots> \<le> a" using assms(1) div_mult_mod_eq [of a q] pos_mod_sign [of q a] by linarith
  finally show False using assms(2) by simp
qed

lemma big_endian_less:
  "0 \<le> a \<Longrightarrow> a < 256 ^ k \<Longrightarrow> 0 \<le> b \<Longrightarrow> b < 256 ^ k \<Longrightarrow> big_endian k a < big_endian k b \<longleftrightarrow> a < b"
proof (induction k arbitrary: a b)
  case (Suc k)
  let ?q = "256 ^ k :: int"
  have q: "0 \<le> a div ?q" "a div ?q < 256" "0 \<le> b div ?q" "b div ?q < 256"
    using Suc.prems by (simp_all add: pos_imp_zdiv_nonneg_iff div_less_of_less_mult)
  have c: "(char_of (a div ?q) :: char) < char_of (b div ?q) \<longleftrightarrow> a div ?q < b div ?q"
      "(char_of (b div ?q) :: char) < char_of (a div ?q) \<longleftrightarrow> b div ?q < a div ?q"
    using char_less_iff q by blast+
  then have eq: "(char_of (a div ?q) :: char) = char_of (b div ?q) \<longleftrightarrow> a div ?q = b div ?q"
    by (metis linorder_neqE less_irrefl)
  have "big_endian (Suc k) a < big_endian (Suc k) b
      \<longleftrightarrow> a div ?q < b div ?q \<or> a div ?q = b div ?q \<and> a mod ?q < b mod ?q"
    using c eq q Suc.IH [of "a mod ?q" "b mod ?q"] by simp
  also have "\<dots> \<longleftrightarrow> a < b" using less_by_div_mod [of ?q a b] by simp
  finally show ?case .
qed simp

definition sample_stamp :: "int \<Rightarrow> string" where
  "sample_stamp t = big_endian 8 t"

definition sample_libs :: libs where
  "sample_libs = \<lparr>uuid_ok = \<lambda>s. length s = 2, b64_decode = \<lambda>s. Some (take (length s * 3 div 4) s),
     b64_encode = \<lambda>s. s @ replicate 11 (CHR ''A''), sha256_hex = \<lambda>s. s, to_rfc3339 = sample_stamp,
     parse_rfc3339 = \<lambda>s. None, ed_key_ok = \<lambda>_. True, ed_signature_ok = \<lambda>_. True,
     ed_verify = \<lambda>_ _ _. True, argon_hash = \<lambda>salt s. Some (salt @ s), argon_verify = \<lambda>s h. drop 2 h = s,
     jcs_invitation = \<lambda>_. Some ''{}'', jcs_frame = \<lambda>_. Some ''{}'', json_invitation = \<lambda>_. Some ''{}'',
     parse_invitation = \<lambda>_. None, json_frame = \<lambda>f. Some ''{}'', parse_frame = \<lambda>_. None,
     parse_client_message = \<lambda>_. None, json_server = \<lambda>_. Some ''{}''\<rparr>"

definition sample_env :: env where
  "sample_env = \<lparr>clock = \<lambda>i. seconds (int i + 100), uuids = \<lambda>i. [CHR ''u'', char_of (i + 65)],
     rand = \<lambda>i. replicate 32 (char_of (i + 97)), salts = \<lambda>i. ''sa''\<rparr>"

lemma sample_stamps_ordered: "stamps_ordered sample_libs 0 (2 ^ 63)"
  by (auto simp: stamps_ordered_def sample_libs_def sample_stamp_def big_endian_less)

definition owner_token :: string where "owner_token = replicate 43 (CHR ''o'')"
definition operator_token :: string where "operator_token = replicate 43 (CHR ''p'')"

definition sample_member :: "string \<Rightarrow> string \<Rightarrow> string \<Rightarrow> string \<Rightarrow> member" where
  "sample_member i w a role = \<lparr>mem_id = i, mem_workspace_id = w, mem_account_id = a, mem_display_name = ''n'',
     mem_role = role, mem_status = ''active'', mem_joined_at = sample_stamp 0, mem_updated_at = sample_stamp 0,
     mem_removed_at = None\<rparr>"

definition sample_device :: "string \<Rightarrow> string \<Rightarrow> string \<Rightarrow> device" where
  "sample_device i w m = \<lparr>dev_id = i, dev_workspace_id = w, dev_member_id = m, dev_name = ''laptop'',
     dev_encryption_public_key = ''x25519:'' @ replicate 43 (CHR ''k''),
     dev_signing_public_key = ''ed25519:'' @ replicate 43 (CHR ''k''), dev_fingerprint = ''f'',
     dev_status = ''active'', dev_created_at = sample_stamp 0, dev_updated_at = sample_stamp 0,
     dev_revoked_at = None\<rparr>"

definition sample_session :: "string \<Rightarrow> string \<Rightarrow> string \<Rightarrow> device_session" where
  "sample_session i v tok = \<lparr>ds_id = i, ds_device_id = v, ds_token_hash = token_hash sample_libs ''device-session'' tok,
     ds_expires_at = sample_stamp (seconds 900), ds_revoked_at = None, ds_created_at = sample_stamp 0\<rparr>"

definition sample_account :: "string \<Rightarrow> string \<Rightarrow> account" where
  "sample_account i email = \<lparr>acc_id = i, acc_email = email, acc_display_name = ''n'', acc_password_hash = ''sapassword1234'',
     acc_status = ''active'', acc_created_at = sample_stamp 0, acc_updated_at = sample_stamp 0,
     acc_email_verified_at = Some (sample_stamp 0), acc_email_verification_sent_at = None\<rparr>"

definition sample_workspace :: "string \<Rightarrow> workspace" where
  "sample_workspace i = \<lparr>ws_id = i, ws_name = ''team'', ws_key_epoch = 1, ws_status = ''active'',
     ws_created_at = sample_stamp 0, ws_updated_at = sample_stamp 0\<rparr>"

definition sample_room :: terminal_room where
  "sample_room = \<lparr>tr_id = ''r1'', tr_workspace_id = ''w1'', tr_host_member_id = ''m0'', tr_host_device_id = ''d0'',
     tr_key_epoch = 1, tr_status = ''active'', tr_next_output_sequence = 1, tr_lease_generation = 1,
     tr_created_at = sample_stamp 0, tr_closed_at = None\<rparr>"

definition sample_participant :: "string \<Rightarrow> string \<Rightarrow> room_participant" where
  "sample_participant m v = \<lparr>rp_room_id = ''r1'', rp_member_id = m, rp_device_id = v, rp_next_input_sequence = 1,
     rp_joined_at = sample_stamp 0, rp_removed_at = None\<rparr>"

definition sample_lease :: control_lease where
  "sample_lease = \<lparr>cl_room_id = ''r1'', cl_lease_id = ''l1'', cl_member_id = ''m1'', cl_device_id = ''d1'',
     cl_generation = 1, cl_expires_at = sample_stamp (seconds 200), cl_created_at = sample_stamp 0\<rparr>"

definition sample_db :: db where
  "sample_db = empty_db\<lparr>db_accounts := [sample_account ''a0'' ''owner@b.c'', sample_account ''a1'' ''op@b.c''],
     db_workspaces := [sample_workspace ''w1'', sample_workspace ''w2''],
     db_members := [sample_member ''m0'' ''w1'' ''a0'' ''owner'', sample_member ''m1'' ''w1'' ''a1'' ''operator'',
       sample_member ''m2'' ''w2'' ''a1'' ''owner''],
     db_devices := [sample_device ''d0'' ''w1'' ''m0'', sample_device ''d1'' ''w1'' ''m1''],
     db_device_sessions := [sample_session ''s0'' ''d0'' owner_token, sample_session ''s1'' ''d1'' operator_token],
     db_rooms := [sample_room],
     db_participants := [sample_participant ''m0'' ''d0'', sample_participant ''m1'' ''d1''],
     db_leases := [sample_lease]\<rparr>"

definition owner_auth :: device_auth where
  "owner_auth = \<lparr>da_account_id = ''a0'', da_workspace_id = ''w1'', da_member_id = ''m0'', da_device_id = ''d0'',
     da_role = ''owner'', da_key_epoch = 1, da_token_hash = token_hash sample_libs ''device-session'' owner_token\<rparr>"

definition operator_auth :: device_auth where
  "operator_auth = \<lparr>da_account_id = ''a1'', da_workspace_id = ''w1'', da_member_id = ''m1'', da_device_id = ''d1'',
     da_role = ''operator'', da_key_epoch = 1,
     da_token_hash = token_hash sample_libs ''device-session'' operator_token\<rparr>"

lemma sample_keys: "keys_ok sample_db"
  by code_simp

lemma sample_refs: "refs_ok sample_db"
  by code_simp

end
