(* ===== verification/RelayAccounts.thy ===== *)
theory RelayAccounts
  imports RelaySample
begin

text \<open>
  Accounts of the relay (\<open>services/team-relay/src/store.rs\<close>): registration, login, e-mail
  verification and account sessions. Each operation takes the crates \<open>L\<close>, what the request
  draws from outside \<open>E\<close> and the database, and returns its result with the database it leaves;
  an operation outside a transaction keeps the statements that ran before an error.
\<close>

definition ACCOUNT_SESSION_MINUTES :: int where "ACCOUNT_SESSION_MINUTES = 10"
definition EMAIL_VERIFICATION_HOURS :: int where "EMAIL_VERIFICATION_HOURS = 1"
definition EMAIL_RESEND_SECONDS :: int where "EMAIL_RESEND_SECONDS = 60"
definition MAX_ACCOUNT_SESSIONS :: nat where "MAX_ACCOUNT_SESSIONS = 16"
definition MAX_EMAIL_VERIFICATIONS :: nat where "MAX_EMAIL_VERIFICATIONS = 8"

section \<open>Operations\<close>

definition usable_account :: "account \<Rightarrow> bool" where
  "usable_account a \<longleftrightarrow> acc_status a = ''active'' \<and> acc_email_verified_at a \<noteq> None"

definition prune_account_sessions :: "string \<Rightarrow> string \<Rightarrow> db \<Rightarrow> db" where
  "prune_account_sessions now account_id d = d\<lparr>db_account_sessions :=
     sql_delete (\<lambda>s. acs_expires_at s \<le> now)
       (keep_newest MAX_ACCOUNT_SESSIONS acs_id acs_created_at
          (\<lambda>s. acs_account_id s = account_id) (db_account_sessions d))\<rparr>"

definition issue_account_session ::
    "libs \<Rightarrow> int \<Rightarrow> string \<Rightarrow> string \<Rightarrow> string \<Rightarrow> db \<Rightarrow> account_session_output relay_result \<times> db" where
  "issue_account_session L t uuid bytes account_id d =
     (case fetch_optional (filter (\<lambda>a. acc_id a = account_id \<and> usable_account a) (db_accounts d)) of
        None \<Rightarrow> (Inl Authentication, d)
      | Some a \<Rightarrow>
         (let (tok, hash) = new_token L bytes ''account-session'';
              expires_at = to_rfc3339 L (t + minutes ACCOUNT_SESSION_MINUTES);
              row = \<lparr>acs_id = uuid, acs_account_id = account_id, acs_token_hash = hash,
                     acs_expires_at = expires_at, acs_revoked_at = None,
                     acs_created_at = to_rfc3339 L t\<rparr>
          in case insert_account_session row d of
               Inl e \<Rightarrow> (Inl (from_sql e), d)
             | Inr d1 \<Rightarrow>
                 (Inr \<lparr>aso_account_id = account_id, aso_email = acc_email a, aso_token = tok,
                       aso_expires_at = expires_at\<rparr>,
                  prune_account_sessions (to_rfc3339 L t) account_id d1)))"

definition prune_email_verifications :: "string \<Rightarrow> string \<Rightarrow> db \<Rightarrow> db" where
  "prune_email_verifications now account_id d = d\<lparr>db_email_verifications :=
     sql_delete (\<lambda>v. ev_expires_at v \<le> now)
       (keep_newest MAX_EMAIL_VERIFICATIONS ev_id ev_created_at
          (\<lambda>v. ev_account_id v = account_id) (db_email_verifications d))\<rparr>"

definition verification_row :: "libs \<Rightarrow> int \<Rightarrow> string \<Rightarrow> string \<Rightarrow> string \<Rightarrow> email_verification" where
  "verification_row L t uuid hash account_id =
     \<lparr>ev_id = uuid, ev_account_id = account_id, ev_token_hash = hash,
      ev_expires_at = to_rfc3339 L (t + hours EMAIL_VERIFICATION_HOURS), ev_used_at = None,
      ev_last_sent_at = to_rfc3339 L t, ev_created_at = to_rfc3339 L t\<rparr>"

definition issue_email_verification ::
    "libs \<Rightarrow> int \<Rightarrow> string \<Rightarrow> string \<Rightarrow> string \<Rightarrow> string \<Rightarrow> db \<Rightarrow> verification_email relay_result \<times> db" where
  "issue_email_verification L t uuid bytes account_id email d =
     (let (tok, hash) = new_token L bytes ''email-verification''
      in case insert_email_verification (verification_row L t uuid hash account_id) d of
           Inl e \<Rightarrow> (Inl (from_sql e), d)
         | Inr d1 \<Rightarrow>
             (Inr \<lparr>ve_recipient = email, ve_token = tok,
                   ve_expires_at = to_rfc3339 L (t + hours EMAIL_VERIFICATION_HOURS)\<rparr>,
              prune_email_verifications (to_rfc3339 L t) account_id d1))"

definition registration_row ::
    "libs \<Rightarrow> env \<Rightarrow> bool \<Rightarrow> string \<Rightarrow> string \<Rightarrow> string \<Rightarrow> account" where
  "registration_row L E require email display_name password_hash =
     (let now = to_rfc3339 L (clock E 0)
      in \<lparr>acc_id = uuids E 0, acc_email = email, acc_display_name = display_name,
          acc_password_hash = password_hash, acc_status = ''active'', acc_created_at = now,
          acc_updated_at = now,
          acc_email_verified_at = (if require then None else Some now),
          acc_email_verification_sent_at = (if require then Some now else None)\<rparr>)"

definition register_account ::
    "libs \<Rightarrow> env \<Rightarrow> register_account_input \<Rightarrow> bool \<Rightarrow> db
      \<Rightarrow> (account_registration_output \<times> verification_email option) relay_result \<times> db" where
  "register_account L E input require d =
     (case rbind (clean_email (rai_email input)) (\<lambda>email.
           rbind (clean_name (rai_display_name input)) (\<lambda>display_name.
           rbind (validate_password (rai_password input)) (\<lambda>_.
           rbind (ok_or (argon_hash L (salts E 0) (rai_password input)) Internal) (\<lambda>password_hash.
           Inr (email, display_name, password_hash))))) of
        Inl e \<Rightarrow> (Inl e, d)
      | Inr (email, display_name, password_hash) \<Rightarrow>
         (case insert_account (registration_row L E require email display_name password_hash) d of
            Inl UniqueViolation \<Rightarrow> (Inl Conflict, d)
          | Inl e \<Rightarrow> (Inl (from_sql e), d)
          | Inr d1 \<Rightarrow>
             (if require then
                (case issue_email_verification L (clock E 1) (uuids E 1) (rand E 0) (uuids E 0) email d1 of
                   (Inl e, d2) \<Rightarrow> (Inl e, d2)
                 | (Inr v, d2) \<Rightarrow>
                     (Inr (\<lparr>aro_verification_required = True,
                            aro_verification_expires_at = Some (ve_expires_at v),
                            aro_account_session = None\<rparr>, Some v), d2))
              else
                (case issue_account_session L (clock E 1) (uuids E 1) (rand E 0) (uuids E 0) d1 of
                   (Inl e, d2) \<Rightarrow> (Inl e, d2)
                 | (Inr s, d2) \<Rightarrow>
                     (Inr (\<lparr>aro_verification_required = False, aro_verification_expires_at = None,
                            aro_account_session = Some s\<rparr>, None), d2)))))"

definition nocase_eq :: "string \<Rightarrow> string \<Rightarrow> bool" where
  "nocase_eq a b \<longleftrightarrow> to_ascii_lowercase a = to_ascii_lowercase b"

text \<open>The hash of the dummy password, verified for an unknown address, only equalises the timing.\<close>

definition login ::
    "libs \<Rightarrow> env \<Rightarrow> login_input \<Rightarrow> db \<Rightarrow> account_session_output relay_result \<times> db" where
  "login L E input d =
     (case clean_email (li_email input) of
        Inl e \<Rightarrow> (Inl e, d)
      | Inr email \<Rightarrow>
         (case fetch_optional (filter (\<lambda>a. nocase_eq (acc_email a) email \<and> acc_status a = ''active'')
                 (db_accounts d)) of
            None \<Rightarrow> (Inl Authentication, d)
          | Some a \<Rightarrow>
              (if \<not> argon_verify L (li_password input) (acc_password_hash a) then (Inl Authentication, d)
               else if acc_email_verified_at a = None then (Inl PermissionDenied, d)
               else issue_account_session L (clock E 0) (uuids E 0) (rand E 0) (acc_id a) d)))"

definition pending_verifications :: "libs \<Rightarrow> string \<Rightarrow> string \<Rightarrow> db \<Rightarrow> (string \<times> string) list" where
  "pending_verifications L hash now d =
     [(ev_id v, ev_account_id v). v \<leftarrow> db_email_verifications d, a \<leftarrow> db_accounts d,
        acc_id a = ev_account_id v \<and> ev_token_hash v = hash \<and> ev_used_at v = None
        \<and> now < ev_expires_at v \<and> acc_status a = ''active'' \<and> acc_email_verified_at a = None]"

definition use_verifications :: "string \<Rightarrow> string \<Rightarrow> db \<Rightarrow> db" where
  "use_verifications now account_id d = d\<lparr>db_email_verifications := sql_update
     (\<lambda>v. ev_account_id v = account_id)
     (\<lambda>v. v\<lparr>ev_used_at := (case ev_used_at v of None \<Rightarrow> Some now | Some t \<Rightarrow> Some t)\<rparr>)
     (db_email_verifications d)\<rparr>"

definition consume_verification :: "libs \<Rightarrow> string \<Rightarrow> string \<Rightarrow> db \<Rightarrow> (string \<times> db) relay_result" where
  "consume_verification L hash now d =
     rbind (ok_or (fetch_optional (pending_verifications L hash now d)) Authentication)
       (\<lambda>(verification_id, account_id).
     (let unused = (\<lambda>v. ev_id v = verification_id \<and> ev_used_at v = None);
          d1 = d\<lparr>db_email_verifications := sql_update unused (\<lambda>v. v\<lparr>ev_used_at := Some now\<rparr>)
                   (db_email_verifications d)\<rparr>
      in rbind (guard (sql_count unused (db_email_verifications d) = 1) Authentication) (\<lambda>_.
         Inr (account_id, use_verifications now account_id (d1\<lparr>db_accounts := sql_update
            (\<lambda>a. acc_id a = account_id \<and> acc_email_verified_at a = None)
            (\<lambda>a. a\<lparr>acc_email_verified_at := Some now, acc_updated_at := now\<rparr>) (db_accounts d1)\<rparr>)))))"

definition verify_email :: "libs \<Rightarrow> env \<Rightarrow> string \<Rightarrow> db \<Rightarrow> account_session_output relay_result \<times> db" where
  "verify_email L E tok d =
     (case validate_token_shape L tok of
        Inl e \<Rightarrow> (Inl e, d)
      | Inr _ \<Rightarrow>
         (case with_tx d (consume_verification L (token_hash L ''email-verification'' tok)
                 (to_rfc3339 L (clock E 0)) d) of
            (Inl e, d1) \<Rightarrow> (Inl e, d1)
          | (Inr account_id, d1) \<Rightarrow>
              issue_account_session L (clock E 1) (uuids E 0) (rand E 0) account_id d1))"

definition resendable :: "string \<Rightarrow> string \<Rightarrow> account \<Rightarrow> bool" where
  "resendable email before a \<longleftrightarrow> nocase_eq (acc_email a) email \<and> acc_status a = ''active''
     \<and> acc_email_verified_at a = None
     \<and> (case acc_email_verification_sent_at a of None \<Rightarrow> True | Some t \<Rightarrow> t \<le> before)"

definition resend_verification_email ::
    "libs \<Rightarrow> env \<Rightarrow> string \<Rightarrow> db \<Rightarrow> verification_email option relay_result \<times> db" where
  "resend_verification_email L E raw d =
     (case clean_email raw of
        Inl e \<Rightarrow> (Inl e, d)
      | Inr email \<Rightarrow>
         (let (tok, hash) = new_token L (rand E 0) ''email-verification'';
              t = clock E 0;
              now = to_rfc3339 L t;
              can = resendable email (to_rfc3339 L (t - seconds EMAIL_RESEND_SECONDS))
          in case fetch_optional (filter can (db_accounts d)) of
               None \<Rightarrow> (Inr None, d)
             | Some a \<Rightarrow>
                with_tx d
                 (let d1 = use_verifications now (acc_id a) (d\<lparr>db_accounts := sql_update can
                        (\<lambda>a. a\<lparr>acc_email_verification_sent_at := Some now, acc_updated_at := now\<rparr>)
                        (db_accounts d)\<rparr>)
                  in rbind (map_err from_sql (insert_email_verification
                        (verification_row L t (uuids E 0) hash (acc_id a)) d1)) (\<lambda>d2.
                     Inr (Some \<lparr>ve_recipient = email, ve_token = tok,
                               ve_expires_at = to_rfc3339 L (t + hours EMAIL_VERIFICATION_HOURS)\<rparr>,
                          prune_email_verifications now (acc_id a) d2)))))"

definition account_session_rows :: "string \<Rightarrow> string \<Rightarrow> db \<Rightarrow> account list" where
  "account_session_rows hash now d =
     [a. s \<leftarrow> db_account_sessions d, a \<leftarrow> db_accounts d,
        acc_id a = acs_account_id s \<and> acs_token_hash s = hash \<and> acs_revoked_at s = None
        \<and> now < acs_expires_at s \<and> usable_account a]"

definition authenticate_account :: "libs \<Rightarrow> int \<Rightarrow> string \<Rightarrow> db \<Rightarrow> account_auth relay_result" where
  "authenticate_account L t tok d =
     rbind (validate_token_shape L tok) (\<lambda>_.
     rbind (ok_or (fetch_optional (account_session_rows (token_hash L ''account-session'' tok)
              (to_rfc3339 L t) d)) Authentication) (\<lambda>a.
     Inr \<lparr>aa_account_id = acc_id a, aa_email = acc_email a, aa_display_name = acc_display_name a\<rparr>))"

section \<open>Keys and bounds\<close>

lemma prune_account_sessions_keys [keeps_keys]: "keys_ok d \<Longrightarrow> keys_ok (prune_account_sessions now i d)"
  by (simp add: prune_account_sessions_def keys_ok_def table_simps)

lemma prune_email_verifications_keys [keeps_keys]: "keys_ok d \<Longrightarrow> keys_ok (prune_email_verifications now i d)"
  by (simp add: prune_email_verifications_def keys_ok_def table_simps)

lemma use_verifications_keys [keeps_keys]: "keys_ok d \<Longrightarrow> keys_ok (use_verifications now i d)"
  by (simp add: use_verifications_def keys_ok_def map_sql_update)

lemma issue_account_session_keys [keeps_keys]:
  "issue_account_session L t u b i d = (r, d') \<Longrightarrow> keys_ok d \<Longrightarrow> keys_ok d'"
  by (auto simp: issue_account_session_def Let_def split: option.splits prod.splits sum.splits
      intro: keeps_keys)

lemma issue_email_verification_keys [keeps_keys]:
  "issue_email_verification L t u b i e d = (r, d') \<Longrightarrow> keys_ok d \<Longrightarrow> keys_ok d'"
  by (auto simp: issue_email_verification_def Let_def split: prod.splits sum.splits intro: keeps_keys)

lemma register_account_keys [keeps_keys]:
  assumes "register_account L E input require d = (r, d')" "keys_ok d"
  shows "keys_ok d'"
  using assms unfolding register_account_def
  by (auto split: sum.splits prod.splits sql_error.splits if_splits intro: keeps_keys)

lemma login_keys [keeps_keys]: "login L E input d = (r, d') \<Longrightarrow> keys_ok d \<Longrightarrow> keys_ok d'"
  by (auto simp: login_def split: sum.splits option.splits if_splits intro: keeps_keys)

lemma consume_verification_keys [keeps_keys]:
  "consume_verification L h now d = Inr (i, d') \<Longrightarrow> keys_ok d \<Longrightarrow> keys_ok d'"
  by (auto simp: consume_verification_def res_iff Let_def split: prod.splits intro!: use_verifications_keys)
     (simp add: keys_ok_def map_sql_update)

lemma verify_email_keys [keeps_keys]: "verify_email L E tok d = (r, d') \<Longrightarrow> keys_ok d \<Longrightarrow> keys_ok d'"
  by (auto simp: verify_email_def res_iff split: sum.splits prod.splits intro: keeps_keys)

lemma resend_keys [keeps_keys]:
  assumes "resend_verification_email L E raw d = (r, d')" "keys_ok d"
  shows "keys_ok d'"
proof -
  have upd: "keys_ok (d\<lparr>db_accounts := sql_update p
      (\<lambda>a. a\<lparr>acc_email_verification_sent_at := x, acc_updated_at := y\<rparr>) (db_accounts d)\<rparr>)" for p x y
    using \<open>keys_ok d\<close> by (simp add: keys_ok_def map_sql_update)
  show ?thesis using assms
    by (auto simp: resend_verification_email_def Let_def res_iff with_tx_def rbind_def map_err_def
        split: sum.splits prod.splits option.splits intro!: prune_email_verifications_keys
        intro: insert_keeps_keys(3) [OF _ use_verifications_keys [OF upd]])
qed

section \<open>Sessions and verification\<close>

text \<open>At most 16 account sessions are left for the account once one was issued.\<close>

lemma issue_account_session_capped:
  assumes "issue_account_session L t u b i d = (Inr out, d')" "keys_ok d"
  shows "sql_count (\<lambda>s. acs_account_id s = i) (db_account_sessions d') \<le> MAX_ACCOUNT_SESSIONS"
proof -
  obtain d1 row where d1: "insert_account_session row d = Inr d1"
    and d': "d' = prune_account_sessions (to_rfc3339 L t) i d1"
    using assms(1) by (auto simp: issue_account_session_def Let_def split: option.splits prod.splits sum.splits)
  have "distinct (map acs_id (db_account_sessions d1))"
    using insert_keeps_keys(2) [OF d1 assms(2)] by (simp add: keys_ok_def)
  then have "sql_count (\<lambda>s. acs_account_id s = i) (keep_newest MAX_ACCOUNT_SESSIONS acs_id acs_created_at
      (\<lambda>s. acs_account_id s = i) (db_account_sessions d1)) \<le> MAX_ACCOUNT_SESSIONS"
    by (rule sql_count_keep_newest)
  then show ?thesis unfolding d' prune_account_sessions_def
    by simp (metis sql_count_delete_le le_trans)
qed

lemma issue_account_session_accounts:
  "issue_account_session L t u b i d = (r, d') \<Longrightarrow> db_accounts d' = db_accounts d
     \<and> db_email_verifications d' = db_email_verifications d"
  by (auto simp: issue_account_session_def Let_def insert_account_session_def res_iff prune_account_sessions_def
      split: option.splits prod.splits sum.splits)

lemma issue_account_session_row:
  assumes "issue_account_session L t u b i d = (Inr out, d')"
    and "\<And>s. s \<in> set (db_account_sessions d) \<Longrightarrow> acs_created_at s \<le> to_rfc3339 L t"
    and "to_rfc3339 L t < to_rfc3339 L (t + minutes ACCOUNT_SESSION_MINUTES)"
  shows "\<exists>s \<in> set (db_account_sessions d'). acs_account_id s = i \<and> acs_revoked_at s = None
    \<and> acs_token_hash s = token_hash L ''account-session'' (aso_token out)
    \<and> acs_expires_at s = to_rfc3339 L (t + minutes ACCOUNT_SESSION_MINUTES)"
proof -
  let ?row = "\<lparr>acs_id = u, acs_account_id = i,
    acs_token_hash = token_hash L ''account-session'' (b64_encode L b),
    acs_expires_at = to_rfc3339 L (t + minutes ACCOUNT_SESSION_MINUTES), acs_revoked_at = None,
    acs_created_at = to_rfc3339 L t\<rparr>"
  have "aso_token out = b64_encode L b"
    and d': "d' = prune_account_sessions (to_rfc3339 L t) i
      (d\<lparr>db_account_sessions := db_account_sessions d @ [?row]\<rparr>)"
    using assms(1) by (auto simp: issue_account_session_def Let_def new_token_def insert_account_session_def res_iff
        split: option.splits sum.splits)
  moreover have "?row \<in> set (keep_newest MAX_ACCOUNT_SESSIONS acs_id acs_created_at
      (\<lambda>s. acs_account_id s = i) (db_account_sessions d @ [?row]))"
    using assms(2) by (intro keep_newest_snoc) (simp_all add: MAX_ACCOUNT_SESSIONS_def)
  ultimately show ?thesis using assms(3)
    by (intro bexI [of _ ?row]) (auto simp: prune_account_sessions_def set_sql_delete)
qed

lemma consume_verification_effect:
  assumes "consume_verification L hash now d = Inr (i, d')" "keys_ok d"
  shows "(\<exists>v \<in> set (db_email_verifications d). ev_token_hash v = hash \<and> ev_account_id v = i
            \<and> ev_used_at v = None \<and> now < ev_expires_at v)
    \<and> (\<exists>a \<in> set (db_accounts d). acc_id a = i \<and> acc_status a = ''active'' \<and> acc_email_verified_at a = None)
    \<and> (\<forall>a \<in> set (db_accounts d'). acc_id a = i \<longrightarrow> acc_email_verified_at a \<noteq> None)
    \<and> (\<forall>v \<in> set (db_email_verifications d'). ev_account_id v = i \<longrightarrow> ev_used_at v \<noteq> None)
    \<and> map ev_token_hash (db_email_verifications d') = map ev_token_hash (db_email_verifications d)
    \<and> map ev_account_id (db_email_verifications d') = map ev_account_id (db_email_verifications d)"
proof -
  obtain v0 where mem: "(v0, i) \<in> set (pending_verifications L hash now d)"
    and d': "d' = use_verifications now i (d\<lparr>
        db_email_verifications := sql_update (\<lambda>v. ev_id v = v0 \<and> ev_used_at v = None)
          (\<lambda>v. v\<lparr>ev_used_at := Some now\<rparr>) (db_email_verifications d),
        db_accounts := sql_update (\<lambda>a. acc_id a = i \<and> acc_email_verified_at a = None)
          (\<lambda>a. a\<lparr>acc_email_verified_at := Some now, acc_updated_at := now\<rparr>) (db_accounts d)\<rparr>)"
    using assms(1) by (auto simp: consume_verification_def res_iff Let_def split: prod.splits
        dest!: fetch_optional_Some_mem)
  show ?thesis using mem unfolding d'
    by (auto simp: pending_verifications_def use_verifications_def map_sql_update)
       (auto simp: sql_update_def split: option.splits if_splits)
qed

lemma account_session_rows_unique:
  assumes "keys_ok d" "a \<in> set (account_session_rows hash now d)"
  shows "fetch_optional (account_session_rows hash now d) = Some a"
proof (rule fetch_optional_unique [OF assms(2)])
  fix a' assume a': "a' \<in> set (account_session_rows hash now d)"
  have keys: "distinct (map acs_token_hash (db_account_sessions d))" "distinct (map acc_id (db_accounts d))"
    using assms(1) by (simp_all add: keys_ok_def)
  obtain s s' where s: "s \<in> set (db_account_sessions d)" "s' \<in> set (db_account_sessions d)"
      "acs_token_hash s = hash" "acs_token_hash s' = hash" "acc_id a = acs_account_id s" "acc_id a' = acs_account_id s'"
    and a: "a \<in> set (db_accounts d)" "a' \<in> set (db_accounts d)"
    using assms(2) a' by (auto simp: account_session_rows_def)
  have "s = s'" using keys(1) s(1-4) by (metis distinct_map inj_onD)
  then show "a' = a" using accounts.row_unique [OF keys(2) a(2,1)] s(5,6) by simp
qed

text \<open>The hash of a verification token names one row, before and after a statement that rewrites rows.\<close>

lemma same_columns:
  assumes "map f xs = map f ys" "map g xs = map g ys" "x \<in> set xs"
  shows "\<exists>y \<in> set ys. f x = f y \<and> g x = g y"
proof -
  obtain n where n: "n < length xs" "xs ! n = x" using assms(3) by (auto simp: in_set_conv_nth)
  then have "n < length ys" using assms(1) by (metis length_map)
  then show ?thesis using assms(1,2) n by (metis nth_map nth_mem)
qed

section \<open>Properties\<close>

text \<open>An e-mail verification token works once: after it was accepted, presenting it again, at any
  time, is refused and changes nothing.\<close>

theorem verify_email_single_use:
  assumes "verify_email L E tok d = (Inr out, d')" "keys_ok d"
  shows "verify_email L E' tok d' = (Inl Authentication, d')"
proof -
  let ?hash = "token_hash L ''email-verification'' tok"
  obtain i d1 where shape: "validate_token_shape L tok = Inr ()"
    and c: "consume_verification L ?hash (to_rfc3339 L (clock E 0)) d = Inr (i, d1)"
    and s: "issue_account_session L (clock E 1) (uuids E 0) (rand E 0) i d1 = (Inr out, d')"
    using assms(1) by (auto simp: verify_email_def res_iff split: sum.splits prod.splits)
  note eff = consume_verification_effect [OF c assms(2)]
  have same: "db_email_verifications d' = db_email_verifications d1" using issue_account_session_accounts [OF s] by simp
  have "ev_used_at v \<noteq> None" if v: "v \<in> set (db_email_verifications d1)" "ev_token_hash v = ?hash" for v
  proof -
    obtain u where u: "u \<in> set (db_email_verifications d)" "ev_token_hash u = ?hash" "ev_account_id u = ev_account_id v"
      using same_columns [OF _ _ v(1)] eff v(2) by metis
    have "distinct (map ev_token_hash (db_email_verifications d))" using assms(2) by (simp add: keys_ok_def)
    then have "ev_account_id u = i" using eff u(1,2) by (metis distinct_map inj_onD)
    then show ?thesis using eff u(3) v(1) by metis
  qed
  then have "pending_verifications L ?hash now d' = []" for now
    by (fastforce simp: pending_verifications_def same concat_eq_Nil_conv)
  then show ?thesis using shape by (simp add: verify_email_def consume_verification_def)
qed

text \<open>The token a login returns authenticates the account that logged in, at every instant of the
  ten minutes the session lasts (given that base64 decodes what it encodes and that the texts of
  the instants involved are ordered as the instants).\<close>

theorem login_session_authenticates:
  assumes "login L E input d = (Inr out, d')" "keys_ok d"
    and "b64_decode L (b64_encode L (rand E 0)) = Some bytes" "length bytes = 32"
    and "length (b64_encode L (rand E 0)) = 43"
    and "stamps_ordered L lo hi" "lo \<le> clock E 0" "clock E 0 + minutes 10 \<le> hi"
    and "\<forall>s \<in> set (db_account_sessions d). acs_created_at s \<le> to_rfc3339 L (clock E 0)"
    and "clock E 0 \<le> t" "t < clock E 0 + minutes 10"
  shows "\<exists>auth. authenticate_account L t (aso_token out) d' = Inr auth
    \<and> aa_account_id auth = aso_account_id out \<and> aa_email auth = aso_email out"
proof -
  let ?now = "clock E 0"
  obtain email a where a: "fetch_optional (filter (\<lambda>a. nocase_eq (acc_email a) email \<and> acc_status a = ''active'')
      (db_accounts d)) = Some a"
    and s: "issue_account_session L ?now (uuids E 0) (rand E 0) (acc_id a) d = (Inr out, d')"
    using assms(1) by (auto simp: login_def split: sum.splits option.splits if_split_asm)
  obtain b where b: "b \<in> set (db_accounts d)" "acc_id b = acc_id a" "usable_account b"
    and out: "aso_account_id out = acc_id a" "aso_email out = acc_email b" "aso_token out = b64_encode L (rand E 0)"
    using s by (auto simp: issue_account_session_def Let_def new_token_def split: option.splits sum.splits
        dest!: fetch_optional_Some_mem)
  have less: "to_rfc3339 L t < to_rfc3339 L (?now + minutes 10)" "to_rfc3339 L ?now < to_rfc3339 L (?now + minutes 10)"
    using assms(6-8,10,11) unfolding stamps_ordered_def by (meson order.trans order.strict_implies_order le_less_trans)+
  obtain r where r: "r \<in> set (db_account_sessions d')" "acs_account_id r = acc_id a" "acs_revoked_at r = None"
      "acs_token_hash r = token_hash L ''account-session'' (aso_token out)"
      "acs_expires_at r = to_rfc3339 L (?now + minutes 10)"
    using issue_account_session_row [OF s] assms(9) less(2) by (auto simp: ACCOUNT_SESSION_MINUTES_def)
  have "b \<in> set (account_session_rows (token_hash L ''account-session'' (aso_token out)) (to_rfc3339 L t) d')"
    using r b less(1) issue_account_session_accounts [OF s]
    by (auto simp: account_session_rows_def intro!: bexI [of _ r])
  then have "fetch_optional (account_session_rows (token_hash L ''account-session'' (aso_token out)) (to_rfc3339 L t) d')
      = Some b"
    using account_session_rows_unique issue_account_session_keys [OF s assms(2)] by blast
  then show ?thesis using assms(3-5) out b(2) by (simp add: authenticate_account_def validate_token_shape_def)
qed

text \<open>Within a minute of a verification mail no second one is issued for the address, and the
  database is left as it was.\<close>

theorem resend_throttled:
  assumes "resend_verification_email L E raw d = (Inr (Some v), d')" "keys_ok d"
    and "stamps_ordered L lo hi" "lo \<le> clock E' 0 - seconds 60" "clock E 0 \<le> hi" "lo \<le> clock E 0"
    and "clock E' 0 < clock E 0 + seconds 60"
  shows "resend_verification_email L E' raw d' = (Inr None, d')"
proof -
  let ?now = "to_rfc3339 L (clock E 0)"
  let ?before = "to_rfc3339 L (clock E 0 - seconds EMAIL_RESEND_SECONDS)"
  obtain email where email: "clean_email raw = Inr email" using assms(1)
    by (auto simp: resend_verification_email_def split: sum.splits)
  let ?can = "resendable email ?before"
  obtain a where a: "a \<in> set (db_accounts d)" "?can a"
    and acc: "db_accounts d' = sql_update ?can
      (\<lambda>a. a\<lparr>acc_email_verification_sent_at := Some ?now, acc_updated_at := ?now\<rparr>) (db_accounts d)"
    using assms(1) email
    by (auto simp: resend_verification_email_def Let_def new_token_def res_iff use_verifications_def
        prune_email_verifications_def insert_email_verification_def split: option.splits
        dest!: fetch_optional_Some_mem)
  have uniq: "distinct (map (\<lambda>a. to_ascii_lowercase (acc_email a)) (db_accounts d))"
    using assms(2) by (simp add: keys_ok_def)
  have less: "to_rfc3339 L (clock E' 0 - seconds 60) < ?now"
    using assms(3-7) unfolding stamps_ordered_def by (smt (verit))
  have "\<not> resendable email (to_rfc3339 L (clock E' 0 - seconds EMAIL_RESEND_SECONDS)) x"
    if x: "x \<in> set (db_accounts d')" for x
  proof
    assume re: "resendable email (to_rfc3339 L (clock E' 0 - seconds EMAIL_RESEND_SECONDS)) x"
    show False
    proof (cases "x \<in> set (db_accounts d) \<and> \<not> ?can x")
      case True
      moreover have "to_ascii_lowercase (acc_email x) = to_ascii_lowercase (acc_email a)"
        using re a(2) by (simp add: resendable_def nocase_eq_def)
      ultimately show False using a uniq by (metis (no_types, lifting) distinct_map inj_onD)
    next
      case False
      then obtain y where "x = y\<lparr>acc_email_verification_sent_at := Some ?now, acc_updated_at := ?now\<rparr>"
        using x unfolding acc set_sql_update by auto
      then show False using re less by (simp add: resendable_def EMAIL_RESEND_SECONDS_def not_le [symmetric])
    qed
  qed
  then have "filter (resendable email (to_rfc3339 L (clock E' 0 - seconds EMAIL_RESEND_SECONDS))) (db_accounts d') = []"
    by (simp add: filter_empty_conv)
  then show ?thesis using email by (simp add: resend_verification_email_def Let_def new_token_def)
qed

definition sample_register :: "account_registration_output relay_result \<times> db" where
  "sample_register = (case register_account sample_libs sample_env
     \<lparr>rai_email = ''new@b.c'', rai_password = ''password1234'', rai_display_name = ''New''\<rparr> True sample_db of
       (r, d) \<Rightarrow> (rbind r (\<lambda>x. Inr (fst x)), d))"

definition later :: "int \<Rightarrow> env" where
  "later n = sample_env\<lparr>clock := \<lambda>i. seconds (int i + 100 + n),
     uuids := \<lambda>i. [CHR ''v'', char_of (i + 65)], rand := \<lambda>i. replicate 32 (char_of (i + 107))\<rparr>"

lemma sample_register_keys: "keys_ok (snd sample_register)"
  by code_simp

theorem verify_email_single_use_witness:
  "fst (verify_email sample_libs (later 20) (b64_encode sample_libs (replicate 32 (CHR ''a'')))
     (snd (verify_email sample_libs (later 10) (b64_encode sample_libs (replicate 32 (CHR ''a''))) (snd sample_register))))
   = Inl Authentication"
proof -
  let ?tok = "b64_encode sample_libs (replicate 32 (CHR ''a''))"
  let ?r = "verify_email sample_libs (later 10) ?tok (snd sample_register)"
  have "is_ok (fst ?r)" by code_simp
  then obtain out where "?r = (Inr out, snd ?r)" by (auto simp: is_ok_iff prod_eq_iff)
  then show ?thesis using verify_email_single_use [OF _ sample_register_keys] by simp
qed

theorem login_session_authenticates_witness:
  "\<exists>auth. authenticate_account sample_libs (seconds 400) (replicate 32 (CHR ''a'') @ replicate 11 (CHR ''A''))
     (snd (login sample_libs sample_env \<lparr>li_email = ''Owner@b.c'', li_password = ''password1234''\<rparr> sample_db)) = Inr auth
   \<and> aa_account_id auth = ''a0'' \<and> aa_email auth = ''owner@b.c''"
proof -
  let ?r = "login sample_libs sample_env \<lparr>li_email = ''Owner@b.c'', li_password = ''password1234''\<rparr> sample_db"
  let ?out = "\<lparr>aso_account_id = ''a0'', aso_email = ''owner@b.c'',
    aso_token = replicate 32 (CHR ''a'') @ replicate 11 (CHR ''A''), aso_expires_at = sample_stamp (seconds 700)\<rparr>"
  have "fst ?r = Inr ?out" by code_simp
  then have r: "?r = (Inr ?out, snd ?r)" by (simp add: prod_eq_iff)
  have "\<exists>auth. authenticate_account sample_libs (seconds 400) (aso_token ?out) (snd ?r) = Inr auth
      \<and> aa_account_id auth = aso_account_id ?out \<and> aa_email auth = aso_email ?out"
  proof (rule login_session_authenticates [OF r sample_keys, where bytes = "replicate 32 (CHR ''a'')"
        and lo = 0 and hi = "2 ^ 63"])
    show "stamps_ordered sample_libs 0 (2 ^ 63)" by (rule sample_stamps_ordered)
    show "\<forall>s \<in> set (db_account_sessions sample_db). acs_created_at s \<le> to_rfc3339 sample_libs (clock sample_env 0)"
      by code_simp
  qed code_simp+
  then show ?thesis by simp
qed

theorem resend_throttled_witness:
  "fst (resend_verification_email sample_libs (later 130) ''new@b.c''
     (snd (resend_verification_email sample_libs (later 80) ''new@b.c'' (snd sample_register)))) = Inr None"
proof -
  let ?r = "resend_verification_email sample_libs (later 80) ''new@b.c'' (snd sample_register)"
  let ?v = "\<lparr>ve_recipient = ''new@b.c'', ve_token = replicate 32 (CHR ''k'') @ replicate 11 (CHR ''A''),
    ve_expires_at = sample_stamp (seconds 3780)\<rparr>"
  have "fst ?r = Inr (Some ?v)" by code_simp
  then have r: "?r = (Inr (Some ?v), snd ?r)" by (simp add: prod_eq_iff)
  have "resend_verification_email sample_libs (later 130) ''new@b.c'' (snd ?r) = (Inr None, snd ?r)"
    by (rule resend_throttled [OF r sample_register_keys sample_stamps_ordered]) code_simp+
  then show ?thesis by simp
qed

end
