(* ===== verification/RelayDevices.thy ===== *)
theory RelayDevices
  imports RelayAccounts
begin

text \<open>
  Device identities of the relay (\<open>services/team-relay/src/store.rs\<close>): registering a device,
  the challenge a device signs, device sessions and the authentication every later request goes
  through.
\<close>

definition DEVICE_SESSION_MINUTES :: int where "DEVICE_SESSION_MINUTES = 15"
definition DEVICE_CHALLENGE_MINUTES :: int where "DEVICE_CHALLENGE_MINUTES = 2"
definition MAX_DEVICE_SESSIONS :: nat where "MAX_DEVICE_SESSIONS = 16"
definition MAX_DEVICE_CHALLENGES :: nat where "MAX_DEVICE_CHALLENGES = 32"

section \<open>Operations\<close>

definition insert_device ::
    "string \<Rightarrow> string \<Rightarrow> device_registration \<Rightarrow> string \<Rightarrow> db \<Rightarrow> db relay_result" where
  "insert_device workspace_id member_id device now d =
     rbind (clean_name (dr_name device)) (\<lambda>name.
     map_err map_conflict (insert_device_row
       \<lparr>dev_id = dr_id device, dev_workspace_id = workspace_id, dev_member_id = member_id,
        dev_name = name, dev_encryption_public_key = dr_encryption_public_key device,
        dev_signing_public_key = dr_signing_public_key device,
        dev_fingerprint = dr_fingerprint device, dev_status = ''active'',
        dev_created_at = now, dev_updated_at = now, dev_revoked_at = None\<rparr> d))"

definition prune_device_sessions :: "string \<Rightarrow> string \<Rightarrow> db \<Rightarrow> db" where
  "prune_device_sessions now device_id d = d\<lparr>db_device_sessions :=
     sql_delete (\<lambda>s. ds_expires_at s \<le> now)
       (keep_newest MAX_DEVICE_SESSIONS ds_id ds_created_at
          (\<lambda>s. ds_device_id s = device_id) (db_device_sessions d))\<rparr>"

definition device_session_row :: "libs \<Rightarrow> int \<Rightarrow> string \<Rightarrow> string \<Rightarrow> string \<Rightarrow> device_session" where
  "device_session_row L t uuid hash device_id =
     \<lparr>ds_id = uuid, ds_device_id = device_id, ds_token_hash = hash,
      ds_expires_at = to_rfc3339 L (t + minutes DEVICE_SESSION_MINUTES),
      ds_revoked_at = None, ds_created_at = to_rfc3339 L t\<rparr>"

definition issue_device_session ::
    "libs \<Rightarrow> int \<Rightarrow> string \<Rightarrow> string \<Rightarrow> string \<Rightarrow> string \<Rightarrow> string \<Rightarrow> string \<Rightarrow> i64 \<Rightarrow> db
      \<Rightarrow> (device_session_output \<times> db) relay_result" where
  "issue_device_session L t uuid bytes workspace_id member_id device_id role key_epoch d =
     (let (tok, hash) = new_token L bytes ''device-session''
      in rbind (map_err from_sql (insert_device_session (device_session_row L t uuid hash device_id) d)) (\<lambda>d1.
         Inr (\<lparr>dso_workspace_id = workspace_id, dso_member_id = member_id, dso_device_id = device_id,
               dso_role = role, dso_key_epoch = key_epoch, dso_token = tok,
               dso_expires_at = to_rfc3339 L (t + minutes DEVICE_SESSION_MINUTES)\<rparr>,
              prune_device_sessions (to_rfc3339 L t) device_id d1)))"

definition active_identity :: "device \<Rightarrow> member \<Rightarrow> workspace \<Rightarrow> bool" where
  "active_identity v m w \<longleftrightarrow> mem_id m = dev_member_id v \<and> mem_workspace_id m = dev_workspace_id v
     \<and> ws_id w = dev_workspace_id v
     \<and> dev_status v = ''active'' \<and> mem_status m = ''active'' \<and> ws_status w = ''active''"

definition device_session_rows ::
    "string \<Rightarrow> string \<Rightarrow> db \<Rightarrow> (device_session \<times> device \<times> member \<times> workspace) list" where
  "device_session_rows hash now d =
     [(s, v, m, w). s \<leftarrow> db_device_sessions d, v \<leftarrow> db_devices d, m \<leftarrow> db_members d, w \<leftarrow> db_workspaces d,
        dev_id v = ds_device_id s \<and> ds_token_hash s = hash \<and> ds_revoked_at s = None
        \<and> now < ds_expires_at s \<and> active_identity v m w]"

definition authenticate_device :: "libs \<Rightarrow> int \<Rightarrow> string \<Rightarrow> db \<Rightarrow> device_auth relay_result" where
  "authenticate_device L t tok d =
     rbind (validate_token_shape L tok) (\<lambda>_.
     rbind (ok_or (fetch_optional (device_session_rows (token_hash L ''device-session'' tok)
              (to_rfc3339 L t) d)) Authentication) (\<lambda>(s, v, m, w).
     Inr \<lparr>da_account_id = mem_account_id m, da_workspace_id = dev_workspace_id v,
          da_member_id = dev_member_id v, da_device_id = dev_id v, da_role = mem_role m,
          da_key_epoch = ws_key_epoch w, da_token_hash = ds_token_hash s\<rparr>))"

definition active_device_rows :: "string \<Rightarrow> string \<Rightarrow> db \<Rightarrow> device list" where
  "active_device_rows workspace_id device_id d =
     [v. v \<leftarrow> db_devices d, m \<leftarrow> db_members d, w \<leftarrow> db_workspaces d,
        dev_id v = device_id \<and> dev_workspace_id v = workspace_id \<and> active_identity v m w]"

definition create_device_challenge ::
    "libs \<Rightarrow> env \<Rightarrow> string \<Rightarrow> string \<Rightarrow> db \<Rightarrow> device_challenge_output relay_result \<times> db" where
  "create_device_challenge L E workspace_id device_id d =
     (case rbind (validate_uuid L workspace_id) (\<lambda>_.
           rbind (validate_uuid L device_id) (\<lambda>_.
           guard (length (active_device_rows workspace_id device_id d) = 1) NotFound)) of
        Inl e \<Rightarrow> (Inl e, d)
      | Inr _ \<Rightarrow>
         (let (challenge, hash) = new_token L (rand E 0) ''device-challenge'';
              t = clock E 0;
              now = to_rfc3339 L t;
              expires_at = to_rfc3339 L (t + minutes DEVICE_CHALLENGE_MINUTES);
              d1 = d\<lparr>db_device_challenges := sql_delete
                     (\<lambda>c. dc_expires_at c \<le> now \<or> dc_used_at c \<noteq> None) (db_device_challenges d)\<rparr>
          in if MAX_DEVICE_CHALLENGES \<le> sql_count (\<lambda>c. dc_device_id c = device_id \<and> dc_used_at c = None)
                  (db_device_challenges d1)
             then (Inl Conflict, d1)
             else (case insert_device_challenge
                     \<lparr>dc_id = uuids E 0, dc_device_id = device_id, dc_challenge_hash = hash,
                      dc_expires_at = expires_at, dc_used_at = None, dc_created_at = now\<rparr> d1 of
                     Inl e \<Rightarrow> (Inl (from_sql e), d1)
                   | Inr d2 \<Rightarrow> (Inr \<lparr>dco_challenge_id = uuids E 0, dco_challenge = challenge,
                                   dco_expires_at = expires_at\<rparr>, d2))))"

definition challenge_rows ::
    "string \<Rightarrow> string \<Rightarrow> db \<Rightarrow> (device_challenge \<times> device \<times> member \<times> workspace) list" where
  "challenge_rows challenge_id now d =
     [(c, v, m, w). c \<leftarrow> db_device_challenges d, v \<leftarrow> db_devices d, m \<leftarrow> db_members d, w \<leftarrow> db_workspaces d,
        dev_id v = dc_device_id c \<and> dc_id c = challenge_id \<and> dc_used_at c = None
        \<and> now < dc_expires_at c \<and> active_identity v m w]"

definition open_device_session ::
    "libs \<Rightarrow> env \<Rightarrow> create_device_session_input \<Rightarrow> db \<Rightarrow> (device_session_output \<times> db) relay_result" where
  "open_device_session L E input d =
     rbind (ok_or (fetch_optional (challenge_rows (cds_challenge_id input) (to_rfc3339 L (clock E 0)) d))
              Authentication) (\<lambda>(c, v, m, w).
     rbind (guard (token_hash L ''device-challenge'' (cds_challenge input) = dc_challenge_hash c)
              Authentication) (\<lambda>_.
     rbind (verify_device_session_signature L (dev_signing_public_key v) (cds_challenge_id input)
              (cds_challenge input) (cds_signature input)) (\<lambda>_.
     (let now = to_rfc3339 L (clock E 1);
          unused = (\<lambda>c. dc_id c = cds_challenge_id input \<and> dc_used_at c = None)
      in rbind (guard (sql_count unused (db_device_challenges d) = 1) Authentication) (\<lambda>_.
         issue_device_session L (clock E 2) (uuids E 0) (rand E 0) (dev_workspace_id v)
           (dev_member_id v) (dev_id v) (mem_role m) (ws_key_epoch w)
           (d\<lparr>db_device_challenges := sql_update unused (\<lambda>c. c\<lparr>dc_used_at := Some now\<rparr>)
              (db_device_challenges d)\<rparr>))))))"

definition create_device_session ::
    "libs \<Rightarrow> env \<Rightarrow> create_device_session_input \<Rightarrow> db \<Rightarrow> device_session_output relay_result \<times> db" where
  "create_device_session L E input d =
     (case rbind (validate_uuid L (cds_challenge_id input)) (\<lambda>_.
           validate_token_shape L (cds_challenge input)) of
        Inl e \<Rightarrow> (Inl e, d)
      | Inr _ \<Rightarrow> with_tx d (open_device_session L E input d))"

section \<open>Effects\<close>

lemma insert_device_Inr:
  "insert_device w m dv now d = Inr d' \<Longrightarrow>
     \<exists>name. clean_name (dr_name dv) = Inr name
       \<and> dr_id dv \<notin> dev_id ` set (db_devices d) \<and> w \<in> ws_id ` set (db_workspaces d)
       \<and> d' = d\<lparr>db_devices := db_devices d @
         [\<lparr>dev_id = dr_id dv, dev_workspace_id = w, dev_member_id = m, dev_name = name,
           dev_encryption_public_key = dr_encryption_public_key dv,
           dev_signing_public_key = dr_signing_public_key dv, dev_fingerprint = dr_fingerprint dv,
           dev_status = ''active'', dev_created_at = now, dev_updated_at = now, dev_revoked_at = None\<rparr>]\<rparr>"
  by (auto simp: insert_device_def insert_device_row_def res_iff)

lemma issue_device_session_Inr:
  assumes "issue_device_session L t u b w m v role epoch d = Inr (out, d')"
  shows "v \<in> dev_id ` set (db_devices d)
    \<and> d' = prune_device_sessions (to_rfc3339 L t) v (d\<lparr>db_device_sessions := db_device_sessions d
        @ [device_session_row L t u (token_hash L ''device-session'' (dso_token out)) v]\<rparr>)
    \<and> dso_device_id out = v \<and> dso_workspace_id out = w \<and> dso_member_id out = m
    \<and> dso_role out = role \<and> dso_key_epoch out = epoch \<and> dso_token out = b64_encode L b"
  using assms
  by (auto simp: issue_device_session_def Let_def new_token_def insert_device_session_def res_iff
      device_session_row_def)

lemma issue_device_session_fields:
  assumes "issue_device_session L t u b w m v role epoch d = Inr (out, d')"
  shows "\<exists>rows. d' = d\<lparr>db_device_sessions := rows\<rparr>"
  using issue_device_session_Inr [OF assms] by (auto simp: prune_device_sessions_def)

lemma prune_device_sessions_keys [keeps_keys]: "keys_ok d \<Longrightarrow> keys_ok (prune_device_sessions now i d)"
  by (simp add: prune_device_sessions_def keys_ok_def table_simps)

lemma insert_device_keys [keeps_keys]: "insert_device w m dv now d = Inr d' \<Longrightarrow> keys_ok d \<Longrightarrow> keys_ok d'"
  by (auto simp: insert_device_def res_iff intro: keeps_keys)

lemma issue_device_session_keys [keeps_keys]:
  "issue_device_session L t u b w m v role epoch d = Inr (out, d') \<Longrightarrow> keys_ok d \<Longrightarrow> keys_ok d'"
  by (auto simp: issue_device_session_def Let_def new_token_def res_iff
      intro: prune_device_sessions_keys insert_keeps_keys)

lemma create_device_challenge_keys [keeps_keys]:
  assumes "create_device_challenge L E w v d = (r, d')" "keys_ok d"
  shows "keys_ok d'"
proof -
  have del: "keys_ok (d\<lparr>db_device_challenges := sql_delete p (db_device_challenges d)\<rparr>)" for p
    using assms(2) by (simp add: keys_ok_def distinct_sql_delete)
  show ?thesis using assms
    by (auto simp: create_device_challenge_def Let_def del split: sum.splits if_splits prod.splits
        intro: insert_keeps_keys(8) [OF _ del])
qed

lemma open_device_session_keys [keeps_keys]:
  assumes "open_device_session L E input d = Inr (out, d')" "keys_ok d"
  shows "keys_ok d'"
proof -
  have upd: "keys_ok (d\<lparr>db_device_challenges := sql_update p (\<lambda>c. c\<lparr>dc_used_at := x\<rparr>) (db_device_challenges d)\<rparr>)" for p x
    using assms(2) by (simp add: keys_ok_def map_sql_update)
  show ?thesis using assms(1)
    by (auto simp: open_device_session_def Let_def res_iff split: prod.splits
        intro: issue_device_session_keys [OF _ upd])
qed

lemma create_device_session_keys [keeps_keys]:
  "create_device_session L E input d = (r, d') \<Longrightarrow> keys_ok d \<Longrightarrow> keys_ok d'"
  by (auto simp: create_device_session_def with_tx_def split: sum.splits prod.splits intro: keeps_keys)

section \<open>Authentication\<close>

text \<open>What a successful authentication says of the database.\<close>

lemma authenticate_device_Inr:
  assumes "authenticate_device L t tok d = Inr auth"
  shows "\<exists>s v m w. s \<in> set (db_device_sessions d) \<and> v \<in> set (db_devices d) \<and> m \<in> set (db_members d)
    \<and> w \<in> set (db_workspaces d)
    \<and> ds_token_hash s = token_hash L ''device-session'' tok \<and> ds_revoked_at s = None
    \<and> to_rfc3339 L t < ds_expires_at s \<and> dev_id v = ds_device_id s \<and> active_identity v m w
    \<and> auth = \<lparr>da_account_id = mem_account_id m, da_workspace_id = dev_workspace_id v,
          da_member_id = dev_member_id v, da_device_id = dev_id v, da_role = mem_role m,
          da_key_epoch = ws_key_epoch w, da_token_hash = ds_token_hash s\<rparr>"
proof -
  obtain s v m w where "(s, v, m, w) \<in> set (device_session_rows (token_hash L ''device-session'' tok)
      (to_rfc3339 L t) d)"
    and "auth = \<lparr>da_account_id = mem_account_id m, da_workspace_id = dev_workspace_id v,
      da_member_id = dev_member_id v, da_device_id = dev_id v, da_role = mem_role m,
      da_key_epoch = ws_key_epoch w, da_token_hash = ds_token_hash s\<rparr>"
    using assms by (auto simp: authenticate_device_def res_iff dest!: fetch_optional_Some_mem)
  then show ?thesis
    by (intro exI [of _ s] exI [of _ v] exI [of _ m] exI [of _ w]) (auto simp: device_session_rows_def)
qed

lemma authenticate_device_err: "authenticate_device L t tok d = Inl e \<Longrightarrow> e = Authentication"
  by (auto simp: authenticate_device_def validate_token_shape_def rbind_def guard_def ok_or_def
      split: sum.splits if_splits option.splits)

lemma device_session_rows_mem:
  "(s, v, m, w) \<in> set (device_session_rows hash now d) \<Longrightarrow> s \<in> set (db_device_sessions d) \<and> v \<in> set (db_devices d)
    \<and> m \<in> set (db_members d) \<and> w \<in> set (db_workspaces d) \<and> ds_token_hash s = hash \<and> dev_id v = ds_device_id s
    \<and> mem_id m = dev_member_id v \<and> ws_id w = dev_workspace_id v"
  by (auto simp: device_session_rows_def active_identity_def)

text \<open>With the schema's keys, the joined row is determined by the token.\<close>

lemma device_session_rows_unique:
  assumes "keys_ok d" "r \<in> set (device_session_rows hash now d)"
  shows "fetch_optional (device_session_rows hash now d) = Some r"
proof (rule fetch_optional_unique [OF assms(2)])
  fix r' assume r': "r' \<in> set (device_session_rows hash now d)"
  obtain s v m w s' v' m' w' where eq: "r = (s, v, m, w)" "r' = (s', v', m', w')" by (metis prod.collapse)
  have keys: "distinct (map ds_token_hash (db_device_sessions d))" "distinct (map dev_id (db_devices d))"
    "distinct (map mem_id (db_members d))" "distinct (map ws_id (db_workspaces d))"
    using assms(1) by (simp_all add: keys_ok_def)
  have mem: "s \<in> set (db_device_sessions d)" "s' \<in> set (db_device_sessions d)" "v \<in> set (db_devices d)"
    "v' \<in> set (db_devices d)" "m \<in> set (db_members d)" "m' \<in> set (db_members d)"
    "w \<in> set (db_workspaces d)" "w' \<in> set (db_workspaces d)"
    and hash: "ds_token_hash s = hash" "ds_token_hash s' = hash"
    and dev: "dev_id v = ds_device_id s" "dev_id v' = ds_device_id s'"
    and ids: "mem_id m = dev_member_id v" "mem_id m' = dev_member_id v'"
      "ws_id w = dev_workspace_id v" "ws_id w' = dev_workspace_id v'"
    using device_session_rows_mem [OF assms(2) [unfolded eq(1)]] device_session_rows_mem [OF r' [unfolded eq(2)]] by simp_all
  have "s' = s" using device_session_hashes.row_unique [OF keys(1) mem(2,1)] hash by simp
  moreover from this have "v' = v" using devices.row_unique [OF keys(2) mem(4,3)] dev by simp
  moreover from this have "m' = m" "w' = w"
    using members.row_unique [OF keys(3) mem(6,5)] workspaces.row_unique [OF keys(4) mem(8,7)] ids by simp_all
  ultimately show "r' = r" by (simp add: eq)
qed

section \<open>Properties\<close>

text \<open>The parts of a successful \<open>create_device_session\<close>.\<close>

definition burn_challenge :: "string \<Rightarrow> string \<Rightarrow> db \<Rightarrow> db" where
  "burn_challenge now i d = d\<lparr>db_device_challenges := sql_update (\<lambda>c. dc_id c = i \<and> dc_used_at c = None)
     (\<lambda>c. c\<lparr>dc_used_at := Some now\<rparr>) (db_device_challenges d)\<rparr>"

lemma create_device_session_Inr:
  assumes "create_device_session L E input d = (Inr out, d')"
  obtains c v m w where "c \<in> set (db_device_challenges d)" "v \<in> set (db_devices d)" "m \<in> set (db_members d)"
    "w \<in> set (db_workspaces d)" "active_identity v m w"
    "dev_id v = dc_device_id c" "dc_id c = cds_challenge_id input" "dc_used_at c = None"
    "to_rfc3339 L (clock E 0) < dc_expires_at c"
    "token_hash L ''device-challenge'' (cds_challenge input) = dc_challenge_hash c"
    "verify_device_session_signature L (dev_signing_public_key v) (cds_challenge_id input)
          (cds_challenge input) (cds_signature input) = Inr ()"
    "issue_device_session L (clock E 2) (uuids E 0) (rand E 0) (dev_workspace_id v) (dev_member_id v)
          (dev_id v) (mem_role m) (ws_key_epoch w)
          (burn_challenge (to_rfc3339 L (clock E 1)) (cds_challenge_id input) d) = Inr (out, d')"
proof -
  have "open_device_session L E input d = Inr (out, d')"
    using assms by (simp add: create_device_session_def res_iff split: sum.splits)
  then obtain c v m w where r: "(c, v, m, w) \<in> set (challenge_rows (cds_challenge_id input) (to_rfc3339 L (clock E 0)) d)"
    and h: "token_hash L ''device-challenge'' (cds_challenge input) = dc_challenge_hash c"
    and s: "verify_device_session_signature L (dev_signing_public_key v) (cds_challenge_id input)
          (cds_challenge input) (cds_signature input) = Inr ()"
    and i: "issue_device_session L (clock E 2) (uuids E 0) (rand E 0) (dev_workspace_id v) (dev_member_id v)
          (dev_id v) (mem_role m) (ws_key_epoch w)
          (burn_challenge (to_rfc3339 L (clock E 1)) (cds_challenge_id input) d) = Inr (out, d')"
    unfolding open_device_session_def Let_def burn_challenge_def
    by (clarsimp simp: res_iff) (drule fetch_optional_Some_mem, blast)
  from r have "c \<in> set (db_device_challenges d)" "v \<in> set (db_devices d)" "m \<in> set (db_members d)"
    "w \<in> set (db_workspaces d)" "active_identity v m w"
    "dev_id v = dc_device_id c" "dc_id c = cds_challenge_id input" "dc_used_at c = None"
    "to_rfc3339 L (clock E 0) < dc_expires_at c"
    by (auto simp: challenge_rows_def)
  then show ?thesis using h s i by (rule that)
qed

text \<open>C10: A device session is given only to an active device of an active member of an active
  workspace that signed this very challenge: the Ed25519 signature over the challenge identifier and
  text verifies under the key the device registered, and the challenge was issued to that device,
  is unused and has not expired.\<close>

theorem device_session_needs_signature:
  assumes "create_device_session L E input d = (Inr out, d')"
  shows "\<exists>c \<in> set (db_device_challenges d). \<exists>v \<in> set (db_devices d). \<exists>public sig.
      dev_id v = dso_device_id out \<and> dc_device_id c = dso_device_id out \<and> dev_status v = ''active''
    \<and> dc_id c = cds_challenge_id input \<and> dc_used_at c = None \<and> to_rfc3339 L (clock E 0) < dc_expires_at c
    \<and> dc_challenge_hash c = token_hash L ''device-challenge'' (cds_challenge input)
    \<and> decode_public_key L (dev_signing_public_key v) ''ed25519'' = Inr public
    \<and> ed_verify L public (''cnshell-relay-device-session-v1'' @ NUL @ cds_challenge_id input @ NUL @ cds_challenge input) sig"
proof -
  obtain c v m w where c: "c \<in> set (db_device_challenges d)" "v \<in> set (db_devices d)" "m \<in> set (db_members d)"
      "w \<in> set (db_workspaces d)" "active_identity v m w"
      "dev_id v = dc_device_id c" "dc_id c = cds_challenge_id input" "dc_used_at c = None"
      "to_rfc3339 L (clock E 0) < dc_expires_at c"
      "token_hash L ''device-challenge'' (cds_challenge input) = dc_challenge_hash c"
    and sig: "verify_device_session_signature L (dev_signing_public_key v) (cds_challenge_id input)
          (cds_challenge input) (cds_signature input) = Inr ()"
    and issue: "issue_device_session L (clock E 2) (uuids E 0) (rand E 0) (dev_workspace_id v) (dev_member_id v)
          (dev_id v) (mem_role m) (ws_key_epoch w)
          (burn_challenge (to_rfc3339 L (clock E 1)) (cds_challenge_id input) d) = Inr (out, d')"
    by (rule create_device_session_Inr [OF assms])
  obtain public sg where "decode_public_key L (dev_signing_public_key v) ''ed25519'' = Inr public"
    "ed_verify L public (''cnshell-relay-device-session-v1'' @ NUL @ cds_challenge_id input @ NUL @ cds_challenge input) sg"
    using sig unfolding verify_device_session_signature_def res_iff by blast
  moreover have "dso_device_id out = dev_id v" using issue_device_session_Inr [OF issue] by simp
  ultimately show ?thesis using c by (intro bexI [of _ c] bexI [of _ v]) (auto simp: active_identity_def)
qed

text \<open>A challenge is used once: after a session was opened with it, every further attempt with the
  same challenge identifier is refused and leaves the database unchanged.\<close>

theorem challenge_single_use:
  assumes "create_device_session L E input d = (Inr out, d')"
    and "cds_challenge_id input' = cds_challenge_id input"
  shows "\<exists>e \<in> {Authentication, Validation}. create_device_session L E' input' d' = (Inl e, d')"
proof -
  have "db_device_challenges d' = db_device_challenges
      (burn_challenge (to_rfc3339 L (clock E 1)) (cds_challenge_id input) d)"
    by (rule create_device_session_Inr [OF assms(1)], drule issue_device_session_fields) auto
  then have used: "dc_used_at c \<noteq> None"
    if "c \<in> set (db_device_challenges d')" "dc_id c = cds_challenge_id input" for c
    using that by (auto simp: burn_challenge_def set_sql_update)
  have "challenge_rows (cds_challenge_id input') now d' = []" for now
  proof (rule ccontr)
    assume "challenge_rows (cds_challenge_id input') now d' \<noteq> []"
    then obtain x where "x \<in> set (challenge_rows (cds_challenge_id input') now d')" by (meson list.set_sel(1))
    then obtain c where "c \<in> set (db_device_challenges d')" "dc_id c = cds_challenge_id input" "dc_used_at c = None"
      using assms(2) by (auto simp: challenge_rows_def)
    then show False using used by blast
  qed
  then have "open_device_session L E' input' d' = Inl Authentication" by (simp add: open_device_session_def)
  moreover have "e = Validation \<or> e = Authentication"
    if "rbind (validate_uuid L (cds_challenge_id input')) (\<lambda>_. validate_token_shape L (cds_challenge input')) = Inl e" for e
    using that by (auto simp: rbind_Inl_iff validate_uuid_def validate_token_shape_def res_iff)
  ultimately show ?thesis by (auto simp: create_device_session_def split: sum.split)
qed

text \<open>The token of a new device session authenticates the device, with the role and the key epoch
  the database has at that moment, for the fifteen minutes of the session.\<close>

theorem device_session_authenticates:
  assumes "create_device_session L E input d = (Inr out, d')" "keys_ok d"
    and "b64_decode L (b64_encode L (rand E 0)) = Some bytes" "length bytes = 32"
    and "length (b64_encode L (rand E 0)) = 43"
    and "stamps_ordered L lo hi" "lo \<le> clock E 2" "clock E 2 + minutes 15 \<le> hi"
    and "\<forall>s \<in> set (db_device_sessions d). ds_created_at s \<le> to_rfc3339 L (clock E 2)"
    and "clock E 2 \<le> t" "t < clock E 2 + minutes 15"
  shows "\<exists>auth. authenticate_device L t (dso_token out) d' = Inr auth
    \<and> da_device_id auth = dso_device_id out \<and> da_member_id auth = dso_member_id out
    \<and> da_workspace_id auth = dso_workspace_id out \<and> da_role auth = dso_role out
    \<and> da_key_epoch auth = dso_key_epoch out"
proof -
  let ?now = "clock E 2"
  let ?hash = "token_hash L ''device-session'' (dso_token out)"
  define d1 where "d1 = burn_challenge (to_rfc3339 L (clock E 1)) (cds_challenge_id input) d"
  obtain v m w where mem: "v \<in> set (db_devices d)" "m \<in> set (db_members d)" "w \<in> set (db_workspaces d)"
      "active_identity v m w"
    and issue: "issue_device_session L ?now (uuids E 0) (rand E 0) (dev_workspace_id v) (dev_member_id v)
          (dev_id v) (mem_role m) (ws_key_epoch w) d1 = Inr (out, d')"
    unfolding d1_def by (rule create_device_session_Inr [OF assms(1)])
  have d1: "db_device_sessions d1 = db_device_sessions d" "db_devices d1 = db_devices d"
      "db_members d1 = db_members d" "db_workspaces d1 = db_workspaces d"
    by (simp_all add: d1_def burn_challenge_def)
  note eff = issue_device_session_Inr [OF issue]
  let ?row = "device_session_row L ?now (uuids E 0) ?hash (dev_id v)"
  have less: "to_rfc3339 L t < to_rfc3339 L (?now + minutes 15)" "to_rfc3339 L ?now < to_rfc3339 L (?now + minutes 15)"
    using assms(6-8,10,11) unfolding stamps_ordered_def by (meson order.trans order.strict_implies_order le_less_trans)+
  have "?row \<in> set (keep_newest MAX_DEVICE_SESSIONS ds_id ds_created_at (\<lambda>s. ds_device_id s = dev_id v)
      (db_device_sessions d1 @ [?row]))"
    using assms(9) d1 by (intro keep_newest_snoc) (simp_all add: MAX_DEVICE_SESSIONS_def device_session_row_def)
  then have row: "?row \<in> set (db_device_sessions d')"
    using eff less(2) by (simp add: prune_device_sessions_def set_sql_delete device_session_row_def
      DEVICE_SESSION_MINUTES_def)
  have tabs: "db_devices d' = db_devices d" "db_members d' = db_members d" "db_workspaces d' = db_workspaces d"
    using issue_device_session_fields [OF issue] d1 by auto
  have "(?row, v, m, w) \<in> set (device_session_rows ?hash (to_rfc3339 L t) d')"
    using row mem less(1) by (auto simp: device_session_rows_def tabs device_session_row_def DEVICE_SESSION_MINUTES_def)
  then have "fetch_optional (device_session_rows ?hash (to_rfc3339 L t) d') = Some (?row, v, m, w)"
    using device_session_rows_unique create_device_session_keys [OF assms(1,2)] by blast
  then show ?thesis using assms(3-5) eff by (simp add: authenticate_device_def validate_token_shape_def)
qed

definition challenged_db :: db where
  "challenged_db = snd (create_device_challenge sample_libs sample_env ''w1'' ''d1'' sample_db)"

definition sample_answer :: create_device_session_input where
  "sample_answer = \<lparr>cds_challenge_id = ''uA'', cds_challenge = b64_encode sample_libs (rand sample_env 0),
     cds_signature = ''ed25519:sig''\<rparr>"

definition sample_session_output :: device_session_output where
  "sample_session_output = \<lparr>dso_workspace_id = ''w1'', dso_member_id = ''m1'', dso_device_id = ''d1'',
     dso_role = ''operator'', dso_key_epoch = 1, dso_token = b64_encode sample_libs (rand (later 10) 0),
     dso_expires_at = sample_stamp (seconds 1012)\<rparr>"

lemma challenged_keys: "keys_ok challenged_db"
  by code_simp

lemma sample_session_opened:
  "create_device_session sample_libs (later 10) sample_answer challenged_db
     = (Inr sample_session_output, snd (create_device_session sample_libs (later 10) sample_answer challenged_db))"
proof -
  have "fst (create_device_session sample_libs (later 10) sample_answer challenged_db) = Inr sample_session_output"
    by code_simp
  then show ?thesis by (simp add: prod_eq_iff)
qed

theorem device_session_needs_signature_witness:
  "\<exists>c \<in> set (db_device_challenges challenged_db). dc_device_id c = ''d1'' \<and> dc_used_at c = None"
  using device_session_needs_signature [OF sample_session_opened]
  by (auto simp: sample_session_output_def)

theorem challenge_single_use_witness:
  "\<exists>e \<in> {Authentication, Validation}. fst (create_device_session sample_libs (later 20) sample_answer
     (snd (create_device_session sample_libs (later 10) sample_answer challenged_db))) = Inl e"
proof -
  obtain e where "e \<in> {Authentication, Validation}"
    "create_device_session sample_libs (later 20) sample_answer
       (snd (create_device_session sample_libs (later 10) sample_answer challenged_db))
      = (Inl e, snd (create_device_session sample_libs (later 10) sample_answer challenged_db))"
    using challenge_single_use [OF sample_session_opened refl] by blast
  then show ?thesis by auto
qed

theorem device_session_authenticates_witness:
  "\<exists>auth. authenticate_device sample_libs (seconds 500) (dso_token sample_session_output)
       (snd (create_device_session sample_libs (later 10) sample_answer challenged_db)) = Inr auth
     \<and> da_device_id auth = ''d1'' \<and> da_role auth = ''operator''"
proof -
  have "\<exists>auth. authenticate_device sample_libs (seconds 500) (dso_token sample_session_output)
       (snd (create_device_session sample_libs (later 10) sample_answer challenged_db)) = Inr auth
    \<and> da_device_id auth = dso_device_id sample_session_output
    \<and> da_member_id auth = dso_member_id sample_session_output
    \<and> da_workspace_id auth = dso_workspace_id sample_session_output
    \<and> da_role auth = dso_role sample_session_output
    \<and> da_key_epoch auth = dso_key_epoch sample_session_output"
  proof (rule device_session_authenticates [OF sample_session_opened challenged_keys,
        where bytes = "replicate 32 (CHR ''k'')" and lo = 0 and hi = "2 ^ 63"])
    show "stamps_ordered sample_libs 0 (2 ^ 63)" by (rule sample_stamps_ordered)
    show "\<forall>s \<in> set (db_device_sessions challenged_db). ds_created_at s \<le> to_rfc3339 sample_libs (clock (later 10) 2)"
      by code_simp
  qed code_simp+
  then show ?thesis by (auto simp: sample_session_output_def)
qed

end
