(* ===== verification/RelayWorkspaces.thy ===== *)
theory RelayWorkspaces
  imports RelayDevices
begin

text \<open>
  Workspaces of the relay (\<open>services/team-relay/src/store.rs\<close>): bootstrap, invitations, member
  and device management, the snapshot and audit reads and the permanent deletion. Changes of
  membership advance the key epoch and close the workspace's terminal rooms.
\<close>

definition WORKSPACE_INVITATION_HOURS :: int where "WORKSPACE_INVITATION_HOURS = 24"
definition MAX_ACCOUNT_WORKSPACES :: nat where "MAX_ACCOUNT_WORKSPACES = 32"
definition MAX_WORKSPACE_INVITATIONS :: nat where "MAX_WORKSPACE_INVITATIONS = 256"
definition MAX_WORKSPACE_MEMBERS :: nat where "MAX_WORKSPACE_MEMBERS = 256"

section \<open>Operations\<close>

definition owned_workspaces :: "string \<Rightarrow> db \<Rightarrow> (workspace \<times> member) list" where
  "owned_workspaces account_id d =
     [(w, m). w \<leftarrow> db_workspaces d, m \<leftarrow> db_members d,
        mem_workspace_id m = ws_id w \<and> mem_account_id m = account_id \<and> mem_role m = ''owner''
        \<and> mem_status m = ''active'' \<and> ws_status w = ''active'']"

definition new_member :: "string \<Rightarrow> string \<Rightarrow> account_auth \<Rightarrow> string \<Rightarrow> string \<Rightarrow> member" where
  "new_member member_id workspace_id account role now =
     \<lparr>mem_id = member_id, mem_workspace_id = workspace_id, mem_account_id = aa_account_id account,
      mem_display_name = aa_display_name account, mem_role = role, mem_status = ''active'',
      mem_joined_at = now, mem_updated_at = now, mem_removed_at = None\<rparr>"

definition bootstrap_tx ::
    "libs \<Rightarrow> env \<Rightarrow> account_auth \<Rightarrow> bootstrap_workspace_input \<Rightarrow> string \<Rightarrow> db
      \<Rightarrow> (device_session_output \<times> db) relay_result" where
  "bootstrap_tx L E account input name d =
     (let now = to_rfc3339 L (clock E 0)
      in rbind (guard (length (owned_workspaces (aa_account_id account) d) < MAX_ACCOUNT_WORKSPACES)
                  Conflict) (\<lambda>_.
         rbind (map_err map_conflict (insert_workspace
           \<lparr>ws_id = bwi_workspace_id input, ws_name = name, ws_key_epoch = 1, ws_status = ''active'',
            ws_created_at = now, ws_updated_at = now\<rparr> d)) (\<lambda>d.
         rbind (map_err from_sql (insert_member
           (new_member (bwi_member_id input) (bwi_workspace_id input) account ''owner'' now) d)) (\<lambda>d.
         rbind (insert_device (bwi_workspace_id input) (bwi_member_id input) (bwi_device input) now d) (\<lambda>d.
         rbind (audit L (uuids E 0) (clock E 1) (bwi_workspace_id input) (bwi_member_id input)
                  ''workspace-created'' ''workspace'' (bwi_workspace_id input) d) (\<lambda>d.
         issue_device_session L (clock E 2) (uuids E 1) (rand E 0) (bwi_workspace_id input)
           (bwi_member_id input) (dr_id (bwi_device input)) ''owner'' 1 d))))))"

definition bootstrap_workspace ::
    "libs \<Rightarrow> env \<Rightarrow> account_auth \<Rightarrow> bootstrap_workspace_input \<Rightarrow> db
      \<Rightarrow> device_session_output relay_result \<times> db" where
  "bootstrap_workspace L E account input d =
     (case rbind (validate_uuid L (bwi_workspace_id input)) (\<lambda>_.
           rbind (validate_uuid L (bwi_member_id input)) (\<lambda>_.
           rbind (validate_device L (bwi_device input)) (\<lambda>_.
           clean_name (bwi_workspace_name input)))) of
        Inl e \<Rightarrow> (Inl e, d)
      | Inr name \<Rightarrow> with_tx d (bootstrap_tx L E account input name d))"

definition open_invitation :: "string \<Rightarrow> workspace_invitation \<Rightarrow> bool" where
  "open_invitation workspace_id i \<longleftrightarrow> wi_workspace_id i = workspace_id \<and> wi_accepted_at i = None
     \<and> wi_revoked_at i = None"

definition create_workspace_invitation ::
    "libs \<Rightarrow> env \<Rightarrow> device_auth \<Rightarrow> create_workspace_invitation_input \<Rightarrow> db
      \<Rightarrow> workspace_invitation_output relay_result \<times> db" where
  "create_workspace_invitation L E auth input d =
     (case rbind (require_permission (da_role auth) ''memberManage'') (\<lambda>_.
           rbind (validate_uuid L (cwi_member_id input)) (\<lambda>_.
           rbind (clean_email (cwi_email input)) (\<lambda>email.
           rbind (guard (role_in (cwi_role input) [''admin'', ''operator'', ''viewer'']) Validation) (\<lambda>_.
           rbind (guard (\<not> (da_role auth = ''admin'' \<and> cwi_role input = ''admin'')) PermissionDenied) (\<lambda>_.
           Inr email))))) of
        Inl e \<Rightarrow> (Inl e, d)
      | Inr email \<Rightarrow>
         (let (tok, hash) = new_token L (rand E 0) ''workspace-invitation'';
              t = clock E 0;
              now = to_rfc3339 L t;
              expires_at = to_rfc3339 L (t + hours WORKSPACE_INVITATION_HOURS);
              d1 = d\<lparr>db_workspace_invitations := sql_delete
                     (\<lambda>i. wi_expires_at i \<le> now \<or> wi_revoked_at i \<noteq> None) (db_workspace_invitations d)\<rparr>
          in if MAX_WORKSPACE_INVITATIONS
                  \<le> sql_count (open_invitation (da_workspace_id auth)) (db_workspace_invitations d1)
             then (Inl Conflict, d1)
             else (case insert_workspace_invitation
                     \<lparr>wi_id = uuids E 0, wi_workspace_id = da_workspace_id auth,
                      wi_invited_by_member_id = da_member_id auth, wi_member_id = cwi_member_id input,
                      wi_email = email, wi_role = cwi_role input, wi_token_hash = hash,
                      wi_expires_at = expires_at, wi_accepted_at = None, wi_revoked_at = None,
                      wi_created_at = now\<rparr> d1 of
                     Inl e \<Rightarrow> (Inl (map_conflict e), d1)
                   | Inr d2 \<Rightarrow> (Inr \<lparr>wio_invitation_id = uuids E 0, wio_token = tok,
                                   wio_expires_at = expires_at\<rparr>, d2))))"

definition matching_devices ::
    "workspace_invitation \<Rightarrow> account_auth \<Rightarrow> device_registration \<Rightarrow> db \<Rightarrow> (member \<times> device) list" where
  "matching_devices i account device d =
     [(m, v). m \<leftarrow> db_members d, v \<leftarrow> db_devices d,
        dev_member_id v = mem_id m \<and> dev_workspace_id v = mem_workspace_id m
        \<and> mem_id m = wi_member_id i \<and> mem_workspace_id m = wi_workspace_id i
        \<and> mem_account_id m = aa_account_id account \<and> mem_status m = ''active''
        \<and> dev_id v = dr_id device \<and> dev_name v = dr_name device
        \<and> dev_encryption_public_key v = dr_encryption_public_key device
        \<and> dev_signing_public_key v = dr_signing_public_key device
        \<and> dev_fingerprint v = dr_fingerprint device \<and> dev_status v = ''active'']"

text \<open>The invitation was accepted before: the same device gets a new session.\<close>

definition accept_again ::
    "libs \<Rightarrow> env \<Rightarrow> account_auth \<Rightarrow> workspace_invitation \<Rightarrow> device_registration \<Rightarrow> db
      \<Rightarrow> (device_session_output \<times> db) relay_result" where
  "accept_again L E account i device d =
     rbind (guard (length (matching_devices i account device d) = 1) Authentication) (\<lambda>_.
     rbind (ok_or (fetch_optional (filter (active_workspace (wi_workspace_id i)) (db_workspaces d)))
              (from_sql RowNotFound)) (\<lambda>w.
     issue_device_session L (clock E 1) (uuids E 0) (rand E 0) (wi_workspace_id i) (wi_member_id i)
       (dr_id device) (wi_role i) (ws_key_epoch w) d))"

definition accept_first ::
    "libs \<Rightarrow> env \<Rightarrow> account_auth \<Rightarrow> workspace_invitation \<Rightarrow> device_registration \<Rightarrow> db
      \<Rightarrow> (device_session_output \<times> db) relay_result" where
  "accept_first L E account i device d =
     (let workspace_id = wi_workspace_id i; member_id = wi_member_id i;
          now = to_rfc3339 L (clock E 1)
      in rbind (guard (sql_count (\<lambda>m. mem_workspace_id m = workspace_id \<and> mem_status m = ''active'')
                  (db_members d) < MAX_WORKSPACE_MEMBERS) Conflict) (\<lambda>_.
         rbind (map_err map_conflict (insert_member
           (new_member member_id workspace_id account (wi_role i) now) d)) (\<lambda>d.
         rbind (insert_device workspace_id member_id device now d) (\<lambda>d.
         (let d = d\<lparr>db_workspace_invitations := sql_update
                (\<lambda>j. wi_id j = wi_id i \<and> wi_accepted_at j = None)
                (\<lambda>j. j\<lparr>wi_accepted_at := Some now\<rparr>) (db_workspace_invitations d)\<rparr>
          in rbind (advance_epoch workspace_id now d) (\<lambda>(epoch, d).
             rbind (audit L (uuids E 0) (clock E 2) workspace_id member_id
                      ''invitation-accepted'' ''member'' member_id
                      (close_workspace_rooms workspace_id now d)) (\<lambda>d.
             issue_device_session L (clock E 3) (uuids E 1) (rand E 0) workspace_id member_id
               (dr_id device) (wi_role i) epoch d)))))))"

definition accept_tx ::
    "libs \<Rightarrow> env \<Rightarrow> account_auth \<Rightarrow> accept_workspace_invitation_input \<Rightarrow> db
      \<Rightarrow> (device_session_output \<times> db) relay_result" where
  "accept_tx L E account input d =
     (let hash = token_hash L ''workspace-invitation'' (awi_token input);
          now = to_rfc3339 L (clock E 0)
      in rbind (ok_or (fetch_optional (filter
                  (\<lambda>i. wi_token_hash i = hash \<and> wi_revoked_at i = None \<and> now < wi_expires_at i)
                  (db_workspace_invitations d))) Authentication) (\<lambda>i.
         rbind (guard (wi_email i = aa_email account) PermissionDenied) (\<lambda>_.
         if wi_accepted_at i \<noteq> None then accept_again L E account i (awi_device input) d
         else accept_first L E account i (awi_device input) d)))"

definition accept_workspace_invitation ::
    "libs \<Rightarrow> env \<Rightarrow> account_auth \<Rightarrow> accept_workspace_invitation_input \<Rightarrow> db
      \<Rightarrow> device_session_output relay_result \<times> db" where
  "accept_workspace_invitation L E account input d =
     (case rbind (validate_device L (awi_device input)) (\<lambda>_. validate_token_shape L (awi_token input)) of
        Inl e \<Rightarrow> (Inl e, d)
      | Inr _ \<Rightarrow> with_tx d (accept_tx L E account input d))"

definition member_view :: "member \<Rightarrow> workspace_member_view" where
  "member_view m = \<lparr>wmv_id = mem_id m, wmv_display_name = mem_display_name m, wmv_role = mem_role m,
     wmv_status = mem_status m\<rparr>"

definition device_view :: "device \<Rightarrow> workspace_device_view" where
  "device_view v = \<lparr>wdv_id = dev_id v, wdv_member_id = dev_member_id v, wdv_name = dev_name v,
     wdv_encryption_public_key = dev_encryption_public_key v,
     wdv_signing_public_key = dev_signing_public_key v, wdv_fingerprint = dev_fingerprint v,
     wdv_status = dev_status v\<rparr>"

text \<open>\<open>ORDER BY a, b\<close>: two stable sorts, the last key first.\<close>

definition workspace_snapshot :: "device_auth \<Rightarrow> string \<Rightarrow> db \<Rightarrow> workspace_snapshot_view relay_result" where
  "workspace_snapshot auth workspace_id d =
     rbind (guard (da_workspace_id auth = workspace_id) PermissionDenied) (\<lambda>_.
     rbind (require_permission (da_role auth) ''memberRead'') (\<lambda>_.
     rbind (ok_or (fetch_optional (filter (active_workspace workspace_id) (db_workspaces d))) NotFound) (\<lambda>w.
     Inr \<lparr>wsv_id = workspace_id, wsv_name = ws_name w, wsv_key_epoch = ws_key_epoch w,
          wsv_members = map member_view (sort_key mem_joined_at (sort_key mem_id
             (filter (\<lambda>m. mem_workspace_id m = workspace_id) (db_members d)))),
          wsv_devices = map device_view (sort_key dev_created_at (sort_key dev_id
             (filter (\<lambda>v. dev_workspace_id v = workspace_id) (db_devices d))))\<rparr>)))"

definition audit_view :: "audit_row \<Rightarrow> relay_audit_event" where
  "audit_view r = \<lparr>rae_id = ar_id r, rae_workspace_id = ar_workspace_id r,
     rae_actor_member_id = ar_actor_member_id r, rae_action = ar_action r,
     rae_target_type = ar_target_type r, rae_target_id = ar_target_id r,
     rae_created_at = ar_created_at r\<rparr>"

definition list_audit :: "device_auth \<Rightarrow> string \<Rightarrow> db \<Rightarrow> relay_audit_event list relay_result" where
  "list_audit auth workspace_id d =
     rbind (guard (da_workspace_id auth = workspace_id) PermissionDenied) (\<lambda>_.
     rbind (guard (role_in (da_role auth) [''owner'', ''admin'']) PermissionDenied) (\<lambda>_.
     Inr (map audit_view (newest MAX_AUDIT_EVENTS ar_created_at
            (filter (\<lambda>r. ar_workspace_id r = workspace_id) (db_audit_rows d))))))"

definition delete_workspace :: "device_auth \<Rightarrow> string \<Rightarrow> db \<Rightarrow> unit relay_result \<times> db" where
  "delete_workspace auth workspace_id d =
     (if da_workspace_id auth \<noteq> workspace_id \<or> da_role auth \<noteq> ''owner'' then (Inl PermissionDenied, d)
      else (case delete_workspace_row workspace_id d of
              Inl e \<Rightarrow> (Inl (from_sql e), d)
            | Inr (affected, d') \<Rightarrow> (if affected \<noteq> 1 then (Inl NotFound, d') else (Inr (), d'))))"

definition is_member :: "string \<Rightarrow> string \<Rightarrow> member \<Rightarrow> bool" where
  "is_member workspace_id member_id m \<longleftrightarrow> mem_id m = member_id \<and> mem_workspace_id m = workspace_id"

definition active_owner :: "string \<Rightarrow> member \<Rightarrow> bool" where
  "active_owner workspace_id m \<longleftrightarrow> mem_workspace_id m = workspace_id \<and> mem_role m = ''owner''
     \<and> mem_status m = ''active''"

definition set_member :: "update_member_input \<Rightarrow> string \<Rightarrow> member \<Rightarrow> member" where
  "set_member input now m = m\<lparr>mem_role := umi_role input, mem_status := umi_status input,
     mem_updated_at := now, mem_removed_at := (if umi_status input = ''removed'' then Some now else None)\<rparr>"

text \<open>Removing a member revokes the sessions and devices it has in the workspace.\<close>

definition revoke_member_devices :: "string \<Rightarrow> string \<Rightarrow> string \<Rightarrow> db \<Rightarrow> db" where
  "revoke_member_devices workspace_id member_id now d =
     (let theirs = (\<lambda>v. dev_member_id v = member_id \<and> dev_workspace_id v = workspace_id)
      in d\<lparr>db_device_sessions := sql_update
             (\<lambda>s. ds_revoked_at s = None \<and> list_ex (\<lambda>v. dev_id v = ds_device_id s \<and> theirs v) (db_devices d))
             (\<lambda>s. s\<lparr>ds_revoked_at := Some now\<rparr>) (db_device_sessions d),
           db_devices := sql_update (\<lambda>v. theirs v \<and> dev_status v = ''active'')
             (\<lambda>v. v\<lparr>dev_status := ''revoked'', dev_revoked_at := Some now, dev_updated_at := now\<rparr>)
             (db_devices d)\<rparr>)"

definition update_member_checks ::
    "device_auth \<Rightarrow> string \<Rightarrow> string \<Rightarrow> update_member_input \<Rightarrow> db \<Rightarrow> unit relay_result" where
  "update_member_checks auth workspace_id member_id input d =
     rbind (ok_or (fetch_optional (filter (is_member workspace_id member_id) (db_members d))) NotFound)
       (\<lambda>current.
     rbind (guard (\<not> (da_role auth \<noteq> ''owner''
                      \<and> (mem_role current = ''owner'' \<or> umi_role input = ''owner''))) PermissionDenied) (\<lambda>_.
     rbind (guard (\<not> (member_id = da_member_id auth \<and> umi_status input = ''removed'')) Validation) (\<lambda>_.
     guard (\<not> (mem_role current = ''owner'' \<and> mem_status current = ''active''
               \<and> (umi_role input \<noteq> ''owner'' \<or> umi_status input \<noteq> ''active'')
               \<and> sql_count (active_owner workspace_id) (db_members d) \<le> 1)) Validation)))"

definition update_member_tx ::
    "libs \<Rightarrow> env \<Rightarrow> device_auth \<Rightarrow> string \<Rightarrow> string \<Rightarrow> update_member_input \<Rightarrow> db
      \<Rightarrow> (i64 \<times> db) relay_result" where
  "update_member_tx L E auth workspace_id member_id input d =
     rbind (update_member_checks auth workspace_id member_id input d) (\<lambda>_.
     (let now = to_rfc3339 L (clock E 0);
          d1 = d\<lparr>db_members := sql_update (is_member workspace_id member_id) (set_member input now) (db_members d)\<rparr>;
          d2 = (if umi_status input = ''removed'' then revoke_member_devices workspace_id member_id now d1 else d1)
      in rbind (advance_epoch workspace_id now d2) (\<lambda>(epoch, d3).
         rbind (audit L (uuids E 0) (clock E 1) workspace_id (da_member_id auth)
                  ''member-updated'' ''member'' member_id (close_workspace_rooms workspace_id now d3)) (\<lambda>d4.
         Inr (epoch, d4)))))"

definition update_member ::
    "libs \<Rightarrow> env \<Rightarrow> device_auth \<Rightarrow> string \<Rightarrow> string \<Rightarrow> update_member_input \<Rightarrow> db \<Rightarrow> i64 relay_result \<times> db" where
  "update_member L E auth workspace_id member_id input d =
     (case rbind (guard (da_workspace_id auth = workspace_id) PermissionDenied) (\<lambda>_.
           rbind (require_permission (da_role auth) ''memberManage'') (\<lambda>_.
           guard (role_in (umi_role input) [''owner'', ''admin'', ''operator'', ''viewer'']
                  \<and> role_in (umi_status input) [''active'', ''removed'']) Validation)) of
        Inl e \<Rightarrow> (Inl e, d)
      | Inr _ \<Rightarrow> with_tx d (update_member_tx L E auth workspace_id member_id input d))"

definition active_device :: "string \<Rightarrow> string \<Rightarrow> device \<Rightarrow> bool" where
  "active_device workspace_id device_id v \<longleftrightarrow> dev_id v = device_id \<and> dev_workspace_id v = workspace_id
     \<and> dev_status v = ''active''"

definition revoke_device_tx ::
    "libs \<Rightarrow> env \<Rightarrow> device_auth \<Rightarrow> string \<Rightarrow> string \<Rightarrow> db \<Rightarrow> (i64 \<times> db) relay_result" where
  "revoke_device_tx L E auth workspace_id device_id d =
     (let now = to_rfc3339 L (clock E 0)
      in rbind (guard (sql_count (active_device workspace_id device_id) (db_devices d) = 1) NotFound) (\<lambda>_.
         (let d1 = d\<lparr>db_devices := sql_update (active_device workspace_id device_id)
                (\<lambda>v. v\<lparr>dev_status := ''revoked'', dev_revoked_at := Some now, dev_updated_at := now\<rparr>)
                (db_devices d)\<rparr>;
              d2 = d1\<lparr>db_device_sessions := sql_update
                (\<lambda>s. ds_device_id s = device_id \<and> ds_revoked_at s = None)
                (\<lambda>s. s\<lparr>ds_revoked_at := Some now\<rparr>) (db_device_sessions d1)\<rparr>
          in rbind (advance_epoch workspace_id now d2) (\<lambda>(epoch, d3).
             rbind (audit L (uuids E 0) (clock E 1) workspace_id (da_member_id auth)
                      ''device-revoked'' ''device'' device_id (close_workspace_rooms workspace_id now d3)) (\<lambda>d4.
             Inr (epoch, d4))))))"

definition revoke_device ::
    "libs \<Rightarrow> env \<Rightarrow> device_auth \<Rightarrow> string \<Rightarrow> string \<Rightarrow> db \<Rightarrow> i64 relay_result \<times> db" where
  "revoke_device L E auth workspace_id device_id d =
     (case rbind (guard (da_workspace_id auth = workspace_id) PermissionDenied) (\<lambda>_.
           rbind (require_permission (da_role auth) ''memberManage'') (\<lambda>_.
           validate_uuid L device_id)) of
        Inl e \<Rightarrow> (Inl e, d)
      | Inr _ \<Rightarrow> with_tx d (revoke_device_tx L E auth workspace_id device_id d))"

section \<open>Effects of a membership change\<close>

text \<open>The end that \<open>update_member\<close>, \<open>revoke_device\<close> and the first acceptance share.\<close>

lemma membership_change:
  assumes "advance_epoch w now d = Inr (epoch, d1)"
    and "audit L u t w m a ty ti (close_workspace_rooms w now d1) = Inr d2"
  shows "db_members d2 = db_members d" "db_devices d2 = db_devices d"
    "db_device_sessions d2 = db_device_sessions d" "db_accounts d2 = db_accounts d"
    "db_rooms d2 = db_rooms (close_workspace_rooms w now d)"
    "db_workspaces d2 = sql_update (active_workspace w)
       (\<lambda>w. w\<lparr>ws_key_epoch := ws_key_epoch w + 1, ws_updated_at := now\<rparr>) (db_workspaces d)"
    "\<exists>r \<in> set (db_workspaces d). active_workspace w r \<and> epoch = ws_key_epoch r + 1"
proof -
  obtain r where r: "fetch_optional (filter (active_workspace w) (db_workspaces d)) = Some r"
      "epoch = ws_key_epoch r + 1"
    and d1: "d1 = d\<lparr>db_workspaces := sql_update (active_workspace w)
       (\<lambda>w. w\<lparr>ws_key_epoch := ws_key_epoch w + 1, ws_updated_at := now\<rparr>) (db_workspaces d)\<rparr>"
    using assms(1) unfolding advance_epoch_Inr by blast
  note f = audit_fields [OF assms(2)]
  show "db_members d2 = db_members d" "db_devices d2 = db_devices d"
    "db_device_sessions d2 = db_device_sessions d" "db_accounts d2 = db_accounts d"
    "db_rooms d2 = db_rooms (close_workspace_rooms w now d)"
    "db_workspaces d2 = sql_update (active_workspace w)
       (\<lambda>w. w\<lparr>ws_key_epoch := ws_key_epoch w + 1, ws_updated_at := now\<rparr>) (db_workspaces d)"
    using f d1 by (simp_all add: close_workspace_rooms_def)
  show "\<exists>r \<in> set (db_workspaces d). active_workspace w r \<and> epoch = ws_key_epoch r + 1"
    using r fetch_optional_Some_mem [OF r(1)] by auto
qed

lemma no_active_room_after_change:
  assumes "db_rooms d2 = db_rooms (close_workspace_rooms w now d)"
    and "r \<in> set (db_rooms d2)" "tr_workspace_id r = w"
  shows "tr_status r \<noteq> ''active''"
  using assms close_workspace_rooms_closed by metis

lemma update_member_Inr:
  assumes "update_member L E auth w mid input d = (Inr epoch, d')"
  shows "da_workspace_id auth = w \<and> (da_role auth = ''owner'' \<or> da_role auth = ''admin'')
    \<and> (umi_status input = ''active'' \<or> umi_status input = ''removed'')
    \<and> update_member_tx L E auth w mid input d = Inr (epoch, d')"
proof -
  have "da_workspace_id auth = w" "require_permission (da_role auth) ''memberManage'' = Inr ()"
    "role_in (umi_status input) [''active'', ''removed'']"
    "update_member_tx L E auth w mid input d = Inr (epoch, d')"
    using assms by (simp_all add: update_member_def res_iff split: sum.splits)
  then show ?thesis by (simp add: permission_memberManage role_in_def)
qed

text \<open>The parts of a successful \<open>update_member\<close>.\<close>

lemma update_member_steps:
  assumes "update_member_tx L E auth w mid input d = Inr (epoch, d')"
  defines "now \<equiv> to_rfc3339 L (clock E 0)"
  defines "d1 \<equiv> d\<lparr>db_members := sql_update (is_member w mid) (set_member input now) (db_members d)\<rparr>"
  defines "d2 \<equiv> (if umi_status input = ''removed'' then revoke_member_devices w mid now d1 else d1)"
  shows "\<exists>d3. update_member_checks auth w mid input d = Inr () \<and> advance_epoch w now d2 = Inr (epoch, d3)
    \<and> audit L (uuids E 0) (clock E 1) w (da_member_id auth) ''member-updated'' ''member'' mid
        (close_workspace_rooms w now d3) = Inr d'"
  using assms(1) unfolding update_member_tx_def Let_def now_def d1_def d2_def res_iff
  by (elim exE conjE) (auto simp: res_iff split: prod.splits)

lemma revoke_member_devices_fields:
  "db_members (revoke_member_devices w m now d) = db_members d"
  "db_workspaces (revoke_member_devices w m now d) = db_workspaces d"
  "db_rooms (revoke_member_devices w m now d) = db_rooms d"
  "db_accounts (revoke_member_devices w m now d) = db_accounts d"
  by (simp_all add: revoke_member_devices_def Let_def)

lemma update_member_members:
  assumes "update_member_tx L E auth w mid input d = Inr (epoch, d')"
  shows "db_members d' = sql_update (is_member w mid) (set_member input (to_rfc3339 L (clock E 0))) (db_members d)"
  using update_member_steps [OF assms] membership_change(1)
  by (auto simp: revoke_member_devices_fields split: if_splits)

lemma update_member_workspaces:
  assumes "update_member_tx L E auth w mid input d = Inr (epoch, d')"
  shows "\<exists>r \<in> set (db_workspaces d). active_workspace w r \<and> epoch = ws_key_epoch r + 1"
    "db_workspaces d' = sql_update (active_workspace w)
       (\<lambda>w. w\<lparr>ws_key_epoch := ws_key_epoch w + 1, ws_updated_at := to_rfc3339 L (clock E 0)\<rparr>) (db_workspaces d)"
    "db_rooms d' = db_rooms (close_workspace_rooms w (to_rfc3339 L (clock E 0)) d)"
proof -
  let ?now = "to_rfc3339 L (clock E 0)"
  let ?d1 = "d\<lparr>db_members := sql_update (is_member w mid) (set_member input ?now) (db_members d)\<rparr>"
  let ?d2 = "if umi_status input = ''removed'' then revoke_member_devices w mid ?now ?d1 else ?d1"
  have same: "db_workspaces ?d2 = db_workspaces d" "db_rooms ?d2 = db_rooms d"
    by (simp_all add: revoke_member_devices_fields)
  obtain d3 where a: "advance_epoch w ?now ?d2 = Inr (epoch, d3)"
    and b: "audit L (uuids E 0) (clock E 1) w (da_member_id auth) ''member-updated'' ''member'' mid
        (close_workspace_rooms w ?now d3) = Inr d'"
    using update_member_steps [OF assms] by blast
  note m = membership_change [OF a b]
  show "\<exists>r \<in> set (db_workspaces d). active_workspace w r \<and> epoch = ws_key_epoch r + 1"
    using m(7) unfolding same .
  show "db_workspaces d' = sql_update (active_workspace w)
       (\<lambda>w. w\<lparr>ws_key_epoch := ws_key_epoch w + 1, ws_updated_at := ?now\<rparr>) (db_workspaces d)"
    using m(6) unfolding same .
  show "db_rooms d' = db_rooms (close_workspace_rooms w ?now d)"
    using m(5) by (simp add: close_workspace_rooms_def same)
qed

lemma revoke_device_Inr:
  assumes "revoke_device L E auth w v d = (Inr epoch, d')"
  shows "da_workspace_id auth = w \<and> (da_role auth = ''owner'' \<or> da_role auth = ''admin'')
    \<and> revoke_device_tx L E auth w v d = Inr (epoch, d')"
proof -
  have "da_workspace_id auth = w" "require_permission (da_role auth) ''memberManage'' = Inr ()"
    "revoke_device_tx L E auth w v d = Inr (epoch, d')"
    using assms by (simp_all add: revoke_device_def res_iff split: sum.splits)
  then show ?thesis by (simp add: permission_memberManage)
qed

lemma revoke_device_steps:
  assumes "revoke_device_tx L E auth w v d = Inr (epoch, d')"
  defines "now \<equiv> to_rfc3339 L (clock E 0)"
  shows "db_devices d' = sql_update (active_device w v)
      (\<lambda>v. v\<lparr>dev_status := ''revoked'', dev_revoked_at := Some now, dev_updated_at := now\<rparr>) (db_devices d)"
    "db_members d' = db_members d" "db_rooms d' = db_rooms (close_workspace_rooms w now d)"
    "\<exists>r \<in> set (db_workspaces d). active_workspace w r \<and> epoch = ws_key_epoch r + 1"
    "db_workspaces d' = sql_update (active_workspace w)
       (\<lambda>w. w\<lparr>ws_key_epoch := ws_key_epoch w + 1, ws_updated_at := now\<rparr>) (db_workspaces d)"
    "0 < sql_count (active_device w v) (db_devices d)"
proof -
  obtain d3 where c: "sql_count (active_device w v) (db_devices d) = 1"
    and a: "advance_epoch w now (d\<lparr>db_devices := sql_update (active_device w v)
          (\<lambda>v. v\<lparr>dev_status := ''revoked'', dev_revoked_at := Some now, dev_updated_at := now\<rparr>) (db_devices d),
        db_device_sessions := sql_update (\<lambda>s. ds_device_id s = v \<and> ds_revoked_at s = None)
          (\<lambda>s. s\<lparr>ds_revoked_at := Some now\<rparr>) (db_device_sessions d)\<rparr>) = Inr (epoch, d3)"
    and b: "audit L (uuids E 0) (clock E 1) w (da_member_id auth) ''device-revoked'' ''device'' v
        (close_workspace_rooms w now d3) = Inr d'"
    using assms(1) unfolding revoke_device_tx_def Let_def now_def
    by (clarsimp simp: res_iff)
  note m = membership_change [OF a b]
  show "db_devices d' = sql_update (active_device w v)
      (\<lambda>v. v\<lparr>dev_status := ''revoked'', dev_revoked_at := Some now, dev_updated_at := now\<rparr>) (db_devices d)"
    "db_members d' = db_members d" "db_rooms d' = db_rooms (close_workspace_rooms w now d)"
    "\<exists>r \<in> set (db_workspaces d). active_workspace w r \<and> epoch = ws_key_epoch r + 1"
    "db_workspaces d' = sql_update (active_workspace w)
       (\<lambda>w. w\<lparr>ws_key_epoch := ws_key_epoch w + 1, ws_updated_at := now\<rparr>) (db_workspaces d)"
    using m by (simp_all add: close_workspace_rooms_def)
  show "0 < sql_count (active_device w v) (db_devices d)" using c by simp
qed

section \<open>Keys\<close>

text \<open>Statements that change no key column.\<close>

lemma update_keys_ok:
  "keys_ok d \<Longrightarrow> (\<And>m. mem_id (f m) = mem_id m \<and> mem_workspace_id (f m) = mem_workspace_id m
     \<and> mem_account_id (f m) = mem_account_id m) \<Longrightarrow> keys_ok (d\<lparr>db_members := sql_update p f (db_members d)\<rparr>)"
  "keys_ok d \<Longrightarrow> (\<And>v. dev_id (g v) = dev_id v) \<Longrightarrow> keys_ok (d\<lparr>db_devices := sql_update q g (db_devices d)\<rparr>)"
  "keys_ok d \<Longrightarrow> (\<And>s. ds_id (h s) = ds_id s \<and> ds_token_hash (h s) = ds_token_hash s)
     \<Longrightarrow> keys_ok (d\<lparr>db_device_sessions := sql_update r h (db_device_sessions d)\<rparr>)"
  "keys_ok d \<Longrightarrow> (\<And>i. wi_id (k i) = wi_id i \<and> wi_token_hash (k i) = wi_token_hash i)
     \<Longrightarrow> keys_ok (d\<lparr>db_workspace_invitations := sql_update u k (db_workspace_invitations d)\<rparr>)"
  "keys_ok d \<Longrightarrow> keys_ok (d\<lparr>db_workspace_invitations := sql_delete w (db_workspace_invitations d)\<rparr>)"
  by (simp_all add: keys_ok_def map_sql_update distinct_sql_delete)

text \<open>The shared end of a membership change, in the forward direction.\<close>

lemma membership_change_keys:
  "advance_epoch w now d = Inr (epoch, d1) \<Longrightarrow>
     audit L u t w m a ty ti (close_workspace_rooms w now d1) = Inr d2 \<Longrightarrow> keys_ok d \<Longrightarrow> keys_ok d2"
  by (erule audit_keys) (simp add: advance_epoch_keys close_workspace_rooms_keys)

lemmas keys_forward = insert_keeps_keys insert_device_keys audit_keys issue_device_session_keys

lemma bootstrap_tx_keys: "bootstrap_tx L E account input name d = Inr (out, d') \<Longrightarrow> keys_ok d \<Longrightarrow> keys_ok d'"
  unfolding bootstrap_tx_def Let_def by (clarsimp simp: res_iff) ((drule (1) keys_forward)+, assumption)

lemma bootstrap_workspace_keys [keeps_keys]:
  "bootstrap_workspace L E account input d = (r, d') \<Longrightarrow> keys_ok d \<Longrightarrow> keys_ok d'"
  by (auto simp: bootstrap_workspace_def with_tx_def split: sum.splits prod.splits intro: bootstrap_tx_keys)

lemma create_workspace_invitation_keys [keeps_keys]:
  assumes "create_workspace_invitation L E auth input d = (r, d')" "keys_ok d"
  shows "keys_ok d'"
  using assms
  by (auto simp: create_workspace_invitation_def Let_def update_keys_ok split: sum.splits if_splits prod.splits
      intro: insert_keeps_keys(9) [OF _ update_keys_ok(5)])

lemma accept_first_keys:
  assumes "accept_first L E account i dv d = Inr (out, d')" "keys_ok d"
  shows "keys_ok d'"
proof -
  let ?now = "to_rfc3339 L (clock E 1)"
  obtain d1 d2 epoch d3 d4 where
      "insert_member (new_member (wi_member_id i) (wi_workspace_id i) account (wi_role i) ?now) d = Inr d1"
    and "insert_device (wi_workspace_id i) (wi_member_id i) dv ?now d1 = Inr d2"
    and "advance_epoch (wi_workspace_id i) ?now (d2\<lparr>db_workspace_invitations := sql_update
           (\<lambda>j. wi_id j = wi_id i \<and> wi_accepted_at j = None)
           (\<lambda>j. j\<lparr>wi_accepted_at := Some ?now\<rparr>) (db_workspace_invitations d2)\<rparr>) = Inr (epoch, d3)"
    and "audit L (uuids E 0) (clock E 2) (wi_workspace_id i) (wi_member_id i) ''invitation-accepted''
           ''member'' (wi_member_id i) (close_workspace_rooms (wi_workspace_id i) ?now d3) = Inr d4"
    and "issue_device_session L (clock E 3) (uuids E 1) (rand E 0) (wi_workspace_id i) (wi_member_id i)
           (dr_id dv) (wi_role i) epoch d4 = Inr (out, d')"
    using assms(1) unfolding accept_first_def Let_def by (clarsimp simp: res_iff)
  note steps = this
  have "keys_ok d2" using insert_device_keys [OF steps(2) insert_keeps_keys(5) [OF steps(1) assms(2)]] .
  then have "keys_ok d4"
    using membership_change_keys [OF steps(3,4)] by (simp add: update_keys_ok(4))
  then show ?thesis using issue_device_session_keys [OF steps(5)] by simp
qed

lemma accept_workspace_invitation_keys [keeps_keys]:
  "accept_workspace_invitation L E account input d = (r, d') \<Longrightarrow> keys_ok d \<Longrightarrow> keys_ok d'"
  by (auto simp: accept_workspace_invitation_def with_tx_def accept_tx_def accept_again_def Let_def res_iff
      split: sum.splits prod.splits if_splits intro: accept_first_keys issue_device_session_keys)

lemma delete_workspace_keys [keeps_keys]:
  "delete_workspace auth w d = (r, d') \<Longrightarrow> keys_ok d \<Longrightarrow> keys_ok d'"
  by (auto simp: delete_workspace_def delete_workspace_row_def Let_def cascade_delete_keys
      split: sum.splits prod.splits if_splits)

lemma revoke_member_devices_keys: "keys_ok d \<Longrightarrow> keys_ok (revoke_member_devices w m now d)"
  by (simp add: revoke_member_devices_def Let_def keys_ok_def map_sql_update)

lemma update_member_keys [keeps_keys]:
  assumes "update_member L E auth w mid input d = (r, d')" "keys_ok d"
  shows "keys_ok d'"
proof (cases r)
  case (Inr epoch)
  then have tx: "update_member_tx L E auth w mid input d = Inr (epoch, d')"
    using assms(1) update_member_Inr by blast
  have "keys_ok (d\<lparr>db_members := sql_update (is_member w mid) (set_member input now) (db_members d)\<rparr>)" for now
    using assms(2) by (rule update_keys_ok(1)) (simp add: set_member_def)
  then show ?thesis using update_member_steps [OF tx] membership_change_keys
    by (auto simp: revoke_member_devices_keys split: if_split_asm)
next
  case (Inl e)
  then show ?thesis using assms by (auto simp: update_member_def res_iff split: sum.splits)
qed

lemma revoke_device_keys [keeps_keys]:
  assumes "revoke_device L E auth w v d = (r, d')" "keys_ok d"
  shows "keys_ok d'"
proof (cases r)
  case (Inr epoch)
  then have "revoke_device_tx L E auth w v d = Inr (epoch, d')"
    using assms(1) revoke_device_Inr by blast
  then show ?thesis unfolding revoke_device_tx_def Let_def
    by (clarsimp simp: res_iff) (erule (1) membership_change_keys,
      use assms(2) in \<open>simp add: keys_ok_def map_sql_update\<close>)
next
  case (Inl e)
  then show ?thesis using assms by (auto simp: revoke_device_def res_iff split: sum.splits)
qed

section \<open>Properties\<close>

text \<open>C5: A revoked device is cut off at once: no session token, whatever its age, authenticates as
  it, and no terminal room of its workspace is left active.\<close>

theorem revoke_device_cuts_off:
  assumes "revoke_device L E auth w v d = (Inr epoch, d')" "keys_ok d"
  shows "(\<forall>t tok a. authenticate_device L t tok d' = Inr a \<longrightarrow> da_device_id a \<noteq> v)
    \<and> (\<forall>r \<in> set (db_rooms d'). tr_workspace_id r = w \<longrightarrow> tr_status r \<noteq> ''active'')"
proof -
  have tx: "revoke_device_tx L E auth w v d = Inr (epoch, d')" using revoke_device_Inr [OF assms(1)] by blast
  note steps = revoke_device_steps [OF tx]
  obtain x where x: "x \<in> set (db_devices d)" "active_device w v x" using steps(6) by (auto simp: sql_count_pos)
  have dead: "dev_status y \<noteq> ''active''" if y: "y \<in> set (db_devices d')" "dev_id y = v" for y
  proof -
    obtain z where z: "z \<in> set (db_devices d)" "dev_id z = v"
        "y = (if active_device w v z then z\<lparr>dev_status := ''revoked'', dev_revoked_at := Some (to_rfc3339 L (clock E 0)),
                dev_updated_at := to_rfc3339 L (clock E 0)\<rparr> else z)"
      using y unfolding steps(1) sql_update_def by (auto split: if_splits)
    have "distinct (map dev_id (db_devices d))" using assms(2) by (simp add: keys_ok_def)
    then have "z = x" using devices.row_unique [OF _ z(1) x(1)] z(2) x(2) by (simp add: active_device_def)
    then show ?thesis using z(3) x(2) by simp
  qed
  have "da_device_id a \<noteq> v" if "authenticate_device L t tok d' = Inr a" for t tok a
    using authenticate_device_Inr [OF that] dead by (auto simp: active_identity_def)
  moreover have "tr_status r \<noteq> ''active''" if "r \<in> set (db_rooms d')" "tr_workspace_id r = w" for r
    using no_active_room_after_change [OF steps(3) that] .
  ultimately show ?thesis by blast
qed

theorem revoke_device_cuts_off_witness:
  "fst (revoke_device sample_libs sample_env owner_auth ''w1'' ''d1'' sample_db) = Inr 2
   \<and> \<not> (\<exists>t tok a. authenticate_device sample_libs t tok
        (snd (revoke_device sample_libs sample_env owner_auth ''w1'' ''d1'' sample_db)) = Inr a
        \<and> da_device_id a = ''d1'')"
proof -
  let ?r = "revoke_device sample_libs sample_env owner_auth ''w1'' ''d1'' sample_db"
  have ok: "fst ?r = Inr 2" by code_simp
  then have "?r = (Inr 2, snd ?r)" by (simp add: prod_eq_iff)
  then show ?thesis using revoke_device_cuts_off [OF _ sample_keys] ok by blast
qed

text \<open>Removing a member from a workspace ends its access: no device session of the workspace
  authenticates as that member any more.\<close>

theorem removed_member_cut_off:
  assumes "update_member L E auth w mid input d = (Inr epoch, d')" "umi_status input = ''removed''"
    and "authenticate_device L t tok d' = Inr a"
  shows "\<not> (da_workspace_id a = w \<and> da_member_id a = mid)"
proof
  assume a: "da_workspace_id a = w \<and> da_member_id a = mid"
  have tx: "update_member_tx L E auth w mid input d = Inr (epoch, d')" using update_member_Inr [OF assms(1)] by blast
  obtain v m where m: "m \<in> set (db_members d')" "mem_id m = mid" "mem_workspace_id m = w" "mem_status m = ''active''"
    using authenticate_device_Inr [OF assms(3)] a by (auto simp: active_identity_def)
  have "\<not> is_member w mid m \<or> (\<exists>m0. m = set_member input (to_rfc3339 L (clock E 0)) m0)"
    using m(1) unfolding update_member_members [OF tx] set_sql_update by blast
  then show False
  proof (elim disjE exE)
    fix m0 assume "m = set_member input (to_rfc3339 L (clock E 0)) m0"
    then show False using m(4) assms(2) by (simp add: set_member_def)
  qed (simp add: is_member_def m)
qed

theorem removed_member_cut_off_witness:
  "is_ok (authenticate_device sample_libs (seconds 101) owner_token (snd (update_member sample_libs sample_env
       owner_auth ''w1'' ''m1'' \<lparr>umi_role = ''operator'', umi_status = ''removed''\<rparr> sample_db)))
   \<and> \<not> (da_workspace_id owner_auth = ''w1'' \<and> da_member_id owner_auth = ''m1'')"
proof -
  let ?r = "update_member sample_libs sample_env owner_auth ''w1'' ''m1''
    \<lparr>umi_role = ''operator'', umi_status = ''removed''\<rparr> sample_db"
  have "fst ?r = Inr 2" by code_simp
  then have r: "?r = (Inr 2, snd ?r)" by (simp add: prod_eq_iff)
  have a: "authenticate_device sample_libs (seconds 101) owner_token (snd ?r)
    = Inr (owner_auth\<lparr>da_key_epoch := 2\<rparr>)" by code_simp
  then show ?thesis using removed_member_cut_off [OF r _ a] by simp
qed

text \<open>C6: A workspace that has an active owner keeps one, whatever member update is accepted.\<close>

theorem update_member_keeps_owner:
  assumes "update_member L E auth w mid input d = (r, d')" "keys_ok d"
    and "\<exists>m \<in> set (db_members d). active_owner x m"
  shows "\<exists>m \<in> set (db_members d'). active_owner x m"
proof (cases r)
  case (Inl e)
  then show ?thesis using assms by (auto simp: update_member_def res_iff split: sum.splits)
next
  case (Inr epoch)
  then have tx: "update_member_tx L E auth w mid input d = Inr (epoch, d')" using assms(1) update_member_Inr by blast
  let ?f = "set_member input (to_rfc3339 L (clock E 0))"
  have mem: "db_members d' = sql_update (is_member w mid) ?f (db_members d)" using update_member_members [OF tx] .
  have checks: "update_member_checks auth w mid input d = Inr ()" using update_member_steps [OF tx] by blast
  have key: "distinct (map mem_id (db_members d))" using assms(2) by (simp add: keys_ok_def)
  obtain m where m: "m \<in> set (db_members d)" "active_owner x m" using assms(3) by blast
  have stays: "n \<in> set (db_members d')" if "n \<in> set (db_members d)" "\<not> is_member w mid n" for n
    using that unfolding mem by (auto simp: set_sql_update)
  show ?thesis
  proof (cases "is_member w mid m \<and> \<not> active_owner x (?f m)")
    case False
    then consider "\<not> is_member w mid m" | "is_member w mid m" "active_owner x (?f m)" by blast
    then show ?thesis
    proof cases
      case 1
      then show ?thesis using stays m by blast
    next
      case 2
      then have "?f m \<in> set (db_members d')" using m(1) unfolding mem by (auto simp: set_sql_update)
      then show ?thesis using 2 by blast
    qed
  next
    case True
    then have wx: "w = x" "mem_id m = mid" using m(2) by (auto simp: is_member_def active_owner_def)
    obtain c where c: "fetch_optional (filter (is_member w mid) (db_members d)) = Some c"
        "\<not> (mem_role c = ''owner'' \<and> mem_status c = ''active''
          \<and> (umi_role input \<noteq> ''owner'' \<or> umi_status input \<noteq> ''active'')
          \<and> sql_count (active_owner w) (db_members d) \<le> 1)"
      using checks by (auto simp: update_member_checks_def res_iff)
    have "c = m" using fetch_optional_Some_mem [OF c(1)] members.row_unique [OF key _ m(1)] wx
      by (auto simp: is_member_def)
    then have "1 < sql_count (active_owner x) (db_members d)"
      using c(2) m(2) True wx by (auto simp: active_owner_def set_member_def is_member_def)
    then have "\<not> (\<forall>n \<in> set (db_members d). active_owner x n \<longrightarrow> mem_id n = mid)"
      using sql_count_le_key [OF key, of "\<lambda>n. active_owner x n \<and> mem_id n = mid" mid]
        filter_cong [of "db_members d" _ "active_owner x" "\<lambda>n. active_owner x n \<and> mem_id n = mid"]
      by (fastforce simp: sql_count_def)
    then obtain n where "n \<in> set (db_members d)" "active_owner x n" "mem_id n \<noteq> mid" by blast
    then show ?thesis using stays [of n] by (auto simp: is_member_def)
  qed
qed

theorem update_member_keeps_owner_witness:
  "\<exists>m \<in> set (db_members (snd (update_member sample_libs sample_env owner_auth ''w1'' ''m0''
     \<lparr>umi_role = ''viewer'', umi_status = ''active''\<rparr> sample_db))). active_owner ''w1'' m"
proof -
  have "sample_member ''m0'' ''w1'' ''a0'' ''owner'' \<in> set (db_members sample_db)"
    "active_owner ''w1'' (sample_member ''m0'' ''w1'' ''a0'' ''owner'')"
    by (simp_all add: sample_db_def active_owner_def sample_member_def)
  then show ?thesis using update_member_keeps_owner [OF prod.collapse [symmetric] sample_keys] by blast
qed

end
