(* ===== verification/RelayRooms.thy ===== *)
theory RelayRooms
  imports RelayWorkspaces "HOL-Library.Product_Lexorder" "HOL-Library.Option_ord"
begin

text \<open>
  Terminal rooms of the relay (\<open>services/team-relay/src/terminal.rs\<close>): creating a room, routing
  and accepting its invitations, participants, the control lease and closing. The state is the
  database and the broadcast hubs (\<open>hubs\<close>): a channel is the log of the frames sent to it, its
  index in \<open>rl_channels\<close> is the identity of the \<open>broadcast::Sender\<close>.
\<close>

definition MAX_ENVELOPE_BYTES :: nat where "MAX_ENVELOPE_BYTES = 128 * 1024"
definition MAX_ACTIVE_ROOMS :: nat where "MAX_ACTIVE_ROOMS = 64"
definition MAX_ROOM_HISTORY :: nat where "MAX_ROOM_HISTORY = 4096"
definition MAX_ROOM_PARTICIPANTS :: nat where "MAX_ROOM_PARTICIPANTS = 64"

section \<open>State\<close>

record broadcast_frame =
  bf_json :: string
  bf_direction :: string
  bf_sequence :: "u64 option"
  bf_host_device_id :: string

record relay =
  rl_db :: db
  rl_hubs :: "(string \<times> nat) list"
  rl_channels :: "broadcast_frame list list"

definition new_relay :: "db \<Rightarrow> relay" where
  "new_relay d = \<lparr>rl_db = d, rl_hubs = [], rl_channels = []\<rparr>"

text \<open>The transaction of an operation, on the database part of the state.\<close>

definition run_db :: "relay \<Rightarrow> ('a relay_result \<times> db) \<Rightarrow> 'a relay_result \<times> relay" where
  "run_db s r = (fst r, s\<lparr>rl_db := snd r\<rparr>)"

definition sender :: "string \<Rightarrow> relay \<Rightarrow> nat \<times> relay" where
  "sender room_id s = (case map_of (rl_hubs s) room_id of
     Some c \<Rightarrow> (c, s)
   | None \<Rightarrow> (length (rl_channels s),
       s\<lparr>rl_hubs := (room_id, length (rl_channels s)) # rl_hubs s, rl_channels := rl_channels s @ [[]]\<rparr>))"

definition send_to :: "string \<Rightarrow> broadcast_frame \<Rightarrow> relay \<Rightarrow> relay" where
  "send_to room_id frame s = (let (c, s) = sender room_id s
     in s\<lparr>rl_channels := (rl_channels s)[c := rl_channels s ! c @ [frame]]\<rparr>)"

definition remove_hub :: "string \<Rightarrow> relay \<Rightarrow> relay" where
  "remove_hub room_id s = s\<lparr>rl_hubs := filter (\<lambda>h. fst h \<noteq> room_id) (rl_hubs s)\<rparr>"

section \<open>Authorisation\<close>

text \<open>The join of a room with one participant record that was not removed.\<close>

definition participant_of :: "string \<Rightarrow> device_auth \<Rightarrow> room_participant \<Rightarrow> bool" where
  "participant_of room_id auth p \<longleftrightarrow> rp_room_id p = room_id \<and> rp_device_id p = da_device_id auth
     \<and> rp_member_id p = da_member_id auth \<and> rp_removed_at p = None"

definition view_of_room :: "terminal_room \<Rightarrow> room_view" where
  "view_of_room r = \<lparr>rv_id = tr_id r, rv_workspace_id = tr_workspace_id r,
     rv_host_member_id = tr_host_member_id r, rv_host_device_id = tr_host_device_id r,
     rv_key_epoch = tr_key_epoch r, rv_status = tr_status r\<rparr>"

definition entered_rooms :: "string \<Rightarrow> device_auth \<Rightarrow> db \<Rightarrow> terminal_room list" where
  "entered_rooms room_id auth d = [r. r \<leftarrow> db_rooms d, p \<leftarrow> db_participants d,
     tr_id r = room_id \<and> participant_of room_id auth p]"

definition authorize_room :: "device_auth \<Rightarrow> string \<Rightarrow> db \<Rightarrow> room_view relay_result" where
  "authorize_room auth room_id d =
     rbind (require_device_permission auth ''terminalView'') (\<lambda>_.
     rbind (ok_or (fetch_optional (entered_rooms room_id auth d)) PermissionDenied) (\<lambda>r.
     rbind (guard (\<not> (tr_workspace_id r \<noteq> da_workspace_id auth \<or> tr_key_epoch r \<noteq> da_key_epoch auth
                      \<or> tr_status r \<noteq> ''active'')) PermissionDenied) (\<lambda>_.
     Inr (view_of_room r))))"

definition host_room :: "device_auth \<Rightarrow> string \<Rightarrow> db \<Rightarrow> room_view relay_result" where
  "host_room auth room_id d =
     rbind (require_device_permission auth ''shareManage'') (\<lambda>_.
     rbind (authorize_room auth room_id d) (\<lambda>room.
     rbind (guard (\<not> (rv_host_member_id room \<noteq> da_member_id auth \<or> rv_host_device_id room \<noteq> da_device_id auth))
              PermissionDenied) (\<lambda>_.
     Inr room)))"

section \<open>Broadcasts\<close>

definition broadcast_control ::
    "libs \<Rightarrow> string \<Rightarrow> string \<Rightarrow> control_lease_output option \<Rightarrow> relay \<Rightarrow> unit relay_result \<times> relay" where
  "broadcast_control L room_id host_device_id lease s =
     (case json_server L (Control lease) of
        None \<Rightarrow> (Inl Internal, s)
      | Some payload \<Rightarrow> (Inr (), send_to room_id \<lparr>bf_json = payload, bf_direction = ''control'',
          bf_sequence = None, bf_host_device_id = host_device_id\<rparr> s))"

definition participant_rows :: "string \<Rightarrow> db \<Rightarrow> (room_participant \<times> member) list" where
  "participant_rows room_id d =
     [(p, m). p \<leftarrow> db_participants d, r \<leftarrow> db_rooms d, m \<leftarrow> db_members d, v \<leftarrow> db_devices d,
        tr_id r = rp_room_id p \<and> mem_id m = rp_member_id p \<and> mem_workspace_id m = tr_workspace_id r
        \<and> dev_id v = rp_device_id p \<and> dev_member_id v = rp_member_id p
        \<and> dev_workspace_id v = tr_workspace_id r
        \<and> rp_room_id p = room_id \<and> rp_removed_at p = None \<and> tr_status r = ''active''
        \<and> mem_status m = ''active'' \<and> dev_status v = ''active'']"

definition room_participants :: "string \<Rightarrow> db \<Rightarrow> terminal_participant_output list relay_result" where
  "room_participants room_id d =
     (let rows = sort_key (\<lambda>(p, m). (rp_joined_at p, rp_device_id p)) (participant_rows room_id d)
      in if MAX_ROOM_PARTICIPANTS < length rows then Inl Internal
         else Inr (map (\<lambda>(p, m). \<lparr>tpo_member_id = rp_member_id p, tpo_device_id = rp_device_id p,
                tpo_role = mem_role m, tpo_joined_at = rp_joined_at p\<rparr>) rows))"

definition broadcast_participants :: "libs \<Rightarrow> string \<Rightarrow> string \<Rightarrow> relay \<Rightarrow> unit relay_result \<times> relay" where
  "broadcast_participants L room_id host_device_id s =
     (case room_participants room_id (rl_db s) of
        Inl e \<Rightarrow> (Inl e, s)
      | Inr participants \<Rightarrow> (case json_server L (Participants participants) of
            None \<Rightarrow> (Inl Internal, s)
          | Some payload \<Rightarrow> (Inr (), send_to room_id \<lparr>bf_json = payload, bf_direction = ''participants'',
              bf_sequence = None, bf_host_device_id = host_device_id\<rparr> s)))"

definition current_control :: "libs \<Rightarrow> int \<Rightarrow> string \<Rightarrow> db \<Rightarrow> control_lease_output option" where
  "current_control L t room_id d =
     map_option (\<lambda>l. \<lparr>clo_lease_id = cl_lease_id l, clo_member_id = cl_member_id l,
         clo_device_id = cl_device_id l, clo_generation = as_u64 (cl_generation l),
         clo_expires_at = cl_expires_at l\<rparr>)
       (fetch_optional (filter (\<lambda>l. cl_room_id l = room_id \<and> to_rfc3339 L t < cl_expires_at l) (db_leases d)))"

section \<open>Signatures and the shape of invitations\<close>

definition decode_signing_key :: "libs \<Rightarrow> string \<Rightarrow> string relay_result" where
  "decode_signing_key L v =
     rbind (ok_or (strip_prefix ''ed25519:'' v) Validation) (\<lambda>encoded.
     rbind (ok_or (b64_decode L encoded) Validation) (\<lambda>bytes.
     rbind (guard (length bytes = 32) Validation) (\<lambda>_.
     rbind (guard (ed_key_ok L bytes) Validation) (\<lambda>_. Inr bytes))))"

definition decode_signature :: "libs \<Rightarrow> string option \<Rightarrow> string relay_result" where
  "decode_signature L v =
     rbind (ok_or (case v of None \<Rightarrow> None | Some v \<Rightarrow> strip_prefix ''ed25519:'' v) Validation) (\<lambda>encoded.
     rbind (ok_or (b64_decode L encoded) Validation) (\<lambda>bytes.
     rbind (guard (ed_signature_ok L bytes) Validation) (\<lambda>_. Inr bytes)))"

text \<open>The signature check that invitations and frames share, on the canonical unsigned text.\<close>

definition verify_signature :: "libs \<Rightarrow> string option \<Rightarrow> string option \<Rightarrow> string \<Rightarrow> unit relay_result" where
  "verify_signature L payload signature signing_public_key =
     rbind (ok_or payload Validation) (\<lambda>payload.
     rbind (decode_signing_key L signing_public_key) (\<lambda>key.
     rbind (decode_signature L signature) (\<lambda>sig.
     guard (ed_verify L key payload sig) Authentication)))"

definition verify_invitation_signature ::
    "libs \<Rightarrow> team_terminal_invitation \<Rightarrow> string \<Rightarrow> unit relay_result" where
  "verify_invitation_signature L i signing_public_key =
     verify_signature L (jcs_invitation L (i\<lparr>tti_signature := None\<rparr>)) (tti_signature i) signing_public_key"

definition b64_length :: "libs \<Rightarrow> nat \<Rightarrow> string \<Rightarrow> bool" where
  "b64_length L n v = (case b64_decode L v of None \<Rightarrow> False | Some bytes \<Rightarrow> length bytes = n)"

definition validate_invitation_shape :: "libs \<Rightarrow> int \<Rightarrow> team_terminal_invitation \<Rightarrow> unit relay_result" where
  "validate_invitation_shape L t i =
     rbind (ok_or (jcs_invitation L i) Validation) (\<lambda>text.
     rbind (guard (\<not> (MAX_ENVELOPE_BYTES < length text \<or> tti_schema_version i \<noteq> 1
                      \<or> tti_key_epoch i < 1 \<or> tti_next_input_sequence i = 0)) Validation) (\<lambda>_.
     rbind (rmap (validate_uuid L) [tti_room_id i, tti_workspace_id i, tti_host_member_id i,
              tti_host_device_id i, tti_recipient_member_id i, tti_recipient_device_id i]) (\<lambda>_.
     rbind (ok_or (parse_rfc3339 L (tti_created_at i)) Validation) (\<lambda>created.
     rbind (ok_or (parse_rfc3339 L (tti_expires_at i)) Validation) (\<lambda>expires.
     rbind (guard (\<not> (expires \<le> t \<or> expires \<le> created \<or> minutes 5 < expires - created)) Validation) (\<lambda>_.
     guard (\<not> ((case strip_prefix ''x25519:'' (tti_ephemeral_public_key i) of
                   None \<Rightarrow> True | Some v \<Rightarrow> \<not> b64_length L 32 v)
               \<or> \<not> b64_length L 12 (tti_key_nonce i)
               \<or> \<not> b64_length L 48 (tti_wrapped_room_key i))) Validation))))))"

section \<open>Operations\<close>

text \<open>\<open>DELETE FROM terminal_rooms\<close> with its cascades to the rows of the rooms.\<close>

definition delete_rooms :: "(terminal_room \<Rightarrow> bool) \<Rightarrow> db \<Rightarrow> db" where
  "delete_rooms p d =
     (let gone = (\<lambda>i. list_ex (\<lambda>r. tr_id r = i \<and> p r) (db_rooms d))
      in d\<lparr>db_rooms := sql_delete p (db_rooms d),
           db_room_invitations := sql_delete (\<lambda>i. gone (ri_room_id i)) (db_room_invitations d),
           db_participants := sql_delete (\<lambda>x. gone (rp_room_id x)) (db_participants d),
           db_leases := sql_delete (\<lambda>l. gone (cl_room_id l)) (db_leases d),
           db_frames := sql_delete (\<lambda>f. gone (rf_room_id f)) (db_frames d)\<rparr>)"

definition closed_room :: "string \<Rightarrow> terminal_room \<Rightarrow> bool" where
  "closed_room workspace_id r \<longleftrightarrow> tr_workspace_id r = workspace_id \<and> tr_status r = ''closed''"

definition active_room :: "string \<Rightarrow> terminal_room \<Rightarrow> bool" where
  "active_room workspace_id r \<longleftrightarrow> tr_workspace_id r = workspace_id \<and> tr_status r = ''active''"

text \<open>\<open>ORDER BY closed_at DESC, id DESC LIMIT 4096\<close>.\<close>

definition recent_rooms :: "string \<Rightarrow> db \<Rightarrow> string list" where
  "recent_rooms workspace_id d = map tr_id (newest MAX_ROOM_HISTORY (\<lambda>r. (tr_closed_at r, tr_id r))
     (filter (closed_room workspace_id) (db_rooms d)))"

definition create_room_tx ::
    "libs \<Rightarrow> env \<Rightarrow> device_auth \<Rightarrow> create_room_input \<Rightarrow> db \<Rightarrow> (room_view \<times> db) relay_result" where
  "create_room_tx L E auth input d =
     (let now = to_rfc3339 L (clock E 0);
          d = delete_rooms (\<lambda>r. closed_room (da_workspace_id auth) r
                \<and> tr_id r \<notin> set (recent_rooms (da_workspace_id auth) d)) d;
          room = \<lparr>tr_id = cri_room_id input, tr_workspace_id = da_workspace_id auth,
            tr_host_member_id = da_member_id auth, tr_host_device_id = da_device_id auth,
            tr_key_epoch = da_key_epoch auth, tr_status = ''active'', tr_next_output_sequence = 1,
            tr_lease_generation = 0, tr_created_at = now, tr_closed_at = None\<rparr>
      in rbind (guard (sql_count (active_room (da_workspace_id auth)) (db_rooms d) < MAX_ACTIVE_ROOMS)
                  Conflict) (\<lambda>_.
         rbind (map_err map_conflict (insert_room room d)) (\<lambda>d.
         rbind (map_err from_sql (insert_participant
           \<lparr>rp_room_id = cri_room_id input, rp_member_id = da_member_id auth,
            rp_device_id = da_device_id auth, rp_next_input_sequence = 1, rp_joined_at = now,
            rp_removed_at = None\<rparr> d)) (\<lambda>d.
         rbind (audit L (uuids E 0) (clock E 1) (da_workspace_id auth) (da_member_id auth)
                  ''terminal-room-created'' ''terminalRoom'' (cri_room_id input) d) (\<lambda>d.
         Inr (\<lparr>rv_id = cri_room_id input, rv_workspace_id = da_workspace_id auth,
               rv_host_member_id = da_member_id auth, rv_host_device_id = da_device_id auth,
               rv_key_epoch = da_key_epoch auth, rv_status = ''active''\<rparr>, d))))))"

definition create_room ::
    "libs \<Rightarrow> env \<Rightarrow> device_auth \<Rightarrow> create_room_input \<Rightarrow> db \<Rightarrow> room_view relay_result \<times> db" where
  "create_room L E auth input d =
     (case rbind (require_device_permission auth ''shareManage'') (\<lambda>_.
           rbind (validate_uuid L (cri_room_id input)) (\<lambda>_.
           guard (cri_key_epoch input = da_key_epoch auth) PermissionDenied)) of
        Inl e \<Rightarrow> (Inl e, d)
      | Inr _ \<Rightarrow> with_tx d (create_room_tx L E auth input d))"

definition recipient_rows :: "device_auth \<Rightarrow> team_terminal_invitation \<Rightarrow> db \<Rightarrow> device list" where
  "recipient_rows auth i d = [v. v \<leftarrow> db_devices d, m \<leftarrow> db_members d,
     mem_id m = dev_member_id v \<and> mem_workspace_id m = dev_workspace_id v
     \<and> dev_id v = tti_recipient_device_id i \<and> dev_workspace_id v = da_workspace_id auth
     \<and> dev_member_id v = tti_recipient_member_id i
     \<and> dev_status v = ''active'' \<and> mem_status m = ''active'']"

definition signing_key_of :: "string \<Rightarrow> db \<Rightarrow> string relay_result" where
  "signing_key_of device_id d = ok_or (map_option dev_signing_public_key
     (fetch_optional (filter (\<lambda>v. dev_id v = device_id \<and> dev_status v = ''active'') (db_devices d))))
     (from_sql RowNotFound)"

text \<open>The devices that take a place of the room: participants and open invitations (\<open>UNION\<close>).\<close>

definition room_places :: "string \<Rightarrow> db \<Rightarrow> string list" where
  "room_places room_id d = remdups
     (map rp_device_id (filter (\<lambda>p. rp_room_id p = room_id \<and> rp_removed_at p = None) (db_participants d))
      @ map ri_recipient_device_id
          (filter (\<lambda>i. ri_room_id i = room_id \<and> ri_accepted_at i = None) (db_room_invitations d)))"

definition route_invitation ::
    "libs \<Rightarrow> env \<Rightarrow> device_auth \<Rightarrow> string \<Rightarrow> team_terminal_invitation \<Rightarrow> db \<Rightarrow> unit relay_result \<times> db" where
  "route_invitation L E auth room_id i d =
     (case rbind (validate_invitation_shape L (clock E 0) i) (\<lambda>_.
           rbind (host_room auth room_id d) (\<lambda>_.
           rbind (guard (\<not> (tti_room_id i \<noteq> room_id \<or> tti_workspace_id i \<noteq> da_workspace_id auth
                            \<or> tti_key_epoch i \<noteq> da_key_epoch auth
                            \<or> tti_host_member_id i \<noteq> da_member_id auth
                            \<or> tti_host_device_id i \<noteq> da_device_id auth)) Validation) (\<lambda>_.
           rbind (guard (length (recipient_rows auth i d) = 1) PermissionDenied) (\<lambda>_.
           rbind (signing_key_of (da_device_id auth) d) (\<lambda>signing_key.
           rbind (verify_invitation_signature L i signing_key) (\<lambda>_.
           rbind (ok_or (json_invitation L i) Internal) (\<lambda>envelope.
           rbind (guard (\<not> (MAX_ROOM_PARTICIPANTS \<le> length (room_places room_id d)
                \<and> sql_count (\<lambda>j. ri_room_id j = room_id
                    \<and> ri_recipient_device_id j = tti_recipient_device_id i) (db_room_invitations d) = 0))
              Conflict) (\<lambda>_.
           map_err from_sql (upsert_room_invitation
             \<lparr>ri_room_id = room_id, ri_recipient_device_id = tti_recipient_device_id i,
              ri_envelope_json = envelope, ri_expires_at = tti_expires_at i, ri_accepted_at = None,
              ri_created_at = to_rfc3339 L (clock E 1)\<rparr> d))))))))) of
        Inl e \<Rightarrow> (Inl e, d)
      | Inr d' \<Rightarrow> (Inr (), d'))"

definition list_invitations :: "libs \<Rightarrow> int \<Rightarrow> device_auth \<Rightarrow> db \<Rightarrow> routed_room_invitation list relay_result" where
  "list_invitations L t auth d =
     rbind (require_device_permission auth ''terminalView'') (\<lambda>_.
     rmap (\<lambda>i. rbind (ok_or (parse_invitation L (ri_envelope_json i)) Internal) (\<lambda>invitation.
             Inr \<lparr>rri_room_id = ri_room_id i, rri_invitation = invitation\<rparr>))
       (sort_key ri_created_at [i. i \<leftarrow> db_room_invitations d, r \<leftarrow> db_rooms d,
          tr_id r = ri_room_id i \<and> ri_recipient_device_id i = da_device_id auth
          \<and> ri_accepted_at i = None \<and> to_rfc3339 L t < ri_expires_at i \<and> tr_status r = ''active''
          \<and> tr_workspace_id r = da_workspace_id auth \<and> tr_key_epoch r = da_key_epoch auth]))"

definition join_rows :: "string \<Rightarrow> device_auth \<Rightarrow> string \<Rightarrow> db \<Rightarrow> (terminal_room \<times> room_invitation) list" where
  "join_rows room_id auth now d = [(r, i). r \<leftarrow> db_rooms d, i \<leftarrow> db_room_invitations d,
     ri_room_id i = tr_id r \<and> ri_recipient_device_id i = da_device_id auth \<and> tr_id r = room_id
     \<and> ri_accepted_at i = None \<and> now < ri_expires_at i]"

definition join_room_tx ::
    "libs \<Rightarrow> env \<Rightarrow> device_auth \<Rightarrow> string \<Rightarrow> db \<Rightarrow> (room_view \<times> db) relay_result" where
  "join_room_tx L E auth room_id d =
     rbind (ok_or (fetch_optional (join_rows room_id auth (to_rfc3339 L (clock E 0)) d)) NotFound) (\<lambda>(r, i).
     rbind (guard (\<not> (tr_workspace_id r \<noteq> da_workspace_id auth \<or> tr_key_epoch r \<noteq> da_key_epoch auth
                      \<or> tr_status r \<noteq> ''active'')) PermissionDenied) (\<lambda>_.
     rbind (ok_or (parse_invitation L (ri_envelope_json i)) Internal) (\<lambda>invitation.
     rbind (guard (\<not> (tti_recipient_member_id invitation \<noteq> da_member_id auth
                      \<or> tti_recipient_device_id invitation \<noteq> da_device_id auth)) PermissionDenied) (\<lambda>_.
     (let now = to_rfc3339 L (clock E 1)
      in rbind (map_err from_sql (upsert_participant
           \<lparr>rp_room_id = room_id, rp_member_id = da_member_id auth, rp_device_id = da_device_id auth,
            rp_next_input_sequence = as_i64 (tti_next_input_sequence invitation), rp_joined_at = now,
            rp_removed_at = None\<rparr> d)) (\<lambda>d.
         (let d = d\<lparr>db_room_invitations := sql_update
                (\<lambda>i. ri_room_id i = room_id \<and> ri_recipient_device_id i = da_device_id auth
                     \<and> ri_accepted_at i = None)
                (\<lambda>i. i\<lparr>ri_accepted_at := Some now\<rparr>) (db_room_invitations d)\<rparr>
          in rbind (audit L (uuids E 0) (clock E 2) (da_workspace_id auth) (da_member_id auth)
                      ''terminal-room-joined'' ''terminalRoom'' room_id d) (\<lambda>d.
             Inr (\<lparr>rv_id = room_id, rv_workspace_id = tr_workspace_id r,
                   rv_host_member_id = tr_host_member_id r, rv_host_device_id = tr_host_device_id r,
                   rv_key_epoch = tr_key_epoch r, rv_status = tr_status r\<rparr>, d)))))))))"

definition join_room ::
    "libs \<Rightarrow> env \<Rightarrow> device_auth \<Rightarrow> string \<Rightarrow> relay \<Rightarrow> room_view relay_result \<times> relay" where
  "join_room L E auth room_id s =
     (case require_device_permission auth ''terminalView'' of
        Inl e \<Rightarrow> (Inl e, s)
      | Inr _ \<Rightarrow> (case with_tx (rl_db s) (join_room_tx L E auth room_id (rl_db s)) of
            (Inl e, d) \<Rightarrow> (Inl e, s\<lparr>rl_db := d\<rparr>)
          | (Inr room, d) \<Rightarrow> (Inr room, snd (broadcast_participants L room_id (rv_host_device_id room)
                (s\<lparr>rl_db := d\<rparr>)))))"

text \<open>The transaction of \<open>leave_room\<close> returns whether a lease was deleted.\<close>

definition leave_room_tx ::
    "libs \<Rightarrow> env \<Rightarrow> device_auth \<Rightarrow> string \<Rightarrow> db \<Rightarrow> (bool \<times> db) relay_result" where
  "leave_room_tx L E auth room_id d =
     (let now = to_rfc3339 L (clock E 0);
          theirs = (\<lambda>l. cl_room_id l = room_id \<and> cl_device_id l = da_device_id auth)
      in rbind (guard (sql_count (participant_of room_id auth) (db_participants d) = 1) NotFound) (\<lambda>_.
         rbind (audit L (uuids E 0) (clock E 1) (da_workspace_id auth) (da_member_id auth)
                  ''terminal-room-left'' ''terminalRoom'' room_id
                  (d\<lparr>db_participants := sql_update (participant_of room_id auth)
                        (\<lambda>p. p\<lparr>rp_removed_at := Some now\<rparr>) (db_participants d),
                     db_leases := sql_delete theirs (db_leases d)\<rparr>)) (\<lambda>d'.
         Inr (0 < sql_count theirs (db_leases d), d'))))"

definition leave_room ::
    "libs \<Rightarrow> env \<Rightarrow> device_auth \<Rightarrow> string \<Rightarrow> relay \<Rightarrow> unit relay_result \<times> relay" where
  "leave_room L E auth room_id s =
     (case rbind (validate_uuid L room_id) (\<lambda>_.
           rbind (authorize_room auth room_id (rl_db s)) (\<lambda>room.
           rbind (guard (rv_host_device_id room \<noteq> da_device_id auth) Validation) (\<lambda>_. Inr room))) of
        Inl e \<Rightarrow> (Inl e, s)
      | Inr room \<Rightarrow> (case with_tx (rl_db s) (leave_room_tx L E auth room_id (rl_db s)) of
            (Inl e, d) \<Rightarrow> (Inl e, s\<lparr>rl_db := d\<rparr>)
          | (Inr revoked, d) \<Rightarrow>
              (let s1 = snd (broadcast_participants L room_id (rv_host_device_id room) (s\<lparr>rl_db := d\<rparr>))
               in if revoked then broadcast_control L room_id (rv_host_device_id room) None s1
                  else (Inr (), s1))))"

definition control_targets :: "string \<Rightarrow> string \<Rightarrow> db \<Rightarrow> (room_participant \<times> member) list" where
  "control_targets room_id device_id d =
     [(p, m). p \<leftarrow> db_participants d, v \<leftarrow> db_devices d, m \<leftarrow> db_members d,
        dev_id v = rp_device_id p \<and> dev_member_id v = rp_member_id p
        \<and> mem_id m = rp_member_id p \<and> mem_workspace_id m = dev_workspace_id v
        \<and> rp_room_id p = room_id \<and> rp_device_id p = device_id \<and> rp_removed_at p = None
        \<and> dev_status v = ''active'' \<and> mem_status m = ''active'']"

definition grant_checks ::
    "device_auth \<Rightarrow> string \<Rightarrow> grant_control_input \<Rightarrow> db \<Rightarrow> string relay_result" where
  "grant_checks auth room_id input d =
     rbind (guard (10 \<le> gci_duration_seconds input \<and> gci_duration_seconds input \<le> 300) Validation) (\<lambda>_.
     rbind (host_room auth room_id d) (\<lambda>_.
     rbind (ok_or (fetch_optional (control_targets room_id (gci_device_id input) d)) NotFound) (\<lambda>(p, m).
     rbind (guard (role_in (mem_role m) [''owner'', ''admin'', ''operator'']) PermissionDenied) (\<lambda>_.
     Inr (rp_member_id p)))))"

text \<open>\<open>UPDATE terminal_rooms SET lease_generation=lease_generation+1 ... RETURNING\<close>.\<close>

definition open_room :: "string \<Rightarrow> terminal_room \<Rightarrow> bool" where
  "open_room room_id r \<longleftrightarrow> tr_id r = room_id \<and> tr_status r = ''active''"

definition next_generation :: "string \<Rightarrow> db \<Rightarrow> (i64 \<times> db) relay_result" where
  "next_generation room_id d =
     (case fetch_optional (filter (open_room room_id) (db_rooms d)) of
        None \<Rightarrow> Inl (from_sql RowNotFound)
      | Some r \<Rightarrow> Inr (tr_lease_generation r + 1, d\<lparr>db_rooms := sql_update (open_room room_id)
          (\<lambda>r. r\<lparr>tr_lease_generation := tr_lease_generation r + 1\<rparr>) (db_rooms d)\<rparr>))"

definition grant_control_tx ::
    "libs \<Rightarrow> env \<Rightarrow> device_auth \<Rightarrow> string \<Rightarrow> grant_control_input \<Rightarrow> string \<Rightarrow> db
      \<Rightarrow> (control_lease_output \<times> db) relay_result" where
  "grant_control_tx L E auth room_id input member_id d =
     (let t = clock E 0; expires_at = t + seconds (int (gci_duration_seconds input))
      in rbind (next_generation room_id d) (\<lambda>(generation, d).
         rbind (map_err from_sql (upsert_lease
           \<lparr>cl_room_id = room_id, cl_lease_id = uuids E 0, cl_member_id = member_id,
            cl_device_id = gci_device_id input, cl_generation = generation,
            cl_expires_at = to_rfc3339 L expires_at, cl_created_at = to_rfc3339 L t\<rparr> d)) (\<lambda>d.
         rbind (audit L (uuids E 1) (clock E 1) (da_workspace_id auth) (da_member_id auth)
                  ''terminal-control-granted'' ''device'' (gci_device_id input) d) (\<lambda>d.
         Inr (\<lparr>clo_lease_id = uuids E 0, clo_member_id = member_id, clo_device_id = gci_device_id input,
               clo_generation = as_u64 generation, clo_expires_at = to_rfc3339 L expires_at\<rparr>, d)))))"

definition grant_control ::
    "libs \<Rightarrow> env \<Rightarrow> device_auth \<Rightarrow> string \<Rightarrow> grant_control_input \<Rightarrow> relay
      \<Rightarrow> control_lease_output relay_result \<times> relay" where
  "grant_control L E auth room_id input s =
     (case grant_checks auth room_id input (rl_db s) of
        Inl e \<Rightarrow> (Inl e, s)
      | Inr member_id \<Rightarrow>
         (case with_tx (rl_db s) (grant_control_tx L E auth room_id input member_id (rl_db s)) of
            (Inl e, d) \<Rightarrow> (Inl e, s\<lparr>rl_db := d\<rparr>)
          | (Inr output, d) \<Rightarrow>
              (case broadcast_control L room_id (da_device_id auth) (Some output) (s\<lparr>rl_db := d\<rparr>) of
                 (Inl e, s') \<Rightarrow> (Inl e, s')
               | (Inr _, s') \<Rightarrow> (Inr output, s'))))"

definition revoke_control ::
    "libs \<Rightarrow> env \<Rightarrow> device_auth \<Rightarrow> string \<Rightarrow> relay \<Rightarrow> unit relay_result \<times> relay" where
  "revoke_control L E auth room_id s =
     (case host_room auth room_id (rl_db s) of
        Inl e \<Rightarrow> (Inl e, s)
      | Inr _ \<Rightarrow> (case audit L (uuids E 0) (clock E 0) (da_workspace_id auth) (da_member_id auth)
              ''terminal-control-revoked'' ''terminalRoom'' room_id
              ((rl_db s)\<lparr>db_leases := sql_delete (\<lambda>l. cl_room_id l = room_id) (db_leases (rl_db s))\<rparr>) of
            Inl e \<Rightarrow> (Inl e, s)
          | Inr d \<Rightarrow> broadcast_control L room_id (da_device_id auth) None (s\<lparr>rl_db := d\<rparr>)))"

definition close_room_tx ::
    "libs \<Rightarrow> env \<Rightarrow> device_auth \<Rightarrow> string \<Rightarrow> db \<Rightarrow> db relay_result" where
  "close_room_tx L E auth room_id d =
     (let now = to_rfc3339 L (clock E 0)
      in audit L (uuids E 0) (clock E 1) (da_workspace_id auth) (da_member_id auth)
           ''terminal-room-closed'' ''terminalRoom'' room_id
           (d\<lparr>db_rooms := sql_update (open_room room_id)
                 (\<lambda>r. r\<lparr>tr_status := ''closed'', tr_closed_at := Some now\<rparr>) (db_rooms d),
              db_leases := sql_delete (\<lambda>l. cl_room_id l = room_id) (db_leases d),
              db_frames := sql_delete (\<lambda>f. rf_room_id f = room_id) (db_frames d)\<rparr>))"

definition close_room ::
    "libs \<Rightarrow> env \<Rightarrow> device_auth \<Rightarrow> string \<Rightarrow> relay \<Rightarrow> unit relay_result \<times> relay" where
  "close_room L E auth room_id s =
     (case host_room auth room_id (rl_db s) of
        Inl e \<Rightarrow> (Inl e, s)
      | Inr _ \<Rightarrow> (case close_room_tx L E auth room_id (rl_db s) of
            Inl e \<Rightarrow> (Inl e, s)
          | Inr d \<Rightarrow>
             (let s1 = (case json_server L Closed of
                    None \<Rightarrow> s\<lparr>rl_db := d\<rparr>
                  | Some payload \<Rightarrow> send_to room_id \<lparr>bf_json = payload, bf_direction = ''control'',
                      bf_sequence = None, bf_host_device_id = da_device_id auth\<rparr> (s\<lparr>rl_db := d\<rparr>))
              in (Inr (), remove_hub room_id s1))))"

section \<open>What an authorised operation knows\<close>

lemma authorize_room_Inr:
  assumes "authorize_room auth room_id d = Inr view"
  obtains r p where "r \<in> set (db_rooms d)" "p \<in> set (db_participants d)" "tr_id r = room_id"
    "participant_of room_id auth p" "tr_workspace_id r = da_workspace_id auth"
    "tr_key_epoch r = da_key_epoch auth" "tr_status r = ''active''" "view = view_of_room r"
    "da_role auth \<in> {''owner'', ''admin'', ''operator'', ''viewer''}"
proof -
  obtain r where r: "fetch_optional (entered_rooms room_id auth d) = Some r"
    and c: "tr_workspace_id r = da_workspace_id auth" "tr_key_epoch r = da_key_epoch auth"
        "tr_status r = ''active''" "view = view_of_room r"
    and role: "require_permission (da_role auth) ''terminalView'' = Inr ()"
    using assms by (auto simp: authorize_room_def require_device_permission_def res_iff)
  from fetch_optional_Some_mem [OF r] obtain p where "r \<in> set (db_rooms d)" "p \<in> set (db_participants d)"
      "tr_id r = room_id" "participant_of room_id auth p"
    by (auto simp: entered_rooms_def)
  then show ?thesis using that c role by (simp add: permission_terminalView)
qed

lemma host_room_Inr:
  assumes "host_room auth room_id d = Inr view"
  shows "authorize_room auth room_id d = Inr view \<and> rv_host_member_id view = da_member_id auth
    \<and> rv_host_device_id view = da_device_id auth \<and> da_role auth \<in> {''owner'', ''admin''}"
proof -
  have "require_permission (da_role auth) ''shareManage'' = Inr ()" "authorize_room auth room_id d = Inr view"
    "rv_host_member_id view = da_member_id auth" "rv_host_device_id view = da_device_id auth"
    using assms by (simp_all add: host_room_def require_device_permission_def res_iff)
  then show ?thesis by (simp add: permission_shareManage)
qed

lemma participant_unique:
  assumes "keys_ok d" "p \<in> set (db_participants d)" "q \<in> set (db_participants d)"
    "rp_room_id p = rp_room_id q" "rp_device_id p = rp_device_id q"
  shows "p = q"
proof -
  have "distinct (map (\<lambda>p. (rp_room_id p, rp_device_id p)) (db_participants d))"
    using assms(1) by (simp add: keys_ok_def)
  then show ?thesis using participants.row_unique [OF _ assms(2,3)] assms(4,5) by simp
qed

lemma room_unique:
  assumes "keys_ok d" "r \<in> set (db_rooms d)" "q \<in> set (db_rooms d)" "tr_id r = tr_id q"
  shows "r = q"
proof -
  have "distinct (map tr_id (db_rooms d))" using assms(1) by (simp add: keys_ok_def)
  then show ?thesis using rooms.row_unique [OF _ assms(2-4)] by simp
qed

section \<open>Keys\<close>

lemma room_update_keys:
  "keys_ok d \<Longrightarrow> (\<And>r. tr_id (f r) = tr_id r) \<Longrightarrow> keys_ok (d\<lparr>db_rooms := sql_update p f (db_rooms d)\<rparr>)"
  "keys_ok d \<Longrightarrow> (\<And>x. rp_room_id (g x) = rp_room_id x \<and> rp_device_id (g x) = rp_device_id x)
     \<Longrightarrow> keys_ok (d\<lparr>db_participants := sql_update q g (db_participants d)\<rparr>)"
  "keys_ok d \<Longrightarrow> (\<And>i. ri_room_id (h i) = ri_room_id i \<and> ri_recipient_device_id (h i) = ri_recipient_device_id i)
     \<Longrightarrow> keys_ok (d\<lparr>db_room_invitations := sql_update u h (db_room_invitations d)\<rparr>)"
  "keys_ok d \<Longrightarrow> keys_ok (d\<lparr>db_leases := sql_delete v (db_leases d)\<rparr>)"
  "keys_ok d \<Longrightarrow> keys_ok (d\<lparr>db_frames := sql_delete w (db_frames d)\<rparr>)"
  by (simp_all add: keys_ok_def map_sql_update distinct_sql_delete)

lemma delete_rooms_keys: "keys_ok d \<Longrightarrow> keys_ok (delete_rooms p d)"
  by (simp add: delete_rooms_def Let_def keys_ok_def distinct_sql_delete)

lemma create_room_tx_keys: "create_room_tx L E auth input d = Inr (out, d') \<Longrightarrow> keys_ok d \<Longrightarrow> keys_ok d'"
  unfolding create_room_tx_def Let_def
  by (clarsimp simp: res_iff) (drule delete_rooms_keys, (drule (1) keys_forward)+, assumption)

lemma create_room_keys [keeps_keys]:
  "create_room L E auth input d = (r, d') \<Longrightarrow> keys_ok d \<Longrightarrow> keys_ok d'"
  by (auto simp: create_room_def with_tx_def split: sum.splits prod.splits intro: create_room_tx_keys)

lemma route_invitation_keys [keeps_keys]:
  "route_invitation L E auth room_id i d = (r, d') \<Longrightarrow> keys_ok d \<Longrightarrow> keys_ok d'"
  by (auto simp: route_invitation_def res_iff split: sum.splits intro: upsert_room_invitation_keys)

lemma join_room_tx_keys:
  assumes "join_room_tx L E auth room_id d = Inr (out, d')" "keys_ok d"
  shows "keys_ok d'"
proof -
  obtain row d1 now where "upsert_participant row d = Inr d1"
    and "audit L (uuids E 0) (clock E 2) (da_workspace_id auth) (da_member_id auth) ''terminal-room-joined''
          ''terminalRoom'' room_id (d1\<lparr>db_room_invitations := sql_update
             (\<lambda>i. ri_room_id i = room_id \<and> ri_recipient_device_id i = da_device_id auth \<and> ri_accepted_at i = None)
             (\<lambda>i. i\<lparr>ri_accepted_at := Some now\<rparr>) (db_room_invitations d1)\<rparr>) = Inr d'"
    using assms(1) unfolding join_room_tx_def Let_def by (clarsimp simp: res_iff)
  note steps = this
  have "keys_ok d1" using upsert_participant_keys [OF steps(1) assms(2)] .
  then show ?thesis using audit_keys [OF steps(2)] by (simp add: room_update_keys(3))
qed

lemma send_to_db [simp]: "rl_db (send_to room_id f s) = rl_db s"
  by (auto simp: send_to_def sender_def Let_def split: option.splits prod.splits)

lemma remove_hub_db [simp]: "rl_db (remove_hub room_id s) = rl_db s"
  by (simp add: remove_hub_def)

lemma broadcast_control_db: "broadcast_control L room_id host lease s = (r, s') \<Longrightarrow> rl_db s' = rl_db s"
  by (auto simp: broadcast_control_def split: option.splits)

lemma broadcast_participants_db [simp]: "rl_db (snd (broadcast_participants L room_id host s)) = rl_db s"
  by (auto simp: broadcast_participants_def split: option.splits sum.splits)

text \<open>An operation of the rooms is its transaction on the database, followed by broadcasts.\<close>

lemma join_room_db:
  "join_room L E auth room_id s = (r, s') \<Longrightarrow>
     r = Inl PermissionDenied \<and> s' = s
   \<or> with_tx (rl_db s) (join_room_tx L E auth room_id (rl_db s)) = (r, rl_db s')"
  by (auto simp: join_room_def require_device_permission_def dest: require_permission_err
      split: sum.splits prod.splits)

lemma leave_room_db:
  assumes "leave_room L E auth room_id s = (r, s')"
  shows "rl_db s' = rl_db s \<or> (\<exists>b. leave_room_tx L E auth room_id (rl_db s) = Inr (b, rl_db s'))"
  using assms by (auto simp: leave_room_def Let_def res_iff with_tx_def broadcast_control_db
      split: sum.splits prod.splits if_split_asm dest!: broadcast_control_db)

lemma grant_control_db:
  assumes "grant_control L E auth room_id input s = (r, s')"
  shows "rl_db s' = rl_db s \<or> (\<exists>m out. grant_checks auth room_id input (rl_db s) = Inr m
    \<and> grant_control_tx L E auth room_id input m (rl_db s) = Inr (out, rl_db s'))"
  using assms by (auto simp: grant_control_def with_tx_def split: sum.splits prod.splits dest!: broadcast_control_db)

lemma revoke_control_db:
  assumes "revoke_control L E auth room_id s = (r, s')"
  shows "s' = s \<and> r \<noteq> Inr () \<or> is_ok (host_room auth room_id (rl_db s))
    \<and> audit L (uuids E 0) (clock E 0) (da_workspace_id auth) (da_member_id auth)
              ''terminal-control-revoked'' ''terminalRoom'' room_id
              ((rl_db s)\<lparr>db_leases := sql_delete (\<lambda>l. cl_room_id l = room_id) (db_leases (rl_db s))\<rparr>) = Inr (rl_db s')"
  using assms by (auto simp: revoke_control_def split: sum.splits dest!: broadcast_control_db)

lemma close_room_db:
  assumes "close_room L E auth room_id s = (r, s')"
  shows "s' = s \<and> r \<noteq> Inr () \<or> is_ok (host_room auth room_id (rl_db s)) \<and> r = Inr ()
    \<and> close_room_tx L E auth room_id (rl_db s) = Inr (rl_db s')"
  using assms by (auto simp: close_room_def Let_def split: sum.splits option.splits)

lemma next_generation_Inr:
  "next_generation room_id d = Inr (g, d') \<longleftrightarrow>
     (\<exists>r. fetch_optional (filter (open_room room_id) (db_rooms d)) = Some r \<and> g = tr_lease_generation r + 1
        \<and> d' = d\<lparr>db_rooms := sql_update (open_room room_id)
             (\<lambda>r. r\<lparr>tr_lease_generation := tr_lease_generation r + 1\<rparr>) (db_rooms d)\<rparr>)"
  by (auto simp: next_generation_def split: option.splits)

lemma grant_control_tx_Inr:
  assumes "grant_control_tx L E auth room_id input m d = Inr (out, d')"
  obtains r d1 d2 where "fetch_optional (filter (open_room room_id) (db_rooms d)) = Some r"
    "d1 = d\<lparr>db_rooms := sql_update (open_room room_id)
             (\<lambda>r. r\<lparr>tr_lease_generation := tr_lease_generation r + 1\<rparr>) (db_rooms d)\<rparr>"
    "upsert_lease \<lparr>cl_room_id = room_id, cl_lease_id = uuids E 0, cl_member_id = m,
       cl_device_id = gci_device_id input, cl_generation = tr_lease_generation r + 1,
       cl_expires_at = to_rfc3339 L (clock E 0 + seconds (int (gci_duration_seconds input))),
       cl_created_at = to_rfc3339 L (clock E 0)\<rparr> d1 = Inr d2"
    "audit L (uuids E 1) (clock E 1) (da_workspace_id auth) (da_member_id auth)
       ''terminal-control-granted'' ''device'' (gci_device_id input) d2 = Inr d'"
    "out = \<lparr>clo_lease_id = uuids E 0, clo_member_id = m, clo_device_id = gci_device_id input,
       clo_generation = as_u64 (tr_lease_generation r + 1),
       clo_expires_at = to_rfc3339 L (clock E 0 + seconds (int (gci_duration_seconds input)))\<rparr>"
proof -
  obtain g d1 d2 where g: "next_generation room_id d = Inr (g, d1)"
    and u: "upsert_lease \<lparr>cl_room_id = room_id, cl_lease_id = uuids E 0, cl_member_id = m,
       cl_device_id = gci_device_id input, cl_generation = g,
       cl_expires_at = to_rfc3339 L (clock E 0 + seconds (int (gci_duration_seconds input))),
       cl_created_at = to_rfc3339 L (clock E 0)\<rparr> d1 = Inr d2"
    and a: "audit L (uuids E 1) (clock E 1) (da_workspace_id auth) (da_member_id auth)
       ''terminal-control-granted'' ''device'' (gci_device_id input) d2 = Inr d'"
    and out: "out = \<lparr>clo_lease_id = uuids E 0, clo_member_id = m, clo_device_id = gci_device_id input,
       clo_generation = as_u64 g,
       clo_expires_at = to_rfc3339 L (clock E 0 + seconds (int (gci_duration_seconds input)))\<rparr>"
    using assms unfolding grant_control_tx_def Let_def by (clarsimp simp: res_iff)
  obtain r where "fetch_optional (filter (open_room room_id) (db_rooms d)) = Some r" "g = tr_lease_generation r + 1"
    "d1 = d\<lparr>db_rooms := sql_update (open_room room_id)
             (\<lambda>r. r\<lparr>tr_lease_generation := tr_lease_generation r + 1\<rparr>) (db_rooms d)\<rparr>"
    using g unfolding next_generation_Inr by blast
  then show ?thesis using that u a out by simp
qed

lemma join_room_keys [keeps_keys]:
  "join_room L E auth room_id s = (r, s') \<Longrightarrow> keys_ok (rl_db s) \<Longrightarrow> keys_ok (rl_db s')"
  using join_room_db [of L E auth room_id s r s']
  by (auto simp: with_tx_def split: sum.splits prod.splits intro: join_room_tx_keys)

lemma leave_room_keys [keeps_keys]:
  assumes "leave_room L E auth room_id s = (r, s')" "keys_ok (rl_db s)"
  shows "keys_ok (rl_db s')"
proof -
  have "keys_ok ((rl_db s)\<lparr>db_participants := sql_update p (\<lambda>p. p\<lparr>rp_removed_at := x\<rparr>) (db_participants (rl_db s)),
     db_leases := sql_delete q (db_leases (rl_db s))\<rparr>)" for p q x
    using assms(2) by (simp add: keys_ok_def map_sql_update distinct_sql_delete)
  then show ?thesis using leave_room_db [OF assms(1)] assms(2)
    by (auto simp: leave_room_tx_def Let_def res_iff intro: audit_keys)
qed

lemma grant_control_keys [keeps_keys]:
  assumes "grant_control L E auth room_id input s = (r, s')" "keys_ok (rl_db s)"
  shows "keys_ok (rl_db s')"
proof -
  consider "rl_db s' = rl_db s"
    | m out where "grant_control_tx L E auth room_id input m (rl_db s) = Inr (out, rl_db s')"
    using grant_control_db [OF assms(1)] by blast
  then show ?thesis
  proof cases
    case 2
    obtain r d1 d2 row where d1: "d1 = (rl_db s)\<lparr>db_rooms := sql_update (open_room room_id)
             (\<lambda>r. r\<lparr>tr_lease_generation := tr_lease_generation r + 1\<rparr>) (db_rooms (rl_db s))\<rparr>"
      and u: "upsert_lease row d1 = Inr d2"
      and a: "audit L (uuids E 1) (clock E 1) (da_workspace_id auth) (da_member_id auth)
       ''terminal-control-granted'' ''device'' (gci_device_id input) d2 = Inr (rl_db s')"
      by (rule grant_control_tx_Inr [OF 2])
    have "keys_ok d1" unfolding d1 using assms(2) by (rule room_update_keys(1)) simp
    then show ?thesis using upsert_lease_keys [OF u] audit_keys [OF a] by blast
  qed (use assms(2) in simp)
qed

lemma revoke_control_keys [keeps_keys]:
  assumes "revoke_control L E auth room_id s = (r, s')" "keys_ok (rl_db s)"
  shows "keys_ok (rl_db s')"
  using revoke_control_db [OF assms(1)] assms(2) by (auto intro: audit_keys [OF _ room_update_keys(4)])

lemma close_room_keys [keeps_keys]:
  assumes "close_room L E auth room_id s = (r, s')" "keys_ok (rl_db s)"
  shows "keys_ok (rl_db s')"
proof -
  have "keys_ok ((rl_db s)\<lparr>db_rooms := sql_update p (\<lambda>r. r\<lparr>tr_status := x, tr_closed_at := y\<rparr>) (db_rooms (rl_db s)),
     db_leases := sql_delete q (db_leases (rl_db s)), db_frames := sql_delete w (db_frames (rl_db s))\<rparr>)" for p q w x y
    using assms(2) by (simp add: keys_ok_def map_sql_update distinct_sql_delete)
  then show ?thesis using close_room_db [OF assms(1)] assms(2)
    by (auto simp: close_room_tx_def Let_def intro: audit_keys)
qed

lemma upsert_lease_only:
  assumes "distinct (map cl_room_id leases)"
    and "row = \<lparr>cl_room_id = room_id, cl_lease_id = x1, cl_member_id = x2, cl_device_id = x3,
           cl_generation = x4, cl_expires_at = x5, cl_created_at = x6\<rparr>"
  shows "filter (\<lambda>l. cl_room_id l = room_id) (sql_upsert (\<lambda>l. cl_room_id l = room_id)
      (\<lambda>l. l\<lparr>cl_lease_id := x1, cl_member_id := x2, cl_device_id := x3, cl_generation := x4,
             cl_expires_at := x5, cl_created_at := x6\<rparr>) row leases) = [row]"
  using assms(1)
proof (induction leases)
  case (Cons l ls)
  show ?case
  proof (cases "cl_room_id l = room_id")
    case True
    then have none: "\<not> cl_room_id k = room_id" if "k \<in> set ls" for k
      using Cons.prems that by (metis distinct.simps(2) imageI list.set_map list.simps(9))
    have "filter (\<lambda>l. cl_room_id l = room_id) (sql_update (\<lambda>l. cl_room_id l = room_id) f ls) = []" for f
      using none by (auto simp: filter_empty_conv set_sql_update)
    then show ?thesis using True assms(2) by (cases l) (simp add: sql_upsert_def sql_update_def)
  next
    case False
    then show ?thesis using Cons by (auto simp: sql_upsert_def sql_update_def)
  qed
qed (simp add: sql_upsert_def assms(2))

lemma join_room_tx_Inr:
  assumes "join_room_tx L E auth room_id d = Inr (view, d')"
  obtains r i inv d1 where
    "fetch_optional (join_rows room_id auth (to_rfc3339 L (clock E 0)) d) = Some (r, i)"
    "tr_workspace_id r = da_workspace_id auth" "tr_key_epoch r = da_key_epoch auth" "tr_status r = ''active''"
    "parse_invitation L (ri_envelope_json i) = Some inv"
    "tti_recipient_member_id inv = da_member_id auth" "tti_recipient_device_id inv = da_device_id auth"
    "upsert_participant \<lparr>rp_room_id = room_id, rp_member_id = da_member_id auth, rp_device_id = da_device_id auth,
       rp_next_input_sequence = as_i64 (tti_next_input_sequence inv),
       rp_joined_at = to_rfc3339 L (clock E 1), rp_removed_at = None\<rparr> d = Inr d1"
    "audit L (uuids E 0) (clock E 2) (da_workspace_id auth) (da_member_id auth) ''terminal-room-joined''
       ''terminalRoom'' room_id (d1\<lparr>db_room_invitations := sql_update
         (\<lambda>i. ri_room_id i = room_id \<and> ri_recipient_device_id i = da_device_id auth \<and> ri_accepted_at i = None)
         (\<lambda>i. i\<lparr>ri_accepted_at := Some (to_rfc3339 L (clock E 1))\<rparr>) (db_room_invitations d1)\<rparr>) = Inr d'"
  using assms unfolding join_room_tx_def Let_def by (clarsimp simp: res_iff)

section \<open>Properties\<close>

text \<open>No request makes a workspace exceed 64 active terminal rooms: creating a room never takes the
  number of active rooms of any workspace above the limit.\<close>

theorem create_room_limit:
  assumes "create_room L E auth input d = (r, d')"
    and "sql_count (active_room w) (db_rooms d) \<le> 64"
  shows "sql_count (active_room w) (db_rooms d') \<le> 64"
proof (cases r)
  case (Inl e)
  then show ?thesis using assms by (auto simp: create_room_def res_iff split: sum.splits)
next
  case (Inr view)
  let ?d = "delete_rooms (\<lambda>r. closed_room (da_workspace_id auth) r
      \<and> tr_id r \<notin> set (recent_rooms (da_workspace_id auth) d)) d"
  have tx: "create_room_tx L E auth input d = Inr (view, d')"
    using assms(1) Inr by (simp add: create_room_def res_iff split: sum.splits)
  then obtain room d1 row d2 where few: "sql_count (active_room (da_workspace_id auth)) (db_rooms ?d) < MAX_ACTIVE_ROOMS"
    and ins: "insert_room room ?d = Inr d1" and room: "tr_workspace_id room = da_workspace_id auth"
    and part: "insert_participant row d1 = Inr d2"
    and aud: "audit L (uuids E 0) (clock E 1) (da_workspace_id auth) (da_member_id auth)
                  ''terminal-room-created'' ''terminalRoom'' (cri_room_id input) d2 = Inr d'"
    unfolding create_room_tx_def Let_def by (clarsimp simp: res_iff) 
  have "db_rooms d' = db_rooms ?d @ [room]"
    using rooms.insert_rows [OF ins] part audit_fields [OF aud] by (auto simp: insert_participant_def res_iff)
  moreover have "sql_count (active_room w) (db_rooms ?d) \<le> sql_count (active_room w) (db_rooms d)"
    by (simp add: delete_rooms_def Let_def sql_count_delete_le)
  ultimately show ?thesis using few assms(2) room
    by (cases "w = da_workspace_id auth") (auto simp: sql_count_append active_room_def MAX_ACTIVE_ROOMS_def)
qed

text \<open>A device joins a room only with an invitation the host routed to this very device and member,
  that is unexpired and not yet used, and the join uses it up: the same device cannot join again
  until it is invited again.\<close>

theorem join_room_consumes_invitation:
  assumes "join_room L E auth room_id s = (Inr view, s')"
  shows "(\<exists>i \<in> set (db_room_invitations (rl_db s)). \<exists>inv. ri_room_id i = room_id
      \<and> ri_recipient_device_id i = da_device_id auth \<and> ri_accepted_at i = None
      \<and> to_rfc3339 L (clock E 0) < ri_expires_at i \<and> parse_invitation L (ri_envelope_json i) = Some inv
      \<and> tti_recipient_member_id inv = da_member_id auth \<and> tti_recipient_device_id inv = da_device_id auth)
    \<and> fst (join_room L E' auth room_id s') = Inl NotFound"
proof -
  let ?d = "rl_db s"
  have role: "require_device_permission auth ''terminalView'' = Inr ()"
    and tx: "join_room_tx L E auth room_id ?d = Inr (view, rl_db s')"
    using assms by (auto simp: join_room_def with_tx_def split: sum.splits prod.splits)
  obtain r i inv d1 where row: "fetch_optional (join_rows room_id auth (to_rfc3339 L (clock E 0)) ?d) = Some (r, i)"
    and inv: "parse_invitation L (ri_envelope_json i) = Some inv"
      "tti_recipient_member_id inv = da_member_id auth" "tti_recipient_device_id inv = da_device_id auth"
    and aud: "audit L (uuids E 0) (clock E 2) (da_workspace_id auth) (da_member_id auth) ''terminal-room-joined''
       ''terminalRoom'' room_id (d1\<lparr>db_room_invitations := sql_update
         (\<lambda>i. ri_room_id i = room_id \<and> ri_recipient_device_id i = da_device_id auth \<and> ri_accepted_at i = None)
         (\<lambda>i. i\<lparr>ri_accepted_at := Some (to_rfc3339 L (clock E 1))\<rparr>) (db_room_invitations d1)\<rparr>) = Inr (rl_db s')"
    by (rule join_room_tx_Inr [OF tx])
  define now where "now = to_rfc3339 L (clock E 1)"
  have i: "i \<in> set (db_room_invitations ?d)" "ri_room_id i = room_id" "ri_recipient_device_id i = da_device_id auth"
      "ri_accepted_at i = None" "to_rfc3339 L (clock E 0) < ri_expires_at i"
    using fetch_optional_Some_mem [OF row] by (auto simp: join_rows_def)
  have "db_room_invitations (rl_db s') = sql_update
      (\<lambda>i. ri_room_id i = room_id \<and> ri_recipient_device_id i = da_device_id auth \<and> ri_accepted_at i = None)
      (\<lambda>i. i\<lparr>ri_accepted_at := Some now\<rparr>) (db_room_invitations d1)"
    using audit_fields [OF aud] by (simp add: now_def)
  then have used: "ri_accepted_at j \<noteq> None" if "j \<in> set (db_room_invitations (rl_db s'))" "ri_room_id j = room_id"
      "ri_recipient_device_id j = da_device_id auth" for j
    using that unfolding \<open>db_room_invitations (rl_db s') = _\<close> set_sql_update
    by (elim UnE imageE) simp_all
  have "join_rows room_id auth t (rl_db s') = []" for t
  proof (rule ccontr)
    assume "join_rows room_id auth t (rl_db s') \<noteq> []"
    then obtain q j where "(q, j) \<in> set (join_rows room_id auth t (rl_db s'))" by (metis list.set_sel(1) prod.collapse)
    then show False using used [of j] by (auto simp: join_rows_def)
  qed
  then have "fst (join_room L E' auth room_id s') = Inl NotFound"
    using role by (simp add: join_room_def join_room_tx_def)
  then show ?thesis using i inv by blast
qed

text \<open>C4: Control is granted only by the host, to an active device of the room whose member may control a
  terminal; the lease is then the only one of the room and has a generation that exceeds the one
  before.\<close>

theorem grant_control_exclusive:
  assumes "grant_control L E auth room_id input s = (Inr out, s')" "keys_ok (rl_db s)"
  shows "\<exists>r \<in> set (db_rooms (rl_db s)). \<exists>p \<in> set (db_participants (rl_db s)). \<exists>m \<in> set (db_members (rl_db s)).
      tr_id r = room_id \<and> tr_host_device_id r = da_device_id auth
    \<and> rp_room_id p = room_id \<and> rp_device_id p = gci_device_id input \<and> rp_removed_at p = None
    \<and> mem_id m = rp_member_id p \<and> mem_status m = ''active'' \<and> mem_role m \<in> {''owner'', ''admin'', ''operator''}
    \<and> filter (\<lambda>l. cl_room_id l = room_id) (db_leases (rl_db s')) =
        [\<lparr>cl_room_id = room_id, cl_lease_id = clo_lease_id out, cl_member_id = rp_member_id p,
          cl_device_id = gci_device_id input, cl_generation = tr_lease_generation r + 1,
          cl_expires_at = clo_expires_at out, cl_created_at = to_rfc3339 L (clock E 0)\<rparr>]
    \<and> (\<exists>r' \<in> set (db_rooms (rl_db s')). tr_id r' = room_id \<and> tr_lease_generation r' = tr_lease_generation r + 1)"
proof -
  let ?d = "rl_db s"
  obtain mid where chk: "grant_checks auth room_id input ?d = Inr mid"
    and tx: "grant_control_tx L E auth room_id input mid ?d = Inr (out, rl_db s')"
    using assms(1) by (auto simp: grant_control_def with_tx_def split: sum.splits prod.splits dest!: broadcast_control_db)
  obtain view p m where view: "host_room auth room_id ?d = Inr view"
    and pm: "(p, m) \<in> set (control_targets room_id (gci_device_id input) ?d)"
    and role: "role_in (mem_role m) [''owner'', ''admin'', ''operator'']" and mid: "mid = rp_member_id p"
    using chk by (auto simp: grant_checks_def res_iff dest!: fetch_optional_Some_mem)
  obtain r q where r: "r \<in> set (db_rooms ?d)" "tr_id r = room_id" "tr_status r = ''active''" "view = view_of_room r"
    by (rule authorize_room_Inr) (use host_room_Inr [OF view] in auto)
  have host: "tr_host_device_id r = da_device_id auth" using host_room_Inr [OF view] r(4) by (simp add: view_of_room_def)
  obtain r0 d1 d2 where r0: "fetch_optional (filter (open_room room_id) (db_rooms ?d)) = Some r0"
    and d1: "d1 = ?d\<lparr>db_rooms := sql_update (open_room room_id)
             (\<lambda>r. r\<lparr>tr_lease_generation := tr_lease_generation r + 1\<rparr>) (db_rooms ?d)\<rparr>"
    and up: "upsert_lease \<lparr>cl_room_id = room_id, cl_lease_id = uuids E 0, cl_member_id = mid,
       cl_device_id = gci_device_id input, cl_generation = tr_lease_generation r0 + 1,
       cl_expires_at = to_rfc3339 L (clock E 0 + seconds (int (gci_duration_seconds input))),
       cl_created_at = to_rfc3339 L (clock E 0)\<rparr> d1 = Inr d2"
    and aud: "audit L (uuids E 1) (clock E 1) (da_workspace_id auth) (da_member_id auth)
       ''terminal-control-granted'' ''device'' (gci_device_id input) d2 = Inr (rl_db s')"
    and out: "out = \<lparr>clo_lease_id = uuids E 0, clo_member_id = mid, clo_device_id = gci_device_id input,
       clo_generation = as_u64 (tr_lease_generation r0 + 1),
       clo_expires_at = to_rfc3339 L (clock E 0 + seconds (int (gci_duration_seconds input)))\<rparr>"
    by (rule grant_control_tx_Inr [OF tx])
  let ?row = "\<lparr>cl_room_id = room_id, cl_lease_id = uuids E 0, cl_member_id = mid,
       cl_device_id = gci_device_id input, cl_generation = tr_lease_generation r0 + 1,
       cl_expires_at = to_rfc3339 L (clock E 0 + seconds (int (gci_duration_seconds input))),
       cl_created_at = to_rfc3339 L (clock E 0)\<rparr>"
  have r0r: "r0 = r" using room_unique [OF assms(2) _ r(1)] fetch_optional_Some_mem [OF r0] r(2)
    by (auto simp: open_room_def)
  have tabs: "db_rooms (rl_db s') = db_rooms d1" "db_leases (rl_db s') = db_leases d2"
    using up audit_fields [OF aud] by (auto simp: upsert_lease_def res_iff)
  have keys: "distinct (map cl_room_id (db_leases ?d))" using assms(2) by (simp add: keys_ok_def)
  have "filter (\<lambda>l. cl_room_id l = room_id) (db_leases d2) = [?row]"
  proof -
    have "db_leases d1 = db_leases ?d" using d1 by simp
    then show ?thesis using up keys by (auto simp: upsert_lease_def res_iff intro!: upsert_lease_only)
  qed
  then have one: "filter (\<lambda>l. cl_room_id l = room_id) (db_leases (rl_db s')) = [\<lparr>cl_room_id = room_id,
      cl_lease_id = clo_lease_id out, cl_member_id = rp_member_id p,
      cl_device_id = gci_device_id input, cl_generation = tr_lease_generation r + 1,
      cl_expires_at = clo_expires_at out, cl_created_at = to_rfc3339 L (clock E 0)\<rparr>]"
    using tabs(2) out r0r mid by simp
  have "open_room room_id r" using r by (simp add: open_room_def)
  then have "r\<lparr>tr_lease_generation := tr_lease_generation r + 1\<rparr> \<in> set (db_rooms (rl_db s'))"
    using r(1) unfolding tabs(1) d1 by (auto simp: set_sql_update)
  then have "\<exists>r' \<in> set (db_rooms (rl_db s')). tr_id r' = room_id \<and> tr_lease_generation r' = tr_lease_generation r + 1"
    using r(2) by (intro bexI [of _ "r\<lparr>tr_lease_generation := tr_lease_generation r + 1\<rparr>"]) simp_all
  moreover have "p \<in> set (db_participants ?d)" "m \<in> set (db_members ?d)" "rp_room_id p = room_id"
      "rp_device_id p = gci_device_id input" "rp_removed_at p = None" "mem_id m = rp_member_id p" "mem_status m = ''active''"
    using pm by (auto simp: control_targets_def)
  moreover have "mem_role m \<in> {''owner'', ''admin'', ''operator''}" using role by (simp add: role_in_def)
  ultimately show ?thesis using r(1,2) host one
    by (intro bexI [of _ r] bexI [of _ p] bexI [of _ m]) simp_all
qed

text \<open>A closed room is closed to everyone: nobody is authorised in it any more, no lease and no stored
  frame of it is left.\<close>

theorem close_room_final:
  assumes "close_room L E auth room_id s = (Inr (), s')" "keys_ok (rl_db s)"
  shows "(\<forall>auth'. authorize_room auth' room_id (rl_db s') = Inl PermissionDenied)
    \<and> \<not> (\<exists>l \<in> set (db_leases (rl_db s')). cl_room_id l = room_id)
    \<and> \<not> (\<exists>f \<in> set (db_frames (rl_db s')). rf_room_id f = room_id)"
proof -
  have tx: "close_room_tx L E auth room_id (rl_db s) = Inr (rl_db s')" using close_room_db [OF assms(1)] by auto
  obtain now where tabs: "db_rooms (rl_db s') = sql_update (open_room room_id)
        (\<lambda>r. r\<lparr>tr_status := ''closed'', tr_closed_at := Some now\<rparr>) (db_rooms (rl_db s))"
      "db_leases (rl_db s') = sql_delete (\<lambda>l. cl_room_id l = room_id) (db_leases (rl_db s))"
      "db_frames (rl_db s') = sql_delete (\<lambda>f. rf_room_id f = room_id) (db_frames (rl_db s))"
    using audit_fields [OF tx [unfolded close_room_tx_def Let_def]] by simp
  have closed: "tr_status r \<noteq> ''active''" if "r \<in> set (db_rooms (rl_db s'))" "tr_id r = room_id" for r
    using that unfolding tabs(1) set_sql_update by (elim UnE imageE) (simp_all add: open_room_def)
  have "authorize_room auth' room_id (rl_db s') = Inl PermissionDenied" for auth'
  proof (cases "authorize_room auth' room_id (rl_db s')")
    case (Inl e)
    then show ?thesis
      by (auto simp: authorize_room_def rbind_Inl_iff require_device_permission_def res_iff dest: require_permission_err)
  next
    case (Inr view)
    obtain r where "r \<in> set (db_rooms (rl_db s'))" "tr_id r = room_id" "tr_status r = ''active''"
      by (rule authorize_room_Inr [OF Inr])
    then show ?thesis using closed by blast
  qed
  then show ?thesis using tabs(2,3) by (simp add: set_sql_delete)
qed

definition sample_invitation :: team_terminal_invitation where
  "sample_invitation = \<lparr>tti_schema_version = 1, tti_room_id = ''r1'', tti_workspace_id = ''w1'', tti_key_epoch = 1,
     tti_host_member_id = ''m0'', tti_host_device_id = ''d0'', tti_recipient_member_id = ''m1'',
     tti_recipient_device_id = ''d1'', tti_ephemeral_public_key = ''x25519:'' @ replicate 43 (CHR ''e''),
     tti_key_nonce = replicate 16 (CHR ''n''), tti_wrapped_room_key = replicate 64 (CHR ''w''),
     tti_replay_from_sequence = 0, tti_next_input_sequence = 1, tti_created_at = ''c'', tti_expires_at = ''e'',
     tti_signature = Some ''ed25519:s''\<rparr>"

text \<open>The toy crates with instants that parse, so that the host's invitation is accepted.\<close>

definition invite_libs :: libs where
  "invite_libs = sample_libs\<lparr>parse_rfc3339 := \<lambda>s. Some (if s = ''c'' then seconds 50 else seconds 300),
     parse_invitation := \<lambda>_. Some sample_invitation\<rparr>"

definition invited_db :: db where
  "invited_db = sample_db\<lparr>db_room_invitations := [\<lparr>ri_room_id = ''r1'', ri_recipient_device_id = ''d1'',
     ri_envelope_json = ''{}'', ri_expires_at = ''e'', ri_accepted_at = None,
     ri_created_at = sample_stamp (seconds 101)\<rparr>]\<rparr>"

lemma sample_host_room: "is_ok (host_room owner_auth ''r1'' sample_db)"
  by code_simp

text \<open>The host of the sample room invites the operator's device.\<close>

lemma route_invitation_runs:
  "route_invitation invite_libs sample_env owner_auth ''r1'' sample_invitation sample_db = (Inr (), invited_db)"
proof -
  have "validate_invitation_shape invite_libs (clock sample_env 0) sample_invitation = Inr ()"
    by (simp add: validate_invitation_shape_def invite_libs_def sample_libs_def sample_invitation_def
        sample_env_def MAX_ENVELOPE_BYTES_def validate_uuid_def b64_length_def strip_prefix_def
        minutes_def seconds_def nanos_per_second_def)
  moreover obtain view where "host_room owner_auth ''r1'' sample_db = Inr view"
    using sample_host_room by (auto simp: is_ok_iff)
  moreover have "length (recipient_rows owner_auth sample_invitation sample_db) = 1" by code_simp
  moreover have "signing_key_of (da_device_id owner_auth) sample_db = Inr (''ed25519:'' @ replicate 43 (CHR ''k''))"
    by code_simp
  moreover have "verify_invitation_signature invite_libs sample_invitation (''ed25519:'' @ replicate 43 (CHR ''k'')) = Inr ()"
    by code_simp
  moreover have "length (room_places ''r1'' sample_db) = 2" by code_simp
  moreover have "upsert_room_invitation \<lparr>ri_room_id = ''r1'', ri_recipient_device_id = ''d1'', ri_envelope_json = ''{}'',
      ri_expires_at = ''e'', ri_accepted_at = None, ri_created_at = sample_stamp (seconds 101)\<rparr> sample_db
      = Inr invited_db"
    by (simp add: upsert_room_invitation_def constraints_def sample_db_def invited_db_def empty_db_def
        sql_upsert_def sample_room_def sample_device_def has_key_def)
  ultimately show ?thesis
    by (simp add: route_invitation_def sample_invitation_def owner_auth_def MAX_ROOM_PARTICIPANTS_def
        invite_libs_def sample_libs_def sample_env_def)
qed

theorem create_room_limit_witness:
  "sql_count (active_room ''w1'') (db_rooms (snd (create_room sample_libs sample_env owner_auth
     \<lparr>cri_room_id = ''r2'', cri_key_epoch = 1\<rparr> sample_db))) \<le> 64"
proof -
  have "sql_count (active_room ''w1'') (db_rooms sample_db) \<le> 64" by code_simp
  then show ?thesis by (rule create_room_limit [OF prod.collapse [symmetric]])
qed

theorem join_room_consumes_invitation_witness:
  "fst (join_room invite_libs (later 20) operator_auth ''r1''
      (snd (join_room invite_libs sample_env operator_auth ''r1'' (new_relay invited_db)))) = Inl NotFound"
proof -
  let ?r = "join_room invite_libs sample_env operator_auth ''r1'' (new_relay invited_db)"
  have "is_ok (fst ?r)" by code_simp
  then obtain view where "?r = (Inr view, snd ?r)" by (auto simp: is_ok_iff prod_eq_iff)
  then show ?thesis using join_room_consumes_invitation by blast
qed

definition sample_grant :: "control_lease_output relay_result \<times> relay" where
  "sample_grant = grant_control sample_libs sample_env owner_auth ''r1''
     \<lparr>gci_device_id = ''d1'', gci_duration_seconds = 60\<rparr> (new_relay sample_db)"

theorem grant_control_exclusive_witness:
  "\<exists>r \<in> set (db_rooms sample_db). tr_id r = ''r1''
     \<and> map cl_generation (filter (\<lambda>l. cl_room_id l = ''r1'') (db_leases (rl_db (snd sample_grant))))
         = [tr_lease_generation r + 1]"
proof -
  have "is_ok (fst sample_grant)" by code_simp
  then obtain out where r: "sample_grant = (Inr out, snd sample_grant)" by (auto simp: is_ok_iff prod_eq_iff)
  have "keys_ok (rl_db (new_relay sample_db))" using sample_keys by (simp add: new_relay_def)
  from grant_control_exclusive [OF r [unfolded sample_grant_def] this] show ?thesis
    unfolding sample_grant_def by (auto simp: new_relay_def)
qed

theorem close_room_final_witness:
  "authorize_room operator_auth ''r1''
     (rl_db (snd (close_room sample_libs sample_env owner_auth ''r1'' (new_relay sample_db)))) = Inl PermissionDenied"
proof -
  let ?r = "close_room sample_libs sample_env owner_auth ''r1'' (new_relay sample_db)"
  have "fst ?r = Inr ()" by code_simp
  then have r: "?r = (Inr (), snd ?r)" by (simp add: prod_eq_iff)
  have "keys_ok (rl_db (new_relay sample_db))" using sample_keys by (simp add: new_relay_def)
  then show ?thesis using close_room_final [OF r] by blast
qed

end
