(* ===== verification/RelayFrames.thy ===== *)
theory RelayFrames
  imports RelayRooms
begin

text \<open>
  Encrypted terminal frames (\<open>services/team-relay/src/terminal.rs\<close>): the shape and signature
  checks, the sequence and lease rules of output and input frames, the bounded replay window and
  the replay of missed output. The relay never reads the ciphertext.
\<close>

definition MAX_FRAME_BYTES :: nat where "MAX_FRAME_BYTES = 64 * 1024"
definition MAX_REPLAY_FRAMES :: nat where "MAX_REPLAY_FRAMES = 512"
definition MAX_REPLAY_BYTES :: i64 where "MAX_REPLAY_BYTES = 4 * 1024 * 1024"
definition REPLAY_MINUTES :: int where "REPLAY_MINUTES = 5"

section \<open>Checks of a frame\<close>

definition validate_frame_shape :: "libs \<Rightarrow> team_terminal_encrypted_frame \<Rightarrow> unit relay_result" where
  "validate_frame_shape L f =
     rbind (ok_or (jcs_frame L f) Validation) (\<lambda>text.
     rbind (guard (\<not> (MAX_ENVELOPE_BYTES < length text \<or> tef_schema_version f \<noteq> 1
                      \<or> tef_sequence f = 0 \<or> tef_kind f \<noteq> ''terminal'')) Validation) (\<lambda>_.
     rbind (rmap (validate_uuid L) [tef_workspace_id f, tef_room_id f, tef_sender_member_id f,
              tef_sender_device_id f]) (\<lambda>_.
     rbind (ok_or (b64_decode L (tef_nonce f)) Validation) (\<lambda>nonce.
     rbind (ok_or (b64_decode L (tef_ciphertext f)) Validation) (\<lambda>ciphertext.
     guard (\<not> (length nonce \<noteq> 12 \<or> length ciphertext \<le> 16 \<or> MAX_FRAME_BYTES + 16 < length ciphertext))
       Validation)))))"

definition verify_frame_signature ::
    "libs \<Rightarrow> team_terminal_encrypted_frame \<Rightarrow> string \<Rightarrow> unit relay_result" where
  "verify_frame_signature L f signing_public_key =
     verify_signature L (jcs_frame L (f\<lparr>tef_signature := None\<rparr>)) (tef_signature f) signing_public_key"

section \<open>The replay window\<close>

text \<open>The loop that drops the oldest frames while the stored bytes exceed the limit.\<close>

fun prune_bytes :: "string \<Rightarrow> i64 \<Rightarrow> (i64 \<times> i64) list \<Rightarrow> relay_frame list \<Rightarrow> relay_frame list" where
  "prune_bytes room_id held [] frames = frames"
| "prune_bytes room_id held ((sequence, bytes) # rows) frames =
     (if held \<le> MAX_REPLAY_BYTES then frames
      else prune_bytes room_id (i64_sat_sub held bytes) rows
             (sql_delete (\<lambda>f. rf_room_id f = room_id \<and> rf_sequence f = sequence) frames))"

definition room_frames :: "string \<Rightarrow> relay_frame list \<Rightarrow> relay_frame list" where
  "room_frames room_id frames = sort_key rf_sequence (filter (\<lambda>f. rf_room_id f = room_id) frames)"

definition prune_replay :: "libs \<Rightarrow> int \<Rightarrow> string \<Rightarrow> db \<Rightarrow> db" where
  "prune_replay L t room_id d =
     (let cutoff = to_rfc3339 L (t - minutes REPLAY_MINUTES);
          f1 = sql_delete (\<lambda>f. rf_room_id f = room_id \<and> rf_created_at f < cutoff) (db_frames d);
          f2 = keep_newest MAX_REPLAY_FRAMES rf_sequence rf_sequence (\<lambda>f. rf_room_id f = room_id) f1;
          rows = map (\<lambda>f. (rf_sequence f, rf_encoded_bytes f)) (room_frames room_id f2)
      in d\<lparr>db_frames := prune_bytes room_id (sum_list (map snd rows)) rows f2\<rparr>)"

definition replay ::
    "libs \<Rightarrow> device_auth \<Rightarrow> string \<Rightarrow> u64 \<Rightarrow> u64 \<Rightarrow> db \<Rightarrow> team_terminal_encrypted_frame list relay_result" where
  "replay L auth room_id after_sequence up_to_sequence d =
     rbind (authorize_room auth room_id d) (\<lambda>_.
     if up_to_sequence < after_sequence then Inl Validation
     else if after_sequence = up_to_sequence then Inr []
     else if MAX_REPLAY_FRAMES < sat_sub up_to_sequence after_sequence then Inl Unavailable
     else (let rows = take MAX_REPLAY_FRAMES (sort_key rf_sequence (filter (\<lambda>f. rf_room_id f = room_id
                 \<and> as_i64 after_sequence < rf_sequence f \<and> rf_sequence f \<le> as_i64 up_to_sequence)
                 (db_frames d)));
               first = map_option (\<lambda>f. as_u64 (rf_sequence f)) (fetch_optional rows);
               last_row = map_option (\<lambda>f. as_u64 (rf_sequence f)) (fetch_optional (rev rows))
           in if first \<noteq> Some (sat_add after_sequence 1) \<or> last_row \<noteq> Some up_to_sequence
              then Inl Unavailable
              else rmap (\<lambda>f. ok_or (parse_frame L (rf_envelope_json f)) Internal) rows))"

section \<open>Accepting a frame\<close>

definition frame_checks ::
    "libs \<Rightarrow> device_auth \<Rightarrow> team_terminal_encrypted_frame \<Rightarrow> db \<Rightarrow> (room_view \<times> string) relay_result" where
  "frame_checks L auth frame d =
     rbind (validate_frame_shape L frame) (\<lambda>_.
     rbind (guard (\<not> (tef_workspace_id frame \<noteq> da_workspace_id auth
                      \<or> tef_sender_member_id frame \<noteq> da_member_id auth
                      \<or> tef_sender_device_id frame \<noteq> da_device_id auth
                      \<or> tef_key_epoch frame \<noteq> da_key_epoch auth)) PermissionDenied) (\<lambda>_.
     rbind (authorize_room auth (tef_room_id frame) d) (\<lambda>room.
     rbind (signing_key_of (da_device_id auth) d) (\<lambda>signing_key.
     rbind (verify_frame_signature L frame signing_key) (\<lambda>_.
     rbind (ok_or (json_frame L frame) Internal) (\<lambda>envelope.
     Inr (room, envelope)))))))"

definition output_tx ::
    "libs \<Rightarrow> env \<Rightarrow> device_auth \<Rightarrow> room_view \<Rightarrow> string \<Rightarrow> team_terminal_encrypted_frame \<Rightarrow> db
      \<Rightarrow> db relay_result" where
  "output_tx L E auth room envelope frame d =
     rbind (guard (\<not> (rv_host_device_id room \<noteq> da_device_id auth \<or> tef_kind frame \<noteq> ''terminal''
                      \<or> tef_lease_id frame \<noteq> None \<or> tef_lease_generation frame \<noteq> 0)) PermissionDenied) (\<lambda>_.
     rbind (ok_or (fetch_optional (filter (open_room (tef_room_id frame)) (db_rooms d)))
              (from_sql RowNotFound)) (\<lambda>r.
     (let expected = tr_next_output_sequence r
      in rbind (guard (tef_sequence frame = as_u64 expected) Conflict) (\<lambda>_.
         (let now = to_rfc3339 L (clock E 0);
              d = d\<lparr>db_rooms := sql_update
                    (\<lambda>r. tr_id r = tef_room_id frame \<and> tr_next_output_sequence r = expected)
                    (\<lambda>r. r\<lparr>tr_next_output_sequence := tr_next_output_sequence r + 1\<rparr>) (db_rooms d)\<rparr>
          in rbind (map_err from_sql (insert_frame
               \<lparr>rf_room_id = tef_room_id frame, rf_sequence = as_i64 (tef_sequence frame),
                rf_envelope_json = envelope, rf_encoded_bytes = as_i64 (length envelope),
                rf_created_at = now\<rparr> d)) (\<lambda>d.
             Inr (prune_replay L (clock E 1) (tef_room_id frame) d)))))))"

definition lease_metadata_ok :: "libs \<Rightarrow> team_terminal_encrypted_frame \<Rightarrow> bool" where
  "lease_metadata_ok L frame \<longleftrightarrow> \<not> (tef_kind frame \<noteq> ''terminal'' \<or> tef_lease_generation frame = 0
     \<or> (case tef_lease_id frame of None \<Rightarrow> True | Some v \<Rightarrow> \<not> uuid_ok L v))"

text \<open>The row of the live lease the frame names.\<close>

definition live_lease ::
    "string \<Rightarrow> device_auth \<Rightarrow> team_terminal_encrypted_frame \<Rightarrow> control_lease \<Rightarrow> bool" where
  "live_lease now auth frame l \<longleftrightarrow> cl_room_id l = tef_room_id frame
     \<and> cl_lease_id l = (case tef_lease_id frame of None \<Rightarrow> [] | Some v \<Rightarrow> v)
     \<and> cl_member_id l = da_member_id auth \<and> cl_device_id l = da_device_id auth
     \<and> cl_generation l = as_i64 (tef_lease_generation frame) \<and> now < cl_expires_at l"

definition input_tx ::
    "libs \<Rightarrow> env \<Rightarrow> device_auth \<Rightarrow> team_terminal_encrypted_frame \<Rightarrow> db \<Rightarrow> db relay_result" where
  "input_tx L E auth frame d =
     rbind (require_device_permission auth ''terminalControl'') (\<lambda>_.
     rbind (guard (lease_metadata_ok L frame) Validation) (\<lambda>_.
     rbind (ok_or (fetch_optional (filter (participant_of (tef_room_id frame) auth) (db_participants d)))
              (from_sql RowNotFound)) (\<lambda>p.
     (let participant_sequence = rp_next_input_sequence p
      in rbind (guard (tef_sequence frame = as_u64 participant_sequence) Conflict) (\<lambda>_.
         rbind (guard (sql_count (live_lease (to_rfc3339 L (clock E 0)) auth frame) (db_leases d) = 1)
                  PermissionDenied) (\<lambda>_.
         Inr (d\<lparr>db_participants := sql_update
               (\<lambda>p. rp_room_id p = tef_room_id frame \<and> rp_device_id p = da_device_id auth
                    \<and> rp_next_input_sequence p = participant_sequence)
               (\<lambda>p. p\<lparr>rp_next_input_sequence := rp_next_input_sequence p + 1\<rparr>)
               (db_participants d)\<rparr>)))))))"

definition frame_tx ::
    "libs \<Rightarrow> env \<Rightarrow> device_auth \<Rightarrow> room_view \<Rightarrow> string \<Rightarrow> team_terminal_encrypted_frame \<Rightarrow> db
      \<Rightarrow> db relay_result" where
  "frame_tx L E auth room envelope frame d =
     (if tef_direction frame = ''output'' then output_tx L E auth room envelope frame d
      else if tef_direction frame = ''input'' then input_tx L E auth frame d
      else Inl Validation)"

definition process_frame ::
    "libs \<Rightarrow> env \<Rightarrow> device_auth \<Rightarrow> team_terminal_encrypted_frame \<Rightarrow> relay \<Rightarrow> string relay_result \<times> relay" where
  "process_frame L E auth frame s =
     (case rbind (frame_checks L auth frame (rl_db s)) (\<lambda>(room, envelope).
           rbind (frame_tx L E auth room envelope frame (rl_db s)) (\<lambda>d. Inr (room, envelope, d))) of
        Inl e \<Rightarrow> (Inl e, s)
      | Inr (room, envelope, d) \<Rightarrow>
         (case json_server L (ServerFrame frame) of
            None \<Rightarrow> (Inl Internal, s\<lparr>rl_db := d\<rparr>)
          | Some socket_json \<Rightarrow> (Inr envelope, send_to (tef_room_id frame)
              \<lparr>bf_json = socket_json, bf_direction = tef_direction frame,
               bf_sequence = Some (tef_sequence frame), bf_host_device_id = rv_host_device_id room\<rparr>
              (s\<lparr>rl_db := d\<rparr>))))"

section \<open>What an accepted frame says\<close>

text \<open>An \<open>UPDATE\<close> that meets one row.\<close>

lemma updated_row:
  assumes "y \<in> set (sql_update c f rows)" "P y" "\<And>r. P (f r) = P r"
    and "\<And>r. r \<in> set rows \<Longrightarrow> P r \<Longrightarrow> r = x" "c x"
  shows "y = f x"
  using assms(1) unfolding set_sql_update by (elim UnE imageE) (use assms(2-5) in auto)

lemma sql_update_single:
  "(\<And>r. r \<in> set rows \<Longrightarrow> c r \<longleftrightarrow> r = x) \<Longrightarrow> sql_update c f rows = map (\<lambda>r. if r = x then f r else r) rows"
  by (simp add: sql_update_def)

lemma frame_checks_Inr:
  assumes "frame_checks L auth frame d = Inr (room, envelope)"
  shows "validate_frame_shape L frame = Inr () \<and> tef_workspace_id frame = da_workspace_id auth
    \<and> tef_sender_member_id frame = da_member_id auth \<and> tef_sender_device_id frame = da_device_id auth
    \<and> tef_key_epoch frame = da_key_epoch auth \<and> authorize_room auth (tef_room_id frame) d = Inr room
    \<and> (\<exists>key. signing_key_of (da_device_id auth) d = Inr key \<and> verify_frame_signature L frame key = Inr ())
    \<and> json_frame L frame = Some envelope"
  using assms unfolding frame_checks_def by (clarsimp simp: res_iff)

text \<open>An accepted frame has run its transaction; the rest is the broadcast.\<close>

lemma process_frame_Inr:
  assumes "process_frame L E auth frame s = (Inr envelope, s')"
  obtains room where "frame_checks L auth frame (rl_db s) = Inr (room, envelope)"
    "frame_tx L E auth room envelope frame (rl_db s) = Inr (rl_db s')"
  using assms unfolding process_frame_def
  by (auto simp: res_iff split: sum.splits prod.splits option.splits)

lemma process_frame_db:
  "process_frame L E auth frame s = (r, s') \<Longrightarrow> rl_db s' = rl_db s
     \<or> (\<exists>room envelope. frame_checks L auth frame (rl_db s) = Inr (room, envelope)
          \<and> frame_tx L E auth room envelope frame (rl_db s) = Inr (rl_db s'))"
  unfolding process_frame_def by (auto simp: res_iff split: sum.splits prod.splits option.splits)

lemma input_tx_Inr:
  assumes "input_tx L E auth frame d = Inr d'"
  obtains p where "da_role auth \<in> {''owner'', ''admin'', ''operator''}" "lease_metadata_ok L frame"
    "p \<in> set (db_participants d)" "participant_of (tef_room_id frame) auth p"
    "tef_sequence frame = as_u64 (rp_next_input_sequence p)"
    "sql_count (live_lease (to_rfc3339 L (clock E 0)) auth frame) (db_leases d) = 1"
    "d' = d\<lparr>db_participants := sql_update
       (\<lambda>q. rp_room_id q = tef_room_id frame \<and> rp_device_id q = da_device_id auth
            \<and> rp_next_input_sequence q = rp_next_input_sequence p)
       (\<lambda>p. p\<lparr>rp_next_input_sequence := rp_next_input_sequence p + 1\<rparr>) (db_participants d)\<rparr>"
proof -
  obtain p where p: "fetch_optional (filter (participant_of (tef_room_id frame) auth) (db_participants d)) = Some p"
    and rest: "require_permission (da_role auth) ''terminalControl'' = Inr ()" "lease_metadata_ok L frame"
    "tef_sequence frame = as_u64 (rp_next_input_sequence p)"
    "sql_count (live_lease (to_rfc3339 L (clock E 0)) auth frame) (db_leases d) = 1"
    "d' = d\<lparr>db_participants := sql_update
       (\<lambda>q. rp_room_id q = tef_room_id frame \<and> rp_device_id q = da_device_id auth
            \<and> rp_next_input_sequence q = rp_next_input_sequence p)
       (\<lambda>p. p\<lparr>rp_next_input_sequence := rp_next_input_sequence p + 1\<rparr>) (db_participants d)\<rparr>"
    using assms unfolding input_tx_def Let_def require_device_permission_def by (clarsimp simp: res_iff)
  have "p \<in> set (db_participants d)" "participant_of (tef_room_id frame) auth p"
    using fetch_optional_Some_mem [OF p] by simp_all
  moreover have "da_role auth \<in> {''owner'', ''admin'', ''operator''}"
    using rest(1) by (simp add: permission_terminalControl)
  ultimately show ?thesis using that rest(2-5) by blast
qed

lemma output_tx_Inr:
  assumes "output_tx L E auth room envelope frame d = Inr d'"
  obtains r d1 where "rv_host_device_id room = da_device_id auth" "tef_lease_id frame = None"
    "r \<in> set (db_rooms d)" "open_room (tef_room_id frame) r"
    "tef_sequence frame = as_u64 (tr_next_output_sequence r)"
    "insert_frame \<lparr>rf_room_id = tef_room_id frame, rf_sequence = as_i64 (tef_sequence frame),
       rf_envelope_json = envelope, rf_encoded_bytes = as_i64 (length envelope),
       rf_created_at = to_rfc3339 L (clock E 0)\<rparr>
       (d\<lparr>db_rooms := sql_update
          (\<lambda>q. tr_id q = tef_room_id frame \<and> tr_next_output_sequence q = tr_next_output_sequence r)
          (\<lambda>r. r\<lparr>tr_next_output_sequence := tr_next_output_sequence r + 1\<rparr>) (db_rooms d)\<rparr>) = Inr d1"
    "d' = prune_replay L (clock E 1) (tef_room_id frame) d1"
proof -
  obtain r d1 where r: "fetch_optional (filter (open_room (tef_room_id frame)) (db_rooms d)) = Some r"
    and rest: "rv_host_device_id room = da_device_id auth" "tef_lease_id frame = None"
    "tef_sequence frame = as_u64 (tr_next_output_sequence r)"
    "insert_frame \<lparr>rf_room_id = tef_room_id frame, rf_sequence = as_i64 (tef_sequence frame),
       rf_envelope_json = envelope, rf_encoded_bytes = as_i64 (length envelope),
       rf_created_at = to_rfc3339 L (clock E 0)\<rparr>
       (d\<lparr>db_rooms := sql_update
          (\<lambda>q. tr_id q = tef_room_id frame \<and> tr_next_output_sequence q = tr_next_output_sequence r)
          (\<lambda>r. r\<lparr>tr_next_output_sequence := tr_next_output_sequence r + 1\<rparr>) (db_rooms d)\<rparr>) = Inr d1"
    "d' = prune_replay L (clock E 1) (tef_room_id frame) d1"
    using assms unfolding output_tx_def Let_def by (clarsimp simp: res_iff)
  have "r \<in> set (db_rooms d)" "open_room (tef_room_id frame) r" using fetch_optional_Some_mem [OF r] by simp_all
  then show ?thesis by (rule that [OF rest(1,2) _ _ rest(3-5)])
qed

lemma prune_bytes_subset: "set (prune_bytes room_id held rows frames) \<subseteq> set frames"
  by (induction room_id held rows frames rule: prune_bytes.induct) (auto simp: set_sql_delete)

lemma distinct_prune_bytes:
  "distinct (map g frames) \<Longrightarrow> distinct (map g (prune_bytes room_id held rows frames))"
  by (induction room_id held rows frames rule: prune_bytes.induct) (simp_all add: distinct_sql_delete)

lemma prune_replay_fields:
  "db_rooms (prune_replay L t room_id d) = db_rooms d" "db_participants (prune_replay L t room_id d) = db_participants d"
  "db_leases (prune_replay L t room_id d) = db_leases d" "db_members (prune_replay L t room_id d) = db_members d"
  "db_devices (prune_replay L t room_id d) = db_devices d" "db_workspaces (prune_replay L t room_id d) = db_workspaces d"
  by (simp_all add: prune_replay_def Let_def)

lemma prune_replay_keys: "keys_ok d \<Longrightarrow> keys_ok (prune_replay L t room_id d)"
  by (simp add: prune_replay_def Let_def keys_ok_def distinct_prune_bytes distinct_keep_newest distinct_sql_delete)

lemma process_frame_keys [keeps_keys]:
  assumes "process_frame L E auth frame s = (r, s')" "keys_ok (rl_db s)"
  shows "keys_ok (rl_db s')"
proof -
  have "keys_ok (rl_db s')" if tx: "frame_tx L E auth room envelope frame (rl_db s) = Inr (rl_db s')" for room envelope
  proof (cases "tef_direction frame = ''output''")
    case True
    then have out: "output_tx L E auth room envelope frame (rl_db s) = Inr (rl_db s')" using tx by (simp add: frame_tx_def)
    show ?thesis
    proof (rule output_tx_Inr [OF out])
      fix row r d1
      assume ins: "insert_frame row ((rl_db s)\<lparr>db_rooms := sql_update
          (\<lambda>q. tr_id q = tef_room_id frame \<and> tr_next_output_sequence q = tr_next_output_sequence r)
          (\<lambda>r. r\<lparr>tr_next_output_sequence := tr_next_output_sequence r + 1\<rparr>) (db_rooms (rl_db s))\<rparr>) = Inr d1"
        and "rl_db s' = prune_replay L (clock E 1) (tef_room_id frame) d1"
      then show ?thesis using insert_keeps_keys(12) [OF ins] assms(2)
        by (simp add: prune_replay_keys room_update_keys(1))
    qed
  next
    case False
    then have "input_tx L E auth frame (rl_db s) = Inr (rl_db s')" using tx by (auto simp: frame_tx_def split: if_split_asm)
    then show ?thesis by (rule input_tx_Inr) (use assms(2) in \<open>simp add: room_update_keys(2)\<close>)
  qed
  then show ?thesis using process_frame_db [OF assms(1)] assms(2) by auto
qed

section \<open>Properties\<close>

text \<open>C1: An input frame is accepted only from a member that may control a terminal and only under the
  live lease it names: the lease of that room, held by the very device and member of the session,
  of the named generation and not expired; its sequence number is exactly the next one of the
  participant, and the only effect on the database is that this number advances.\<close>

theorem input_needs_lease:
  assumes "process_frame L E auth frame s = (Inr envelope, s')" "tef_direction frame = ''input''" "keys_ok (rl_db s)"
  shows "da_role auth \<in> {''owner'', ''admin'', ''operator''}
    \<and> (\<exists>l \<in> set (db_leases (rl_db s)). cl_room_id l = tef_room_id frame \<and> tef_lease_id frame = Some (cl_lease_id l)
        \<and> cl_device_id l = da_device_id auth \<and> cl_member_id l = da_member_id auth
        \<and> cl_generation l = as_i64 (tef_lease_generation frame) \<and> to_rfc3339 L (clock E 0) < cl_expires_at l)
    \<and> (\<exists>p \<in> set (db_participants (rl_db s)). participant_of (tef_room_id frame) auth p
        \<and> tef_sequence frame = as_u64 (rp_next_input_sequence p)
        \<and> rl_db s' = (rl_db s)\<lparr>db_participants := map (\<lambda>q. if q = p
             then q\<lparr>rp_next_input_sequence := rp_next_input_sequence q + 1\<rparr> else q) (db_participants (rl_db s))\<rparr>)"
proof -
  obtain room where "frame_tx L E auth room envelope frame (rl_db s) = Inr (rl_db s')"
    by (rule process_frame_Inr [OF assms(1)])
  then have tx: "input_tx L E auth frame (rl_db s) = Inr (rl_db s')" using assms(2) by (simp add: frame_tx_def)
  obtain p where role: "da_role auth \<in> {''owner'', ''admin'', ''operator''}" and meta: "lease_metadata_ok L frame"
    and p: "p \<in> set (db_participants (rl_db s))" "participant_of (tef_room_id frame) auth p"
      "tef_sequence frame = as_u64 (rp_next_input_sequence p)"
    and lease: "sql_count (live_lease (to_rfc3339 L (clock E 0)) auth frame) (db_leases (rl_db s)) = 1"
    and d': "rl_db s' = (rl_db s)\<lparr>db_participants := sql_update
       (\<lambda>q. rp_room_id q = tef_room_id frame \<and> rp_device_id q = da_device_id auth
            \<and> rp_next_input_sequence q = rp_next_input_sequence p)
       (\<lambda>p. p\<lparr>rp_next_input_sequence := rp_next_input_sequence p + 1\<rparr>) (db_participants (rl_db s))\<rparr>"
    by (rule input_tx_Inr [OF tx])
  have "sql_update (\<lambda>q. rp_room_id q = tef_room_id frame \<and> rp_device_id q = da_device_id auth
            \<and> rp_next_input_sequence q = rp_next_input_sequence p)
       (\<lambda>p. p\<lparr>rp_next_input_sequence := rp_next_input_sequence p + 1\<rparr>) (db_participants (rl_db s))
    = map (\<lambda>q. if q = p then q\<lparr>rp_next_input_sequence := rp_next_input_sequence q + 1\<rparr> else q) (db_participants (rl_db s))"
  proof (rule sql_update_single)
    fix q assume q: "q \<in> set (db_participants (rl_db s))"
    have "rp_room_id p = tef_room_id frame" "rp_device_id p = da_device_id auth"
      using p(2) by (simp_all add: participant_of_def)
    then show "(rp_room_id q = tef_room_id frame \<and> rp_device_id q = da_device_id auth
        \<and> rp_next_input_sequence q = rp_next_input_sequence p) = (q = p)"
      using participant_unique [OF assms(3) q p(1)] by metis
  qed
  moreover have "0 < sql_count (live_lease (to_rfc3339 L (clock E 0)) auth frame) (db_leases (rl_db s))" using lease by simp
  then obtain l where "l \<in> set (db_leases (rl_db s))" "live_lease (to_rfc3339 L (clock E 0)) auth frame l"
    unfolding sql_count_pos by blast
  moreover have "tef_lease_id frame \<noteq> None" using meta by (auto simp: lease_metadata_ok_def split: option.splits)
  ultimately show ?thesis using role p d' by (auto simp: live_lease_def)
qed


definition sample_frame :: team_terminal_encrypted_frame where
  "sample_frame = \<lparr>tef_schema_version = 1, tef_workspace_id = ''w1'', tef_room_id = ''r1'', tef_key_epoch = 1,
     tef_sender_member_id = ''m1'', tef_sender_device_id = ''d1'', tef_direction = ''input'', tef_kind = ''terminal'',
     tef_sequence = 1, tef_lease_id = Some ''l1'', tef_lease_generation = 1, tef_nonce = replicate 16 (CHR ''n''),
     tef_ciphertext = replicate 40 (CHR ''c''), tef_signature = Some ''ed25519:s''\<rparr>"

lemma sample_frame_shape: "validate_frame_shape sample_libs sample_frame = Inr ()"
  by (simp add: validate_frame_shape_def sample_libs_def sample_frame_def MAX_ENVELOPE_BYTES_def
      MAX_FRAME_BYTES_def validate_uuid_def)

lemma sample_entered: "is_ok (authorize_room operator_auth ''r1'' sample_db)"
  by code_simp

lemma sample_frame_checks: "\<exists>room. frame_checks sample_libs operator_auth sample_frame sample_db = Inr (room, ''{}'')"
proof -
  obtain room where "authorize_room operator_auth ''r1'' sample_db = Inr room"
    using sample_entered by (auto simp: is_ok_iff)
  moreover have "signing_key_of ''d1'' sample_db = Inr (''ed25519:'' @ replicate 43 (CHR ''k''))" by code_simp
  moreover have "verify_frame_signature sample_libs sample_frame (''ed25519:'' @ replicate 43 (CHR ''k'')) = Inr ()"
    by code_simp
  moreover have "json_frame sample_libs sample_frame = Some ''{}''" by (simp add: sample_libs_def)
  ultimately show ?thesis using sample_frame_shape
    by (simp add: frame_checks_def sample_frame_def operator_auth_def)
qed

lemma sample_frame_accepted:
  "process_frame sample_libs sample_env operator_auth sample_frame (new_relay sample_db)
     = (Inr ''{}'', snd (process_frame sample_libs sample_env operator_auth sample_frame (new_relay sample_db)))"
proof -
  obtain room where c: "frame_checks sample_libs operator_auth sample_frame sample_db = Inr (room, ''{}'')"
    using sample_frame_checks by blast
  have "is_ok (input_tx sample_libs sample_env operator_auth sample_frame sample_db)" by code_simp
  then obtain d where "input_tx sample_libs sample_env operator_auth sample_frame sample_db = Inr d"
    by (auto simp: is_ok_iff)
  then have "frame_tx sample_libs sample_env operator_auth room ''{}'' sample_frame sample_db = Inr d"
    by (simp add: frame_tx_def sample_frame_def)
  moreover have "rl_db (new_relay sample_db) = sample_db" by (simp add: new_relay_def)
  moreover have "json_server sample_libs m = Some ''{}''" for m by (simp add: sample_libs_def)
  ultimately show ?thesis using c by (simp add: process_frame_def)
qed

theorem input_needs_lease_witness:
  "\<exists>l \<in> set (db_leases sample_db). tef_lease_id sample_frame = Some (cl_lease_id l) \<and> cl_device_id l = ''d1''"
proof -
  have "tef_direction sample_frame = ''input''" "keys_ok (rl_db (new_relay sample_db))"
    using sample_keys by (simp_all add: sample_frame_def new_relay_def)
  from input_needs_lease [OF sample_frame_accepted this] show ?thesis
    by (auto simp: new_relay_def operator_auth_def)
qed


end
