(* ===== verification/RelayReplay.thy ===== *)
theory RelayReplay
  imports RelayFrames
begin

text \<open>
  The replay window of a room: after every accepted output frame it is a contiguous run of
  sequence numbers that ends at the newest frame, with at most 512 frames and 4 MiB, and a replay
  returns exactly the frames the client missed.
\<close>

section \<open>Suffixes of the window\<close>

lemma fetch_optional_hd: "xs \<noteq> [] \<Longrightarrow> fetch_optional xs = Some (hd xs)"
  by (cases xs) simp_all

lemma drop_upto: "drop n [a..b] = [a + int n..b]"
proof (induction n arbitrary: a)
  case (Suc n)
  show ?case
  proof (cases "a \<le> b")
    case True
    then have "drop (Suc n) [a..b] = drop n [a + 1..b]" by (subst upto_rec1) simp_all
    then show ?thesis using Suc [of "a + 1"] by (simp add: algebra_simps)
  qed simp
qed simp

lemma distinct_room_sequences:
  assumes "keys_ok d"
  shows "distinct (map rf_sequence (room_frames room_id (db_frames d)))"
proof -
  have "distinct (map (\<lambda>f. (rf_room_id f, rf_sequence f)) (db_frames d))" using assms by (simp add: keys_ok_def)
  then have "distinct (filter (\<lambda>f. rf_room_id f = room_id) (db_frames d))"
    and "inj_on rf_sequence (set (filter (\<lambda>f. rf_room_id f = room_id) (db_frames d)))"
    by (auto simp: distinct_map inj_on_def distinct_filter)
  then show ?thesis by (simp add: room_frames_def distinct_map)
qed

lemma room_frames_delete:
  "room_frames room_id (sql_delete (\<lambda>f. rf_room_id f = room_id \<and> q f) frames)
     = filter (\<lambda>f. \<not> q f) (room_frames room_id frames)"
proof -
  have "filter (\<lambda>f. rf_room_id f = room_id) (sql_delete (\<lambda>f. rf_room_id f = room_id \<and> q f) frames)
      = filter (\<lambda>f. \<not> q f) (filter (\<lambda>f. rf_room_id f = room_id) frames)"
    by (induction frames) (auto simp: sql_delete_def)
  then show ?thesis by (simp add: room_frames_def filter_sort)
qed

lemma filter_sorted_suffix:
  "sorted (map ts xs) \<Longrightarrow> \<exists>n. filter (\<lambda>x. \<not> ts x < (c :: 't :: linorder)) xs = drop n xs"
proof (induction xs)
  case (Cons x xs)
  show ?case
  proof (cases "ts x < c")
    case True
    obtain n where "filter (\<lambda>x. \<not> ts x < c) xs = drop n xs" using Cons by auto
    then show ?thesis using True by (intro exI [of _ "Suc n"]) simp
  next
    case False
    then have "filter (\<lambda>x. \<not> ts x < c) (x # xs) = drop 0 (x # xs)" using Cons.prems by (fastforce simp: filter_id_conv)
    then show ?thesis by blast
  qed
qed simp

lemma filter_mem_suffix:
  "distinct (map key xs) \<Longrightarrow> filter (\<lambda>x. key x \<in> key ` set (drop k xs)) xs = drop k xs"
proof (induction xs arbitrary: k)
  case (Cons x xs)
  show ?case
  proof (cases k)
    case 0
    then show ?thesis by simp
  next
    case (Suc j)
    then have "key x \<notin> key ` set (drop k (x # xs))" using Cons.prems
      by (metis distinct.simps(2) drop_Suc_Cons drop_map in_set_dropD list.set_map list.simps(9))
    then show ?thesis using Cons Suc by simp
  qed
qed simp

lemma room_frames_newest:
  assumes "distinct (map rf_sequence (room_frames room_id frames))"
  shows "room_frames room_id (keep_newest n rf_sequence rf_sequence (\<lambda>f. rf_room_id f = room_id) frames)
    = drop (length (room_frames room_id frames) - n) (room_frames room_id frames)"
proof -
  let ?xs = "room_frames room_id frames"
  have new: "newest n rf_sequence (filter (\<lambda>f. rf_room_id f = room_id) frames) = rev (drop (length ?xs - n) ?xs)"
    by (simp add: newest_def room_frames_def take_rev)
  have "room_frames room_id (keep_newest n rf_sequence rf_sequence (\<lambda>f. rf_room_id f = room_id) frames)
      = filter (\<lambda>f. rf_sequence f \<in> rf_sequence ` set (drop (length ?xs - n) ?xs)) ?xs"
    unfolding keep_newest_def new by (subst room_frames_delete) simp
  then show ?thesis using filter_mem_suffix [OF assms] by simp
qed

lemma room_frames_prune_bytes:
  "distinct (map rf_sequence (room_frames room_id frames)) \<Longrightarrow>
     \<exists>n. room_frames room_id (prune_bytes room_id held
       (map (\<lambda>f. (rf_sequence f, rf_encoded_bytes f)) (room_frames room_id frames)) frames)
       = drop n (room_frames room_id frames)"
proof (induction "room_frames room_id frames" arbitrary: held frames)
  case Nil
  then show ?case by (metis drop_0 list.simps(8) prune_bytes.simps(1))
next
  case (Cons f xs)
  let ?frames = "sql_delete (\<lambda>g. rf_room_id g = room_id \<and> rf_sequence g = rf_sequence f) frames"
  have xs: "room_frames room_id ?frames = xs"
  proof -
    have "room_frames room_id ?frames = filter (\<lambda>g. rf_sequence g \<noteq> rf_sequence f) (f # xs)"
      using room_frames_delete [of room_id "\<lambda>g. rf_sequence g = rf_sequence f" frames] Cons.hyps(2) by simp
    moreover have "rf_sequence f \<notin> rf_sequence ` set xs" using Cons.prems Cons.hyps(2)
      by (metis distinct.simps(2) list.set_map list.simps(9))
    ultimately show ?thesis by (simp add: filter_id_conv) (metis imageI)
  qed
  have "distinct (map rf_sequence (f # xs))" using Cons.prems unfolding Cons.hyps(2) .
  then have dist: "distinct (map rf_sequence (room_frames room_id ?frames))" unfolding xs by simp
  show ?case
  proof (cases "held \<le> MAX_REPLAY_BYTES")
    case True
    then have "prune_bytes room_id held (map (\<lambda>f. (rf_sequence f, rf_encoded_bytes f)) (room_frames room_id frames))
        frames = frames"
      unfolding Cons.hyps(2) [symmetric] by simp
    then show ?thesis by (metis drop_0)
  next
    case False
    obtain n where "room_frames room_id (prune_bytes room_id (i64_sat_sub held (rf_encoded_bytes f))
        (map (\<lambda>f. (rf_sequence f, rf_encoded_bytes f)) (room_frames room_id ?frames)) ?frames)
      = drop n (room_frames room_id ?frames)"
      using Cons.hyps(1) [OF xs [symmetric] dist] by blast
    then show ?thesis using False xs unfolding Cons.hyps(2) [symmetric]
      by (intro exI [of _ "Suc n"]) simp
  qed
qed

text \<open>What pruning keeps is a suffix of the room's frames, and the other rooms are not touched.\<close>

lemma prune_replay_suffix:
  assumes "keys_ok d" "sorted (map rf_created_at (room_frames room_id (db_frames d)))"
  shows "\<exists>n. room_frames room_id (db_frames (prune_replay L t room_id d)) = drop n (room_frames room_id (db_frames d))"
proof -
  let ?f1 = "sql_delete (\<lambda>f. rf_room_id f = room_id \<and> rf_created_at f < to_rfc3339 L (t - minutes REPLAY_MINUTES)) (db_frames d)"
  let ?f2 = "keep_newest MAX_REPLAY_FRAMES rf_sequence rf_sequence (\<lambda>f. rf_room_id f = room_id) ?f1"
  let ?rows = "map (\<lambda>f. (rf_sequence f, rf_encoded_bytes f)) (room_frames room_id ?f2)"
  obtain a where a: "room_frames room_id ?f1 = drop a (room_frames room_id (db_frames d))"
    using filter_sorted_suffix [OF assms(2)] by (metis room_frames_delete)
  have d1: "distinct (map rf_sequence (room_frames room_id ?f1))"
    using distinct_room_sequences [OF assms(1)] unfolding a by (simp add: drop_map [symmetric])
  have b: "room_frames room_id ?f2 = drop (length (room_frames room_id ?f1) - MAX_REPLAY_FRAMES) (room_frames room_id ?f1)"
    by (rule room_frames_newest [OF d1])
  have d2: "distinct (map rf_sequence (room_frames room_id ?f2))"
    using d1 unfolding b by (simp add: drop_map [symmetric])
  obtain c where c: "room_frames room_id (prune_bytes room_id (sum_list (map snd ?rows)) ?rows ?f2)
      = drop c (room_frames room_id ?f2)"
    using room_frames_prune_bytes [OF d2] by blast
  have "db_frames (prune_replay L t room_id d) = prune_bytes room_id (sum_list (map snd ?rows)) ?rows ?f2"
    by (simp add: prune_replay_def Let_def)
  then have "room_frames room_id (db_frames (prune_replay L t room_id d)) = drop c (room_frames room_id ?f2)"
    by (simp only: c)
  also have "\<dots> = drop (c + (length (room_frames room_id ?f1) - MAX_REPLAY_FRAMES) + a) (room_frames room_id (db_frames d))"
    unfolding b unfolding a by (simp only: drop_drop add.assoc)
  finally show ?thesis by blast
qed

lemma prune_replay_length:
  assumes "keys_ok d"
  shows "length (room_frames room_id (db_frames (prune_replay L t room_id d))) \<le> MAX_REPLAY_FRAMES"
proof -
  let ?f1 = "sql_delete (\<lambda>f. rf_room_id f = room_id \<and> rf_created_at f < to_rfc3339 L (t - minutes REPLAY_MINUTES)) (db_frames d)"
  let ?f2 = "keep_newest MAX_REPLAY_FRAMES rf_sequence rf_sequence (\<lambda>f. rf_room_id f = room_id) ?f1"
  let ?rows = "map (\<lambda>f. (rf_sequence f, rf_encoded_bytes f)) (room_frames room_id ?f2)"
  have d1: "distinct (map rf_sequence (room_frames room_id ?f1))"
    unfolding room_frames_delete using distinct_room_sequences [OF assms] by (simp add: distinct_map_filter)
  have b: "room_frames room_id ?f2 = drop (length (room_frames room_id ?f1) - MAX_REPLAY_FRAMES) (room_frames room_id ?f1)"
    by (rule room_frames_newest [OF d1])
  then have d2: "distinct (map rf_sequence (room_frames room_id ?f2))" using d1 by (simp add: drop_map [symmetric])
  obtain c where c: "room_frames room_id (prune_bytes room_id (sum_list (map snd ?rows)) ?rows ?f2)
      = drop c (room_frames room_id ?f2)"
    using room_frames_prune_bytes [OF d2] by blast
  have "db_frames (prune_replay L t room_id d) = prune_bytes room_id (sum_list (map snd ?rows)) ?rows ?f2"
    by (simp add: prune_replay_def Let_def)
  then show ?thesis using b c by simp
qed

text \<open>The bytes that are left, when the stored sizes are sizes of texts.\<close>

definition stored_bytes :: "string \<Rightarrow> relay_frame list \<Rightarrow> i64" where
  "stored_bytes room_id frames = sum_list (map rf_encoded_bytes (room_frames room_id frames))"

lemma prune_bytes_bound:
  "distinct (map rf_sequence (room_frames room_id frames)) \<Longrightarrow>
   \<forall>f \<in> set (room_frames room_id frames). 0 \<le> rf_encoded_bytes f \<Longrightarrow> stored_bytes room_id frames < 2 ^ 63 \<Longrightarrow>
     stored_bytes room_id (prune_bytes room_id (stored_bytes room_id frames)
       (map (\<lambda>f. (rf_sequence f, rf_encoded_bytes f)) (room_frames room_id frames)) frames) \<le> MAX_REPLAY_BYTES"
proof (induction "room_frames room_id frames" arbitrary: frames)
  case Nil
  have "stored_bytes room_id frames = 0" unfolding stored_bytes_def Nil(1) [symmetric] by simp
  then show ?case unfolding Nil(1) [symmetric] by (simp add: MAX_REPLAY_BYTES_def)
next
  case (Cons f xs)
  let ?frames = "sql_delete (\<lambda>g. rf_room_id g = room_id \<and> rf_sequence g = rf_sequence f) frames"
  have xs: "room_frames room_id ?frames = xs"
  proof -
    have "room_frames room_id ?frames = filter (\<lambda>g. rf_sequence g \<noteq> rf_sequence f) (f # xs)"
      using room_frames_delete [of room_id "\<lambda>g. rf_sequence g = rf_sequence f" frames] Cons.hyps(2) by simp
    moreover have "rf_sequence f \<notin> rf_sequence ` set xs" using Cons.prems(1) Cons.hyps(2)
      by (metis distinct.simps(2) list.set_map list.simps(9))
    ultimately show ?thesis by (simp add: filter_id_conv) (metis imageI)
  qed
  have total: "stored_bytes room_id frames = rf_encoded_bytes f + stored_bytes room_id ?frames"
    unfolding stored_bytes_def xs Cons.hyps(2) [symmetric] by simp
  have pos: "0 \<le> rf_encoded_bytes f" "\<forall>g \<in> set xs. 0 \<le> rf_encoded_bytes g"
    using Cons.prems(2) unfolding Cons.hyps(2) [symmetric] by simp_all
  have rest: "0 \<le> stored_bytes room_id ?frames" unfolding stored_bytes_def xs
    using pos(2) by (intro sum_list_nonneg) auto
  have sub: "i64_sat_sub (stored_bytes room_id frames) (rf_encoded_bytes f) = stored_bytes room_id ?frames"
    using total rest pos(1) Cons.prems(3) by (simp add: i64_sat_sub_def)
  show ?case
  proof (cases "stored_bytes room_id frames \<le> MAX_REPLAY_BYTES")
    case True
    then show ?thesis unfolding Cons.hyps(2) [symmetric] by simp
  next
    case False
    have "stored_bytes room_id (prune_bytes room_id (stored_bytes room_id ?frames)
       (map (\<lambda>f. (rf_sequence f, rf_encoded_bytes f)) (room_frames room_id ?frames)) ?frames) \<le> MAX_REPLAY_BYTES"
    proof (rule Cons.hyps(1) [OF xs [symmetric]])
      show "distinct (map rf_sequence (room_frames room_id ?frames))"
        using Cons.prems(1) unfolding xs Cons.hyps(2) [symmetric] by simp
      show "\<forall>f \<in> set (room_frames room_id ?frames). 0 \<le> rf_encoded_bytes f" unfolding xs by (rule pos(2))
      show "stored_bytes room_id ?frames < 2 ^ 63" using total pos(1) Cons.prems(3) by simp
    qed
    then show ?thesis using False sub xs unfolding Cons.hyps(2) [symmetric] by simp
  qed
qed

lemma prune_replay_bytes:
  assumes "keys_ok d" "\<forall>f \<in> set (db_frames d). 0 \<le> rf_encoded_bytes f \<and> rf_encoded_bytes f < 2 ^ 32"
  shows "stored_bytes room_id (db_frames (prune_replay L t room_id d)) \<le> MAX_REPLAY_BYTES"
proof -
  let ?f1 = "sql_delete (\<lambda>f. rf_room_id f = room_id \<and> rf_created_at f < to_rfc3339 L (t - minutes REPLAY_MINUTES)) (db_frames d)"
  let ?f2 = "keep_newest MAX_REPLAY_FRAMES rf_sequence rf_sequence (\<lambda>f. rf_room_id f = room_id) ?f1"
  let ?rows = "map (\<lambda>f. (rf_sequence f, rf_encoded_bytes f)) (room_frames room_id ?f2)"
  have d1: "distinct (map rf_sequence (room_frames room_id ?f1))"
    unfolding room_frames_delete using distinct_room_sequences [OF assms(1)] by (simp add: distinct_map_filter)
  have b: "room_frames room_id ?f2 = drop (length (room_frames room_id ?f1) - MAX_REPLAY_FRAMES) (room_frames room_id ?f1)"
    by (rule room_frames_newest [OF d1])
  then have d2: "distinct (map rf_sequence (room_frames room_id ?f2))" using d1 by (simp add: drop_map [symmetric])
  have mem: "set (room_frames room_id ?f2) \<subseteq> set (db_frames d)"
    using set_keep_newest_subset by (fastforce simp: room_frames_def set_sql_delete)
  have len: "length (room_frames room_id ?f2) \<le> 512" using b by (simp add: MAX_REPLAY_FRAMES_def)
  have "sum_list (map rf_encoded_bytes ys) \<le> int (length ys) * 2 ^ 32"
    if "\<forall>f \<in> set ys. rf_encoded_bytes f < 2 ^ 32" for ys
    using that by (induction ys) (auto simp: algebra_simps)
  then have "stored_bytes room_id ?f2 \<le> int (length (room_frames room_id ?f2)) * 2 ^ 32"
    unfolding stored_bytes_def using mem assms(2) by blast
  also have "\<dots> \<le> 512 * 2 ^ 32" using len by simp
  also have "\<dots> < (2 :: int) ^ 63" by simp
  finally have "stored_bytes room_id (prune_bytes room_id (stored_bytes room_id ?f2) ?rows ?f2) \<le> MAX_REPLAY_BYTES"
    using prune_bytes_bound [OF d2] mem assms(2) by blast
  moreover have "sum_list (map snd ?rows) = stored_bytes room_id ?f2" by (simp add: stored_bytes_def comp_def)
  moreover have "db_frames (prune_replay L t room_id d) = prune_bytes room_id (sum_list (map snd ?rows)) ?rows ?f2"
    by (simp add: prune_replay_def Let_def)
  ultimately show ?thesis by simp
qed

section \<open>The window of a room\<close>

definition replay_window :: "string \<Rightarrow> i64 \<Rightarrow> db \<Rightarrow> bool" where
  "replay_window room_id next_sequence d \<longleftrightarrow>
     (\<exists>lo. map rf_sequence (room_frames room_id (db_frames d)) = [lo..next_sequence - 1])
   \<and> sorted (map rf_created_at (room_frames room_id (db_frames d)))"

lemma replay_window_snoc:
  assumes "replay_window room_id n d" "db_frames d1 = db_frames d @ [row]" "rf_room_id row = room_id"
    "rf_sequence row = n" "\<forall>f \<in> set (db_frames d). rf_room_id f = room_id \<longrightarrow> rf_created_at f \<le> rf_created_at row"
  shows "replay_window room_id (n + 1) d1"
proof -
  obtain lo where lo: "map rf_sequence (room_frames room_id (db_frames d)) = [lo..n - 1]"
    and so: "sorted (map rf_created_at (room_frames room_id (db_frames d)))"
    using assms(1) by (auto simp: replay_window_def)
  have mem: "set (filter (\<lambda>f. rf_room_id f = room_id) (db_frames d)) = set (room_frames room_id (db_frames d))"
    by (simp add: room_frames_def)
  have "rf_sequence f \<le> rf_sequence row" if "f \<in> set (filter (\<lambda>f. rf_room_id f = room_id) (db_frames d))" for f
  proof -
    have "rf_sequence f \<in> set [lo..n - 1]" using that unfolding mem lo [symmetric] by simp
    then show ?thesis using assms(4) by simp
  qed
  then have snoc: "room_frames room_id (db_frames d1) = room_frames room_id (db_frames d) @ [row]"
    using assms(2,3) sort_key_snoc [of "filter (\<lambda>f. rf_room_id f = room_id) (db_frames d)" rf_sequence row]
    by (simp add: room_frames_def)
  have "\<exists>lo. map rf_sequence (room_frames room_id (db_frames d1)) = [lo..n]"
  proof (cases "lo \<le> n - 1")
    case True
    then have "map rf_sequence (room_frames room_id (db_frames d1)) = [lo..n]"
      using snoc lo assms(4) by (simp add: upto_rec2)
    then show ?thesis by blast
  next
    case False
    then have "map rf_sequence (room_frames room_id (db_frames d1)) = [n..n]" using snoc lo assms(4) by simp
    then show ?thesis by blast
  qed
  moreover have "sorted (map rf_created_at (room_frames room_id (db_frames d1)))"
    using so assms(5) unfolding snoc mem [symmetric] by (auto simp: sorted_append room_frames_def)
  ultimately show ?thesis by (simp add: replay_window_def)
qed

lemma replay_window_prune:
  assumes "replay_window room_id n d" "keys_ok d"
  shows "replay_window room_id n (prune_replay L t room_id d)"
proof -
  obtain lo where lo: "map rf_sequence (room_frames room_id (db_frames d)) = [lo..n - 1]"
    and so: "sorted (map rf_created_at (room_frames room_id (db_frames d)))"
    using assms(1) by (auto simp: replay_window_def)
  obtain k where "room_frames room_id (db_frames (prune_replay L t room_id d)) = drop k (room_frames room_id (db_frames d))"
    using prune_replay_suffix [OF assms(2) so] by blast
  then have "map rf_sequence (room_frames room_id (db_frames (prune_replay L t room_id d))) = [lo + int k..n - 1]"
    and "sorted (map rf_created_at (room_frames room_id (db_frames (prune_replay L t room_id d))))"
    using lo so by (simp_all add: drop_map [symmetric] drop_upto sorted_wrt_drop)
  then show ?thesis by (auto simp: replay_window_def)
qed

section \<open>Properties\<close>

lemma output_frame_steps:
  assumes "process_frame L E auth frame s = (Inr envelope, s')" "tef_direction frame = ''output''"
  obtains r d1 where "r \<in> set (db_rooms (rl_db s))" "open_room (tef_room_id frame) r"
    "tef_sequence frame = as_u64 (tr_next_output_sequence r)"
    "db_frames d1 = db_frames (rl_db s) @ [\<lparr>rf_room_id = tef_room_id frame, rf_sequence = as_i64 (tef_sequence frame),
       rf_envelope_json = envelope, rf_encoded_bytes = as_i64 (length envelope), rf_created_at = to_rfc3339 L (clock E 0)\<rparr>]"
    "keys_ok (rl_db s) \<longrightarrow> keys_ok d1" "rl_db s' = prune_replay L (clock E 1) (tef_room_id frame) d1"
    "db_rooms d1 = sql_update (\<lambda>q. tr_id q = tef_room_id frame \<and> tr_next_output_sequence q = tr_next_output_sequence r)
          (\<lambda>r. r\<lparr>tr_next_output_sequence := tr_next_output_sequence r + 1\<rparr>) (db_rooms (rl_db s))"
    "is_ok (authorize_room auth (tef_room_id frame) (rl_db s))"
    "\<forall>view. authorize_room auth (tef_room_id frame) (rl_db s) = Inr view \<longrightarrow> rv_host_device_id view = da_device_id auth"
proof -
  obtain room where chk: "frame_checks L auth frame (rl_db s) = Inr (room, envelope)"
    and "frame_tx L E auth room envelope frame (rl_db s) = Inr (rl_db s')"
    by (rule process_frame_Inr [OF assms(1)])
  then have tx: "output_tx L E auth room envelope frame (rl_db s) = Inr (rl_db s')" using assms(2) by (simp add: frame_tx_def)
  obtain r d1 where r: "r \<in> set (db_rooms (rl_db s))" "open_room (tef_room_id frame) r"
    "tef_sequence frame = as_u64 (tr_next_output_sequence r)"
    and ins: "insert_frame \<lparr>rf_room_id = tef_room_id frame, rf_sequence = as_i64 (tef_sequence frame),
       rf_envelope_json = envelope, rf_encoded_bytes = as_i64 (length envelope), rf_created_at = to_rfc3339 L (clock E 0)\<rparr>
       ((rl_db s)\<lparr>db_rooms := sql_update
          (\<lambda>q. tr_id q = tef_room_id frame \<and> tr_next_output_sequence q = tr_next_output_sequence r)
          (\<lambda>r. r\<lparr>tr_next_output_sequence := tr_next_output_sequence r + 1\<rparr>) (db_rooms (rl_db s))\<rparr>) = Inr d1"
    and d': "rl_db s' = prune_replay L (clock E 1) (tef_room_id frame) d1"
    and host: "rv_host_device_id room = da_device_id auth"
    by (rule output_tx_Inr [OF tx])
  have keys: "keys_ok d1" if "keys_ok (rl_db s)"
    by (rule insert_keeps_keys(12) [OF ins]) (use that in \<open>simp add: room_update_keys(1)\<close>)
  have au: "authorize_room auth (tef_room_id frame) (rl_db s) = Inr room" using frame_checks_Inr [OF chk] by blast
  show ?thesis
  proof (rule that [OF r])
    show "db_frames d1 = db_frames (rl_db s) @ [\<lparr>rf_room_id = tef_room_id frame, rf_sequence = as_i64 (tef_sequence frame),
       rf_envelope_json = envelope, rf_encoded_bytes = as_i64 (length envelope), rf_created_at = to_rfc3339 L (clock E 0)\<rparr>]"
      using frames.insert_rows [OF ins] by simp
    show "db_rooms d1 = sql_update (\<lambda>q. tr_id q = tef_room_id frame \<and> tr_next_output_sequence q = tr_next_output_sequence r)
          (\<lambda>r. r\<lparr>tr_next_output_sequence := tr_next_output_sequence r + 1\<rparr>) (db_rooms (rl_db s))"
      using ins by (auto simp: insert_frame_def res_iff)
  qed (use keys d' au host in auto)
qed

text \<open>Terminal output is accepted only from the room's host device and in order: the frame carries
  exactly the next sequence number of the room, which then advances by one.\<close>

theorem output_in_order:
  assumes "process_frame L E auth frame s = (Inr envelope, s')" "tef_direction frame = ''output''" "keys_ok (rl_db s)"
  shows "\<exists>r \<in> set (db_rooms (rl_db s)). tr_id r = tef_room_id frame \<and> tr_status r = ''active''
    \<and> tr_host_device_id r = da_device_id auth \<and> tef_sequence frame = as_u64 (tr_next_output_sequence r)
    \<and> db_rooms (rl_db s') = map (\<lambda>q. if q = r then q\<lparr>tr_next_output_sequence := tr_next_output_sequence q + 1\<rparr> else q)
        (db_rooms (rl_db s))"
proof -
  obtain r d1 where r: "r \<in> set (db_rooms (rl_db s))" "open_room (tef_room_id frame) r"
      "tef_sequence frame = as_u64 (tr_next_output_sequence r)"
    and d': "rl_db s' = prune_replay L (clock E 1) (tef_room_id frame) d1"
    and rooms: "db_rooms d1 = sql_update (\<lambda>q. tr_id q = tef_room_id frame \<and> tr_next_output_sequence q = tr_next_output_sequence r)
          (\<lambda>r. r\<lparr>tr_next_output_sequence := tr_next_output_sequence r + 1\<rparr>) (db_rooms (rl_db s))"
    and au: "is_ok (authorize_room auth (tef_room_id frame) (rl_db s))"
      "\<forall>view. authorize_room auth (tef_room_id frame) (rl_db s) = Inr view \<longrightarrow> rv_host_device_id view = da_device_id auth"
    by (rule output_frame_steps [OF assms(1,2)])
  obtain view where view: "authorize_room auth (tef_room_id frame) (rl_db s) = Inr view" using au(1) by (auto simp: is_ok_iff)
  obtain r' where r': "r' \<in> set (db_rooms (rl_db s))" "tr_id r' = tef_room_id frame" "view = view_of_room r'"
    by (rule authorize_room_Inr [OF view])
  have "r' = r" using room_unique [OF assms(3) r'(1) r(1)] r'(2) r(2) by (simp add: open_room_def)
  then have host: "tr_host_device_id r = da_device_id auth" using au(2) view r'(3) by (simp add: view_of_room_def)
  have "db_rooms (rl_db s') = map (\<lambda>q. if q = r then q\<lparr>tr_next_output_sequence := tr_next_output_sequence q + 1\<rparr> else q)
        (db_rooms (rl_db s))"
    unfolding d' prune_replay_fields rooms
  proof (rule sql_update_single)
    fix q assume q: "q \<in> set (db_rooms (rl_db s))"
    have "tr_id r = tef_room_id frame" using r(2) by (simp add: open_room_def)
    then show "(tr_id q = tef_room_id frame \<and> tr_next_output_sequence q = tr_next_output_sequence r) = (q = r)"
      using room_unique [OF assms(3) q r(1)] by metis
  qed
  then show ?thesis using r host by (intro bexI [of _ r]) (simp_all add: open_room_def)
qed

text \<open>C3: The replay window stays contiguous: if the stored frames of a room are a gapless run of
  sequence numbers ending at the newest one, they are so again after the next accepted output frame
  and the pruning that follows it (the clock does not run backwards).\<close>

theorem output_keeps_window:
  assumes "process_frame L E auth frame s = (Inr envelope, s')" "tef_direction frame = ''output''" "keys_ok (rl_db s)"
    and "r \<in> set (db_rooms (rl_db s))" "tr_id r = tef_room_id frame"
    and "replay_window (tef_room_id frame) (tr_next_output_sequence r) (rl_db s)"
    and "0 < tr_next_output_sequence r" "tr_next_output_sequence r < 2 ^ 63"
    and "\<forall>f \<in> set (db_frames (rl_db s)). rf_created_at f \<le> to_rfc3339 L (clock E 0)"
  shows "replay_window (tef_room_id frame) (tr_next_output_sequence r + 1) (rl_db s')"
proof -
  obtain q d1 where q: "q \<in> set (db_rooms (rl_db s))" "open_room (tef_room_id frame) q"
      "tef_sequence frame = as_u64 (tr_next_output_sequence q)"
    and fr: "db_frames d1 = db_frames (rl_db s) @ [\<lparr>rf_room_id = tef_room_id frame, rf_sequence = as_i64 (tef_sequence frame),
       rf_envelope_json = envelope, rf_encoded_bytes = as_i64 (length envelope), rf_created_at = to_rfc3339 L (clock E 0)\<rparr>]"
    and keys: "keys_ok (rl_db s) \<longrightarrow> keys_ok d1" and d': "rl_db s' = prune_replay L (clock E 1) (tef_room_id frame) d1"
    by (rule output_frame_steps [OF assms(1,2)])
  have "q = r" using room_unique [OF assms(3) q(1) assms(4)] q(2) assms(5) by (simp add: open_room_def)
  then have "as_i64 (tef_sequence frame) = tr_next_output_sequence r"
    using q(3) as_i64_as_u64_pos assms(7,8) by simp
  then have "replay_window (tef_room_id frame) (tr_next_output_sequence r + 1) d1"
    using assms(9) by (intro replay_window_snoc [OF assms(6) fr]) simp_all
  then show ?thesis unfolding d' by (rule replay_window_prune [OF _ mp [OF keys assms(3)]])
qed

text \<open>The relay's memory of a room is bounded: after every accepted output frame the room keeps at most
  512 frames and at most 4 MiB of them.\<close>

theorem replay_window_bounded:
  assumes "process_frame L E auth frame s = (Inr envelope, s')" "tef_direction frame = ''output''" "keys_ok (rl_db s)"
    and "\<forall>f \<in> set (db_frames (rl_db s)). 0 \<le> rf_encoded_bytes f \<and> rf_encoded_bytes f < 2 ^ 32"
    and "length envelope < 2 ^ 32"
  shows "length (room_frames (tef_room_id frame) (db_frames (rl_db s'))) \<le> 512
    \<and> stored_bytes (tef_room_id frame) (db_frames (rl_db s')) \<le> 4 * 1024 * 1024"
proof -
  obtain d1 where fr: "db_frames d1 = db_frames (rl_db s) @ [\<lparr>rf_room_id = tef_room_id frame, rf_sequence = as_i64 (tef_sequence frame),
       rf_envelope_json = envelope, rf_encoded_bytes = as_i64 (length envelope), rf_created_at = to_rfc3339 L (clock E 0)\<rparr>]"
    and keys: "keys_ok (rl_db s) \<longrightarrow> keys_ok d1" and d': "rl_db s' = prune_replay L (clock E 1) (tef_room_id frame) d1"
    by (rule output_frame_steps [OF assms(1,2)])
  have "as_i64 (length envelope) = int (length envelope)" using assms(5) by (intro as_i64_small) simp
  then have "\<forall>f \<in> set (db_frames d1). 0 \<le> rf_encoded_bytes f \<and> rf_encoded_bytes f < 2 ^ 32"
    using assms(4,5) unfolding fr by (auto simp: int_less_power)
  then show ?thesis using prune_replay_length [OF mp [OF keys assms(3)]] prune_replay_bytes [OF mp [OF keys assms(3)]]
    unfolding d' by (simp add: MAX_REPLAY_FRAMES_def MAX_REPLAY_BYTES_def)
qed

text \<open>The rows a replay selects from a contiguous window.\<close>

lemma window_slice:
  assumes "map rf_sequence xs = [lo..hi]" "lo \<le> a + 1" "b \<le> hi"
  shows "map rf_sequence (filter (\<lambda>f. a < rf_sequence f \<and> rf_sequence f \<le> b) xs) = [a + 1..b]"
proof -
  have "map rf_sequence (filter (\<lambda>f. a < rf_sequence f \<and> rf_sequence f \<le> b) xs) = filter (\<lambda>q. a < q \<and> q \<le> b) [lo..hi]"
    unfolding assms(1) [symmetric] by (simp add: filter_map comp_def)
  also have "\<dots> = [a + 1..b]"
  proof (rule sorted_distinct_set_unique)
    show "set (filter (\<lambda>q. a < q \<and> q \<le> b) [lo..hi]) = set [a + 1..b]" using assms(2,3) by auto
  qed (simp_all add: sorted_wrt_filter)
  finally show ?thesis .
qed

lemma replay_rows:
  "take n (sort_key rf_sequence (filter (\<lambda>f. rf_room_id f = room_id \<and> a < rf_sequence f \<and> rf_sequence f \<le> b) frames))
     = take n (filter (\<lambda>f. a < rf_sequence f \<and> rf_sequence f \<le> b) (room_frames room_id frames))"
  by (simp add: room_frames_def filter_sort [symmetric] conj_commute)

text \<open>A client that reconnects gets exactly the output it missed: when a replay succeeds, the frames it
  returns are the stored frames numbered from the client's last number plus one up to the requested
  one, in order, without a gap and without a duplicate.\<close>

theorem replay_exact:
  assumes "replay L auth room_id a b d = Inr fs" "replay_window room_id n d" "int b \<le> n - 1" "b < 2 ^ 63"
  shows "\<exists>rows. set rows \<subseteq> set (room_frames room_id (db_frames d)) \<and> map rf_sequence rows = [int a + 1..int b]
    \<and> map (\<lambda>f. parse_frame L (rf_envelope_json f)) rows = map Some fs"
proof -
  let ?slice = "filter (\<lambda>f. as_i64 a < rf_sequence f \<and> rf_sequence f \<le> as_i64 b) (room_frames room_id (db_frames d))"
  have ab: "a \<le> b" using assms(1) by (auto simp: replay_def res_iff split: if_split_asm)
  show ?thesis
  proof (cases "a = b")
    case True
    then have "fs = []" using assms(1) by (simp add: replay_def res_iff)
    then show ?thesis using True by (intro exI [of _ "[]"]) simp
  next
    case False
    let ?rows = "take MAX_REPLAY_FRAMES ?slice"
    have le: "b - a \<le> 512" and ends: "map_option (\<lambda>f. as_u64 (rf_sequence f)) (fetch_optional ?rows) = Some (sat_add a 1)"
      and res: "rmap (\<lambda>f. ok_or (parse_frame L (rf_envelope_json f)) Internal) ?rows = Inr fs"
      using assms(1) False ab unfolding replay_def Let_def replay_rows
      by (auto simp: res_iff sat_sub_def MAX_REPLAY_FRAMES_def split: if_split_asm)
    have casts: "as_i64 a = int a" "as_i64 b = int b" using ab assms(4) by (simp_all add: as_i64_small)
    obtain lo where lo: "map rf_sequence (room_frames room_id (db_frames d)) = [lo..n - 1]"
      using assms(2) by (auto simp: replay_window_def)
    obtain f where f: "f \<in> set ?rows" "as_u64 (rf_sequence f) = a + 1"
      using ends ab assms(4) False by (cases ?rows) (auto simp: sat_add_def u64_max_def)
    then have mem: "f \<in> set ?slice" by (meson in_set_takeD)
    then have "int a < rf_sequence f" "rf_sequence f \<le> int b" using casts by simp_all
    then have "rf_sequence f = int a + 1" using f(2) assms(4) by (simp add: as_u64_small)
    moreover have "rf_sequence f \<in> set [lo..n - 1]" using mem unfolding lo [symmetric] by simp
    ultimately have "lo \<le> int a + 1" by simp
    then have sl: "map rf_sequence ?slice = [int a + 1..int b]"
      using window_slice [OF lo _ assms(3)] casts by simp
    have "length ?slice = b - a" using arg_cong [OF sl, of length] ab by simp
    then have all: "?rows = ?slice" using le by (simp add: MAX_REPLAY_FRAMES_def)
    have "map (\<lambda>f. parse_frame L (rf_envelope_json f)) ?slice = map Some fs"
    proof -
      have "map (\<lambda>f. ok_or (parse_frame L (rf_envelope_json f)) Internal) ?slice = map Inr fs"
        using res unfolding all rmap_Inr_iff .
      then show ?thesis by (auto simp: list_eq_iff_nth_eq res_iff)
    qed
    then show ?thesis using sl by (intro exI [of _ ?slice]) auto
  qed
qed

text \<open>The replay is available while the window covers it: an authorised client that missed at most 512
  frames, all of them still stored, is never turned away.\<close>

theorem replay_available:
  assumes "authorize_room auth room_id d = Inr view" "replay_window room_id n d" "int b \<le> n - 1" "b < 2 ^ 63"
    and "a \<le> b" "b - a \<le> 512" "a < b \<longrightarrow> int a + 1 \<in> rf_sequence ` set (room_frames room_id (db_frames d))"
    and "\<forall>f \<in> set (room_frames room_id (db_frames d)). parse_frame L (rf_envelope_json f) \<noteq> None"
  shows "is_ok (replay L auth room_id a b d)"
proof (cases "a = b")
  case True
  then show ?thesis using assms(1) by (simp add: replay_def)
next
  case False
  let ?slice = "filter (\<lambda>f. as_i64 a < rf_sequence f \<and> rf_sequence f \<le> as_i64 b) (room_frames room_id (db_frames d))"
  let ?rows = "take MAX_REPLAY_FRAMES ?slice"
  have casts: "as_i64 a = int a" "as_i64 b = int b" using assms(4,5) by (simp_all add: as_i64_small)
  obtain lo where lo: "map rf_sequence (room_frames room_id (db_frames d)) = [lo..n - 1]"
    using assms(2) by (auto simp: replay_window_def)
  have "int a + 1 \<in> set [lo..n - 1]" using assms(5,7) False unfolding lo [symmetric] by simp
  then have sl: "map rf_sequence ?slice = [int a + 1..int b]"
    using window_slice [OF lo _ assms(3)] casts by simp
  have len: "length ?slice = b - a" using arg_cong [OF sl, of length] assms(5) by simp
  then have all: "?rows = ?slice" using assms(6) by (simp add: MAX_REPLAY_FRAMES_def)
  have "0 < length ?slice" using len False assms(5) by simp
  then have ne: "?slice \<noteq> []" by blast
  have "rf_sequence (hd ?slice) = int a + 1" "rf_sequence (last ?slice) = int b"
    using arg_cong [OF sl, of hd] arg_cong [OF sl, of last] ne False assms(5)
    by (simp add: hd_map upto_rec1 [of "int a + 1"], simp add: last_map upto_rec2 [of "int a + 1"])
  then have ends: "map_option (\<lambda>f. as_u64 (rf_sequence f)) (fetch_optional ?slice) = Some (sat_add a 1)"
      "map_option (\<lambda>f. as_u64 (rf_sequence f)) (fetch_optional (rev ?slice)) = Some b"
    using ne assms(4,5) False fetch_optional_hd [of ?slice] fetch_optional_hd [of "rev ?slice"]
    by (simp_all add: sat_add_def u64_max_def as_u64_small hd_rev)
  have parses: "is_ok (rmap (\<lambda>f. ok_or (parse_frame L (rf_envelope_json f)) Internal) ys)"
    if "\<forall>f \<in> set ys. parse_frame L (rf_envelope_json f) \<noteq> None" for ys
    using that by (induction ys) (auto simp: is_ok_iff)
  have "is_ok (rmap (\<lambda>f. ok_or (parse_frame L (rf_envelope_json f)) Internal) ?slice)"
    by (rule parses) (use assms(8) in auto)
  then show ?thesis using assms(1,5,6) False ends all unfolding replay_def Let_def replay_rows
    by (simp add: sat_sub_def MAX_REPLAY_FRAMES_def)
qed

definition sample_output :: team_terminal_encrypted_frame where
  "sample_output = sample_frame\<lparr>tef_sender_member_id := ''m0'', tef_sender_device_id := ''d0'',
     tef_direction := ''output'', tef_lease_id := None, tef_lease_generation := 0\<rparr>"

lemma sample_output_shape: "validate_frame_shape sample_libs sample_output = Inr ()"
  by (simp add: validate_frame_shape_def sample_libs_def sample_output_def sample_frame_def MAX_ENVELOPE_BYTES_def
      MAX_FRAME_BYTES_def validate_uuid_def)

lemma sample_output_room: "authorize_room owner_auth ''r1'' sample_db = Inr (view_of_room sample_room)"
  by code_simp

lemma sample_output_accepted:
  "process_frame sample_libs sample_env owner_auth sample_output (new_relay sample_db)
     = (Inr ''{}'', snd (process_frame sample_libs sample_env owner_auth sample_output (new_relay sample_db)))"
proof -
  have "signing_key_of ''d0'' sample_db = Inr (''ed25519:'' @ replicate 43 (CHR ''k''))" by code_simp
  moreover have "verify_frame_signature sample_libs sample_output (''ed25519:'' @ replicate 43 (CHR ''k'')) = Inr ()"
    by code_simp
  moreover have js: "json_frame sample_libs sample_output = Some ''{}''" "json_server sample_libs m = Some ''{}''" for m
    by (simp_all add: sample_libs_def)
  ultimately have c: "frame_checks sample_libs owner_auth sample_output sample_db = Inr (view_of_room sample_room, ''{}'')"
    using sample_output_shape sample_output_room
    by (simp add: frame_checks_def sample_output_def sample_frame_def owner_auth_def)
  have "is_ok (output_tx sample_libs sample_env owner_auth (view_of_room sample_room) ''{}'' sample_output sample_db)"
    by code_simp
  then obtain d where "output_tx sample_libs sample_env owner_auth (view_of_room sample_room) ''{}'' sample_output sample_db = Inr d"
    by (auto simp: is_ok_iff)
  then have "frame_tx sample_libs sample_env owner_auth (view_of_room sample_room) ''{}'' sample_output sample_db = Inr d"
    by (simp add: frame_tx_def sample_output_def)
  then show ?thesis using c js(2) by (simp add: process_frame_def new_relay_def)
qed

lemma sample_output_start:
  "tef_direction sample_output = ''output''" "tef_room_id sample_output = ''r1''" "keys_ok (rl_db (new_relay sample_db))"
  "sample_room \<in> set (db_rooms (rl_db (new_relay sample_db)))" "tr_id sample_room = ''r1''"
  "tr_next_output_sequence sample_room = 1" "db_frames (rl_db (new_relay sample_db)) = []"
  using sample_keys
  by (simp_all add: sample_output_def sample_frame_def new_relay_def sample_db_def empty_db_def sample_room_def)

theorem output_in_order_witness:
  "\<exists>r \<in> set (db_rooms sample_db). tr_host_device_id r = ''d0'' \<and> tef_sequence sample_output = as_u64 (tr_next_output_sequence r)"
  using output_in_order [OF sample_output_accepted sample_output_start(1,3)]
  by (auto simp: new_relay_def owner_auth_def)

theorem output_keeps_window_witness:
  "replay_window ''r1'' 2 (rl_db (snd (process_frame sample_libs sample_env owner_auth sample_output (new_relay sample_db))))"
proof -
  have "replay_window ''r1'' 1 (rl_db (new_relay sample_db))"
    using sample_output_start(7) by (simp add: replay_window_def room_frames_def exI [of _ 1])
  then show ?thesis
    using output_keeps_window [OF sample_output_accepted sample_output_start(1,3,4)] sample_output_start by simp
qed

theorem replay_window_bounded_witness:
  "stored_bytes ''r1'' (db_frames (rl_db (snd (process_frame sample_libs sample_env owner_auth sample_output
     (new_relay sample_db))))) \<le> 4 * 1024 * 1024"
  using replay_window_bounded [OF sample_output_accepted sample_output_start(1,3)] sample_output_start by simp

definition sample_stored :: "i64 \<Rightarrow> relay_frame" where
  "sample_stored n = \<lparr>rf_room_id = ''r1'', rf_sequence = n, rf_envelope_json = ''{}'', rf_encoded_bytes = 2,
     rf_created_at = sample_stamp (seconds n)\<rparr>"

definition replay_db :: db where
  "replay_db = sample_db\<lparr>db_frames := [sample_stored 1, sample_stored 2, sample_stored 3]\<rparr>"

definition replay_libs :: libs where
  "replay_libs = sample_libs\<lparr>parse_frame := \<lambda>_. Some sample_output\<rparr>"

lemma replay_db_window: "replay_window ''r1'' 4 replay_db"
proof -
  have "room_frames ''r1'' (db_frames replay_db) = [sample_stored 1, sample_stored 2, sample_stored 3]"
    by (simp add: room_frames_def replay_db_def sample_stored_def)
  moreover have "map rf_sequence [sample_stored 1, sample_stored 2, sample_stored 3] = [1..4 - 1]"
    by code_simp
  moreover have "sorted (map rf_created_at [sample_stored 1, sample_stored 2, sample_stored 3])" by code_simp
  ultimately show ?thesis unfolding replay_window_def by metis
qed

theorem replay_exact_witness:
  "\<exists>rows. set rows \<subseteq> set (room_frames ''r1'' (db_frames replay_db)) \<and> map rf_sequence rows = [int 1 + 1..int 3]"
proof -
  have "replay replay_libs owner_auth ''r1'' 1 3 replay_db = Inr [sample_output, sample_output]" by code_simp
  from replay_exact [OF this replay_db_window] show ?thesis by auto
qed

theorem replay_available_witness: "is_ok (replay replay_libs operator_auth ''r1'' 0 3 replay_db)"
proof -
  have "is_ok (authorize_room operator_auth ''r1'' replay_db)" by code_simp
  then obtain view where "authorize_room operator_auth ''r1'' replay_db = Inr view" by (auto simp: is_ok_iff)
  moreover have "room_frames ''r1'' (db_frames replay_db) = [sample_stored 1, sample_stored 2, sample_stored 3]"
    by (simp add: room_frames_def replay_db_def sample_stored_def)
  ultimately show ?thesis
    using replay_available [where b = 3 and a = 0, OF _ replay_db_window]
    by (simp add: replay_libs_def sample_stored_def)
qed

end
