(* ===== verification/RelayMetrics.thy ===== *)
theory RelayMetrics
  imports RelayModels "HOL-Library.Word"
begin

text \<open>
  The relay's counters (\<open>services/team-relay/src/metrics.rs\<close>): eight \<open>AtomicU64\<close>, so 64-bit
  words with the wrap-around of \<open>fetch_add\<close> and \<open>fetch_sub\<close>, and the Prometheus text.
\<close>

record metrics =
  mt_http_requests :: "64 word"
  mt_http_2xx :: "64 word"
  mt_http_4xx :: "64 word"
  mt_http_5xx :: "64 word"
  mt_readiness_checks :: "64 word"
  mt_readiness_failures :: "64 word"
  mt_websocket_connections :: "64 word"
  mt_websocket_active :: "64 word"

definition new_metrics :: metrics where
  "new_metrics = \<lparr>mt_http_requests = 0, mt_http_2xx = 0, mt_http_4xx = 0, mt_http_5xx = 0,
     mt_readiness_checks = 0, mt_readiness_failures = 0, mt_websocket_connections = 0,
     mt_websocket_active = 0\<rparr>"

definition record_readiness :: "bool \<Rightarrow> metrics \<Rightarrow> metrics" where
  "record_readiness ready m =
     (let m = m\<lparr>mt_readiness_checks := mt_readiness_checks m + 1\<rparr>
      in if ready then m else m\<lparr>mt_readiness_failures := mt_readiness_failures m + 1\<rparr>)"

definition begin_websocket :: "metrics \<Rightarrow> metrics" where
  "begin_websocket m = m\<lparr>mt_websocket_connections := mt_websocket_connections m + 1,
     mt_websocket_active := mt_websocket_active m + 1\<rparr>"

text \<open>Dropping the guard of \<open>begin_websocket\<close>.\<close>

definition end_websocket :: "metrics \<Rightarrow> metrics" where
  "end_websocket m = m\<lparr>mt_websocket_active := mt_websocket_active m - 1\<rparr>"

definition record_http :: "nat \<Rightarrow> metrics \<Rightarrow> metrics" where
  "record_http status m =
     (let m = m\<lparr>mt_http_requests := mt_http_requests m + 1\<rparr>
      in if status div 100 = 2 then m\<lparr>mt_http_2xx := mt_http_2xx m + 1\<rparr>
         else if status div 100 = 4 then m\<lparr>mt_http_4xx := mt_http_4xx m + 1\<rparr>
         else if status div 100 = 5 then m\<lparr>mt_http_5xx := mt_http_5xx m + 1\<rparr>
         else m)"

definition string_of_word :: "64 word \<Rightarrow> string" where
  "string_of_word w = string_of_nat (unat w)"

definition unlines :: "string list \<Rightarrow> string" where
  "unlines ls = concat (map (\<lambda>l. l @ [CHR 0x0A]) ls)"

definition render :: "bool \<Rightarrow> nat \<Rightarrow> metrics \<Rightarrow> string" where
  "render ready uptime m = unlines [
        ''# HELP cnshell_relay_up Whether the relay process is running.'',
        ''# TYPE cnshell_relay_up gauge'',
        ''cnshell_relay_up 1'',
        ''# HELP cnshell_relay_ready Whether the relay database is ready.'',
        ''# TYPE cnshell_relay_ready gauge'',
        ''cnshell_relay_ready '' @ string_of_nat (if ready then 1 else 0),
        ''# HELP cnshell_relay_uptime_seconds Relay process uptime.'',
        ''# TYPE cnshell_relay_uptime_seconds gauge'',
        ''cnshell_relay_uptime_seconds '' @ string_of_nat uptime,
        ''# HELP cnshell_relay_http_requests_total HTTP responses by status class.'',
        ''# TYPE cnshell_relay_http_requests_total counter'',
        ''cnshell_relay_http_requests_total{class=\"all\"} '' @ string_of_word (mt_http_requests m),
        ''cnshell_relay_http_requests_total{class=\"2xx\"} '' @ string_of_word (mt_http_2xx m),
        ''cnshell_relay_http_requests_total{class=\"4xx\"} '' @ string_of_word (mt_http_4xx m),
        ''cnshell_relay_http_requests_total{class=\"5xx\"} '' @ string_of_word (mt_http_5xx m),
        ''# HELP cnshell_relay_readiness_checks_total Database readiness checks.'',
        ''# TYPE cnshell_relay_readiness_checks_total counter'',
        ''cnshell_relay_readiness_checks_total '' @ string_of_word (mt_readiness_checks m),
        ''# HELP cnshell_relay_readiness_failures_total Failed database readiness checks.'',
        ''# TYPE cnshell_relay_readiness_failures_total counter'',
        ''cnshell_relay_readiness_failures_total '' @ string_of_word (mt_readiness_failures m),
        ''# HELP cnshell_relay_websocket_connections_total Authorized WebSocket connections.'',
        ''# TYPE cnshell_relay_websocket_connections_total counter'',
        ''cnshell_relay_websocket_connections_total '' @ string_of_word (mt_websocket_connections m),
        ''# HELP cnshell_relay_websocket_active Active authorized WebSocket connections.'',
        ''# TYPE cnshell_relay_websocket_active gauge'',
        ''cnshell_relay_websocket_active '' @ string_of_word (mt_websocket_active m)]"

section \<open>Properties\<close>

text \<open>The gauge of active sockets after any sequence of openings and closings, modulo \<open>2 ^ 64\<close>.\<close>

lemma websocket_balance:
  "mt_websocket_active (end_websocket (begin_websocket m)) = mt_websocket_active m"
  by (simp add: begin_websocket_def end_websocket_def)

text \<open>The class counters never count a response twice.\<close>

definition class_total :: "metrics \<Rightarrow> 64 word" where
  "class_total m = mt_http_2xx m + mt_http_4xx m + mt_http_5xx m"

lemma record_http_total:
  "status div 100 \<in> {2, 4, 5} \<Longrightarrow>
     mt_http_requests (record_http status m) - class_total (record_http status m)
       = mt_http_requests m - class_total m"
  by (auto simp: record_http_def class_total_def Let_def algebra_simps)

end
