(* ===== verification/RelaySocket.thy ===== *)
theory RelaySocket
  imports RelayReplay RelayMetrics
begin

text \<open>
  The WebSocket loop of a terminal (\<open>handle_socket\<close> of \<open>services/team-relay/src/terminal.rs\<close>):
  the handshake with its replay, and one step for each branch of the \<open>select!\<close>. The sink is a
  parameter: \<open>sink n\<close> says whether the \<open>n\<close>-th message is taken by the peer. A receiver is a
  cursor into its channel's log; \<open>broadcast::channel(1024)\<close> keeps the last 1024 frames.
\<close>

section \<open>State\<close>

datatype incoming = MText string | MBinary string | MPing string | MPong string | MClose

datatype outgoing = OText string | OPong string | OClose

record socket =
  sk_token :: string
  sk_room :: string
  sk_cutoff :: u64
  sk_channel :: nat
  sk_pos :: nat
  sk_sent :: "outgoing list"
  sk_open :: bool

definition CHANNEL_CAPACITY :: nat where "CHANNEL_CAPACITY = 1024"

definition push :: "(nat \<Rightarrow> bool) \<Rightarrow> outgoing \<Rightarrow> socket \<Rightarrow> socket" where
  "push sink m k = (if sink (length (sk_sent k)) then k\<lparr>sk_sent := sk_sent k @ [m]\<rparr>
                    else k\<lparr>sk_open := False\<rparr>)"

definition close_socket :: "socket \<Rightarrow> socket" where
  "close_socket k = k\<lparr>sk_open := False\<rparr>"

text \<open>A step that runs only while the socket is open (every failed send leaves the function).\<close>

definition also_push :: "(nat \<Rightarrow> bool) \<Rightarrow> outgoing option \<Rightarrow> socket \<Rightarrow> socket" where
  "also_push sink m k = (if \<not> sk_open k then k
     else (case m of None \<Rightarrow> close_socket k | Some m \<Rightarrow> push sink m k))"

section \<open>Handshake\<close>

definition frame_texts :: "libs \<Rightarrow> team_terminal_encrypted_frame list \<Rightarrow> outgoing option list" where
  "frame_texts L frames = map (\<lambda>f. map_option OText (json_server L (ServerFrame f))) frames"

text \<open>\<open>SELECT next_output_sequence-1 ... AND status='active'\<close>.\<close>

definition latest_output :: "string \<Rightarrow> db \<Rightarrow> i64 option" where
  "latest_output room_id d =
     map_option (\<lambda>r. tr_next_output_sequence r - 1) (fetch_optional (filter (open_room room_id) (db_rooms d)))"

definition next_input :: "string \<Rightarrow> string \<Rightarrow> db \<Rightarrow> i64 option" where
  "next_input room_id device_id d = map_option rp_next_input_sequence (fetch_optional (filter
     (\<lambda>p. rp_room_id p = room_id \<and> rp_device_id p = device_id \<and> rp_removed_at p = None) (db_participants d)))"

text \<open>What follows the replayed frames: \<open>ready\<close>, the participants and the current lease.\<close>

definition greeting ::
    "libs \<Rightarrow> int \<Rightarrow> device_auth \<Rightarrow> string \<Rightarrow> u64 \<Rightarrow> db \<Rightarrow> outgoing option list" where
  "greeting L t auth room_id cutoff d =
     (let text = (\<lambda>m. map_option OText (json_server L m))
      in [case next_input room_id (da_device_id auth) d of
            None \<Rightarrow> None | Some n \<Rightarrow> text (Ready cutoff (as_u64 n)),
          case room_participants room_id d of Inl _ \<Rightarrow> None | Inr ps \<Rightarrow> text (Participants ps),
          text (Control (current_control L t room_id d))])"

definition socket_replay ::
    "libs \<Rightarrow> int \<Rightarrow> (nat \<Rightarrow> bool) \<Rightarrow> device_auth \<Rightarrow> u64 \<Rightarrow> db \<Rightarrow> socket \<Rightarrow> socket" where
  "socket_replay L t sink auth after_sequence d k =
     (case replay L auth (sk_room k) after_sequence (sk_cutoff k) d of
        Inl e \<Rightarrow> close_socket (also_push sink (Some (OText (socket_error L e))) k)
      | Inr frames \<Rightarrow>
          fold (also_push sink) (frame_texts L frames @ greeting L t auth (sk_room k) (sk_cutoff k) d) k)"

text \<open>
  The handshake gives no socket when it returns before subscribing; otherwise the socket it
  leaves, open when the loop starts. The metrics count it once it is authorised; the guard of an
  early return is dropped, but its hub stays.
\<close>

definition open_socket ::
    "libs \<Rightarrow> env \<Rightarrow> (nat \<Rightarrow> bool) \<Rightarrow> bool \<Rightarrow> string \<Rightarrow> string \<Rightarrow> u64 \<Rightarrow> relay \<times> metrics
      \<Rightarrow> socket option \<times> relay \<times> metrics" where
  "open_socket L E sink shut tok room_id after_sequence sm =
     (let (s, mt) = sm in
      if shut then (None, s, mt)
      else case rbind (authenticate_device L (clock E 0) tok (rl_db s)) (\<lambda>auth.
             rbind (authorize_room auth room_id (rl_db s)) (\<lambda>_. Inr auth)) of
        Inl _ \<Rightarrow> (None, s, mt)
      | Inr auth \<Rightarrow>
         (let (c, s1) = sender room_id s;
              mt1 = begin_websocket mt;
              k = \<lparr>sk_token = tok, sk_room = room_id, sk_cutoff = 0, sk_channel = c,
                   sk_pos = length (rl_channels s1 ! c), sk_sent = [], sk_open = True\<rparr>
          in case latest_output room_id (rl_db s1) of
               None \<Rightarrow> (Some (close_socket k), s1, end_websocket mt1)
             | Some latest \<Rightarrow>
                 (let k' = socket_replay L (clock E 1) sink auth after_sequence (rl_db s1)
                             (k\<lparr>sk_cutoff := as_u64 latest\<rparr>)
                  in (Some k', s1, if sk_open k' then mt1 else end_websocket mt1))))"

section \<open>The loop\<close>

text \<open>The clock readings that remain after \<open>n\<close> of them were used.\<close>

definition env_after :: "nat \<Rightarrow> env \<Rightarrow> env" where
  "env_after n E = E\<lparr>clock := \<lambda>i. clock E (n + i)\<rparr>"

definition accept_text ::
    "libs \<Rightarrow> env \<Rightarrow> device_auth \<Rightarrow> string \<Rightarrow> relay \<Rightarrow> (string \<times> u64) relay_result \<times> relay" where
  "accept_text L E auth text s =
     (case parse_client_message L text of
        None \<Rightarrow> (Inl Validation, s)
      | Some (ClientFrame frame) \<Rightarrow>
         (case process_frame L (env_after 1 E) auth frame s of
            (Inl e, s') \<Rightarrow> (Inl e, s')
          | (Inr _, s') \<Rightarrow> (Inr (tef_direction frame, tef_sequence frame), s')))"

definition on_text ::
    "libs \<Rightarrow> env \<Rightarrow> (nat \<Rightarrow> bool) \<Rightarrow> string \<Rightarrow> socket \<times> relay \<Rightarrow> socket \<times> relay" where
  "on_text L E sink text ks =
     (let (k, s) = ks in
      case authenticate_device L (clock E 0) (sk_token k) (rl_db s) of
        Inl e \<Rightarrow> (close_socket (push sink (OText (socket_error L e)) k), s)
      | Inr auth \<Rightarrow>
         (case accept_text L E auth text s of
            (Inr (direction, sequence), s') \<Rightarrow>
              (also_push sink (map_option OText (json_server L (Accepted direction sequence))) k, s')
          | (Inl e, s') \<Rightarrow> (push sink (OText (socket_error L e)) k, s')))"

definition authorized :: "libs \<Rightarrow> int \<Rightarrow> socket \<Rightarrow> db \<Rightarrow> device_auth relay_result" where
  "authorized L t k d = rbind (authenticate_device L t (sk_token k) d) (\<lambda>auth.
     rbind (authorize_room auth (sk_room k) d) (\<lambda>_. Inr auth))"

definition on_incoming ::
    "libs \<Rightarrow> env \<Rightarrow> (nat \<Rightarrow> bool) \<Rightarrow> incoming option \<Rightarrow> socket \<times> relay \<Rightarrow> socket \<times> relay" where
  "on_incoming L E sink m ks =
     (let (k, s) = ks in
      case m of
        None \<Rightarrow> (close_socket k, s)
      | Some (MText text) \<Rightarrow>
          (if length text \<le> MAX_ENVELOPE_BYTES then on_text L E sink text (k, s)
           else (push sink (OText (socket_error L Validation)) k, s))
      | Some (MPing v) \<Rightarrow>
          (case authorized L (clock E 0) k (rl_db s) of
             Inl _ \<Rightarrow> (close_socket k, s)
           | Inr _ \<Rightarrow> (push sink (OPong v) k, s))
      | Some MClose \<Rightarrow> (close_socket k, s)
      | Some (MBinary v) \<Rightarrow> (push sink (OText (socket_error L Validation)) k, s)
      | Some (MPong v) \<Rightarrow> (k, s))"

text \<open>\<open>receiver.recv()\<close>: the next frame, or a lag that moves the cursor to the oldest kept frame.\<close>

datatype received = Lagged | Received broadcast_frame | Pending

definition recv :: "relay \<Rightarrow> socket \<Rightarrow> received \<times> socket" where
  "recv s k = (let log = rl_channels s ! sk_channel k in
     if CHANNEL_CAPACITY < length log - sk_pos k
     then (Lagged, k\<lparr>sk_pos := length log - CHANNEL_CAPACITY\<rparr>)
     else if sk_pos k < length log then (Received (log ! sk_pos k), k\<lparr>sk_pos := sk_pos k + 1\<rparr>)
     else (Pending, k))"

definition skips :: "socket \<Rightarrow> device_auth \<Rightarrow> broadcast_frame \<Rightarrow> bool" where
  "skips k auth f \<longleftrightarrow>
     bf_direction f = ''output'' \<and> (case bf_sequence f of None \<Rightarrow> False | Some q \<Rightarrow> q \<le> sk_cutoff k)
   \<or> bf_direction f = ''input'' \<and> da_device_id auth \<noteq> bf_host_device_id f"

definition on_broadcast :: "libs \<Rightarrow> int \<Rightarrow> (nat \<Rightarrow> bool) \<Rightarrow> relay \<Rightarrow> socket \<Rightarrow> socket" where
  "on_broadcast L t sink s k =
     (case recv s k of
        (Lagged, k') \<Rightarrow> k'
      | (Pending, k') \<Rightarrow> k'
      | (Received f, k') \<Rightarrow>
         (case authorized L t k' (rl_db s) of
            Inl _ \<Rightarrow> close_socket k'
          | Inr auth \<Rightarrow> (if skips k' auth f then k' else push sink (OText (bf_json f)) k')))"

text \<open>\<open>shutdown.changed()\<close> with the flag it reads.\<close>

definition on_shutdown :: "(nat \<Rightarrow> bool) \<Rightarrow> bool \<Rightarrow> socket \<Rightarrow> socket" where
  "on_shutdown sink flag k = (if flag then close_socket (push sink OClose k) else k)"

text \<open>
  After the loop: the receiver is dropped, and the hub of the room is removed when no other
  socket subscribes to the channel.
\<close>

definition receiver_count :: "nat \<Rightarrow> socket list \<Rightarrow> nat" where
  "receiver_count c ks = length (filter (\<lambda>k. sk_open k \<and> sk_channel k = c) ks)"

definition end_socket :: "socket list \<Rightarrow> socket \<Rightarrow> relay \<times> metrics \<Rightarrow> relay \<times> metrics" where
  "end_socket others k sm =
     ((if receiver_count (sk_channel k) others = 0 then remove_hub (sk_room k) (fst sm) else fst sm),
      end_websocket (snd sm))"

section \<open>Properties\<close>

lemma push_sent: "sk_sent (push sink m k) = sk_sent k \<or> sk_sent (push sink m k) = sk_sent k @ [m]"
  by (simp add: push_def)

lemma recv_fields:
  "recv s k = (r, k') \<Longrightarrow> sk_sent k' = sk_sent k \<and> sk_cutoff k' = sk_cutoff k \<and> sk_token k' = sk_token k
     \<and> sk_room k' = sk_room k \<and> sk_open k' = sk_open k \<and> sk_channel k' = sk_channel k"
  by (auto simp: recv_def Let_def split: if_split_asm)

lemma authorized_cong:
  "sk_token k' = sk_token k \<Longrightarrow> sk_room k' = sk_room k \<Longrightarrow> authorized L t k' d = authorized L t k d"
  by (simp add: authorized_def)


text \<open>A socket whose session or room authorisation is gone ends at the next frame or ping, without
  sending anything more.\<close>

theorem unauthorized_socket_ends:
  assumes "authorized L t k (rl_db s) = Inl e"
  shows "sk_sent (on_broadcast L t sink s k) = sk_sent k
    \<and> ((\<exists>f. fst (recv s k) = Received f) \<longrightarrow> \<not> sk_open (on_broadcast L t sink s k))
    \<and> (clock E 0 = t \<longrightarrow> on_incoming L E sink (Some (MPing v)) (k, s) = (close_socket k, s))"
proof -
  obtain r k' where rk: "recv s k = (r, k')" by (cases "recv s k")
  note f = recv_fields [OF rk]
  have "authorized L t k' (rl_db s) = authorized L t k (rl_db s)"
    by (rule authorized_cong) (use f in simp_all)
  then show ?thesis using rk f assms
    by (cases r) (auto simp: on_broadcast_def close_socket_def on_incoming_def)
qed

text \<open>The messages of a handshake that was sent in full.\<close>

lemma also_push_open:
  "sk_open (also_push sink m k) \<Longrightarrow> sk_open k \<and> (\<exists>x. m = Some x \<and> sk_sent (also_push sink m k) = sk_sent k @ [x])"
  by (auto simp: also_push_def push_def close_socket_def split: if_split_asm option.splits)

lemma fold_also_push_open:
  "sk_open (fold (also_push sink) ms k) \<Longrightarrow>
     sk_open k \<and> (\<exists>xs. ms = map Some xs \<and> sk_sent (fold (also_push sink) ms k) = sk_sent k @ xs)"
proof (induction ms arbitrary: k)
  case (Cons m ms)
  then obtain xs where "sk_open (also_push sink m k)" "ms = map Some xs"
      "sk_sent (fold (also_push sink) ms (also_push sink m k)) = sk_sent (also_push sink m k) @ xs" by fastforce
  moreover from this(1) obtain x where "sk_open k" "m = Some x" "sk_sent (also_push sink m k) = sk_sent k @ [x]"
    using also_push_open by blast
  ultimately show ?case by (intro conjI exI [of _ "x # xs"]) simp_all
qed simp

lemma fold_also_push_fields:
  "sk_cutoff (fold (also_push sink) ms k) = sk_cutoff k \<and> sk_room (fold (also_push sink) ms k) = sk_room k
    \<and> sk_token (fold (also_push sink) ms k) = sk_token k \<and> sk_channel (fold (also_push sink) ms k) = sk_channel k
    \<and> sk_pos (fold (also_push sink) ms k) = sk_pos k"
  by (induction ms arbitrary: k) (auto simp: also_push_def push_def close_socket_def split: option.splits)

lemma sender_db: "sender room_id s = (c, s') \<Longrightarrow> rl_db s' = rl_db s"
  by (auto simp: sender_def split: option.splits)

text \<open>A terminal socket opens only for an authorised device, and then has sent, in this order, every
  stored frame after the client's last one up to the cut-off, the ready message with that cut-off,
  the participants and the control state. Frames that arrive while it opens are not lost: it
  subscribed before reading the cut-off.\<close>

theorem handshake_in_order:
  assumes "open_socket L E sink shut tok room_id after_sequence (s, mt) = (Some k, s', mt')" "sk_open k"
  shows "\<not> shut \<and> (\<exists>auth fs n ps texts. authenticate_device L (clock E 0) tok (rl_db s) = Inr auth
    \<and> is_ok (authorize_room auth room_id (rl_db s))
    \<and> replay L auth room_id after_sequence (sk_cutoff k) (rl_db s) = Inr fs
    \<and> room_participants room_id (rl_db s) = Inr ps
    \<and> map Some texts = map (\<lambda>m. json_server L m) (map ServerFrame fs
        @ [Ready (sk_cutoff k) n, Participants ps, Control (current_control L (clock E 1) room_id (rl_db s))])
    \<and> sk_sent k = map OText texts
    \<and> sk_pos k = length (rl_channels s' ! sk_channel k) \<and> mt' = begin_websocket mt)"
proof -
  have shut: "\<not> shut" using assms(1) by (auto simp: open_socket_def)
  obtain auth where auth: "authenticate_device L (clock E 0) tok (rl_db s) = Inr auth"
      "is_ok (authorize_room auth room_id (rl_db s))"
    using assms(1) shut by (auto simp: open_socket_def res_iff is_ok_iff split: sum.splits)
  obtain c where c: "sender room_id s = (c, s')"
    using assms(1) shut auth
    by (auto simp: open_socket_def is_ok_iff Let_def split: prod.splits option.splits)
  note db = sender_db [OF c]
  let ?k0 = "\<lparr>sk_token = tok, sk_room = room_id, sk_cutoff = 0, sk_channel = c,
                   sk_pos = length (rl_channels s' ! c), sk_sent = [], sk_open = True\<rparr>"
  obtain latest where latest: "latest_output room_id (rl_db s) = Some latest"
    and k: "k = socket_replay L (clock E 1) sink auth after_sequence (rl_db s) (?k0\<lparr>sk_cutoff := as_u64 latest\<rparr>)"
    and mt: "mt' = begin_websocket mt"
    using assms c auth shut db
    by (auto simp: open_socket_def is_ok_iff Let_def close_socket_def split: option.splits)
  let ?k1 = "?k0\<lparr>sk_cutoff := as_u64 latest\<rparr>"
  obtain fs where fs: "replay L auth room_id after_sequence (as_u64 latest) (rl_db s) = Inr fs"
    using assms(2) k by (auto simp: socket_replay_def close_socket_def split: sum.splits)
  let ?ms = "frame_texts L fs @ greeting L (clock E 1) auth room_id (as_u64 latest) (rl_db s)"
  have k': "k = fold (also_push sink) ?ms ?k1" using k fs by (simp add: socket_replay_def)
  have op: "sk_open (fold (also_push sink) ?ms ?k1)" using assms(2) unfolding k' [symmetric] .
  obtain xs where "?ms = map Some xs" "sk_sent (fold (also_push sink) ?ms ?k1) = sk_sent ?k1 @ xs"
    using fold_also_push_open [OF op] by blast
  then have xs: "?ms = map Some xs" "sk_sent k = xs" unfolding k' [symmetric] by simp_all
  note fields = fold_also_push_fields [of sink ?ms ?k1, folded k']
  have "\<forall>m \<in> set ?ms. m \<noteq> None" using xs(1) by auto
  then have g: "\<forall>m \<in> set (greeting L (clock E 1) auth room_id (as_u64 latest) (rl_db s)). m \<noteq> None" by simp
  obtain n ps where n: "next_input room_id (da_device_id auth) (rl_db s) = Some n"
      "room_participants room_id (rl_db s) = Inr ps"
    using g by (auto simp: greeting_def Let_def split: option.splits sum.splits)
  have ms: "?ms = map (\<lambda>m. map_option OText (json_server L m)) (map ServerFrame fs
        @ [Ready (as_u64 latest) (as_u64 n), Participants ps, Control (current_control L (clock E 1) room_id (rl_db s))])"
    using n by (simp add: frame_texts_def greeting_def Let_def)
  have "\<exists>texts. map Some texts = map (json_server L) ys \<and> zs = map OText texts"
    if "map (\<lambda>m. map_option OText (json_server L m)) ys = map Some zs" for ys zs
    using that
  proof (induction ys arbitrary: zs)
    case (Cons y ys)
    obtain z zs' where z: "zs = z # zs'" using Cons.prems by (cases zs) auto
    then obtain t where "json_server L y = Some t" "z = OText t" using Cons.prems by auto
    moreover obtain texts where "map Some texts = map (json_server L) ys" "zs' = map OText texts"
      using Cons z by auto
    ultimately show ?case using z by (intro exI [of _ "t # texts"]) simp
  qed simp
  then obtain texts where texts: "map Some texts = map (json_server L) (map ServerFrame fs
        @ [Ready (as_u64 latest) (as_u64 n), Participants ps, Control (current_control L (clock E 1) room_id (rl_db s))])"
      "xs = map OText texts"
    using xs(1) unfolding ms by blast
  have co: "sk_cutoff k = as_u64 latest" "sk_pos k = length (rl_channels s' ! sk_channel k)" using fields by simp_all
  show ?thesis using shut auth fs n(2) texts xs(2) mt co
    by (intro conjI exI [of _ auth] exI [of _ fs] exI [of _ "as_u64 n"] exI [of _ ps] exI [of _ texts]) simp_all
qed

definition sample_broadcast :: broadcast_frame where
  "sample_broadcast = \<lparr>bf_json = ''out'', bf_direction = ''output'', bf_sequence = Some 2, bf_host_device_id = ''d0''\<rparr>"

definition sample_relay :: relay where
  "sample_relay = \<lparr>rl_db = sample_db, rl_hubs = [(''r1'', 0)], rl_channels = [[sample_broadcast]]\<rparr>"

definition sample_socket :: "string \<Rightarrow> socket" where
  "sample_socket tok = \<lparr>sk_token = tok, sk_room = ''r1'', sk_cutoff = 1, sk_channel = 0, sk_pos = 0, sk_sent = [],
     sk_open = True\<rparr>"


theorem unauthorized_socket_ends_witness:
  "\<not> sk_open (on_broadcast sample_libs (seconds 2000) (\<lambda>_. True) sample_relay (sample_socket operator_token))"
proof -
  have "authorized sample_libs (seconds 2000) (sample_socket operator_token) (rl_db sample_relay) = Inl Authentication"
    by code_simp
  moreover have "fst (recv sample_relay (sample_socket operator_token)) = Received sample_broadcast" by code_simp
  ultimately show ?thesis using unauthorized_socket_ends by blast
qed

theorem handshake_in_order_witness:
  "\<exists>k s' mt'. open_socket sample_libs sample_env (\<lambda>_. True) False operator_token ''r1'' 0 (sample_relay, new_metrics)
       = (Some k, s', mt') \<and> length (sk_sent k) = 3 \<and> sk_pos k = length (rl_channels s' ! sk_channel k)"
proof -
  let ?r = "open_socket sample_libs sample_env (\<lambda>_. True) False operator_token ''r1'' 0 (sample_relay, new_metrics)"
  have r: "map_option (\<lambda>k. (sk_open k, length (sk_sent k))) (fst ?r) = Some (True, 3)" by code_simp
  obtain k s' mt' where k: "?r = (Some k, s', mt')" "sk_open k" "length (sk_sent k) = 3"
    using r by (cases ?r) auto
  then show ?thesis using handshake_in_order [OF k(1,2)] by blast
qed

end
