(* ===== verification/RelayApi.thy ===== *)
theory RelayApi
  imports RelaySocket
begin

text \<open>
  The HTTP surface of the relay (\<open>services/team-relay/src/lib.rs\<close>): the bearer token, one
  definition for each handler, and the middleware that counts responses. A handler returns the
  status of its success with its body, or the error, and the state it leaves.
\<close>

record headers =
  hd_authorization :: "string option"
  hd_confirm_workspace :: "string option"

record server =
  sv_relay :: relay
  sv_metrics :: metrics
  sv_require_email :: bool
  sv_shutdown :: bool

type_synonym 'a response = "(nat \<times> 'a) relay_result \<times> server"

text \<open>\<open>AccountRegistrationMode\<close>: \<open>sv_require_email\<close>, and the sender as a parameter.\<close>

definition bearer_token :: "headers \<Rightarrow> string relay_result" where
  "bearer_token h = ok_or (case hd_authorization h of None \<Rightarrow> None
     | Some v \<Rightarrow> (case strip_prefix ''Bearer '' v of None \<Rightarrow> None
         | Some tok \<Rightarrow> (if tok = [] then None else Some tok))) Authentication"

definition sv_db :: "server \<Rightarrow> db" where
  "sv_db sv = rl_db (sv_relay sv)"

text \<open>How a handler ends: an operation on the database, or on the whole relay, with its status.\<close>

definition end_db :: "nat \<Rightarrow> server \<Rightarrow> 'a relay_result \<times> db \<Rightarrow> 'a response" where
  "end_db status sv r = (rbind (fst r) (\<lambda>x. Inr (status, x)),
     sv\<lparr>sv_relay := (sv_relay sv)\<lparr>rl_db := snd r\<rparr>\<rparr>)"

definition end_relay :: "nat \<Rightarrow> server \<Rightarrow> 'a relay_result \<times> relay \<Rightarrow> 'a response" where
  "end_relay status sv r = (rbind (fst r) (\<lambda>x. Inr (status, x)), sv\<lparr>sv_relay := snd r\<rparr>)"

definition end_read :: "nat \<Rightarrow> server \<Rightarrow> 'a relay_result \<Rightarrow> 'a response" where
  "end_read status sv r = (rbind r (\<lambda>x. Inr (status, x)), sv)"

text \<open>The two authentications, each followed by the body of the handler.\<close>

definition with_device ::
    "libs \<Rightarrow> env \<Rightarrow> headers \<Rightarrow> server \<Rightarrow> (device_auth \<Rightarrow> 'a response) \<Rightarrow> 'a response" where
  "with_device L E h sv body =
     (case rbind (bearer_token h) (\<lambda>tok. authenticate_device L (clock E 0) tok (sv_db sv)) of
        Inl e \<Rightarrow> (Inl e, sv) | Inr auth \<Rightarrow> body auth)"

definition with_account ::
    "libs \<Rightarrow> env \<Rightarrow> headers \<Rightarrow> server \<Rightarrow> (account_auth \<Rightarrow> 'a response) \<Rightarrow> 'a response" where
  "with_account L E h sv body =
     (case rbind (bearer_token h) (\<lambda>tok. authenticate_account L (clock E 0) tok (sv_db sv)) of
        Inl e \<Rightarrow> (Inl e, sv) | Inr auth \<Rightarrow> body auth)"

section \<open>Service endpoints\<close>

definition health :: "server \<Rightarrow> string response" where
  "health sv = (Inr (200, ''ok''), sv)"

text \<open>\<open>ready\<close> is what the \<open>SELECT 1\<close> of \<open>RelayStore::readiness\<close> answered.\<close>

definition readiness :: "bool \<Rightarrow> server \<Rightarrow> string response" where
  "readiness ready sv = (Inr (if ready then (200, ''ready'') else (503, ''unavailable'')),
     sv\<lparr>sv_metrics := record_readiness ready (sv_metrics sv)\<rparr>)"

definition prometheus_metrics :: "bool \<Rightarrow> nat \<Rightarrow> server \<Rightarrow> string response" where
  "prometheus_metrics ready uptime sv =
     (let sv = sv\<lparr>sv_metrics := record_readiness ready (sv_metrics sv)\<rparr>
      in (Inr (200, render ready uptime (sv_metrics sv)), sv))"

section \<open>Accounts\<close>

definition h_register_account ::
    "libs \<Rightarrow> env \<Rightarrow> (verification_email \<Rightarrow> unit relay_result) \<Rightarrow> register_account_input \<Rightarrow> server
      \<Rightarrow> account_registration_output response" where
  "h_register_account L E send_verification input sv =
     (case register_account L E input (sv_require_email sv) (sv_db sv) of
        (Inl e, d) \<Rightarrow> end_db 201 sv (Inl e, d)
      | (Inr (output, message), d) \<Rightarrow>
          end_db 201 sv
            ((case message of
                Some v \<Rightarrow> (if sv_require_email sv then rbind (send_verification v) (\<lambda>_. Inr output) else Inr output)
              | None \<Rightarrow> Inr output), d))"

definition h_login :: "libs \<Rightarrow> env \<Rightarrow> login_input \<Rightarrow> server \<Rightarrow> account_session_output response" where
  "h_login L E input sv = end_db 200 sv (login L E input (sv_db sv))"

definition h_verify_email :: "libs \<Rightarrow> env \<Rightarrow> string \<Rightarrow> server \<Rightarrow> account_session_output response" where
  "h_verify_email L E tok sv = end_db 200 sv (verify_email L E tok (sv_db sv))"

text \<open>A delivery failure is only logged; in the trusted mode nothing is looked up.\<close>

definition h_resend_verification_email ::
    "libs \<Rightarrow> env \<Rightarrow> (verification_email \<Rightarrow> unit relay_result) \<Rightarrow> string \<Rightarrow> server \<Rightarrow> bool response" where
  "h_resend_verification_email L E send_verification email sv =
     (if sv_require_email sv then
        (case resend_verification_email L E email (sv_db sv) of
           (Inl e, d) \<Rightarrow> end_db 202 sv (Inl e, d)
         | (Inr _, d) \<Rightarrow> end_db 202 sv (Inr True, d))
      else (Inr (202, True), sv))"

section \<open>Workspaces\<close>

definition h_bootstrap_workspace ::
    "libs \<Rightarrow> env \<Rightarrow> headers \<Rightarrow> bootstrap_workspace_input \<Rightarrow> server \<Rightarrow> device_session_output response" where
  "h_bootstrap_workspace L E h input sv = with_account L E h sv (\<lambda>account.
     end_db 201 sv (bootstrap_workspace L (env_after 1 E) account input (sv_db sv)))"

definition h_create_workspace_invitation ::
    "libs \<Rightarrow> env \<Rightarrow> headers \<Rightarrow> string \<Rightarrow> create_workspace_invitation_input \<Rightarrow> server
      \<Rightarrow> workspace_invitation_output response" where
  "h_create_workspace_invitation L E h workspace_id input sv = with_device L E h sv (\<lambda>auth.
     if da_workspace_id auth \<noteq> workspace_id then (Inl PermissionDenied, sv)
     else end_db 201 sv (create_workspace_invitation L (env_after 1 E) auth input (sv_db sv)))"

definition h_accept_workspace_invitation ::
    "libs \<Rightarrow> env \<Rightarrow> headers \<Rightarrow> accept_workspace_invitation_input \<Rightarrow> server \<Rightarrow> device_session_output response" where
  "h_accept_workspace_invitation L E h input sv = with_account L E h sv (\<lambda>account.
     end_db 201 sv (accept_workspace_invitation L (env_after 1 E) account input (sv_db sv)))"

definition h_workspace_snapshot ::
    "libs \<Rightarrow> env \<Rightarrow> headers \<Rightarrow> string \<Rightarrow> server \<Rightarrow> workspace_snapshot_view response" where
  "h_workspace_snapshot L E h workspace_id sv = with_device L E h sv (\<lambda>auth.
     end_read 200 sv (workspace_snapshot auth workspace_id (sv_db sv)))"

definition h_workspace_audit ::
    "libs \<Rightarrow> env \<Rightarrow> headers \<Rightarrow> string \<Rightarrow> server \<Rightarrow> relay_audit_event list response" where
  "h_workspace_audit L E h workspace_id sv = with_device L E h sv (\<lambda>auth.
     end_read 200 sv (list_audit auth workspace_id (sv_db sv)))"

definition h_delete_workspace :: "libs \<Rightarrow> env \<Rightarrow> headers \<Rightarrow> string \<Rightarrow> server \<Rightarrow> unit response" where
  "h_delete_workspace L E h workspace_id sv =
     (if hd_confirm_workspace h \<noteq> Some workspace_id then (Inl Validation, sv)
      else with_device L E h sv (\<lambda>auth. end_db 204 sv (delete_workspace auth workspace_id (sv_db sv))))"

definition h_update_member ::
    "libs \<Rightarrow> env \<Rightarrow> headers \<Rightarrow> string \<Rightarrow> string \<Rightarrow> update_member_input \<Rightarrow> server \<Rightarrow> i64 response" where
  "h_update_member L E h workspace_id member_id input sv = with_device L E h sv (\<lambda>auth.
     end_db 200 sv (update_member L (env_after 1 E) auth workspace_id member_id input (sv_db sv)))"

definition h_revoke_device :: "libs \<Rightarrow> env \<Rightarrow> headers \<Rightarrow> string \<Rightarrow> string \<Rightarrow> server \<Rightarrow> i64 response" where
  "h_revoke_device L E h workspace_id device_id sv = with_device L E h sv (\<lambda>auth.
     end_db 200 sv (revoke_device L (env_after 1 E) auth workspace_id device_id (sv_db sv)))"

section \<open>Device sessions\<close>

definition h_create_device_challenge ::
    "libs \<Rightarrow> env \<Rightarrow> device_challenge_input \<Rightarrow> server \<Rightarrow> device_challenge_output response" where
  "h_create_device_challenge L E input sv =
     end_db 201 sv (create_device_challenge L E (dci_workspace_id input) (dci_device_id input) (sv_db sv))"

definition h_create_device_session ::
    "libs \<Rightarrow> env \<Rightarrow> create_device_session_input \<Rightarrow> server \<Rightarrow> device_session_output response" where
  "h_create_device_session L E input sv = end_db 201 sv (create_device_session L E input (sv_db sv))"

section \<open>Terminal rooms\<close>

definition h_create_room :: "libs \<Rightarrow> env \<Rightarrow> headers \<Rightarrow> create_room_input \<Rightarrow> server \<Rightarrow> room_view response" where
  "h_create_room L E h input sv = with_device L E h sv (\<lambda>auth.
     end_db 201 sv (create_room L (env_after 1 E) auth input (sv_db sv)))"

definition h_route_room_invitation ::
    "libs \<Rightarrow> env \<Rightarrow> headers \<Rightarrow> string \<Rightarrow> team_terminal_invitation \<Rightarrow> server \<Rightarrow> unit response" where
  "h_route_room_invitation L E h room_id invitation sv = with_device L E h sv (\<lambda>auth.
     end_db 204 sv (route_invitation L (env_after 1 E) auth room_id invitation (sv_db sv)))"

definition h_list_room_invitations ::
    "libs \<Rightarrow> env \<Rightarrow> headers \<Rightarrow> server \<Rightarrow> routed_room_invitation list response" where
  "h_list_room_invitations L E h sv = with_device L E h sv (\<lambda>auth.
     end_read 200 sv (list_invitations L (clock E 1) auth (sv_db sv)))"

definition h_join_room :: "libs \<Rightarrow> env \<Rightarrow> headers \<Rightarrow> string \<Rightarrow> server \<Rightarrow> room_view response" where
  "h_join_room L E h room_id sv = with_device L E h sv (\<lambda>auth.
     end_relay 200 sv (join_room L (env_after 1 E) auth room_id (sv_relay sv)))"

definition h_leave_room :: "libs \<Rightarrow> env \<Rightarrow> headers \<Rightarrow> string \<Rightarrow> server \<Rightarrow> unit response" where
  "h_leave_room L E h room_id sv = with_device L E h sv (\<lambda>auth.
     end_relay 204 sv (leave_room L (env_after 1 E) auth room_id (sv_relay sv)))"

definition h_grant_control ::
    "libs \<Rightarrow> env \<Rightarrow> headers \<Rightarrow> string \<Rightarrow> grant_control_input \<Rightarrow> server \<Rightarrow> control_lease_output response" where
  "h_grant_control L E h room_id input sv = with_device L E h sv (\<lambda>auth.
     end_relay 200 sv (grant_control L (env_after 1 E) auth room_id input (sv_relay sv)))"

definition h_revoke_control :: "libs \<Rightarrow> env \<Rightarrow> headers \<Rightarrow> string \<Rightarrow> server \<Rightarrow> unit response" where
  "h_revoke_control L E h room_id sv = with_device L E h sv (\<lambda>auth.
     end_relay 204 sv (revoke_control L (env_after 1 E) auth room_id (sv_relay sv)))"

definition h_close_room :: "libs \<Rightarrow> env \<Rightarrow> headers \<Rightarrow> string \<Rightarrow> server \<Rightarrow> unit response" where
  "h_close_room L E h room_id sv = with_device L E h sv (\<lambda>auth.
     end_relay 204 sv (close_room L (env_after 1 E) auth room_id (sv_relay sv)))"

text \<open>The upgrade is refused unless the device may enter the room; the body is the token.\<close>

definition h_terminal_socket :: "libs \<Rightarrow> env \<Rightarrow> headers \<Rightarrow> string \<Rightarrow> server \<Rightarrow> string response" where
  "h_terminal_socket L E h room_id sv =
     end_read 101 sv (rbind (bearer_token h) (\<lambda>tok.
        rbind (authenticate_device L (clock E 0) tok (sv_db sv)) (\<lambda>auth.
        rbind (authorize_room auth room_id (sv_db sv)) (\<lambda>_. Inr tok))))"

section \<open>Middleware\<close>

definition response_status :: "(nat \<times> 'a) relay_result \<Rightarrow> nat" where
  "response_status r = (case r of Inl e \<Rightarrow> http_status e | Inr (status, _) \<Rightarrow> status)"

definition track_http :: "'a response \<Rightarrow> 'a response" where
  "track_http r = (fst r,
     (snd r)\<lparr>sv_metrics := record_http (response_status (fst r)) (sv_metrics (snd r))\<rparr>)"

definition shutdown :: "server \<Rightarrow> server" where
  "shutdown sv = sv\<lparr>sv_shutdown := True\<rparr>"

end
