(* ===== verification/RelaySystem.thy ===== *)
theory RelaySystem
  imports RelayApi
begin

text \<open>
  The relay as a whole: the routes of \<open>services/team-relay/src/lib.rs\<close> as one dispatch over a type
  of requests, and what no request can do: without a session it changes nothing, and with the
  session of one workspace it does not touch the records of another.
\<close>

section \<open>Routes\<close>

datatype request =
    RqHealth
  | RqReadiness bool
  | RqMetrics bool nat
  | RqRegister register_account_input
  | RqLogin login_input
  | RqVerifyEmail string
  | RqResend string
  | RqBootstrap bootstrap_workspace_input
  | RqCreateInvitation string create_workspace_invitation_input
  | RqAcceptInvitation accept_workspace_invitation_input
  | RqSnapshot string
  | RqAudit string
  | RqDeleteWorkspace string
  | RqUpdateMember string string update_member_input
  | RqRevokeDevice string string
  | RqDeviceChallenge device_challenge_input
  | RqDeviceSession create_device_session_input
  | RqCreateRoom create_room_input
  | RqListInvitations
  | RqRouteInvitation string team_terminal_invitation
  | RqJoinRoom string
  | RqLeaveRoom string
  | RqCloseRoom string
  | RqGrantControl string grant_control_input
  | RqRevokeControl string
  | RqSocket string

text \<open>Every response passes through \<open>track_http\<close>; the bodies differ, so the dispatch keeps the status.\<close>

definition finish :: "'a response \<Rightarrow> nat \<times> server" where
  "finish r = (response_status (fst r), snd (track_http r))"

fun handle ::
    "libs \<Rightarrow> env \<Rightarrow> (verification_email \<Rightarrow> unit relay_result) \<Rightarrow> headers \<Rightarrow> request \<Rightarrow> server \<Rightarrow> nat \<times> server" where
  "handle L E mail h RqHealth sv = finish (health sv)"
| "handle L E mail h (RqReadiness ready) sv = finish (readiness ready sv)"
| "handle L E mail h (RqMetrics ready uptime) sv = finish (prometheus_metrics ready uptime sv)"
| "handle L E mail h (RqRegister input) sv = finish (h_register_account L E mail input sv)"
| "handle L E mail h (RqLogin input) sv = finish (h_login L E input sv)"
| "handle L E mail h (RqVerifyEmail tok) sv = finish (h_verify_email L E tok sv)"
| "handle L E mail h (RqResend email) sv = finish (h_resend_verification_email L E mail email sv)"
| "handle L E mail h (RqBootstrap input) sv = finish (h_bootstrap_workspace L E h input sv)"
| "handle L E mail h (RqCreateInvitation w input) sv = finish (h_create_workspace_invitation L E h w input sv)"
| "handle L E mail h (RqAcceptInvitation input) sv = finish (h_accept_workspace_invitation L E h input sv)"
| "handle L E mail h (RqSnapshot w) sv = finish (h_workspace_snapshot L E h w sv)"
| "handle L E mail h (RqAudit w) sv = finish (h_workspace_audit L E h w sv)"
| "handle L E mail h (RqDeleteWorkspace w) sv = finish (h_delete_workspace L E h w sv)"
| "handle L E mail h (RqUpdateMember w m input) sv = finish (h_update_member L E h w m input sv)"
| "handle L E mail h (RqRevokeDevice w v) sv = finish (h_revoke_device L E h w v sv)"
| "handle L E mail h (RqDeviceChallenge input) sv = finish (h_create_device_challenge L E input sv)"
| "handle L E mail h (RqDeviceSession input) sv = finish (h_create_device_session L E input sv)"
| "handle L E mail h (RqCreateRoom input) sv = finish (h_create_room L E h input sv)"
| "handle L E mail h RqListInvitations sv = finish (h_list_room_invitations L E h sv)"
| "handle L E mail h (RqRouteInvitation r i) sv = finish (h_route_room_invitation L E h r i sv)"
| "handle L E mail h (RqJoinRoom r) sv = finish (h_join_room L E h r sv)"
| "handle L E mail h (RqLeaveRoom r) sv = finish (h_leave_room L E h r sv)"
| "handle L E mail h (RqCloseRoom r) sv = finish (h_close_room L E h r sv)"
| "handle L E mail h (RqGrantControl r input) sv = finish (h_grant_control L E h r input sv)"
| "handle L E mail h (RqRevokeControl r) sv = finish (h_revoke_control L E h r sv)"
| "handle L E mail h (RqSocket r) sv = finish (h_terminal_socket L E h r sv)"

text \<open>The requests that need an account session, and those that need a device session.\<close>

fun needs_account :: "request \<Rightarrow> bool" where
  "needs_account (RqBootstrap _) = True"
| "needs_account (RqAcceptInvitation _) = True"
| "needs_account _ = False"

fun needs_device :: "request \<Rightarrow> bool" where
  "needs_device RqHealth = False"
| "needs_device (RqReadiness _) = False"
| "needs_device (RqMetrics _ _) = False"
| "needs_device (RqRegister _) = False"
| "needs_device (RqLogin _) = False"
| "needs_device (RqVerifyEmail _) = False"
| "needs_device (RqResend _) = False"
| "needs_device (RqBootstrap _) = False"
| "needs_device (RqAcceptInvitation _) = False"
| "needs_device (RqDeviceChallenge _) = False"
| "needs_device (RqDeviceSession _) = False"
| "needs_device _ = True"

definition request_device :: "libs \<Rightarrow> env \<Rightarrow> headers \<Rightarrow> server \<Rightarrow> device_auth relay_result" where
  "request_device L E h sv = rbind (bearer_token h) (\<lambda>tok. authenticate_device L (clock E 0) tok (sv_db sv))"

definition request_account :: "libs \<Rightarrow> env \<Rightarrow> headers \<Rightarrow> server \<Rightarrow> account_auth relay_result" where
  "request_account L E h sv = rbind (bearer_token h) (\<lambda>tok. authenticate_account L (clock E 0) tok (sv_db sv))"

lemma request_device_err: "request_device L E h sv = Inl e \<Longrightarrow> e = Authentication"
  by (auto simp: request_device_def rbind_Inl_iff bearer_token_def res_iff dest: authenticate_device_err)

lemma request_account_err: "request_account L E h sv = Inl e \<Longrightarrow> e = Authentication"
  by (auto simp: request_account_def rbind_Inl_iff bearer_token_def authenticate_account_def
      validate_token_shape_def res_iff split: prod.splits)

lemma with_device_split:
  "with_device L E h sv body = (case request_device L E h sv of Inl e \<Rightarrow> (Inl e, sv) | Inr auth \<Rightarrow> body auth)"
  by (simp add: with_device_def request_device_def)

lemma with_account_split:
  "with_account L E h sv body = (case request_account L E h sv of Inl e \<Rightarrow> (Inl e, sv) | Inr auth \<Rightarrow> body auth)"
  by (simp add: with_account_def request_account_def)

lemmas handler_defs = h_create_workspace_invitation_def h_workspace_snapshot_def h_workspace_audit_def
  h_delete_workspace_def h_update_member_def h_revoke_device_def h_create_room_def h_list_room_invitations_def
  h_route_room_invitation_def h_join_room_def h_leave_room_def h_close_room_def h_grant_control_def
  h_revoke_control_def

lemma terminal_socket_split:
  "h_terminal_socket L E h r sv = (case request_device L E h sv of Inl e \<Rightarrow> (Inl e, sv)
     | Inr auth \<Rightarrow> end_read 101 sv (rbind (bearer_token h) (\<lambda>tok. rbind (authorize_room auth r (sv_db sv)) (\<lambda>_. Inr tok))))"
  by (cases "bearer_token h") (auto simp: h_terminal_socket_def request_device_def end_read_def rbind_assoc split: sum.split)

lemma finish_relay [simp]: "sv_relay (snd (finish r)) = sv_relay (snd r)"
  by (simp add: finish_def track_http_def)

section \<open>Requests without a session\<close>

text \<open>A request that needs a session and comes without a valid one is answered 401 (or 400, when the
  confirmation of a permanent deletion is missing) and leaves the database and the hubs as they were.\<close>

theorem unauthenticated_no_effect:
  assumes "needs_device rq \<and> \<not> is_ok (request_device L E h sv) \<or> needs_account rq \<and> \<not> is_ok (request_account L E h sv)"
  shows "(fst (handle L E mail h rq sv) = 401 \<or> (\<exists>w. rq = RqDeleteWorkspace w) \<and> fst (handle L E mail h rq sv) = 400)
    \<and> sv_relay (snd (handle L E mail h rq sv)) = sv_relay sv"
proof (cases "needs_account rq")
  case True
  then have "request_account L E h sv = Inl Authentication"
    using assms request_account_err by (cases "request_account L E h sv"; cases rq) auto
  then show ?thesis using True
    by (cases rq) (simp_all add: h_bootstrap_workspace_def h_accept_workspace_invitation_def with_account_split
      finish_def response_status_def track_http_def)
next
  case False
  then have "request_device L E h sv = Inl Authentication" and "needs_device rq"
    using assms request_device_err by (cases "request_device L E h sv"; auto)+
  then show ?thesis
    by (cases rq) (simp_all add: handler_defs terminal_socket_split with_device_split
      finish_def response_status_def track_http_def)
qed

theorem unauthenticated_no_effect_witness:
  "fst (handle sample_libs sample_env (\<lambda>_. Inr ()) \<lparr>hd_authorization = None, hd_confirm_workspace = None\<rparr>
      (RqRevokeDevice ''w1'' ''d1'') \<lparr>sv_relay = new_relay sample_db, sv_metrics = new_metrics,
         sv_require_email = True, sv_shutdown = False\<rparr>) = 401"
proof -
  let ?sv = "\<lparr>sv_relay = new_relay sample_db, sv_metrics = new_metrics, sv_require_email = True, sv_shutdown = False\<rparr>"
  let ?h = "\<lparr>hd_authorization = None, hd_confirm_workspace = None\<rparr>"
  have "\<not> is_ok (request_device sample_libs sample_env ?h ?sv)" by (simp add: request_device_def bearer_token_def)
  then show ?thesis
    using unauthenticated_no_effect [where rq = "RqRevokeDevice ''w1'' ''d1''" and L = sample_libs and E = sample_env
      and h = ?h and sv = ?sv] by auto
qed

section \<open>Isolation of workspaces\<close>

text \<open>The records of one workspace that only its own sessions may change.\<close>

definition tenant :: "string \<Rightarrow> db \<Rightarrow> workspace list \<times> member list \<times> device list \<times> terminal_room list" where
  "tenant x d = (filter (\<lambda>w. ws_id w = x) (db_workspaces d), filter (\<lambda>m. mem_workspace_id m = x) (db_members d),
     filter (\<lambda>v. dev_workspace_id v = x) (db_devices d), filter (\<lambda>r. tr_workspace_id r = x) (db_rooms d))"

text \<open>A device belongs to the workspace of its member.\<close>

definition devices_consistent :: "db \<Rightarrow> bool" where
  "devices_consistent d \<longleftrightarrow> (\<forall>v \<in> set (db_devices d). \<forall>m \<in> set (db_members d).
     dev_member_id v = mem_id m \<longrightarrow> dev_workspace_id v = mem_workspace_id m)"

lemma tenant_same:
  "db_workspaces d' = db_workspaces d \<Longrightarrow> db_members d' = db_members d \<Longrightarrow> db_devices d' = db_devices d
    \<Longrightarrow> db_rooms d' = db_rooms d \<Longrightarrow> tenant x d' = tenant x d"
  by (simp add: tenant_def)

lemma tenant_audit: "audit L u t w m a ty ti d = Inr d' \<Longrightarrow> tenant x d' = tenant x d"
  by (rule tenant_same) (use audit_fields in blast)+

text \<open>Updates of rows of other workspaces.\<close>

lemma frame_update:
  "(\<And>r. p r \<Longrightarrow> key r = w) \<Longrightarrow> (\<And>r. key (f r) = key r) \<Longrightarrow> w \<noteq> x
    \<Longrightarrow> filter (\<lambda>r. key r = x) (sql_update p f rows) = filter (\<lambda>r. key r = x) rows"
  by (rule filter_sql_update_frame) auto

lemma tenant_rooms:
  "(\<And>r. p r \<Longrightarrow> tr_workspace_id r \<noteq> x) \<Longrightarrow> (\<And>r. tr_workspace_id (f r) = tr_workspace_id r)
    \<Longrightarrow> tenant x (d\<lparr>db_rooms := sql_update p f (db_rooms d)\<rparr>) = tenant x d"
  by (simp add: tenant_def filter_sql_update_frame)

lemma tenant_close_rooms: "w \<noteq> x \<Longrightarrow> tenant x (close_workspace_rooms w now d) = tenant x d"
  unfolding close_workspace_rooms_def by (rule tenant_rooms) simp_all

lemma frame_workspaces:
  "w \<noteq> x \<Longrightarrow> (\<And>r. ws_id (f r) = ws_id r)
    \<Longrightarrow> filter (\<lambda>r. ws_id r = x) (sql_update (active_workspace w) f rows) = filter (\<lambda>r. ws_id r = x) rows"
  by (rule frame_update) (simp_all add: active_workspace_def)

lemma frame_members:
  "w \<noteq> x \<Longrightarrow> (\<And>r. mem_workspace_id (f r) = mem_workspace_id r)
    \<Longrightarrow> filter (\<lambda>r. mem_workspace_id r = x) (sql_update (is_member w mid) f rows) = filter (\<lambda>r. mem_workspace_id r = x) rows"
  by (rule frame_update) (simp_all add: is_member_def)

lemma frame_devices:
  "(\<And>r. p r \<Longrightarrow> dev_workspace_id r \<noteq> x) \<Longrightarrow> (\<And>r. dev_workspace_id (f r) = dev_workspace_id r)
    \<Longrightarrow> filter (\<lambda>r. dev_workspace_id r = x) (sql_update p f rows) = filter (\<lambda>r. dev_workspace_id r = x) rows"
  by (rule filter_sql_update_frame) simp_all

lemma frame_close_rooms:
  "w \<noteq> x \<Longrightarrow> filter (\<lambda>r. tr_workspace_id r = x) (db_rooms (close_workspace_rooms w now d))
    = filter (\<lambda>r. tr_workspace_id r = x) (db_rooms d)"
  using tenant_close_rooms [of w x now d] by (simp add: tenant_def)

lemma tenant_advance_epoch: "advance_epoch w now d = Inr (e, d') \<Longrightarrow> w \<noteq> x \<Longrightarrow> tenant x d' = tenant x d"
  unfolding advance_epoch_Inr
  by (elim exE conjE) (simp add: tenant_def frame_workspaces)

lemma tenant_change:
  assumes "advance_epoch w now d = Inr (epoch, d1)"
    and "audit L u t w m a ty ti (close_workspace_rooms w now d1) = Inr d2" and "w \<noteq> x"
  shows "tenant x d2 = tenant x d"
  using tenant_audit [OF assms(2)] tenant_close_rooms [OF assms(3)] tenant_advance_epoch [OF assms(1,3)] by simp

lemma tenant_delete_workspace:
  assumes "delete_workspace auth w d = (r, d')" "x \<noteq> da_workspace_id auth" "devices_consistent d"
  shows "tenant x d' = tenant x d"
proof -
  have "tenant x (cascade_delete w d) = tenant x d" if "w \<noteq> x"
  proof -
    have "filter (\<lambda>v. dev_workspace_id v = x) (sql_delete (\<lambda>v. dev_workspace_id v = w
        \<or> list_ex (\<lambda>m. mem_id m = dev_member_id v \<and> mem_workspace_id m = w) (db_members d)) (db_devices d))
      = filter (\<lambda>v. dev_workspace_id v = x) (db_devices d)"
      unfolding sql_delete_def filter_filter
      by (rule filter_cong) (use that assms(3) in \<open>auto simp: list_ex_iff devices_consistent_def\<close>)
    then show ?thesis using that by (simp add: tenant_def cascade_delete_def Let_def filter_sql_delete_frame)
  qed
  then show ?thesis using assms(1,2)
    by (auto simp: delete_workspace_def delete_workspace_row_def Let_def split: if_split_asm)
qed

lemma tenant_update_member:
  assumes "update_member L E auth w mid input d = (r, d')" "x \<noteq> da_workspace_id auth"
  shows "tenant x d' = tenant x d"
proof (cases r)
  case (Inr epoch)
  then have w: "da_workspace_id auth = w" and tx: "update_member_tx L E auth w mid input d = Inr (epoch, d')"
    using assms(1) update_member_Inr by blast+
  then have "w \<noteq> x" using assms(2) by simp
  let ?now = "to_rfc3339 L (clock E 0)"
  let ?d1 = "d\<lparr>db_members := sql_update (is_member w mid) (set_member input ?now) (db_members d)\<rparr>"
  let ?d2 = "if umi_status input = ''removed'' then revoke_member_devices w mid ?now ?d1 else ?d1"
  obtain d3 where a: "advance_epoch w ?now ?d2 = Inr (epoch, d3)"
    and b: "audit L (uuids E 0) (clock E 1) w (da_member_id auth) ''member-updated'' ''member'' mid
        (close_workspace_rooms w ?now d3) = Inr d'"
    using update_member_steps [OF tx] by blast
  have "tenant x ?d1 = tenant x d" using \<open>w \<noteq> x\<close>
    by (simp add: tenant_def frame_members set_member_def)
  moreover have "tenant x (revoke_member_devices w mid ?now ?d1) = tenant x ?d1" using \<open>w \<noteq> x\<close>
    by (simp add: tenant_def revoke_member_devices_def Let_def) (rule frame_devices, auto)
  ultimately have "tenant x ?d2 = tenant x d" by simp
  then show ?thesis using tenant_change [OF a b \<open>w \<noteq> x\<close>] by simp
next
  case (Inl e)
  then show ?thesis using assms(1) by (auto simp: update_member_def res_iff split: sum.splits)
qed

lemma tenant_revoke_device:
  assumes "revoke_device L E auth w v d = (r, d')" "x \<noteq> da_workspace_id auth"
  shows "tenant x d' = tenant x d"
proof (cases r)
  case (Inr epoch)
  then have w: "da_workspace_id auth = w" and tx: "revoke_device_tx L E auth w v d = Inr (epoch, d')"
    using assms(1) revoke_device_Inr by blast+
  then have "w \<noteq> x" using assms(2) by simp
  note steps = revoke_device_steps [OF tx]
  show ?thesis unfolding tenant_def steps(1,2,3,5)
    using \<open>w \<noteq> x\<close>
    by (simp add: frame_close_rooms frame_workspaces) (rule frame_devices, auto simp: active_device_def)
next
  case (Inl e)
  then show ?thesis using assms(1) by (auto simp: revoke_device_def res_iff split: sum.splits)
qed

lemma tenant_create_invitation:
  "create_workspace_invitation L E auth input d = (r, d') \<Longrightarrow> tenant x d' = tenant x d"
  by (auto simp: create_workspace_invitation_def Let_def insert_workspace_invitation_def constraints_def tenant_def
      split: sum.splits if_split_asm prod.splits)

lemma tenant_create_room:
  assumes "create_room L E auth input d = (r, d')" "x \<noteq> da_workspace_id auth"
  shows "tenant x d' = tenant x d"
proof (cases r)
  case (Inl e)
  then show ?thesis using assms(1) by (auto simp: create_room_def res_iff split: sum.splits)
next
  case (Inr view)
  let ?d = "delete_rooms (\<lambda>r. closed_room (da_workspace_id auth) r
      \<and> tr_id r \<notin> set (recent_rooms (da_workspace_id auth) d)) d"
  have tx: "create_room_tx L E auth input d = Inr (view, d')"
    using assms(1) Inr by (simp add: create_room_def res_iff split: sum.splits)
  then obtain room d1 row d2 where ins: "insert_room room ?d = Inr d1" and room: "tr_workspace_id room = da_workspace_id auth"
    and part: "insert_participant row d1 = Inr d2"
    and aud: "audit L (uuids E 0) (clock E 1) (da_workspace_id auth) (da_member_id auth)
                  ''terminal-room-created'' ''terminalRoom'' (cri_room_id input) d2 = Inr d'"
    unfolding create_room_tx_def Let_def by (clarsimp simp: res_iff)
  have "tenant x d2 = tenant x d1" using part by (auto simp: insert_participant_def res_iff tenant_def)
  moreover have "tenant x d1 = tenant x ?d" using ins room assms(2) by (auto simp: insert_room_def res_iff tenant_def)
  moreover have "tenant x ?d = tenant x d" using assms(2)
    by (simp add: tenant_def delete_rooms_def Let_def closed_room_def) (rule filter_sql_delete_frame, auto)
  ultimately show ?thesis using tenant_audit [OF aud] by simp
qed

lemma tenant_route_invitation:
  "route_invitation L E auth room_id i d = (r, d') \<Longrightarrow> tenant x d' = tenant x d"
  by (auto simp: route_invitation_def res_iff upsert_room_invitation_def tenant_def split: sum.splits)

lemma tenant_join_room:
  assumes "join_room L E auth room_id s = (r, s')"
  shows "tenant x (rl_db s') = tenant x (rl_db s)"
proof -
  have "tenant x d' = tenant x d" if tx: "join_room_tx L E auth room_id d = Inr (view, d')" for view d d'
  proof (rule join_room_tx_Inr [OF tx])
    fix inv :: team_terminal_invitation and d1 :: db
    let ?d2 = "d1\<lparr>db_room_invitations := sql_update
         (\<lambda>i. ri_room_id i = room_id \<and> ri_recipient_device_id i = da_device_id auth \<and> ri_accepted_at i = None)
         (\<lambda>i. i\<lparr>ri_accepted_at := Some (to_rfc3339 L (clock E 1))\<rparr>) (db_room_invitations d1)\<rparr>"
    assume up: "upsert_participant \<lparr>rp_room_id = room_id, rp_member_id = da_member_id auth,
         rp_device_id = da_device_id auth, rp_next_input_sequence = as_i64 (tti_next_input_sequence inv),
         rp_joined_at = to_rfc3339 L (clock E 1), rp_removed_at = None\<rparr> d = Inr d1"
      and aud: "audit L (uuids E 0) (clock E 2) (da_workspace_id auth) (da_member_id auth) ''terminal-room-joined''
         ''terminalRoom'' room_id ?d2 = Inr d'"
    have "tenant x d1 = tenant x d" using up by (auto simp: upsert_participant_def res_iff tenant_def)
    moreover have "tenant x ?d2 = tenant x d1" by (simp add: tenant_def)
    ultimately show "tenant x d' = tenant x d" using tenant_audit [OF aud] by simp
  qed
  then show ?thesis using join_room_db [OF assms] by (auto simp: with_tx_def split: sum.splits prod.splits)
qed

lemma tenant_leave_room:
  assumes "leave_room L E auth room_id s = (r, s')"
  shows "tenant x (rl_db s') = tenant x (rl_db s)"
  using leave_room_db [OF assms]
  by (auto simp: leave_room_tx_def Let_def res_iff dest!: tenant_audit [where x = x]) (simp_all add: tenant_def)

text \<open>A room in which a device is authorised lies in the workspace of its session.\<close>

lemma authorized_room_workspace:
  assumes "authorize_room auth room_id d = Inr view" "keys_ok d" "r \<in> set (db_rooms d)" "tr_id r = room_id"
  shows "tr_workspace_id r = da_workspace_id auth"
proof -
  obtain q where "q \<in> set (db_rooms d)" "tr_id q = room_id" "tr_workspace_id q = da_workspace_id auth"
    by (rule authorize_room_Inr [OF assms(1)])
  then show ?thesis using room_unique [OF assms(2,3)] assms(4) by metis
qed

lemma tenant_room_update:
  assumes "is_ok (authorize_room auth room_id d)" "keys_ok d" "x \<noteq> da_workspace_id auth"
    and "\<And>r. p r \<Longrightarrow> tr_id r = room_id" "\<And>r. tr_workspace_id (f r) = tr_workspace_id r"
  shows "filter (\<lambda>r. tr_workspace_id r = x) (sql_update p f (db_rooms d)) = filter (\<lambda>r. tr_workspace_id r = x) (db_rooms d)"
proof -
  obtain view where view: "authorize_room auth room_id d = Inr view" using assms(1) by (auto simp: is_ok_iff)
  have "sql_update p f rows = rows' \<Longrightarrow> filter (\<lambda>r. tr_workspace_id r = x) rows' = filter (\<lambda>r. tr_workspace_id r = x) rows"
    if "set rows \<subseteq> set (db_rooms d)" for rows rows'
    using that
  proof (induction rows arbitrary: rows')
    case (Cons r rows)
    then have "p r \<Longrightarrow> tr_workspace_id r \<noteq> x"
      using authorized_room_workspace [OF view assms(2)] assms(3,4) by auto
    then show ?case using Cons assms(5) by (auto simp: sql_update_def)
  qed (simp add: sql_update_def)
  then show ?thesis by blast
qed

lemma host_is_authorized: "is_ok (host_room auth room_id d) \<Longrightarrow> is_ok (authorize_room auth room_id d)"
  using host_room_Inr by (fastforce simp: is_ok_iff)

lemma tenant_grant_control:
  assumes "grant_control L E auth room_id input s = (r, s')" "keys_ok (rl_db s)" "x \<noteq> da_workspace_id auth"
  shows "tenant x (rl_db s') = tenant x (rl_db s)"
proof -
  consider "rl_db s' = rl_db s"
    | m out where "grant_checks auth room_id input (rl_db s) = Inr m"
        "grant_control_tx L E auth room_id input m (rl_db s) = Inr (out, rl_db s')"
    using grant_control_db [OF assms(1)] by blast
  then show ?thesis
  proof cases
    case 2
    have "is_ok (host_room auth room_id (rl_db s))" using 2(1) by (auto simp: grant_checks_def res_iff is_ok_iff)
    note au = host_is_authorized [OF this]
    obtain r d1 d2 row where d1: "d1 = (rl_db s)\<lparr>db_rooms := sql_update (open_room room_id)
             (\<lambda>r. r\<lparr>tr_lease_generation := tr_lease_generation r + 1\<rparr>) (db_rooms (rl_db s))\<rparr>"
      and u: "upsert_lease row d1 = Inr d2"
      and a: "audit L (uuids E 1) (clock E 1) (da_workspace_id auth) (da_member_id auth)
       ''terminal-control-granted'' ''device'' (gci_device_id input) d2 = Inr (rl_db s')"
      by (rule grant_control_tx_Inr [OF 2(2)])
    have "tenant x d1 = tenant x (rl_db s)" unfolding d1 tenant_def
      using tenant_room_update [OF au assms(2,3), of "open_room room_id"] by (simp add: open_room_def)
    moreover have "tenant x d2 = tenant x d1" using u by (auto simp: upsert_lease_def res_iff tenant_def)
    ultimately show ?thesis using tenant_audit [OF a] by simp
  qed simp
qed

lemma tenant_revoke_control:
  assumes "revoke_control L E auth room_id s = (r, s')"
  shows "tenant x (rl_db s') = tenant x (rl_db s)"
  using revoke_control_db [OF assms] by (auto dest!: tenant_audit [where x = x]) (simp add: tenant_def)

lemma tenant_close_room:
  assumes "close_room L E auth room_id s = (r, s')" "keys_ok (rl_db s)" "x \<noteq> da_workspace_id auth"
  shows "tenant x (rl_db s') = tenant x (rl_db s)"
proof -
  consider "s' = s" | "is_ok (host_room auth room_id (rl_db s))" "close_room_tx L E auth room_id (rl_db s) = Inr (rl_db s')"
    using close_room_db [OF assms(1)] by blast
  then show ?thesis
  proof cases
    case 2
    note au = host_is_authorized [OF 2(1)]
    have "filter (\<lambda>r. tr_workspace_id r = x) (sql_update (open_room room_id)
          (\<lambda>r. r\<lparr>tr_status := ''closed'', tr_closed_at := t\<rparr>) (db_rooms (rl_db s)))
        = filter (\<lambda>r. tr_workspace_id r = x) (db_rooms (rl_db s))" for t
      by (rule tenant_room_update [OF au assms(2,3)]) (simp_all add: open_room_def)
    then show ?thesis using tenant_audit [OF 2(2) [unfolded close_room_tx_def Let_def], of x]
      by (simp add: tenant_def)
  qed simp
qed

lemma end_db_relay [simp]: "rl_db (sv_relay (snd (end_db n sv r))) = snd r"
  by (simp add: end_db_def)

lemma end_relay_relay [simp]: "sv_relay (snd (end_relay n sv r)) = snd r"
  by (simp add: end_relay_def)

lemma end_read_relay [simp]: "snd (end_read n sv r) = sv"
  by (simp add: end_read_def)



section \<open>Deleting a workspace\<close>

text \<open>The rows of every table that belong to a workspace, directly or through one of its rooms or devices.\<close>

definition workspace_rows :: "string \<Rightarrow> db \<Rightarrow> nat" where
  "workspace_rows w d = sql_count (\<lambda>r. ws_id r = w) (db_workspaces d)
     + sql_count (\<lambda>m. mem_workspace_id m = w) (db_members d)
     + sql_count (\<lambda>v. dev_workspace_id v = w) (db_devices d)
     + sql_count (\<lambda>i. wi_workspace_id i = w) (db_workspace_invitations d)
     + sql_count (\<lambda>r. tr_workspace_id r = w) (db_rooms d)
     + sql_count (\<lambda>a. ar_workspace_id a = w) (db_audit_rows d)"

lemma sql_count_delete_self [simp]: "sql_count p (sql_delete q rows) = 0" if "\<And>r. p r \<Longrightarrow> q r"
  using that by (auto simp: sql_count_def sql_delete_def filter_empty_conv)

text \<open>Deleting a workspace is permitted to an owner of that workspace only and is complete: afterwards no
  table holds a row of the workspace, no reference dangles, and no device session reaches it any more.\<close>

theorem delete_workspace_complete:
  assumes "delete_workspace auth w d = (Inr (), d')"
  shows "da_workspace_id auth = w \<and> da_role auth = ''owner'' \<and> workspace_rows w d' = 0 \<and> refs_ok d'
    \<and> (\<forall>L t tok a. authenticate_device L t tok d' = Inr a \<longrightarrow> da_workspace_id a \<noteq> w)"
proof -
  have who: "da_workspace_id auth = w" "da_role auth = ''owner''" and d': "d' = cascade_delete w d" "refs_ok d'"
    using assms by (auto simp: delete_workspace_def delete_workspace_row_def Let_def split: if_split_asm)
  have rows: "workspace_rows w d' = 0"
    unfolding d'(1) workspace_rows_def cascade_delete_def Let_def by simp
  have "da_workspace_id a \<noteq> w" if auth: "authenticate_device L t tok d' = Inr a" for L t tok a
  proof
    assume "da_workspace_id a = w"
    then obtain v where "v \<in> set (db_devices d')" "dev_workspace_id v = w"
      using authenticate_device_Inr [OF auth] by auto
    then have "0 < sql_count (\<lambda>v. dev_workspace_id v = w) (db_devices d')"
      by (auto simp: sql_count_def filter_empty_conv)
    then show False using rows by (simp add: workspace_rows_def)
  qed
  then show ?thesis using who d'(2) rows by blast
qed

theorem delete_workspace_complete_witness:
  "delete_workspace owner_auth ''w1'' sample_db = (Inr (), cascade_delete ''w1'' sample_db)
    \<and> workspace_rows ''w1'' (cascade_delete ''w1'' sample_db) = 0 \<and> 0 < workspace_rows ''w1'' sample_db"
proof -
  have d: "delete_workspace owner_auth ''w1'' sample_db = (Inr (), cascade_delete ''w1'' sample_db)" by code_simp
  moreover have "0 < workspace_rows ''w1'' sample_db" by code_simp
  ultimately show ?thesis using delete_workspace_complete [OF d] by blast
qed

section \<open>Runs of the relay\<close>

text \<open>
  The server with the sockets whose loops run. A step is one request, one handshake, or one turn of the loop
  of one socket; a socket whose loop ends leaves in the same step.
\<close>

record system =
  sy_server :: server
  sy_sockets :: "socket list"

definition initial :: "bool \<Rightarrow> system" where
  "initial require_email = \<lparr>sy_server = \<lparr>sv_relay = new_relay empty_db, sv_metrics = new_metrics,
     sv_require_email = require_email, sv_shutdown = False\<rparr>, sy_sockets = []\<rparr>"

definition with_relay :: "relay \<times> metrics \<Rightarrow> system \<Rightarrow> system" where
  "with_relay sm y = y\<lparr>sy_server := (sy_server y)\<lparr>sv_relay := fst sm, sv_metrics := snd sm\<rparr>\<rparr>"

definition relay_of :: "system \<Rightarrow> relay" where
  "relay_of y = sv_relay (sy_server y)"

definition remove_at :: "nat \<Rightarrow> 'a list \<Rightarrow> 'a list" where
  "remove_at i xs = take i xs @ drop (Suc i) xs"

definition settle :: "nat \<Rightarrow> socket \<Rightarrow> relay \<Rightarrow> system \<Rightarrow> system" where
  "settle i k s y =
     (let mt = sv_metrics (sy_server y); others = remove_at i (sy_sockets y)
      in if sk_open k then (with_relay (s, mt) y)\<lparr>sy_sockets := (sy_sockets y)[i := k]\<rparr>
         else (with_relay (end_socket others k (s, mt)) y)\<lparr>sy_sockets := others\<rparr>)"

inductive system_step :: "system \<Rightarrow> system \<Rightarrow> bool" where
  request: "system_step y (y\<lparr>sy_server := snd (handle L E mail h rq (sy_server y))\<rparr>)"
| refuse: "open_socket L E sink (sv_shutdown (sy_server y)) tok room_id after_sequence
      (relay_of y, sv_metrics (sy_server y)) = (k, sm) \<Longrightarrow> (case k of None \<Rightarrow> True | Some k \<Rightarrow> \<not> sk_open k)
    \<Longrightarrow> system_step y (with_relay sm y)"
| connect: "open_socket L E sink (sv_shutdown (sy_server y)) tok room_id after_sequence
      (relay_of y, sv_metrics (sy_server y)) = (Some k, sm) \<Longrightarrow> sk_open k
    \<Longrightarrow> system_step y ((with_relay sm y)\<lparr>sy_sockets := sy_sockets y @ [k]\<rparr>)"
| incoming: "i < length (sy_sockets y)
    \<Longrightarrow> on_incoming L E sink m (sy_sockets y ! i, relay_of y) = (k, s)
    \<Longrightarrow> system_step y (settle i k s y)"
| broadcast: "i < length (sy_sockets y)
    \<Longrightarrow> system_step y (settle i (on_broadcast L t sink (relay_of y) (sy_sockets y ! i)) (relay_of y) y)"
| told: "i < length (sy_sockets y)
    \<Longrightarrow> system_step y (settle i (on_shutdown sink (sv_shutdown (sy_server y)) (sy_sockets y ! i)) (relay_of y) y)"
| stop: "system_step y (y\<lparr>sy_server := shutdown (sy_server y)\<rparr>)"

inductive reachable :: "system \<Rightarrow> bool" where
  start: "reachable (initial require_email)"
| step: "reachable y \<Longrightarrow> system_step y y' \<Longrightarrow> reachable y'"

definition system_ok :: "system \<Rightarrow> bool" where
  "system_ok y \<longleftrightarrow> keys_ok (rl_db (relay_of y)) \<and> (\<forall>k \<in> set (sy_sockets y). sk_open k)
     \<and> mt_websocket_active (sv_metrics (sy_server y)) = of_nat (length (sy_sockets y))"

lemma end_relay_metrics [simp]: "sv_metrics (snd (end_relay n sv r)) = sv_metrics sv"
  "sv_metrics (snd (end_db n sv r')) = sv_metrics sv"
  by (simp_all add: end_relay_def end_db_def)

lemma active_simps [simp]:
  "mt_websocket_active (record_http n m) = mt_websocket_active m"
  "mt_websocket_active (record_readiness b m) = mt_websocket_active m"
  by (simp_all add: record_http_def record_readiness_def Let_def)

lemma handle_active [simp]: "mt_websocket_active (sv_metrics (snd (handle L E mail h rq sv))) = mt_websocket_active (sv_metrics sv)"
  by (cases rq) (simp_all add: finish_def track_http_def health_def readiness_def prometheus_metrics_def Let_def
    h_register_account_def h_login_def h_verify_email_def h_resend_verification_email_def h_bootstrap_workspace_def
    h_accept_workspace_invitation_def handler_defs h_create_device_challenge_def h_create_device_session_def
    with_account_split with_device_split terminal_socket_split split: sum.split prod.split option.split)

lemmas db_ops_keys = login_keys verify_email_keys resend_keys register_account_keys bootstrap_workspace_keys
  create_workspace_invitation_keys accept_workspace_invitation_keys delete_workspace_keys update_member_keys
  revoke_device_keys create_device_challenge_keys create_device_session_keys create_room_keys route_invitation_keys

lemmas relay_ops_keys = join_room_keys leave_room_keys grant_control_keys revoke_control_keys close_room_keys

lemma handle_keys:
  assumes "keys_ok (rl_db (sv_relay sv))"
  shows "keys_ok (rl_db (sv_relay (snd (handle L E mail h rq sv))))"
proof (cases rq)
  case (RqRegister input)
  obtain r d where "register_account L E input (sv_require_email sv) (sv_db sv) = (r, d)" by fastforce
  then show ?thesis using RqRegister register_account_keys assms
    by (cases r) (auto simp: h_register_account_def sv_db_def split: prod.split)
next
  case (RqResend email)
  obtain r d where "resend_verification_email L E email (sv_db sv) = (r, d)" by fastforce
  then show ?thesis using RqResend resend_keys assms
    by (cases r) (auto simp: h_resend_verification_email_def sv_db_def)
qed (use assms db_ops_keys [OF prod.collapse [symmetric]] relay_ops_keys [OF prod.collapse [symmetric]] in
  \<open>simp_all add: health_def readiness_def prometheus_metrics_def Let_def h_login_def h_verify_email_def
     h_bootstrap_workspace_def h_accept_workspace_invitation_def handler_defs h_create_device_challenge_def
     h_create_device_session_def with_account_split with_device_split terminal_socket_split sv_db_def split: sum.split\<close>)

lemma open_socket_keys:
  "open_socket L E sink shut tok room_id n (s, mt) = (k, sm) \<Longrightarrow> rl_db (fst sm) = rl_db s"
  by (auto simp: open_socket_def Let_def sender_db split: if_splits sum.splits prod.splits option.splits)

lemma open_socket_active:
  "open_socket L E sink shut tok room_id n (s, mt) = (k, sm) \<Longrightarrow>
    mt_websocket_active (snd sm) = mt_websocket_active mt + (case k of None \<Rightarrow> 0 | Some k \<Rightarrow> if sk_open k then 1 else 0)"
  by (auto simp: open_socket_def Let_def close_socket_def websocket_balance begin_websocket_def end_websocket_def
      split: if_splits sum.splits prod.splits option.splits)

lemma accept_text_keys: "accept_text L E auth text s = (r, s') \<Longrightarrow> keys_ok (rl_db s) \<Longrightarrow> keys_ok (rl_db s')"
  by (auto simp: accept_text_def process_frame_keys split: option.splits client_socket_message.splits prod.splits sum.splits)

lemma on_text_keys: "on_text L E sink text (k, s) = (k', s') \<Longrightarrow> keys_ok (rl_db s) \<Longrightarrow> keys_ok (rl_db s')"
  by (auto simp: on_text_def Let_def accept_text_keys split: sum.splits prod.splits)

lemma on_incoming_keys: "on_incoming L E sink m (k, s) = (k', s') \<Longrightarrow> keys_ok (rl_db s) \<Longrightarrow> keys_ok (rl_db s')"
  by (auto simp: on_incoming_def Let_def on_text_keys split: option.splits incoming.splits if_splits sum.splits)

lemma remove_at_length: "i < length xs \<Longrightarrow> length xs = Suc (length (remove_at i xs))"
  by (simp add: remove_at_def)

lemma remove_at_set: "set (remove_at i xs) \<subseteq> set xs"
  by (auto simp: remove_at_def dest: in_set_takeD in_set_dropD)

lemma settle_ok:
  assumes "system_ok y" "i < length (sy_sockets y)" "keys_ok (rl_db s)"
  shows "system_ok (settle i k s y)"
proof (cases "sk_open k")
  case True
  then show ?thesis using assms
    by (auto simp: system_ok_def settle_def with_relay_def relay_of_def dest: set_update_subset_insert [THEN subsetD])
next
  case False
  have "length (sy_sockets y) = Suc (length (remove_at i (sy_sockets y)))" by (rule remove_at_length [OF assms(2)])
  then show ?thesis using assms False remove_at_set [of i "sy_sockets y"]
    by (auto simp: system_ok_def settle_def with_relay_def relay_of_def end_socket_def end_websocket_def Let_def)
qed

lemma initial_ok: "system_ok (initial e)"
  by (simp add: system_ok_def initial_def relay_of_def new_relay_def new_metrics_def empty_db_def keys_ok_def)

lemma step_ok: "system_step y y' \<Longrightarrow> system_ok y \<Longrightarrow> system_ok y'"
proof (induction rule: system_step.induct)
  case (request y L E mail h rq)
  then show ?case by (simp add: system_ok_def relay_of_def handle_keys)
next
  case (refuse L E sink y tok room_id after k sm)
  then show ?case using open_socket_keys [OF refuse(1)] open_socket_active [OF refuse(1)]
    by (auto simp: system_ok_def relay_of_def with_relay_def split: option.splits)
next
  case (connect L E sink y tok room_id after k sm)
  then show ?case using open_socket_keys [OF connect(1)] open_socket_active [OF connect(1)]
    by (auto simp: system_ok_def relay_of_def with_relay_def)
next
  case (incoming i y L E sink m k s)
  then show ?case using on_incoming_keys [OF incoming(2)] settle_ok [of y i s] by (simp add: system_ok_def)
next
  case (broadcast i y L t sink)
  then show ?case using settle_ok [of y i "relay_of y"] by (simp add: system_ok_def)
next
  case (told i y sink)
  then show ?case using settle_ok [of y i "relay_of y"] by (simp add: system_ok_def)
next
  case (stop y)
  then show ?case by (simp add: system_ok_def relay_of_def shutdown_def)
qed

text \<open>C8: In every state that requests, handshakes, socket traffic and shutdown can reach from an empty database,
  the uniqueness constraints of the schema hold, and the gauge of active WebSockets equals the number of
  sockets whose loops run.\<close>

theorem reachable_ok:
  assumes "reachable y"
  shows "keys_ok (rl_db (relay_of y))
    \<and> mt_websocket_active (sv_metrics (sy_server y)) = of_nat (length (sy_sockets y))"
proof -
  have "system_ok y" using assms by induction (auto intro: initial_ok step_ok)
  then show ?thesis by (simp add: system_ok_def)
qed

theorem reachable_ok_witness:
  "mt_websocket_active (sv_metrics (snd (handle sample_libs sample_env (\<lambda>_. Inr ())
      \<lparr>hd_authorization = None, hd_confirm_workspace = None\<rparr> RqHealth (sy_server (initial True))))) = 0"
  using reachable_ok [OF step [OF start [of True] request
      [where L = sample_libs and E = sample_env and mail = "\<lambda>_. Inr ()" and rq = RqHealth
        and h = "\<lparr>hd_authorization = None, hd_confirm_workspace = None\<rparr>"]]]
  by (simp add: initial_def)

end
