(* ===== verification/RelayConfig.thy ===== *)
theory RelayConfig
  imports RelayModels
begin

text \<open>
  How the relay decides to start (\<open>services/team-relay/src/main.rs\<close> and \<open>email.rs\<close>): the bind
  address, the SMTP settings with the password file, and the registration mode. The environment,
  the file system and the parsers of \<open>lettre\<close> and \<open>std::net\<close> are parameters.
\<close>

datatype config_error =
    MissingHost | MissingFrom | InvalidFrom | InvalidSecurity | InvalidHost | InvalidPort
  | IncompleteCredentials | ExclusivePasswords | InvalidPasswordFile | EmptyPasswordFile
  | InvalidAddress | RefusedBind | RefusedUnverified

record file_meta =
  fm_is_symlink :: bool
  fm_is_file :: bool
  fm_len :: nat

record host =
  env_var :: "string \<Rightarrow> string option"
  symlink_metadata :: "string \<Rightarrow> file_meta option"
  read_to_string :: "string \<Rightarrow> string option"
  mailbox_ok :: "string \<Rightarrow> bool"
  relay_host_ok :: "string \<Rightarrow> string \<Rightarrow> bool"
  parse_address :: "string \<Rightarrow> bool option"

text \<open>\<open>parse_address\<close> answers whether a well-formed socket address is a loopback address.\<close>

record smtp_sender =
  sm_host :: string
  sm_security :: string
  sm_port :: nat
  sm_credentials :: "(string \<times> string) option"
  sm_from :: string

datatype registration_mode = TrustedLocal | RequireEmail smtp_sender

definition optional_env :: "host \<Rightarrow> string \<Rightarrow> string option" where
  "optional_env H name = (case env_var H name of None \<Rightarrow> None
     | Some v \<Rightarrow> (if str_trim v = [] then None else Some (str_trim v)))"

definition trim_end_newlines :: "string \<Rightarrow> string" where
  "trim_end_newlines s = rev (dropWhile (\<lambda>c. c = CHR 0x0D \<or> c = CHR 0x0A) (rev s))"

definition read_password_file :: "host \<Rightarrow> string \<Rightarrow> config_error + string option" where
  "read_password_file H path =
     rbind (guard (length path \<le> 4096) InvalidPasswordFile) (\<lambda>_.
     rbind (guard (take 1 path = ''/'') InvalidPasswordFile) (\<lambda>_.
     rbind (ok_or (symlink_metadata H path) InvalidPasswordFile) (\<lambda>m.
     rbind (guard (\<not> (fm_is_symlink m \<or> \<not> fm_is_file m \<or> 4096 < fm_len m)) InvalidPasswordFile) (\<lambda>_.
     rbind (ok_or (read_to_string H path) InvalidPasswordFile) (\<lambda>v.
     rbind (guard (trim_end_newlines v \<noteq> []) EmptyPasswordFile) (\<lambda>_.
     Inr (Some (trim_end_newlines v))))))))"

definition smtp_password :: "host \<Rightarrow> config_error + string option" where
  "smtp_password H =
     (case (case env_var H ''CNSHELL_RELAY_SMTP_PASSWORD'' of Some [] \<Rightarrow> None | v \<Rightarrow> v,
            optional_env H ''CNSHELL_RELAY_SMTP_PASSWORD_FILE'') of
        (Some _, Some _) \<Rightarrow> Inl ExclusivePasswords
      | (Some v, None) \<Rightarrow> Inr (Some v)
      | (None, Some path) \<Rightarrow> read_password_file H path
      | (None, None) \<Rightarrow> Inr None)"

text \<open>\<open>str::parse::<u16>()\<close>: an optional plus sign and at least one decimal digit.\<close>

definition is_digit :: "char \<Rightarrow> bool" where
  "is_digit c \<longleftrightarrow> 48 \<le> (of_char c :: nat) \<and> (of_char c :: nat) \<le> 57"

definition digits_value :: "string \<Rightarrow> nat" where
  "digits_value s = foldl (\<lambda>n c. 10 * n + (of_char c - 48)) 0 s"

definition parse_u16 :: "string \<Rightarrow> nat option" where
  "parse_u16 s = (let ds = (case s of c # cs \<Rightarrow> if c = CHR ''+'' then cs else s | [] \<Rightarrow> [])
     in if ds \<noteq> [] \<and> list_all is_digit ds \<and> digits_value ds \<le> 65535 then Some (digits_value ds) else None)"

definition smtp_variables :: "string list" where
  "smtp_variables = [''CNSHELL_RELAY_SMTP_HOST'', ''CNSHELL_RELAY_SMTP_PORT'',
     ''CNSHELL_RELAY_SMTP_SECURITY'', ''CNSHELL_RELAY_SMTP_FROM'', ''CNSHELL_RELAY_SMTP_USERNAME'',
     ''CNSHELL_RELAY_SMTP_PASSWORD'', ''CNSHELL_RELAY_SMTP_PASSWORD_FILE'']"

definition smtp_configured :: "host \<Rightarrow> bool" where
  "smtp_configured H = list_ex (\<lambda>n. optional_env H n \<noteq> None) smtp_variables"

definition smtp_security :: "host \<Rightarrow> string" where
  "smtp_security H = to_ascii_lowercase (case optional_env H ''CNSHELL_RELAY_SMTP_SECURITY'' of
     None \<Rightarrow> ''tls'' | Some v \<Rightarrow> v)"

definition smtp_port :: "host \<Rightarrow> config_error + nat" where
  "smtp_port H = (case optional_env H ''CNSHELL_RELAY_SMTP_PORT'' of
     None \<Rightarrow> Inr (if smtp_security H = ''starttls'' then 587 else 465)
   | Some v \<Rightarrow> ok_or (parse_u16 v) InvalidPort)"

definition smtp_credentials :: "host \<Rightarrow> string option \<Rightarrow> config_error + (string \<times> string) option" where
  "smtp_credentials H password = (case (optional_env H ''CNSHELL_RELAY_SMTP_USERNAME'', password) of
     (Some u, Some p) \<Rightarrow> Inr (Some (u, p))
   | (None, None) \<Rightarrow> Inr None
   | _ \<Rightarrow> Inl IncompleteCredentials)"

definition from_env :: "host \<Rightarrow> config_error + smtp_sender option" where
  "from_env H =
     (if \<not> smtp_configured H then Inr None
      else rbind (ok_or (optional_env H ''CNSHELL_RELAY_SMTP_HOST'') MissingHost) (\<lambda>hostname.
        rbind (ok_or (optional_env H ''CNSHELL_RELAY_SMTP_FROM'') MissingFrom) (\<lambda>from_address.
        rbind (guard (mailbox_ok H from_address) InvalidFrom) (\<lambda>_.
        rbind (guard (smtp_security H = ''tls'' \<or> smtp_security H = ''starttls'') InvalidSecurity) (\<lambda>_.
        rbind (guard (relay_host_ok H (smtp_security H) hostname) InvalidHost) (\<lambda>_.
        rbind (smtp_port H) (\<lambda>port.
        rbind (smtp_password H) (\<lambda>password.
        rbind (smtp_credentials H password) (\<lambda>credentials.
        Inr (Some \<lparr>sm_host = hostname, sm_security = smtp_security H, sm_port = port,
                   sm_credentials = credentials, sm_from = from_address\<rparr>))))))))))"

definition flag_set :: "host \<Rightarrow> string \<Rightarrow> bool" where
  "flag_set H name \<longleftrightarrow> env_var H name = Some ''1''"

text \<open>The part of \<open>main\<close> before the store is opened: the address and the registration mode.\<close>

definition startup :: "host \<Rightarrow> config_error + (string \<times> registration_mode)" where
  "startup H =
     (let bind_address = (case env_var H ''CNSHELL_RELAY_BIND'' of None \<Rightarrow> ''127.0.0.1:8787'' | Some v \<Rightarrow> v)
      in rbind (ok_or (parse_address H bind_address) InvalidAddress) (\<lambda>loopback.
         rbind (guard (\<not> (\<not> loopback \<and> \<not> flag_set H ''CNSHELL_RELAY_BEHIND_TLS_PROXY'')) RefusedBind) (\<lambda>_.
         rbind (from_env H) (\<lambda>configured.
         (case configured of
            Some mail \<Rightarrow> Inr (bind_address, RequireEmail mail)
          | None \<Rightarrow> (if loopback \<or> flag_set H ''CNSHELL_RELAY_ALLOW_UNVERIFIED_ACCOUNTS''
                     then Inr (bind_address, TrustedLocal) else Inl RefusedUnverified))))))"

section \<open>Properties\<close>

lemma read_password_file_nonempty: "read_password_file H path = Inr (Some v) \<Longrightarrow> v \<noteq> []"
  by (simp add: read_password_file_def res_iff) metis

lemma smtp_password_nonempty:
  assumes "smtp_password H = Inr (Some v)"
  shows "v \<noteq> []"
proof (cases "case env_var H ''CNSHELL_RELAY_SMTP_PASSWORD'' of Some [] \<Rightarrow> None | v \<Rightarrow> v")
  case None
  then show ?thesis using assms
    by (cases "optional_env H ''CNSHELL_RELAY_SMTP_PASSWORD_FILE''")
      (simp_all add: smtp_password_def read_password_file_nonempty)
next
  case (Some w)
  then have "w \<noteq> []" by (auto split: option.splits list.splits)
  then show ?thesis using assms Some
    by (cases "optional_env H ''CNSHELL_RELAY_SMTP_PASSWORD_FILE''") (simp_all add: smtp_password_def)
qed

lemma optional_env_nonempty: "optional_env H name = Some v \<Longrightarrow> v \<noteq> []"
  by (auto simp: optional_env_def split: option.splits if_splits)

lemma parse_u16_bound: "parse_u16 s = Some n \<Longrightarrow> n \<le> 65535"
  by (simp add: parse_u16_def Let_def split: if_splits)

text \<open>What the sender of a successful configuration looks like.\<close>

definition sender_ok :: "host \<Rightarrow> smtp_sender \<Rightarrow> bool" where
  "sender_ok H m \<longleftrightarrow> (sm_security m = ''tls'' \<or> sm_security m = ''starttls'') \<and> sm_port m \<le> 65535
     \<and> mailbox_ok H (sm_from m) \<and> relay_host_ok H (sm_security m) (sm_host m)
     \<and> (case sm_credentials m of None \<Rightarrow> True | Some (u, p) \<Rightarrow> u \<noteq> [] \<and> p \<noteq> [])"

lemma smtp_port_bound: "smtp_port H = Inr port \<Longrightarrow> port \<le> 65535"
  by (auto simp: smtp_port_def res_iff parse_u16_bound split: option.splits if_split_asm)

lemma smtp_credentials_nonempty:
  "smtp_credentials H password = Inr (Some (u, p)) \<Longrightarrow> smtp_password H = Inr password \<Longrightarrow> u \<noteq> [] \<and> p \<noteq> []"
  using smtp_password_nonempty [of H] optional_env_nonempty
  by (cases "optional_env H ''CNSHELL_RELAY_SMTP_USERNAME''"; cases password)
    (auto simp: smtp_credentials_def)

lemma from_env_sender:
  assumes "from_env H = Inr (Some m)"
  shows "sender_ok H m"
proof -
  have "smtp_configured H" using assms by (auto simp: from_env_def split: if_split_asm)
  then show ?thesis using assms
    by (auto simp: from_env_def res_iff sender_ok_def smtp_port_bound
        split: option.split dest: smtp_credentials_nonempty)
qed

text \<open>The relay that starts listens on a loopback address unless the operator declared a TLS
  proxy in front of it; it trusts unverified accounts only on a loopback address or by an explicit
  flag, and only when no SMTP setting is present; otherwise it has a usable encrypted SMTP sender.\<close>

theorem startup_secure:
  assumes "startup H = Inr (addr, mode)"
  shows "(parse_address H addr = Some True \<or> flag_set H ''CNSHELL_RELAY_BEHIND_TLS_PROXY'')
    \<and> (case mode of
         TrustedLocal \<Rightarrow> \<not> smtp_configured H
           \<and> (parse_address H addr = Some True \<or> flag_set H ''CNSHELL_RELAY_ALLOW_UNVERIFIED_ACCOUNTS'')
       | RequireEmail m \<Rightarrow> sender_ok H m)"
proof -
  obtain loopback configured where addr: "parse_address H addr = Some loopback"
      "loopback \<or> flag_set H ''CNSHELL_RELAY_BEHIND_TLS_PROXY''"
    and conf: "from_env H = Inr configured"
    and mode: "(case configured of Some mail \<Rightarrow> Inr (addr, RequireEmail mail)
       | None \<Rightarrow> (if loopback \<or> flag_set H ''CNSHELL_RELAY_ALLOW_UNVERIFIED_ACCOUNTS''
                 then Inr (addr, TrustedLocal) else Inl RefusedUnverified)) = Inr (addr, mode)"
    using assms by (auto simp: startup_def Let_def res_iff split: option.splits if_split_asm)
  show ?thesis
  proof (cases configured)
    case None
    then have "\<not> smtp_configured H" using conf by (auto simp: from_env_def res_iff split: if_split_asm)
    then show ?thesis using addr mode None by (auto split: if_split_asm)
  next
    case (Some m)
    then show ?thesis using addr mode conf by (auto dest: from_env_sender)
  qed
qed

definition sample_host :: "(string \<times> string) list \<Rightarrow> host" where
  "sample_host vars = \<lparr>env_var = map_of vars, symlink_metadata = \<lambda>_. None, read_to_string = \<lambda>_. None,
     mailbox_ok = \<lambda>s. CHR ''@'' \<in> set s, relay_host_ok = \<lambda>_ h. h \<noteq> [],
     parse_address = \<lambda>a. Some (take 4 a = ''127.'')\<rparr>"

theorem startup_secure_witness:
  "flag_set (sample_host [(''CNSHELL_RELAY_BIND'', ''0.0.0.0:80''), (''CNSHELL_RELAY_BEHIND_TLS_PROXY'', ''1''),
     (''CNSHELL_RELAY_SMTP_HOST'', ''mx''), (''CNSHELL_RELAY_SMTP_FROM'', ''a@b'')])
     ''CNSHELL_RELAY_BEHIND_TLS_PROXY''
   \<and> sender_ok (sample_host [(''CNSHELL_RELAY_BIND'', ''0.0.0.0:80''), (''CNSHELL_RELAY_BEHIND_TLS_PROXY'', ''1''),
     (''CNSHELL_RELAY_SMTP_HOST'', ''mx''), (''CNSHELL_RELAY_SMTP_FROM'', ''a@b'')])
     \<lparr>sm_host = ''mx'', sm_security = ''tls'', sm_port = 465, sm_credentials = None, sm_from = ''a@b''\<rparr>"
proof -
  let ?H = "sample_host [(''CNSHELL_RELAY_BIND'', ''0.0.0.0:80''), (''CNSHELL_RELAY_BEHIND_TLS_PROXY'', ''1''),
     (''CNSHELL_RELAY_SMTP_HOST'', ''mx''), (''CNSHELL_RELAY_SMTP_FROM'', ''a@b'')]"
  have "startup ?H = Inr (''0.0.0.0:80'', RequireEmail
     \<lparr>sm_host = ''mx'', sm_security = ''tls'', sm_port = 465, sm_credentials = None, sm_from = ''a@b''\<rparr>)"
    by code_simp
  moreover have "parse_address ?H ''0.0.0.0:80'' = Some False" by code_simp
  ultimately show ?thesis using startup_secure [of ?H] by simp
qed

end
