(* ===== verification/DeskBase.thy ===== *)
theory DeskBase
  imports Prelude "HOL-Library.Word"
begin

unbundle bit_operations_syntax

text \<open>
  What the theories of the desktop application (\<open>src-tauri/src\<close>) share: its error type
  (\<open>error.rs\<close>), bytes and their strings, operations that change a state and may fail, and the locale
  of stream filters, the parsers that are fed the chunks a socket happens to deliver.
\<close>

section \<open>Errors\<close>

datatype app_error =
    NotFound
  | Validation
  | HostKeyUnknown string string
  | HostKeyChanged string string
  | Authentication
  | PermissionDenied
  | Remote
  | Storage
  | Unavailable
  | Internal

type_synonym 'a app_result = "app_error + 'a"

text \<open>The code and the fingerprint that the frontend receives for an error.\<close>

fun error_payload :: "app_error \<Rightarrow> string \<times> string option \<times> string option" where
  "error_payload NotFound = (''not_found'', None, None)"
| "error_payload Validation = (''validation'', None, None)"
| "error_payload (HostKeyUnknown fingerprint algorithm) = (''host_key_unknown'', Some fingerprint, Some algorithm)"
| "error_payload (HostKeyChanged expected actual) = (''host_key_changed'', None, None)"
| "error_payload Authentication = (''authentication'', None, None)"
| "error_payload PermissionDenied = (''permission_denied'', None, None)"
| "error_payload Remote = (''remote'', None, None)"
| "error_payload Storage = (''storage'', None, None)"
| "error_payload Unavailable = (''unavailable'', None, None)"
| "error_payload Internal = (''internal'', None, None)"

text \<open>The kinds of \<open>io::Error\<close> that the protocols create; \<open>OtherIo\<close> stands for the operating system's.\<close>

datatype io_error = InvalidInput | InvalidData | TimedOut | ConnectionAborted | FileTooLarge | AlreadyExists
  | UnexpectedEof | OtherIo

section \<open>Bytes\<close>

type_synonym u8 = "8 word"
type_synonym u16 = "16 word"
type_synonym u32 = "32 word"

definition bytes_of :: "string \<Rightarrow> u8 list" where
  "bytes_of s = map (\<lambda>c. word_of_nat (of_char c)) s"

definition string_of :: "u8 list \<Rightarrow> string" where
  "string_of bs = map (\<lambda>b. char_of (unat b)) bs"

lemma string_of_bytes_of [simp]: "string_of (bytes_of s) = s"
proof -
  have "(char_of (unat (word_of_nat (of_char c) :: u8)) :: char) = c" for c
    using nat_of_char_less_256 [of c] by (simp add: unat_of_nat)
  then show ?thesis by (simp add: string_of_def bytes_of_def map_idI)
qed

lemma length_bytes_of [simp]: "length (bytes_of s) = length s"
  by (simp add: bytes_of_def)

text \<open>\<open>String::from_utf8\<close> and \<open>str::from_utf8\<close>.\<close>

definition from_utf8 :: "u8 list \<Rightarrow> string option" where
  "from_utf8 bs = (if utf8_valid (map unat bs) then Some (string_of bs) else None)"

text \<open>
  \<open>String::from_utf8_lossy\<close>: \<open>utf8_step\<close> tells whether a scalar value starts the bytes, and how many
  bytes it or the longest beginning of one has; what is no scalar value becomes U+FFFD.
\<close>

definition cont :: "nat \<Rightarrow> bool" where
  "cont b \<longleftrightarrow> 128 \<le> b \<and> b < 192"

fun utf8_step :: "nat list \<Rightarrow> bool \<times> nat" where
  "utf8_step [] = (False, 1)"
| "utf8_step (a # as) =
     (if a < 128 then (True, 1)
      else if 194 \<le> a \<and> a \<le> 223 then (case as of b # _ \<Rightarrow> if cont b then (True, 2) else (False, 1) | [] \<Rightarrow> (False, 1))
      else if 224 \<le> a \<and> a \<le> 239 then
        (case as of b # bs \<Rightarrow>
           if (if a = 224 then 160 else 128) \<le> b \<and> b < (if a = 237 then 160 else 192)
           then (case bs of c # _ \<Rightarrow> if cont c then (True, 3) else (False, 2) | [] \<Rightarrow> (False, 2))
           else (False, 1) | [] \<Rightarrow> (False, 1))
      else if 240 \<le> a \<and> a \<le> 244 then
        (case as of b # bs \<Rightarrow>
           if (if a = 240 then 144 else 128) \<le> b \<and> b < (if a = 244 then 144 else 192)
           then (case bs of c # cs \<Rightarrow>
               if cont c then (case cs of d # _ \<Rightarrow> if cont d then (True, 4) else (False, 3) | [] \<Rightarrow> (False, 3))
               else (False, 2) | [] \<Rightarrow> (False, 2))
           else (False, 1) | [] \<Rightarrow> (False, 1))
      else (False, 1))"

lemma utf8_step_pos: "0 < snd (utf8_step bs)"
  by (cases bs) (auto split: list.split)

function from_utf8_lossy :: "u8 list \<Rightarrow> string" where
  "from_utf8_lossy bs =
     (if bs = [] then []
      else (let (valid, n) = utf8_step (map unat bs)
            in (if valid then string_of (take n bs) else map char_of [239 :: nat, 191, 189]) @ from_utf8_lossy (drop n bs)))"
  by pat_completeness auto
termination
proof (relation "measure length")
  fix bs :: "u8 list" and x valid n
  assume "bs \<noteq> []" "x = utf8_step (map unat bs)" "(valid, n) = x"
  then show "(drop n bs, bs) \<in> measure length"
    using utf8_step_pos [of "map unat bs"] by (cases bs) (auto dest: sym)
qed simp

declare from_utf8_lossy.simps [simp del]

lemma utf8_valid_step:
  assumes "utf8_valid bs" "bs \<noteq> []"
  shows "fst (utf8_step bs)" "utf8_valid (drop (snd (utf8_step bs)) bs)"
proof -
  obtain a as where bs: "bs = a # as" using assms(2) by (cases bs) auto
  note unfold = utf8_valid.simps(2) [of a as] utf8_step.simps(2) [of a as]
  have valid: "utf8_valid (a # as)" using assms(1) bs by simp
  consider "a < 128" | "194 \<le> a" "a \<le> 223" | "224 \<le> a" "a \<le> 239" | "240 \<le> a" "a \<le> 244" | "128 \<le> a" "a < 194" | "244 < a"
    by linarith
  then have "fst (utf8_step bs) \<and> utf8_valid (drop (snd (utf8_step bs)) bs)"
  proof cases
    case 2
    then show ?thesis using valid unfolding bs unfold
      by (auto simp del: utf8_valid.simps utf8_step.simps simp: cont_def split: list.splits if_split_asm)
  next
    case 3
    then show ?thesis using valid unfolding bs unfold
      by (auto simp del: utf8_valid.simps utf8_step.simps simp: cont_def split: list.splits if_split_asm)
  next
    case 4
    then show ?thesis using valid unfolding bs unfold
      by (auto simp del: utf8_valid.simps utf8_step.simps simp: cont_def split: list.splits if_split_asm)
  qed (use valid in \<open>unfold bs unfold, simp_all del: utf8_valid.simps utf8_step.simps split: list.splits\<close>)
  then show "fst (utf8_step bs)" "utf8_valid (drop (snd (utf8_step bs)) bs)" by simp_all
qed

text \<open>Valid bytes are not changed.\<close>

lemma from_utf8_lossy_valid: "utf8_valid (map unat bs) \<Longrightarrow> from_utf8_lossy bs = string_of bs"
proof (induction bs rule: from_utf8_lossy.induct)
  case (1 bs)
  show ?case
  proof (cases "bs = []")
    case False
    obtain valid n where step: "utf8_step (map unat bs) = (valid, n)" by fastforce
    have "valid" "utf8_valid (map unat (drop n bs))"
      using utf8_valid_step [of "map unat bs"] 1(2) False step by (simp_all add: drop_map)
    then have "from_utf8_lossy bs = string_of (take n bs) @ string_of (drop n bs)"
      using 1(1) [OF False step [symmetric]] False step by (subst from_utf8_lossy.simps) simp
    then show ?thesis unfolding string_of_def by (metis append_take_drop_id map_append)
  qed (simp add: from_utf8_lossy.simps string_of_def)
qed

section \<open>Operations on a state that may fail\<close>

text \<open>The effects of a failed operation stay: unlike \<open>rbind\<close> with a rolled-back transaction.\<close>

definition sreturn :: "'a \<Rightarrow> 's \<Rightarrow> ('e + 'a) \<times> 's" where
  "sreturn x s = (Inr x, s)"

definition sfail :: "'e \<Rightarrow> 's \<Rightarrow> ('e + 'a) \<times> 's" where
  "sfail e s = (Inl e, s)"

definition sbind :: "('s \<Rightarrow> ('e + 'a) \<times> 's) \<Rightarrow> ('a \<Rightarrow> 's \<Rightarrow> ('e + 'b) \<times> 's) \<Rightarrow> 's \<Rightarrow> ('e + 'b) \<times> 's" where
  "sbind m f s = (case m s of (Inl e, s') \<Rightarrow> (Inl e, s') | (Inr x, s') \<Rightarrow> f x s')"

lemma sbind_simps [simp]:
  "m s = (Inl e, s') \<Longrightarrow> sbind m f s = (Inl e, s')"
  "m s = (Inr x, s') \<Longrightarrow> sbind m f s = f x s'"
  by (simp_all add: sbind_def)

lemma sbind_Inr_iff [res_iff]: "sbind m f s = (Inr y, s'') \<longleftrightarrow> (\<exists>x s'. m s = (Inr x, s') \<and> f x s' = (Inr y, s''))"
  by (auto simp: sbind_def split: prod.split sum.split)

lemma sbind_split:
  "P (sbind m f s) \<longleftrightarrow> (\<forall>e s'. m s = (Inl e, s') \<longrightarrow> P (Inl e, s')) \<and> (\<forall>x s'. m s = (Inr x, s') \<longrightarrow> P (f x s'))"
  by (auto simp: sbind_def split: prod.split sum.split)

section \<open>Stream filters\<close>

text \<open>
  A parser that keeps a state between the chunks it is fed. The law is all a client needs to know: how the
  bytes are cut into chunks does not matter.
\<close>

primrec feed_chunks :: "('s \<Rightarrow> 'a list \<Rightarrow> 's \<times> 'b list) \<Rightarrow> 's \<Rightarrow> 'a list list \<Rightarrow> 's \<times> 'b list" where
  "feed_chunks feed s [] = (s, [])"
| "feed_chunks feed s (c # cs) = (let (s', out) = feed s c; (s'', out') = feed_chunks feed s' cs in (s'', out @ out'))"

locale stream_filter =
  fixes feed :: "'s \<Rightarrow> 'a list \<Rightarrow> 's \<times> 'b list"
  assumes feed_Nil: "feed s [] = (s, [])"
    and feed_append: "feed s (xs @ ys) = (let (s', out) = feed s xs; (s'', out') = feed s' ys in (s'', out @ out'))"
begin

lemma feed_chunks_concat: "feed_chunks feed s cs = feed s (concat cs)"
  by (induction cs arbitrary: s) (simp_all add: feed_Nil feed_append split: prod.splits)

lemma chunking_irrelevant: "concat cs = concat ds \<Longrightarrow> feed_chunks feed s cs = feed_chunks feed s ds"
  by (simp add: feed_chunks_concat)

end

end
