(* ===== verification/Telnet.thy ===== *)
theory Telnet
  imports DeskBase
begin

text \<open>
  Telnet sessions (\<open>src-tauri/src/telnet.rs\<close>): the parser that strips option negotiation from the
  received bytes, the table of sessions, and the reader thread as a run over the results of its reads.
\<close>

section \<open>The parser\<close>

datatype parser_state = Data | Iac | Negotiation u8 | Subnegotiation | SubnegotiationIac

record telnet_parser =
  tp_state :: parser_state
  tp_responses :: "u8 list"

definition new_parser :: telnet_parser where
  "new_parser = \<lparr>tp_state = Data, tp_responses = []\<rparr>"

text \<open>One byte of \<open>TelnetParser::filter\<close>: the parser it leaves and what it adds to the output.\<close>

fun filter_byte :: "telnet_parser \<Rightarrow> u8 \<Rightarrow> telnet_parser \<times> u8 list" where
  "filter_byte p byte = (case tp_state p of
     Data \<Rightarrow> (if byte = 255 then (p\<lparr>tp_state := Iac\<rparr>, []) else (p, [byte]))
   | Iac \<Rightarrow>
       (if byte = 255 then (p\<lparr>tp_state := Data\<rparr>, [255])
        else if byte = 250 then (p\<lparr>tp_state := Subnegotiation\<rparr>, [])
        else if 251 \<le> byte \<and> byte \<le> 254 then (p\<lparr>tp_state := Negotiation byte\<rparr>, [])
        else (p\<lparr>tp_state := Data\<rparr>, []))
   | Negotiation command \<Rightarrow>
       (if command = 251 then (p\<lparr>tp_responses := tp_responses p @ [255, 252, byte], tp_state := Data\<rparr>, [])
        else if command = 253 then (p\<lparr>tp_responses := tp_responses p @ [255, 254, byte], tp_state := Data\<rparr>, [])
        else (p\<lparr>tp_state := Data\<rparr>, []))
   | Subnegotiation \<Rightarrow> (if byte = 255 then (p\<lparr>tp_state := SubnegotiationIac\<rparr>, []) else (p, []))
   | SubnegotiationIac \<Rightarrow>
       (if byte = 240 then (p\<lparr>tp_state := Data\<rparr>, []) else (p\<lparr>tp_state := Subnegotiation\<rparr>, [])))"

declare filter_byte.simps [simp del]

primrec telnet_filter :: "telnet_parser \<Rightarrow> u8 list \<Rightarrow> telnet_parser \<times> u8 list" where
  "telnet_filter p [] = (p, [])"
| "telnet_filter p (b # bs) = (let (p', out) = filter_byte p b; (p'', out') = telnet_filter p' bs in (p'', out @ out'))"

lemma telnet_filter_append:
  "telnet_filter p (xs @ ys)
    = (let (p', out) = telnet_filter p xs; (p'', out') = telnet_filter p' ys in (p'', out @ out'))"
  by (induction xs arbitrary: p) (simp_all split: prod.splits)

interpretation telnet: stream_filter telnet_filter
  by unfold_locales (simp_all add: telnet_filter_append)

section \<open>Sessions\<close>

record telnet_manager =
  tm_sessions :: "string list"
  tm_closing :: "string list"

definition validate_size :: "nat \<Rightarrow> nat \<Rightarrow> unit app_result" where
  "validate_size cols rows = guard (1 \<le> cols \<and> cols \<le> 1000 \<and> 1 \<le> rows \<and> rows \<le> 500) Validation"

text \<open>\<open>format_host_port\<close>: an address of IPv6 is bracketed.\<close>

definition format_host_port :: "string \<Rightarrow> int \<Rightarrow> string app_result" where
  "format_host_port host port =
     rbind (guard (1 \<le> port \<and> port \<le> 65535) Validation) (\<lambda>_.
       Inr (if CHR '':'' \<in> set host \<and> strip_prefix ''['' host = None
            then ''['' @ host @ '']:'' @ string_of_nat (nat port)
            else host @ '':'' @ string_of_nat (nat port)))"

definition contains_session :: "string \<Rightarrow> telnet_manager \<Rightarrow> bool" where
  "contains_session i m \<longleftrightarrow> i \<in> set (tm_sessions m)"

text \<open>\<open>open\<close>, with the outcome of \<open>connect_stream\<close> and the fresh identifier as arguments.\<close>

definition open_session ::
    "(string \<Rightarrow> unit app_result) \<Rightarrow> string \<Rightarrow> string \<Rightarrow> int \<Rightarrow> nat \<Rightarrow> nat \<Rightarrow> telnet_manager
      \<Rightarrow> string app_result \<times> telnet_manager" where
  "open_session connect fresh host port cols rows m =
     (case rbind (validate_size cols rows) (\<lambda>_. rbind (format_host_port host port) connect) of
        Inl e \<Rightarrow> (Inl e, m)
      | Inr _ \<Rightarrow> (Inr fresh, m\<lparr>tm_sessions := List.insert fresh (tm_sessions m)\<rparr>))"

text \<open>\<open>input\<close> yields the bytes written to the stream.\<close>

definition session_input :: "string \<Rightarrow> string \<Rightarrow> telnet_manager \<Rightarrow> u8 list app_result" where
  "session_input i data m =
     rbind (guard (length data \<le> 1024 * 1024) Validation) (\<lambda>_.
       rbind (guard (contains_session i m) NotFound) (\<lambda>_. Inr (bytes_of data)))"

definition resize_session :: "string \<Rightarrow> nat \<Rightarrow> nat \<Rightarrow> telnet_manager \<Rightarrow> unit app_result" where
  "resize_session i cols rows m =
     rbind (validate_size cols rows) (\<lambda>_. guard (contains_session i m) NotFound)"

definition close_session :: "string \<Rightarrow> telnet_manager \<Rightarrow> unit app_result \<times> telnet_manager" where
  "close_session i m =
     (if contains_session i m
      then (Inr (), m\<lparr>tm_sessions := removeAll i (tm_sessions m), tm_closing := List.insert i (tm_closing m)\<rparr>)
      else (Inl NotFound, m))"

definition close_all :: "telnet_manager \<Rightarrow> telnet_manager" where
  "close_all m = fold (\<lambda>i m. snd (close_session i m)) (tm_sessions m) m"

section \<open>The reader thread\<close>

text \<open>
  What one turn of the loop meets: the closing flag, then the result of \<open>read\<close>, and whether the answer to a
  negotiation could be written. What it leaves: the parser, the output events so far, the bytes answered.
\<close>

datatype read_result = Eof | Chunk "u8 list" | Waited | Failed string

record reader =
  rd_parser :: telnet_parser
  rd_output :: "u8 list list"
  rd_answers :: "u8 list"
  rd_failure :: "string option"

definition new_reader :: reader where
  "new_reader = \<lparr>rd_parser = new_parser, rd_output = [], rd_answers = [], rd_failure = None\<rparr>"

text \<open>\<open>Inr\<close>: the loop goes on; \<open>Inl\<close>: it breaks.\<close>

definition reader_turn :: "bool \<Rightarrow> string option \<Rightarrow> read_result \<Rightarrow> reader \<Rightarrow> reader + reader" where
  "reader_turn closing write_error r s =
     (if closing then Inl s
      else case r of
        Eof \<Rightarrow> Inl s
      | Waited \<Rightarrow> Inr s
      | Failed e \<Rightarrow> Inl (s\<lparr>rd_failure := Some e\<rparr>)
      | Chunk bytes \<Rightarrow>
          (let (p, clean) = telnet_filter (rd_parser s) bytes;
               s' = s\<lparr>rd_parser := p\<lparr>tp_responses := []\<rparr>\<rparr>
           in if tp_responses p \<noteq> [] \<and> write_error \<noteq> None
              then Inl (s'\<lparr>rd_failure := write_error\<rparr>)
              else Inr (s'\<lparr>rd_answers := rd_answers s' @ tp_responses p,
                           rd_output := rd_output s' @ (if clean = [] then [] else [clean])\<rparr>)))"

fun reader_run :: "(bool \<times> string option \<times> read_result) list \<Rightarrow> reader \<Rightarrow> reader" where
  "reader_run [] s = s"
| "reader_run ((closing, write_error, r) # turns) s =
     (case reader_turn closing write_error r s of Inl s' \<Rightarrow> s' | Inr s' \<Rightarrow> reader_run turns s')"

text \<open>After the loop: the manager forgets the session, and the status event is built.\<close>

definition reader_end :: "string \<Rightarrow> reader \<Rightarrow> telnet_manager \<Rightarrow> (string \<times> string option) \<times> telnet_manager" where
  "reader_end i s m =
     (let requested = i \<in> set (tm_closing m);
          m' = m\<lparr>tm_closing := removeAll i (tm_closing m), tm_sessions := removeAll i (tm_sessions m)\<rparr>
      in ((if requested then ''closed'' else ''failed'',
           if requested then None
           else (case rd_failure s of Some e \<Rightarrow> Some e | None \<Rightarrow> Some ''closed by the server'')), m'))"

section \<open>Properties\<close>

text \<open>What a server sends for plain bytes: \<open>0xFF\<close> is doubled.\<close>

definition escape :: "u8 list \<Rightarrow> u8 list" where
  "escape bs = concat (map (\<lambda>b. if b = 255 then [255, 255] else [b]) bs)"

lemma parser_update_idem: "tp_state p = s \<Longrightarrow> p\<lparr>tp_state := s\<rparr> = p"
  by (cases p) simp

lemma filter_escape:
  "tp_state p = Data \<Longrightarrow> telnet_filter p (escape bs) = (p, bs)"
proof (induction bs)
  case (Cons b bs)
  then show ?case by (auto simp: escape_def filter_byte.simps parser_update_idem)
qed (simp add: escape_def)

text \<open>A complete subnegotiation: its body has no \<open>IAC SE\<close> and does not end inside an escape.\<close>

fun sub_body :: "u8 list \<Rightarrow> bool" where
  "sub_body [] = True"
| "sub_body [b] = (b \<noteq> 255)"
| "sub_body (b # c # bs) = (if b = 255 then c \<noteq> 240 \<and> sub_body bs else sub_body (c # bs))"

lemma filter_sub_body:
  "sub_body bs \<Longrightarrow> tp_state p = Subnegotiation \<Longrightarrow> telnet_filter p bs = (p, [])"
proof (induction bs rule: sub_body.induct)
  case (3 b c bs)
  then show ?case by (auto simp: filter_byte.simps parser_update_idem split: if_splits)
qed (simp_all add: filter_byte.simps)

lemma filter_subnegotiation:
  assumes "sub_body body" "tp_state p = Data"
  shows "telnet_filter p ([255, 250] @ body @ [255, 240]) = (p, [])"
proof -
  have "p\<lparr>tp_state := Data\<rparr> = p" using assms(2) by (cases p) simp
  moreover have "telnet_filter (p\<lparr>tp_state := Subnegotiation\<rparr>) body = (p\<lparr>tp_state := Subnegotiation\<rparr>, [])"
    by (rule filter_sub_body) (simp_all add: assms(1))
  ultimately show ?thesis using assms(2) by (simp add: telnet_filter_append filter_byte.simps)
qed

text \<open>The pieces of a well-formed stream.\<close>

datatype item = Plain "u8 list" | Will u8 | Do u8 | Wont u8 | Dont u8 | Sub "u8 list" | Command u8

fun item_ok :: "item \<Rightarrow> bool" where
  "item_ok (Sub body) = sub_body body"
| "item_ok (Command c) = (c < 250)"
| "item_ok _ = True"

fun encode_item :: "item \<Rightarrow> u8 list" where
  "encode_item (Plain bs) = escape bs"
| "encode_item (Will x) = [255, 251, x]"
| "encode_item (Wont x) = [255, 252, x]"
| "encode_item (Do x) = [255, 253, x]"
| "encode_item (Dont x) = [255, 254, x]"
| "encode_item (Sub body) = [255, 250] @ body @ [255, 240]"
| "encode_item (Command c) = [255, c]"

fun plain_of :: "item \<Rightarrow> u8 list" where
  "plain_of (Plain bs) = bs" | "plain_of _ = []"

fun answer_of :: "item \<Rightarrow> u8 list" where
  "answer_of (Will x) = [255, 252, x]" | "answer_of (Do x) = [255, 254, x]" | "answer_of _ = []"

lemma filter_item:
  assumes "item_ok i" "tp_state p = Data"
  shows "telnet_filter p (encode_item i) = (p\<lparr>tp_responses := tp_responses p @ answer_of i\<rparr>, plain_of i)"
proof -
  have p: "p\<lparr>tp_state := Data\<rparr> = p" "p\<lparr>tp_responses := tp_responses p\<rparr> = p"
    "p\<lparr>tp_state := Data, tp_responses := r\<rparr> = p\<lparr>tp_responses := r\<rparr>" for r
    using assms(2) by (cases p; simp)+
  show ?thesis
  proof (cases i)
    case (Sub body)
    then show ?thesis using filter_subnegotiation [of body p] assms p by simp
  next
    case (Command c)
    then have "c \<noteq> 255" "c \<noteq> 250" "\<not> 251 \<le> c" using assms(1) by (auto simp: word_less_nat_alt word_le_nat_alt)
    then show ?thesis using Command assms(2) p by (simp add: filter_byte.simps)
  qed (use assms(2) p in \<open>simp_all add: filter_escape filter_byte.simps\<close>)
qed

lemma filter_items:
  assumes "list_all item_ok items" "tp_state p = Data"
  shows "telnet_filter p (concat (map encode_item items))
    = (p\<lparr>tp_responses := tp_responses p @ concat (map answer_of items)\<rparr>, concat (map plain_of items))"
  using assms by (induction items arbitrary: p) (simp_all add: telnet_filter_append filter_item)

lemma filter_byte_responses:
  "filter_byte (p\<lparr>tp_responses := r @ tp_responses p\<rparr>) b
    = (let (p', out) = filter_byte p b in (p'\<lparr>tp_responses := r @ tp_responses p'\<rparr>, out))"
  by (cases p; cases "tp_state p") (simp_all add: filter_byte.simps)

lemma telnet_filter_responses:
  "telnet_filter (p\<lparr>tp_responses := r @ tp_responses p\<rparr>) bs
    = (let (p', out) = telnet_filter p bs in (p'\<lparr>tp_responses := r @ tp_responses p'\<rparr>, out))"
  by (induction bs arbitrary: p) (simp_all add: filter_byte_responses split: prod.splits)

lemma reader_run_chunks:
  "reader_run (map (\<lambda>c. (False, None, Chunk c)) chunks) s = s' \<Longrightarrow> tp_responses (rd_parser s) = []
    \<Longrightarrow> feed_chunks telnet_filter (rd_parser s) chunks = (p, out)
    \<Longrightarrow> rd_answers s' = rd_answers s @ tp_responses p \<and> concat (rd_output s') = concat (rd_output s) @ out"
proof (induction chunks arbitrary: s p out)
  case (Cons c cs)
  obtain p1 o1 where c: "telnet_filter (rd_parser s) c = (p1, o1)" by fastforce
  obtain p2 o2 where cs: "feed_chunks telnet_filter (p1\<lparr>tp_responses := []\<rparr>) cs = (p2, o2)" by fastforce
  have "feed_chunks telnet_filter p1 cs = (p2\<lparr>tp_responses := tp_responses p1 @ tp_responses p2\<rparr>, o2)"
    using telnet_filter_responses [where p = "p1\<lparr>tp_responses := []\<rparr>" and r = "tp_responses p1" and bs = "concat cs"] cs
    by (simp add: telnet.feed_chunks_concat)
  then have po: "p = p2\<lparr>tp_responses := tp_responses p1 @ tp_responses p2\<rparr>" "out = o1 @ o2"
    using Cons.prems(3) c by simp_all
  let ?s = "s\<lparr>rd_parser := p1\<lparr>tp_responses := []\<rparr>, rd_answers := rd_answers s @ tp_responses p1,
    rd_output := rd_output s @ (if o1 = [] then [] else [o1])\<rparr>"
  have "reader_run (map (\<lambda>c. (False, None, Chunk c)) cs) ?s = s'"
    using Cons.prems(1) c by (cases "o1 = []") (simp_all add: reader_turn_def)
  from Cons.IH [OF this] show ?case using cs po by simp
qed simp

text \<open>C23: However the socket cuts a telnet stream into chunks, the terminal receives exactly the plain
  bytes of the stream, with doubled \<open>0xFF\<close> restored and every command, negotiation and subnegotiation
  removed, and each offer or request of an option is answered once, in order.\<close>

theorem telnet_reader:
  assumes "list_all item_ok items" "concat chunks = concat (map encode_item items)"
  shows "concat (rd_output (reader_run (map (\<lambda>c. (False, None, Chunk c)) chunks) new_reader)) = concat (map plain_of items)
    \<and> rd_answers (reader_run (map (\<lambda>c. (False, None, Chunk c)) chunks) new_reader) = concat (map answer_of items)"
proof -
  have "feed_chunks telnet_filter new_parser chunks
      = (new_parser\<lparr>tp_responses := concat (map answer_of items)\<rparr>, concat (map plain_of items))"
    using telnet.feed_chunks_concat [of new_parser chunks] filter_items [OF assms(1), of new_parser] assms(2)
    by (simp add: new_parser_def)
  then show ?thesis using reader_run_chunks [OF refl, of new_reader chunks]
    by (simp add: new_reader_def new_parser_def)
qed

theorem telnet_reader_witness:
  "concat (rd_output (reader_run (map (\<lambda>c. (False, None, Chunk c))
     [[255], [251, 1, 111], [107, 255, 250, 24], [1, 255], [240, 120]]) new_reader)) = [111, 107, 120]"
  using telnet_reader [where items = "[Will 1, Plain [111, 107], Sub [24, 1], Plain [120]]"
    and chunks = "[[255], [251, 1, 111], [107, 255, 250, 24], [1, 255], [240, 120]]"]
  by (simp add: escape_def)

text \<open>Closing a session: the manager knows it no more, and the reader reports that it was requested.\<close>

lemma close_then_end:
  assumes "close_session i m = (Inr (), m')"
  shows "fst (reader_end i s m') = (''closed'', None) \<and> \<not> contains_session i (snd (reader_end i s m'))
    \<and> i \<notin> set (tm_closing (snd (reader_end i s m')))"
  using assms by (auto simp: close_session_def reader_end_def contains_session_def split: if_splits)

end
