(* ===== verification/Modem.thy ===== *)
theory Modem
  imports DeskBase
begin

text \<open>
  The X/Ymodem block protocol (\<open>src-tauri/src/xymodem.rs\<close>): the serial device as a script of what it
  will deliver, blocks with their checksums, and the sending and receiving loops with their retries.
\<close>

section \<open>The device\<close>

text \<open>
  What the peer will still send (\<open>None\<close>: a read that times out; the end: silence for ever), what was written,
  and whether a write succeeds when so many bytes have been written.
\<close>

record device =
  dv_in :: "u8 option list"
  dv_out :: "u8 list"
  dv_up :: "nat \<Rightarrow> bool"

type_synonym 'a dev = "device \<Rightarrow> (io_error + 'a) \<times> device"

fun read_byte :: "u8 dev" where
  "read_byte d = (case dv_in d of [] \<Rightarrow> (Inl TimedOut, d)
     | None # bs \<Rightarrow> (Inl TimedOut, d\<lparr>dv_in := bs\<rparr>)
     | Some b # bs \<Rightarrow> (Inr b, d\<lparr>dv_in := bs\<rparr>))"

declare read_byte.simps [simp del]

text \<open>\<open>read_exact\<close>: a failure loses the bytes that were read.\<close>

primrec read_exact :: "nat \<Rightarrow> u8 list dev" where
  "read_exact 0 d = (Inr [], d)"
| "read_exact (Suc n) d = sbind read_byte (\<lambda>b. sbind (read_exact n) (\<lambda>bs. sreturn (b # bs))) d"

definition dwrite :: "u8 list \<Rightarrow> unit dev" where
  "dwrite bs d = (if dv_up d (length (dv_out d)) then (Inr (), d\<lparr>dv_out := dv_out d @ bs\<rparr>) else (Inl OtherIo, d))"

definition SOH :: u8 where "SOH = 1"
definition STX :: u8 where "STX = 2"
definition EOT :: u8 where "EOT = 4"
definition ACK :: u8 where "ACK = 6"
definition NAK :: u8 where "NAK = 21"
definition CAN :: u8 where "CAN = 24"
definition CRC_REQUEST :: u8 where "CRC_REQUEST = 67"
definition PAD :: u8 where "PAD = 26"
definition MAX_RETRIES :: nat where "MAX_RETRIES = 16"
definition MAX_FILES :: nat where "MAX_FILES = 256"
definition MAX_FILE_BYTES :: nat where "MAX_FILE_BYTES = 50 * 1024 * 1024 * 1024"

lemmas control_defs = SOH_def STX_def EOT_def ACK_def NAK_def CAN_def CRC_REQUEST_def

definition write_control :: "u8 \<Rightarrow> unit dev" where
  "write_control v = dwrite [v]"

definition cancel_peer :: "device \<Rightarrow> device" where
  "cancel_peer d = snd (dwrite [CAN, CAN] d)"

text \<open>\<open>matches!(read_byte(device), Ok(b))\<close>: the byte is consumed either way.\<close>

definition read_is :: "u8 \<Rightarrow> device \<Rightarrow> bool \<times> device" where
  "read_is b d = (case read_byte d of (Inr b', d') \<Rightarrow> (b' = b, d') | (Inl _, d') \<Rightarrow> (False, d'))"

section \<open>Checksums\<close>

datatype xmodem_checksum = Checksum | Crc16

definition crc_shift :: "u16 \<Rightarrow> u16" where
  "crc_shift c = (if c AND 0x8000 \<noteq> 0 then push_bit 1 c XOR 0x1021 else push_bit 1 c)"

definition crc_byte :: "u16 \<Rightarrow> u8 \<Rightarrow> u16" where
  "crc_byte c b = (crc_shift ^^ 8) (c XOR push_bit 8 (ucast b))"

definition crc16 :: "u8 list \<Rightarrow> u16" where
  "crc16 bs = foldl crc_byte 0 bs"

definition checksum8 :: "u8 list \<Rightarrow> u8" where
  "checksum8 bs = foldl (+) 0 bs"

text \<open>\<open>to_be_bytes\<close> and \<open>from_be_bytes\<close> of a \<open>u16\<close>.\<close>

definition be_bytes :: "u16 \<Rightarrow> u8 list" where
  "be_bytes w = [ucast (drop_bit 8 w), ucast w]"

definition from_be :: "u8 \<Rightarrow> u8 \<Rightarrow> u16" where
  "from_be hi lo = push_bit 8 (ucast hi) OR ucast lo"

fun checksum_bytes :: "xmodem_checksum \<Rightarrow> u8 list \<Rightarrow> u8 list" where
  "checksum_bytes Checksum data = [checksum8 data]"
| "checksum_bytes Crc16 data = be_bytes (crc16 data)"

section \<open>Blocks\<close>

definition receive_block :: "u8 \<Rightarrow> xmodem_checksum \<Rightarrow> (u8 \<times> u8 list) dev" where
  "receive_block start chk =
     sbind read_byte (\<lambda>number. sbind read_byte (\<lambda>complement.
       if number \<noteq> NOT complement then sfail InvalidData
       else sbind (read_exact (if start = STX then 1024 else 128)) (\<lambda>data.
         sbind (case chk of
             Checksum \<Rightarrow> sbind read_byte (\<lambda>s. sreturn (s = checksum8 data))
           | Crc16 \<Rightarrow> sbind read_byte (\<lambda>hi. sbind read_byte (\<lambda>lo. sreturn (from_be hi lo = crc16 data)))) (\<lambda>valid.
         if \<not> valid then sfail InvalidData else sreturn (number, data)))))"

definition frame :: "xmodem_checksum \<Rightarrow> u8 \<Rightarrow> u8 list \<Rightarrow> u8 list" where
  "frame chk number data = [if length data = 1024 then STX else SOH, number, NOT number] @ data @ checksum_bytes chk data"

text \<open>One attempt of \<open>send_block\<close>: the three writes, then the answer.\<close>

fun send_attempts :: "nat \<Rightarrow> xmodem_checksum \<Rightarrow> u8 \<Rightarrow> u8 list \<Rightarrow> unit dev" where
  "send_attempts 0 chk number data d = (Inl TimedOut, cancel_peer d)"
| "send_attempts (Suc n) chk number data d =
     sbind (dwrite [if length data = 1024 then STX else SOH, number, NOT number]) (\<lambda>_.
     sbind (dwrite data) (\<lambda>_. sbind (dwrite (checksum_bytes chk data)) (\<lambda>_ d.
       case read_byte d of
         (Inl _, d) \<Rightarrow> send_attempts n chk number data d
       | (Inr b, d) \<Rightarrow>
           (if b = ACK then (Inr (), d)
            else if b = CAN then (let (again, d) = read_is CAN d in
              if again then (Inl ConnectionAborted, d) else send_attempts n chk number data d)
            else send_attempts n chk number data d)))) d"

definition send_block :: "u8 \<Rightarrow> u8 list \<Rightarrow> xmodem_checksum \<Rightarrow> unit dev" where
  "send_block number data chk =
     (if length data \<noteq> 128 \<and> length data \<noteq> 1024 then sfail InvalidInput
      else send_attempts MAX_RETRIES chk number data)"

section \<open>Waiting for a control byte\<close>

fun wait_attempts :: "nat \<Rightarrow> u8 list \<Rightarrow> u8 dev" where
  "wait_attempts 0 accepted d = (Inl TimedOut, cancel_peer d)"
| "wait_attempts (Suc n) accepted d =
     (case read_byte d of
        (Inl _, d) \<Rightarrow> wait_attempts n accepted d
      | (Inr b, d) \<Rightarrow>
          (if b \<in> set accepted then (Inr b, d)
           else if b = CAN then (let (again, d) = read_is CAN d in
             if again then (Inl ConnectionAborted, d) else wait_attempts n accepted d)
           else wait_attempts n accepted d))"

definition wait_for_control :: "u8 list \<Rightarrow> u8 dev" where
  "wait_for_control accepted = wait_attempts MAX_RETRIES accepted"

definition wait_for_receiver :: "xmodem_checksum dev" where
  "wait_for_receiver = sbind (wait_for_control [CRC_REQUEST, NAK])
     (\<lambda>b. sreturn (if b = CRC_REQUEST then Crc16 else Checksum))"

definition wait_for_crc :: "unit dev" where
  "wait_for_crc = sbind (wait_for_control [CRC_REQUEST]) (\<lambda>_. sreturn ())"

section \<open>Sending\<close>

text \<open>
  The blocks of a source: \<open>read_up_to\<close> fills a block or reaches the end, and the rest of the last block is
  padding. The result is the number of source bytes sent, with the progress that was reported.
\<close>

function send_data_blocks ::
    "xmodem_checksum \<Rightarrow> nat \<Rightarrow> nat \<Rightarrow> u8 \<Rightarrow> nat \<Rightarrow> u8 list \<Rightarrow> nat list \<Rightarrow> (nat \<times> nat list) dev" where
  "send_data_blocks chk width full number sent source reported d =
     (let block = take width source in
      if block = [] then (Inr (sent, reported), d)
      else case send_block number (block @ replicate (width - length block) PAD) chk d of
          (Inl e, d) \<Rightarrow> (Inl e, d)
        | (Inr _, d) \<Rightarrow>
            (let sent = min (sat_add sent (length block)) full
             in send_data_blocks chk width full (number + 1) sent (drop width source) (reported @ [sent]) d))"
  by pat_completeness auto
termination
  by (relation "measure (\<lambda>(chk, width, full, number, sent, source, reported, d). length source)") auto

declare send_data_blocks.simps [simp del]

definition block_size :: "bool \<Rightarrow> nat" where
  "block_size use_1k = (if use_1k then 1024 else 128)"

text \<open>The end of a file: Xmodem wants one acknowledged \<open>EOT\<close>, Ymodem a rejected one first.\<close>

fun finish_attempts :: "nat \<Rightarrow> unit dev" where
  "finish_attempts 0 d = (Inl TimedOut, cancel_peer d)"
| "finish_attempts (Suc n) d = sbind (write_control EOT) (\<lambda>_ d.
     case read_byte d of
       (Inl _, d) \<Rightarrow> finish_attempts n d
     | (Inr b, d) \<Rightarrow>
         (if b = ACK then (Inr (), d)
          else if b = CAN then (let (again, d) = read_is CAN d in
            if again then (Inl ConnectionAborted, d) else finish_attempts n d)
          else finish_attempts n d)) d"

definition finish_xmodem_send :: "unit dev" where
  "finish_xmodem_send = finish_attempts MAX_RETRIES"

fun eot_attempts :: "nat \<Rightarrow> u8 \<Rightarrow> unit dev" where
  "eot_attempts 0 answer d = (Inl TimedOut, cancel_peer d)"
| "eot_attempts (Suc n) answer d = sbind (write_control EOT) (\<lambda>_ d.
     let (yes, d) = read_is answer d in if yes then (Inr (), d) else eot_attempts n answer d) d"

definition finish_ymodem_file_send :: "unit dev" where
  "finish_ymodem_file_send = sbind (eot_attempts MAX_RETRIES NAK) (\<lambda>_. eot_attempts MAX_RETRIES ACK)"

section \<open>Receiving\<close>

record rx =
  rx_device :: device
  rx_output :: "u8 list"
  rx_block :: u8
  rx_received :: nat
  rx_errors :: nat
  rx_progress :: "nat list"

definition new_rx :: "device \<Rightarrow> rx" where
  "new_rx d = \<lparr>rx_device = d, rx_output = [], rx_block = 1, rx_received = 0, rx_errors = 0, rx_progress = []\<rparr>"

text \<open>A turn of \<open>receive_data_blocks\<close> either returns (\<open>Inl\<close>) or goes on (\<open>Inr\<close>).\<close>

type_synonym turn = "((io_error + nat) \<times> rx) + rx"

definition rx_check :: "rx \<Rightarrow> turn" where
  "rx_check r = (if MAX_RETRIES \<le> rx_errors r then Inl (Inl TimedOut, r\<lparr>rx_device := cancel_peer (rx_device r)\<rparr>) else Inr r)"

definition rx_answer :: "u8 \<Rightarrow> rx \<Rightarrow> turn" where
  "rx_answer v r = (case write_control v (rx_device r) of
     (Inl e, d) \<Rightarrow> Inl (Inl e, r\<lparr>rx_device := d\<rparr>)
   | (Inr _, d) \<Rightarrow> rx_check (r\<lparr>rx_device := d\<rparr>))"

definition rx_reject :: "rx \<Rightarrow> turn" where
  "rx_reject r = rx_answer NAK (r\<lparr>rx_errors := rx_errors r + 1\<rparr>)"

definition rx_accept :: "nat option \<Rightarrow> u8 list \<Rightarrow> rx \<Rightarrow> turn" where
  "rx_accept expected data r =
     (if expected = None \<and> MAX_FILE_BYTES < sat_add (rx_received r) (length data)
      then Inl (Inl FileTooLarge, r\<lparr>rx_device := cancel_peer (rx_device r)\<rparr>)
      else (let remaining = (case expected of Some n \<Rightarrow> sat_sub n (rx_received r) | None \<Rightarrow> length data);
                len = min remaining (length data);
                received = sat_add (rx_received r) len
            in rx_answer ACK (r\<lparr>rx_output := rx_output r @ take len data, rx_received := received,
                 rx_block := rx_block r + 1, rx_errors := 0, rx_progress := rx_progress r @ [received]\<rparr>)))"

definition rx_eot :: "bool \<Rightarrow> unit dev" where
  "rx_eot ymodem =
     sbind (if ymodem then sbind (write_control NAK) (\<lambda>_. sbind (wait_for_control [EOT]) (\<lambda>_. sreturn ())) else sreturn ())
       (\<lambda>_. sbind (write_control ACK) (\<lambda>_. if ymodem then write_control CRC_REQUEST else sreturn ()))"

definition rx_turn :: "nat option \<Rightarrow> xmodem_checksum \<Rightarrow> bool \<Rightarrow> rx \<Rightarrow> turn" where
  "rx_turn expected chk ymodem r =
     (case read_byte (rx_device r) of
        (Inl _, d) \<Rightarrow> rx_reject (r\<lparr>rx_device := d\<rparr>)
      | (Inr b, d) \<Rightarrow>
         (if b = EOT then
            (case rx_eot ymodem d of
               (Inl e, d) \<Rightarrow> Inl (Inl e, r\<lparr>rx_device := d\<rparr>)
             | (Inr _, d) \<Rightarrow> Inl (Inr (rx_received r), r\<lparr>rx_device := d\<rparr>))
          else if b = CAN then
            (let (again, d) = read_is CAN d
             in if again then Inl (Inl ConnectionAborted, r\<lparr>rx_device := d\<rparr>) else rx_check (r\<lparr>rx_device := d\<rparr>))
          else if b = SOH \<or> b = STX then
            (case receive_block b chk d of
               (Inl _, d) \<Rightarrow> rx_reject (r\<lparr>rx_device := d\<rparr>)
             | (Inr (number, data), d) \<Rightarrow>
                (if number = rx_block r then rx_accept expected data (r\<lparr>rx_device := d\<rparr>)
                 else if number = rx_block r - 1 then rx_answer ACK (r\<lparr>rx_device := d\<rparr>)
                 else rx_reject (r\<lparr>rx_device := d\<rparr>)))
          else rx_reject (r\<lparr>rx_device := d\<rparr>)))"

text \<open>No operation puts input back.\<close>

abbreviation left :: "device \<Rightarrow> nat" where
  "left d \<equiv> length (dv_in d)"

named_theorems consumes \<open>operations that never put input back\<close>

lemma read_byte_left: "left (snd (read_byte d)) = left d - 1"
  by (auto simp: read_byte.simps split: list.split option.split)

lemma read_byte_consumes [consumes]: "read_byte d = (r, d') \<Longrightarrow> left d' \<le> left d"
  using read_byte_left [of d] by simp

lemma read_is_consumes [consumes]: "read_is b d = (r, d') \<Longrightarrow> left d' \<le> left d"
  by (auto simp: read_is_def dest: read_byte_consumes split: prod.splits sum.splits)

lemma dwrite_in [simp]: "dv_in (snd (dwrite bs d)) = dv_in d"
  by (simp add: dwrite_def)

lemma write_control_in [consumes]: "write_control v d = (r, d') \<Longrightarrow> dv_in d' = dv_in d"
  unfolding write_control_def by (metis dwrite_in snd_conv)

lemma cancel_peer_in [simp]: "dv_in (cancel_peer d) = dv_in d"
  by (simp add: cancel_peer_def)

lemma read_exact_consumes [consumes]: "read_exact n d = (r, d') \<Longrightarrow> left d' \<le> left d"
proof (induction n arbitrary: r d)
  case (Suc n)
  then show ?case
    by (fastforce simp: sbind_def sreturn_def dest: read_byte_consumes split: prod.splits sum.splits)
qed simp

lemma receive_block_consumes [consumes]: "receive_block b chk d = (r, d') \<Longrightarrow> left d' \<le> left d"
  by (fastforce simp: receive_block_def sbind_def sreturn_def sfail_def
      dest: read_byte_consumes read_exact_consumes split: prod.splits sum.splits if_splits xmodem_checksum.splits)

lemma rx_check_left: "rx_check r = Inr r' \<Longrightarrow> r' = r \<and> rx_errors r < MAX_RETRIES"
  by (auto simp: rx_check_def split: if_splits)

lemma rx_answer_left:
  "rx_answer v r = Inr r' \<Longrightarrow> dv_in (rx_device r') = dv_in (rx_device r) \<and> rx_errors r' = rx_errors r
    \<and> rx_errors r < MAX_RETRIES"
  by (auto simp: rx_answer_def dest!: rx_check_left write_control_in split: prod.splits sum.splits)

lemma rx_turn_decreases:
  assumes "rx_turn expected chk ymodem r = Inr r'"
  shows "(r', r) \<in> measures [\<lambda>r. left (rx_device r), \<lambda>r. MAX_RETRIES - rx_errors r]"
proof (cases "dv_in (rx_device r)")
  case Nil
  then have "read_byte (rx_device r) = (Inl TimedOut, rx_device r)" by (simp add: read_byte.simps)
  then have "rx_reject r = Inr r'" using assms by (simp add: rx_turn_def)
  then show ?thesis unfolding rx_reject_def by (auto dest!: rx_answer_left)
next
  case (Cons x xs)
  obtain b d where b: "read_byte (rx_device r) = (b, d)" by fastforce
  have d: "left d < left (rx_device r)" using read_byte_left [of "rx_device r"] b Cons by simp
  have "left (rx_device r') \<le> left d"
    using assms b
    by (auto simp: rx_turn_def rx_reject_def rx_accept_def Let_def dest!: rx_answer_left rx_check_left
      dest: read_is_consumes receive_block_consumes split: prod.splits sum.splits if_split_asm)
  then show ?thesis using d by simp
qed

function receive_data_blocks :: "nat option \<Rightarrow> xmodem_checksum \<Rightarrow> bool \<Rightarrow> rx \<Rightarrow> (io_error + nat) \<times> rx" where
  "receive_data_blocks expected chk ymodem r =
     (case rx_turn expected chk ymodem r of
        Inl result \<Rightarrow> result
      | Inr r' \<Rightarrow> receive_data_blocks expected chk ymodem r')"
  by pat_completeness auto
termination
proof (relation "inv_image (measures [\<lambda>r. left (rx_device r), \<lambda>r. MAX_RETRIES - rx_errors r]) (\<lambda>(_, _, _, r). r)")
qed (use rx_turn_decreases in simp_all)

declare receive_data_blocks.simps [simp del]

end
