(* ===== verification/ModemTransfer.thy ===== *)
theory ModemTransfer
  imports Modem
begin

text \<open>
  What the block protocol of \<open>Modem\<close> guarantees: the checksums find every corrupted byte, a block that was
  sent is the block that is received, and whole transfers arrive in spite of noise and lost answers.
\<close>

section \<open>Checksums\<close>

lemma xor_right_cancel: "a XOR c = b XOR c \<Longrightarrow> a = b" for a b c :: "'a::len word"
  by (metis xor.assoc xor.right_neutral xor_self_eq)

lemma top_bit: "c AND 0x8000 \<noteq> 0 \<longleftrightarrow> bit c 15" for c :: u16
  using and_exp_eq_0_iff_not_bit [of c 15] by simp

lemma crc_shift_bit0: "bit (crc_shift c) 0 = bit c 15"
  by (simp add: crc_shift_def top_bit bit_xor_iff bit_push_bit_iff) (simp add: bit_0)

lemma push_bit_1_low: "push_bit 1 a = push_bit 1 b \<Longrightarrow> n < 15 \<Longrightarrow> bit a n = bit b n" for a b :: u16
proof -
  assume eq: "push_bit 1 a = push_bit 1 b" and n: "n < 15"
  have "bit (push_bit 1 c) (Suc n) = bit c n" for c :: u16
    unfolding bit_push_bit_iff using n by simp
  then show ?thesis using eq by metis
qed

lemma crc_shift_inj: "crc_shift a = crc_shift b \<Longrightarrow> a = b"
proof -
  assume eq: "crc_shift a = crc_shift b"
  then have top: "bit a 15 = bit b 15" by (metis crc_shift_bit0)
  have "push_bit 1 a = push_bit 1 b"
    using eq top unfolding crc_shift_def top_bit by (metis xor_right_cancel)
  then have low: "bit a n = bit b n" if "n < 15" for n using that by (rule push_bit_1_low)
  show "a = b"
  proof (rule bit_word_eqI)
    fix n assume "n < LENGTH(16)"
    then consider "n < 15" | "n = 15" by fastforce
    then show "bit a n = bit b n" using low top by cases simp_all
  qed
qed

lemma crc_shifts_inj: "(crc_shift ^^ n) a = (crc_shift ^^ n) b \<Longrightarrow> a = b"
  by (induction n) (auto dest: crc_shift_inj)

lemma crc_byte_inj_state: "crc_byte c b = crc_byte c' b \<Longrightarrow> c = c'"
  unfolding crc_byte_def by (blast dest: crc_shifts_inj xor_right_cancel)

lemma crc_byte_inj_byte: "crc_byte c a = crc_byte c b \<Longrightarrow> a = b"
proof -
  assume "crc_byte c a = crc_byte c b"
  then have "c XOR push_bit 8 (ucast a) = c XOR push_bit 8 (ucast b)" unfolding crc_byte_def by (rule crc_shifts_inj)
  then have eq: "push_bit 8 (ucast a :: u16) = push_bit 8 (ucast b)" by (metis xor_right_cancel xor.commute)
  have bit: "bit (push_bit 8 (ucast x :: u16)) (n + 8) = bit x n" if "n < 8" for n and x :: u8
    using that by (simp add: bit_push_bit_iff bit_ucast_iff)
  show "a = b"
  proof (rule bit_word_eqI)
    fix n assume "n < LENGTH(8)"
    then show "bit a n = bit b n" using bit [of n a] bit [of n b] eq by simp
  qed
qed

lemma crc_foldl_inj: "foldl crc_byte c bs = foldl crc_byte c' bs \<Longrightarrow> c = c'"
  by (induction bs arbitrary: c c') (auto dest: crc_byte_inj_state)

lemma crc16_detects: "a \<noteq> b \<Longrightarrow> crc16 (xs @ [a] @ ys) \<noteq> crc16 (xs @ [b] @ ys)"
  by (auto simp: crc16_def dest!: crc_foldl_inj crc_byte_inj_byte)

lemma foldl_add: "foldl (+) c zs = c + foldl (+) 0 zs" for c :: u8
proof (induction zs arbitrary: c)
  case (Cons z zs)
  show ?case using Cons [of "c + z"] Cons [of z] by (simp add: add.assoc)
qed simp

lemma checksum8_detects: "a \<noteq> b \<Longrightarrow> checksum8 (xs @ [a] @ ys) \<noteq> checksum8 (xs @ [b] @ ys)"
  unfolding checksum8_def using foldl_add [of "foldl (+) 0 xs + a" ys] foldl_add [of "foldl (+) 0 xs + b" ys] by simp

lemma from_be_be_bytes: "be_bytes w = [hi, lo] \<Longrightarrow> from_be hi lo = w"
proof -
  assume "be_bytes w = [hi, lo]"
  then have "hi = ucast (drop_bit 8 w)" "lo = ucast w" by (simp_all add: be_bytes_def)
  then show ?thesis
    by (intro bit_word_eqI) (auto simp: from_be_def bit_or_iff bit_push_bit_iff bit_ucast_iff bit_drop_bit_eq)
qed

lemma be_bytes_inj: "from_be hi lo = w \<longleftrightarrow> be_bytes w = [hi, lo]"
proof
  assume "from_be hi lo = w"
  then have w: "w = push_bit 8 (ucast hi) OR ucast lo" by (simp add: from_be_def)
  have "ucast (drop_bit 8 w) = hi"
    by (rule bit_word_eqI) (auto simp: w bit_or_iff bit_push_bit_iff bit_ucast_iff bit_drop_bit_eq dest: bit_imp_le_length)
  moreover have "ucast w = lo"
    by (rule bit_word_eqI) (auto simp: w bit_or_iff bit_push_bit_iff bit_ucast_iff)
  ultimately show "be_bytes w = [hi, lo]" by (simp add: be_bytes_def)
qed (rule from_be_be_bytes)


section \<open>Blocks on the wire\<close>

lemma read_byte_Some: "dv_in d = Some b # s \<Longrightarrow> read_byte d = (Inr b, d\<lparr>dv_in := s\<rparr>)"
  by (simp add: read_byte.simps)

lemma read_exact_Some:
  "dv_in d = map Some bs @ s \<Longrightarrow> n = length bs \<Longrightarrow> read_exact n d = (Inr bs, d\<lparr>dv_in := s\<rparr>)"
  by (induction bs arbitrary: n d) (simp_all add: sbind_def sreturn_def read_byte_Some)

definition block_start :: "u8 list \<Rightarrow> u8" where
  "block_start data = (if length data = 1024 then STX else SOH)"

lemma length_checksum_bytes: "length (checksum_bytes chk data) = (case chk of Checksum \<Rightarrow> 1 | Crc16 \<Rightarrow> 2)"
  by (cases chk) (simp_all add: be_bytes_def)

text \<open>A received block is judged by its complement and its checksum alone.\<close>

lemma receive_block_wire:
  assumes "dv_in d = map Some ([number, NOT number] @ data @ ck) @ s" "length data = 128 \<or> length data = 1024"
    and "length ck = length (checksum_bytes chk data)"
  shows "receive_block (block_start data) chk d
    = (if ck = checksum_bytes chk data then Inr (number, data) else Inl InvalidData, d\<lparr>dv_in := s\<rparr>)"
proof -
  have len: "(if block_start data = STX then 1024 else 128) = length data"
    using assms(2) by (auto simp: block_start_def SOH_def STX_def)
  have ex: "read_exact (length data) (d\<lparr>dv_in := map Some data @ map Some ck @ s\<rparr>)
      = (Inr data, d\<lparr>dv_in := map Some ck @ s\<rparr>)"
    by (simp add: read_exact_Some)
  show ?thesis
  proof (cases chk)
    case Checksum
    then obtain c where "ck = [c]" using assms(3) by (auto simp: length_Suc_conv)
    then show ?thesis using assms(1) ex Checksum
      by (simp add: receive_block_def sbind_def sreturn_def sfail_def read_byte_Some len)
  next
    case Crc16
    then obtain hi lo where "ck = [hi, lo]" using assms(3) by (auto simp: length_Suc_conv be_bytes_def)
    then show ?thesis using assms(1) ex Crc16
      by (simp add: receive_block_def sbind_def sreturn_def sfail_def read_byte_Some len be_bytes_inj
        eq_commute [of "[hi, lo]"])
  qed
qed

lemma frame_split: "frame chk number data = block_start data # [number, NOT number] @ data @ checksum_bytes chk data"
  by (simp add: frame_def block_start_def)

lemma be_bytes_eq_iff: "be_bytes w = be_bytes w' \<longleftrightarrow> w = w'"
proof
  assume eq: "be_bytes w = be_bytes w'"
  have "from_be (be_bytes u ! 0) (be_bytes u ! 1) = u" for u
    by (rule from_be_be_bytes) (simp add: be_bytes_def)
  then show "w = w'" using eq by metis
qed simp

lemma checksum_detects:
  assumes "i < length data" "b \<noteq> data ! i"
  shows "checksum_bytes chk data \<noteq> checksum_bytes chk (data[i := b])"
proof -
  have "data = take i data @ [data ! i] @ drop (Suc i) data" "data[i := b] = take i data @ [b] @ drop (Suc i) data"
    using assms by (simp_all add: id_take_nth_drop upd_conv_take_nth_drop)
  then have "crc16 data \<noteq> crc16 (data[i := b])" "checksum8 data \<noteq> checksum8 (data[i := b])"
    using assms(2) crc16_detects checksum8_detects by metis+
  then show ?thesis by (cases chk) (simp_all add: be_bytes_eq_iff)
qed

text \<open>A block that was sent is received with its number and its data, for both block sizes and both
  checksums; if a single byte of its data is corrupted on the way, it is rejected.\<close>

theorem block_roundtrip:
  assumes "length data = 128 \<or> length data = 1024"
  shows "(dv_in d = map Some (tl (frame chk number data)) @ s \<longrightarrow>
      receive_block (hd (frame chk number data)) chk d = (Inr (number, data), d\<lparr>dv_in := s\<rparr>))
    \<and> (\<forall>i b. i < length data \<and> b \<noteq> data ! i
        \<and> dv_in d = map Some ([number, NOT number] @ data[i := b] @ checksum_bytes chk data) @ s \<longrightarrow>
      receive_block (hd (frame chk number data)) chk d = (Inl InvalidData, d\<lparr>dv_in := s\<rparr>))"
proof (intro conjI allI impI)
  assume "dv_in d = map Some (tl (frame chk number data)) @ s"
  then show "receive_block (hd (frame chk number data)) chk d = (Inr (number, data), d\<lparr>dv_in := s\<rparr>)"
    using receive_block_wire [of d number data "checksum_bytes chk data" s chk] assms by (simp add: frame_split)
next
  fix i b
  assume a: "i < length data \<and> b \<noteq> data ! i
    \<and> dv_in d = map Some ([number, NOT number] @ data[i := b] @ checksum_bytes chk data) @ s"
  have "checksum_bytes chk data \<noteq> checksum_bytes chk (data[i := b])" using a by (simp add: checksum_detects)
  moreover have "block_start (data[i := b]) = block_start data" by (simp add: block_start_def)
  ultimately show "receive_block (hd (frame chk number data)) chk d = (Inl InvalidData, d\<lparr>dv_in := s\<rparr>)"
    using receive_block_wire [of d number "data[i := b]" "checksum_bytes chk data" s chk] a assms
    by (simp add: frame_split length_checksum_bytes)
qed

section \<open>Reception\<close>

definition all_up :: "device \<Rightarrow> bool" where
  "all_up d \<longleftrightarrow> (\<forall>n. dv_up d n)"

lemma dwrite_up: "all_up d \<Longrightarrow> dwrite bs d = (Inr (), d\<lparr>dv_out := dv_out d @ bs\<rparr>)"
  by (simp add: dwrite_def all_up_def)

lemma all_up_update [simp]: "all_up (d\<lparr>dv_in := s\<rparr>) = all_up d" "all_up (d\<lparr>dv_out := t\<rparr>) = all_up d"
  by (simp_all add: all_up_def)

text \<open>One turn for each thing that may arrive.\<close>

abbreviation wire :: "u8 list \<Rightarrow> u8 option list" where
  "wire bs \<equiv> map Some bs"

definition block_length :: "u8 list \<Rightarrow> bool" where
  "block_length data \<longleftrightarrow> length data = 128 \<or> length data = 1024"

lemma block_start_not: "block_start data \<noteq> EOT" "block_start data \<noteq> CAN" "block_start data = SOH \<or> block_start data = STX"
  by (simp_all add: block_start_def control_defs)

lemma turn_block:
  assumes "dv_in (rx_device r) = wire (block_start data # [number, NOT number] @ data @ ck) @ s" "block_length data"
    and "length ck = length (checksum_bytes chk data)"
  shows "rx_turn expected chk y r = (let r' = r\<lparr>rx_device := (rx_device r)\<lparr>dv_in := s\<rparr>\<rparr> in
     if ck \<noteq> checksum_bytes chk data then rx_reject r'
     else if number = rx_block r then rx_accept expected data r'
     else if number = rx_block r - 1 then rx_answer ACK r' else rx_reject r')"
proof -
  let ?d = "(rx_device r)\<lparr>dv_in := wire ([number, NOT number] @ data @ ck) @ s\<rparr>"
  have "read_byte (rx_device r) = (Inr (block_start data), ?d)" using assms(1) by (simp add: read_byte_Some)
  moreover have "receive_block (block_start data) chk ?d
      = (if ck = checksum_bytes chk data then Inr (number, data) else Inl InvalidData, ?d\<lparr>dv_in := s\<rparr>)"
    by (rule receive_block_wire) (use assms(2,3) in \<open>simp_all add: block_length_def\<close>)
  ultimately show ?thesis using block_start_not [of data] by (auto simp: rx_turn_def Let_def)
qed

lemma turn_timeout: "dv_in (rx_device r) = None # s \<Longrightarrow>
    rx_turn expected chk y r = rx_reject (r\<lparr>rx_device := (rx_device r)\<lparr>dv_in := s\<rparr>\<rparr>)"
  by (simp add: rx_turn_def read_byte.simps)

lemma wait_eot: "dv_in d = Some EOT # s \<Longrightarrow> wait_for_control [EOT] d = (Inr EOT, d\<lparr>dv_in := s\<rparr>)"
  by (simp add: wait_for_control_def MAX_RETRIES_def numeral_eq_Suc read_byte_Some)

lemma turn_eot:
  assumes "dv_in (rx_device r) = Some EOT # (if y then [Some EOT] else []) @ s" "all_up (rx_device r)"
  shows "rx_turn expected chk y r = Inl (Inr (rx_received r), r\<lparr>rx_device := (rx_device r)\<lparr>dv_in := s,
    dv_out := dv_out (rx_device r) @ (if y then [NAK, ACK, CRC_REQUEST] else [ACK])\<rparr>\<rparr>)"
  using assms
  by (cases y) (simp_all add: rx_turn_def read_byte_Some rx_eot_def write_control_def dwrite_up sbind_def sreturn_def wait_eot)

lemma answer_up:
  assumes "all_up (rx_device r)" "rx_errors r < MAX_RETRIES"
  shows "rx_answer v r = Inr (r\<lparr>rx_device := (rx_device r)\<lparr>dv_out := dv_out (rx_device r) @ [v]\<rparr>\<rparr>)"
  using assms by (simp add: rx_answer_def write_control_def dwrite_up rx_check_def)

text \<open>
  What a working line may deliver while block \<open>n\<close> is awaited after \<open>e\<close> failures in a row: the blocks in
  order, each after repetitions of its predecessor, corrupted copies and silences, but never 16 failures in a row.
\<close>

inductive delivers :: "xmodem_checksum \<Rightarrow> bool \<Rightarrow> u8 \<Rightarrow> nat \<Rightarrow> u8 option list \<Rightarrow> u8 list list \<Rightarrow> u8 option list \<Rightarrow> bool"
  for chk :: xmodem_checksum and y :: bool where
  finish: "delivers chk y n e (Some EOT # (if y then [Some EOT] else []) @ rest) [] rest"
| block: "delivers chk y (n + 1) 0 s blocks rest \<Longrightarrow> block_length data
    \<Longrightarrow> delivers chk y n e (wire (frame chk n data) @ s) (data # blocks) rest"
| repetition: "delivers chk y n e s blocks rest \<Longrightarrow> block_length data \<Longrightarrow> e < MAX_RETRIES
    \<Longrightarrow> delivers chk y n e (wire (frame chk (n - 1) data) @ s) blocks rest"
| corrupted: "delivers chk y n (e + 1) s blocks rest \<Longrightarrow> block_length data \<Longrightarrow> e + 1 < MAX_RETRIES
    \<Longrightarrow> length ck = length (checksum_bytes chk data) \<Longrightarrow> ck \<noteq> checksum_bytes chk data
    \<Longrightarrow> delivers chk y n e (wire (block_start data # [number, NOT number] @ data @ ck) @ s) blocks rest"
| silence: "delivers chk y n (e + 1) s blocks rest \<Longrightarrow> e + 1 < MAX_RETRIES \<Longrightarrow> delivers chk y n e (None # s) blocks rest"

definition kept :: "nat option \<Rightarrow> nat \<Rightarrow> u8 list \<Rightarrow> u8 list" where
  "kept expected received bs = (case expected of None \<Rightarrow> bs | Some n \<Rightarrow> take (n - received) bs)"

definition fits :: "nat option \<Rightarrow> nat \<Rightarrow> nat \<Rightarrow> bool" where
  "fits expected received extra = (case expected of None \<Rightarrow> received + extra \<le> MAX_FILE_BYTES
     | Some n \<Rightarrow> received \<le> n \<and> n \<le> MAX_FILE_BYTES)"

lemma MAX_FILE_BYTES_u64: "n \<le> MAX_FILE_BYTES \<Longrightarrow> n \<le> u64_max"
  by (simp add: MAX_FILE_BYTES_def u64_max_def)

lemma sat_add_exact: "a + b \<le> u64_max \<Longrightarrow> sat_add a b = a + b"
  by (simp add: sat_add_def u64_max_def)

lemma accept_fits:
  fixes r :: rx
  assumes "fits expected (rx_received r) (length data + extra)" "all_up (rx_device r)"
  defines "kept_data \<equiv> kept expected (rx_received r) data"
  shows "rx_accept expected data r = Inr (r\<lparr>rx_output := rx_output r @ kept_data,
      rx_received := rx_received r + length kept_data, rx_block := rx_block r + 1, rx_errors := 0,
      rx_progress := rx_progress r @ [rx_received r + length kept_data],
      rx_device := (rx_device r)\<lparr>dv_out := dv_out (rx_device r) @ [ACK]\<rparr>\<rparr>)
    \<and> fits expected (rx_received r + length kept_data) extra"
proof (cases expected)
    case None
    then have "sat_add (rx_received r) (length data) = rx_received r + length data" "rx_received r + length data \<le> MAX_FILE_BYTES"
      using assms(1) MAX_FILE_BYTES_u64 by (auto simp: fits_def intro!: sat_add_exact)
    then show ?thesis using None assms
      by (simp add: rx_accept_def Let_def answer_up kept_def fits_def MAX_RETRIES_def)
  next
    case (Some n)
    let ?len = "min (n - rx_received r) (length data)"
    have "rx_received r + ?len \<le> MAX_FILE_BYTES" using assms(1) Some by (auto simp: fits_def min_def)
    then have "sat_add (rx_received r) ?len = rx_received r + ?len" by (intro sat_add_exact MAX_FILE_BYTES_u64)
    moreover have "take (min (length data) m) data = take m data" for m by (simp add: min_def)
  moreover have "rx_received r + min (length data) (n - rx_received r) \<le> n" using assms(1) Some by (auto simp: fits_def)
  ultimately show ?thesis using Some assms
      by (simp add: rx_accept_def Let_def answer_up kept_def fits_def MAX_RETRIES_def sat_sub_def min.commute)
qed

lemma kept_append: "kept expected received (xs @ ys)
    = kept expected received xs @ kept expected (received + length (kept expected received xs)) ys"
  by (cases expected) (auto simp: kept_def min_def)

lemma receive_unfold:
  "rx_turn expected chk y r = Inr r' \<Longrightarrow> receive_data_blocks expected chk y r = receive_data_blocks expected chk y r'"
  "rx_turn expected chk y r = Inl result \<Longrightarrow> receive_data_blocks expected chk y r = result"
  by (subst receive_data_blocks.simps; simp)+

lemma rx_reject_up:
  assumes "all_up (rx_device r)" "rx_errors r + 1 < MAX_RETRIES"
  shows "rx_reject r = Inr (r\<lparr>rx_errors := rx_errors r + 1,
    rx_device := (rx_device r)\<lparr>dv_out := dv_out (rx_device r) @ [NAK]\<rparr>\<rparr>)"
  unfolding rx_reject_def by (subst answer_up) (use assms in simp_all)

lemma frame_wire: "wire (frame chk n data) @ s = wire (block_start data # [n, NOT n] @ data @ checksum_bytes chk data) @ s"
  by (simp add: frame_split)

text \<open>The state a reception leaves.\<close>

definition received_all :: "nat option \<Rightarrow> rx \<Rightarrow> u8 list \<Rightarrow> u8 option list \<Rightarrow> (io_error + nat) \<times> rx \<Rightarrow> bool" where
  "received_all expected r bs rest result \<longleftrightarrow>
     fst result = Inr (rx_received r + length (kept expected (rx_received r) bs))
   \<and> rx_output (snd result) = rx_output r @ kept expected (rx_received r) bs
   \<and> dv_in (rx_device (snd result)) = rest \<and> all_up (rx_device (snd result))"

lemma delivers_received:
  assumes "delivers chk y n e s blocks rest"
  shows "dv_in (rx_device r) = s \<Longrightarrow> all_up (rx_device r) \<Longrightarrow> rx_block r = n \<Longrightarrow> rx_errors r = e
    \<Longrightarrow> fits expected (rx_received r) (length (concat blocks))
    \<Longrightarrow> received_all expected r (concat blocks) rest (receive_data_blocks expected chk y r)"
  using assms
proof (induction arbitrary: r)
  case (finish n e rest)
  note eot = receive_unfold(2) [OF turn_eot [OF finish.prems(1,2)]]
  show ?case unfolding eot using finish.prems by (simp add: received_all_def kept_def split: option.split)
next
  case (block n s blocks rest data e)
  let ?r = "r\<lparr>rx_device := (rx_device r)\<lparr>dv_in := s\<rparr>\<rparr>"
  have f: "fits expected (rx_received ?r) (length data + length (concat blocks))" and up: "all_up (rx_device ?r)"
    using block.prems by simp_all
  have "rx_turn expected chk y r = rx_accept expected data ?r"
    using turn_block [OF block.prems(1) [unfolded frame_wire] block.hyps(2) refl, of expected y] block.prems(3) by simp
  note step = receive_unfold(1) [OF this [unfolded accept_fits [OF f up, THEN conjunct1]]]
  show ?case unfolding step
    using block.IH [of "?r\<lparr>rx_output := rx_output ?r @ kept expected (rx_received ?r) data,
      rx_received := rx_received ?r + length (kept expected (rx_received ?r) data), rx_block := rx_block ?r + 1, rx_errors := 0,
      rx_progress := rx_progress ?r @ [rx_received ?r + length (kept expected (rx_received ?r) data)],
      rx_device := (rx_device ?r)\<lparr>dv_out := dv_out (rx_device ?r) @ [ACK]\<rparr>\<rparr>"]
      accept_fits [OF f up, THEN conjunct2] block.prems
    by (simp add: received_all_def kept_append add.assoc)
next
  case (repetition n e s blocks rest data)
  let ?r = "r\<lparr>rx_device := (rx_device r)\<lparr>dv_in := s\<rparr>\<rparr>"
  have "rx_turn expected chk y r = rx_answer ACK ?r"
    using turn_block [OF repetition.prems(1) [unfolded frame_wire] repetition.hyps(2) refl, of expected y]
      repetition.prems(3) by simp
  also have "\<dots> = Inr (?r\<lparr>rx_device := (rx_device ?r)\<lparr>dv_out := dv_out (rx_device ?r) @ [ACK]\<rparr>\<rparr>)"
    by (rule answer_up) (use repetition in simp_all)
  finally show ?case
    using repetition.IH [of "?r\<lparr>rx_device := (rx_device ?r)\<lparr>dv_out := dv_out (rx_device ?r) @ [ACK]\<rparr>\<rparr>"]
      repetition.prems by (simp add: receive_unfold(1) received_all_def)
next
  case (corrupted n e s blocks rest data ck number)
  let ?r = "r\<lparr>rx_device := (rx_device r)\<lparr>dv_in := s\<rparr>\<rparr>"
  have "rx_turn expected chk y r = rx_reject ?r"
    using turn_block [OF corrupted.prems(1) corrupted.hyps(2,4), of expected y] corrupted.hyps(5) by simp
  also have "\<dots> = Inr (?r\<lparr>rx_errors := rx_errors ?r + 1,
      rx_device := (rx_device ?r)\<lparr>dv_out := dv_out (rx_device ?r) @ [NAK]\<rparr>\<rparr>)"
    by (rule rx_reject_up) (use corrupted in simp_all)
  finally show ?case
    using corrupted.IH [of "?r\<lparr>rx_errors := rx_errors ?r + 1,
        rx_device := (rx_device ?r)\<lparr>dv_out := dv_out (rx_device ?r) @ [NAK]\<rparr>\<rparr>"]
      corrupted.prems by (simp add: receive_unfold(1) received_all_def)
next
  case (silence n e s blocks rest)
  let ?r = "r\<lparr>rx_device := (rx_device r)\<lparr>dv_in := s\<rparr>\<rparr>"
  have "rx_turn expected chk y r = rx_reject ?r" by (rule turn_timeout) (rule silence.prems(1))
  also have "\<dots> = Inr (?r\<lparr>rx_errors := rx_errors ?r + 1,
      rx_device := (rx_device ?r)\<lparr>dv_out := dv_out (rx_device ?r) @ [NAK]\<rparr>\<rparr>)"
    by (rule rx_reject_up) (use silence in simp_all)
  finally show ?case
    using silence.IH [of "?r\<lparr>rx_errors := rx_errors ?r + 1,
        rx_device := (rx_device ?r)\<lparr>dv_out := dv_out (rx_device ?r) @ [NAK]\<rparr>\<rparr>"]
      silence.prems by (simp add: receive_unfold(1) received_all_def)
qed

text \<open>Over a line that repeats, corrupts and delays blocks, a reception returns the data of the blocks, each
  once and in order, cut to the announced size, as long as there are never sixteen failures in a row.\<close>

theorem noisy_reception:
  assumes "delivers chk y 1 0 (dv_in d) blocks rest" "all_up d" "fits expected 0 (length (concat blocks))"
  shows "fst (receive_data_blocks expected chk y (new_rx d)) = Inr (length (kept expected 0 (concat blocks)))
    \<and> rx_output (snd (receive_data_blocks expected chk y (new_rx d))) = kept expected 0 (concat blocks)
    \<and> dv_in (rx_device (snd (receive_data_blocks expected chk y (new_rx d)))) = rest"
  using delivers_received [OF assms(1), of "new_rx d" expected] assms(2,3)
  by (simp add: new_rx_def received_all_def)

section \<open>Transfers\<close>

function padded_blocks :: "nat \<Rightarrow> u8 list \<Rightarrow> u8 list list" where
  "padded_blocks width source = (if take width source = [] then []
     else (take width source @ replicate (width - length (take width source)) PAD) # padded_blocks width (drop width source))"
  by pat_completeness auto
termination
  by (relation "measure (\<lambda>(_, source). length source)") auto

declare padded_blocks.simps [simp del]

primrec frames :: "xmodem_checksum \<Rightarrow> u8 \<Rightarrow> u8 list list \<Rightarrow> u8 list" where
  "frames chk n [] = []"
| "frames chk n (b # bs) = frame chk n b @ frames chk (n + 1) bs"

lemma padded_blocks_length: "b \<in> set (padded_blocks width source) \<Longrightarrow> length b = width"
proof (induction width source rule: padded_blocks.induct)
  case (1 width source)
  then show ?case by (subst (asm) (2) padded_blocks.simps) (auto split: if_splits)
qed

lemma concat_padded_blocks:
  "0 < width \<Longrightarrow> \<exists>k < width. concat (padded_blocks width source) = source @ replicate k PAD"
proof (induction width source rule: padded_blocks.induct)
  case (1 width source)
  show ?case
  proof (cases "source = []")
    case False
    then obtain k where k: "k < width" "concat (padded_blocks width (drop width source)) = drop width source @ replicate k PAD"
      using 1 by auto
    show ?thesis
    proof (cases "width \<le> length source")
      case True
      then show ?thesis using k False 1(2) by (subst padded_blocks.simps) (auto intro!: exI [of _ k])
    next
      case shorter: False
      then have "padded_blocks width (drop width source) = []" by (subst padded_blocks.simps) simp
      then show ?thesis using False shorter
        by (subst padded_blocks.simps) (auto intro!: exI [of _ "width - length source"])
    qed
  qed (use 1 in \<open>auto simp: padded_blocks.simps\<close>)
qed

lemma send_block_acked:
  assumes "dv_in d = Some ACK # s" "all_up d" "block_length data"
  shows "send_block number data chk d = (Inr (), d\<lparr>dv_in := s, dv_out := dv_out d @ frame chk number data\<rparr>)"
  using assms
  by (auto simp: send_block_def block_length_def MAX_RETRIES_def numeral_eq_Suc sbind_def dwrite_up read_byte_Some
      frame_def)

lemma send_data_acked:
  assumes "width = 128 \<or> width = 1024" "full = sent + length source" "full \<le> MAX_FILE_BYTES" "all_up d"
    and "dv_in d = replicate (length (padded_blocks width source)) (Some ACK) @ s"
  shows "\<exists>log. send_data_blocks chk width full number sent source reported d
    = (Inr (full, log), d\<lparr>dv_in := s, dv_out := dv_out d @ frames chk number (padded_blocks width source)\<rparr>)"
  using assms
proof (induction chk width full number sent source reported d rule: send_data_blocks.induct)
  case (1 chk width full number sent source reported d)
  show ?case
  proof (cases "take width source = []")
    case True
    then show ?thesis using 1 by (subst send_data_blocks.simps) (auto simp: padded_blocks.simps)
  next
    case False
    let ?block = "take width source @ replicate (width - length (take width source)) PAD"
    have blocks: "padded_blocks width source = ?block # padded_blocks width (drop width source)"
      using False by (subst padded_blocks.simps) simp
    have sent: "min (sat_add sent (length (take width source))) full = sent + length (take width source)"
      using 1(3,4) MAX_FILE_BYTES_u64 [of full] by (simp add: sat_add_exact min_def)
    let ?d = "d\<lparr>dv_in := replicate (length (padded_blocks width (drop width source))) (Some ACK) @ s,
      dv_out := dv_out d @ frame chk number ?block\<rparr>"
    have send: "send_block number ?block chk d = (Inr (), ?d)"
      by (rule send_block_acked) (use 1(2,5,6) blocks in \<open>auto simp: block_length_def\<close>)
    have "\<exists>log. send_data_blocks chk width full (number + 1) (sent + length (take width source)) (drop width source)
          (reported @ [sent + length (take width source)]) ?d
        = (Inr (full, log), ?d\<lparr>dv_in := s, dv_out := dv_out ?d @ frames chk (number + 1) (padded_blocks width (drop width source))\<rparr>)"
      using 1(1) [OF refl False send [symmetric] refl refl] sent 1(2-5) by simp
    then show ?thesis using False send sent blocks
      by (subst send_data_blocks.simps) (auto simp: Let_def)
  qed
qed

lemma frames_delivered:
  "(\<And>b. b \<in> set blocks \<Longrightarrow> block_length b)
    \<Longrightarrow> delivers chk y n 0 (wire (frames chk n blocks) @ Some EOT # (if y then [Some EOT] else []) @ rest) blocks rest"
proof (induction blocks arbitrary: n)
  case Nil
  show ?case using delivers.finish [of chk y n 0 rest] by simp
next
  case (Cons b blocks)
  then have "delivers chk y n 0 (wire (frame chk n b) @ wire (frames chk (n + 1) blocks)
      @ Some EOT # (if y then [Some EOT] else []) @ rest) (b # blocks) rest"
    by (intro delivers.block) simp_all
  then show ?case by simp
qed

text \<open>C24: A transfer over a clean line: what the sending loop writes for a source, when its blocks are
  acknowledged, is received as the source itself with its announced size (Ymodem), or followed by the padding of
  the last block (Xmodem), for both block sizes and both checksums.\<close>

theorem modem_transfer:
  assumes "all_up d" "dv_in d = replicate (length (padded_blocks (block_size use_1k) source)) (Some ACK)" "dv_out d = []"
    and "length source + 1024 \<le> MAX_FILE_BYTES" "all_up d'"
    and "send_data_blocks chk (block_size use_1k) (length source) 1 0 source [] d = (result, d1)"
    and "dv_in d' = wire (dv_out d1 @ [EOT] @ (if y then [EOT] else [])) @ rest"
  shows "fst (receive_data_blocks (Some (length source)) chk y (new_rx d')) = Inr (length source)
    \<and> rx_output (snd (receive_data_blocks (Some (length source)) chk y (new_rx d'))) = source
    \<and> (\<exists>k < block_size use_1k. rx_output (snd (receive_data_blocks None chk y (new_rx d'))) = source @ replicate k PAD)"
proof -
  let ?blocks = "padded_blocks (block_size use_1k) source"
  have width: "block_size use_1k = 128 \<or> block_size use_1k = 1024" by (simp add: block_size_def)
  have "dv_in d = replicate (length ?blocks) (Some ACK) @ []" using assms(2) by simp
  from send_data_acked [OF width _ _ assms(1) this, of "length source" 0 chk 1 "[]"] assms(3,4,6)
  have out: "dv_out d1 = frames chk 1 ?blocks" by auto
  have "block_length b" if "b \<in> set ?blocks" for b
    using padded_blocks_length [OF that] width by (simp add: block_length_def)
  then have del: "delivers chk y 1 0 (dv_in d') ?blocks rest"
    using frames_delivered [of ?blocks chk y 1 rest] assms(7) out by (cases y) simp_all
  obtain k where k: "k < block_size use_1k" "concat ?blocks = source @ replicate k PAD"
    using concat_padded_blocks [of "block_size use_1k" source] width by auto
  have kept: "kept (Some (length source)) 0 (concat ?blocks) = source" "kept None 0 (concat ?blocks) = source @ replicate k PAD"
    using k(2) by (simp_all add: kept_def)
  have fits: "fits (Some (length source)) 0 (length (concat ?blocks))" "fits None 0 (length (concat ?blocks))"
    using assms(4) k width by (auto simp: fits_def)
  show ?thesis
    using noisy_reception [OF del assms(5) fits(1)] noisy_reception [OF del assms(5) fits(2)] kept k(1) by auto
qed

section \<open>Witnesses\<close>

definition line :: "u8 option list \<Rightarrow> device" where
  "line s = \<lparr>dv_in = s, dv_out = [], dv_up = \<lambda>_. True\<rparr>"

lemma line_simps [simp]: "dv_in (line s) = s" "dv_out (line s) = []" "all_up (line s)" "(line s)\<lparr>dv_in := t\<rparr> = line t"
  by (simp_all add: line_def all_up_def)

theorem block_roundtrip_witness:
  "receive_block SOH Crc16 (line (wire (tl (frame Crc16 9 (replicate 128 7))) @ [None]))
    = (Inr (9, replicate 128 7), line [None])"
  using block_roundtrip [of "replicate 128 7" "line (wire (tl (frame Crc16 9 (replicate 128 7))) @ [None])" Crc16 9 "[None]"]
  by (simp add: frame_split block_start_def)

theorem noisy_reception_witness:
  "rx_output (snd (receive_data_blocks None Checksum False (new_rx (line (None
      # wire (SOH # [1, NOT 1] @ replicate 128 7 @ [0]) @ wire (frame Checksum 1 (replicate 128 7))
      @ wire (frame Checksum 1 (replicate 128 7)) @ [Some EOT]))))) = replicate 128 7"
proof -
  let ?data = "replicate 128 7 :: u8 list"
  have len: "block_length ?data" "block_start ?data = SOH" by (simp_all add: block_length_def block_start_def)
  have ck: "checksum_bytes Checksum ?data \<noteq> [0]" by (simp add: checksum8_def) code_simp
  have "delivers Checksum False 2 0 [Some EOT] [] []"
    using delivers.finish [of Checksum False 2 0 "[]"] by simp
  from delivers.repetition [OF this len(1)]
  have "delivers Checksum False 2 0 (wire (frame Checksum 1 ?data) @ [Some EOT]) [] []" by (simp add: MAX_RETRIES_def)
  then have "delivers Checksum False 1 2 (wire (frame Checksum 1 ?data) @ wire (frame Checksum 1 ?data) @ [Some EOT]) [?data] []"
    by (intro delivers.block len(1)) simp
  then have "delivers Checksum False 1 1 (wire (block_start ?data # [1, NOT 1] @ ?data @ [0])
      @ wire (frame Checksum 1 ?data) @ wire (frame Checksum 1 ?data) @ [Some EOT]) [?data] []"
    by (intro delivers.corrupted len(1)) (use ck in \<open>simp_all add: MAX_RETRIES_def flip: numeral_2_eq_2\<close>)
  then have "delivers Checksum False 1 0 (None # wire (block_start ?data # [1, NOT 1] @ ?data @ [0])
      @ wire (frame Checksum 1 ?data) @ wire (frame Checksum 1 ?data) @ [Some EOT]) [?data] []"
    by (intro delivers.silence) (simp_all add: MAX_RETRIES_def)
  then show ?thesis
    using noisy_reception [of Checksum False "line (None # wire (SOH # [1, NOT 1] @ ?data @ [0])
      @ wire (frame Checksum 1 ?data) @ wire (frame Checksum 1 ?data) @ [Some EOT])" "[?data]" "[]" None] len(2)
    by (simp add: fits_def kept_def MAX_FILE_BYTES_def)
qed

theorem modem_transfer_witness:
  "rx_output (snd (receive_data_blocks (Some 3) Crc16 True (new_rx (line (wire (dv_out (snd (send_data_blocks Crc16
      (block_size False) 3 1 0 [1, 2, 3] [] (line [Some ACK]))) @ [EOT, EOT])))))) = [1, 2, 3]"
proof -
  let ?r = "send_data_blocks Crc16 (block_size False) 3 1 0 [1, 2, 3] [] (line [Some ACK])"
  have "padded_blocks (block_size False) [1, 2, 3] = [[1, 2, 3] @ replicate 125 PAD]"
    by (subst padded_blocks.simps, subst padded_blocks.simps) (simp add: block_size_def)
  then show ?thesis
    using modem_transfer [of "line [Some ACK]" False "[1, 2, 3]" "line (wire (dv_out (snd ?r) @ [EOT, EOT]))" Crc16
        "fst ?r" "snd ?r" True "[]"]
    by (simp add: MAX_FILE_BYTES_def numeral_3_eq_3)
qed

end
