(* ===== verification/ModemFiles.thy ===== *)
theory ModemFiles
  imports ModemTransfer
begin

text \<open>
  The public operations of \<open>src-tauri/src/xymodem.rs\<close>: file headers, uploads and downloads with their
  checks, temporary files and conflict names. A folder is the destination directory; the local file system
  itself does not fail.
\<close>

section \<open>File headers\<close>

definition ymodem_header :: "string \<Rightarrow> nat \<Rightarrow> io_error + u8 list" where
  "ymodem_header name n =
     (if name = [] \<or> 100 < length name \<or> CHR ''/'' \<in> set name \<or> CHR 0x5C \<in> set name \<or> CHR 0x00 \<in> set name
      then Inl InvalidInput
      else (let digits = string_of_nat n; start = length name + 1
            in if 128 \<le> start + length digits then Inl InvalidInput
               else Inr (bytes_of name @ [0] @ bytes_of digits @ replicate (128 - start - length digits) 0)))"

definition unsafe_name :: "string \<Rightarrow> bool" where
  "unsafe_name name \<longleftrightarrow> 255 < length name \<or> name = ''.'' \<or> name = ''..'' \<or> has_control name
     \<or> CHR ''/'' \<in> set name \<or> CHR 0x5C \<in> set name"

text \<open>\<open>Ok(None)\<close> is the empty header that ends a batch.\<close>

definition parse_ymodem_header :: "u8 list \<Rightarrow> io_error + (string \<times> nat) option" where
  "parse_ymodem_header header =
     (let name_bytes = takeWhile (\<lambda>b. b \<noteq> 0) header
      in if name_bytes = header then Inl InvalidData
         else if name_bytes = [] then Inr None
         else rbind (ok_or (from_utf8 name_bytes) InvalidData) (\<lambda>name.
           rbind (guard (\<not> unsafe_name name) InvalidData) (\<lambda>_.
           (let metadata = drop (length name_bytes + 1) header;
                size_bytes = takeWhile (\<lambda>b. b \<noteq> 0 \<and> b \<noteq> 32) metadata
            in rbind (guard (size_bytes \<noteq> []) InvalidData) (\<lambda>_.
               rbind (ok_or (from_utf8 size_bytes) InvalidData) (\<lambda>text.
               rbind (ok_or (parse_unsigned u64_max text) InvalidData) (\<lambda>n.
               rbind (guard (n \<le> MAX_FILE_BYTES) InvalidData) (\<lambda>_. Inr (Some (name, n))))))))))"

section \<open>Uploads\<close>

record upload =
  up_regular :: bool
  up_symlink :: bool
  up_name :: "string option"
  up_content :: "u8 list"

definition validate_upload :: "upload \<Rightarrow> io_error + unit" where
  "validate_upload u =
     (if \<not> up_regular u \<or> MAX_FILE_BYTES < length (up_content u) then Inl InvalidInput
      else if up_symlink u then Inl InvalidInput else Inr ())"

definition local_file_name :: "upload \<Rightarrow> io_error + string" where
  "local_file_name u = rbind (ok_or (up_name u) InvalidInput) (\<lambda>name.
     rbind (guard (\<not> has_control name) InvalidInput) (\<lambda>_. Inr name))"

definition lift :: "'e + 'a \<Rightarrow> 's \<Rightarrow> ('e + 'a) \<times> 's" where
  "lift m s = (m, s)"

definition xmodem_send :: "upload \<Rightarrow> bool \<Rightarrow> nat dev" where
  "xmodem_send u use_1k =
     sbind (lift (validate_upload u)) (\<lambda>_. sbind (lift (local_file_name u)) (\<lambda>name.
     sbind wait_for_receiver (\<lambda>chk.
     sbind (send_data_blocks chk (block_size use_1k) (length (up_content u)) 1 0 (up_content u) []) (\<lambda>(sent, _).
     sbind finish_xmodem_send (\<lambda>_. sreturn sent)))))"

definition ymodem_send_file :: "upload \<Rightarrow> nat dev" where
  "ymodem_send_file u =
     sbind (lift (validate_upload u)) (\<lambda>_. sbind (lift (local_file_name u)) (\<lambda>name.
     sbind (lift (ymodem_header name (length (up_content u)))) (\<lambda>header.
     sbind (send_block 0 header Crc16) (\<lambda>_. sbind wait_for_crc (\<lambda>_.
     sbind (send_data_blocks Crc16 (block_size True) (length (up_content u)) 1 0 (up_content u) []) (\<lambda>(sent, _).
     sbind finish_ymodem_file_send (\<lambda>_. sbind wait_for_crc (\<lambda>_. sreturn sent))))))))"

primrec ymodem_send_files :: "nat \<Rightarrow> upload list \<Rightarrow> nat dev" where
  "ymodem_send_files sent [] = sbind (send_block 0 (replicate 128 0) Crc16) (\<lambda>_. sreturn sent)"
| "ymodem_send_files sent (u # us) = sbind (ymodem_send_file u) (\<lambda>n. ymodem_send_files (sat_add sent n) us)"

definition ymodem_send :: "upload list \<Rightarrow> nat dev" where
  "ymodem_send us =
     (if us = [] \<or> MAX_FILES < length us then sfail InvalidInput
      else sbind wait_for_crc (\<lambda>_. ymodem_send_files 0 us))"

section \<open>Downloads\<close>

record folder =
  fd_files :: "string \<Rightarrow> u8 list option"
  fd_dirs :: "string list"

definition taken :: "string \<Rightarrow> folder \<Rightarrow> bool" where
  "taken name f \<longleftrightarrow> fd_files f name \<noteq> None \<or> name \<in> set (fd_dirs f)"

definition remove_file :: "string \<Rightarrow> folder \<Rightarrow> folder" where
  "remove_file name f = f\<lparr>fd_files := (fd_files f)(name := None)\<rparr>"

definition save_file :: "string \<Rightarrow> u8 list \<Rightarrow> folder \<Rightarrow> folder" where
  "save_file name bs f = f\<lparr>fd_files := (fd_files f)(name := Some bs)\<rparr>"

definition temporary_name :: "string \<Rightarrow> string \<Rightarrow> string" where
  "temporary_name uuid name = ''.'' @ name @ ''.cnshell-'' @ uuid @ ''.part''"

text \<open>\<open>Path::file_stem\<close> and \<open>Path::extension\<close>: the last dot splits, unless it is the first character.\<close>

definition split_name :: "string \<Rightarrow> string \<times> string option" where
  "split_name name =
     (let ext = rev (takeWhile (\<lambda>c. c \<noteq> CHR ''.'') (rev name));
          stem = take (length name - length ext - 1) name
      in if CHR ''.'' \<notin> set name \<or> stem = [] then (name, None) else (stem, Some ext))"

definition renamed :: "string \<Rightarrow> nat \<Rightarrow> string" where
  "renamed name index = (case split_name name of
     (stem, Some ext) \<Rightarrow> stem @ '' ('' @ string_of_nat index @ '').'' @ ext
   | (stem, None) \<Rightarrow> stem @ '' ('' @ string_of_nat index @ '')'')"

function free_index :: "folder \<Rightarrow> string \<Rightarrow> nat \<Rightarrow> string option" where
  "free_index f name index =
     (if 10000 < index then None
      else if \<not> taken (renamed name index) f then Some (renamed name index)
      else free_index f name (index + 1))"
  by pat_completeness auto
termination
  by (relation "measure (\<lambda>(f, name, index). 10001 - index)") auto

declare free_index.simps [simp del]

definition conflict_path :: "folder \<Rightarrow> string \<Rightarrow> io_error + string" where
  "conflict_path f name = (if \<not> taken name f then Inr name else ok_or (free_index f name 1) AlreadyExists)"

primrec write_controls :: "u8 list \<Rightarrow> unit dev" where
  "write_controls [] = sreturn ()"
| "write_controls (v # vs) = sbind (write_control v) (\<lambda>_. write_controls vs)"

text \<open>
  The closure both downloads run: the temporary file is created anew, the blocks are received into it, and it is
  renamed to its final name; whatever fails, the temporary file is removed.
\<close>

definition receive_file ::
    "u8 list \<Rightarrow> nat option \<Rightarrow> xmodem_checksum \<Rightarrow> bool \<Rightarrow> string \<Rightarrow> string \<Rightarrow> device \<times> folder
      \<Rightarrow> (io_error + nat) \<times> device \<times> folder" where
  "receive_file greeting expected chk y temporary final df =
     (let (d, f) = df
      in if taken temporary f then (Inl AlreadyExists, d, remove_file temporary f)
         else case write_controls greeting d of
             (Inl e, d) \<Rightarrow> (Inl e, d, remove_file temporary f)
           | (Inr _, d) \<Rightarrow>
              (case receive_data_blocks expected chk y (new_rx d) of
                 (Inl e, r) \<Rightarrow> (Inl e, rx_device r, remove_file temporary f)
               | (Inr n, r) \<Rightarrow> (Inr n, rx_device r, save_file final (rx_output r) (remove_file temporary f))))"

record destination =
  ds_absolute :: bool
  ds_name :: "string option"
  ds_is_dir :: bool
  ds_parent_is_dir :: bool

definition validate_xmodem_destination :: "destination \<Rightarrow> io_error + string" where
  "validate_xmodem_destination t = (case ds_name t of
     None \<Rightarrow> Inl InvalidInput
   | Some name \<Rightarrow> (if \<not> ds_absolute t \<or> ds_is_dir t \<or> \<not> ds_parent_is_dir t then Inl InvalidInput else Inr name))"

definition xmodem_receive ::
    "string \<Rightarrow> destination \<Rightarrow> xmodem_checksum \<Rightarrow> device \<times> folder \<Rightarrow> (io_error + nat) \<times> device \<times> folder" where
  "xmodem_receive uuid t chk df =
     (case validate_xmodem_destination t of
        Inl e \<Rightarrow> (Inl e, df)
      | Inr name \<Rightarrow> receive_file [if chk = Crc16 then CRC_REQUEST else NAK] None chk False (temporary_name uuid name) name df)"

fun header_attempts :: "nat \<Rightarrow> u8 list dev" where
  "header_attempts 0 d = (Inl TimedOut, cancel_peer d)"
| "header_attempts (Suc n) d =
     (let again = (\<lambda>v. sbind (write_control v) (\<lambda>_. header_attempts n))
      in case read_byte d of
        (Inl _, d) \<Rightarrow> again CRC_REQUEST d
      | (Inr b, d) \<Rightarrow>
          (if b = SOH \<or> b = STX then
             (case receive_block b Crc16 d of
                (Inr (number, data), d) \<Rightarrow> (if number = 0 then (Inr data, d) else again NAK d)
              | (Inl _, d) \<Rightarrow> again NAK d)
           else if b = CAN then (let (cancelled, d) = read_is CAN d in
             if cancelled then (Inl ConnectionAborted, d) else again CRC_REQUEST d)
           else again CRC_REQUEST d))"

definition receive_header :: "u8 list dev" where
  "receive_header = header_attempts MAX_RETRIES"

section \<open>Batches\<close>

record batch =
  bt_device :: device
  bt_folder :: folder
  bt_total :: nat
  bt_files :: nat

type_synonym batch_step = "((io_error + nat) \<times> device \<times> folder) + batch"

text \<open>One turn of the loop of \<open>ymodem_receive\<close>; \<open>uuid\<close> numbers the temporary names.\<close>

definition batch_turn :: "(nat \<Rightarrow> string) \<Rightarrow> batch \<Rightarrow> batch_step" where
  "batch_turn uuid b =
     (case receive_header (bt_device b) of
        (Inl e, d) \<Rightarrow> Inl (Inl e, d, bt_folder b)
      | (Inr header, d) \<Rightarrow>
         (case parse_ymodem_header header of
            Inl e \<Rightarrow> Inl (Inl e, d, bt_folder b)
          | Inr None \<Rightarrow>
             (case write_control ACK d of
                (Inl e, d) \<Rightarrow> Inl (Inl e, d, bt_folder b)
              | (Inr _, d) \<Rightarrow> Inl (Inr (bt_total b), d, bt_folder b))
          | Inr (Some (name, n)) \<Rightarrow>
             (if MAX_FILES < bt_files b + 1 then Inl (Inl InvalidData, cancel_peer d, bt_folder b)
              else case conflict_path (bt_folder b) name of
                  Inl e \<Rightarrow> Inl (Inl e, d, bt_folder b)
                | Inr final \<Rightarrow>
                   (case receive_file [ACK, CRC_REQUEST] (Some n) Crc16 True
                       (temporary_name (uuid (bt_files b)) final) final (d, bt_folder b) of
                      (Inl e, df) \<Rightarrow> Inl (Inl e, df)
                    | (Inr received, d, f) \<Rightarrow>
                        Inr \<lparr>bt_device = d, bt_folder = f, bt_total = sat_add (bt_total b) received,
                             bt_files = bt_files b + 1\<rparr>))))"

lemma write_controls_in: "write_controls vs d = (r, d') \<Longrightarrow> dv_in d' = dv_in d"
  by (induction vs arbitrary: d)
    (auto simp: sreturn_def sbind_def dest!: write_control_in split: prod.splits sum.splits)

lemma wait_attempts_consumes [consumes]: "wait_attempts n accepted d = (r, d') \<Longrightarrow> left d' \<le> left d"
proof (induction n arbitrary: d)
  case (Suc n)
  show ?case using Suc.prems
    by (auto simp: Let_def dest!: Suc.IH read_byte_consumes read_is_consumes
        split: prod.splits sum.splits if_split_asm)
qed auto

lemma rx_eot_consumes: "rx_eot y d = (r, d') \<Longrightarrow> left d' \<le> left d"
  by (auto simp: rx_eot_def sbind_def sreturn_def wait_for_control_def dest!: write_control_in wait_attempts_consumes
      split: prod.splits sum.splits if_split_asm)

lemma rx_answer_consumes: "rx_answer v r = Inl (q, r') \<Longrightarrow> left (rx_device r') \<le> left (rx_device r)"
  by (auto simp: rx_answer_def rx_check_def dest!: write_control_in split: prod.splits sum.splits if_split_asm)

lemma rx_turn_ends_consumes: "rx_turn expected chk y r = Inl (q, r') \<Longrightarrow> left (rx_device r') \<le> left (rx_device r)"
  by (auto simp: rx_turn_def rx_reject_def rx_accept_def rx_check_def Let_def
      dest!: rx_answer_consumes rx_eot_consumes read_byte_consumes read_is_consumes receive_block_consumes
      split: prod.splits sum.splits if_split_asm)

lemma receive_data_consumes: "receive_data_blocks expected chk y r = (q, r') \<Longrightarrow> left (rx_device r') \<le> left (rx_device r)"
proof (induction expected chk y r rule: receive_data_blocks.induct)
  case (1 expected chk y r)
  show ?case
  proof (cases "rx_turn expected chk y r")
    case (Inl result)
    then show ?thesis using 1(2) rx_turn_ends_consumes by (cases result) (auto simp: receive_unfold(2))
  next
    case (Inr r1)
    have "left (rx_device r1) \<le> left (rx_device r)" using rx_turn_decreases [OF Inr] by auto
    then show ?thesis using 1(1) [OF Inr] 1(2) by (simp add: receive_unfold(1) [OF Inr])
  qed
qed

lemma receive_file_consumes:
  "receive_file vs expected chk y tmp final (d, f) = (q, d', f') \<Longrightarrow> left d' \<le> left d"
  by (auto simp: receive_file_def new_rx_def dest!: write_controls_in receive_data_consumes
      split: prod.splits sum.splits if_split_asm)

lemma header_consumes: "header_attempts n d = (Inr header, d') \<Longrightarrow> left d' < left d"
proof (induction n arbitrary: d)
  case (Suc n)
  obtain q e where q: "read_byte d = (q, e)" by fastforce
  then have "left e = left d - 1" using read_byte_left [of d] by simp
  show ?case
  proof (cases q)
    case (Inl err)
    then show ?thesis using Suc q read_byte_consumes [OF q]
      by (fastforce simp: sbind_def dest: write_control_in split: prod.splits sum.splits)
  next
    case (Inr b)
    then have "left e < left d" using q \<open>left e = left d - 1\<close> by (auto simp: read_byte.simps split: list.splits)
    then show ?thesis using Suc q Inr
      by (fastforce simp: sbind_def Let_def dest: write_control_in receive_block_consumes read_is_consumes
          split: prod.splits sum.splits if_split_asm)
  qed
qed simp

lemma batch_turn_decreases: "batch_turn uuid b = Inr b' \<Longrightarrow> left (bt_device b') < left (bt_device b)"
  by (fastforce simp: batch_turn_def receive_header_def dest: header_consumes receive_file_consumes
      split: prod.splits sum.splits option.splits if_split_asm)

function batch_loop :: "(nat \<Rightarrow> string) \<Rightarrow> batch \<Rightarrow> (io_error + nat) \<times> device \<times> folder" where
  "batch_loop uuid b = (case batch_turn uuid b of Inl result \<Rightarrow> result | Inr b' \<Rightarrow> batch_loop uuid b')"
  by pat_completeness auto
termination
  by (relation "measure (\<lambda>(_, b). left (bt_device b))") (auto dest: batch_turn_decreases)

declare batch_loop.simps [simp del]

definition ymodem_receive ::
    "(nat \<Rightarrow> string) \<Rightarrow> bool \<Rightarrow> device \<times> folder \<Rightarrow> (io_error + nat) \<times> device \<times> folder" where
  "ymodem_receive uuid is_dir df =
     (if \<not> is_dir then (Inl InvalidInput, df)
      else case write_control CRC_REQUEST (fst df) of
          (Inl e, d) \<Rightarrow> (Inl e, d, snd df)
        | (Inr _, d) \<Rightarrow> batch_loop uuid \<lparr>bt_device = d, bt_folder = snd df, bt_total = 0, bt_files = 0\<rparr>)"

end
