(* ===== verification/ModemSafety.thy ===== *)
theory ModemSafety
  imports ModemFiles
begin

text \<open>
  What uploads and downloads guarantee: headers are read back, downloads leave nothing behind when they fail,
  a peer cannot overwrite or escape, and a batch arrives completely.
\<close>

section \<open>Headers\<close>

definition valid_name :: "string \<Rightarrow> bool" where
  "valid_name name \<longleftrightarrow> name \<noteq> [] \<and> length name \<le> 100 \<and> CHR 0x00 \<notin> set name
     \<and> \<not> unsafe_name name \<and> utf8_valid (map of_char name)"

lemma unat_bytes_of: "map unat (bytes_of s) = map of_char s"
  using nat_of_char_less_256 by (simp add: bytes_of_def unat_of_nat)

lemma from_utf8_bytes_of: "utf8_valid (map of_char s) \<Longrightarrow> from_utf8 (bytes_of s) = Some s"
  by (simp add: from_utf8_def unat_bytes_of)

lemma bytes_of_eq_0: "word_of_nat (of_char c) = (0 :: u8) \<longleftrightarrow> c = CHR 0x00"
proof
  assume "word_of_nat (of_char c) = (0 :: u8)"
  then have "unat (word_of_nat (of_char c) :: u8) = 0" by simp
  then have "(of_char c :: nat) = 0" using nat_of_char_less_256 [of c] by (simp add: unat_of_nat)
  then have "(of_char c :: nat) = of_char (CHR 0x00)" by simp
  then show "c = CHR 0x00" by (simp only: of_char_eq_iff)
qed simp

lemma bytes_of_Nil: "bytes_of s = [] \<longleftrightarrow> s = []"
  by (simp add: bytes_of_def)

lemma takeWhile_bytes_of:
  "(\<And>b. b \<in> set bs \<Longrightarrow> P b) \<Longrightarrow> \<not> P x \<Longrightarrow> takeWhile P (bs @ x # xs) = bs"
  by (induction bs) auto

lemma digits_length: "length (string_of_nat n) \<le> k \<longleftrightarrow> n < 10 ^ k" if "0 < k"
  using that
proof (induction n arbitrary: k rule: string_of_nat.induct)
  case (1 n)
  show ?case
  proof (cases "n < 10")
    case True
    have "(10::nat) ^ 1 \<le> 10 ^ k" using 1(2) by (intro power_increasing) auto
    then show ?thesis using True 1(2) by (subst string_of_nat.simps) simp
  next
    case False
    then obtain j where k: "k = Suc j" using 1(2) by (cases k) auto
    show ?thesis
    proof (cases "j = 0")
      case True
      then show ?thesis using False k by (subst string_of_nat.simps) simp
    next
      case j: False
      then have "length (string_of_nat (n div 10)) \<le> j \<longleftrightarrow> n div 10 < 10 ^ j" using 1(1) False by simp
      then show ?thesis using False k by (subst string_of_nat.simps) (simp add: div_less_iff_less_mult mult.commute)
    qed
  qed
qed

text \<open>Every safe file name of at most 100 bytes and every size up to 50 GB fit into a header, and the header
  is read back as exactly that name and size.\<close>

theorem header_roundtrip:
  assumes "valid_name name" "n \<le> MAX_FILE_BYTES"
  shows "\<exists>header. ymodem_header name n = Inr header \<and> length header = 128 \<and> parse_ymodem_header header = Inr (Some (name, n))"
proof -
  have "n < 10 ^ 11" using assms(2) by (simp add: MAX_FILE_BYTES_def)
  then have digits: "length (string_of_nat n) \<le> 11" using digits_length [of 11 n] by simp
  have name: "name \<noteq> []" "length name \<le> 100" "CHR 0x00 \<notin> set name" "\<not> unsafe_name name" "utf8_valid (map of_char name)"
    using assms(1) by (auto simp: valid_name_def)
  define pad where "pad = replicate (128 - (length name + 1) - length (string_of_nat n)) (0 :: u8)"
  obtain m where "128 - (length name + 1) - length (string_of_nat n) = Suc m"
    using digits name(2) by (cases "128 - (length name + 1) - length (string_of_nat n)") auto
  then have pad: "pad = 0 # tl pad" by (simp add: pad_def)
  let ?header = "bytes_of name @ [0] @ bytes_of (string_of_nat n) @ pad"
  have header: "ymodem_header name n = Inr ?header" "length ?header = 128"
    using name digits by (auto simp: ymodem_header_def Let_def pad_def unsafe_name_def)
  have "b \<noteq> 0" if b: "b \<in> set (bytes_of name)" for b
  proof -
    obtain c where c: "c \<in> set name" "b = word_of_nat (of_char c)" using b unfolding bytes_of_def set_map by (rule imageE)
    have "c \<noteq> CHR 0x00" using c(1) name(3) by metis
    then show "b \<noteq> 0" unfolding c(2) bytes_of_eq_0 .
  qed
  then have tw_name: "takeWhile (\<lambda>b. b \<noteq> 0) ?header = bytes_of name"
    unfolding append_Cons append_Nil by (rule takeWhile_bytes_of) simp_all
  have dig: "b \<noteq> 0 \<and> b \<noteq> 32" if b: "b \<in> set (bytes_of (string_of_nat n))" for b
  proof -
    obtain c where c: "b = word_of_nat (of_char c)" "CHR ''0'' \<le> c" using b digits_of_nat by (auto simp: bytes_of_def)
    then have "48 \<le> unat b" using nat_of_char_less_256 [of c] by (simp add: unat_of_nat less_eq_char_def)
    then show ?thesis by auto
  qed
  have tw_size: "takeWhile (\<lambda>b. b \<noteq> 0 \<and> b \<noteq> 32) (bytes_of (string_of_nat n) @ pad) = bytes_of (string_of_nat n)"
    by (subst pad) (rule takeWhile_bytes_of, use dig in auto)
  have "utf8_valid (map of_char (string_of_nat n))"
  proof (rule utf8_valid_ascii)
    fix b assume "b \<in> set (map of_char (string_of_nat n) :: nat list)"
    then obtain c where "b = of_char c" "c \<le> CHR ''9''" using digits_of_nat by auto
    then show "b < 128" by (simp add: less_eq_char_def)
  qed
  moreover have "n \<le> u64_max" using assms(2) by (rule MAX_FILE_BYTES_u64)
  ultimately have "parse_ymodem_header ?header = Inr (Some (name, n))"
    using tw_name tw_size name assms(2)
    by (simp add: parse_ymodem_header_def Let_def from_utf8_bytes_of parse_unsigned_string_of_nat bytes_of_Nil)
  then show ?thesis using header by blast
qed

theorem header_roundtrip_witness:
  "\<exists>header. ymodem_header ''a.txt'' 5 = Inr header \<and> parse_ymodem_header header = Inr (Some (''a.txt'', 5))"
proof -
  have "valid_name ''a.txt''" by code_simp
  then show ?thesis using header_roundtrip [of "''a.txt''" 5] by (auto simp: MAX_FILE_BYTES_def)
qed

section \<open>Downloads\<close>

text \<open>The bytes received are counted exactly, and an announced size is a limit.\<close>

definition rx_ok :: "nat option \<Rightarrow> rx \<Rightarrow> bool" where
  "rx_ok expected r \<longleftrightarrow> length (rx_output r) = rx_received r
     \<and> (case expected of None \<Rightarrow> rx_received r \<le> MAX_FILE_BYTES | Some n \<Rightarrow> rx_received r \<le> n \<and> n \<le> MAX_FILE_BYTES)"

lemma rx_ok_update [simp]: "rx_ok expected (r\<lparr>rx_device := d\<rparr>) = rx_ok expected r"
  "rx_ok expected (r\<lparr>rx_errors := k\<rparr>) = rx_ok expected r"
  by (simp_all add: rx_ok_def split: option.split)

lemma rx_answer_ok: "rx_ok expected r \<Longrightarrow> rx_answer v r = Inr r' \<Longrightarrow> rx_ok expected r'"
  "rx_ok expected r \<Longrightarrow> rx_answer v r = Inl (q, r') \<Longrightarrow> rx_ok expected r' \<and> (\<exists>e. q = Inl e)"
  by (auto simp: rx_answer_def rx_check_def split: prod.splits sum.splits if_split_asm)

lemma rx_accept_ok:
  assumes "rx_ok expected r"
  shows "rx_accept expected data r = Inr r' \<Longrightarrow> rx_ok expected r'"
    "rx_accept expected data r = Inl (q, r') \<Longrightarrow> rx_ok expected r' \<and> (\<exists>e. q = Inl e)"
proof -
  let ?remaining = "case expected of Some n \<Rightarrow> sat_sub n (rx_received r) | None \<Rightarrow> length data"
  let ?len = "min ?remaining (length data)"
  let ?r = "r\<lparr>rx_output := rx_output r @ take ?len data, rx_received := sat_add (rx_received r) ?len,
    rx_block := rx_block r + 1, rx_errors := 0, rx_progress := rx_progress r @ [sat_add (rx_received r) ?len]\<rparr>"
  have ok: "rx_ok expected ?r" if "\<not> (expected = None \<and> MAX_FILE_BYTES < sat_add (rx_received r) (length data))"
  proof -
    have "rx_received r + ?len \<le> MAX_FILE_BYTES"
      using that assms
      by (cases expected) (auto simp: rx_ok_def sat_add_def sat_sub_def min_def MAX_FILE_BYTES_def u64_max_def split: if_split_asm)
    then have "sat_add (rx_received r) ?len = rx_received r + ?len" by (intro sat_add_exact MAX_FILE_BYTES_u64)
    then show ?thesis using assms \<open>rx_received r + ?len \<le> MAX_FILE_BYTES\<close>
      by (cases expected) (auto simp: rx_ok_def sat_sub_def min_def)
  qed
  show "rx_accept expected data r = Inr r' \<Longrightarrow> rx_ok expected r'"
    using ok rx_answer_ok(1) by (auto simp: rx_accept_def Let_def split: if_split_asm)
  show "rx_accept expected data r = Inl (q, r') \<Longrightarrow> rx_ok expected r' \<and> (\<exists>e. q = Inl e)"
    using ok rx_answer_ok(2) assms by (auto simp: rx_accept_def Let_def split: if_split_asm)
qed

lemma rx_turn_ok:
  assumes "rx_ok expected r"
  shows "rx_turn expected chk y r = Inr r' \<Longrightarrow> rx_ok expected r'"
    "rx_turn expected chk y r = Inl (Inr n, r') \<Longrightarrow> rx_ok expected r' \<and> n = rx_received r'"
proof -
  have ok: "rx_ok expected (r\<lparr>rx_device := d\<rparr>)" "rx_ok expected (r\<lparr>rx_device := d, rx_errors := k\<rparr>)" for d k
    using assms by simp_all
  show "rx_turn expected chk y r = Inr r' \<Longrightarrow> rx_ok expected r'"
    using rx_accept_ok(1) [OF ok(1)] rx_answer_ok(1) [OF ok(1)] rx_answer_ok(1) [OF ok(2)] ok
    by (auto simp: rx_turn_def rx_reject_def Let_def dest!: rx_check_left split: prod.splits sum.splits if_split_asm)
  show "rx_turn expected chk y r = Inl (Inr n, r') \<Longrightarrow> rx_ok expected r' \<and> n = rx_received r'"
    using rx_accept_ok(2) [OF ok(1)] rx_answer_ok(2) [OF ok(1)] rx_answer_ok(2) [OF ok(2)] ok
    by (fastforce simp: rx_turn_def rx_reject_def rx_check_def Let_def split: prod.splits sum.splits if_split_asm)
qed

lemma receive_data_ok:
  "receive_data_blocks expected chk y r = (Inr n, r') \<Longrightarrow> rx_ok expected r \<Longrightarrow> rx_ok expected r' \<and> n = rx_received r'"
proof (induction expected chk y r rule: receive_data_blocks.induct)
  case (1 expected chk y r)
  show ?case
  proof (cases "rx_turn expected chk y r")
    case (Inl result)
    then show ?thesis using 1(2,3) rx_turn_ok(2) by (simp add: receive_unfold(2))
  next
    case (Inr r1)
    then show ?thesis using 1 rx_turn_ok(1) by (simp add: receive_unfold(1))
  qed
qed

lemma receive_file_effect:
  assumes "receive_file vs expected chk y tmp final (d, f) = (q, d', f')"
    and "\<And>n. expected = Some n \<Longrightarrow> n \<le> MAX_FILE_BYTES"
  shows "case q of Inl e \<Rightarrow> f' = remove_file tmp f
    | Inr n \<Rightarrow> \<exists>bs. f' = save_file final bs (remove_file tmp f) \<and> length bs = n \<and> n \<le> MAX_FILE_BYTES
        \<and> (\<forall>m. expected = Some m \<longrightarrow> n \<le> m)"
proof (cases q)
  case (Inl e)
  then show ?thesis using assms(1) by (auto simp: receive_file_def Let_def split: prod.splits sum.splits if_split_asm)
next
  case (Inr n)
  then obtain d1 r where r: "receive_data_blocks expected chk y (new_rx d1) = (Inr n, r)"
    and f': "f' = save_file final (rx_output r) (remove_file tmp f)"
    using assms(1) by (auto simp: receive_file_def Let_def split: prod.splits sum.splits if_split_asm)
  have "rx_ok expected (new_rx d1)" using assms(2) by (simp add: rx_ok_def new_rx_def split: option.split)
  from receive_data_ok [OF r this] show ?thesis using Inr f' by (auto simp: rx_ok_def split: option.splits)
qed


definition sample_folder :: folder where
  "sample_folder = \<lparr>fd_files = [''a.txt'' \<mapsto> [1]], fd_dirs = []\<rparr>"

definition sample_target :: destination where
  "sample_target = \<lparr>ds_absolute = True, ds_name = Some ''b.bin'', ds_is_dir = False, ds_parent_is_dir = True\<rparr>"


section \<open>Names in the folder\<close>

definition safe_name :: "string \<Rightarrow> bool" where
  "safe_name name \<longleftrightarrow> CHR ''/'' \<notin> set name \<and> CHR 0x5C \<notin> set name \<and> name \<noteq> ''.'' \<and> name \<noteq> ''..''"

lemma split_name_set: "split_name name = (stem, ext) \<Longrightarrow> set stem \<subseteq> set name \<and> (\<forall>e. ext = Some e \<longrightarrow> set e \<subseteq> set name)"
  by (auto simp: split_name_def Let_def dest!: set_takeWhileD dest: in_set_takeD split: if_splits)

lemma renamed_safe: "safe_name name \<Longrightarrow> safe_name (renamed name index)"
proof -
  assume safe: "safe_name name"
  obtain stem ext where split: "split_name name = (stem, ext)" by fastforce
  have digits: "CHR ''/'' \<notin> set (string_of_nat index)" "CHR 0x5C \<notin> set (string_of_nat index)"
    using digits_of_nat by (fastforce simp: less_eq_char_def)+
  have paren: "CHR ''('' \<in> set (renamed name index)" by (simp add: renamed_def split split: option.split)
  then have "renamed name index \<noteq> ''.''" "renamed name index \<noteq> ''..''" by auto
  moreover have "CHR ''/'' \<notin> set (renamed name index)" "CHR 0x5C \<notin> set (renamed name index)"
    using split_name_set [OF split] safe digits unfolding renamed_def split safe_name_def
    by (cases ext; auto)+
  ultimately show ?thesis by (simp add: safe_name_def)
qed

lemma free_index_Some: "free_index f name i = Some final \<Longrightarrow> \<not> taken final f \<and> (\<exists>k. final = renamed name k)"
proof (induction f name i rule: free_index.induct)
  case (1 f name i)
  then show ?case using free_index.simps [of f name i] by (auto split: if_split_asm)
qed

lemma conflict_path_Inr:
  "conflict_path f name = Inr final \<Longrightarrow> safe_name name \<Longrightarrow> \<not> taken final f \<and> safe_name final"
  by (auto simp: conflict_path_def res_iff renamed_safe dest: free_index_Some split: if_split_asm)

lemma parse_header_safe:
  "parse_ymodem_header header = Inr (Some (name, n)) \<Longrightarrow> safe_name name \<and> n \<le> MAX_FILE_BYTES"
  by (auto simp: parse_ymodem_header_def Let_def res_iff unsafe_name_def safe_name_def split: if_split_asm)

text \<open>What a batch may do to the folder it started from.\<close>

definition extends :: "folder \<Rightarrow> folder \<Rightarrow> bool" where
  "extends f0 f \<longleftrightarrow> fd_files f0 \<subseteq>\<^sub>m fd_files f \<and> fd_dirs f = fd_dirs f0
     \<and> (\<forall>name bs. fd_files f name = Some bs \<longrightarrow> fd_files f0 name = None \<longrightarrow> safe_name name \<and> length bs \<le> MAX_FILE_BYTES)"

lemma extends_refl: "extends f f"
  by (auto simp: extends_def)

lemma extends_remove: "extends f0 f \<Longrightarrow> fd_files f0 tmp = None \<Longrightarrow> extends f0 (remove_file tmp f)"
  by (auto simp: extends_def remove_file_def map_le_def split: if_splits)

lemma extends_save:
  "extends f0 f \<Longrightarrow> fd_files f0 final = None \<Longrightarrow> safe_name final \<Longrightarrow> length bs \<le> MAX_FILE_BYTES
    \<Longrightarrow> extends f0 (save_file final bs f)"
  by (auto simp: extends_def save_file_def map_le_def split: if_splits)

lemma batch_turn_extends:
  assumes "extends f0 (bt_folder b)" "\<And>i name. fd_files f0 (temporary_name (uuid i) name) = None"
  shows "batch_turn uuid b = Inr b' \<Longrightarrow> extends f0 (bt_folder b')"
    "batch_turn uuid b = Inl (q, d', f') \<Longrightarrow> extends f0 f'"
proof -
  have step: "extends f0 f'"
    if "parse_ymodem_header header = Inr (Some (name, n))" "conflict_path (bt_folder b) name = Inr final"
      and rf: "receive_file vs (Some n) Crc16 True (temporary_name (uuid i) final) final (d, bt_folder b) = (q, d', f')"
    for header name n final vs i d q d' f'
  proof -
    have safe: "safe_name name" "n \<le> MAX_FILE_BYTES" using parse_header_safe [OF that(1)] by auto
    have final: "\<not> taken final (bt_folder b)" "safe_name final" using conflict_path_Inr [OF that(2) safe(1)] by auto
    have "fd_files f0 final = None"
      using final(1) assms(1) by (auto simp: taken_def extends_def map_le_def dom_def)
    moreover have "extends f0 (remove_file (temporary_name (uuid i) final) (bt_folder b))"
      by (rule extends_remove [OF assms])
    moreover have "case q of Inl e \<Rightarrow> f' = remove_file (temporary_name (uuid i) final) (bt_folder b)
        | Inr m \<Rightarrow> \<exists>bs. f' = save_file final bs (remove_file (temporary_name (uuid i) final) (bt_folder b))
            \<and> length bs = m \<and> m \<le> MAX_FILE_BYTES \<and> (\<forall>k. Some n = Some k \<longrightarrow> m \<le> k)"
      by (rule receive_file_effect [OF rf]) (use safe(2) in simp)
    ultimately show ?thesis using final(2) extends_save by (auto split: sum.splits)
  qed
  show "batch_turn uuid b = Inr b' \<Longrightarrow> extends f0 (bt_folder b')"
    using step by (fastforce simp: batch_turn_def split: prod.splits sum.splits option.splits if_split_asm)
  show "batch_turn uuid b = Inl (q, d', f') \<Longrightarrow> extends f0 f'"
    using step assms(1)
    by (fastforce simp: batch_turn_def split: prod.splits sum.splits option.splits if_split_asm)
qed

lemma batch_loop_extends:
  "batch_loop uuid b = (q, d', f') \<Longrightarrow> extends f0 (bt_folder b)
    \<Longrightarrow> (\<And>i name. fd_files f0 (temporary_name (uuid i) name) = None) \<Longrightarrow> extends f0 f'"
proof (induction uuid b rule: batch_loop.induct)
  case (1 uuid b)
  show ?case
  proof (cases "batch_turn uuid b")
    case (Inl result)
    then show ?thesis using 1(2) batch_turn_extends(2) [OF 1(3,4)] by (subst (asm) batch_loop.simps) auto
  next
    case (Inr b')
    then show ?thesis using 1(1) [OF Inr _ _ 1(4)] 1(2) batch_turn_extends(1) [OF 1(3,4)]
      by (subst (asm) (2) batch_loop.simps) auto
  qed
qed

text \<open>A Ymodem peer cannot overwrite or escape: whatever it sends, and whether the batch succeeds or fails,
  every file that was in the folder keeps its content, and every new file has a name without path separators and
  at most 50 GB.\<close>

theorem ymodem_receive_contained:
  assumes "ymodem_receive uuid is_dir (d, f) = (q, d', f')"
    and "\<And>i name. fd_files f (temporary_name (uuid i) name) = None"
  shows "fd_files f \<subseteq>\<^sub>m fd_files f'
    \<and> (\<forall>name bs. fd_files f' name = Some bs \<longrightarrow> fd_files f name = None \<longrightarrow> safe_name name \<and> length bs \<le> MAX_FILE_BYTES)"
proof -
  have "extends f f'"
    using assms(1) batch_loop_extends [OF _ _ assms(2)] extends_refl
    by (fastforce simp: ymodem_receive_def split: if_split_asm prod.splits sum.splits)
  then show ?thesis by (simp add: extends_def)
qed

theorem ymodem_receive_contained_witness:
  "fd_files (snd (snd (ymodem_receive (\<lambda>_. ''u'') True (line [], sample_folder)))) ''a.txt'' = Some [1]"
proof -
  obtain q d f where r: "ymodem_receive (\<lambda>_. ''u'') True (line [], sample_folder) = (q, d, f)" by (metis prod_cases3)
  have "fd_files sample_folder \<subseteq>\<^sub>m fd_files f"
    using ymodem_receive_contained [OF r] by (simp add: sample_folder_def temporary_name_def)
  then show ?thesis using r by (simp add: map_le_def sample_folder_def)
qed

section \<open>Whole batches\<close>

definition header_of :: "string \<Rightarrow> nat \<Rightarrow> u8 list" where
  "header_of name n = (case ymodem_header name n of Inl _ \<Rightarrow> [] | Inr header \<Rightarrow> header)"

text \<open>What a sender puts on the line for a list of files.\<close>

fun batch_wire :: "(string \<times> u8 list) list \<Rightarrow> u8 list" where
  "batch_wire [] = frame Crc16 0 (replicate 128 0)"
| "batch_wire ((name, content) # files) = frame Crc16 0 (header_of name (length content))
     @ frames Crc16 1 (padded_blocks 1024 content) @ [EOT, EOT] @ batch_wire files"

lemma receive_header_wire:
  assumes "dv_in d = wire (frame Crc16 0 header) @ s" "length header = 128"
  shows "receive_header d = (Inr header, d\<lparr>dv_in := s\<rparr>)"
proof -
  have start: "block_start header = SOH" using assms(2) by (simp add: block_start_def)
  let ?d = "d\<lparr>dv_in := wire ([0, NOT 0] @ header @ checksum_bytes Crc16 header) @ s\<rparr>"
  have "read_byte d = (Inr SOH, ?d)" using assms(1) start by (simp add: frame_split read_byte_Some)
  moreover have "receive_block (block_start header) Crc16 ?d = (Inr (0, header), ?d\<lparr>dv_in := s\<rparr>)"
    using receive_block_wire [of ?d 0 header "checksum_bytes Crc16 header" s Crc16] assms(2) by simp
  ultimately show ?thesis
    using start by (simp add: receive_header_def MAX_RETRIES_def numeral_eq_Suc)
qed

lemma parse_empty_header: "parse_ymodem_header (replicate 128 0) = Inr None"
  by (simp add: parse_ymodem_header_def numeral_eq_Suc)

lemma write_controls_up:
  "all_up d \<Longrightarrow> write_controls vs d = (Inr (), d\<lparr>dv_out := dv_out d @ vs\<rparr>)"
  by (induction vs arbitrary: d) (simp_all add: sreturn_def sbind_def write_control_def dwrite_up)

text \<open>The file part of one turn.\<close>

lemma receive_file_wire:
  assumes "dv_in d = wire (frames Crc16 1 (padded_blocks 1024 content) @ [EOT, EOT]) @ s" "all_up d"
    and "length content \<le> MAX_FILE_BYTES" "fd_files f tmp = None" "\<not> taken tmp f"
  shows "\<exists>d'. receive_file vs (Some (length content)) Crc16 True tmp final (d, f)
      = (Inr (length content), d', save_file final content f) \<and> dv_in d' = s \<and> all_up d'"
proof -
  let ?blocks = "padded_blocks 1024 content"
  have "block_length b" if "b \<in> set ?blocks" for b
    using padded_blocks_length [OF that] by (simp add: block_length_def)
  then have del: "delivers Crc16 True 1 0 (dv_in d) ?blocks s"
    using frames_delivered [of ?blocks Crc16 True 1 s] assms(1) by simp
  obtain k where k: "concat ?blocks = content @ replicate k PAD"
    using concat_padded_blocks [of 1024 content] by auto
  let ?d = "d\<lparr>dv_out := dv_out d @ vs\<rparr>"
  have "received_all (Some (length content)) (new_rx ?d) (concat ?blocks) s
      (receive_data_blocks (Some (length content)) Crc16 True (new_rx ?d))"
    by (rule delivers_received [OF del]) (use assms(2,3) in \<open>simp_all add: new_rx_def fits_def\<close>)
  then obtain r where "receive_data_blocks (Some (length content)) Crc16 True (new_rx ?d) = (Inr (length content), r)"
    "rx_output r = content" "dv_in (rx_device r) = s" "all_up (rx_device r)"
    using k by (cases "receive_data_blocks (Some (length content)) Crc16 True (new_rx ?d)")
      (auto simp: received_all_def kept_def new_rx_def)
  moreover have "remove_file tmp f = f" using assms(4) by (cases f) (auto simp: remove_file_def)
  ultimately show ?thesis using assms(5) write_controls_up [OF assms(2)] by (auto simp: receive_file_def)
qed

primrec batch_bytes :: "(string \<times> u8 list) list \<Rightarrow> nat" where
  "batch_bytes [] = 0"
| "batch_bytes (p # ps) = length (snd p) + batch_bytes ps"

definition save_all :: "(string \<times> u8 list) list \<Rightarrow> folder \<Rightarrow> folder" where
  "save_all files f = fold (\<lambda>(name, content). save_file name content) files f"

text \<open>A batch a folder can take: valid new names, none of them temporary, and small enough files.\<close>

definition batch_ok :: "(nat \<Rightarrow> string) \<Rightarrow> folder \<Rightarrow> (string \<times> u8 list) list \<Rightarrow> bool" where
  "batch_ok uuid f files \<longleftrightarrow> distinct (map fst files) \<and> length files \<le> MAX_FILES
     \<and> (\<forall>(name, content) \<in> set files. valid_name name \<and> \<not> taken name f \<and> length content \<le> MAX_FILE_BYTES
          \<and> (\<forall>i final. name \<noteq> temporary_name (uuid i) final))
     \<and> (\<forall>i final. \<not> taken (temporary_name (uuid i) final) f)"

lemma batch_turn_file:
  assumes "dv_in (bt_device b) = wire (batch_wire ((name, content) # files))" "all_up (bt_device b)"
    and "valid_name name" "length content \<le> MAX_FILE_BYTES" "\<not> taken name (bt_folder b)" "bt_files b < MAX_FILES"
    and "\<not> taken (temporary_name (uuid (bt_files b)) name) (bt_folder b)"
  shows "\<exists>d'. batch_turn uuid b = Inr \<lparr>bt_device = d', bt_folder = save_file name content (bt_folder b),
        bt_total = sat_add (bt_total b) (length content), bt_files = bt_files b + 1\<rparr>
      \<and> dv_in d' = wire (batch_wire files) \<and> all_up d'"
proof -
  obtain header where header: "ymodem_header name (length content) = Inr header" "length header = 128"
    "parse_ymodem_header header = Inr (Some (name, length content))"
    using header_roundtrip [OF assms(3,4)] by blast
  let ?s = "wire (frames Crc16 1 (padded_blocks 1024 content) @ [EOT, EOT]) @ wire (batch_wire files)"
  have read: "receive_header (bt_device b) = (Inr header, (bt_device b)\<lparr>dv_in := ?s\<rparr>)"
    by (rule receive_header_wire) (use assms(1) header in \<open>simp_all add: header_of_def\<close>)
  obtain d' where "receive_file [ACK, CRC_REQUEST] (Some (length content)) Crc16 True
        (temporary_name (uuid (bt_files b)) name) name ((bt_device b)\<lparr>dv_in := ?s\<rparr>, bt_folder b)
      = (Inr (length content), d', save_file name content (bt_folder b))" "dv_in d' = wire (batch_wire files)" "all_up d'"
    using receive_file_wire [of "(bt_device b)\<lparr>dv_in := ?s\<rparr>" content "wire (batch_wire files)" "bt_folder b"
      "temporary_name (uuid (bt_files b)) name" "[ACK, CRC_REQUEST]" name] assms(2,4,7) by (auto simp: taken_def)
  then show ?thesis using read header(3) assms(5,6) by (simp add: batch_turn_def conflict_path_def)
qed

lemma batch_loop_wire:
  assumes "dv_in (bt_device b) = wire (batch_wire files)" "all_up (bt_device b)"
    and "batch_ok uuid (bt_folder b) files" "bt_files b + length files \<le> MAX_FILES"
    and "bt_total b \<le> bt_files b * MAX_FILE_BYTES"
  shows "\<exists>d'. batch_loop uuid b
    = (Inr (bt_total b + batch_bytes files), d', save_all files (bt_folder b))"
  using assms
proof (induction files arbitrary: b)
  case Nil
  have read: "receive_header (bt_device b) = (Inr (replicate 128 0), (bt_device b)\<lparr>dv_in := []\<rparr>)"
    using Nil(1) by (intro receive_header_wire) simp_all
  have "write_control ACK ((bt_device b)\<lparr>dv_in := []\<rparr>)
      = (Inr (), (bt_device b)\<lparr>dv_in := [], dv_out := dv_out (bt_device b) @ [ACK]\<rparr>)"
    using Nil(2) by (simp add: write_control_def dwrite_up)
  then show ?case using read parse_empty_header
    by (subst batch_loop.simps) (simp add: batch_turn_def save_all_def)
next
  case (Cons entry files)
  obtain name content where entry: "entry = (name, content)" by fastforce
  have ok: "valid_name name" "\<not> taken name (bt_folder b)" "length content \<le> MAX_FILE_BYTES"
    "name \<notin> fst ` set files" "\<And>i final. name \<noteq> temporary_name (uuid i) final"
    "\<And>i final. \<not> taken (temporary_name (uuid i) final) (bt_folder b)"
    using Cons.prems(3) by (auto simp: batch_ok_def entry)
  obtain d' where turn: "batch_turn uuid b = Inr \<lparr>bt_device = d', bt_folder = save_file name content (bt_folder b),
        bt_total = sat_add (bt_total b) (length content), bt_files = bt_files b + 1\<rparr>"
    "dv_in d' = wire (batch_wire files)" "all_up d'"
    using batch_turn_file [where uuid = uuid, OF Cons.prems(1) [unfolded entry] Cons.prems(2) ok(1,3,2) _ ok(6)] Cons.prems(4) by auto
  let ?b = "\<lparr>bt_device = d', bt_folder = save_file name content (bt_folder b),
        bt_total = sat_add (bt_total b) (length content), bt_files = bt_files b + 1\<rparr>"
  have total: "bt_total b + length content \<le> (bt_files b + 1) * MAX_FILE_BYTES"
    using Cons.prems(5) ok(3) by simp
  also have "\<dots> \<le> MAX_FILES * MAX_FILE_BYTES" using Cons.prems(4) by (intro mult_right_mono) simp_all
  finally have sat: "sat_add (bt_total b) (length content) = bt_total b + length content"
    by (intro sat_add_exact) (simp add: MAX_FILES_def MAX_FILE_BYTES_def u64_max_def)
  have save: "taken x (save_file name content (bt_folder b)) \<longleftrightarrow> x = name \<or> taken x (bt_folder b)" for x
    by (auto simp: taken_def save_file_def)
  have "batch_ok uuid (save_file name content (bt_folder b)) files"
    unfolding batch_ok_def
  proof (intro conjI ballI allI)
    fix p assume p: "p \<in> set files"
    obtain n c where pair: "p = (n, c)" by fastforce
    have "\<forall>(n, c) \<in> set files. valid_name n \<and> \<not> taken n (bt_folder b) \<and> length c \<le> MAX_FILE_BYTES
        \<and> (\<forall>i final. n \<noteq> temporary_name (uuid i) final)"
      using Cons.prems(3) by (simp add: batch_ok_def)
    from bspec [OF this p] have "valid_name n \<and> \<not> taken n (bt_folder b) \<and> length c \<le> MAX_FILE_BYTES
        \<and> (\<forall>i final. n \<noteq> temporary_name (uuid i) final)"
      by (simp add: pair)
    moreover have "n \<noteq> name" using ok(4) p pair by force
    ultimately show "case p of (n, c) \<Rightarrow> valid_name n \<and> \<not> taken n (save_file name content (bt_folder b))
        \<and> length c \<le> MAX_FILE_BYTES \<and> (\<forall>i final. n \<noteq> temporary_name (uuid i) final)"
      by (simp add: pair save)
  next
    show "\<not> taken (temporary_name (uuid i) final) (save_file name content (bt_folder b))" for i final
      using ok(5) [of i final] ok(6) [of i final] save by metis
  qed (use Cons.prems(3) in \<open>simp_all add: batch_ok_def\<close>)
  then have "\<exists>d''. batch_loop uuid ?b = (Inr (bt_total ?b + batch_bytes files), d'', save_all files (bt_folder ?b))"
    using Cons.IH [of ?b] turn(2,3) Cons.prems(4) total sat by simp
  moreover have "batch_loop uuid b = batch_loop uuid ?b" by (subst batch_loop.simps) (simp add: turn(1))
  ultimately show ?case by (simp add: sat entry save_all_def add.assoc)
qed

text \<open>A batch of new files arrives completely: each file is saved under its name with exactly its content, the
  other files of the folder are untouched, and the number of bytes is reported.\<close>

theorem ymodem_batch:
  assumes "dv_in d = wire (batch_wire files)" "all_up d" "batch_ok uuid f files"
  shows "\<exists>d'. ymodem_receive uuid True (d, f) = (Inr (batch_bytes files), d', save_all files f)"
proof -
  let ?b = "\<lparr>bt_device = d\<lparr>dv_out := dv_out d @ [CRC_REQUEST]\<rparr>, bt_folder = f, bt_total = 0, bt_files = 0\<rparr>"
  have "\<exists>d'. batch_loop uuid ?b = (Inr (bt_total ?b + batch_bytes files), d', save_all files (bt_folder ?b))"
    by (rule batch_loop_wire) (use assms in \<open>simp_all add: batch_ok_def\<close>)
  then show ?thesis using assms(2) by (simp add: ymodem_receive_def write_control_def dwrite_up)
qed

theorem ymodem_batch_witness:
  "\<exists>d'. ymodem_receive (\<lambda>_. ''u'') True (line (wire (batch_wire [(''b.bin'', [7, 8]), (''c'', [])])), sample_folder)
    = (Inr 2, d', save_all [(''b.bin'', [7, 8]), (''c'', [])] sample_folder)"
proof -
  have "valid_name ''b.bin''" "valid_name ''c''" by code_simp+
  moreover have "name \<noteq> temporary_name ''u'' final" if "name \<in> {''b.bin'', ''c'', ''a.txt''}" for name final
    using that by (auto simp: temporary_name_def)
  ultimately have "batch_ok (\<lambda>_. ''u'') sample_folder [(''b.bin'', [7, 8]), (''c'', [])]"
    by (auto simp: batch_ok_def taken_def sample_folder_def MAX_FILES_def MAX_FILE_BYTES_def temporary_name_def)
  then show ?thesis using ymodem_batch [OF _ line_simps(3)] by (fastforce simp: numeral_2_eq_2)
qed

end
