(* ===== verification/Zmodem.thy ===== *)
theory Zmodem
  imports ModemSafety
begin

text \<open>
  Zmodem in a terminal (\<open>src-tauri/src/zmodem.rs\<close>): the detector that finds a transfer request in the output
  of a shell, the buffers around a transfer, and the two drivers of the protocol engine. The engine itself is the
  crate \<open>zmodem2\<close>, a parameter of the drivers.
\<close>

section \<open>Detecting a handshake\<close>

definition ZHEX_PREFIX :: "u8 list" where "ZHEX_PREFIX = [42, 42, 24, 66]"
definition ZHEX_HEADER_LEN :: nat where "ZHEX_HEADER_LEN = 18"
definition MAX_PENDING_WIRE_BYTES :: nat where "MAX_PENDING_WIRE_BYTES = 1024 * 1024"
definition MAX_FILE_SIZE :: nat where "MAX_FILE_SIZE = 2 ^ 32 - 1"

datatype direction = Download | Upload

definition direction_text :: "direction \<Rightarrow> string" where
  "direction_text d = (case d of Download \<Rightarrow> ''download'' | Upload \<Rightarrow> ''upload'')"

definition hex_digit :: "u8 \<Rightarrow> u8 option" where
  "hex_digit b = (if 48 \<le> b \<and> b \<le> 57 then Some (b - 48)
     else if 97 \<le> b \<and> b \<le> 102 then Some (b - 97 + 10)
     else if 65 \<le> b \<and> b \<le> 70 then Some (b - 65 + 10) else None)"

definition crc16_xmodem :: "u8 list \<Rightarrow> u16" where
  "crc16_xmodem data = foldl crc_byte 0 data"

fun decode_pairs :: "u8 list \<Rightarrow> u8 list option" where
  "decode_pairs (a # b # bs) = (case (hex_digit a, hex_digit b) of
     (Some x, Some y) \<Rightarrow> map_option (\<lambda>ds. (push_bit 4 x OR y) # ds) (decode_pairs bs) | _ \<Rightarrow> None)"
| "decode_pairs _ = Some []"

definition parse_header :: "u8 list \<Rightarrow> direction option" where
  "parse_header header =
     (if length header \<noteq> ZHEX_HEADER_LEN \<or> take 4 header \<noteq> ZHEX_PREFIX then None
      else case decode_pairs (drop 4 header) of
          None \<Rightarrow> None
        | Some decoded \<Rightarrow>
            (if crc16_xmodem (take 5 decoded) \<noteq> from_be (decoded ! 5) (decoded ! 6) then None
             else if decoded ! 0 = 0 then Some Download else if decoded ! 0 = 1 then Some Upload else None))"

text \<open>\<open>windows(n).position(..)\<close> and the longest proper prefix that ends the data.\<close>

fun find_subslice :: "u8 list \<Rightarrow> u8 list \<Rightarrow> nat option" where
  "find_subslice [] needle = None"
| "find_subslice (b # bs) needle = (if take (length needle) (b # bs) = needle then Some 0
     else map_option Suc (find_subslice bs needle))"

definition ends_with :: "u8 list \<Rightarrow> u8 list \<Rightarrow> bool" where
  "ends_with data s \<longleftrightarrow> length s \<le> length data \<and> drop (length data - length s) data = s"

definition longest_prefix_suffix :: "u8 list \<Rightarrow> u8 list \<Rightarrow> nat" where
  "longest_prefix_suffix data prefix =
     (case List.find (\<lambda>n. ends_with data (take n prefix)) (rev [1..<length prefix]) of None \<Rightarrow> 0 | Some n \<Rightarrow> n)"

datatype scan = Waiting "u8 list" | Detected direction "u8 list"

text \<open>The loop of \<open>feed\<close> on the pending bytes: what it releases to the terminal, and what it keeps.\<close>

lemma find_subslice_bound: "find_subslice p needle = Some i \<Longrightarrow> i < length p \<and> take (length needle) (drop i p) = needle"
  by (induction p needle arbitrary: i rule: find_subslice.induct) (auto split: if_splits)

function detect :: "u8 list \<Rightarrow> u8 list \<times> scan" where
  "detect pending =
     (case find_subslice pending ZHEX_PREFIX of
        None \<Rightarrow>
          (let release = length pending - longest_prefix_suffix pending ZHEX_PREFIX
           in (take release pending, Waiting (drop release pending)))
      | Some i \<Rightarrow>
          (let rest = drop i pending
           in if length rest < ZHEX_HEADER_LEN then (take i pending, Waiting rest)
              else case parse_header (take ZHEX_HEADER_LEN rest) of
                  Some d \<Rightarrow> (take i pending, Detected d rest)
                | None \<Rightarrow> (let (terminal, s) = detect (tl rest) in (take i pending @ [hd rest] @ terminal, s))))"
  by pat_completeness auto
termination
  by (relation "measure length") (auto dest: find_subslice_bound)

declare detect.simps [simp del]

text \<open>\<open>HandshakeDetector::feed\<close>: the state is the pending bytes.\<close>

definition detector_feed :: "u8 list \<Rightarrow> u8 list \<Rightarrow> u8 list \<times> scan" where
  "detector_feed pending input = detect (pending @ input)"

text \<open>A direct description: every byte is released unless a header may start there.\<close>

fun direct :: "u8 list \<Rightarrow> u8 list \<times> scan" where
  "direct [] = ([], Waiting [])"
| "direct (b # bs) =
     (if length (b # bs) < 4 \<and> b # bs = take (length (b # bs)) ZHEX_PREFIX then ([], Waiting (b # bs))
      else if take 4 (b # bs) \<noteq> ZHEX_PREFIX then (let (t, s) = direct bs in (b # t, s))
      else if length (b # bs) < ZHEX_HEADER_LEN then ([], Waiting (b # bs))
      else case parse_header (take ZHEX_HEADER_LEN (b # bs)) of
          Some d \<Rightarrow> ([], Detected d (b # bs))
        | None \<Rightarrow> (let (t, s) = direct bs in (b # t, s)))"

declare direct.simps [simp del]

lemma prefix_length [simp]: "length ZHEX_PREFIX = 4"
  by (simp add: ZHEX_PREFIX_def)

lemma ends_with_Cons: "ends_with (b # bs) s \<longleftrightarrow> s = b # bs \<or> ends_with bs s"
proof (cases "length s = Suc (length bs)")
  case True
  then show ?thesis by (auto simp: ends_with_def)
next
  case False
  then show ?thesis by (cases "length s \<le> length bs") (auto simp: ends_with_def Suc_diff_le)
qed

lemma longest_unfold: "longest_prefix_suffix p ZHEX_PREFIX =
   (if ends_with p (take 3 ZHEX_PREFIX) then 3 else if ends_with p (take 2 ZHEX_PREFIX) then 2
    else if ends_with p (take 1 ZHEX_PREFIX) then 1 else 0)"
  by (simp add: longest_prefix_suffix_def ZHEX_PREFIX_def numeral_eq_Suc)

definition proper_start :: "u8 list \<Rightarrow> bool" where
  "proper_start p \<longleftrightarrow> p \<noteq> [] \<and> length p < 4 \<and> p = take (length p) ZHEX_PREFIX"

lemma proper_start_cases: "proper_start p \<longleftrightarrow> p = take 1 ZHEX_PREFIX \<or> p = take 2 ZHEX_PREFIX \<or> p = take 3 ZHEX_PREFIX"
proof
  assume p: "proper_start p"
  then have "0 < length p" "length p < 4" by (simp_all add: proper_start_def)
  then have "length p = 1 \<or> length p = 2 \<or> length p = 3" by linarith
  then show "p = take 1 ZHEX_PREFIX \<or> p = take 2 ZHEX_PREFIX \<or> p = take 3 ZHEX_PREFIX"
    using p unfolding proper_start_def by metis
qed (auto simp: proper_start_def ZHEX_PREFIX_def numeral_eq_Suc)

lemma longest_Cons:
  "longest_prefix_suffix (b # bs) ZHEX_PREFIX
    = (if proper_start (b # bs) then length (b # bs) else longest_prefix_suffix bs ZHEX_PREFIX)"
proof (cases "proper_start (b # bs)")
  case True
  then show ?thesis
    unfolding proper_start_cases longest_unfold
    by (auto simp: ZHEX_PREFIX_def ends_with_def numeral_eq_Suc)
next
  case False
  then have "b # bs \<noteq> take 1 ZHEX_PREFIX" "b # bs \<noteq> take 2 ZHEX_PREFIX" "b # bs \<noteq> take 3 ZHEX_PREFIX"
    by (simp_all add: proper_start_cases)
  from this [symmetric] show ?thesis using False by (simp only: longest_unfold ends_with_Cons if_False simp_thms)
qed

lemma longest_le: "longest_prefix_suffix bs ZHEX_PREFIX \<le> length bs"
  by (induction bs) (simp_all add: longest_Cons, simp add: longest_unfold ends_with_def)

lemma detect_skip: "take 4 (b # bs) \<noteq> ZHEX_PREFIX \<Longrightarrow> \<not> proper_start (b # bs)
    \<Longrightarrow> detect (b # bs) = (b # fst (detect bs), snd (detect bs))"
  by (subst (1 2 3) detect.simps)
    (auto simp: Let_def longest_Cons longest_le Suc_diff_le split: option.split prod.split)

lemma detect_prefix: "take 4 (b # bs) = ZHEX_PREFIX \<Longrightarrow> detect (b # bs) =
   (if length (b # bs) < ZHEX_HEADER_LEN then ([], Waiting (b # bs))
      else case parse_header (take ZHEX_HEADER_LEN (b # bs)) of
          Some d \<Rightarrow> ([], Detected d (b # bs))
        | None \<Rightarrow> (b # fst (detect bs), snd (detect bs)))"
  by (subst detect.simps) (auto simp: split: option.split prod.split)

lemma proper_start_not_found:
  assumes "proper_start p"
  shows "detect p = ([], Waiting p)"
proof -
  have "find_subslice p ZHEX_PREFIX = None"
    using assms find_subslice_bound [of p ZHEX_PREFIX]
    by (cases "find_subslice p ZHEX_PREFIX") (auto simp: proper_start_def dest: arg_cong [where f = length])
  moreover have "longest_prefix_suffix p ZHEX_PREFIX = length p"
    using assms longest_Cons [of "hd p" "tl p"] by (simp add: proper_start_def)
  ultimately show ?thesis by (subst detect.simps) simp
qed

lemma detect_eq_direct: "detect p = direct p"
proof (induction p rule: direct.induct)
  case 1
  show ?case by (subst detect.simps) (simp add: direct.simps longest_unfold ends_with_def ZHEX_PREFIX_def)
next
  case (2 b bs)
  show ?case
  proof (cases "proper_start (b # bs)")
    case True
    then have "direct (b # bs) = ([], Waiting (b # bs))" by (subst direct.simps) (simp add: proper_start_def)
    then show ?thesis using proper_start_not_found [OF True] by simp
  next
    case False
    then have "\<not> (length (b # bs) < 4 \<and> b # bs = take (length (b # bs)) ZHEX_PREFIX)"
      by (simp add: proper_start_def)
    then show ?thesis using 2 detect_skip [OF _ False] detect_prefix [of b bs]
      by (subst direct.simps) (auto split: option.split prod.split)
  qed
qed

text \<open>No byte is lost, and none is changed: what is released and what is kept is what was there.\<close>

fun kept_bytes :: "scan \<Rightarrow> u8 list" where
  "kept_bytes (Waiting p) = p"
| "kept_bytes (Detected d p) = p"

lemma direct_conserves: "fst (direct p) @ kept_bytes (snd (direct p)) = p"
  by (induction p rule: direct.induct) (auto simp: direct.simps split: option.split prod.split)

lemma direct_waits: "snd (direct p) = Waiting w \<Longrightarrow> length w < ZHEX_HEADER_LEN"
  by (induction p rule: direct.induct)
    (auto simp: direct.simps ZHEX_HEADER_LEN_def split: option.splits prod.splits if_split_asm)

text \<open>What arrives later only extends what is waiting.\<close>

definition then_feed :: "u8 list \<times> scan \<Rightarrow> u8 list \<Rightarrow> u8 list \<times> scan" where
  "then_feed r q = (case r of
     (t, Waiting w) \<Rightarrow> (t @ fst (direct (w @ q)), snd (direct (w @ q)))
   | (t, Detected d p) \<Rightarrow> (t, Detected d (p @ q)))"

lemma direct_append: "direct (p @ q) = then_feed (direct p) q"
proof (induction p rule: direct.induct)
  case 1
  show ?case by (simp add: then_feed_def direct.simps(1))
next
  case (2 b bs)
  show ?case
  proof (cases "proper_start (b # bs)")
    case True
    then have "direct (b # bs) = ([], Waiting (b # bs))" by (subst direct.simps) (simp add: proper_start_def)
    then show ?thesis by (simp add: then_feed_def)
  next
    case start: False
    then have no: "\<not> (length (b # bs) < 4 \<and> b # bs = take (length (b # bs)) ZHEX_PREFIX)"
      by (simp add: proper_start_def)
    have cut: "take (length (b # bs)) ((b # bs) @ q) = b # bs" by simp
    have "\<not> (length ((b # bs) @ q) < 4 \<and> (b # bs) @ q = take (length ((b # bs) @ q)) ZHEX_PREFIX)"
    proof
      assume a: "length ((b # bs) @ q) < 4 \<and> (b # bs) @ q = take (length ((b # bs) @ q)) ZHEX_PREFIX"
      have "b # bs = take (length (b # bs)) ((b # bs) @ q)" by simp
      also have "\<dots> = take (length (b # bs)) (take (length ((b # bs) @ q)) ZHEX_PREFIX)" using a by argo
      also have "\<dots> = take (length (b # bs)) ZHEX_PREFIX" by (simp add: min_def)
      finally show False using no a by simp
    qed
    note skip = this
    show ?thesis
    proof (cases "take 4 (b # bs) = ZHEX_PREFIX")
      case True
      then have "4 \<le> length (b # bs)" by (metis length_take prefix_length min.absorb_iff1 min.commute)
      then have "take 4 ((b # bs) @ q) = ZHEX_PREFIX" using True by simp
      note prefix = this
      show ?thesis
      proof (cases "length (b # bs) < ZHEX_HEADER_LEN")
        case short: True
        then have "direct (b # bs) = ([], Waiting (b # bs))" using True no by (subst direct.simps) simp
        then show ?thesis by (simp add: then_feed_def)
      next
        case long: False
        then have "take ZHEX_HEADER_LEN ((b # bs) @ q) = take ZHEX_HEADER_LEN (b # bs)"
          "\<not> length ((b # bs) @ q) < ZHEX_HEADER_LEN" by (simp_all only: take_append) simp_all
        then show ?thesis using True no skip prefix long 2(2)
          unfolding append_Cons direct.simps(2) [of b bs] direct.simps(2) [of b "bs @ q"]
          by (cases "parse_header (take ZHEX_HEADER_LEN (b # bs))")
            (auto simp: then_feed_def split: prod.split scan.split)
      qed
    next
      case False
      have "take 4 ((b # bs) @ q) \<noteq> ZHEX_PREFIX"
      proof
        assume a: "take 4 ((b # bs) @ q) = ZHEX_PREFIX"
        show False
        proof (cases "4 \<le> length (b # bs)")
          case True
          then show False using a False by simp
        next
          case short: False
          have "take (length (b # bs)) (take 4 ((b # bs) @ q)) = b # bs" using short by (simp add: min_def)
          then have "take (length (b # bs)) ZHEX_PREFIX = b # bs" by (simp only: a)
          then show False using no short by (metis not_le)
        qed
      qed
      then show ?thesis using False no skip 2
        unfolding append_Cons direct.simps(2) [of b bs] direct.simps(2) [of b "bs @ q"]
        by (auto simp: then_feed_def split: prod.split scan.split)
    qed
  qed
qed


lemma direct_stable: "direct p = (t, Waiting w) \<Longrightarrow> direct w = ([], Waiting w)"
  using direct_append [of p "[]"] by (cases "direct w") (simp add: then_feed_def)

section \<open>Reading a session\<close>

text \<open>The detector under the reads of a session; after the detection everything belongs to the transfer.\<close>

primrec feed_reads :: "u8 list \<Rightarrow> u8 list list \<Rightarrow> u8 list \<times> scan" where
  "feed_reads pending [] = ([], Waiting pending)"
| "feed_reads pending (c # cs) = (case detector_feed pending c of
     (t, Waiting w) \<Rightarrow> (let (t', s) = feed_reads w cs in (t @ t', s))
   | (t, Detected d p) \<Rightarrow> (t, Detected d (p @ concat cs)))"

lemma feed_reads_direct:
  "direct pending = ([], Waiting pending) \<Longrightarrow> feed_reads pending cs = direct (pending @ concat cs)"
proof (induction cs arbitrary: pending)
  case (Cons c cs)
  obtain t s where f: "direct (pending @ c) = (t, s)" by fastforce
  have all: "direct (pending @ concat (c # cs)) = then_feed (t, s) (concat cs)"
    using direct_append [of "pending @ c" "concat cs"] by (simp add: f)
  show ?case
  proof (cases s)
    case (Waiting w)
    then show ?thesis using f all Cons.IH [of w] direct_stable [of "pending @ c" t w]
      by (simp add: detector_feed_def detect_eq_direct then_feed_def split: prod.split)
  next
    case (Detected d p)
    then show ?thesis using f all by (simp add: detector_feed_def detect_eq_direct then_feed_def)
  qed
qed simp

text \<open>C28: Detection does not depend on how the output of the shell is cut into reads: the detector behaves as the
  direct description on the whole output, which releases every byte before the first valid request, keeps back
  fewer bytes than a header, and loses and changes none.\<close>

theorem zmodem_detection:
  "feed_reads [] cs = direct (concat cs)
    \<and> fst (feed_reads [] cs) @ kept_bytes (snd (feed_reads [] cs)) = concat cs
    \<and> (case snd (feed_reads [] cs) of Waiting w \<Rightarrow> length w < ZHEX_HEADER_LEN
       | Detected d p \<Rightarrow> parse_header (take ZHEX_HEADER_LEN p) = Some d)"
proof -
  have all: "feed_reads [] cs = direct (concat cs)"
    using feed_reads_direct [of "[]" cs] by (simp add: direct.simps)
  have "snd (direct p) = Detected d w \<Longrightarrow> parse_header (take ZHEX_HEADER_LEN w) = Some d" for p d w
    by (induction p rule: direct.induct) (auto simp: direct.simps split: option.splits prod.splits if_split_asm)
  then show ?thesis
    using direct_waits [of "concat cs"] by (simp add: all direct_conserves split: scan.split)
qed

definition ZRQINIT :: "u8 list" where
  "ZRQINIT = ZHEX_PREFIX @ bytes_of ''00000000000000''"

definition ZRINIT :: "u8 list" where
  "ZRINIT = ZHEX_PREFIX @ bytes_of ''0100000000aa51''"

lemma parse_ZRQINIT: "parse_header ZRQINIT = Some Download" "parse_header ZRINIT = Some Upload"
  by code_simp+

lemma detect_ZRQINIT: "detector_feed [] ZRQINIT = ([], Detected Download ZRQINIT)"
proof -
  have "length ZRQINIT = ZHEX_HEADER_LEN" by (simp add: ZRQINIT_def ZHEX_HEADER_LEN_def)
  moreover have "find_subslice ZRQINIT ZHEX_PREFIX = Some 0" by (simp add: ZRQINIT_def ZHEX_PREFIX_def)
  ultimately show ?thesis
    using parse_ZRQINIT(1) by (simp add: detector_feed_def detect.simps)
qed

end
