(* ===== verification/ZmodemTransfer.thy ===== *)
theory ZmodemTransfer
  imports Zmodem
begin

text \<open>
  The transfers of \<open>src-tauri/src/zmodem.rs\<close>: the buffers around the protocol engine, and the loops that
  carry out what the engine asks for. The engine is the crate \<open>zmodem2\<close>: its state is a type parameter, its
  operations are the fields of \<open>receiver_api\<close> and \<open>sender_api\<close>, and nothing is assumed about them.
\<close>

section \<open>Waiting and finishing\<close>

definition AUTHORIZATION_TIMEOUT :: nat where "AUTHORIZATION_TIMEOUT = 120000"
definition FINISH_TIMEOUT :: nat where "FINISH_TIMEOUT = 2000"
definition CANCEL_SEQUENCE :: "u8 list" where "CANCEL_SEQUENCE = replicate 8 24 @ replicate 8 8"

record awaiting =
  aw_id :: string
  aw_direction :: direction
  aw_bytes :: "u8 list"
  aw_detected_at :: nat

definition awaiting_expired :: "nat \<Rightarrow> awaiting \<Rightarrow> bool" where
  "awaiting_expired now a \<longleftrightarrow> AUTHORIZATION_TIMEOUT \<le> now - aw_detected_at a"

definition awaiting_append :: "u8 list \<Rightarrow> awaiting \<Rightarrow> app_error + awaiting" where
  "awaiting_append bs a = (if MAX_PENDING_WIRE_BYTES < length (aw_bytes a) + length bs then Inl Unavailable
     else Inr (a\<lparr>aw_bytes := aw_bytes a @ bs\<rparr>))"

record finishing =
  fi_pending :: "u8 list"
  fi_started_at :: nat

text \<open>The two letters \<open>OO\<close> that end a session are swallowed; anything else belongs to the terminal.\<close>

definition finishing_feed :: "u8 list \<Rightarrow> finishing \<Rightarrow> u8 list option \<times> finishing" where
  "finishing_feed bs s =
     (let p = fi_pending s @ bs
      in if p = [79] then (None, s\<lparr>fi_pending := p\<rparr>)
         else if take 2 p = [79, 79] then (Some (drop 2 p), s\<lparr>fi_pending := p\<rparr>)
         else (Some p, s\<lparr>fi_pending := []\<rparr>))"

definition finishing_expired :: "nat \<Rightarrow> finishing \<Rightarrow> bool" where
  "finishing_expired now s \<longleftrightarrow> FINISH_TIMEOUT \<le> now - fi_started_at s"

section \<open>Writing to the channel\<close>

text \<open>
  A channel takes the writes it will take: \<open>Wrote n\<close> is a write of at most \<open>n\<close> bytes, \<open>Busy\<close> is
  \<open>WouldBlock\<close> before the deadline, \<open>Broken\<close> every other error. A list that is used up is a channel that stays
  busy until the deadline.
\<close>

datatype wire_write = Wrote nat | Busy | Broken

record channel =
  ch_writes :: "wire_write list"
  ch_out :: "u8 list"

fun write_attempts :: "wire_write list \<Rightarrow> u8 list \<Rightarrow> u8 list \<Rightarrow> (app_error + unit) \<times> channel" where
  "write_attempts ws out [] = (Inr (), \<lparr>ch_writes = ws, ch_out = out\<rparr>)"
| "write_attempts [] out bs = (Inl Storage, \<lparr>ch_writes = [], ch_out = out\<rparr>)"
| "write_attempts (w # ws) out bs = (case w of
     Wrote n \<Rightarrow> (if n = 0 then (Inl Remote, \<lparr>ch_writes = ws, ch_out = out\<rparr>)
       else write_attempts ws (out @ take n bs) (drop n bs))
   | Busy \<Rightarrow> write_attempts ws out bs
   | Broken \<Rightarrow> (Inl Storage, \<lparr>ch_writes = ws, ch_out = out\<rparr>))"

definition write_wire :: "u8 list \<Rightarrow> channel \<Rightarrow> (app_error + unit) \<times> channel" where
  "write_wire bs c = write_attempts (ch_writes c) (ch_out c) bs"

lemma write_attempts_prefix:
  "write_attempts ws out bs = (r, c) \<Longrightarrow> \<exists>k. ch_out c = out @ take k bs \<and> (r = Inr () \<longrightarrow> length bs \<le> k)"
proof (induction ws out bs rule: write_attempts.induct)
  case (3 w ws out v va)
  show ?case
  proof (cases w)
    case (Wrote n)
    show ?thesis
    proof (cases "n = 0")
      case True
      then show ?thesis using 3(3) Wrote by (intro exI [of _ 0]) auto
    next
      case False
      then obtain k where "ch_out c = (out @ take n (v # va)) @ take k (drop n (v # va))"
        "r = Inr () \<longrightarrow> length (drop n (v # va)) \<le> k"
        using 3(1) [OF Wrote] 3(3) Wrote by (auto simp del: take_Suc_Cons drop_Suc_Cons)
      then show ?thesis by (intro exI [of _ "n + k"]) (auto simp: take_add)
    qed
  next
    case Busy
    then show ?thesis using 3(2) [OF Busy] 3(3) by simp
  next
    case Broken
    then show ?thesis using 3(3) by (intro exI [of _ 0]) auto
  qed
qed auto

section \<open>File names\<close>

definition last_segment :: "string \<Rightarrow> string" where
  "last_segment s = last (split_on (CHR ''/'') (map (\<lambda>c. if c = CHR 0x5C then CHR ''/'' else c) s))"

definition safe_file_name :: "string \<Rightarrow> string app_result" where
  "safe_file_name remote =
     (let name = last_segment remote
      in if name = [] \<or> name = ''.'' \<or> name = ''..'' \<or> CHR 0x00 \<in> set name then Inl Validation
         else Inr (concat (take 255 (utf8_chars name))))"

definition stamped :: "nat \<Rightarrow> string \<Rightarrow> string" where
  "stamped now stem = stem @ ''-'' @ string_of_nat now"

function available_index :: "folder \<Rightarrow> nat \<Rightarrow> string \<Rightarrow> nat \<Rightarrow> string" where
  "available_index f now name index =
     (if 9999 < index then stamped now (fst (split_name name))
      else if \<not> taken (renamed name index) f then renamed name index
      else available_index f now name (index + 1))"
  by pat_completeness auto
termination
  by (relation "measure (\<lambda>(f, now, name, index). 10000 - index)") auto

declare available_index.simps [simp del]

definition available_path :: "folder \<Rightarrow> nat \<Rightarrow> string \<Rightarrow> string" where
  "available_path f now name = (if \<not> taken name f then name else available_index f now name 1)"

definition part_name :: "string \<Rightarrow> string" where
  "part_name uuid = ''.cnshell-zmodem-'' @ uuid @ ''.part''"

text \<open>The loop takes the first identifier whose name is free; \<open>None\<close> is a loop that finds none.\<close>

fun temporary_download_path :: "folder \<Rightarrow> string list \<Rightarrow> (string \<times> string list) option" where
  "temporary_download_path f [] = None"
| "temporary_download_path f (u # us) =
     (if \<not> taken (part_name u) f then Some (part_name u, us) else temporary_download_path f us)"

section \<open>The engine\<close>

datatype engine_event = FileStarted "u8 list" "nat option" | FileCompleted | SessionCompleted | Aborted | OtherEvent

datatype action = WriteWire "u8 list" | WriteFile "u8 list" | ReadFile nat nat | Event engine_event | Idle | OtherAction

record 'r receiver_api =
  rx_poll :: "'r \<Rightarrow> action \<times> 'r"
  rx_wire_written :: "nat \<Rightarrow> 'r \<Rightarrow> 'r"
  rx_file_written :: "nat \<Rightarrow> 'r \<Rightarrow> bool \<times> 'r"
  rx_submit_wire :: "u8 list \<Rightarrow> 'r \<Rightarrow> nat option \<times> 'r"

record 's sender_api =
  tx_new :: "'s option"
  tx_start_file :: "string \<Rightarrow> nat \<Rightarrow> 's \<Rightarrow> bool \<times> 's"
  tx_finish :: "'s \<Rightarrow> bool \<times> 's"
  tx_poll :: "'s \<Rightarrow> action \<times> 's"
  tx_wire_written :: "nat \<Rightarrow> 's \<Rightarrow> 's"
  tx_submit_file :: "u8 list \<Rightarrow> 's \<Rightarrow> bool \<times> 's"
  tx_submit_wire :: "u8 list \<Rightarrow> 's \<Rightarrow> nat option \<times> 's"

record progress =
  pr_file_name :: "string option"
  pr_total :: "nat option"
  pr_transferred :: nat

datatype status = Running | Completed | Cancelled

record drive_result =
  dr_status :: "status option"
  dr_progress :: progress
  dr_terminal :: "u8 list"

definition ended :: "status option \<Rightarrow> bool" where
  "ended s \<longleftrightarrow> s = Some Completed \<or> s = Some Cancelled"

section \<open>Downloads\<close>

record 'r download =
  dl_id :: string
  dl_receiver :: 'r
  dl_incoming :: "u8 list"
  dl_file :: "string option"
  dl_temporary :: "string option"
  dl_final :: "string option"
  dl_file_name :: "string option"
  dl_total :: "nat option"
  dl_transferred :: nat

text \<open>What a drive works on besides the transfer: the folder, the channel, and the next random identifiers.\<close>

record site =
  st_folder :: folder
  st_channel :: channel
  st_uuids :: "string list"

definition append_file :: "string \<Rightarrow> u8 list \<Rightarrow> folder \<Rightarrow> folder" where
  "append_file name bs f = save_file name ((case fd_files f name of None \<Rightarrow> [] | Some old \<Rightarrow> old) @ bs) f"

definition rename_file :: "string \<Rightarrow> string \<Rightarrow> folder \<Rightarrow> folder" where
  "rename_file old new f = (case fd_files f old of None \<Rightarrow> f | Some bs \<Rightarrow> save_file new bs (remove_file old f))"

text \<open>
  One turn of the loop of \<open>DownloadTransfer::drive\<close>: \<open>Inl\<close> is an early return with an error,
  \<open>Inr False\<close> a \<open>break\<close>.
\<close>

type_synonym 'r downloading = "'r download \<times> site \<times> status option"

definition start_download_file ::
    "nat \<Rightarrow> u8 list \<Rightarrow> nat option \<Rightarrow> 'r downloading \<Rightarrow> (app_error + bool) \<times> 'r downloading" where
  "start_download_file now name size_opt s =
     (let (d, w, st) = s; f = st_folder w
      in case safe_file_name (from_utf8_lossy name) of
          Inl e \<Rightarrow> (Inl e, s)
        | Inr file_name \<Rightarrow>
           (let path = available_path f now file_name
            in case temporary_download_path f (st_uuids w) of
                None \<Rightarrow> (Inl Internal, s)
              | Some (temporary, uuids) \<Rightarrow>
                  (Inr True, d\<lparr>dl_file := Some temporary, dl_temporary := Some temporary, dl_final := Some path,
                       dl_file_name := Some path, dl_total := size_opt, dl_transferred := 0\<rparr>,
                     w\<lparr>st_folder := save_file temporary [] f, st_uuids := uuids\<rparr>, Some Running)))"

definition commit_download_file :: "'r downloading \<Rightarrow> (app_error + bool) \<times> 'r downloading" where
  "commit_download_file s =
     (let (d, w, st) = s
      in case dl_temporary d of
          None \<Rightarrow> (Inl Internal, d\<lparr>dl_file := None\<rparr>, w, st)
        | Some temporary \<Rightarrow>
           (case dl_final d of
              None \<Rightarrow> (Inl Internal, d\<lparr>dl_file := None, dl_temporary := None\<rparr>, w, st)
            | Some path \<Rightarrow> (Inr True, d\<lparr>dl_file := None, dl_temporary := None, dl_final := None\<rparr>,
                w\<lparr>st_folder := rename_file temporary path (st_folder w)\<rparr>, st)))"

definition download_turn :: "nat \<Rightarrow> 'r receiver_api \<Rightarrow> 'r downloading \<Rightarrow> (app_error + bool) \<times> 'r downloading" where
  "download_turn now api s =
     (let (d0, w, st) = s; (a, r) = rx_poll api (dl_receiver d0); d = d0\<lparr>dl_receiver := r\<rparr>
      in case a of
          WriteWire bs \<Rightarrow>
            (case write_wire bs (st_channel w) of
               (Inl e, c) \<Rightarrow> (Inl e, d, w\<lparr>st_channel := c\<rparr>, st)
             | (Inr _, c) \<Rightarrow> (Inr True, d\<lparr>dl_receiver := rx_wire_written api (length bs) r\<rparr>, w\<lparr>st_channel := c\<rparr>, st))
        | WriteFile bs \<Rightarrow>
            (case dl_file d of
               None \<Rightarrow> (Inl Remote, d, w, st)
             | Some name \<Rightarrow>
                (let w' = w\<lparr>st_folder := append_file name bs (st_folder w)\<rparr>;
                     (ok, r') = rx_file_written api (length bs) r; d' = d\<lparr>dl_receiver := r'\<rparr>
                 in if \<not> ok then (Inl Remote, d', w', st)
                    else (Inr True, d'\<lparr>dl_transferred := sat_add (dl_transferred d) (length bs)\<rparr>, w', st)))
        | Event (FileStarted name size_opt) \<Rightarrow> start_download_file now name size_opt (d, w, st)
        | Event FileCompleted \<Rightarrow> commit_download_file (d, w, st)
        | Event SessionCompleted \<Rightarrow> (Inr True, d, w, Some Completed)
        | Event Aborted \<Rightarrow> (Inr False, d, w, Some Cancelled)
        | Idle \<Rightarrow>
            (if st \<noteq> None \<or> dl_incoming d = [] then (Inr False, d, w, st)
             else case rx_submit_wire api (dl_incoming d) r of
                 (None, r') \<Rightarrow> (Inl Remote, d\<lparr>dl_receiver := r'\<rparr>, w, st)
               | (Some n, r') \<Rightarrow>
                   (if n = 0 then (Inr False, d\<lparr>dl_receiver := r'\<rparr>, w, st)
                    else (Inr True, d\<lparr>dl_receiver := r', dl_incoming := drop n (dl_incoming d)\<rparr>, w, st)))
        | _ \<Rightarrow> (Inl Internal, d, w, st))"

primrec download_loop :: "nat \<Rightarrow> nat \<Rightarrow> 'r receiver_api \<Rightarrow> 'r downloading \<Rightarrow> (app_error + unit) \<times> 'r downloading" where
  "download_loop 0 now api s = (Inr (), s)"
| "download_loop (Suc n) now api s = (case download_turn now api s of
     (Inl e, s') \<Rightarrow> (Inl e, s')
   | (Inr more_turns, s') \<Rightarrow> (if more_turns then download_loop n now api s' else (Inr (), s')))"

definition download_progress :: "'r download \<Rightarrow> progress" where
  "download_progress d = \<lparr>pr_file_name = dl_file_name d, pr_total = dl_total d, pr_transferred = dl_transferred d\<rparr>"

definition download_drive :: "nat \<Rightarrow> 'r receiver_api \<Rightarrow> 'r download \<times> site \<Rightarrow> (app_error + drive_result) \<times> 'r download \<times> site" where
  "download_drive now api s =
     (case download_loop 4096 now api (fst s, snd s, None) of
        (Inl e, d, w, st) \<Rightarrow> (Inl e, d, w)
      | (Inr _, d, w, st) \<Rightarrow>
          (Inr \<lparr>dr_status = st, dr_progress = download_progress d, dr_terminal = (if ended st then dl_incoming d else [])\<rparr>,
           (if ended st then d\<lparr>dl_incoming := []\<rparr> else d), w))"

definition new_download :: "string \<Rightarrow> u8 list \<Rightarrow> 'r \<Rightarrow> 'r download" where
  "new_download i incoming r = \<lparr>dl_id = i, dl_receiver = r, dl_incoming = incoming, dl_file = None, dl_temporary = None,
     dl_final = None, dl_file_name = None, dl_total = None, dl_transferred = 0\<rparr>"

definition start_download :: "'r option \<Rightarrow> bool \<Rightarrow> u8 list \<Rightarrow> string \<Rightarrow> 'r download app_result" where
  "start_download fresh is_dir incoming i =
     (if \<not> is_dir then Inl Validation else rbind (ok_or fresh Remote) (\<lambda>r. Inr (new_download i incoming r)))"

definition append_wire :: "u8 list \<Rightarrow> u8 list \<Rightarrow> u8 list app_result" where
  "append_wire incoming bs =
     (if MAX_PENDING_WIRE_BYTES < length incoming + length bs then Inl Unavailable else Inr (incoming @ bs))"

text \<open>\<open>Drop\<close>: an unfinished file does not stay behind.\<close>

definition drop_download :: "'r download \<Rightarrow> folder \<Rightarrow> folder" where
  "drop_download d f = (case dl_temporary d of None \<Rightarrow> f | Some temporary \<Rightarrow> remove_file temporary f)"

section \<open>Uploads\<close>

record upload_file =
  uf_content :: "u8 list"
  uf_name :: string
  uf_total :: nat

record 's sending =
  ul_id :: string
  ul_sender :: 's
  ul_files :: "upload_file list"
  ul_current :: nat
  ul_file_name :: string
  ul_total :: nat
  ul_transferred :: nat
  ul_incoming :: "u8 list"

text \<open>A path chosen for upload: its metadata, its file name, and the content it opens to.\<close>

record source =
  so_metadata :: "(bool \<times> nat) option"
  so_name :: "string option"
  so_content :: "u8 list option"
  so_is_dir :: bool

definition open_source :: "source \<Rightarrow> upload_file app_result" where
  "open_source s =
     rbind (ok_or (so_metadata s) Storage) (\<lambda>(is_file, n).
     rbind (guard is_file Validation) (\<lambda>_.
     rbind (guard (n \<le> MAX_FILE_SIZE) Validation) (\<lambda>_.
     rbind (ok_or (Option.bind (so_name s) (\<lambda>name. if name = [] then None else Some name)) Validation) (\<lambda>name.
     rbind (ok_or (so_content s) Storage) (\<lambda>content.
     Inr \<lparr>uf_content = content, uf_name = name, uf_total = n\<rparr>)))))"

definition start_upload :: "'s sender_api \<Rightarrow> source list \<Rightarrow> u8 list \<Rightarrow> string \<Rightarrow> 's sending app_result" where
  "start_upload api sources incoming i =
     rbind (guard (sources \<noteq> [] \<and> length sources \<le> 100) Validation) (\<lambda>_.
     rbind (rmap open_source sources) (\<lambda>files.
     rbind (ok_or (tx_new api) Remote) (\<lambda>s.
     (let first = hd files; (ok, s') = tx_start_file api (uf_name first) (uf_total first) s
      in rbind (guard ok Remote) (\<lambda>_.
         Inr \<lparr>ul_id = i, ul_sender = s', ul_files = files, ul_current = 0, ul_file_name = uf_name first,
              ul_total = uf_total first, ul_transferred = 0, ul_incoming = incoming\<rparr>)))))"

type_synonym 's uploading = "'s sending \<times> channel \<times> status option"

text \<open>A read behind the end of the content fails; an engine that reads after the last file would panic, which is a
  failure here.\<close>

definition read_source :: "upload_file \<Rightarrow> nat \<Rightarrow> nat \<Rightarrow> u8 list option" where
  "read_source u offset max_len =
     (let n = min max_len (uf_total u - offset); bs = take n (drop offset (uf_content u))
      in if length bs = n then Some bs else None)"

definition next_upload_file :: "'s sender_api \<Rightarrow> 's uploading \<Rightarrow> (app_error + bool) \<times> 's uploading" where
  "next_upload_file api x =
     (let (u, c, st) = x; i = ul_current u + 1; u' = u\<lparr>ul_current := i\<rparr>
      in if i < length (ul_files u) then
           (let f = ul_files u ! i; (ok, s) = tx_start_file api (uf_name f) (uf_total f) (ul_sender u)
            in (if ok then Inr True else Inl Remote,
                u'\<lparr>ul_sender := s, ul_file_name := uf_name f, ul_total := uf_total f, ul_transferred := 0\<rparr>, c, st))
         else (let (ok, s) = tx_finish api (ul_sender u)
               in (if ok then Inr True else Inl Remote, u'\<lparr>ul_sender := s\<rparr>, c, st)))"

definition upload_turn :: "'s sender_api \<Rightarrow> 's uploading \<Rightarrow> (app_error + bool) \<times> 's uploading" where
  "upload_turn api x =
     (let (u0, c, st) = x; (a, s) = tx_poll api (ul_sender u0); u = u0\<lparr>ul_sender := s\<rparr>
      in case a of
          WriteWire bs \<Rightarrow>
            (case write_wire bs c of
               (Inl e, c') \<Rightarrow> (Inl e, u, c', st)
             | (Inr _, c') \<Rightarrow> (Inr True, u\<lparr>ul_sender := tx_wire_written api (length bs) s\<rparr>, c', st))
        | ReadFile offset max_len \<Rightarrow>
            (case (if ul_current u < length (ul_files u) then read_source (ul_files u ! ul_current u) offset max_len else None) of
               None \<Rightarrow> (Inl Storage, u, c, st)
             | Some bs \<Rightarrow>
                (let (ok, s') = tx_submit_file api bs s; u' = u\<lparr>ul_sender := s'\<rparr>
                 in if \<not> ok then (Inl Remote, u', c, st)
                    else (Inr True, u'\<lparr>ul_transferred := sat_add offset (length bs)\<rparr>, c, st)))
        | Event FileCompleted \<Rightarrow> next_upload_file api (u, c, st)
        | Event SessionCompleted \<Rightarrow> (Inr True, u, c, Some Completed)
        | Event Aborted \<Rightarrow> (Inr False, u, c, Some Cancelled)
        | Idle \<Rightarrow>
            (if st \<noteq> None \<or> ul_incoming u = [] then (Inr False, u, c, st)
             else case tx_submit_wire api (ul_incoming u) s of
                 (None, s') \<Rightarrow> (Inl Remote, u\<lparr>ul_sender := s'\<rparr>, c, st)
               | (Some n, s') \<Rightarrow>
                   (if n = 0 then (Inr False, u\<lparr>ul_sender := s'\<rparr>, c, st)
                    else (Inr True, u\<lparr>ul_sender := s', ul_incoming := drop n (ul_incoming u)\<rparr>, c, st)))
        | _ \<Rightarrow> (Inl Internal, u, c, st))"

primrec upload_loop :: "nat \<Rightarrow> 's sender_api \<Rightarrow> 's uploading \<Rightarrow> (app_error + unit) \<times> 's uploading" where
  "upload_loop 0 api x = (Inr (), x)"
| "upload_loop (Suc n) api x = (case upload_turn api x of
     (Inl e, x') \<Rightarrow> (Inl e, x')
   | (Inr more_turns, x') \<Rightarrow> (if more_turns then upload_loop n api x' else (Inr (), x')))"

definition upload_progress :: "'s sending \<Rightarrow> progress" where
  "upload_progress u = \<lparr>pr_file_name = Some (ul_file_name u), pr_total = Some (ul_total u), pr_transferred = ul_transferred u\<rparr>"

definition upload_drive :: "'s sender_api \<Rightarrow> 's sending \<times> channel \<Rightarrow> (app_error + drive_result) \<times> 's sending \<times> channel" where
  "upload_drive api x =
     (case upload_loop 4096 api (fst x, snd x, None) of
        (Inl e, u, c, st) \<Rightarrow> (Inl e, u, c)
      | (Inr _, u, c, st) \<Rightarrow>
          (Inr \<lparr>dr_status = st, dr_progress = upload_progress u, dr_terminal = (if ended st then ul_incoming u else [])\<rparr>,
           (if ended st then u\<lparr>ul_incoming := []\<rparr> else u), c))"

end
