(* ===== verification/ZmodemSession.thy ===== *)
theory ZmodemSession
  imports ZmodemTransfer
begin

text \<open>
  Zmodem in a terminal session (\<open>src-tauri/src/ssh.rs\<close>, the functions between \<open>zmodem_event\<close> and
  \<open>zmodem_cancel\<close>): the state of the terminal, and one operation for each thing that happens to it.
\<close>

section \<open>The state of a terminal\<close>

datatype ('r, 's) active = Downloading "'r download" | Uploading "'s sending"

datatype ('r, 's) zmodem_state =
    Detecting "u8 list"
  | Awaiting awaiting
  | Active "('r, 's) active"
  | Finishing finishing

record ('r, 's) terminal =
  tm_zmodem :: "('r, 's) zmodem_state"
  tm_site :: site

record zmodem_event =
  ze_id :: string
  ze_direction :: direction
  ze_status :: string
  ze_progress :: progress
  ze_error :: "app_error option"

definition no_progress :: progress where
  "no_progress = \<lparr>pr_file_name = None, pr_total = None, pr_transferred = 0\<rparr>"

definition zmodem_event :: "string \<Rightarrow> direction \<Rightarrow> string \<Rightarrow> progress option \<Rightarrow> app_error option \<Rightarrow> zmodem_event" where
  "zmodem_event i dir st p err =
     \<lparr>ze_id = i, ze_direction = dir, ze_status = st, ze_progress = (case p of None \<Rightarrow> no_progress | Some x \<Rightarrow> x), ze_error = err\<rparr>"

fun active_id :: "('r, 's) active \<Rightarrow> string" where
  "active_id (Downloading d) = dl_id d"
| "active_id (Uploading u) = ul_id u"

fun active_direction :: "('r, 's) active \<Rightarrow> direction" where
  "active_direction (Downloading d) = Download"
| "active_direction (Uploading u) = Upload"

fun active_progress :: "('r, 's) active \<Rightarrow> progress" where
  "active_progress (Downloading d) = download_progress d"
| "active_progress (Uploading u) = upload_progress u"

fun active_append_wire :: "u8 list \<Rightarrow> ('r, 's) active \<Rightarrow> ('r, 's) active app_result" where
  "active_append_wire bs (Downloading d) = rbind (append_wire (dl_incoming d) bs) (\<lambda>i. Inr (Downloading (d\<lparr>dl_incoming := i\<rparr>)))"
| "active_append_wire bs (Uploading u) = rbind (append_wire (ul_incoming u) bs) (\<lambda>i. Inr (Uploading (u\<lparr>ul_incoming := i\<rparr>)))"

record ('r, 's) engine =
  en_receiver :: "'r receiver_api"
  en_sender :: "'s sender_api"
  en_new_receiver :: "'r option"

fun active_drive :: "nat \<Rightarrow> ('r, 's) engine \<Rightarrow> ('r, 's) active \<times> site \<Rightarrow> (app_error + drive_result) \<times> ('r, 's) active \<times> site" where
  "active_drive now en (Downloading d, w) =
     (let (res, d', w') = download_drive now (en_receiver en) (d, w) in (res, Downloading d', w'))"
| "active_drive now en (Uploading u, w) =
     (let (res, u', c) = upload_drive (en_sender en) (u, st_channel w) in (res, Uploading u', w\<lparr>st_channel := c\<rparr>))"

text \<open>A transfer that goes out of scope is dropped.\<close>

fun drop_active :: "('r, 's) active \<Rightarrow> site \<Rightarrow> site" where
  "drop_active (Downloading d) w = w\<lparr>st_folder := drop_download d (st_folder w)\<rparr>"
| "drop_active (Uploading u) w = w"

fun drop_state :: "('r, 's) zmodem_state \<Rightarrow> site \<Rightarrow> site" where
  "drop_state (Active a) w = drop_active a w"
| "drop_state _ w = w"

text \<open>\<open>write_channel_input\<close> writes and flushes; the flush, which sends nothing new, is left out.\<close>

definition send_cancel :: "site \<Rightarrow> (app_error + unit) \<times> site" where
  "send_cancel w = (let (res, c) = write_wire CANCEL_SEQUENCE (st_channel w) in (res, w\<lparr>st_channel := c\<rparr>))"

definition status_text :: "status option \<Rightarrow> string" where
  "status_text s = (case s of None \<Rightarrow> ''running'' | Some Running \<Rightarrow> ''running'' | Some Completed \<Rightarrow> ''completed''
     | Some Cancelled \<Rightarrow> ''cancelled'')"

section \<open>Bytes from the channel\<close>

text \<open>What becomes of a transfer after a successful drive: the state and the bytes for the terminal.\<close>

definition after_drive :: "nat \<Rightarrow> drive_result \<Rightarrow> ('r, 's) active \<Rightarrow> ('r, 's) zmodem_state \<times> u8 list" where
  "after_drive now res a =
     (if dr_status res = Some Completed \<and> active_direction a = Download then
        (case finishing_feed [] \<lparr>fi_pending = dr_terminal res, fi_started_at = now\<rparr> of
           (Some bs, _) \<Rightarrow> (Detecting [], bs)
         | (None, s) \<Rightarrow> (Finishing s, []))
      else if dr_status res \<noteq> None then (Detecting [], dr_terminal res)
      else (Active a, dr_terminal res))"

definition settle_active :: "('r, 's) zmodem_state \<Rightarrow> ('r, 's) active \<Rightarrow> site \<Rightarrow> ('r, 's) terminal" where
  "settle_active z a w = \<lparr>tm_zmodem = z, tm_site = (case z of Active _ \<Rightarrow> w | _ \<Rightarrow> drop_active a w)\<rparr>"

definition route_active ::
    "nat \<Rightarrow> ('r, 's) engine \<Rightarrow> u8 list \<Rightarrow> ('r, 's) active \<Rightarrow> site \<Rightarrow> u8 list \<times> zmodem_event option \<times> ('r, 's) terminal" where
  "route_active now en bs a w =
     (let (res, a', w') = (case active_append_wire bs a of Inl e \<Rightarrow> (Inl e, a, w) | Inr a1 \<Rightarrow> active_drive now en (a1, w))
      in case res of
          Inr r \<Rightarrow>
            (let (z, out) = after_drive now r a'
             in (out, Some (zmodem_event (active_id a') (active_direction a') (status_text (dr_status r)) (Some (dr_progress r)) None),
                 settle_active z a' w'))
        | Inl e \<Rightarrow>
            ([], Some (zmodem_event (active_id a') (active_direction a') ''failed'' (Some (active_progress a')) (Some e)),
             settle_active (Detecting []) a' (snd (send_cancel w'))))"

definition route_terminal_bytes ::
    "nat \<Rightarrow> string \<Rightarrow> ('r, 's) engine \<Rightarrow> u8 list \<Rightarrow> ('r, 's) terminal \<Rightarrow> u8 list \<times> zmodem_event option \<times> ('r, 's) terminal" where
  "route_terminal_bytes now uuid en bs t =
     (let w = tm_site t
      in case tm_zmodem t of
          Detecting pending \<Rightarrow>
            (case detector_feed pending bs of
               (out, Waiting p) \<Rightarrow> (out, None, t\<lparr>tm_zmodem := Detecting p\<rparr>)
             | (out, Detected dir p) \<Rightarrow>
                 (out, Some (zmodem_event uuid dir ''awaitingAuthorization'' None None),
                  t\<lparr>tm_zmodem := Awaiting \<lparr>aw_id = uuid, aw_direction = dir, aw_bytes = p, aw_detected_at = now\<rparr>\<rparr>))
        | Awaiting a \<Rightarrow>
            (case awaiting_append bs a of
               Inr a' \<Rightarrow> ([], None, t\<lparr>tm_zmodem := Awaiting a'\<rparr>)
             | Inl e \<Rightarrow> ([], Some (zmodem_event (aw_id a) (aw_direction a) ''failed'' None (Some e)),
                 \<lparr>tm_zmodem = Detecting [], tm_site = snd (send_cancel w)\<rparr>))
        | Active a \<Rightarrow> route_active now en bs a w
        | Finishing s \<Rightarrow>
            (case finishing_feed bs s of
               (Some out, _) \<Rightarrow> (out, None, t\<lparr>tm_zmodem := Detecting []\<rparr>)
             | (None, s') \<Rightarrow> ([], None, t\<lparr>tm_zmodem := Finishing s'\<rparr>)))"

section \<open>The other events\<close>

definition expire_zmodem_authorization :: "nat \<Rightarrow> ('r, 's) terminal \<Rightarrow> zmodem_event option \<times> ('r, 's) terminal" where
  "expire_zmodem_authorization now t = (case tm_zmodem t of
     Awaiting a \<Rightarrow> (if awaiting_expired now a
       then (Some (zmodem_event (aw_id a) (aw_direction a) ''cancelled'' None (Some Unavailable)),
             \<lparr>tm_zmodem = Detecting [], tm_site = snd (send_cancel (tm_site t))\<rparr>)
       else (None, t))
   | Finishing s \<Rightarrow> (None, if finishing_expired now s then t\<lparr>tm_zmodem := Detecting []\<rparr> else t)
   | _ \<Rightarrow> (None, t))"

definition fail_zmodem_for_disconnect :: "('r, 's) terminal \<Rightarrow> zmodem_event option \<times> ('r, 's) terminal" where
  "fail_zmodem_for_disconnect t = (case tm_zmodem t of
     Detecting p \<Rightarrow> (None, t)
   | Awaiting a \<Rightarrow> (Some (zmodem_event (aw_id a) (aw_direction a) ''failed'' None (Some Unavailable)), t\<lparr>tm_zmodem := Detecting []\<rparr>)
   | Active a \<Rightarrow> (Some (zmodem_event (active_id a) (active_direction a) ''failed'' (Some (active_progress a)) (Some Unavailable)),
       settle_active (Detecting []) a (tm_site t))
   | Finishing s \<Rightarrow> (None, t\<lparr>tm_zmodem := Detecting []\<rparr>))"

text \<open>The user picks a directory, or files, for the request with this identifier.\<close>

definition open_transfer :: "('r, 's) engine \<Rightarrow> awaiting \<Rightarrow> source list \<Rightarrow> ('r, 's) active app_result" where
  "open_transfer en a paths = (case aw_direction a of
     Download \<Rightarrow> (if length paths = 1
       then rbind (start_download (en_new_receiver en) (so_is_dir (hd paths)) (aw_bytes a) (aw_id a)) (\<lambda>d. Inr (Downloading d))
       else Inl Validation)
   | Upload \<Rightarrow> rbind (start_upload (en_sender en) paths (aw_bytes a) (aw_id a)) (\<lambda>u. Inr (Uploading u)))"

definition zmodem_start ::
    "nat \<Rightarrow> ('r, 's) engine \<Rightarrow> string \<Rightarrow> source list \<Rightarrow> ('r, 's) terminal
      \<Rightarrow> (app_error + zmodem_event) \<times> u8 list \<times> ('r, 's) terminal" where
  "zmodem_start now en transfer_id paths t = (case tm_zmodem t of
     Awaiting a \<Rightarrow>
       (if aw_id a \<noteq> transfer_id then (Inl Unavailable, [], t)
        else case open_transfer en a paths of
            Inl e \<Rightarrow> (Inl e, [], \<lparr>tm_zmodem = Detecting [], tm_site = snd (send_cancel (tm_site t))\<rparr>)
          | Inr x \<Rightarrow>
             (case active_drive now en (x, tm_site t) of
                (Inl e, x', w) \<Rightarrow> (Inl e, [], settle_active (Detecting []) x' (snd (send_cancel w)))
              | (Inr r, x', w) \<Rightarrow>
                  (let (z, out) = after_drive now r x'
                   in (Inr (zmodem_event (aw_id a) (aw_direction a) (status_text (dr_status r)) (Some (dr_progress r)) None),
                       (if dr_status r = Some Completed \<and> aw_direction a = Download then out else []), settle_active z x' w))))
   | _ \<Rightarrow> (Inl Unavailable, [], t))"

definition zmodem_cancel ::
    "string \<Rightarrow> ('r, 's) terminal \<Rightarrow> (app_error + zmodem_event) \<times> ('r, 's) terminal" where
  "zmodem_cancel transfer_id t =
     (let cancelled = (\<lambda>i dir p t'.
            (let (res, w) = send_cancel (tm_site t')
             in (case res of Inl e \<Rightarrow> Inl e | Inr _ \<Rightarrow> Inr (zmodem_event i dir ''cancelled'' p None), t'\<lparr>tm_site := w\<rparr>)))
      in case tm_zmodem t of
          Awaiting a \<Rightarrow> (if aw_id a = transfer_id then cancelled (aw_id a) (aw_direction a) None (t\<lparr>tm_zmodem := Detecting []\<rparr>)
            else (Inl Unavailable, t))
        | Active x \<Rightarrow> (if active_id x = transfer_id
            then cancelled transfer_id (active_direction x) (Some (active_progress x)) (settle_active (Detecting []) x (tm_site t))
            else (Inl Unavailable, t))
        | _ \<Rightarrow> (Inl Unavailable, t))"

text \<open>Keys typed while a transfer is pending are refused.\<close>

definition terminal_input :: "u8 list \<Rightarrow> ('r, 's) terminal \<Rightarrow> (app_error + unit) \<times> ('r, 's) terminal" where
  "terminal_input keys t =
     (if 1024 * 1024 < length keys then (Inl Validation, t)
      else case tm_zmodem t of
          Detecting p \<Rightarrow> (let (res, c) = write_wire keys (st_channel (tm_site t)) in (res, t\<lparr>tm_site := (tm_site t)\<lparr>st_channel := c\<rparr>\<rparr>))
        | _ \<Rightarrow> (Inl Unavailable, t))"

end
