(* ===== verification/ZmodemSafety.thy ===== *)
theory ZmodemSafety
  imports ZmodemSession
begin

text \<open>
  What a Zmodem download may do to the folder of the user, whatever the engine and the peer do, and when.
\<close>

section \<open>Names\<close>

lemma split_on_no_separator: "p \<in> set (split_on d s) \<Longrightarrow> d \<notin> set p"
  by (induction s arbitrary: p) (auto split: list.splits if_splits)

lemma last_segment_chars: "CHR ''/'' \<notin> set (last_segment s)" "CHR 0x5C \<notin> set (last_segment s)"
proof -
  let ?m = "map (\<lambda>c. if c = CHR 0x5C then CHR ''/'' else c) s"
  have last: "last_segment s \<in> set (split_on (CHR ''/'') ?m)" by (simp add: last_segment_def)
  then show "CHR ''/'' \<notin> set (last_segment s)" by (rule split_on_no_separator)
  have sub: "p \<in> set (split_on d t) \<Longrightarrow> set p \<subseteq> set t" for p d t
    by (induction t arbitrary: p) (auto split: list.splits if_splits, blast+)
  have "set (last_segment s) \<subseteq> set ?m" using last by (rule sub)
  moreover have "CHR 0x5C \<notin> set ?m" by auto
  ultimately show "CHR 0x5C \<notin> set (last_segment s)" by blast
qed

lemma utf8_chars_pos: "u \<in> set (utf8_chars s) \<Longrightarrow> u \<noteq> []"
  by (induction s rule: utf8_chars.induct) auto

lemma length_concat_ge: "(\<And>u. u \<in> set us \<Longrightarrow> u \<noteq> []) \<Longrightarrow> length us \<le> length (concat us)"
proof (induction us)
  case (Cons u us)
  then have "length us \<le> length (concat us)" by simp
  moreover have "u \<noteq> []" using Cons(2) by simp
  ultimately show ?case by (cases u) simp_all
qed simp

lemma safe_file_name_safe:
  assumes "safe_file_name remote = Inr name"
  shows "safe_name name"
proof -
  let ?full = "last_segment remote"
  have full: "?full \<noteq> ''.''" "?full \<noteq> ''..''" and name: "name = concat (take 255 (utf8_chars ?full))"
    using assms by (auto simp: safe_file_name_def Let_def split: if_split_asm)
  have "set name \<subseteq> set (concat (utf8_chars ?full))" unfolding name by (auto dest: in_set_takeD)
  then have chars: "CHR ''/'' \<notin> set name" "CHR 0x5C \<notin> set name"
    using last_segment_chars [of remote] by (auto simp: concat_utf8_chars)
  have "name \<noteq> ''.'' \<and> name \<noteq> ''..''"
  proof (cases "length (utf8_chars ?full) \<le> 255")
    case True
    then have "name = ?full" by (simp add: name concat_utf8_chars)
    then show ?thesis using full by simp
  next
    case False
    then have "255 = length (take 255 (utf8_chars ?full))" by simp
    also have "\<dots> \<le> length name"
      unfolding name by (rule length_concat_ge) (auto dest: in_set_takeD utf8_chars_pos)
    finally have "2 < length name" by simp
    then show ?thesis by auto
  qed
  then show ?thesis using chars by (simp add: safe_name_def)
qed

lemma stamped_safe: "safe_name name \<Longrightarrow> safe_name (stamped now (fst (split_name name)))"
proof -
  assume safe: "safe_name name"
  obtain stem ext where split: "split_name name = (stem, ext)" by fastforce
  have "set (string_of_nat now) \<inter> {CHR ''/'', CHR 0x5C} = {}"
    using digits_of_nat by (fastforce simp: less_eq_char_def)
  moreover have "set stem \<subseteq> set name" using split_name_set [OF split] by auto
  ultimately have "CHR ''/'' \<notin> set (stamped now stem)" "CHR 0x5C \<notin> set (stamped now stem)"
    using safe unfolding stamped_def safe_name_def by auto
  moreover have "CHR ''-'' \<in> set (stamped now stem)" by (simp add: stamped_def)
  then have "stamped now stem \<noteq> ''.''" "stamped now stem \<noteq> ''..''" by auto
  ultimately show ?thesis by (simp add: split safe_name_def)
qed

definition is_stamped :: "string \<Rightarrow> bool" where
  "is_stamped name \<longleftrightarrow> (\<exists>now stem. name = stamped now stem)"

lemma available_index_ok:
  "safe_name name \<Longrightarrow> safe_name (available_index f now name i)
    \<and> (\<not> taken (available_index f now name i) f \<or> is_stamped (available_index f now name i))"
proof (induction f now name i rule: available_index.induct)
  case (1 f now name i)
  then show ?case using renamed_safe [of name i] stamped_safe [of name now]
    by (subst (1 2 3) available_index.simps) (auto simp: is_stamped_def)
qed

lemma available_path_ok:
  "safe_name name \<Longrightarrow> safe_name (available_path f now name) \<and>
    (\<not> taken (available_path f now name) f \<or> is_stamped (available_path f now name))"
  using available_index_ok [of name f now 1] by (auto simp: available_path_def)

section \<open>The folder\<close>

text \<open>
  Compared with the folder \<open>f0\<close> before: every file is still there with its content, and every new file has a
  safe name. The exception are files whose name is a stem and a timestamp, the name that is used unchecked when
  9999 numbered names are taken.
\<close>

definition preserved :: "folder \<Rightarrow> folder \<Rightarrow> bool" where
  "preserved f0 f \<longleftrightarrow>
     (\<forall>name bs. fd_files f0 name = Some bs \<longrightarrow> fd_files f name = Some bs \<or> (is_stamped name \<and> fd_files f name \<noteq> None))
     \<and> (\<forall>name. fd_files f name \<noteq> None \<longrightarrow> fd_files f0 name = None \<longrightarrow> safe_name name)"

lemma preserved_refl: "preserved f f"
  by (auto simp: preserved_def)

lemma preserved_save:
  "preserved f0 f \<Longrightarrow> safe_name name \<Longrightarrow> fd_files f0 name = None \<or> is_stamped name \<Longrightarrow> preserved f0 (save_file name bs f)"
  by (auto simp: preserved_def save_file_def)

lemma preserved_remove: "preserved f0 f \<Longrightarrow> fd_files f0 name = None \<Longrightarrow> preserved f0 (remove_file name f)"
  by (auto simp: preserved_def remove_file_def)

lemma not_taken_new: "preserved f0 f \<Longrightarrow> \<not> taken name f \<Longrightarrow> fd_files f0 name = None"
  unfolding preserved_def taken_def by (metis option.exhaust)

definition uuids_ok :: "site \<Rightarrow> bool" where
  "uuids_ok w \<longleftrightarrow> (\<forall>u \<in> set (st_uuids w). CHR ''/'' \<notin> set u \<and> CHR 0x5C \<notin> set u)"

definition site_ok :: "folder \<Rightarrow> site \<Rightarrow> bool" where
  "site_ok f0 w \<longleftrightarrow> preserved f0 (st_folder w) \<and> uuids_ok w"

definition fresh_name :: "folder \<Rightarrow> string option \<Rightarrow> bool" where
  "fresh_name f0 x \<longleftrightarrow> (\<forall>name. x = Some name \<longrightarrow> safe_name name \<and> fd_files f0 name = None)"

definition download_ok :: "folder \<Rightarrow> 'r download \<Rightarrow> bool" where
  "download_ok f0 d \<longleftrightarrow> fresh_name f0 (dl_file d) \<and> fresh_name f0 (dl_temporary d)
     \<and> (\<forall>name. dl_final d = Some name \<longrightarrow> safe_name name \<and> (fd_files f0 name = None \<or> is_stamped name))"

lemma part_name_safe: "CHR ''/'' \<notin> set u \<Longrightarrow> CHR 0x5C \<notin> set u \<Longrightarrow> safe_name (part_name u)"
  by (simp add: safe_name_def part_name_def)

lemma temporary_ok:
  "temporary_download_path f us = Some (t, us') \<Longrightarrow> \<not> taken t f \<and> set us' \<subseteq> set us \<and> (\<exists>u \<in> set us. t = part_name u)"
  by (induction f us rule: temporary_download_path.induct) (auto split: if_split_asm)

lemma start_download_file_ok:
  assumes "start_download_file now name n (d, w, st) = (q, d', w', st')" "download_ok f0 d" "site_ok f0 w"
  shows "download_ok f0 d' \<and> site_ok f0 w'"
proof (cases "safe_file_name (from_utf8_lossy name)")
  case (Inl e)
  then show ?thesis using assms by (auto simp: start_download_file_def)
next
  case (Inr file_name)
  show ?thesis
  proof (cases "temporary_download_path (st_folder w) (st_uuids w)")
    case None
    then show ?thesis using assms Inr by (auto simp: start_download_file_def)
  next
    case (Some r)
    obtain t us where r: "r = (t, us)" by fastforce
    have t: "\<not> taken t (st_folder w)" "set us \<subseteq> set (st_uuids w)" "\<exists>u \<in> set (st_uuids w). t = part_name u"
      using temporary_ok [of "st_folder w" "st_uuids w" t us] Some r by auto
    have fresh: "fd_files f0 t = None" using not_taken_new t(1) assms(3) by (auto simp: site_ok_def)
    have safe: "safe_name t" using t(3) assms(3) part_name_safe by (auto simp: site_ok_def uuids_ok_def)
    let ?p = "available_path (st_folder w) now file_name"
    have avail: "safe_name ?p" "\<not> taken ?p (st_folder w) \<or> is_stamped ?p"
      using available_path_ok [OF safe_file_name_safe [OF Inr]] by blast+
    then have path: "safe_name ?p" "fd_files f0 ?p = None \<or> is_stamped ?p"
      using not_taken_new [of f0 "st_folder w" ?p] assms(3) by (auto simp: site_ok_def)
    have "preserved f0 (save_file t [] (st_folder w))"
      using preserved_save [OF _ safe] fresh assms(3) by (auto simp: site_ok_def)
    moreover have "w' = w\<lparr>st_folder := save_file t [] (st_folder w), st_uuids := us\<rparr>"
      and "dl_file d' = Some t" "dl_temporary d' = Some t" "dl_final d' = Some ?p"
      using assms(1) Some r Inr by (auto simp: start_download_file_def Let_def)
    ultimately show ?thesis using assms(3) safe fresh path t(2)
      by (auto simp: download_ok_def site_ok_def uuids_ok_def fresh_name_def)
  qed
qed

lemma rename_ok:
  assumes "site_ok f0 w" "fresh_name f0 (Some old)" "safe_name new" "fd_files f0 new = None \<or> is_stamped new"
  shows "site_ok f0 (w\<lparr>st_folder := rename_file old new (st_folder w)\<rparr>)"
proof -
  have "preserved f0 (remove_file old (st_folder w))"
    using preserved_remove assms(1,2) by (auto simp: site_ok_def fresh_name_def)
  from preserved_save [OF this assms(3,4)] show ?thesis
    using assms(1) by (auto simp: site_ok_def rename_file_def uuids_ok_def split: option.split)
qed

lemma commit_download_file_ok:
  assumes "commit_download_file (d, w, st) = (q, d', w', st')" "download_ok f0 d" "site_ok f0 w"
  shows "download_ok f0 d' \<and> site_ok f0 w'"
  using assms rename_ok [OF assms(3)]
  by (auto simp: commit_download_file_def download_ok_def fresh_name_def split: option.splits)

lemma append_ok:
  "site_ok f0 w \<Longrightarrow> fresh_name f0 (Some name) \<Longrightarrow> site_ok f0 (w\<lparr>st_folder := append_file name bs (st_folder w)\<rparr>)"
  using preserved_save [of f0 "st_folder w" name] by (auto simp: site_ok_def uuids_ok_def append_file_def fresh_name_def)

lemma download_turn_ok:
  assumes "download_turn now api (d, w, st) = (q, d', w', st')" "download_ok f0 d" "site_ok f0 w"
  shows "download_ok f0 d' \<and> site_ok f0 w'"
proof -
  obtain a r where p: "rx_poll api (dl_receiver d) = (a, r)" by fastforce
  have d: "download_ok f0 (d\<lparr>dl_receiver := r\<rparr>)" using assms(2) by (simp add: download_ok_def)
  note turn = assms(1) [unfolded download_turn_def Let_def p prod.case]
  show ?thesis
  proof (cases a)
    case (WriteWire bs)
    then show ?thesis using turn assms(2,3)
      by (auto simp: download_ok_def site_ok_def uuids_ok_def split: prod.splits sum.splits)
  next
    case (WriteFile bs)
    then show ?thesis using turn assms(2,3) append_ok [OF assms(3)]
      by (auto simp: download_ok_def split: option.splits prod.splits if_split_asm)
  next
    case (Event ev)
    show ?thesis
    proof (cases ev)
      case (FileStarted name n)
      then show ?thesis using start_download_file_ok [OF _ d assms(3)] turn Event by simp
    next
      case FileCompleted
      then show ?thesis using commit_download_file_ok [OF _ d assms(3)] turn Event by simp
    qed (use turn d assms(3) Event in simp_all)
  next
    case Idle
    then show ?thesis using turn assms(2,3)
      by (auto simp: download_ok_def split: option.splits prod.splits if_split_asm)
  qed (use turn assms(2,3) in \<open>auto simp: download_ok_def\<close>)
qed

lemma download_loop_ok:
  "download_loop n now api (d, w, st) = (q, d', w', st') \<Longrightarrow> download_ok f0 d \<Longrightarrow> site_ok f0 w
    \<Longrightarrow> download_ok f0 d' \<and> site_ok f0 w'"
proof (induction n arbitrary: d w st)
  case (Suc n)
  obtain q1 d1 w1 st1 where t: "download_turn now api (d, w, st) = (q1, d1, w1, st1)" by (metis prod_cases4)
  have "download_ok f0 d1 \<and> site_ok f0 w1" using download_turn_ok [OF t] Suc.prems by auto
  then show ?case using Suc.IH [of d1 w1 st1] Suc.prems t by (auto split: sum.splits if_split_asm)
qed auto

lemma download_drive_ok:
  assumes "download_drive now api (d, w) = (q, d', w')" "download_ok f0 d" "site_ok f0 w"
  shows "download_ok f0 d' \<and> site_ok f0 w'"
proof -
  obtain q1 d1 w1 st1 where t: "download_loop 4096 now api (d, w, None) = (q1, d1, w1, st1)" by (metis prod_cases4)
  have "download_ok f0 d1 \<and> site_ok f0 w1" using download_loop_ok [OF t assms(2,3)] .
  then show ?thesis using assms(1) t
    by (auto simp: download_drive_def download_ok_def split: sum.splits if_split_asm)
qed

section \<open>Runs of a terminal\<close>

datatype happening = Bytes nat string "u8 list" | Start nat string "source list" | Cancel string | Expire nat | Disconnect | Keys "u8 list"

fun happen :: "('r, 's) engine \<Rightarrow> happening \<Rightarrow> ('r, 's) terminal \<Rightarrow> ('r, 's) terminal" where
  "happen en (Bytes now uuid bs) t = snd (snd (route_terminal_bytes now uuid en bs t))"
| "happen en (Start now i paths) t = snd (snd (zmodem_start now en i paths t))"
| "happen en (Cancel i) t = snd (zmodem_cancel i t)"
| "happen en (Expire now) t = snd (expire_zmodem_authorization now t)"
| "happen en Disconnect t = snd (fail_zmodem_for_disconnect t)"
| "happen en (Keys bs) t = snd (terminal_input bs t)"

primrec run :: "('r, 's) engine \<Rightarrow> happening list \<Rightarrow> ('r, 's) terminal \<Rightarrow> ('r, 's) terminal" where
  "run en [] t = t"
| "run en (e # es) t = run en es (happen en e t)"

fun active_ok :: "folder \<Rightarrow> ('r, 's) active \<Rightarrow> bool" where
  "active_ok f0 (Downloading d) = download_ok f0 d"
| "active_ok f0 (Uploading u) = True"

fun state_ok :: "folder \<Rightarrow> ('r, 's) zmodem_state \<Rightarrow> bool" where
  "state_ok f0 (Active a) = active_ok f0 a"
| "state_ok f0 _ = True"

definition terminal_ok :: "folder \<Rightarrow> ('r, 's) terminal \<Rightarrow> bool" where
  "terminal_ok f0 t \<longleftrightarrow> site_ok f0 (tm_site t) \<and> state_ok f0 (tm_zmodem t)"

lemma active_drive_ok:
  "active_drive now en (a, w) = (q, a', w') \<Longrightarrow> active_ok f0 a \<Longrightarrow> site_ok f0 w \<Longrightarrow> active_ok f0 a' \<and> site_ok f0 w'"
  by (cases a) (auto simp: site_ok_def uuids_ok_def dest: download_drive_ok split: prod.splits)

lemma drop_active_ok: "active_ok f0 a \<Longrightarrow> site_ok f0 w \<Longrightarrow> site_ok f0 (drop_active a w)"
  by (cases a) (auto simp: site_ok_def uuids_ok_def drop_download_def download_ok_def fresh_name_def
      intro: preserved_remove split: option.split)

lemma send_cancel_site: "st_folder (snd (send_cancel w)) = st_folder w" "st_uuids (snd (send_cancel w)) = st_uuids w"
  by (simp_all add: send_cancel_def split: prod.split)

lemma send_cancel_ok [simp]: "site_ok f0 (snd (send_cancel w)) = site_ok f0 w"
  by (simp add: site_ok_def uuids_ok_def send_cancel_site)

lemma append_wire_ok: "active_append_wire bs a = Inr a' \<Longrightarrow> active_ok f0 a \<Longrightarrow> active_ok f0 a'"
  by (cases a) (auto simp: res_iff download_ok_def)

lemma settle_active_ok:
  "active_ok f0 a \<Longrightarrow> site_ok f0 w \<Longrightarrow> z = Active a \<or> (\<forall>x. z \<noteq> Active x) \<Longrightarrow> terminal_ok f0 (settle_active z a w)"
  using drop_active_ok by (cases z) (auto simp: settle_active_def terminal_ok_def)

lemma after_drive_state: "fst (after_drive now r a) = Active a \<or> (\<forall>x. fst (after_drive now r a) \<noteq> Active x)"
  by (simp add: after_drive_def split: prod.split option.split)

lemma settle_after_drive_ok:
  "after_drive now r a = (z, out) \<Longrightarrow> active_ok f0 a \<Longrightarrow> site_ok f0 w \<Longrightarrow> terminal_ok f0 (settle_active z a w)"
  using after_drive_state [of now r a] settle_active_ok [of f0 a w z] by simp

lemma route_active_ok:
  assumes "active_ok f0 a" "site_ok f0 w"
  shows "terminal_ok f0 (snd (snd (route_active now en bs a w)))"
proof (cases "active_append_wire bs a")
  case (Inl e)
  then show ?thesis using assms by (simp add: route_active_def settle_active_ok)
next
  case (Inr a1)
  obtain res a' w' where d: "active_drive now en (a1, w) = (res, a', w')" by (metis prod_cases3)
  have ok: "active_ok f0 a'" "site_ok f0 w'"
    using active_drive_ok [OF d append_wire_ok [OF Inr assms(1)] assms(2)] by simp_all
  then show ?thesis using Inr d
    by (cases res) (auto simp: route_active_def Let_def settle_active_ok split: prod.split intro: settle_after_drive_ok)
qed

lemma new_download_ok: "start_download r is_dir incoming i = Inr d \<Longrightarrow> download_ok f0 d"
  by (auto simp: start_download_def new_download_def download_ok_def fresh_name_def res_iff split: if_split_asm)

lemma open_transfer_ok: "open_transfer en a paths = Inr x \<Longrightarrow> active_ok f0 x"
  by (auto simp: open_transfer_def res_iff dest: new_download_ok split: direction.splits if_split_asm)

lemma zmodem_start_ok:
  assumes "terminal_ok f0 t"
  shows "terminal_ok f0 (snd (snd (zmodem_start now en i paths t)))"
proof (cases "\<exists>a x. tm_zmodem t = Awaiting a \<and> aw_id a = i \<and> open_transfer en a paths = Inr x")
  case True
  then obtain a x where a: "tm_zmodem t = Awaiting a" "aw_id a = i" "open_transfer en a paths = Inr x" by blast
  obtain res x' w where d: "active_drive now en (x, tm_site t) = (res, x', w)" by (metis prod_cases3)
  have ok: "active_ok f0 x'" "site_ok f0 w"
    using active_drive_ok [OF d open_transfer_ok [OF a(3)]] assms by (simp_all add: terminal_ok_def)
  then show ?thesis using a d
    by (cases res) (auto simp: zmodem_start_def Let_def settle_active_ok split: prod.split intro: settle_after_drive_ok)
next
  case False
  then show ?thesis using assms
    by (auto simp: zmodem_start_def terminal_ok_def split: zmodem_state.split sum.split)
qed

lemma happen_ok: "terminal_ok f0 t \<Longrightarrow> terminal_ok f0 (happen en e t)"
proof (cases e)
  case (Bytes now uuid bs)
  assume ok: "terminal_ok f0 t"
  show ?thesis
  proof (cases "tm_zmodem t")
    case (Active a)
    then show ?thesis using ok route_active_ok [of f0 a "tm_site t"] Bytes
      by (simp add: route_terminal_bytes_def terminal_ok_def)
  qed (use Bytes ok in \<open>auto simp: route_terminal_bytes_def terminal_ok_def split: sum.split prod.split scan.split option.split\<close>)
next
  case (Cancel i)
  assume ok: "terminal_ok f0 t"
  show ?thesis
  proof (cases "tm_zmodem t")
    case (Active a)
    then have "terminal_ok f0 (settle_active (Detecting []) a (tm_site t))"
      using ok by (intro settle_active_ok) (simp_all add: terminal_ok_def)
    then show ?thesis using Cancel Active ok
      by (auto simp: zmodem_cancel_def Let_def terminal_ok_def split: prod.split dest: arg_cong [where f = snd] intro!: send_cancel_ok [THEN iffD2])
  qed (use Cancel ok in \<open>auto simp: zmodem_cancel_def Let_def terminal_ok_def case_prod_beta\<close>)
next
  case Disconnect
  assume ok: "terminal_ok f0 t"
  show ?thesis
  proof (cases "tm_zmodem t")
    case (Active a)
    then have "terminal_ok f0 (settle_active (Detecting []) a (tm_site t))"
      using ok by (intro settle_active_ok) (simp_all add: terminal_ok_def)
    then show ?thesis using Disconnect Active by (simp add: fail_zmodem_for_disconnect_def)
  qed (use Disconnect ok in \<open>auto simp: fail_zmodem_for_disconnect_def terminal_ok_def\<close>)
next
  case (Keys bs)
  assume "terminal_ok f0 t"
  then show ?thesis using Keys
    by (auto simp: terminal_input_def terminal_ok_def site_ok_def uuids_ok_def split: zmodem_state.split prod.split)
next
  case (Start now i paths)
  assume "terminal_ok f0 t"
  then show ?thesis using Start zmodem_start_ok by simp
qed (auto simp: expire_zmodem_authorization_def terminal_ok_def split: zmodem_state.split)

lemma run_ok: "terminal_ok f0 t \<Longrightarrow> terminal_ok f0 (run en es t)"
  by (induction es arbitrary: t) (simp_all add: happen_ok)


text \<open>Whoever does not answer the request with its identifier cannot start a transfer.\<close>

fun inactive :: "('r, 's) terminal \<Rightarrow> bool" where
  "inactive t = (case tm_zmodem t of Active a \<Rightarrow> False | _ \<Rightarrow> True)"

fun answers :: "happening \<Rightarrow> ('r, 's) terminal \<Rightarrow> bool" where
  "answers (Start now i paths) t = (case tm_zmodem t of Awaiting a \<Rightarrow> aw_id a = i | _ \<Rightarrow> False)"
| "answers _ t = False"

lemma unanswered:
  assumes "inactive t" "\<not> answers e t"
  shows "inactive (happen en e t)" "st_folder (tm_site (happen en e t)) = st_folder (tm_site t)"
    and "e = Keys bs \<Longrightarrow> (\<forall>p. tm_zmodem t \<noteq> Detecting p) \<Longrightarrow> happen en e t = t"
  using assms
  by (cases e; auto simp: route_terminal_bytes_def zmodem_start_def zmodem_cancel_def expire_zmodem_authorization_def
      fail_zmodem_for_disconnect_def terminal_input_def send_cancel_site Let_def case_prod_beta
      split: zmodem_state.splits sum.split scan.split option.split prod.split; fail)+

text \<open>C30: A transfer needs the consent of the user: as long as no transfer is active and the user does not answer the
  pending request under its identifier, nothing that arrives makes one active or touches a file, and the keys the
  user types while a request is pending reach the channel in no part.\<close>

theorem zmodem_consent:
  assumes "inactive t" "\<not> answers e t"
  shows "inactive (happen en e t) \<and> st_folder (tm_site (happen en e t)) = st_folder (tm_site t)
    \<and> (\<forall>bs. e = Keys bs \<and> (\<forall>p. tm_zmodem t \<noteq> Detecting p) \<longrightarrow> happen en e t = t)"
  using unanswered [OF assms] by blast

section \<open>A scripted engine\<close>

text \<open>An engine that plays a script, whatever it is sent, and the terminal of the examples.\<close>

definition scripted_receiver :: "action list receiver_api" where
  "scripted_receiver = \<lparr>rx_poll = (\<lambda>as. case as of [] \<Rightarrow> (Idle, []) | a # as \<Rightarrow> (a, as)), rx_wire_written = (\<lambda>_ as. as),
     rx_file_written = (\<lambda>_ as. (True, as)), rx_submit_wire = (\<lambda>bs as. (Some (length bs), as))\<rparr>"

definition scripted_sender :: "action list sender_api" where
  "scripted_sender = \<lparr>tx_new = None, tx_start_file = (\<lambda>_ _ as. (True, as)), tx_finish = (\<lambda>as. (True, as)),
     tx_poll = (\<lambda>as. (Idle, as)), tx_wire_written = (\<lambda>_ as. as), tx_submit_file = (\<lambda>_ as. (True, as)),
     tx_submit_wire = (\<lambda>bs as. (Some (length bs), as))\<rparr>"

definition scripted :: "action list \<Rightarrow> (action list, action list) engine" where
  "scripted as = \<lparr>en_receiver = scripted_receiver, en_sender = scripted_sender, en_new_receiver = Some as\<rparr>"

definition sample_terminal :: "(action list, action list) terminal" where
  "sample_terminal = \<lparr>tm_zmodem = Detecting [], tm_site = \<lparr>st_folder = sample_folder,
     st_channel = \<lparr>ch_writes = replicate 9 (Wrote 100), ch_out = []\<rparr>, st_uuids = [''u1'', ''u2'']\<rparr>\<rparr>"

definition downloads_dir :: source where
  "downloads_dir = \<lparr>so_metadata = None, so_name = None, so_content = None, so_is_dir = True\<rparr>"

lemma download_loop_numeral: "download_loop (numeral k) now api s = (case download_turn now api s of
     (Inl e, s') \<Rightarrow> (Inl e, s')
   | (Inr more_turns, s') \<Rightarrow> (if more_turns then download_loop (pred_numeral k) now api s' else (Inr (), s')))"
  by (simp add: numeral_eq_Suc)

definition whole_file :: "action list" where
  "whole_file = [Event (FileStarted (bytes_of ''../a.txt'') (Some 2)), WriteFile [7, 8], Event FileCompleted, Event SessionCompleted]"

text \<open>The same file, when its first block comes in a later read than its header.\<close>

definition split_file :: "action list" where
  "split_file = [Idle, Event (FileStarted (bytes_of ''b.bin'') (Some 2)), Idle, WriteFile [7, 8], Event FileCompleted, Event SessionCompleted]"

definition requested :: "(action list, action list) terminal" where
  "requested = sample_terminal\<lparr>tm_zmodem := Awaiting \<lparr>aw_id = ''x'', aw_direction = Download, aw_bytes = ZRQINIT, aw_detected_at = 0\<rparr>\<rparr>"

lemma sample_requested: "happen en (Bytes 0 ''x'' ZRQINIT) sample_terminal = requested"
  by (simp add: requested_def sample_terminal_def route_terminal_bytes_def detect_ZRQINIT)

lemma sample_names:
  "safe_file_name (from_utf8_lossy (bytes_of ''../a.txt'')) = Inr ''a.txt''"
  "safe_file_name (from_utf8_lossy (bytes_of ''b.bin'')) = Inr ''b.bin''"
  by code_simp+

lemma taken_sample: "taken name sample_folder \<longleftrightarrow> name = ''a.txt''"
  by (simp add: taken_def sample_folder_def)

lemma sample_paths:
  "available_path sample_folder now ''a.txt'' = ''a (1).txt''"
  "available_path sample_folder now ''b.bin'' = ''b.bin''"
proof -
  have "string_of_nat (Suc 0) = ''1''" by code_simp
  then show "available_path sample_folder now ''a.txt'' = ''a (1).txt''" "available_path sample_folder now ''b.bin'' = ''b.bin''"
    by (simp_all add: available_path_def available_index.simps taken_sample renamed_def split_name_def)
qed

lemma ZRQINIT_shape: "ZRQINIT \<noteq> []" "length ZRQINIT = 18" "ZRQINIT \<noteq> [79]" "take 2 ZRQINIT = [42, 42]"
  by (simp_all add: ZRQINIT_def ZHEX_PREFIX_def)

lemmas script_simps = Let_def scripted_def scripted_receiver_def new_download_def download_drive_def download_loop_numeral
  download_turn_def start_download_file_def commit_download_file_def append_file_def rename_file_def save_file_def
  remove_file_def part_name_def taken_sample sample_names sample_paths ZRQINIT_shape

definition sample_site :: site where
  "sample_site = tm_site sample_terminal"

lemma start_sample: "happen (scripted script) (Start now ''x'' [downloads_dir]) requested =
   (case active_drive now (scripted script) (Downloading (new_download ''x'' ZRQINIT script), sample_site) of
      (Inl e, x', w) \<Rightarrow> settle_active (Detecting []) x' (snd (send_cancel w))
    | (Inr r, x', w) \<Rightarrow> settle_active (fst (after_drive now r x')) x' w)"
  by (simp add: requested_def zmodem_start_def open_transfer_def start_download_def downloads_dir_def scripted_def
      sample_site_def sample_terminal_def case_prod_beta Let_def split: sum.split)

lemma sample_download:
  "fd_files (st_folder (tm_site (run (scripted whole_file) [Bytes 0 ''x'' ZRQINIT, Start 1 ''x'' [downloads_dir]] sample_terminal)))
    = [''a.txt'' \<mapsto> [1], ''a (1).txt'' \<mapsto> [7, 8]]"
proof -
  have "fd_files (st_folder (tm_site (happen (scripted whole_file) (Start 1 ''x'' [downloads_dir]) requested)))
      = (fd_files sample_folder)(''.cnshell-zmodem-u1.part'' := None, ''a (1).txt'' \<mapsto> [7, 8])"
    unfolding start_sample
    by (simp add: script_simps whole_file_def sample_site_def sample_terminal_def after_drive_def ended_def
        finishing_feed_def settle_active_def drop_download_def)
  then have "fd_files (st_folder (tm_site (run (scripted whole_file) [Bytes 0 ''x'' ZRQINIT, Start 1 ''x'' [downloads_dir]] sample_terminal)))
      = (fd_files sample_folder)(''.cnshell-zmodem-u1.part'' := None, ''a (1).txt'' \<mapsto> [7, 8])"
    by (simp only: run.simps sample_requested)
  then show ?thesis by (simp only:) (simp add: sample_folder_def fun_upd_twist)
qed

lemma sample_start: "st_folder (tm_site sample_terminal) = sample_folder"
  by (simp add: sample_terminal_def)


theorem zmodem_consent_witness:
  "inactive (happen (scripted whole_file) (Keys [13]) requested) \<and> happen (scripted whole_file) (Keys [13]) requested = requested
   \<and> st_folder (tm_site (happen (scripted whole_file) (Start 5 ''y'' [downloads_dir]) requested)) = st_folder (tm_site requested)"
proof -
  have r: "inactive requested" "\<forall>p. tm_zmodem requested \<noteq> Detecting p" "\<not> answers (Start 5 ''y'' [downloads_dir]) requested"
    by (simp_all add: requested_def)
  have "\<not> answers (Keys [13]) requested" by simp
  from zmodem_consent [OF r(1) this, of "scripted whole_file"] zmodem_consent [OF r(1,3), of "scripted whole_file"] r(2)
  show ?thesis by blast
qed

section \<open>Where the code drops a download\<close>

text \<open>
  A drive that ends with the status of a file just started makes \<open>route_terminal_bytes\<close> and \<open>zmodem_start\<close>
  forget the transfer: they take every status for the end of the session.
\<close>

lemma started_download_is_dropped:
  assumes "active_append_wire bs a = Inr a1" "active_drive now en (a1, w) = (Inr r, a', w')" "dr_status r = Some Running"
  shows "snd (snd (route_active now en bs a w)) = \<lparr>tm_zmodem = Detecting [], tm_site = drop_active a' w'\<rparr>"
  using assms by (simp add: route_active_def after_drive_def settle_active_def)

text \<open>So a download whose content does not come in the same read as its header is lost.\<close>

lemma split_download_is_lost:
  "tm_zmodem (run (scripted split_file) [Bytes 0 ''x'' ZRQINIT, Start 1 ''x'' [downloads_dir]] sample_terminal) = Detecting []"
  "fd_files (st_folder (tm_site (run (scripted split_file) [Bytes 0 ''x'' ZRQINIT, Start 1 ''x'' [downloads_dir]] sample_terminal)))
    = fd_files sample_folder"
proof -
  have t: "happen (scripted split_file) (Start 1 ''x'' [downloads_dir]) requested
      = \<lparr>tm_zmodem = Detecting [], tm_site = \<lparr>st_folder = remove_file ''.cnshell-zmodem-u1.part''
          (save_file ''.cnshell-zmodem-u1.part'' [] sample_folder),
          st_channel = st_channel (tm_site sample_terminal), st_uuids = [''u2'']\<rparr>\<rparr>"
    unfolding start_sample
    by (simp add: script_simps split_file_def sample_site_def sample_terminal_def ended_def after_drive_def
        settle_active_def drop_download_def)
  show "tm_zmodem (run (scripted split_file) [Bytes 0 ''x'' ZRQINIT, Start 1 ''x'' [downloads_dir]] sample_terminal) = Detecting []"
    "fd_files (st_folder (tm_site (run (scripted split_file) [Bytes 0 ''x'' ZRQINIT, Start 1 ''x'' [downloads_dir]] sample_terminal)))
      = fd_files sample_folder"
    by (simp_all only: run.simps sample_requested t) (simp_all add: remove_file_def save_file_def sample_folder_def)
qed

end
