(* ===== verification/DeskText.thy ===== *)
theory DeskText
  imports DeskBase "HOL-Library.Sublist"
begin

text \<open>
  Texts as the desktop application takes them apart: the parts of \<open>str\<close> that several modules use, hexadecimal
  digits, and addresses.
\<close>

section \<open>Pieces of a text\<close>

definition split_any :: "(char \<Rightarrow> bool) \<Rightarrow> string \<Rightarrow> string list" where
  "split_any p s = split_on (CHR 0x0A) (map (\<lambda>c. if p c then CHR 0x0A else c) s)"

function words_of :: "string list \<Rightarrow> string list" where
  "words_of [] = []"
| "words_of (u # us) = (if is_whitespace u then words_of us
     else concat (u # takeWhile (\<lambda>v. \<not> is_whitespace v) us) # words_of (dropWhile (\<lambda>v. \<not> is_whitespace v) us))"
  by pat_completeness auto
termination
  by (relation "measure length") (auto simp: le_imp_less_Suc length_dropWhile_le)

definition split_whitespace :: "string \<Rightarrow> string list" where
  "split_whitespace s = words_of (utf8_chars s)"

definition trim_chars :: "(char \<Rightarrow> bool) \<Rightarrow> string \<Rightarrow> string" where
  "trim_chars p s = rev (dropWhile p (rev (dropWhile p s)))"

definition starts_with :: "string \<Rightarrow> string \<Rightarrow> bool" where
  "starts_with p s \<longleftrightarrow> take (length p) s = p"

text \<open>\<open>split_once\<close> and \<open>rsplit_once\<close> on one byte.\<close>

definition split_once :: "char \<Rightarrow> string \<Rightarrow> (string \<times> string) option" where
  "split_once c s = (if c \<in> set s then Some (takeWhile (\<lambda>x. x \<noteq> c) s, tl (dropWhile (\<lambda>x. x \<noteq> c) s)) else None)"

definition rsplit_once :: "char \<Rightarrow> string \<Rightarrow> (string \<times> string) option" where
  "rsplit_once c s = map_option (\<lambda>(a, b). (rev b, rev a)) (split_once c (rev s))"

lemma split_once_append: "c \<notin> set a \<Longrightarrow> split_once c (a @ c # b) = Some (a, b)"
  by (simp add: split_once_def takeWhile_append dropWhile_append)

lemma rsplit_once_append: "c \<notin> set b \<Longrightarrow> rsplit_once c (a @ c # b) = Some (a, b)"
  by (simp add: rsplit_once_def split_once_append)

text \<open>\<open>str::lines\<close>: pieces between line feeds, without a carriage return at their end, and without a last empty one.\<close>

definition strip_cr :: "string \<Rightarrow> string" where
  "strip_cr l = (if l \<noteq> [] \<and> last l = CHR 0x0D then butlast l else l)"

definition str_lines :: "string \<Rightarrow> string list" where
  "str_lines s = (let ls = split_on (CHR 0x0A) s in map strip_cr (if last ls = [] then butlast ls else ls))"

text \<open>\<open>str::find\<close> of the first whitespace, and the two parts it separates.\<close>

definition split_at_whitespace :: "string \<Rightarrow> (string \<times> string) option" where
  "split_at_whitespace s = (let us = utf8_chars s; k = takeWhile (\<lambda>u. \<not> is_whitespace u) us
     in if k = us then None else Some (concat k, concat (drop (length k) us)))"

section \<open>Paths\<close>

text \<open>A path of the file system, without its empty and its dot components.\<close>

definition components :: "string \<Rightarrow> string list" where
  "components path = filter (\<lambda>c. c \<noteq> [] \<and> c \<noteq> ''.'') (split_on (CHR ''/'') path)"

definition path_of :: "string list \<Rightarrow> string" where
  "path_of cs = (if cs = [] then ''/'' else concat (map (\<lambda>c. CHR ''/'' # c) cs))"

text \<open>\<open>Path::starts_with\<close> compares components; \<open>join\<close> gives an absolute path alone.\<close>

definition path_starts_with :: "string \<Rightarrow> string \<Rightarrow> bool" where
  "path_starts_with path base \<longleftrightarrow> prefix (components base) (components path)"

definition path_join :: "string \<Rightarrow> string \<Rightarrow> string" where
  "path_join base path = (if starts_with ''/'' path then path
     else if base = [] \<or> last base = CHR ''/'' then base @ path else base @ ''/'' @ path)"

section \<open>Numbers\<close>

text \<open>\<open>parse::<i32>\<close>.\<close>

definition parse_i32 :: "string \<Rightarrow> int option" where
  "parse_i32 s = (if s \<noteq> [] \<and> hd s = CHR ''-'' \<and> (tl s \<noteq> [] \<longrightarrow> hd (tl s) \<noteq> CHR ''+'')
     then map_option (\<lambda>n. - int n) (parse_unsigned (2 ^ 31) (tl s))
     else map_option int (parse_unsigned (2 ^ 31 - 1) s))"

definition hex_char :: "nat \<Rightarrow> char" where
  "hex_char n = char_of (if n < 10 then 48 + n else 87 + n)"

definition hex_value :: "char \<Rightarrow> nat option" where
  "hex_value c = (let n = of_char c :: nat in
     if 48 \<le> n \<and> n \<le> 57 then Some (n - 48)
     else if 97 \<le> n \<and> n \<le> 102 then Some (n - 87)
     else if 65 \<le> n \<and> n \<le> 70 then Some (n - 55) else None)"

text \<open>\<open>format!("{byte:02x}")\<close> for each byte, and back.\<close>

definition hex_bytes :: "u8 list \<Rightarrow> string" where
  "hex_bytes bs = concat (map (\<lambda>b. [hex_char (unat b div 16), hex_char (unat b mod 16)]) bs)"

fun hex_pairs :: "string \<Rightarrow> u8 list option" where
  "hex_pairs [] = Some []"
| "hex_pairs [c] = None"
| "hex_pairs (c # d # cs) = (case (hex_value c, hex_value d) of
     (Some x, Some y) \<Rightarrow> map_option (\<lambda>bs. word_of_nat (16 * x + y) # bs) (hex_pairs cs) | _ \<Rightarrow> None)"

lemma hex_value_char: "n < 16 \<Longrightarrow> hex_value (hex_char n) = Some n"
  by (auto simp: hex_value_def hex_char_def Let_def)

lemma hex_pairs_bytes: "hex_pairs (hex_bytes bs) = Some bs"
proof (induction bs)
  case (Cons b bs)
  have "unat b < 256" using unsigned_less [of b] by simp
  then have "hex_value (hex_char (unat b div 16)) = Some (unat b div 16)"
    "hex_value (hex_char (unat b mod 16)) = Some (unat b mod 16)"
    by (simp_all add: hex_value_char)
  moreover have "word_of_nat (16 * (unat b div 16) + unat b mod 16) = b" by simp
  ultimately show ?case using Cons by (simp add: hex_bytes_def)
qed (simp add: hex_bytes_def)

section \<open>Addresses\<close>

text \<open>\<open>Ipv4Addr::from_str\<close>: four decimal numbers of at most three digits, without leading zeros.\<close>

definition parse_octet :: "string \<Rightarrow> nat option" where
  "parse_octet s = (if s = [] \<or> 3 < length s \<or> (1 < length s \<and> hd s = CHR ''0'') \<or> \<not> list_all (\<lambda>c. CHR ''0'' \<le> c \<and> c \<le> CHR ''9'') s
     then None else (let n = nat_of_string s in if n \<le> 255 then Some n else None))"

definition parse_ipv4 :: "string \<Rightarrow> nat list option" where
  "parse_ipv4 s = (case map parse_octet (split_on (CHR ''.'') s) of
     [Some a, Some b, Some c, Some d] \<Rightarrow> Some [a, b, c, d] | _ \<Rightarrow> None)"

text \<open>
  \<open>Ipv6Addr::from_str\<close>: eight groups of one to four hexadecimal digits, where the last two may be an IPv4 address,
  and one run of groups may be left out as a double colon.
\<close>

fun hex_number :: "nat \<Rightarrow> string \<Rightarrow> nat option" where
  "hex_number n [] = Some n"
| "hex_number n (c # cs) = (case hex_value c of None \<Rightarrow> None | Some d \<Rightarrow> hex_number (16 * n + d) cs)"

fun parse_groups :: "bool \<Rightarrow> string list \<Rightarrow> nat list option" where
  "parse_groups v4 [] = Some []"
| "parse_groups v4 (p # ps) =
     (if v4 \<and> ps = [] \<and> CHR ''.'' \<in> set p
      then (case parse_ipv4 p of Some [a, b, c, d] \<Rightarrow> Some [256 * a + b, 256 * c + d] | _ \<Rightarrow> None)
      else if p = [] \<or> 4 < length p then None
      else (case (hex_number 0 p, parse_groups v4 ps) of (Some g, Some gs) \<Rightarrow> Some (g # gs) | _ \<Rightarrow> None))"

fun split_double_colon :: "string \<Rightarrow> string \<Rightarrow> (string \<times> string) option" where
  "split_double_colon acc (c # d # cs) = (if c = CHR '':'' \<and> d = CHR '':'' then Some (acc, cs) else split_double_colon (acc @ [c]) (d # cs))"
| "split_double_colon acc _ = None"

definition parse_ipv6 :: "string \<Rightarrow> nat list option" where
  "parse_ipv6 s = (case split_double_colon [] s of
     None \<Rightarrow> (case parse_groups True (split_on (CHR '':'') s) of Some gs \<Rightarrow> if length gs = 8 then Some gs else None | None \<Rightarrow> None)
   | Some (a, b) \<Rightarrow>
       (case (if a = [] then Some [] else parse_groups False (split_on (CHR '':'') a),
              if b = [] then Some [] else parse_groups True (split_on (CHR '':'') b)) of
          (Some xs, Some ys) \<Rightarrow> (if length xs + length ys < 8 then Some (xs @ replicate (8 - length xs - length ys) 0 @ ys) else None)
        | _ \<Rightarrow> None))"

datatype ip_addr = V4 "nat list" | V6 "nat list"

definition parse_ip :: "string \<Rightarrow> ip_addr option" where
  "parse_ip s = (case parse_ipv4 s of Some a \<Rightarrow> Some (V4 a) | None \<Rightarrow> map_option V6 (parse_ipv6 s))"

definition is_loopback :: "ip_addr \<Rightarrow> bool" where
  "is_loopback ip = (case ip of V4 a \<Rightarrow> hd a = 127 | V6 g \<Rightarrow> g = [0, 0, 0, 0, 0, 0, 0, 1])"

lemma ip_examples:
  "parse_ip ''127.0.0.1'' = Some (V4 [127, 0, 0, 1])" "parse_ip ''::1'' = Some (V6 [0, 0, 0, 0, 0, 0, 0, 1])"
  "parse_ip ''256.0.0.1'' = None" "parse_ip ''1::2::3'' = None"
  by code_simp+

end
