(* ===== verification/X11.thy ===== *)
theory X11
  imports DeskText "HOL-Library.Sublist"
begin

text \<open>
  X11 forwarding (\<open>src-tauri/src/x11.rs\<close>): the display and the cookie of the local server, the gate that
  every channel has to pass with the one-time cookie of the session, and the loop that forwards bytes behind it.
  Opening sockets and running \<open>xauth\<close> are inputs of the model.
\<close>

section \<open>The display\<close>

definition AUTH_PROTOCOL :: string where "AUTH_PROTOCOL = ''MIT-MAGIC-COOKIE-1''"
definition COOKIE_BYTES :: nat where "COOKIE_BYTES = 16"
definition MAX_X11_CHANNELS :: nat where "MAX_X11_CHANNELS = 8"
definition MAX_SETUP_BYTES :: nat where "MAX_SETUP_BYTES = 64 * 1024"

datatype display_endpoint = UnixSocket string | Tcp ip_addr nat

record x11_authorization =
  xa_screen :: int
  xa_endpoint :: display_endpoint
  xa_real_cookie :: "u8 list"
  xa_fake_cookie :: "u8 list"

definition fake_cookie_hex :: "x11_authorization \<Rightarrow> string" where
  "fake_cookie_hex a = hex_bytes (xa_fake_cookie a)"

text \<open>\<open>parse_display\<close> on Unix; its error texts are one value here.\<close>

definition display_endpoint_of :: "string \<Rightarrow> nat \<Rightarrow> display_endpoint option" where
  "display_endpoint_of host number =
     (if host = [] \<or> host = ''unix'' then Some (UnixSocket (''/tmp/.X11-unix/X'' @ string_of_nat number))
      else if starts_with ''/'' host then Some (UnixSocket host)
      else (case parse_ip (trim_chars (\<lambda>c. c = CHR ''['' \<or> c = CHR '']'') host) of
          None \<Rightarrow> None
        | Some ip \<Rightarrow> (if \<not> is_loopback ip \<or> 65535 < 6000 + number then None else Some (Tcp ip (6000 + number)))))"

definition parse_display :: "string \<Rightarrow> (int \<times> display_endpoint) option" where
  "parse_display text = (case rsplit_once (CHR '':'') text of
     None \<Rightarrow> None
   | Some (host, display) \<Rightarrow>
      (case parse_unsigned 65535 (hd (split_on (CHR ''.'') display)) of
         None \<Rightarrow> None
       | Some number \<Rightarrow>
          (case (case split_once (CHR ''.'') display of None \<Rightarrow> Some 0 | Some (_, screen) \<Rightarrow> parse_i32 screen) of
             None \<Rightarrow> None
           | Some screen \<Rightarrow>
              (if screen < 0 \<or> 255 < screen then None
               else map_option (\<lambda>e. (screen, e)) (display_endpoint_of host number)))))"

section \<open>The cookie of the local server\<close>

definition decode_hex :: "string \<Rightarrow> u8 list app_result" where
  "decode_hex text = ok_or (hex_pairs text) Validation"

fun parse_xauth_lines :: "string list \<Rightarrow> u8 list app_result" where
  "parse_xauth_lines [] = Inl Unavailable"
| "parse_xauth_lines (l # ls) =
     (let fields = split_whitespace l
      in if 3 \<le> length fields \<and> fields ! 1 = AUTH_PROTOCOL
         then rbind (decode_hex (fields ! 2)) (\<lambda>bs. rbind (guard (length bs = COOKIE_BYTES) Validation) (\<lambda>_. Inr bs))
         else parse_xauth_lines ls)"

definition parse_xauth :: "string \<Rightarrow> u8 list app_result" where
  "parse_xauth output = parse_xauth_lines (str_lines output)"

text \<open>\<open>authorization\<close>: \<open>DISPLAY\<close>, whether the endpoint answers and \<open>xauth\<close> exists, its output, and a random cookie.\<close>

record x11_world =
  xw_display :: "string option"
  xw_reachable :: "display_endpoint \<Rightarrow> bool"
  xw_xauth :: "(bool \<times> u8 list) option"
  xw_random :: "u8 list"

definition authorization :: "x11_world \<Rightarrow> x11_authorization app_result" where
  "authorization w =
     rbind (ok_or (xw_display w) Unavailable) (\<lambda>display.
     rbind (ok_or (parse_display display) Unavailable) (\<lambda>(screen, endpoint).
     rbind (guard (xw_reachable w endpoint) Unavailable) (\<lambda>_.
     rbind (ok_or (xw_xauth w) Unavailable) (\<lambda>(success, stdout).
     rbind (guard (success \<and> length stdout \<le> 64 * 1024) Unavailable) (\<lambda>_.
     rbind (ok_or (from_utf8 stdout) Unavailable) (\<lambda>text.
     rbind (parse_xauth text) (\<lambda>real.
     Inr \<lparr>xa_screen = screen, xa_endpoint = endpoint, xa_real_cookie = real, xa_fake_cookie = xw_random w\<rparr>)))))))"

section \<open>The gate\<close>

definition padded_length :: "nat \<Rightarrow> nat" where
  "padded_length n = (n + 3) div 4 * 4"

definition read_u16 :: "bool \<Rightarrow> u8 list \<Rightarrow> nat \<Rightarrow> nat" where
  "read_u16 little bytes offset = (if little then unat (bytes ! offset) + 256 * unat (bytes ! (offset + 1))
     else 256 * unat (bytes ! offset) + unat (bytes ! (offset + 1)))"

text \<open>\<open>Ok(false)\<close> is an incomplete packet; the bytes are changed in place.\<close>

definition rewrite_setup_cookie :: "u8 list \<Rightarrow> u8 list \<Rightarrow> u8 list \<Rightarrow> (app_error + bool) \<times> u8 list" where
  "rewrite_setup_cookie bytes fake real =
     (if length bytes < 12 then (Inr False, bytes)
      else if bytes ! 0 \<noteq> 108 \<and> bytes ! 0 \<noteq> 66 then (Inl Validation, bytes)
      else (let little = (bytes ! 0 = 108); name_len = read_u16 little bytes 6; data_len = read_u16 little bytes 8;
                data_start = 12 + padded_length name_len; total_len = data_start + padded_length data_len
            in if MAX_SETUP_BYTES < total_len then (Inl Validation, bytes)
               else if length bytes < total_len then (Inr False, bytes)
               else if name_len \<noteq> length AUTH_PROTOCOL \<or> take name_len (drop 12 bytes) \<noteq> bytes_of AUTH_PROTOCOL
                    \<or> data_len \<noteq> COOKIE_BYTES \<or> take data_len (drop data_start bytes) \<noteq> fake
               then (Inl Authentication, bytes)
               else (Inr True, take data_start bytes @ real @ drop (data_start + data_len) bytes)))"

text \<open>
  One pass of the loop of \<open>read_and_rewrite_setup\<close>, and of \<open>bridge\<close>: what a read gives, and whether the session
  was stopped or the deadline passed.
\<close>

datatype channel_read = Chunk "u8 list" | Nothing | ChannelEof | ReadError | Stopped | Deadline

fun read_setup :: "u8 list \<Rightarrow> u8 list \<Rightarrow> u8 list \<Rightarrow> channel_read list \<Rightarrow> u8 list app_result \<times> channel_read list" where
  "read_setup fake real bytes [] = (Inl Unavailable, [])"
| "read_setup fake real bytes (r # rs) = (case r of
     Stopped \<Rightarrow> (Inl Unavailable, rs)
   | ChannelEof \<Rightarrow> (Inl Remote, rs)
   | ReadError \<Rightarrow> (Inl Storage, rs)
   | Deadline \<Rightarrow> (Inl Unavailable, rs)
   | Nothing \<Rightarrow> read_setup fake real bytes rs
   | Chunk c \<Rightarrow>
       (if MAX_SETUP_BYTES < length bytes + length c then (Inl Validation, rs)
        else case rewrite_setup_cookie (bytes @ c) fake real of
            (Inl e, _) \<Rightarrow> (Inl e, rs)
          | (Inr done, bytes') \<Rightarrow> (if done then (Inr bytes', rs) else read_setup fake real bytes' rs)))"

section \<open>Forwarding\<close>

text \<open>
  \<open>write_nonblocking\<close>: attempts until everything is written. A stopped session, which stays stopped, ends it
  without an error; the last component tells whether it is. A list that is used up is a write that waits until then.
\<close>

datatype attempt = Took nat | Busy | Failed | Stop

fun write_nonblocking :: "attempt list \<Rightarrow> u8 list \<Rightarrow> u8 list \<Rightarrow> (io_error + unit) \<times> u8 list \<times> attempt list \<times> bool" where
  "write_nonblocking as out [] = (Inr (), out, as, False)"
| "write_nonblocking [] out bs = (Inr (), out, [], True)"
| "write_nonblocking (a # as) out bs = (case a of
     Stop \<Rightarrow> (Inr (), out, as, True)
   | Took n \<Rightarrow> (if n = 0 then (Inl OtherIo, out, as, False) else write_nonblocking as (out @ take n bs) (drop n bs))
   | Busy \<Rightarrow> write_nonblocking as out bs
   | Failed \<Rightarrow> (Inl OtherIo, out, as, False))"

record x11_bridge =
  xb_local_out :: "u8 list"
  xb_channel_out :: "u8 list"
  xb_local_attempts :: "attempt list"
  xb_channel_attempts :: "attempt list"
  xb_stopped :: bool

definition write_local :: "u8 list \<Rightarrow> x11_bridge \<Rightarrow> (io_error + unit) \<times> x11_bridge" where
  "write_local bs b = (if xb_stopped b then (Inr (), b)
     else case write_nonblocking (xb_local_attempts b) (xb_local_out b) bs of
       (r, out, as, stopped) \<Rightarrow> (r, b\<lparr>xb_local_out := out, xb_local_attempts := as, xb_stopped := stopped\<rparr>))"

definition write_x11_channel :: "u8 list \<Rightarrow> x11_bridge \<Rightarrow> (io_error + unit) \<times> x11_bridge" where
  "write_x11_channel bs b = (if xb_stopped b then (Inr (), b)
     else case write_nonblocking (xb_channel_attempts b) (xb_channel_out b) bs of
       (r, out, as, stopped) \<Rightarrow> (r, b\<lparr>xb_channel_out := out, xb_channel_attempts := as, xb_stopped := stopped\<rparr>))"

text \<open>A pass reads the channel, then the local server; \<open>Inr False\<close> leaves the loop.\<close>

definition forward_channel :: "channel_read \<Rightarrow> x11_bridge \<Rightarrow> (app_error + bool) \<times> x11_bridge" where
  "forward_channel r b = (case r of
     Chunk c \<Rightarrow> (case write_local c b of (Inl _, b') \<Rightarrow> (Inl Storage, b') | (Inr _, b') \<Rightarrow> (Inr True, b'))
   | Nothing \<Rightarrow> (Inr True, b)
   | ReadError \<Rightarrow> (Inl Storage, b)
   | _ \<Rightarrow> (Inr False, b))"

definition forward_local :: "channel_read \<Rightarrow> x11_bridge \<Rightarrow> (app_error + bool) \<times> x11_bridge" where
  "forward_local r b = (case r of
     Chunk c \<Rightarrow> (case write_x11_channel c b of (Inl _, b') \<Rightarrow> (Inl Storage, b') | (Inr _, b') \<Rightarrow> (Inr True, b'))
   | Nothing \<Rightarrow> (Inr True, b)
   | ReadError \<Rightarrow> (Inl Storage, b)
   | _ \<Rightarrow> (Inr False, b))"

fun forward_loop :: "(channel_read \<times> channel_read) list \<Rightarrow> x11_bridge \<Rightarrow> (app_error + unit) \<times> x11_bridge" where
  "forward_loop [] b = (Inr (), b)"
| "forward_loop ((r, l) # rs) b = (if xb_stopped b then (Inr (), b) else case forward_channel r b of
     (Inl e, b') \<Rightarrow> (Inl e, b')
   | (Inr False, b') \<Rightarrow> (Inr (), b')
   | (Inr True, b') \<Rightarrow> (case forward_local l b' of
        (Inl e, b'') \<Rightarrow> (Inl e, b'')
      | (Inr False, b'') \<Rightarrow> (Inr (), b'')
      | (Inr True, b'') \<Rightarrow> forward_loop rs b''))"

definition x11_bridge_run ::
    "x11_authorization \<Rightarrow> channel_read list \<Rightarrow> (channel_read \<times> channel_read) list \<Rightarrow> x11_bridge \<Rightarrow> (app_error + unit) \<times> x11_bridge" where
  "x11_bridge_run a setup_reads passes b = (case read_setup (xa_fake_cookie a) (xa_real_cookie a) [] setup_reads of
     (Inl e, _) \<Rightarrow> (Inl e, b)
   | (Inr setup, _) \<Rightarrow> (case write_local setup b of
        (Inl _, b') \<Rightarrow> (Inl Storage, b')
      | (Inr _, b') \<Rightarrow> forward_loop passes b'))"

section \<open>The dispatcher\<close>

text \<open>The counter of active channels: the dispatcher counts a channel before it starts its thread, and the thread uncounts it.\<close>

datatype dispatch = Accepted bool | Ended

fun dispatch_step :: "dispatch \<Rightarrow> nat \<times> nat \<Rightarrow> nat \<times> nat" where
  "dispatch_step (Accepted spawned) (active, threads) =
     (if MAX_X11_CHANNELS \<le> active then (active + 1 - 1, threads)
      else if spawned then (active + 1, threads + 1) else (active + 1 - 1, threads))"
| "dispatch_step Ended (active, threads) = (if threads = 0 then (active, threads) else (active - 1, threads - 1))"


section \<open>What passes the gate\<close>

fun chunk_bytes :: "channel_read \<Rightarrow> u8 list" where
  "chunk_bytes (Chunk c) = c"
| "chunk_bytes _ = []"

definition bytes_read :: "channel_read list \<Rightarrow> u8 list" where
  "bytes_read rs = concat (map chunk_bytes rs)"

text \<open>A setup packet with the protocol and the cookie of this session: the name starts at 12, the cookie at 32.\<close>

definition presents :: "u8 list \<Rightarrow> u8 list \<Rightarrow> bool" where
  "presents fake bytes \<longleftrightarrow> 48 \<le> length bytes \<and> take 18 (drop 12 bytes) = bytes_of AUTH_PROTOCOL \<and> take 16 (drop 32 bytes) = fake"

definition admitted :: "u8 list \<Rightarrow> u8 list \<Rightarrow> u8 list" where
  "admitted real bytes = take 32 bytes @ real @ drop 48 bytes"

lemma rewrite_waits: "rewrite_setup_cookie bytes fake real = (Inr False, out) \<Longrightarrow> out = bytes"
  by (auto simp: rewrite_setup_cookie_def Let_def split: if_split_asm)

lemma rewrite_admits:
  assumes "rewrite_setup_cookie bytes fake real = (Inr True, out)"
  shows "presents fake bytes \<and> out = admitted real bytes"
proof -
  have n: "length AUTH_PROTOCOL = 18" by (simp add: AUTH_PROTOCOL_def)
  have "padded_length 18 = 20" "padded_length 16 = 16" by (simp_all add: padded_length_def)
  then show ?thesis using assms
    by (auto simp: rewrite_setup_cookie_def Let_def presents_def admitted_def COOKIE_BYTES_def n split: if_split_asm)
qed

lemma read_setup_admits:
  "read_setup fake real bytes rs = (Inr setup, rest) \<Longrightarrow>
    \<exists>cs. rs = cs @ rest \<and> presents fake (bytes @ bytes_read cs) \<and> setup = admitted real (bytes @ bytes_read cs)"
proof (induction fake real bytes rs rule: read_setup.induct)
  case (2 fake real bytes r rs)
  show ?case
  proof (cases r)
    case (Chunk c)
    obtain q bytes' where w: "rewrite_setup_cookie (bytes @ c) fake real = (q, bytes')" by fastforce
    show ?thesis
    proof (cases "q = Inr True")
      case True
      then show ?thesis using 2(3) w rewrite_admits [of "bytes @ c" fake real bytes'] Chunk
        by (intro exI [of _ "[r]"]) (auto simp: bytes_read_def split: if_split_asm)
    next
      case False
      then have q: "q = Inr False" and more: "read_setup fake real bytes' rs = (Inr setup, rest)"
        using 2(3) w Chunk by (auto split: if_split_asm sum.splits)
      have "bytes' = bytes @ c" using rewrite_waits w q by blast
      then obtain cs where "rs = cs @ rest" "presents fake ((bytes @ c) @ bytes_read cs)" "setup = admitted real ((bytes @ c) @ bytes_read cs)"
        using 2(1) [OF Chunk _ w [symmetric] q] more 2(3) Chunk by (auto split: if_split_asm)
      then show ?thesis using Chunk by (intro exI [of _ "r # cs"]) (simp add: bytes_read_def)
    qed
  next
    case Nothing
    then obtain cs where "rs = cs @ rest" "presents fake (bytes @ bytes_read cs)" "setup = admitted real (bytes @ bytes_read cs)"
      using 2 by auto
    then show ?thesis using Nothing by (intro exI [of _ "r # cs"]) (simp add: bytes_read_def)
  qed (use 2 in simp_all)
qed simp


lemma write_nonblocking_prefix:
  "write_nonblocking as out bs = (r, out', as', stopped) \<Longrightarrow>
    prefix out' (out @ bs) \<and> (r = Inr () \<longrightarrow> \<not> stopped \<longrightarrow> out' = out @ bs)"
proof (induction as out bs rule: write_nonblocking.induct)
  case (3 a as out v va)
  show ?case
  proof (cases a)
    case (Took n)
    show ?thesis
    proof (cases "n = 0")
      case True
      then show ?thesis using 3(3) Took by auto
    next
      case False
      then have "write_nonblocking as (out @ take n (v # va)) (drop n (v # va)) = (r, out', as', stopped)"
        using 3(3) Took by simp
      moreover have "(out @ take n (v # va)) @ drop n (v # va) = out @ v # va" by (simp only: append_assoc append_take_drop_id)
      ultimately show ?thesis using 3(1) [OF Took False] by simp
    qed
  next
    case Busy
    then show ?thesis using 3 by simp
  qed (use 3(3) in auto)
qed auto

lemma write_in_one: "bs \<noteq> [] \<Longrightarrow> length bs \<le> n \<Longrightarrow> write_nonblocking (Took n # as) out bs = (Inr (), out @ bs, as, False)"
  by (cases bs) auto

text \<open>What the local server has got, against what it should get.\<close>

definition carried :: "u8 list \<Rightarrow> x11_bridge \<Rightarrow> bool" where
  "carried goal b \<longleftrightarrow> prefix (xb_local_out b) goal \<and> (\<not> xb_stopped b \<longrightarrow> xb_local_out b = goal)"

lemma write_local_carried:
  assumes "write_local bs b = (q, b')" "carried goal b"
  shows "prefix (xb_local_out b') (goal @ bs) \<and> (q = Inr () \<longrightarrow> carried (goal @ bs) b')"
proof (cases "xb_stopped b")
  case True
  then show ?thesis using assms by (auto simp: write_local_def carried_def)
next
  case False
  obtain r out as stopped where w: "write_nonblocking (xb_local_attempts b) (xb_local_out b) bs = (r, out, as, stopped)"
    by (metis prod_cases4)
  then show ?thesis using write_nonblocking_prefix [OF w] assms False by (auto simp: write_local_def carried_def)
qed

lemma forward_channel_carried:
  assumes "forward_channel r b = (q, b')" "carried goal b"
  shows "prefix (xb_local_out b') (goal @ chunk_bytes r) \<and> (q = Inr True \<longrightarrow> carried (goal @ chunk_bytes r) b')"
proof (cases r)
  case (Chunk c)
  obtain p b1 where w: "write_local c b = (p, b1)" by fastforce
  then show ?thesis using write_local_carried [OF w assms(2)] assms(1) Chunk
    by (cases p) (auto simp: forward_channel_def)
qed (use assms in \<open>auto simp: forward_channel_def carried_def\<close>)

lemma forward_local_carried:
  "forward_local r b = (q, b') \<Longrightarrow> carried goal b \<Longrightarrow> carried goal b'"
  by (auto simp: forward_local_def write_x11_channel_def carried_def
      split: channel_read.splits prod.splits sum.splits if_split_asm)

lemma carried_prefix: "carried goal b \<Longrightarrow> prefix (xb_local_out b) (goal @ more_bytes)"
  by (auto simp: carried_def)

lemma forward_loop_carried:
  "forward_loop ps b = (q, b') \<Longrightarrow> carried goal b \<Longrightarrow> prefix (xb_local_out b') (goal @ bytes_read (map fst ps))"
proof (induction ps b arbitrary: goal rule: forward_loop.induct)
  case (1 b)
  then show ?case by (simp add: bytes_read_def carried_def)
next
  case (2 r l rs b)
  show ?case
  proof (cases "xb_stopped b")
    case True
    then show ?thesis using 2(2,3) carried_prefix by auto
  next
    case False
    obtain p b1 where f: "forward_channel r b = (p, b1)" by fastforce
    note one = forward_channel_carried [OF f 2(3)]
    have split: "goal @ bytes_read (map fst ((r, l) # rs)) = (goal @ chunk_bytes r) @ bytes_read (map fst rs)"
      by (simp add: bytes_read_def)
    show ?thesis
    proof (cases "p = Inr True")
      case True
      obtain p2 b2 where g: "forward_local l b1 = (p2, b2)" by fastforce
      have two: "carried (goal @ chunk_bytes r) b2" using forward_local_carried [OF g] one True by simp
      show ?thesis
      proof (cases "p2 = Inr True")
        case go: True
        then have "forward_loop rs b2 = (q, b')" using 2(2) False f g True by simp
        then show ?thesis unfolding split
          using 2(1) [OF False f [symmetric] True refl g [symmetric] go refl _ two] by simp
      next
        case False
        then have "b' = b2" using 2(2) \<open>\<not> xb_stopped b\<close> f g True by (auto split: sum.splits bool.splits)
        then show ?thesis unfolding split using carried_prefix [OF two] by simp
      qed
    next
      case stop: False
      then have "b' = b1" using 2(2) False f by (auto split: sum.splits bool.splits)
      then show ?thesis unfolding split using one by (auto intro: prefix_order.trans)
    qed
  qed
qed

text \<open>C31: The X11 gate: the local X server receives nothing from a channel before the channel has presented, in a complete
  setup packet, the protocol name and the one-time cookie of the session; what it then receives is exactly what the
  channel sent, in order and without a gap, with only this cookie replaced by the real one.\<close>

theorem x11_gate:
  assumes "x11_bridge_run a setup_reads passes b = (q, b')" "xb_local_out b = []" "xb_local_out b' \<noteq> []"
  shows "\<exists>k. presents (xa_fake_cookie a) (bytes_read (take k setup_reads))
    \<and> prefix (xb_local_out b') (admitted (xa_real_cookie a) (bytes_read (take k setup_reads)) @ bytes_read (map fst passes))"
proof -
  obtain packet rest where r: "read_setup (xa_fake_cookie a) (xa_real_cookie a) [] setup_reads = (Inr packet, rest)"
    using assms by (auto simp: x11_bridge_run_def split: prod.splits sum.splits)
  obtain cs where cs: "setup_reads = cs @ rest" "presents (xa_fake_cookie a) (bytes_read cs)"
    "packet = admitted (xa_real_cookie a) (bytes_read cs)"
    using read_setup_admits [OF r] by auto
  obtain p b1 where w: "write_local packet b = (p, b1)" by fastforce
  have "carried [] b" using assms(2) by (simp add: carried_def)
  note one = write_local_carried [OF w this]
  have "prefix (xb_local_out b') (packet @ bytes_read (map fst passes))"
  proof (cases p)
    case (Inl e)
    then show ?thesis using assms(1) r w one by (auto simp: x11_bridge_run_def)
  next
    case (Inr u)
    then show ?thesis using assms(1) r w one forward_loop_carried [of passes b1 q b' packet] by (auto simp: x11_bridge_run_def)
  qed
  then show ?thesis using cs by (intro exI [of _ "length cs"]) simp
qed

definition sample_authorization :: x11_authorization where
  "sample_authorization = \<lparr>xa_screen = 0, xa_endpoint = UnixSocket ''/tmp/.X11-unix/X0'',
     xa_real_cookie = replicate 16 9, xa_fake_cookie = replicate 16 7\<rparr>"

definition setup_packet :: "u8 list \<Rightarrow> u8 list" where
  "setup_packet cookie = [108, 0, 11, 0, 0, 0, 18, 0, 16, 0, 0, 0] @ bytes_of AUTH_PROTOCOL @ [0, 0] @ cookie"

definition sample_bridge :: x11_bridge where
  "sample_bridge = \<lparr>xb_local_out = [], xb_channel_out = [], xb_local_attempts = [Took 100, Busy, Took 100],
     xb_channel_attempts = [], xb_stopped = False\<rparr>"

lemma protocol_bytes:
  "bytes_of AUTH_PROTOCOL = [77, 73, 84, 45, 77, 65, 71, 73, 67, 45, 67, 79, 79, 75, 73, 69, 45, 49]"
  "length AUTH_PROTOCOL = 18"
  by (simp_all add: bytes_of_def AUTH_PROTOCOL_def)

lemma sample_packets:
  "rewrite_setup_cookie (setup_packet (replicate 16 7)) (replicate 16 7) (replicate 16 9) = (Inr True, setup_packet (replicate 16 9))"
  "rewrite_setup_cookie (setup_packet (replicate 16 8)) (replicate 16 7) (replicate 16 9) = (Inl Authentication, setup_packet (replicate 16 8))"
proof -
  have "\<not> MAX_SETUP_BYTES < 48" by (simp add: MAX_SETUP_BYTES_def)
  then show "rewrite_setup_cookie (setup_packet (replicate 16 7)) (replicate 16 7) (replicate 16 9) = (Inr True, setup_packet (replicate 16 9))"
    "rewrite_setup_cookie (setup_packet (replicate 16 8)) (replicate 16 7) (replicate 16 9) = (Inl Authentication, setup_packet (replicate 16 8))"
    by (simp_all add: rewrite_setup_cookie_def setup_packet_def protocol_bytes read_u16_def padded_length_def COOKIE_BYTES_def)
qed


definition sample_run :: "(app_error + unit) \<times> x11_bridge" where
  "sample_run = x11_bridge_run sample_authorization [Nothing, Chunk (setup_packet (replicate 16 7))] [(Chunk [5], Nothing)] sample_bridge"

lemma sample_run: "sample_run = (Inr (), sample_bridge\<lparr>xb_local_out := setup_packet (replicate 16 9) @ [5], xb_local_attempts := []\<rparr>)"
proof -
  have "setup_packet c \<noteq> []" "length (setup_packet (replicate 16 9)) \<le> 100" for c
    by (simp_all add: setup_packet_def protocol_bytes)
  note w = write_in_one [OF this, of "[Busy, Took 100]" "[]"]
  have "\<not> MAX_SETUP_BYTES < 48" "length (setup_packet (replicate 16 7)) = 48"
    by (simp_all add: MAX_SETUP_BYTES_def setup_packet_def protocol_bytes)
  then show ?thesis
    by (simp add: sample_run_def x11_bridge_run_def sample_authorization_def sample_packets sample_bridge_def write_local_def w
        forward_channel_def forward_local_def)
qed

theorem x11_gate_witness:
  "fst sample_run = Inr () \<and> (\<exists>k. presents (replicate 16 7) (bytes_read (take k [Nothing, Chunk (setup_packet (replicate 16 7))]))
    \<and> prefix (setup_packet (replicate 16 9) @ [5])
        (admitted (replicate 16 9) (bytes_read (take k [Nothing, Chunk (setup_packet (replicate 16 7))])) @ [5]))"
proof -
  have "x11_bridge_run sample_authorization [Nothing, Chunk (setup_packet (replicate 16 7))] [(Chunk [5], Nothing)] sample_bridge
      = (Inr (), snd sample_run)" "xb_local_out sample_bridge = []" "xb_local_out (snd sample_run) = setup_packet (replicate 16 9) @ [5]"
    using sample_run by (simp_all add: sample_run_def sample_bridge_def)
  note run = this
  have "fst sample_run = Inr ()" by (simp add: sample_run)
  moreover have "xb_local_out (snd sample_run) \<noteq> []" using run(3) by simp
  from x11_gate [OF run(1,2) this] have "\<exists>k. presents (replicate 16 7) (bytes_read (take k [Nothing, Chunk (setup_packet (replicate 16 7))]))
    \<and> prefix (setup_packet (replicate 16 9) @ [5])
        (admitted (replicate 16 9) (bytes_read (take k [Nothing, Chunk (setup_packet (replicate 16 7))])) @ [5])"
    unfolding run(3) by (simp only: sample_authorization_def x11_authorization.simps list.map fst_conv)
      (simp only: bytes_read_def list.map chunk_bytes.simps concat.simps append_Nil2)
  ultimately show ?thesis by blast
qed

text \<open>The dispatcher counts its threads exactly, and runs at most eight.\<close>

lemma dispatch_bounded:
  "fold dispatch_step ds (n, n) = (active, threads) \<Longrightarrow> n \<le> MAX_X11_CHANNELS \<Longrightarrow> active = threads \<and> threads \<le> MAX_X11_CHANNELS"
proof (induction ds arbitrary: n)
  case (Cons d ds)
  have "fst (dispatch_step d (n, n)) = snd (dispatch_step d (n, n)) \<and> snd (dispatch_step d (n, n)) \<le> MAX_X11_CHANNELS"
    using Cons.prems(2) by (cases d) auto
  then show ?case using Cons.IH [of "snd (dispatch_step d (n, n))"] Cons.prems(1)
    by (cases "dispatch_step d (n, n)") simp
qed simp

lemma display_examples:
  "parse_display '':0'' = Some (0, UnixSocket ''/tmp/.X11-unix/X0'')"
  "parse_display ''10.0.0.1:0'' = None"
proof -
  have "string_of_nat 0 = ''0''" by code_simp
  moreover have "parse_unsigned 65535 ''0'' = Some 0" by (simp add: parse_unsigned_def nat_of_string_def less_eq_char_def)
  moreover have "parse_ip ''10.0.0.1'' = Some (V4 [10, 0, 0, 1])" by code_simp
  ultimately show "parse_display '':0'' = Some (0, UnixSocket ''/tmp/.X11-unix/X0'')" "parse_display ''10.0.0.1:0'' = None"
    by (simp_all add: parse_display_def rsplit_once_def split_once_def display_endpoint_of_def starts_with_def trim_chars_def is_loopback_def)
qed

text \<open>The cookie that \<open>xauth\<close> prints in hexadecimal is the cookie that is used.\<close>

lemma decode_hex_cookie: "decode_hex (hex_bytes cookie) = Inr cookie"
  by (simp add: decode_hex_def hex_pairs_bytes)

end
