(* ===== verification/OpenSsh.thy ===== *)
theory OpenSsh
  imports DeskText "HOL-Library.Sublist"
begin

text \<open>
  The import of an OpenSSH configuration (\<open>src-tauri/src/openssh.rs\<close>): directives, wildcards, included files and
  the hosts they define, and the checks before a key is made or deployed. The file system is a parameter: which paths
  there are, their canonical form, and their texts.
\<close>

section \<open>Lines\<close>

fun strip_comment_from :: "bool \<Rightarrow> string \<Rightarrow> string" where
  "strip_comment_from quoted [] = []"
| "strip_comment_from quoted (c # cs) =
     (let quoted = (if c = CHR 0x22 then \<not> quoted else quoted)
      in if c = CHR ''#'' \<and> \<not> quoted then [] else c # strip_comment_from quoted cs)"

definition strip_comment :: "string \<Rightarrow> string" where
  "strip_comment line = strip_comment_from False line"

definition split_directive :: "string \<Rightarrow> (string \<times> string) option" where
  "split_directive line = (case split_once (CHR ''='') line of
     Some (key, v) \<Rightarrow> Some (str_trim key, str_trim v)
   | None \<Rightarrow> map_option (\<lambda>(key, v). (key, str_trim v)) (split_at_whitespace line))"

definition is_quote :: "char \<Rightarrow> bool" where
  "is_quote c \<longleftrightarrow> c = CHR 0x22 \<or> c = CHR 0x27"

definition shell_words :: "string \<Rightarrow> string list" where
  "shell_words v = filter (\<lambda>w. w \<noteq> []) (map (trim_chars is_quote) (split_whitespace v))"

section \<open>Wildcards\<close>

text \<open>
  The loop of \<open>wildcard_match\<close> over the two indices, the index of the last star, and the position to retry from:
  \<open>Inl\<close> is its result.
\<close>

record wild =
  w_pattern :: nat
  w_value :: nat
  w_star :: "nat option"
  w_retry :: nat

definition wild_start :: wild where
  "wild_start = \<lparr>w_pattern = 0, w_value = 0, w_star = None, w_retry = 0\<rparr>"

definition wild_step :: "string \<Rightarrow> string \<Rightarrow> wild \<Rightarrow> bool + wild" where
  "wild_step p v s =
     (if w_value s < length v then
        (if w_pattern s < length p \<and> (p ! w_pattern s = CHR ''?'' \<or> p ! w_pattern s = v ! w_value s)
         then Inr (s\<lparr>w_pattern := w_pattern s + 1, w_value := w_value s + 1\<rparr>)
         else if w_pattern s < length p \<and> p ! w_pattern s = CHR ''*''
         then Inr (s\<lparr>w_pattern := w_pattern s + 1, w_star := Some (w_pattern s), w_retry := w_value s\<rparr>)
         else (case w_star s of
             Some star \<Rightarrow> Inr (s\<lparr>w_pattern := star + 1, w_value := w_retry s + 1, w_retry := w_retry s + 1\<rparr>)
           | None \<Rightarrow> Inl False))
      else Inl (dropWhile (\<lambda>c. c = CHR ''*'') (drop (w_pattern s) p) = []))"

text \<open>What the loop keeps: the pattern index is behind the star, and the retry position is not ahead.\<close>

definition wild_ok :: "string \<Rightarrow> string \<Rightarrow> wild \<Rightarrow> bool" where
  "wild_ok p v s \<longleftrightarrow> w_pattern s \<le> length p \<and> w_value s \<le> length v
     \<and> (\<forall>star. w_star s = Some star \<longrightarrow> star < w_pattern s \<and> p ! star = CHR ''*'' \<and> w_retry s \<le> w_value s)"

text \<open>Each turn gives up a star, a retry position, or pattern characters.\<close>

definition wild_measure :: "string \<Rightarrow> string \<Rightarrow> wild \<Rightarrow> nat \<times> nat \<times> nat" where
  "wild_measure p v s = (length p - (case w_star s of None \<Rightarrow> 0 | Some star \<Rightarrow> star + 1), length v - w_retry s, length p - w_pattern s)"


partial_function (option) wild_loop :: "string \<Rightarrow> string \<Rightarrow> wild \<Rightarrow> bool option" where
  "wild_loop p v s = (case wild_step p v s of Inl b \<Rightarrow> Some b | Inr s' \<Rightarrow> wild_loop p v s')"

definition wildcard_match :: "string \<Rightarrow> string \<Rightarrow> bool option" where
  "wildcard_match p v = wild_loop p v wild_start"

definition wild_less :: "string \<Rightarrow> string \<Rightarrow> (wild \<times> wild) set" where
  "wild_less p v = inv_image (less_than <*lex*> less_than <*lex*> less_than) (wild_measure p v)"

lemma wf_wild_less: "wf (wild_less p v)"
  by (simp add: wild_less_def wf_lex_prod)

lemma wild_step_ok: "wild_ok p v s \<Longrightarrow> wild_step p v s = Inr s' \<Longrightarrow> wild_ok p v s' \<and> (s', s) \<in> wild_less p v"
  by (auto simp: wild_ok_def wild_step_def wild_less_def wild_measure_def split: if_split_asm option.splits)

lemma wild_loop_total: "wild_ok p v s \<Longrightarrow> \<exists>b. wild_loop p v s = Some b"
proof (induction s rule: wf_induct_rule [OF wf_wild_less [of p v]])
  case (1 s)
  then show ?case
    by (cases "wild_step p v s") (auto simp: wild_loop.simps [of p v s] dest: wild_step_ok)
qed

lemma wild_start_ok: "wild_ok p v wild_start"
  by (simp add: wild_ok_def wild_start_def)

text \<open>C32: The wildcard matcher, which backtracks to the last star, returns on every pattern and every name.\<close>

theorem wildcard_match_returns: "\<exists>b. wildcard_match p v = Some b"
  unfolding wildcard_match_def using wild_loop_total [OF wild_start_ok] .

text \<open>What a pattern means.\<close>

fun glob :: "string \<Rightarrow> string \<Rightarrow> bool" where
  "glob [] v = (v = [])"
| "glob (c # p) v =
     (if c = CHR ''*'' then glob p v \<or> (case v of [] \<Rightarrow> False | x # v' \<Rightarrow> glob (c # p) v')
      else (case v of [] \<Rightarrow> False | x # v' \<Rightarrow> (c = CHR ''?'' \<or> c = x) \<and> glob p v'))"

lemma glob_Nil: "glob p [] \<longleftrightarrow> dropWhile (\<lambda>c. c = CHR ''*'') p = []"
  by (induction p) auto

lemma glob_star: "glob (CHR ''*'' # p) v \<longleftrightarrow> (\<exists>j \<le> length v. glob p (drop j v))"
proof (induction v)
  case (Cons x v)
  have "(\<exists>j \<le> length (x # v). glob p (drop j (x # v))) \<longleftrightarrow> glob p (x # v) \<or> (\<exists>j \<le> length v. glob p (drop j v))"
    by (auto intro: exI [of _ 0] exI [of _ "Suc j" for j]) (metis Suc_le_mono drop_Suc_Cons not0_implies_Suc drop0)
  then show ?case using Cons by simp
qed simp

lemma glob_segment: "CHR ''*'' \<notin> set seg \<Longrightarrow> glob (seg @ q) w \<Longrightarrow> length seg \<le> length w \<and> glob q (drop (length seg) w)"
  by (induction seg arbitrary: w) (auto split: list.splits if_splits)

text \<open>What the loop decides: the rest now, or the last star one character later.\<close>

definition wild_goal :: "string \<Rightarrow> string \<Rightarrow> wild \<Rightarrow> bool" where
  "wild_goal p v s \<longleftrightarrow> glob (drop (w_pattern s) p) (drop (w_value s) v)
     \<or> (\<exists>star. w_star s = Some star \<and> w_retry s < length v \<and> glob (drop star p) (drop (w_retry s + 1) v))"

definition wild_inv :: "string \<Rightarrow> string \<Rightarrow> wild \<Rightarrow> bool" where
  "wild_inv p v s \<longleftrightarrow> wild_ok p v s \<and> (\<forall>star. w_star s = Some star \<longrightarrow>
     CHR ''*'' \<notin> set (take (w_pattern s - star - 1) (drop (star + 1) p)) \<and> w_value s = w_retry s + (w_pattern s - star - 1))"

text \<open>A later start of the last star reaches at most what the next star reaches from here.\<close>

lemma later_start:
  assumes inv: "wild_inv p v s" and star: "w_star s = Some star" and short: "w_retry s < length v"
    and alt: "glob (drop star p) (drop (w_retry s + 1) v)"
  shows "\<exists>k > w_value s. k \<le> length v \<and> glob (drop (w_pattern s) p) (drop k v)"
proof -
  let ?n = "w_pattern s - star - 1"
  let ?seg = "take ?n (drop (star + 1) p)"
  have ok: "star < w_pattern s" "w_pattern s \<le> length p" "p ! star = CHR ''*''" "w_retry s \<le> w_value s" "w_value s \<le> length v"
    using inv star by (auto simp: wild_inv_def wild_ok_def)
  have seg: "CHR ''*'' \<notin> set ?seg" "w_value s = w_retry s + ?n" using inv star by (auto simp: wild_inv_def)
  have "drop star p = CHR ''*'' # drop (star + 1) p" using ok by (metis Cons_nth_drop_Suc Suc_eq_plus1 less_le_trans)
  moreover have "drop (star + 1) p = ?seg @ drop (w_pattern s) p"
    using ok by (metis append_take_drop_id drop_drop add.commute diff_diff_left le_add_diff_inverse2 Suc_eq_plus1 Suc_leI)
  ultimately have "glob (CHR ''*'' # ?seg @ drop (w_pattern s) p) (drop (w_retry s + 1) v)" using alt by simp
  then obtain j where j: "j \<le> length (drop (w_retry s + 1) v)" "glob (?seg @ drop (w_pattern s) p) (drop j (drop (w_retry s + 1) v))"
    using glob_star by blast
  have len: "length ?seg = ?n" using ok by auto
  have "length ?seg \<le> length (drop j (drop (w_retry s + 1) v))"
    "glob (drop (w_pattern s) p) (drop ?n (drop j (drop (w_retry s + 1) v)))"
    using glob_segment [OF seg(1) j(2)] len by auto
  then show ?thesis using seg(2) len j(1) short
    by (intro exI [of _ "w_retry s + 1 + j + ?n"]) (auto simp: add.commute add.left_commute)
qed


lemma nth_drop_Cons: "i < length xs \<Longrightarrow> drop i xs = xs ! i # drop (i + 1) xs"
  by (simp add: Cons_nth_drop_Suc)

lemma segment_snoc:
  "star < i \<Longrightarrow> i < length p \<Longrightarrow> take (i + 1 - star - 1) (drop (star + 1) p) = take (i - star - 1) (drop (star + 1) p) @ [p ! i]"
  using take_Suc_conv_app_nth [of "i - star - 1" "drop (star + 1) p"] by (auto simp: Suc_diff_Suc)

lemma wild_step_inv:
  assumes inv: "wild_inv p v s" and step: "wild_step p v s = Inr s'" and plain: "CHR ''*'' \<notin> set v"
  shows "wild_inv p v s'"
proof -
  have ok: "wild_ok p v s" using inv by (simp add: wild_inv_def)
  have ok': "wild_ok p v s'" using wild_step_ok [OF ok step] by simp
  have v: "w_value s < length v" using step by (auto simp: wild_step_def split: if_split_asm)
  show ?thesis
  proof (cases "w_pattern s < length p \<and> (p ! w_pattern s = CHR ''?'' \<or> p ! w_pattern s = v ! w_value s)")
    case True
    then have s': "s' = s\<lparr>w_pattern := w_pattern s + 1, w_value := w_value s + 1\<rparr>" using step v by (auto simp: wild_step_def)
    have "v ! w_value s \<noteq> CHR ''*''" using v plain nth_mem by metis
    then have c: "p ! w_pattern s \<noteq> CHR ''*''" using True by auto
    have "CHR ''*'' \<notin> set (take (w_pattern s' - star - 1) (drop (star + 1) p)) \<and> w_value s' = w_retry s' + (w_pattern s' - star - 1)"
      if "w_star s = Some star" for star
    proof -
      have lt: "star < w_pattern s" using ok that by (simp add: wild_ok_def)
      have "CHR ''*'' \<notin> set (take (w_pattern s - star - 1) (drop (star + 1) p))" "w_value s = w_retry s + (w_pattern s - star - 1)"
        using inv that by (auto simp: wild_inv_def)
      then show ?thesis using segment_snoc [OF lt, of p] True c lt by (auto simp: s')
    qed
    then show ?thesis using ok' by (simp add: wild_inv_def s')
  next
    case False
    then show ?thesis using step v ok' by (auto simp: wild_step_def wild_inv_def split: if_split_asm option.splits)
  qed
qed

lemma retry_goal:
  assumes ok: "wild_ok p v s" and star: "w_star s = Some star" and v: "w_value s < length v"
    and s': "s' = s\<lparr>w_pattern := star + 1, w_value := w_retry s + 1, w_retry := w_retry s + 1\<rparr>"
    and none: "\<not> glob (drop (w_pattern s) p) (drop (w_value s) v)"
  shows "wild_goal p v s' \<longleftrightarrow> wild_goal p v s"
proof -
  have p: "star < length p" "p ! star = CHR ''*''" "w_retry s < length v" using ok star v by (auto simp: wild_ok_def)
  note pattern = nth_drop_Cons [OF p(1)]
  have "glob (drop star p) (drop (w_retry s + 1) v) \<longleftrightarrow> glob (drop (star + 1) p) (drop (w_retry s + 1) v)
      \<or> (w_retry s + 1 < length v \<and> glob (drop star p) (drop (w_retry s + 2) v))"
  proof (cases "w_retry s + 1 < length v")
    case True
    then show ?thesis unfolding pattern p(2) nth_drop_Cons [OF True] by (simp add: numeral_2_eq_2)
  next
    case False
    then have "drop (w_retry s + 1) v = []" by simp
    then show ?thesis using False unfolding pattern p(2) by simp
  qed
  then show ?thesis using none star p(3) by (auto simp: wild_goal_def s' numeral_2_eq_2)
qed

lemma wild_step_goal:
  assumes inv: "wild_inv p v s" and step: "wild_step p v s = Inr s'" and plain: "CHR ''*'' \<notin> set v"
  shows "wild_goal p v s' \<longleftrightarrow> wild_goal p v s"
proof -
  have ok: "wild_ok p v s" using inv by (simp add: wild_inv_def)
  have v: "w_value s < length v" using step by (auto simp: wild_step_def split: if_split_asm)
  note vcons = nth_drop_Cons [OF v]
  show ?thesis
  proof (cases "w_pattern s < length p")
    case p: True
    note pattern = nth_drop_Cons [OF p]
    show ?thesis
    proof (cases "p ! w_pattern s = CHR ''?'' \<or> p ! w_pattern s = v ! w_value s")
      case True
      then have s': "s' = s\<lparr>w_pattern := w_pattern s + 1, w_value := w_value s + 1\<rparr>" using step v p by (auto simp: wild_step_def)
      have "v ! w_value s \<noteq> CHR ''*''" using v plain nth_mem by metis
      then have "p ! w_pattern s \<noteq> CHR ''*''" using True by auto
      then have "glob (drop (w_pattern s) p) (drop (w_value s) v) = glob (drop (w_pattern s + 1) p) (drop (w_value s + 1) v)"
        unfolding pattern vcons using True by simp
      then show ?thesis by (simp add: wild_goal_def s')
    next
      case no: False
      show ?thesis
      proof (cases "p ! w_pattern s = CHR ''*''")
        case True
        then have s': "s' = s\<lparr>w_pattern := w_pattern s + 1, w_star := Some (w_pattern s), w_retry := w_value s\<rparr>"
          using step v p no by (auto simp: wild_step_def)
        have now: "wild_goal p v s' \<longleftrightarrow> glob (drop (w_pattern s) p) (drop (w_value s) v)"
        proof -
          have "glob (drop (w_pattern s) p) (drop (w_value s) v) \<longleftrightarrow>
              glob (drop (w_pattern s + 1) p) (drop (w_value s) v) \<or> glob (drop (w_pattern s) p) (drop (w_value s + 1) v)"
            unfolding pattern True by (subst glob.simps(2)) (simp add: vcons del: glob.simps)
          then show ?thesis using v by (auto simp: wild_goal_def s')
        qed
        have "glob (drop (w_pattern s) p) (drop (w_value s) v)"
          if star: "w_star s = Some star" and short: "w_retry s < length v" and alt: "glob (drop star p) (drop (w_retry s + 1) v)" for star
        proof -
          obtain k where "k > w_value s" "k \<le> length v" "glob (drop (w_pattern s) p) (drop k v)"
            using later_start [OF inv star short alt] by blast
          then obtain j where j: "j \<le> length (drop k v)" "glob (drop (w_pattern s + 1) p) (drop j (drop k v))"
            unfolding pattern True using glob_star by blast
          have "j + (k - w_value s) \<le> length (drop (w_value s) v)" using j(1) \<open>k > w_value s\<close> \<open>k \<le> length v\<close> by auto
          moreover have "drop (j + (k - w_value s)) (drop (w_value s) v) = drop j (drop k v)"
            using \<open>k > w_value s\<close> by simp
          ultimately show ?thesis unfolding pattern True using glob_star j(2) by metis
        qed
        then show ?thesis unfolding now by (auto simp: wild_goal_def)
      next
        case False
        then obtain star where star: "w_star s = Some star"
          and s': "s' = s\<lparr>w_pattern := star + 1, w_value := w_retry s + 1, w_retry := w_retry s + 1\<rparr>"
          using step v p no by (auto simp: wild_step_def split: option.splits)
        have none: "\<not> glob (drop (w_pattern s) p) (drop (w_value s) v)"
          unfolding pattern vcons using no False by simp
        show ?thesis using retry_goal [OF ok star v s' none] .
      qed
    qed
  next
    case False
    then obtain star where star: "w_star s = Some star"
      and s': "s' = s\<lparr>w_pattern := star + 1, w_value := w_retry s + 1, w_retry := w_retry s + 1\<rparr>"
      using step v by (auto simp: wild_step_def split: option.splits)
    have none: "\<not> glob (drop (w_pattern s) p) (drop (w_value s) v)"
      using False unfolding vcons by simp
    show ?thesis using retry_goal [OF ok star v s' none] .
  qed
qed

lemma wild_loop_goal:
  "wild_inv p v s \<Longrightarrow> CHR ''*'' \<notin> set v \<Longrightarrow> wild_loop p v s = Some (wild_goal p v s)"
proof (induction s rule: wf_induct_rule [OF wf_wild_less [of p v]])
  case (1 s)
  show ?case
  proof (cases "wild_step p v s")
    case (Inr s')
    have "(s', s) \<in> wild_less p v" using wild_step_ok Inr 1(2) by (auto simp: wild_inv_def)
    from 1(1) [OF this wild_step_inv [OF 1(2) Inr 1(3)] 1(3)] show ?thesis
      using wild_step_goal [OF 1(2) Inr 1(3)] Inr by (simp add: wild_loop.simps [of p v s])
  next
    case (Inl b)
    have "b = wild_goal p v s"
    proof (cases "w_value s < length v")
      case True
      then have "w_star s = None" "\<not> glob (drop (w_pattern s) p) (drop (w_value s) v)" "\<not> b"
        using Inl nth_drop_Cons [OF True] by (cases "w_pattern s < length p"; auto simp: wild_step_def nth_drop_Cons split: if_split_asm option.splits)+
      then show ?thesis by (simp add: wild_goal_def)
    next
      case False
      then have end_of_value: "drop (w_value s) v = []" by simp
      have "\<not> (\<exists>star. w_star s = Some star \<and> w_retry s < length v \<and> glob (drop star p) (drop (w_retry s + 1) v))"
        using later_start [OF 1(2)] False by fastforce
      then show ?thesis using Inl False by (auto simp: wild_goal_def wild_step_def glob_Nil end_of_value)
    qed
    then show ?thesis using Inl by (simp add: wild_loop.simps [of p v s])
  qed
qed



text \<open>With a star in the name they differ: the loop takes the star of the pattern for that character.\<close>

lemma wildcard_star_in_name: "wildcard_match ''*'' ''*a'' = Some False" "glob ''*'' ''*a''"
proof -
  show "wildcard_match ''*'' ''*a'' = Some False"
    unfolding wildcard_match_def by (subst wild_loop.simps, simp add: wild_step_def wild_start_def)+
qed simp


section \<open>Paths and files\<close>

text \<open>The file system: readable texts, canonical paths, the names in a directory, and the home directory.\<close>

record config_fs =
  cf_files :: "(string \<times> string) list"
  cf_canonical :: "string \<Rightarrow> string option"
  cf_entries :: "string \<Rightarrow> string list option"
  cf_exists :: "string \<Rightarrow> bool"
  cf_home :: "string option"

definition canonicalize :: "config_fs \<Rightarrow> string \<Rightarrow> string app_result" where
  "canonicalize fs path = ok_or (cf_canonical fs path) Storage"

definition expand_home :: "config_fs \<Rightarrow> string \<Rightarrow> string" where
  "expand_home fs v = (let v = trim_chars is_quote (str_trim v) in
     case (strip_prefix ''~/'' v, cf_home fs) of (Some rest, Some home) \<Rightarrow> path_join home rest | _ \<Rightarrow> v)"

definition parent_of :: "string \<Rightarrow> string \<Rightarrow> string" where
  "parent_of path default_path = (if components path = [] then default_path else path_of (butlast (components path)))"

definition expand_include :: "config_fs \<Rightarrow> string \<Rightarrow> string \<Rightarrow> string \<Rightarrow> string list app_result" where
  "expand_include fs config root pattern =
     (let pattern = expand_home fs pattern;
          path = (if starts_with ''/'' pattern then pattern else path_join (parent_of config root) pattern)
      in if CHR ''*'' \<in> set path \<or> CHR ''?'' \<in> set path
         then (let parent = parent_of path root;
                   name = (case components path of [] \<Rightarrow> [] | cs \<Rightarrow> if last cs = ''..'' then [] else last cs)
               in rbind (ok_or (cf_entries fs parent) Storage) (\<lambda>entries.
                    Inr (sort (map (path_join parent) (filter (\<lambda>e. wildcard_match name e = Some True) entries)))))
         else Inr (if cf_exists fs path then [path] else []))"

section \<open>Blocks\<close>

record block =
  bl_aliases :: "string list"
  bl_values :: "string \<Rightarrow> string option"
  bl_source :: string

definition new_block :: "string \<Rightarrow> string list \<Rightarrow> block" where
  "new_block source aliases = \<lparr>bl_aliases = aliases, bl_values = Map.empty, bl_source = source\<rparr>"

definition known_keys :: "string list" where
  "known_keys = [''hostname'', ''user'', ''port'', ''identityfile'', ''proxyjump'']"

text \<open>The first value of a key counts.\<close>

definition set_value :: "config_fs \<Rightarrow> string \<Rightarrow> string \<Rightarrow> block option \<Rightarrow> block option" where
  "set_value fs key v current = (case current of
     None \<Rightarrow> None
   | Some b \<Rightarrow> Some (if key \<in> set known_keys \<and> bl_values b key = None
       then b\<lparr>bl_values := (bl_values b)(key \<mapsto> expand_home fs v)\<rparr> else b))"

definition finished :: "block option \<Rightarrow> block list" where
  "finished current = (case current of None \<Rightarrow> [] | Some b \<Rightarrow> [b])"

text \<open>
  The recursion of \<open>parse_file\<close>. \<open>visited\<close> holds the files that are open: a file is inserted when its parse begins and
  removed when it ends, so the callers' set is passed down and needs not be passed back. The result are the blocks in
  the order they are pushed.
\<close>

definition unopened :: "config_fs \<Rightarrow> string list \<Rightarrow> nat" where
  "unopened fs visited = length (filter (\<lambda>(path, _). path \<notin> set visited) (cf_files fs))"

lemma unopened_less: "map_of (cf_files fs) path = Some text \<Longrightarrow> path \<notin> set visited \<Longrightarrow> unopened fs (path # visited) < unopened fs visited"
proof -
  assume a: "map_of (cf_files fs) path = Some text" "path \<notin> set visited"
  have sub: "filter (\<lambda>(q, _). q \<notin> set (path # visited)) (cf_files fs)
      = filter (\<lambda>(q, _). q \<noteq> path) (filter (\<lambda>(q, _). q \<notin> set visited) (cf_files fs))"
    by (auto simp: filter_filter intro: filter_cong)
  have "(path, text) \<in> set (filter (\<lambda>(q, _). q \<notin> set visited) (cf_files fs))" using a map_of_SomeD by fastforce
  then have "length (filter (\<lambda>(q, _). q \<noteq> path) (filter (\<lambda>(q, _). q \<notin> set visited) (cf_files fs)))
      < length (filter (\<lambda>(q, _). q \<notin> set visited) (cf_files fs))"
    by (rule length_filter_less) simp
  then show ?thesis unfolding unopened_def sub .
qed

lemma rbind_cong [fundef_cong]: "m = m' \<Longrightarrow> (\<And>x. m' = Inr x \<Longrightarrow> f x = g x) \<Longrightarrow> rbind m f = rbind m' g"
  by (simp add: rbind_def split: sum.split)

datatype directive = Blank | Include "string list" | Host "string list" | Setting string string

definition read_line :: "string \<Rightarrow> directive" where
  "read_line raw =
     (let line = str_trim (strip_comment raw)
      in if line = [] then Blank
         else case split_directive line of
             None \<Rightarrow> Blank
           | Some (key, v) \<Rightarrow>
               (let lower = to_ascii_lowercase key
                in if lower = ''include'' then Include (shell_words v)
                   else if lower = ''host'' then Host (shell_words v) else Setting lower v))"

definition open_config :: "config_fs \<Rightarrow> string \<Rightarrow> string list \<Rightarrow> string \<Rightarrow> (string \<times> string \<times> string) app_result" where
  "open_config fs root visited path0 =
     rbind (canonicalize fs path0) (\<lambda>path.
     (let canonical_root = (case cf_canonical fs root of None \<Rightarrow> root | Some r \<Rightarrow> r)
      in rbind (guard (path_starts_with path canonical_root) Validation) (\<lambda>_.
         rbind (guard (path \<notin> set visited) Validation) (\<lambda>_.
         rbind (ok_or (map_of (cf_files fs) path) Storage) (\<lambda>text.
         rbind (guard (length text \<le> 2 * 1024 * 1024) Validation) (\<lambda>_. Inr (path, canonical_root, text)))))))"

lemma open_config_Inr:
  "open_config fs root visited path0 = Inr (path, canonical_root, text) \<Longrightarrow>
     path \<notin> set visited \<and> map_of (cf_files fs) path = Some text \<and> path_starts_with path canonical_root
     \<and> canonical_root = (case cf_canonical fs root of None \<Rightarrow> root | Some r \<Rightarrow> r)"
  by (auto simp: open_config_def Let_def res_iff)

function parse_file :: "config_fs \<Rightarrow> string \<Rightarrow> string list \<Rightarrow> string \<Rightarrow> block list app_result"
  and parse_lines :: "config_fs \<Rightarrow> string \<Rightarrow> string list \<Rightarrow> string \<Rightarrow> block option \<Rightarrow> string list \<Rightarrow> block list app_result"
  and parse_patterns :: "config_fs \<Rightarrow> string \<Rightarrow> string list \<Rightarrow> string \<Rightarrow> string list \<Rightarrow> block list app_result"
  and parse_files :: "config_fs \<Rightarrow> string \<Rightarrow> string list \<Rightarrow> string list \<Rightarrow> block list app_result" where
  "parse_file fs root visited path0 =
     rbind (open_config fs root visited path0) (\<lambda>(path, canonical_root, text).
       parse_lines fs canonical_root (path # visited) path None (str_lines text))"
| "parse_lines fs root visited path current [] = Inr (finished current)"
| "parse_lines fs root visited path current (raw # ls) = (case read_line raw of
     Blank \<Rightarrow> parse_lines fs root visited path current ls
   | Include patterns \<Rightarrow>
       rbind (parse_patterns fs root visited path patterns) (\<lambda>bs.
       rbind (parse_lines fs root visited path current ls) (\<lambda>rest. Inr (bs @ rest)))
   | Host aliases \<Rightarrow>
       rbind (parse_lines fs root visited path (Some (new_block path aliases)) ls) (\<lambda>rest. Inr (finished current @ rest))
   | Setting key v \<Rightarrow> parse_lines fs root visited path (set_value fs key v current) ls)"
| "parse_patterns fs root visited path [] = Inr []"
| "parse_patterns fs root visited path (p # ps) =
     rbind (expand_include fs path root p) (\<lambda>files.
     rbind (parse_files fs root visited files) (\<lambda>bs.
     rbind (parse_patterns fs root visited path ps) (\<lambda>rest. Inr (bs @ rest))))"
| "parse_files fs root visited [] = Inr []"
| "parse_files fs root visited (f # files) =
     rbind (parse_file fs root visited f) (\<lambda>bs.
     rbind (parse_files fs root visited files) (\<lambda>rest. Inr (bs @ rest)))"
  by pat_completeness auto
termination
  apply (relation "inv_image (less_than <*lex*> less_than <*lex*> less_than) (\<lambda>x. case x of
      Inl (Inl (fs, root, visited, path0)) \<Rightarrow> (unopened fs visited, 0 :: nat, 0 :: nat)
    | Inl (Inr (fs, root, visited, path, current, ls)) \<Rightarrow> (unopened fs visited, 3, length ls)
    | Inr (Inl (fs, root, visited, path, ps)) \<Rightarrow> (unopened fs visited, 2, length ps)
    | Inr (Inr (fs, root, visited, files)) \<Rightarrow> (unopened fs visited, 1, length files))")
  apply (simp add: wf_lex_prod)
  apply (auto dest!: open_config_Inr intro: unopened_less)
  done


section \<open>Hosts\<close>

record openssh_host =
  oh_alias :: string
  oh_hostname :: string
  oh_user :: "string option"
  oh_port :: nat
  oh_identity_file :: "string option"
  oh_proxy_jump :: "string option"
  oh_source :: string
  oh_warnings :: "string list"

definition resolve_host :: "block \<Rightarrow> string \<Rightarrow> openssh_host" where
  "resolve_host b alias =
     (let port = (case Option.bind (bl_values b ''port'') (parse_unsigned 65535) of None \<Rightarrow> 22 | Some n \<Rightarrow> n)
      in \<lparr>oh_alias = alias, oh_hostname = (case bl_values b ''hostname'' of None \<Rightarrow> alias | Some h \<Rightarrow> h),
          oh_user = bl_values b ''user'', oh_port = port, oh_identity_file = bl_values b ''identityfile'',
          oh_proxy_jump = bl_values b ''proxyjump'', oh_source = bl_source b,
          oh_warnings = (if bl_values b ''port'' \<noteq> None \<and> port = 22 \<and> bl_values b ''port'' \<noteq> Some ''22'' then [''port''] else [])\<rparr>)"

definition resolve_blocks :: "block list \<Rightarrow> openssh_host list" where
  "resolve_blocks blocks = concat (map (\<lambda>b. map (resolve_host b)
     (filter (\<lambda>a. CHR ''*'' \<notin> set a \<and> CHR ''?'' \<notin> set a \<and> CHR ''!'' \<notin> set a) (bl_aliases b))) blocks)"

definition ssh_root :: "config_fs \<Rightarrow> string app_result" where
  "ssh_root fs = rbind (ok_or (cf_home fs) Unavailable) (\<lambda>home.
     (let root = path_join home ''.ssh'' in Inr (case cf_canonical fs root of None \<Rightarrow> root | Some r \<Rightarrow> r)))"

definition import_config :: "config_fs \<Rightarrow> string \<Rightarrow> openssh_host list app_result" where
  "import_config fs path =
     rbind (ssh_root fs) (\<lambda>root. rbind (canonicalize fs path) (\<lambda>canonical.
     rbind (guard (path_starts_with canonical root) Validation) (\<lambda>_.
     rbind (parse_file fs root [] canonical) (\<lambda>blocks. Inr (resolve_blocks blocks)))))"

section \<open>Keys\<close>

text \<open>The checks before \<open>ssh-keygen\<close> runs, and before a public key is appended on the server.\<close>

record key_target =
  kt_absolute :: bool
  kt_file_name :: "string option"
  kt_parent_is_dir :: "bool option"
  kt_exists :: bool
  kt_public_exists :: bool

definition validate_key_path :: "key_target \<Rightarrow> unit app_result" where
  "validate_key_path t = (if \<not> kt_absolute t \<or> kt_file_name t = None then Inl Validation
     else case kt_parent_is_dir t of None \<Rightarrow> Inl Validation | Some d \<Rightarrow> guard d Validation)"

definition has_line_break :: "string \<Rightarrow> bool" where
  "has_line_break s \<longleftrightarrow> CHR 0x0A \<in> set s \<or> CHR 0x0D \<in> set s \<or> CHR 0x00 \<in> set s"

definition generate_key_checks :: "key_target \<Rightarrow> string \<Rightarrow> bool \<Rightarrow> unit app_result" where
  "generate_key_checks t comment keygen =
     rbind (validate_key_path t) (\<lambda>_.
     rbind (guard (length comment \<le> 256 \<and> \<not> has_line_break comment) Validation) (\<lambda>_.
     rbind (guard (\<not> kt_exists t \<and> \<not> kt_public_exists t) Validation) (\<lambda>_. guard keygen Unavailable)))"

definition deployable_key :: "string \<Rightarrow> unit app_result" where
  "deployable_key key = guard (length key \<le> 16 * 1024 \<and> starts_with ''ssh-ed25519 '' key \<and> \<not> has_line_break key) Validation"

section \<open>Includes\<close>

text \<open>\<open>opens fs root p q\<close>: the file \<open>p\<close> includes the file \<open>q\<close>, both by their canonical paths.\<close>

definition opens :: "config_fs \<Rightarrow> string \<Rightarrow> (string \<times> string) set" where
  "opens fs root = {(p, q). \<exists>text raw patterns pattern files f. map_of (cf_files fs) p = Some text \<and> raw \<in> set (str_lines text)
     \<and> read_line raw = Include patterns \<and> pattern \<in> set patterns \<and> expand_include fs p root pattern = Inr files
     \<and> f \<in> set files \<and> cf_canonical fs f = Some q}"

lemma parse_files_each: "parse_files fs root visited files = Inr bs \<Longrightarrow> f \<in> set files \<Longrightarrow> \<exists>bs'. parse_file fs root visited f = Inr bs'"
  by (induction files arbitrary: bs) (auto simp: res_iff simp del: parse_file.simps)

lemma parse_patterns_each:
  "parse_patterns fs root visited path ps = Inr bs \<Longrightarrow> p \<in> set ps \<Longrightarrow>
    \<exists>files. expand_include fs path root p = Inr files \<and> (\<exists>bs'. parse_files fs root visited files = Inr bs')"
  by (induction ps arbitrary: bs) (auto simp: res_iff)

lemma parse_lines_each:
  "parse_lines fs root visited path current ls = Inr bs \<Longrightarrow> raw \<in> set ls \<Longrightarrow> read_line raw = Include patterns \<Longrightarrow>
    \<exists>bs'. parse_patterns fs root visited path patterns = Inr bs'"
  by (induction ls arbitrary: current bs) (auto simp: res_iff split: directive.splits)

lemma parse_file_each:
  assumes "parse_file fs root visited p0 = Inr bs" "cf_canonical fs root = Some root" "cf_canonical fs p0 = Some p" "(p, q) \<in> opens fs root"
  shows "\<exists>f bs'. cf_canonical fs f = Some q \<and> parse_file fs root (p # visited) f = Inr bs'"
proof -
  obtain body where lines: "parse_lines fs root (p # visited) p None (str_lines body) = Inr bs" "map_of (cf_files fs) p = Some body"
    using assms(1-3) by (auto simp: res_iff open_config_def canonicalize_def Let_def)
  obtain raw patterns pattern files f where inc: "raw \<in> set (str_lines body)" "read_line raw = Include patterns"
    "pattern \<in> set patterns" "expand_include fs p root pattern = Inr files" "f \<in> set files" "cf_canonical fs f = Some q"
    using assms(4) lines(2) by (auto simp: opens_def)
  then show ?thesis
    using parse_lines_each [OF lines(1) inc(1,2)] parse_patterns_each [OF _ inc(3)] parse_files_each [OF _ inc(5)]
    by (metis sum.inject(2))
qed

lemma parse_file_unvisited:
  assumes "parse_file fs root visited p0 = Inr bs" "cf_canonical fs root = Some root" "cf_canonical fs p0 = Some p"
  shows "p \<notin> set visited \<and> path_starts_with p root \<and> (\<exists>text. map_of (cf_files fs) p = Some text)"
  using assms by (auto simp: res_iff open_config_def canonicalize_def Let_def)

lemma reachable_unvisited:
  "parse_file fs root visited p0 = Inr bs \<Longrightarrow> cf_canonical fs root = Some root \<Longrightarrow> cf_canonical fs p0 = Some p
    \<Longrightarrow> (p, q) \<in> (opens fs root)\<^sup>* \<Longrightarrow> q \<notin> set visited \<and> path_starts_with q root \<and> (q, q) \<notin> (opens fs root)\<^sup>+"
proof (induction "unopened fs visited" arbitrary: visited p0 p bs q rule: less_induct)
  case less
  have p: "p \<notin> set visited" "path_starts_with p root" "unopened fs (p # visited) < unopened fs visited"
    using parse_file_unvisited [OF less.prems(1-3)] unopened_less by auto
  have from_p: "q' \<notin> set (p # visited) \<and> path_starts_with q' root \<and> (q', q') \<notin> (opens fs root)\<^sup>+"
    if step: "(p, q') \<in> (opens fs root)\<^sup>+" for q'
  proof -
    obtain r where r: "(p, r) \<in> opens fs root" "(r, q') \<in> (opens fs root)\<^sup>*" using tranclD [OF step] by blast
    obtain f bs' where f: "cf_canonical fs f = Some r" "parse_file fs root (p # visited) f = Inr bs'"
      using parse_file_each [OF less.prems(1-3) r(1)] by blast
    show ?thesis using less.hyps [OF p(3) f(2) less.prems(2) f(1) r(2)] .
  qed
  show ?case
  proof (cases "q = p")
    case True
    then show ?thesis using p from_p [of p] by auto
  next
    case False
    then have "(p, q) \<in> (opens fs root)\<^sup>+" using less.prems(4) by (metis rtranclD)
    then show ?thesis using from_p by simp
  qed
qed

text \<open>An import that succeeds has opened only files below the SSH directory, however they were included, and no file that
  includes itself, directly or through others; a configuration with an include cycle, or an include that leaves the
  directory, is an error.\<close>

theorem import_confined:
  assumes "parse_file fs root [] path = Inr blocks" "cf_canonical fs root = Some root" "cf_canonical fs path = Some p"
    and "(p, q) \<in> (opens fs root)\<^sup>*"
  shows "path_starts_with q root \<and> (q, q) \<notin> (opens fs root)\<^sup>+"
  using reachable_unvisited [OF assms] by auto

definition sample_config :: config_fs where
  "sample_config = \<lparr>cf_files = [(''/h/.ssh/config'', ''Include b'' @ [CHR 0x0A] @ ''Host prod # x''), (''/h/.ssh/b'', ''host jump'')],
     cf_canonical = (\<lambda>p. if p \<in> {''/h/.ssh'', ''/h/.ssh/config'', ''/h/.ssh/b''} then Some p else None),
     cf_entries = Map.empty, cf_exists = (\<lambda>p. p = ''/h/.ssh/b''), cf_home = Some ''/h''\<rparr>"

lemma sample_lines:
  "str_lines (''Include b'' @ [CHR 0x0A] @ ''Host prod # x'') = [''Include b'', ''Host prod # x'']" "str_lines ''host jump'' = [''host jump'']"
  "read_line ''Include b'' = Include [''b'']" "read_line ''Host prod # x'' = Host [''prod'']" "read_line ''host jump'' = Host [''jump'']"
  by code_simp+

lemma sample_components:
  "components ''/h/.ssh/config'' = [''h'', ''.ssh'', ''config'']" "components ''/h/.ssh/b'' = [''h'', ''.ssh'', ''b'']" "components ''/h/.ssh'' = [''h'', ''.ssh'']"
  by code_simp+

lemma sample_open:
  "open_config sample_config ''/h/.ssh'' [] ''/h/.ssh/config''
    = Inr (''/h/.ssh/config'', ''/h/.ssh'', ''Include b'' @ [CHR 0x0A] @ ''Host prod # x'')"
  "open_config sample_config ''/h/.ssh'' [''/h/.ssh/config''] ''/h/.ssh/b'' = Inr (''/h/.ssh/b'', ''/h/.ssh'', ''host jump'')"
  by (simp_all add: open_config_def sample_config_def canonicalize_def path_starts_with_def sample_components)

lemma sample_include: "expand_include sample_config ''/h/.ssh/config'' ''/h/.ssh'' ''b'' = Inr [''/h/.ssh/b'']"
proof -
  have "trim_chars is_quote (str_trim ''b'') = ''b''" by code_simp
  then show ?thesis
    by (simp add: expand_include_def expand_home_def strip_prefix_def Let_def path_join_def starts_with_def parent_of_def sample_components
        path_of_def sample_config_def split: option.split)
qed

lemma sample_parse: "parse_file sample_config ''/h/.ssh'' [] ''/h/.ssh/config''
   = Inr [new_block ''/h/.ssh/b'' [''jump''], new_block ''/h/.ssh/config'' [''prod'']]"
  using sample_open sample_lines by (simp add: sample_include finished_def)

theorem import_confined_witness:
  "path_starts_with ''/h/.ssh/b'' ''/h/.ssh'' \<and> (''/h/.ssh/b'', ''/h/.ssh/b'') \<notin> (opens sample_config ''/h/.ssh'')\<^sup>+"
proof -
  have "(''/h/.ssh/config'', ''/h/.ssh/b'') \<in> opens sample_config ''/h/.ssh''"
  proof -
    let ?body = "''Include b'' @ [CHR 0x0A] @ ''Host prod # x''"
    have "map_of (cf_files sample_config) ''/h/.ssh/config'' = Some ?body" by (simp add: sample_config_def)
    moreover have "''Include b'' \<in> set (str_lines ?body)" unfolding sample_lines(1) by simp
    moreover have "''b'' \<in> set [''b'']" "''/h/.ssh/b'' \<in> set [''/h/.ssh/b'']" by simp_all
    moreover have "cf_canonical sample_config ''/h/.ssh/b'' = Some ''/h/.ssh/b''" by (simp add: sample_config_def)
    ultimately show ?thesis using sample_include sample_lines(3) unfolding opens_def by blast
  qed
  then have "(''/h/.ssh/config'', ''/h/.ssh/b'') \<in> (opens sample_config ''/h/.ssh'')\<^sup>*" by blast
  moreover have "cf_canonical sample_config ''/h/.ssh'' = Some ''/h/.ssh''"
    "cf_canonical sample_config ''/h/.ssh/config'' = Some ''/h/.ssh/config''" by (simp_all add: sample_config_def)
  ultimately show ?thesis using import_confined [OF sample_parse] by blast
qed

text \<open>A directive with a space before its key is cut at an equals sign anywhere in the line: the value is lost.\<close>

lemma equals_in_value: "split_directive ''IdentityFile ~/k=1'' = Some (''IdentityFile ~/k'', ''1'')"
  by code_simp

end
