(* ===== verification/DeskTasks.thy ===== *)
theory DeskTasks
  imports DeskText
begin

text \<open>
  Background work of the desktop application: single tasks (\<open>src-tauri/src/task.rs\<close>) and batch commands over
  several hosts (\<open>batch.rs\<close>). Both keep a table of entries under a lock, each with a cancel flag that the
  spawned future shares; an operation holds the lock throughout, so it is one step.
\<close>

section \<open>Tasks\<close>

record background_task =
  bt_id :: string
  bt_kind :: string
  bt_status :: string
  bt_result :: "string option"
  bt_error :: "string option"
  bt_created_at :: string

record task_entry =
  te_task :: background_task
  te_cancelled :: bool

record task_manager =
  tk_entries :: "string \<Rightarrow> task_entry option"
  tk_events :: "background_task list"

definition empty_tasks :: task_manager where
  "empty_tasks = \<lparr>tk_entries = \<lambda>_. None, tk_events = []\<rparr>"

text \<open>The part of \<open>spawn\<close> before the future runs.\<close>

definition task_spawn :: "string \<Rightarrow> string \<Rightarrow> string \<Rightarrow> task_manager \<Rightarrow> background_task \<times> task_manager" where
  "task_spawn i kind now m =
     (let task = \<lparr>bt_id = i, bt_kind = kind, bt_status = ''queued'', bt_result = None, bt_error = None, bt_created_at = now\<rparr>
      in (task, m\<lparr>tk_entries := (tk_entries m)(i \<mapsto> \<lparr>te_task = task, te_cancelled = False\<rparr>)\<rparr>))"

definition task_get :: "string \<Rightarrow> task_manager \<Rightarrow> background_task app_result" where
  "task_get i m = ok_or (map_option te_task (tk_entries m i)) NotFound"

definition task_terminal :: "string \<Rightarrow> bool" where
  "task_terminal status \<longleftrightarrow> status \<in> {''completed'', ''failed'', ''cancelled''}"

definition put_task :: "string \<Rightarrow> task_entry \<Rightarrow> task_manager \<Rightarrow> task_manager" where
  "put_task i e m = m\<lparr>tk_entries := (tk_entries m)(i \<mapsto> e), tk_events := tk_events m @ [te_task e]\<rparr>"

definition task_cancel :: "string \<Rightarrow> task_manager \<Rightarrow> unit app_result \<times> task_manager" where
  "task_cancel i m = (case tk_entries m i of
     None \<Rightarrow> (Inl NotFound, m)
   | Some e \<Rightarrow>
      (if task_terminal (bt_status (te_task e)) then (Inr (), m)
       else (Inr (), put_task i (e\<lparr>te_cancelled := True, te_task := (te_task e)\<lparr>bt_status := ''cancelled''\<rparr>\<rparr>) m)))"

definition task_update :: "string \<Rightarrow> string \<Rightarrow> string option \<Rightarrow> string option \<Rightarrow> task_manager \<Rightarrow> task_manager" where
  "task_update i status result error m = (case tk_entries m i of
     None \<Rightarrow> m
   | Some e \<Rightarrow>
      (if te_cancelled e \<and> status \<noteq> ''cancelled'' then m
       else put_task i (e\<lparr>te_task := (te_task e)\<lparr>bt_status := status, bt_result := result, bt_error := error\<rparr>\<rparr>) m))"

text \<open>The future: it reports that it runs, and after the operation either the cancellation or the outcome.\<close>

definition task_begin :: "string \<Rightarrow> task_manager \<Rightarrow> task_manager" where
  "task_begin i m = task_update i ''running'' None None m"

definition cancelled_flag :: "string \<Rightarrow> task_manager \<Rightarrow> bool" where
  "cancelled_flag i m = (case tk_entries m i of None \<Rightarrow> False | Some e \<Rightarrow> te_cancelled e)"

definition task_finish :: "string \<Rightarrow> string + string \<Rightarrow> task_manager \<Rightarrow> task_manager" where
  "task_finish i outcome m =
     (if cancelled_flag i m then task_update i ''cancelled'' None None m
      else (case outcome of
          Inr v \<Rightarrow> task_update i ''completed'' (Some v) None m
        | Inl e \<Rightarrow> task_update i ''failed'' None (Some e) m))"

text \<open>Runs: the tasks with the program counter of each future.\<close>

datatype phase = Spawned | Working | Ended

record task_system =
  ts_manager :: task_manager
  ts_phase :: "string \<Rightarrow> phase option"

inductive task_step :: "task_system \<Rightarrow> task_system \<Rightarrow> bool" where
  spawn: "tk_entries (ts_manager s) i = None \<Longrightarrow>
    task_step s \<lparr>ts_manager = snd (task_spawn i kind now (ts_manager s)), ts_phase = (ts_phase s)(i \<mapsto> Spawned)\<rparr>"
| begins: "ts_phase s i = Some Spawned \<Longrightarrow>
    task_step s \<lparr>ts_manager = task_begin i (ts_manager s), ts_phase = (ts_phase s)(i \<mapsto> Working)\<rparr>"
| finishes: "ts_phase s i = Some Working \<Longrightarrow>
    task_step s \<lparr>ts_manager = task_finish i outcome (ts_manager s), ts_phase = (ts_phase s)(i \<mapsto> Ended)\<rparr>"
| cancel: "task_step s (s\<lparr>ts_manager := snd (task_cancel i (ts_manager s))\<rparr>)"

inductive tasks_reachable :: "task_system \<Rightarrow> bool" where
  start: "tasks_reachable \<lparr>ts_manager = empty_tasks, ts_phase = \<lambda>_. None\<rparr>"
| step: "tasks_reachable s \<Longrightarrow> task_step s s' \<Longrightarrow> tasks_reachable s'"

text \<open>What a status says about the future and the flag.\<close>

definition task_ok :: "phase option \<Rightarrow> task_entry option \<Rightarrow> bool" where
  "task_ok p e = (case e of
     None \<Rightarrow> p = None
   | Some e \<Rightarrow> p \<noteq> None \<and> (bt_status (te_task e) = ''cancelled'' \<longleftrightarrow> te_cancelled e)
      \<and> (\<not> te_cancelled e \<longrightarrow>
           bt_status (te_task e) \<in> (case the p of Spawned \<Rightarrow> {''queued''} | Working \<Rightarrow> {''running''}
             | Ended \<Rightarrow> {''completed'', ''failed''})))"

definition tasks_ok :: "task_system \<Rightarrow> bool" where
  "tasks_ok s \<longleftrightarrow> (\<forall>i. task_ok (ts_phase s i) (tk_entries (ts_manager s) i))"

lemmas task_defs = task_spawn_def task_begin_def task_finish_def task_cancel_def task_update_def put_task_def
  cancelled_flag_def task_terminal_def

lemma task_frame:
  "j \<noteq> i \<Longrightarrow> tk_entries (task_begin i m) j = tk_entries m j"
  "j \<noteq> i \<Longrightarrow> tk_entries (task_finish i outcome m) j = tk_entries m j"
  "j \<noteq> i \<Longrightarrow> tk_entries (snd (task_cancel i m)) j = tk_entries m j"
  by (auto simp: task_defs split: option.split sum.split)

lemma task_step_ok: "task_step s s' \<Longrightarrow> tasks_ok s \<Longrightarrow> tasks_ok s'"
proof (induction rule: task_step.induct)
  case (spawn s i kind now)
  then show ?case by (auto simp: tasks_ok_def task_ok_def task_defs Let_def)
next
  case (begins s i)
  have ok: "task_ok (ts_phase s j) (tk_entries (ts_manager s) j)" for j using begins.prems by (simp add: tasks_ok_def)
  have "task_ok (Some Working) (tk_entries (task_begin i (ts_manager s)) i)"
    using ok [of i] begins.hyps by (auto simp: task_ok_def task_defs split: option.splits)
  then show ?case using ok task_frame(1) by (simp add: tasks_ok_def)
next
  case (finishes s i outcome)
  have ok: "task_ok (ts_phase s j) (tk_entries (ts_manager s) j)" for j using finishes.prems by (simp add: tasks_ok_def)
  have "task_ok (Some Ended) (tk_entries (task_finish i outcome (ts_manager s)) i)"
    using ok [of i] finishes.hyps by (auto simp: task_ok_def task_defs split: option.splits sum.splits)
  then show ?case using ok task_frame(2) by (simp add: tasks_ok_def)
next
  case (cancel s i)
  have ok: "task_ok (ts_phase s j) (tk_entries (ts_manager s) j)" for j using cancel by (simp add: tasks_ok_def)
  have "task_ok (ts_phase s i) (tk_entries (snd (task_cancel i (ts_manager s))) i)"
    using ok [of i] by (auto simp: task_ok_def task_defs split: option.splits)
  then have "task_ok (ts_phase s j) (tk_entries (snd (task_cancel i (ts_manager s))) j)" for j
    using ok task_frame(3) by (cases "j = i") simp_all
  then show ?case by (simp add: tasks_ok_def)
qed

lemma tasks_reachable_ok: "tasks_reachable s \<Longrightarrow> tasks_ok s"
proof (induction rule: tasks_reachable.induct)
  case start
  show ?case by (simp add: tasks_ok_def task_ok_def empty_tasks_def)
qed (rule task_step_ok)



section \<open>Batch commands\<close>

record batch_target =
  tg_connection_id :: string
  tg_name :: string
  tg_status :: string
  tg_stdout :: string
  tg_stderr :: string
  tg_exit_code :: "int option"
  tg_duration_ms :: "nat option"
  tg_error :: "string option"

record batch_execution =
  bx_id :: string
  bx_command :: string
  bx_status :: string
  bx_created_at :: string
  bx_targets :: "batch_target list"

record batch_entry =
  be_execution :: batch_execution
  be_cancelled :: bool

record batch_manager =
  bm_entries :: "string \<Rightarrow> batch_entry option"
  bm_events :: "batch_execution list"

text \<open>\<open>is_destructive\<close>: the command is cut into segments, each into words without outer quotes.\<close>

text \<open>The arguments after one \<open>rm\<close>, with the flags seen so far.\<close>

fun rm_arguments :: "bool \<Rightarrow> bool \<Rightarrow> string list \<Rightarrow> bool" where
  "rm_arguments recursive force [] = False"
| "rm_arguments recursive force (a # as) =
     (if starts_with ''-'' a
      then rm_arguments (recursive \<or> CHR ''r'' \<in> set a \<or> CHR ''R'' \<in> set a) (force \<or> CHR ''f'' \<in> set a) as
      else if recursive \<and> force \<and> (a = ''/'' \<or> starts_with ''/*'' a) then True
      else rm_arguments recursive force as)"

fun rm_tokens :: "string list \<Rightarrow> bool" where
  "rm_tokens [] = False"
| "rm_tokens (t # ts) = (t = ''rm'' \<and> rm_arguments False False ts \<or> rm_tokens ts)"

definition destructive_tokens :: "string list \<Rightarrow> bool" where
  "destructive_tokens ts \<longleftrightarrow>
     list_ex (\<lambda>t. t \<in> {''shutdown'', ''reboot'', ''poweroff''} \<or> starts_with ''mkfs.'' t) ts
   \<or> list_ex (starts_with ''of=/dev/'') ts \<and> ''dd'' \<in> set ts
   \<or> rm_tokens ts"

definition segment_tokens :: "string \<Rightarrow> string list" where
  "segment_tokens segment = map (trim_chars (\<lambda>c. c = CHR 0x27 \<or> c = CHR 0x22)) (split_whitespace segment)"

definition is_destructive :: "string \<Rightarrow> bool" where
  "is_destructive command = list_ex (\<lambda>segment. destructive_tokens (segment_tokens segment))
     (split_any (\<lambda>c. c \<in> {CHR '';'', CHR 0x0A, CHR ''&'', CHR ''|''}) (to_ascii_lowercase command))"

definition validate_batch :: "(string \<times> string) list \<Rightarrow> string \<Rightarrow> nat \<Rightarrow> unit app_result" where
  "validate_batch profiles command concurrency =
     rbind (guard (profiles \<noteq> [] \<and> length profiles \<le> 50) Validation) (\<lambda>_.
     rbind (guard (1 \<le> concurrency \<and> concurrency \<le> 10) Validation) (\<lambda>_.
     rbind (guard (str_trim command \<noteq> [] \<and> length command \<le> 64 * 1024 \<and> CHR 0x00 \<notin> set command) Validation) (\<lambda>_.
       guard (\<not> is_destructive command) Validation)))"

text \<open>The part of \<open>start\<close> before the future runs; a profile is its identifier and its name.\<close>

definition batch_start ::
    "string \<Rightarrow> string \<Rightarrow> (string \<times> string) list \<Rightarrow> string \<Rightarrow> nat \<Rightarrow> batch_manager
      \<Rightarrow> batch_execution app_result \<times> batch_manager" where
  "batch_start i now profiles command concurrency m =
     (case validate_batch profiles command concurrency of
        Inl e \<Rightarrow> (Inl e, m)
      | Inr _ \<Rightarrow>
         (let x = \<lparr>bx_id = i, bx_command = command, bx_status = ''queued'', bx_created_at = now,
                bx_targets = map (\<lambda>(c, n). \<lparr>tg_connection_id = c, tg_name = n, tg_status = ''queued'', tg_stdout = [],
                  tg_stderr = [], tg_exit_code = None, tg_duration_ms = None, tg_error = None\<rparr>) profiles\<rparr>
          in (Inr x, m\<lparr>bm_entries := (bm_entries m)(i \<mapsto> \<lparr>be_execution = x, be_cancelled = False\<rparr>)\<rparr>)))"

definition batch_get :: "string \<Rightarrow> batch_manager \<Rightarrow> batch_execution app_result" where
  "batch_get i m = ok_or (map_option be_execution (bm_entries m i)) NotFound"

definition put_batch :: "string \<Rightarrow> batch_entry \<Rightarrow> batch_manager \<Rightarrow> batch_manager" where
  "put_batch i e m = m\<lparr>bm_entries := (bm_entries m)(i \<mapsto> e), bm_events := bm_events m @ [be_execution e]\<rparr>"

definition batch_mutate :: "string \<Rightarrow> (batch_execution \<Rightarrow> batch_execution) \<Rightarrow> batch_manager \<Rightarrow> batch_manager" where
  "batch_mutate i f m = (case bm_entries m i of None \<Rightarrow> m
     | Some e \<Rightarrow> put_batch i (e\<lparr>be_execution := f (be_execution e)\<rparr>) m)"

definition cancel_target :: "batch_target \<Rightarrow> batch_target" where
  "cancel_target t = t\<lparr>tg_status := ''cancelled'', tg_error := Some ''cancelled by the user''\<rparr>"

definition batch_cancel :: "string \<Rightarrow> batch_manager \<Rightarrow> batch_execution app_result \<times> batch_manager" where
  "batch_cancel i m = (case bm_entries m i of
     None \<Rightarrow> (Inl NotFound, m)
   | Some e \<Rightarrow>
      (let x = (be_execution e)\<lparr>bx_status := ''cancelled'', bx_targets := map (\<lambda>t.
             if tg_status t = ''queued'' then cancel_target t else t) (bx_targets (be_execution e))\<rparr>
       in (Inr x, put_batch i (e\<lparr>be_cancelled := True, be_execution := x\<rparr>) m)))"

definition set_batch_status :: "string \<Rightarrow> string \<Rightarrow> batch_manager \<Rightarrow> batch_manager" where
  "set_batch_status i status = batch_mutate i (\<lambda>x. x\<lparr>bx_status := status\<rparr>)"

text \<open>\<open>iter_mut().find(..)\<close>: the first target of the connection.\<close>

fun update_target :: "string \<Rightarrow> (batch_target \<Rightarrow> batch_target) \<Rightarrow> batch_target list \<Rightarrow> batch_target list" where
  "update_target c f [] = []"
| "update_target c f (t # ts) = (if tg_connection_id t = c then f t # ts else t # update_target c f ts)"

definition on_target :: "string \<Rightarrow> string \<Rightarrow> (batch_target \<Rightarrow> batch_target) \<Rightarrow> batch_manager \<Rightarrow> batch_manager" where
  "on_target i c f = batch_mutate i (\<lambda>x. x\<lparr>bx_targets := update_target c f (bx_targets x)\<rparr>)"

definition set_target_running :: "string \<Rightarrow> string \<Rightarrow> batch_manager \<Rightarrow> batch_manager" where
  "set_target_running i c = on_target i c (\<lambda>t. t\<lparr>tg_status := ''running''\<rparr>)"

definition finish_cancelled_target :: "string \<Rightarrow> string \<Rightarrow> batch_manager \<Rightarrow> batch_manager" where
  "finish_cancelled_target i c = on_target i c cancel_target"

record remote_output =
  ro_stdout :: string
  ro_stderr :: string
  ro_exit_code :: int
  ro_truncated :: bool

text \<open>An error of the remote command: whether its text says that it was cancelled, and the text.\<close>

definition finish_result :: "nat \<Rightarrow> (bool \<times> string) + remote_output \<Rightarrow> batch_target \<Rightarrow> batch_target" where
  "finish_result elapsed outcome t =
     (let t = t\<lparr>tg_duration_ms := Some (min elapsed u64_max)\<rparr>
      in case outcome of
           Inr out \<Rightarrow> t\<lparr>tg_status := (if ro_exit_code out = 0 then ''completed'' else ''failed''),
               tg_stdout := ro_stdout out, tg_stderr := ro_stderr out, tg_exit_code := Some (ro_exit_code out),
               tg_error := (if ro_truncated out then Some ''output truncated'' else tg_error t)\<rparr>
         | Inl (cancelled, text) \<Rightarrow> t\<lparr>tg_status := (if cancelled then ''cancelled'' else ''failed''), tg_error := Some text\<rparr>)"

definition finish_target ::
    "string \<Rightarrow> string \<Rightarrow> nat \<Rightarrow> (bool \<times> string) + remote_output \<Rightarrow> batch_manager \<Rightarrow> batch_manager" where
  "finish_target i c elapsed outcome = on_target i c (finish_result elapsed outcome)"

definition finish_batch :: "string \<Rightarrow> batch_manager \<Rightarrow> batch_manager" where
  "finish_batch i = batch_mutate i (\<lambda>x. if bx_status x = ''cancelled'' then x
     else x\<lparr>bx_status := (if list_all (\<lambda>t. tg_status t = ''completed'') (bx_targets x)
       then ''completed'' else ''failed'')\<rparr>)"

text \<open>The work on one target once it has its permit; \<open>cancelled\<close> is the flag it reads.\<close>

definition target_begin :: "string \<Rightarrow> string \<Rightarrow> bool \<Rightarrow> batch_manager \<Rightarrow> batch_manager" where
  "target_begin i c cancelled = (if cancelled then finish_cancelled_target i c else set_target_running i c)"

text \<open>
  A cancellation that arrives before the future starts is overwritten when the future reports that it runs,
  so the batch ends as failed.
\<close>

definition two_targets :: "(string \<times> string) list" where
  "two_targets = [(''c1'', ''one''), (''c2'', ''two'')]"

definition no_batches :: batch_manager where
  "no_batches = \<lparr>bm_entries = \<lambda>_. None, bm_events = []\<rparr>"

definition early_cancel :: batch_manager where
  "early_cancel = (let m = snd (batch_start ''b'' ''now'' two_targets ''uptime'' 2 no_batches);
       m = snd (batch_cancel ''b'' m); m = set_batch_status ''b'' ''running'' m;
       m = target_begin ''b'' ''c1'' True m; m = target_begin ''b'' ''c2'' True m
     in finish_batch ''b'' m)"

lemma early_cancel_is_lost: "map_sum id bx_status (batch_get ''b'' early_cancel) = Inr ''failed''"
proof -
  have "str_trim ''uptime'' \<noteq> []" "\<not> is_destructive ''uptime''" by code_simp+
  then have "validate_batch two_targets ''uptime'' 2 = Inr ()" by (simp add: validate_batch_def two_targets_def)
  then show ?thesis
    by (simp add: early_cancel_def batch_start_def Let_def two_targets_def no_batches_def batch_cancel_def put_batch_def
        set_batch_status_def batch_mutate_def target_begin_def finish_cancelled_target_def on_target_def cancel_target_def
        finish_batch_def batch_get_def)
qed

lemma destructive_examples:
  "is_destructive ''sudo rm  -r -f  /'' \<and> is_destructive ''uptime; dd if=/dev/zero of=/dev/disk2''
    \<and> \<not> is_destructive ''uname -a'' \<and> \<not> is_destructive ''rm / -rf''"
  by code_simp

text \<open>Where a batch command may run: a batch is accepted only for 1 to 50 targets, 1 to 10 at a time, and never
  with a segment that reboots, formats, writes to a device with \<open>dd\<close>, or removes the root directory with
  recursion and force switched on before it.\<close>

theorem batch_start_guarded:
  assumes "batch_start i now profiles command concurrency m = (Inr x, m')"
    and "segment \<in> set (split_any (\<lambda>c. c \<in> {CHR '';'', CHR 0x0A, CHR ''&'', CHR ''|''}) (to_ascii_lowercase command))"
    and "segment_tokens segment = before @ ''rm'' # flags @ target # after"
    and "list_all (starts_with ''-'') flags" "CHR ''r'' \<in> set (concat flags)" "CHR ''f'' \<in> set (concat flags)"
  shows "target \<noteq> ''/'' \<and> 1 \<le> length profiles \<and> length profiles \<le> 50 \<and> concurrency \<le> 10
    \<and> ''reboot'' \<notin> set (segment_tokens segment) \<and> length (bx_targets x) = length profiles"
proof -
  have valid: "validate_batch profiles command concurrency = Inr ()"
    using assms(1) by (cases "validate_batch profiles command concurrency") (auto simp: batch_start_def)
  then have safe: "\<not> destructive_tokens (segment_tokens segment)"
    using assms(2) by (auto simp: validate_batch_def res_iff is_destructive_def list_ex_iff)
  have flags: "rm_arguments r f (flags @ ''/'' # after)"
    if "r \<or> CHR ''r'' \<in> set (concat flags)" "f \<or> CHR ''f'' \<in> set (concat flags)"
      "list_all (starts_with ''-'') flags" for r f and flags :: "string list"
    using that
  proof (induction flags arbitrary: r f)
    case Nil
    then show ?case by (simp add: starts_with_def)
  next
    case (Cons a as)
    have "rm_arguments (r \<or> CHR ''r'' \<in> set a \<or> CHR ''R'' \<in> set a) (f \<or> CHR ''f'' \<in> set a) (as @ ''/'' # after)"
      by (rule Cons.IH) (use Cons.prems in auto)
    then show ?case using Cons.prems(3) by simp
  qed
  have tokens: "rm_tokens (before @ ''rm'' # rest)" if "rm_arguments False False rest" for rest
    using that by (induction before) auto
  have "target \<noteq> ''/''"
  proof
    assume "target = ''/''"
    then have "rm_tokens (segment_tokens segment)"
      unfolding assms(3) using flags [OF disjI2 disjI2, OF assms(5,6,4)] tokens by simp
    then show False using safe by (simp add: destructive_tokens_def)
  qed
  moreover have "''reboot'' \<notin> set (segment_tokens segment)"
    using safe by (auto simp: destructive_tokens_def list_ex_iff)
  moreover have "profiles \<noteq> []" "length profiles \<le> 50" "concurrency \<le> 10"
    using valid by (auto simp: validate_batch_def res_iff)
  ultimately show ?thesis using assms(1) valid by (cases profiles) (auto simp: batch_start_def Let_def)
qed

theorem batch_start_guarded_witness:
  "\<exists>x m. batch_start ''b'' ''now'' two_targets ''sudo rm -rf /tmp/x'' 2 no_batches = (Inr x, m) \<and> length (bx_targets x) = 2"
proof -
  have "str_trim ''sudo rm -rf /tmp/x'' \<noteq> []" "\<not> is_destructive ''sudo rm -rf /tmp/x''" by code_simp+
  then have "validate_batch two_targets ''sudo rm -rf /tmp/x'' 2 = Inr ()" by (simp add: validate_batch_def two_targets_def)
  then obtain x m where x: "batch_start ''b'' ''now'' two_targets ''sudo rm -rf /tmp/x'' 2 no_batches = (Inr x, m)"
    by (simp add: batch_start_def Let_def)
  have "split_any (\<lambda>c. c \<in> {CHR '';'', CHR 0x0A, CHR ''&'', CHR ''|''}) (to_ascii_lowercase ''sudo rm -rf /tmp/x'')
      = [''sudo rm -rf /tmp/x'']"
    "segment_tokens ''sudo rm -rf /tmp/x'' = [''sudo''] @ ''rm'' # [''-rf''] @ ''/tmp/x'' # []"
    "list_all (starts_with ''-'') [''-rf'']"
    by code_simp+
  then show ?thesis
    using batch_start_guarded [OF x, of "''sudo rm -rf /tmp/x''" "[''sudo'']" "[''-rf'']" "''/tmp/x''" "[]"] x
    by (auto simp: two_targets_def)
qed

end
