(* ===== verification/DeskTunnel.thy ===== *)
theory DeskTunnel
  imports DeskText
begin

text \<open>
  Port forwarding (\<open>src-tauri/src/tunnel.rs\<close>): the table of running tunnels, the loop that bridges a
  socket and an SSH channel, and the SOCKS5 request of a dynamic tunnel.
\<close>

section \<open>The table of tunnels\<close>

text \<open>A token is the address of an \<open>AtomicBool\<close>; \<open>tn_flags\<close> is the store.\<close>

record tunnels =
  tn_running :: "string \<Rightarrow> nat option"
  tn_errors :: "string \<Rightarrow> string option"
  tn_flags :: "bool list"

definition no_tunnels :: tunnels where
  "no_tunnels = \<lparr>tn_running = \<lambda>_. None, tn_errors = \<lambda>_. None, tn_flags = []\<rparr>"

definition start_token :: "string \<Rightarrow> tunnels \<Rightarrow> nat app_result \<times> tunnels" where
  "start_token i m =
     (if tn_running m i \<noteq> None then (Inl Validation, m)
      else (Inr (length (tn_flags m)), m\<lparr>tn_running := (tn_running m)(i \<mapsto> length (tn_flags m)),
          tn_errors := (tn_errors m)(i := None), tn_flags := tn_flags m @ [False]\<rparr>))"

definition stop_tunnel :: "string \<Rightarrow> tunnels \<Rightarrow> unit app_result \<times> tunnels" where
  "stop_tunnel i m = (case tn_running m i of
     None \<Rightarrow> (Inl NotFound, m)
   | Some a \<Rightarrow> (Inr (), m\<lparr>tn_running := (tn_running m)(i := None), tn_flags := (tn_flags m)[a := True]\<rparr>))"

definition finish_tunnel :: "string \<Rightarrow> string option \<Rightarrow> tunnels \<Rightarrow> tunnels" where
  "finish_tunnel i error m = m\<lparr>tn_running := (tn_running m)(i := None),
     tn_errors := (case error of None \<Rightarrow> tn_errors m | Some e \<Rightarrow> (tn_errors m)(i \<mapsto> e))\<rparr>"

definition tunnel_status :: "string \<Rightarrow> tunnels \<Rightarrow> string \<times> string option" where
  "tunnel_status i m =
     (if tn_running m i \<noteq> None then (''running'', None)
      else (case tn_errors m i of Some e \<Rightarrow> (''failed'', Some e) | None \<Rightarrow> (''stopped'', None)))"

lemma tunnel_lifecycle:
  "tunnel_status i (snd (start_token i no_tunnels)) = (''running'', None)"
  "tunnel_status i (snd (stop_tunnel i (snd (start_token i no_tunnels)))) = (''stopped'', None)"
  "tunnel_status i (finish_tunnel i (Some e) m) = (''failed'', Some e)"
  by (simp_all add: tunnel_status_def start_token_def stop_tunnel_def finish_tunnel_def no_tunnels_def)

text \<open>
  The thread of a stopped tunnel that ends after the tunnel was started again removes the new entry: the new
  tunnel runs, its flag is not set, and it can be neither seen nor stopped.
\<close>

definition restarted :: tunnels where
  "restarted = (let m = snd (start_token ''t'' no_tunnels); m = snd (stop_tunnel ''t'' m);
       m = snd (start_token ''t'' m) in finish_tunnel ''t'' None m)"

lemma restarted_is_lost:
  "fst (tunnel_status ''t'' restarted) = ''stopped'' \<and> tn_flags restarted ! 1 = False \<and> fst (stop_tunnel ''t'' restarted) = Inl NotFound"
  by (simp add: restarted_def tunnel_status_def start_token_def stop_tunnel_def finish_tunnel_def no_tunnels_def)

section \<open>The bridge\<close>

text \<open>What a read or a write of one turn gives.\<close>

datatype reading = Got "u8 list" | AtEnd | Later | Broken
datatype writing = Wrote nat | WriteLater | WriteBroken
datatype ending = Ended | EndLater | EndBroken

record turn_input =
  oc_socket_read :: reading
  oc_channel_write :: writing
  oc_send_eof :: ending
  oc_channel_read :: reading
  oc_socket_write :: writing

text \<open>The two pending buffers and the flags, with what was read and written so far.\<close>

record bridge =
  br_to_remote :: "u8 list"
  br_to_local :: "u8 list"
  br_client_eof :: bool
  br_remote_eof :: bool
  br_eof_sent :: bool
  br_socket_read :: "u8 list"
  br_channel_written :: "u8 list"
  br_channel_read :: "u8 list"
  br_socket_written :: "u8 list"

definition new_bridge :: bridge where
  "new_bridge = \<lparr>br_to_remote = [], br_to_local = [], br_client_eof = False, br_remote_eof = False, br_eof_sent = False,
     br_socket_read = [], br_channel_written = [], br_channel_read = [], br_socket_written = []\<rparr>"

text \<open>The steps of a turn; \<open>Inl\<close> leaves the loop.\<close>

definition read_socket :: "reading \<Rightarrow> bridge \<Rightarrow> bridge + bridge" where
  "read_socket r b =
     (if br_client_eof b \<or> br_to_remote b \<noteq> [] then Inr b
      else case r of
          Got bs \<Rightarrow> Inr (b\<lparr>br_to_remote := bs, br_socket_read := br_socket_read b @ bs\<rparr>)
        | Later \<Rightarrow> Inr b
        | AtEnd \<Rightarrow> Inr (b\<lparr>br_client_eof := True\<rparr>)
        | Broken \<Rightarrow> Inr (b\<lparr>br_client_eof := True\<rparr>))"

definition write_channel :: "writing \<Rightarrow> bridge \<Rightarrow> bridge + bridge" where
  "write_channel w b =
     (if br_to_remote b = [] then Inr b
      else case w of
          Wrote n \<Rightarrow> Inr (b\<lparr>br_channel_written := br_channel_written b @ take n (br_to_remote b),
              br_to_remote := drop n (br_to_remote b)\<rparr>)
        | WriteLater \<Rightarrow> Inr b
        | WriteBroken \<Rightarrow> Inl b)"

definition send_eof :: "ending \<Rightarrow> bridge \<Rightarrow> bridge + bridge" where
  "send_eof e b =
     (if br_client_eof b \<and> br_to_remote b = [] \<and> \<not> br_eof_sent b
      then (case e of Ended \<Rightarrow> Inr (b\<lparr>br_eof_sent := True\<rparr>) | EndLater \<Rightarrow> Inr b | EndBroken \<Rightarrow> Inl b)
      else Inr b)"

definition read_channel :: "reading \<Rightarrow> bridge \<Rightarrow> bridge + bridge" where
  "read_channel r b =
     (if br_remote_eof b \<or> br_to_local b \<noteq> [] then Inr b
      else case r of
          Got bs \<Rightarrow> Inr (b\<lparr>br_to_local := bs, br_channel_read := br_channel_read b @ bs\<rparr>)
        | Later \<Rightarrow> Inr b
        | AtEnd \<Rightarrow> Inr (b\<lparr>br_remote_eof := True\<rparr>)
        | Broken \<Rightarrow> Inl b)"

definition write_socket :: "writing \<Rightarrow> bridge \<Rightarrow> bridge + bridge" where
  "write_socket w b =
     (if br_to_local b = [] then Inr b
      else case w of
          Wrote n \<Rightarrow> (if n = 0 then Inl b
              else Inr (b\<lparr>br_socket_written := br_socket_written b @ take n (br_to_local b),
                br_to_local := drop n (br_to_local b)\<rparr>))
        | WriteLater \<Rightarrow> Inr b
        | WriteBroken \<Rightarrow> Inl b)"

definition bridge_turn :: "turn_input \<Rightarrow> bridge \<Rightarrow> bridge + bridge" where
  "bridge_turn c b =
     rbind (read_socket (oc_socket_read c) b) (\<lambda>b. rbind (write_channel (oc_channel_write c) b) (\<lambda>b.
     rbind (send_eof (oc_send_eof c) b) (\<lambda>b. rbind (read_channel (oc_channel_read c) b) (\<lambda>b.
     rbind (write_socket (oc_socket_write c) b) (\<lambda>b.
       if br_remote_eof b \<and> br_to_local b = [] then Inl b else Inr b)))))"

text \<open>The loop over what the two ends do; a run may stop at any turn.\<close>

fun bridge_run :: "turn_input list \<Rightarrow> bridge \<Rightarrow> bridge" where
  "bridge_run [] b = b"
| "bridge_run (c # cs) b = (case bridge_turn c b of Inl b' \<Rightarrow> b' | Inr b' \<Rightarrow> bridge_run cs b')"

definition conserves :: "bridge \<Rightarrow> bool" where
  "conserves b \<longleftrightarrow> br_socket_read b = br_channel_written b @ br_to_remote b
     \<and> br_channel_read b = br_socket_written b @ br_to_local b
     \<and> (br_eof_sent b \<longrightarrow> br_client_eof b \<and> br_to_remote b = [])"

definition conserved :: "bridge + bridge \<Rightarrow> bool" where
  "conserved r \<longleftrightarrow> (case r of Inl b \<Rightarrow> conserves b | Inr b \<Rightarrow> conserves b)"

lemma conserved_bind: "conserved r \<Longrightarrow> (\<And>b. conserves b \<Longrightarrow> conserved (f b)) \<Longrightarrow> conserved (rbind r f)"
  by (cases r) (simp_all add: conserved_def)

lemma conserved_simps [simp]: "conserved (Inl b) = conserves b" "conserved (Inr b) = conserves b"
  by (simp_all add: conserved_def)

lemma step_conserves:
  assumes "conserves b"
  shows "conserved (read_socket r b)" "conserved (write_channel w b)" "conserved (send_eof e b)"
    "conserved (read_channel r b)" "conserved (write_socket w b)"
proof -
  show "conserved (read_socket r b)"
    using assms by (cases r) (auto simp: read_socket_def conserves_def)
  show "conserved (write_channel w b)"
    using assms by (cases w) (simp_all add: write_channel_def conserves_def)
  have "br_client_eof b \<Longrightarrow> br_to_remote b = [] \<Longrightarrow> conserves (b\<lparr>br_eof_sent := True\<rparr>)"
    using assms by (cases b) (simp add: conserves_def)
  then show "conserved (send_eof e b)"
    using assms unfolding send_eof_def by (cases e) (simp_all only: conserved_simps ending.simps if_split, blast+)
  show "conserved (read_channel r b)"
    using assms by (cases r) (simp_all add: read_channel_def conserves_def)
  show "conserved (write_socket w b)"
    using assms by (cases w) (simp_all add: write_socket_def conserves_def)
qed

lemma bridge_turn_conserves: "conserves b \<Longrightarrow> conserved (bridge_turn c b)"
  unfolding bridge_turn_def
  by (intro conserved_bind step_conserves) (simp_all add: conserved_def)

lemma bridge_run_conserves: "conserves b \<Longrightarrow> conserves (bridge_run cs b)"
proof (induction cs arbitrary: b)
  case (Cons c cs)
  then show ?case using bridge_turn_conserves [of b c] by (auto simp: conserved_def split: sum.split)
qed simp

text \<open>C27: A bridge loses, repeats and reorders nothing: at every moment what it wrote to the channel is a prefix of
  what it read from the socket and the rest is still pending, the same holds in the other direction, and the end
  of the stream is announced only when everything was forwarded.\<close>

theorem bridge_conserves:
  "br_socket_read (bridge_run cs new_bridge) = br_channel_written (bridge_run cs new_bridge) @ br_to_remote (bridge_run cs new_bridge)
    \<and> br_channel_read (bridge_run cs new_bridge) = br_socket_written (bridge_run cs new_bridge) @ br_to_local (bridge_run cs new_bridge)
    \<and> (br_eof_sent (bridge_run cs new_bridge) \<longrightarrow> br_channel_written (bridge_run cs new_bridge) = br_socket_read (bridge_run cs new_bridge))"
  using bridge_run_conserves [of new_bridge cs] by (auto simp: conserves_def new_bridge_def)

theorem bridge_conserves_witness:
  "br_eof_sent (bridge_run [\<lparr>oc_socket_read = Got [1, 2], oc_channel_write = Wrote 1, oc_send_eof = Ended, oc_channel_read = Later,
       oc_socket_write = WriteLater\<rparr>, \<lparr>oc_socket_read = AtEnd, oc_channel_write = Wrote 1, oc_send_eof = Ended, oc_channel_read = Later,
       oc_socket_write = WriteLater\<rparr>, \<lparr>oc_socket_read = AtEnd, oc_channel_write = Wrote 1, oc_send_eof = Ended, oc_channel_read = Later,
       oc_socket_write = WriteLater\<rparr>] new_bridge)
    \<and> br_channel_written (bridge_run [\<lparr>oc_socket_read = Got [1, 2], oc_channel_write = Wrote 1, oc_send_eof = Ended, oc_channel_read = Later,
       oc_socket_write = WriteLater\<rparr>, \<lparr>oc_socket_read = AtEnd, oc_channel_write = Wrote 1, oc_send_eof = Ended, oc_channel_read = Later,
       oc_socket_write = WriteLater\<rparr>, \<lparr>oc_socket_read = AtEnd, oc_channel_write = Wrote 1, oc_send_eof = Ended, oc_channel_read = Later,
       oc_socket_write = WriteLater\<rparr>] new_bridge) = [1, 2]"
  (is "br_eof_sent (bridge_run ?cs new_bridge) \<and> _")
proof -
  have "br_eof_sent (bridge_run ?cs new_bridge)" "br_socket_read (bridge_run ?cs new_bridge) = [1, 2]"
    by (simp_all add: bridge_turn_def read_socket_def write_channel_def send_eof_def read_channel_def write_socket_def new_bridge_def)
  then show ?thesis using bridge_conserves [of ?cs] by simp
qed

section \<open>SOCKS5\<close>

text \<open>Dotted and colon notation of the addresses (\<open>std::net\<close>).\<close>

definition ipv4_text :: "u8 list \<Rightarrow> string" where
  "ipv4_text bs = (case map (\<lambda>b. string_of_nat (unat b)) bs of
     [] \<Rightarrow> [] | p # ps \<Rightarrow> p @ concat (map (\<lambda>q. CHR ''.'' # q) ps))"

fun hex_text :: "nat \<Rightarrow> string" where
  "hex_text n = (if n < 16 then [hex_char n] else hex_text (n div 16) @ [hex_char (n mod 16)])"

declare hex_text.simps [simp del]

fun segments :: "u8 list \<Rightarrow> nat list" where
  "segments (a # b # bs) = (256 * unat a + unat b) # segments bs"
| "segments _ = []"

definition zero_run :: "nat list \<Rightarrow> nat" where
  "zero_run ss = length (takeWhile (\<lambda>s. s = 0) ss)"

text \<open>The first longest run of zeros: its start and its length.\<close>

fun longest_run :: "nat \<Rightarrow> nat list \<Rightarrow> nat \<times> nat" where
  "longest_run i [] = (0, 0)"
| "longest_run i (s # ss) = (let n = zero_run (s # ss); (j, m) = longest_run (i + 1) ss
     in if n \<noteq> 0 \<and> m \<le> n then (i, n) else (j, m))"

definition colons :: "nat list \<Rightarrow> string" where
  "colons ss = (case map hex_text ss of [] \<Rightarrow> [] | p # ps \<Rightarrow> p @ concat (map (\<lambda>q. CHR '':'' # q) ps))"

definition ipv6_text :: "u8 list \<Rightarrow> string" where
  "ipv6_text bs =
     (let ss = segments bs; (i, n) = longest_run 0 ss
      in if take 6 ss = [0, 0, 0, 0, 0, 65535] then ''::ffff:'' @ ipv4_text (drop 12 bs)
         else if 1 < n then colons (take i ss) @ ''::'' @ colons (drop (i + n) ss)
         else colons ss)"

text \<open>The stream is what the client will send; the second result is what was answered.\<close>

definition take_exact :: "nat \<Rightarrow> u8 list \<Rightarrow> app_error + (u8 list \<times> u8 list)" where
  "take_exact n s = (if n \<le> length s then Inr (take n s, drop n s) else Inl Storage)"

definition read_host :: "u8 \<Rightarrow> u8 list \<Rightarrow> app_error + (string \<times> u8 list)" where
  "read_host kind s =
     (if kind = 1 then rbind (take_exact 4 s) (\<lambda>(bs, s). Inr (ipv4_text bs, s))
      else if kind = 4 then rbind (take_exact 16 s) (\<lambda>(bs, s). Inr (ipv6_text bs, s))
      else if kind = 3 then rbind (take_exact 1 s) (\<lambda>(n, s). rbind (take_exact (unat (hd n)) s) (\<lambda>(bs, s).
        rbind (ok_or (from_utf8 bs) Remote) (\<lambda>host. Inr (host, s))))
      else Inl Remote)"

definition read_request :: "u8 list \<Rightarrow> app_error + (string \<times> nat)" where
  "read_request s =
     rbind (take_exact 4 s) (\<lambda>(head, s).
     if head ! 0 \<noteq> 5 \<or> head ! 1 \<noteq> 1 then Inl Remote
     else rbind (read_host (head ! 3) s) (\<lambda>(host, s). rbind (take_exact 2 s) (\<lambda>(port, _).
       Inr (host, 256 * unat (port ! 0) + unat (port ! 1)))))"

definition read_socks_target :: "u8 list \<Rightarrow> (app_error + (string \<times> nat)) \<times> u8 list" where
  "read_socks_target s =
     (case rbind (take_exact 2 s) (\<lambda>(greeting, s). if greeting ! 0 \<noteq> 5 then Inl Remote
        else rbind (take_exact (unat (greeting ! 1)) s) (\<lambda>(_, s). Inr s)) of
        Inl e \<Rightarrow> (Inl e, [])
      | Inr s \<Rightarrow> (read_request s, [5, 0]))"

text \<open>What a client sends for a host name.\<close>

definition socks_client :: "string \<Rightarrow> nat \<Rightarrow> u8 list \<Rightarrow> u8 list" where
  "socks_client host port methods =
     [5, word_of_nat (length methods)] @ methods @ [5, 1, 0, 3, word_of_nat (length host)] @ bytes_of host
       @ [word_of_nat (port div 256), word_of_nat (port mod 256)]"

lemma from_utf8_bytes: "utf8_valid (map of_char s) \<Longrightarrow> from_utf8 (bytes_of s) = Some s"
proof -
  have "map unat (bytes_of s) = map of_char s"
    using nat_of_char_less_256 by (simp add: bytes_of_def unat_of_nat)
  then show "utf8_valid (map of_char s) \<Longrightarrow> ?thesis" by (simp add: from_utf8_def)
qed

text \<open>The request of a SOCKS5 client for a host name of at most 255 bytes is understood as exactly that host and
  port, whatever authentication methods it offers, and the answer selects no authentication.\<close>

theorem socks_roundtrip:
  assumes "length host < 256" "utf8_valid (map of_char host)" "port < 65536" "length methods < 256"
  shows "read_socks_target (socks_client host port methods) = (Inr (host, port), [5, 0])"
proof -
  have port: "256 * unat (word_of_nat (port div 256) :: u8) + unat (word_of_nat (port mod 256) :: u8) = port"
    using assms(3) by (simp add: unat_of_nat)
  have "unat (word_of_nat (length host) :: u8) = length host" "unat (word_of_nat (length methods) :: u8) = length methods"
    using assms(1,4) by (simp_all add: unat_of_nat)
  then show ?thesis using port from_utf8_bytes [OF assms(2)]
    by (simp add: read_socks_target_def socks_client_def take_exact_def read_request_def read_host_def)
qed

theorem socks_roundtrip_witness:
  "read_socks_target (socks_client ''db.local'' 5432 [0, 2]) = (Inr (''db.local'', 5432), [5, 0])"
  by (rule socks_roundtrip) (simp, code_simp, simp, simp)

lemma address_texts:
  "ipv4_text [127, 0, 0, 1] = ''127.0.0.1''"
  "ipv6_text [0, 0, 0, 0, 0, 0, 0, 0, 0, 0, 0, 0, 0, 0, 0, 1] = ''::1''"
  "ipv6_text [32, 1, 13, 184, 0, 0, 0, 0, 0, 1, 0, 0, 0, 0, 0, 1] = ''2001:db8::1:0:0:1''"
  by ((simp add: ipv4_text_def ipv6_text_def string_of_nat.simps Let_def zero_run_def colons_def hex_text.simps hex_char_def;
    code_simp)+)

end
