(* ===== verification/McpPolicy.thy ===== *)
theory McpPolicy
  imports DeskText
begin

text \<open>
  The decisions of the MCP broker (\<open>mcp.rs\<close>) that need no state: which requests are well-formed, which remote
  and local paths a grant reaches, how dangerous a command is and which commands a rule may cover, what a client
  is shown of a long answer. Texts are bytes, paths are Unix paths; SHA-256 and the serialisation of answers are
  parameters.
\<close>

section \<open>Tools and requests\<close>

definition READ_TOOLS :: "string list" where
  "READ_TOOLS = [''cnshell_list_connections'', ''cnshell_open_session'', ''cnshell_close_session'',
     ''cnshell_file_list'', ''cnshell_file_read'', ''cnshell_system_info'']"

definition WRITE_TOOLS :: "string list" where
  "WRITE_TOOLS = [''cnshell_run_command'', ''cnshell_file_write'', ''cnshell_file_mkdir'', ''cnshell_file_rename'',
     ''cnshell_file_delete'', ''cnshell_file_upload'', ''cnshell_file_download'']"

definition known_tool :: "string \<Rightarrow> bool" where
  "known_tool tool \<longleftrightarrow> tool \<in> set READ_TOOLS \<or> tool \<in> set WRITE_TOOLS"

definition known_broker_operation :: "string \<Rightarrow> bool" where
  "known_broker_operation operation \<longleftrightarrow> known_tool operation \<or> operation = ''resource:connections''
     \<or> operation = ''resource:audit-recent''"

record broker_request =
  rq_protocol_version :: nat
  rq_generation :: string
  rq_broker_token :: string
  rq_client_id :: string
  rq_client_secret :: string
  rq_client_name :: string
  rq_executable_path :: "string option"
  rq_executable_sha256 :: "string option"
  rq_request_id :: string
  rq_tool :: string

definition MAX_BROKER_MESSAGE_BYTES :: nat where
  "MAX_BROKER_MESSAGE_BYTES = 1024 * 1024"

definition constant_time_equal :: "string \<Rightarrow> string \<Rightarrow> bool" where
  "constant_time_equal left right \<longleftrightarrow> length left = length right \<and> list_all2 (=) left right"

definition validate_broker_request :: "string \<Rightarrow> string \<Rightarrow> broker_request \<Rightarrow> unit app_result" where
  "validate_broker_request generation broker_token rq =
     (if rq_protocol_version rq \<noteq> 1 \<or> rq_generation rq \<noteq> generation
         \<or> rq_request_id rq = [] \<or> 128 < length (rq_request_id rq)
         \<or> rq_client_id rq = [] \<or> 128 < length (rq_client_id rq)
         \<or> rq_client_name rq = [] \<or> 128 < length (rq_client_name rq)
         \<or> 128 < length (rq_tool rq) \<or> \<not> known_broker_operation (rq_tool rq)
      then Inl Validation
      else if \<not> constant_time_equal (rq_broker_token rq) broker_token then Inl PermissionDenied
      else Inr ())"

text \<open>The size a frame announces, before its body is read.\<close>

definition accept_frame :: "nat \<Rightarrow> unit app_result" where
  "accept_frame len = (if len = 0 \<or> MAX_BROKER_MESSAGE_BYTES < len then Inl Validation else Inr ())"

fun app_error_code :: "app_error \<Rightarrow> string" where
  "app_error_code NotFound = ''not_found''"
| "app_error_code Validation = ''invalid_params''"
| "app_error_code (HostKeyUnknown _ _) = ''host_key_unknown''"
| "app_error_code (HostKeyChanged _ _) = ''host_key_changed''"
| "app_error_code Authentication = ''authentication''"
| "app_error_code PermissionDenied = ''permission_denied''"
| "app_error_code Remote = ''remote''"
| "app_error_code Storage = ''storage''"
| "app_error_code Unavailable = ''unavailable''"
| "app_error_code Internal = ''internal''"

lemma constant_time_equal_iff [simp]: "constant_time_equal a b \<longleftrightarrow> a = b"
  by (auto simp: constant_time_equal_def list.rel_eq)

lemma validate_broker_request_iff: "validate_broker_request g t rq = Inr () \<longleftrightarrow>
    rq_protocol_version rq = 1 \<and> rq_generation rq = g \<and> rq_broker_token rq = t
    \<and> length (rq_request_id rq) \<in> {1..128} \<and> length (rq_client_id rq) \<in> {1..128}
    \<and> length (rq_client_name rq) \<in> {1..128} \<and> length (rq_tool rq) \<le> 128 \<and> known_broker_operation (rq_tool rq)"
  by (auto simp: validate_broker_request_def Suc_le_eq not_less)

section \<open>Digests\<close>

definition is_hexdigit :: "char \<Rightarrow> bool" where
  "is_hexdigit c \<longleftrightarrow> hex_value c \<noteq> None"

definition valid_sha256_digest :: "string \<Rightarrow> bool" where
  "valid_sha256_digest v \<longleftrightarrow> length v = 71 \<and> starts_with ''sha256:'' v \<and> list_all is_hexdigit (drop 7 v)"

definition cleanup_sidecar_digest_is_trusted :: "string \<Rightarrow> string \<Rightarrow> string \<Rightarrow> bool" where
  "cleanup_sidecar_digest_is_trusted registered current bundled \<longleftrightarrow>
     valid_sha256_digest registered \<and> valid_sha256_digest current \<and> valid_sha256_digest bundled
     \<and> constant_time_equal current bundled"

text \<open>\<open>sha\<close> gives the 64 hexadecimal digits of SHA-256.\<close>

definition command_summary :: "(string \<Rightarrow> string) \<Rightarrow> string \<Rightarrow> string" where
  "command_summary sha command = ''command:sha256:'' @ sha command"

definition path_summary :: "(string \<Rightarrow> string) \<Rightarrow> string \<Rightarrow> string" where
  "path_summary sha path =
     (let name = (case components path of [] \<Rightarrow> ''/'' | cs \<Rightarrow> if last cs = ''..'' then ''/'' else last cs)
      in ''path:'' @ name @ '':sha256:'' @ sha path)"

section \<open>Remote paths\<close>

text \<open>
  \<open>Path::components\<close> of an absolute Unix path gives the root, then the parts that are neither empty nor a dot, where
  \<open>..\<close> is a component of its own kind.
\<close>

definition normalize_remote_path :: "string \<Rightarrow> string app_result" where
  "normalize_remote_path path =
     (if path = [] \<or> 32 * 1024 < length path \<or> CHR 0x00 \<in> set path \<or> \<not> starts_with ''/'' path then Inl Validation
      else if ''..'' \<in> set (components path) then Inl Validation
      else Inr (path_of (components path)))"

definition remote_path_is_within :: "string \<Rightarrow> string \<Rightarrow> bool" where
  "remote_path_is_within path root \<longleftrightarrow> root = ''/'' \<or> path = root
     \<or> (case strip_prefix root path of Some rest \<Rightarrow> starts_with ''/'' rest | None \<Rightarrow> False)"

lemma components_not_Nil: "c \<in> set (components p) \<Longrightarrow> c \<noteq> [] \<and> c \<noteq> ''.''"
  by (simp add: components_def)

lemma split_on_no_sep: "c \<in> set (split_on d s) \<Longrightarrow> d \<notin> set c"
  by (induction s arbitrary: c rule: split_on.induct) (auto split: if_splits list.splits)

lemma components_no_slash: "c \<in> set (components p) \<Longrightarrow> CHR ''/'' \<notin> set c"
  by (auto simp: components_def dest: split_on_no_sep)

lemma split_on_absent: "d \<notin> set s \<Longrightarrow> split_on d s = [s]"
  by (induction s) auto

lemma split_on_append_sep: "d \<notin> set a \<Longrightarrow> split_on d (a @ d # b) = a # split_on d b"
  by (induction a) auto

lemma split_on_slashes:
  assumes "\<forall>c \<in> set cs. CHR ''/'' \<notin> set c" "cs \<noteq> []"
  shows "split_on (CHR ''/'') (concat (map (\<lambda>c. CHR ''/'' # c) cs)) = [] # cs"
  using assms
proof (induction cs)
  case (Cons c cs)
  show ?case
  proof (cases cs)
    case Nil
    then show ?thesis using Cons.prems by (simp add: split_on_absent)
  next
    case (Cons c' cs')
    then have "split_on (CHR ''/'') (concat (map (\<lambda>c. CHR ''/'' # c) cs)) = [] # cs" using Cons.IH Cons.prems by simp
    then have "split_on (CHR ''/'') (c' @ concat (map (\<lambda>c. CHR ''/'' # c) cs')) = cs"
      using Cons by simp
    then show ?thesis using Cons.prems Cons by (simp add: split_on_append_sep)
  qed
qed simp

lemma components_path_of:
  "(\<And>c. c \<in> set cs \<Longrightarrow> c \<noteq> [] \<and> c \<noteq> ''.'' \<and> CHR ''/'' \<notin> set c) \<Longrightarrow> components (path_of cs) = cs"
proof (cases "cs = []")
  case True
  then show ?thesis by (simp add: components_def path_of_def)
next
  case False
  assume a: "\<And>c. c \<in> set cs \<Longrightarrow> c \<noteq> [] \<and> c \<noteq> ''.'' \<and> CHR ''/'' \<notin> set c"
  then have "split_on (CHR ''/'') (path_of cs) = [] # cs" using False by (simp add: path_of_def split_on_slashes)
  then show ?thesis using a by (simp add: components_def)
qed

lemma normalize_remote_path_Inr:
  assumes "normalize_remote_path p = Inr q"
  shows "q = path_of (components p) \<and> components q = components p \<and> ''..'' \<notin> set (components q)
    \<and> starts_with ''/'' q \<and> CHR 0x00 \<notin> set p"
proof -
  have q: "q = path_of (components p)" "''..'' \<notin> set (components p)" "CHR 0x00 \<notin> set p"
    using assms by (auto simp: normalize_remote_path_def split: if_splits)
  moreover have "components (path_of (components p)) = components p"
    by (rule components_path_of) (auto dest: components_not_Nil components_no_slash)
  moreover have "starts_with ''/'' (path_of cs)" for cs
    by (cases cs) (simp_all add: starts_with_def path_of_def)
  ultimately show ?thesis by simp
qed

lemma split_on_append: "split_on d (a @ d # b) = split_on d a @ split_on d b"
proof (induction a)
  case (Cons c a)
  then show ?case by (cases "split_on d a") auto
qed simp

lemma components_append: "components (a @ CHR ''/'' # b) = components a @ components b"
  by (simp add: components_def split_on_append)

lemma path_of_append: "ds \<noteq> [] \<Longrightarrow> path_of (ds @ es) = path_of ds @ concat (map (\<lambda>c. CHR ''/'' # c) es)"
  by (simp add: path_of_def)

lemma starts_with_iff: "starts_with p s \<longleftrightarrow> (\<exists>t. s = p @ t)"
  unfolding starts_with_def by (metis append_eq_conv_conj append_take_drop_id)

definition plain_components :: "string list \<Rightarrow> bool" where
  "plain_components cs \<longleftrightarrow> (\<forall>c \<in> set cs. c \<noteq> [] \<and> c \<noteq> ''.'' \<and> CHR ''/'' \<notin> set c)"

lemma plain_components: "plain_components (components p)"
  unfolding plain_components_def by (blast dest: components_not_Nil components_no_slash)

lemma components_path_of_plain [simp]: "plain_components cs \<Longrightarrow> components (path_of cs) = cs"
  by (rule components_path_of) (auto simp: plain_components_def)

lemma within_iff: "remote_path_is_within p r \<longleftrightarrow> r = ''/'' \<or> p = r \<or> (\<exists>rest. p = r @ CHR ''/'' # rest)"
proof (cases "strip_prefix r p")
  case None
  then have "p \<noteq> r @ rest" for rest using strip_prefix_Some_iff [of r p rest] by simp
  then show ?thesis using None by (simp add: remote_path_is_within_def)
next
  case (Some t)
  then have "p = r @ t" using strip_prefix_Some_iff [of r p t] by simp
  then show ?thesis using Some by (simp add: remote_path_is_within_def starts_with_iff)
qed

lemma within_path_of:
  assumes "plain_components cs" "plain_components ds"
  shows "remote_path_is_within (path_of cs) (path_of ds) \<longleftrightarrow> prefix ds cs"
proof
  assume w: "remote_path_is_within (path_of cs) (path_of ds)"
  consider "path_of ds = ''/''" | "path_of cs = path_of ds"
    | rest where "path_of cs = path_of ds @ CHR ''/'' # rest"
    using w unfolding within_iff by blast
  then show "prefix ds cs"
  proof cases
    case 1
    have "ds = components ''/''" using components_path_of_plain [OF assms(2)] unfolding 1 by (rule sym)
    also have "\<dots> = []" by (simp add: components_def)
    finally show ?thesis by simp
  next
    case 2
    have "cs = ds" using components_path_of_plain [OF assms(1)] components_path_of_plain [OF assms(2)] unfolding 2 by (rule HOL.trans [OF sym])
    then show ?thesis by simp
  next
    case 3
    have "cs = components (path_of ds) @ components rest"
      using components_path_of_plain [OF assms(1)] unfolding 3 components_append by (rule sym)
    also have "components (path_of ds) = ds" using assms(2) by (rule components_path_of_plain)
    finally show ?thesis by simp
  qed
next
  assume "prefix ds cs"
  then obtain es where es: "cs = ds @ es" by (auto simp: prefix_def)
  show "remote_path_is_within (path_of cs) (path_of ds)"
  proof (cases "ds = []")
    case True
    then show ?thesis by (simp add: remote_path_is_within_def path_of_def)
  next
    case False
    then have p: "path_of cs = path_of ds @ concat (map (\<lambda>c. CHR ''/'' # c) es)" using es by (simp add: path_of_append)
    show ?thesis
    proof (cases es)
      case Nil
      then show ?thesis using es by (simp add: remote_path_is_within_def)
    next
      case (Cons e es')
      then show ?thesis using p by (simp add: remote_path_is_within_def strip_prefix_def starts_with_def)
    qed
  qed
qed

lemma sum_split_on: "sum_list (map (\<lambda>c. Suc (length c)) (split_on d s)) = Suc (length s)"
  by (induction s) (auto split: list.splits)

lemma sum_filter_le: "sum_list (map f (filter P xs)) \<le> (sum_list (map f xs) :: nat)"
  by (induction xs) auto

lemma length_path_of_sum: "length (path_of cs) \<le> max 1 (sum_list (map (\<lambda>c. Suc (length c)) cs))"
  by (simp add: path_of_def length_concat comp_def)

lemma length_path_of:
  assumes "starts_with ''/'' p"
  shows "length (path_of (components p)) \<le> length p"
proof -
  obtain t where p: "p = CHR ''/'' # t" using assms unfolding starts_with_iff by (metis append_Cons append_Nil)
  have "components p = components t" using components_append [of "[]" t] unfolding p by (simp add: components_def)
  moreover have "sum_list (map (\<lambda>c. Suc (length c)) (components t)) \<le> Suc (length t)"
    unfolding components_def by (metis sum_filter_le sum_split_on)
  ultimately have "length (path_of (components p)) \<le> Suc (length t)"
    using length_path_of_sum [of "components t"] by simp
  then show ?thesis unfolding p by simp
qed

lemma set_split_on: "c \<in> set (split_on d s) \<Longrightarrow> set c \<subseteq> set s"
proof (induction s arbitrary: c)
  case (Cons a s)
  show ?case
  proof (cases "split_on d s")
    case Nil
    then show ?thesis by simp
  next
    case (Cons p ps)
    then show ?thesis using Cons.prems Cons.IH [of p] Cons.IH [of c] by (auto split: if_splits)
  qed
qed simp

lemma normalize_twice:
  assumes "normalize_remote_path p = Inr q"
  shows "normalize_remote_path q = Inr q"
proof -
  have n: "q = path_of (components p)" "components q = components p" "''..'' \<notin> set (components q)" "starts_with ''/'' q"
    "CHR 0x00 \<notin> set p"
    using normalize_remote_path_Inr [OF assms] by blast+
  have "length p \<le> 32 * 1024" "starts_with ''/'' p" using assms by (auto simp: normalize_remote_path_def split: if_splits)
  then have "length q \<le> 32 * 1024" using length_path_of [of p] n(1) by simp
  moreover have "CHR 0x00 \<notin> set c" if "c \<in> set (components p)" for c
    using that n(5) set_split_on [of c "CHR ''/''" p] by (auto simp: components_def)
  then have "CHR 0x00 \<notin> set (path_of (components p))" by (auto simp: path_of_def)
  then have "CHR 0x00 \<notin> set q" using n(1) by simp
  moreover have "q \<noteq> []" using n(4) by (auto simp: starts_with_iff)
  moreover have "path_of (components q) = q" using n(1,2) by simp
  ultimately show ?thesis using n(3,4) by (simp add: normalize_remote_path_def)
qed

section \<open>Local paths\<close>

text \<open>
  An absolute path of the local file system is the list of its components. \<open>lf_meta\<close> is \<open>symlink_metadata\<close>,
  \<open>lf_exists\<close> follows links, \<open>lf_canonical\<close> is \<open>canonicalize\<close>.
\<close>

datatype local_kind = LocalFile | LocalDir | LocalLink | LocalOther

record local_fs =
  lf_meta :: "string list \<Rightarrow> local_kind option"
  lf_exists :: "string list \<Rightarrow> bool"
  lf_canonical :: "string list \<Rightarrow> string list option"

fun reject_local_link_components :: "local_fs \<Rightarrow> string list \<Rightarrow> string list \<Rightarrow> unit app_result" where
  "reject_local_link_components fs current [] = Inr ()"
| "reject_local_link_components fs current (c # cs) =
     (case lf_meta fs (current @ [c]) of None \<Rightarrow> Inl Storage
      | Some LocalLink \<Rightarrow> Inl PermissionDenied
      | Some _ \<Rightarrow> reject_local_link_components fs (current @ [c]) cs)"

definition resolve_local_grant_path :: "local_fs \<Rightarrow> string list \<Rightarrow> string \<Rightarrow> bool \<Rightarrow> string list app_result" where
  "resolve_local_grant_path fs root relative for_download =
     rbind (guard (length relative \<le> 16 * 1024 \<and> CHR 0x00 \<notin> set relative \<and> \<not> starts_with ''/'' relative) Validation) (\<lambda>_.
     (let cs = components relative in
      rbind (guard (''..'' \<notin> set cs) Validation) (\<lambda>_.
      rbind (ok_or (lf_meta fs root) Storage) (\<lambda>kind.
      if kind = LocalFile then (if for_download \<or> cs \<noteq> [] then Inl Validation else Inr root)
      else rbind (guard (kind = LocalDir) PermissionDenied) (\<lambda>_.
        rbind (ok_or (lf_canonical fs root) Storage) (\<lambda>canonical_root.
        (let candidate = root @ cs; found = lf_exists fs candidate in
         rbind (if found then ok_or (lf_canonical fs candidate) Storage
                else if candidate = [] then Inl Validation else ok_or (lf_canonical fs (butlast candidate)) Storage) (\<lambda>boundary.
         rbind (guard (prefix canonical_root boundary) PermissionDenied) (\<lambda>_.
         rbind (if found then reject_local_link_components fs root cs
                else if prefix root (butlast candidate) then reject_local_link_components fs root (butlast cs) else Inl PermissionDenied) (\<lambda>_.
         rbind (guard (for_download \<or> found) NotFound) (\<lambda>_. Inr candidate)))))))))))"

lemma no_links: "reject_local_link_components fs current cs = Inr () \<Longrightarrow> ds \<noteq> [] \<Longrightarrow> prefix ds cs
    \<Longrightarrow> \<exists>kind. lf_meta fs (current @ ds) = Some kind \<and> kind \<noteq> LocalLink"
proof (induction cs arbitrary: current ds)
  case (Cons c cs)
  obtain ds' where ds: "ds = c # ds'" "prefix ds' cs" using Cons.prems(2,3) by (cases ds) auto
  obtain kind where k: "lf_meta fs (current @ [c]) = Some kind" "kind \<noteq> LocalLink"
      "reject_local_link_components fs (current @ [c]) cs = Inr ()"
    using Cons.prems(1) by (auto split: option.splits local_kind.splits)
  show ?case
  proof (cases "ds' = []")
    case True
    then show ?thesis using k ds by simp
  next
    case False
    then show ?thesis using Cons.IH [OF k(3) False ds(2)] ds by simp
  qed
qed simp

definition validate_conflict_policy :: "string \<Rightarrow> unit app_result" where
  "validate_conflict_policy v = guard (v \<in> set [''overwrite'', ''skip'', ''rename'']) Validation"

section \<open>Commands\<close>

fun str_contains :: "string \<Rightarrow> string \<Rightarrow> bool" where
  "str_contains pat [] = (pat = [])"
| "str_contains pat (c # cs) = (starts_with pat (c # cs) \<or> str_contains pat cs)"

definition ascii_alphanumeric :: "char \<Rightarrow> bool" where
  "ascii_alphanumeric c \<longleftrightarrow> (CHR ''0'' \<le> c \<and> c \<le> CHR ''9'') \<or> (CHR ''A'' \<le> c \<and> c \<le> CHR ''Z'') \<or> (CHR ''a'' \<le> c \<and> c \<le> CHR ''z'')"

definition can_save_command_rule :: "string \<Rightarrow> bool" where
  "can_save_command_rule command \<longleftrightarrow> command = str_trim command \<and>
     (command \<in> set [''pwd'', ''whoami'', ''id'', ''uptime'', ''date'', ''uname -a'', ''uname -r'', ''uname -s'']
      \<or> (case strip_prefix ''printf '' command of None \<Rightarrow> False
         | Some v \<Rightarrow> v \<noteq> [] \<and> list_all (\<lambda>c. ascii_alphanumeric c \<or> c \<in> set ''._-:/=+'') v))"

definition high_risk_patterns :: "string list" where
  "high_risk_patterns = [''rm -rf'', ''sudo '', '' su '', ''shutdown'', ''reboot'', ''mkfs'', ''iptables'', ''nft '', ''curl '',
     ''wget '', ''| sh'', ''| bash'', ''userdel'', ''chmod -r'', ''chown -r'']"

definition command_risk :: "string \<Rightarrow> string" where
  "command_risk command =
     (if list_ex (\<lambda>pat. str_contains pat (to_ascii_lowercase command)) high_risk_patterns then ''high''
      else if can_save_command_rule command then ''low'' else ''medium'')"

text \<open>A command that a rule may cover has no character that a shell treats specially.\<close>

lemma saved_commands_plain:
  "can_save_command_rule command \<Longrightarrow> c \<in> set command \<Longrightarrow> ascii_alphanumeric c \<or> c \<in> set '' ._-:/=+''"
proof -
  assume a: "can_save_command_rule command" "c \<in> set command"
  let ?ok = "\<lambda>c. ascii_alphanumeric c \<or> c \<in> set '' ._-:/=+''"
  let ?ws = "[''pwd'', ''whoami'', ''id'', ''uptime'', ''date'', ''uname -a'', ''uname -r'', ''uname -s'']"
  have "list_all (list_all ?ok) ?ws" by code_simp
  then have fixed: "list_all ?ok w" if "w \<in> set ?ws" for w using that unfolding list_all_iff [of "list_all ?ok"] by (rule bspec)
  have printf: "list_all ?ok ''printf ''" by code_simp
  show ?thesis
  proof (cases "strip_prefix ''printf '' command")
    case None
    then have "command \<in> set ?ws"
      using a(1) by (simp add: can_save_command_rule_def)
    then have "list_all ?ok command" by (rule fixed)
    then show ?thesis using a(2) by (simp add: list_all_iff)
  next
    case (Some v)
    then have split: "command = ''printf '' @ v" using strip_prefix_Some_iff by metis
    consider "command \<in> set ?ws"
      | "list_all (\<lambda>c. ascii_alphanumeric c \<or> c \<in> set ''._-:/=+'') v"
      using a(1) Some by (auto simp only: can_save_command_rule_def option.case)
    then show ?thesis
    proof cases
      case 1
      then have "list_all ?ok command" by (rule fixed)
      then show ?thesis using a(2) by (simp add: list_all_iff)
    next
      case 2
      then have "list_all ?ok v" by (rule list.pred_mono_strong) auto
      then have "list_all ?ok (''printf '' @ v)" using printf by (simp only: list_all_append)
      then have "list_all ?ok command" by (simp only: split)
      then show ?thesis using a(2) by (simp add: list_all_iff)
    qed
  qed
qed

section \<open>What a client is shown\<close>

fun floor_boundary :: "string \<Rightarrow> nat \<Rightarrow> nat" where
  "floor_boundary v 0 = 0"
| "floor_boundary v (Suc n) = (if length v = Suc n \<or> (Suc n < length v \<and> \<not> is_continuation (v ! Suc n)) then Suc n
     else floor_boundary v n)"

text \<open>The two parts of the note around the number of bytes shown, in UTF-8.\<close>

definition cut_note :: "nat \<Rightarrow> string" where
  "cut_note n = map char_of [10 :: nat, 226, 128, 166, 229, 134, 133, 229, 174, 185, 229, 183, 178, 230, 136, 170, 230, 150, 173,
       239, 188, 140, 228, 187, 133, 229, 177, 149, 231, 164, 186, 229, 137, 141, 32] @ string_of_nat n
     @ map char_of [32 :: nat, 229, 173, 151, 232, 138, 130]"

definition bounded_preview :: "string \<Rightarrow> nat \<Rightarrow> string" where
  "bounded_preview v limit = (if length v \<le> limit then v
     else (let n = floor_boundary v limit in take n v @ cut_note n))"

fun join_lines :: "string list \<Rightarrow> string" where
  "join_lines [] = []"
| "join_lines [l] = l"
| "join_lines (l # ls) = l @ [CHR 0x0A] @ join_lines ls"

definition prefixed_preview_lines :: "string \<Rightarrow> string \<Rightarrow> string" where
  "prefixed_preview_lines v p = join_lines (map (\<lambda>l. p @ l) (str_lines v))"

definition encode_cursor :: "nat \<Rightarrow> string" where
  "encode_cursor offset = ''offset:'' @ string_of_nat offset"

definition decode_cursor :: "string option \<Rightarrow> nat app_result" where
  "decode_cursor cursor = (case cursor of None \<Rightarrow> Inr 0
     | Some v \<Rightarrow> (case strip_prefix ''offset:'' v of None \<Rightarrow> Inl Validation
        | Some n \<Rightarrow> (case parse_unsigned (2 ^ 64 - 1) n of None \<Rightarrow> Inl Validation
           | Some n \<Rightarrow> if n \<le> 1000000 then Inr n else Inl Validation)))"

text \<open>
  A page of a directory: \<open>encoded_len\<close> is the length of the answer that has these entries and this cursor. The
  page loses entries at its end until the answer fits.
\<close>

definition next_cursor :: "nat \<Rightarrow> nat \<Rightarrow> string option" where
  "next_cursor next_offset all_entries = (if next_offset < all_entries then Some (encode_cursor next_offset) else None)"

function bounded_file_list_response ::
    "('e list \<Rightarrow> string option \<Rightarrow> nat) \<Rightarrow> 'e list \<Rightarrow> nat \<Rightarrow> nat \<Rightarrow> ('e list \<times> string option) app_result" where
  "bounded_file_list_response encoded_len entries offset all_entries =
     (let cursor = next_cursor (min (offset + length entries) (2 ^ 64 - 1)) all_entries in
      if encoded_len entries cursor \<le> 512 * 1024 then Inr (entries, cursor)
      else if length entries \<le> 1 then Inl Validation
      else bounded_file_list_response encoded_len (butlast entries) offset all_entries)"
  by pat_completeness auto
termination
  by (relation "measure (\<lambda>(_, entries, _, _). length entries)") auto

declare bounded_file_list_response.simps [simp del]

text \<open>\<open>list_connections\<close> and \<open>file_list\<close> take their page of the listing the same way.\<close>

definition page :: "nat \<Rightarrow> nat \<Rightarrow> 'a list \<Rightarrow> 'a list" where
  "page offset limit xs = take limit (drop offset xs)"

lemma decode_encode_cursor: "n \<le> 1000000 \<Longrightarrow> decode_cursor (Some (encode_cursor n)) = Inr n"
  by (simp add: decode_cursor_def encode_cursor_def strip_prefix_def parse_unsigned_string_of_nat)

lemma floor_boundary_le: "floor_boundary v n \<le> n"
  by (induction n) auto

lemma bounded_file_list_response_page:
  "bounded_file_list_response encoded_len entries offset all_entries = Inr (shown, cursor) \<Longrightarrow>
    prefix shown entries \<and> encoded_len shown cursor \<le> 512 * 1024
    \<and> cursor = next_cursor (min (offset + length shown) (2 ^ 64 - 1)) all_entries \<and> (entries \<noteq> [] \<longrightarrow> shown \<noteq> [])"
proof (induction encoded_len entries offset all_entries rule: bounded_file_list_response.induct)
  case (1 encoded_len entries offset all_entries)
  let ?c = "next_cursor (min (offset + length entries) (2 ^ 64 - 1)) all_entries"
  show ?case
  proof (cases "encoded_len entries ?c \<le> 512 * 1024")
    case True
    then show ?thesis using 1(2) by (subst (asm) bounded_file_list_response.simps) (auto simp: Let_def)
  next
    case False
    then have long: "\<not> length entries \<le> 1" "bounded_file_list_response encoded_len (butlast entries) offset all_entries = Inr (shown, cursor)"
      using 1(2) by (subst (asm) bounded_file_list_response.simps, simp add: Let_def split: if_splits)+
    then have "butlast entries \<noteq> []" by (cases entries rule: rev_cases) auto
    moreover have "prefix (butlast entries) entries" by (rule prefixeq_butlast)
    ultimately show ?thesis using 1(1) [OF refl False long(1) long(2)] prefix_order.trans by auto
  qed
qed

section \<open>System information\<close>

definition SYSTEM_INFO_FIELDS :: "string list" where
  "SYSTEM_INFO_FIELDS = [''os'', ''cpu'', ''memory'', ''load'', ''disks'', ''network'']"

definition field_keys :: "string \<Rightarrow> string list" where
  "field_keys f =
     (if f = ''os'' then [''hostname'', ''os'', ''kernel'', ''architecture'']
      else if f = ''cpu'' then [''cpuModel'', ''cpuCores'']
      else if f = ''memory'' then [''memoryUsedBytes'', ''memoryTotalBytes'', ''swapUsedBytes'', ''swapTotalBytes'']
      else if f = ''load'' then [''uptimeSeconds'', ''load'']
      else if f = ''disks'' then [''disks'']
      else [''interfaces''])"

fun copy_system_info_keys :: "(string \<rightharpoonup> 'v) \<Rightarrow> (string \<rightharpoonup> 'v) \<Rightarrow> string list \<Rightarrow> (string \<rightharpoonup> 'v)" where
  "copy_system_info_keys source target [] = target"
| "copy_system_info_keys source target (k # ks) =
     copy_system_info_keys source (case source k of None \<Rightarrow> target | Some v \<Rightarrow> target(k \<mapsto> v)) ks"

definition select_system_info_fields :: "(string \<rightharpoonup> 'v) \<Rightarrow> string list \<Rightarrow> (string \<rightharpoonup> 'v) app_result" where
  "select_system_info_fields source wanted =
     (if length SYSTEM_INFO_FIELDS < length wanted \<or> \<not> distinct wanted \<or> \<not> set wanted \<subseteq> set SYSTEM_INFO_FIELDS
      then Inl Validation
      else if wanted = [] then Inr source
      else Inr (foldl (\<lambda>target f. copy_system_info_keys source target (field_keys f))
                 (copy_system_info_keys source Map.empty [''collectedAt'']) wanted))"

lemma copy_system_info_keys_eq: "copy_system_info_keys source target ks = target ++ (source |` set ks)"
proof (induction ks arbitrary: target)
  case (Cons k ks)
  have "(case source k of None \<Rightarrow> target | Some v \<Rightarrow> target(k \<mapsto> v)) ++ source |` set ks = target ++ source |` set (k # ks)"
    by (rule ext) (auto simp: map_add_def restrict_map_def split: option.splits)
  then show ?case using Cons.IH by simp
qed (simp add: restrict_map_def)

section \<open>Confinement\<close>

text \<open>C34: For paths as the broker stores and checks them, the comparison of texts decides exactly whether the path lies
  under the root component by component, a normalised path has the components of what the client sent and no parent
  component, and normalising it again changes nothing.\<close>

theorem remote_paths_confined:
  assumes "normalize_remote_path sent = Inr path" "normalize_remote_path granted = Inr root"
  shows "(remote_path_is_within path root \<longleftrightarrow> prefix (components granted) (components sent))
    \<and> components path = components sent \<and> ''..'' \<notin> set (components path) \<and> normalize_remote_path path = Inr path"
proof -
  have p: "path = path_of (components sent)" "components path = components sent" "''..'' \<notin> set (components path)"
    and r: "root = path_of (components granted)"
    using normalize_remote_path_Inr [OF assms(1)] normalize_remote_path_Inr [OF assms(2)] by blast+
  show ?thesis using within_path_of [OF plain_components plain_components, of sent granted] p r normalize_twice [OF assms(1)] by simp
qed

theorem remote_paths_confined_witness:
  "remote_path_is_within ''/srv/x'' ''/srv'' \<and> normalize_remote_path ''/srv//./x'' = Inr ''/srv/x''"
proof -
  have n: "normalize_remote_path ''/srv//./x'' = Inr ''/srv/x''" "normalize_remote_path ''/srv'' = Inr ''/srv''"
    "prefix (components ''/srv'') (components ''/srv//./x'')"
    by (simp_all add: normalize_remote_path_def starts_with_def components_def path_of_def)
  show ?thesis using remote_paths_confined [OF n(1,2)] n(1,3) by simp
qed

text \<open>A relative path that a client gives below a local grant resolves to the granted file itself, or to a path under
  the granted directory without parent components whose canonical place (or that of its directory, when it does not
  exist yet) is under the canonical root, and on the way to which there is no link; a download never resolves to a
  granted file, and an upload only to what exists.\<close>

theorem local_paths_confined:
  assumes "resolve_local_grant_path fs root relative for_download = Inr path"
  shows "(lf_meta fs root = Some LocalFile \<and> path = root \<and> \<not> for_download)
    \<or> (lf_meta fs root = Some LocalDir \<and> (\<exists>cs canonical_root boundary.
         path = root @ cs \<and> cs = components relative \<and> ''..'' \<notin> set cs
         \<and> lf_canonical fs root = Some canonical_root \<and> prefix canonical_root boundary
         \<and> lf_canonical fs (if lf_exists fs path then path else butlast path) = Some boundary
         \<and> (for_download \<or> lf_exists fs path)
         \<and> (\<forall>ds. ds \<noteq> [] \<longrightarrow> prefix ds (if lf_exists fs path then cs else butlast cs)
               \<longrightarrow> (\<exists>kind. lf_meta fs (root @ ds) = Some kind \<and> kind \<noteq> LocalLink))))"
proof -
  let ?cs = "components relative"
  obtain kind where kind: "lf_meta fs root = Some kind" and dots: "''..'' \<notin> set ?cs"
    using assms by (auto simp: resolve_local_grant_path_def res_iff Let_def)
  show ?thesis
  proof (cases "kind = LocalFile")
    case True
    then show ?thesis using assms kind by (auto simp: resolve_local_grant_path_def res_iff Let_def split: if_splits)
  next
    case False
    obtain canonical_root boundary where r: "kind = LocalDir" "lf_canonical fs root = Some canonical_root" "path = root @ ?cs"
        "prefix canonical_root boundary" "for_download \<or> lf_exists fs path"
      and b: "(if lf_exists fs (root @ ?cs) then ok_or (lf_canonical fs (root @ ?cs)) Storage
           else if root @ ?cs = [] then Inl Validation else ok_or (lf_canonical fs (butlast (root @ ?cs))) Storage) = Inr boundary"
      and l: "(if lf_exists fs (root @ ?cs) then reject_local_link_components fs root ?cs
           else if prefix root (butlast (root @ ?cs)) then reject_local_link_components fs root (butlast ?cs) else Inl PermissionDenied) = Inr ()"
      using assms kind False unfolding resolve_local_grant_path_def Let_def by (auto simp: res_iff)
    have "lf_canonical fs (if lf_exists fs path then path else butlast path) = Some boundary"
      using b unfolding r(3) by (auto simp: res_iff split: if_splits)
    moreover have "\<exists>kind. lf_meta fs (root @ ds) = Some kind \<and> kind \<noteq> LocalLink"
      if "ds \<noteq> []" "prefix ds (if lf_exists fs path then ?cs else butlast ?cs)" for ds
      using l that no_links [of fs root _ ds] unfolding r(3) by (auto split: if_splits)
    ultimately show ?thesis using r kind dots by blast
  qed
qed

theorem local_paths_confined_witness:
  "resolve_local_grant_path \<lparr>lf_meta = (\<lambda>p. Some LocalDir), lf_exists = (\<lambda>p. True), lf_canonical = Some\<rparr> [''h''] ''./d'' False = Inr [''h'', ''d'']
   \<and> ''..'' \<notin> set (components ''./d'')"
proof -
  let ?fs = "\<lparr>lf_meta = (\<lambda>p. Some LocalDir), lf_exists = (\<lambda>p. True), lf_canonical = Some\<rparr>"
  have r: "resolve_local_grant_path ?fs [''h''] ''./d'' False = Inr [''h'', ''d'']"
    by (simp add: resolve_local_grant_path_def starts_with_def components_def Let_def)
  have "''..'' \<notin> set (components ''./d'')" using local_paths_confined [OF r] by (elim disjE exE conjE) (simp, metis+)
  then show ?thesis using r by blast
qed

end
