(* ===== verification/McpRuntime.thy ===== *)
theory McpRuntime
  imports McpPolicy
begin

text \<open>
  The state of \<open>McpManager\<close> (\<open>mcp.rs\<close>) and its operations, each one critical section of its lock. A hash map is an
  association list with one entry per key, in some order; an \<open>Instant\<close> is its number of milliseconds. The profiles
  that the SSH session manager keeps for the broker's sessions (\<open>external_profiles\<close>) are part of the state. The
  one-shot channel of a pending approval has its sender in the entry, until it is taken, and its receiver in the
  list of waiting requests, until the request stops waiting.
\<close>

section \<open>Hash maps\<close>

type_synonym ('k, 'v) hash_map = "('k \<times> 'v) list"

definition hm_remove :: "'k \<Rightarrow> ('k, 'v) hash_map \<Rightarrow> ('k, 'v) hash_map" where
  "hm_remove k m = filter (\<lambda>e. fst e \<noteq> k) m"

definition hm_insert :: "'k \<Rightarrow> 'v \<Rightarrow> ('k, 'v) hash_map \<Rightarrow> ('k, 'v) hash_map" where
  "hm_insert k v m = (k, v) # hm_remove k m"

definition hm_ok :: "('k, 'v) hash_map \<Rightarrow> bool" where
  "hm_ok m \<longleftrightarrow> distinct (map fst m)"

lemma map_of_hm_remove [simp]: "map_of (hm_remove k m) k' = (if k' = k then None else map_of m k')"
  by (induction m) (auto simp: hm_remove_def)

lemma map_of_hm_insert [simp]: "map_of (hm_insert k v m) k' = (if k' = k then Some v else map_of m k')"
  by (simp add: hm_insert_def)

lemma map_of_filter: "hm_ok m \<Longrightarrow> map_of (filter (\<lambda>(k, v). P k v) m) k = (case map_of m k of None \<Rightarrow> None | Some v \<Rightarrow> if P k v then Some v else None)"
proof (induction m)
  case (Cons e m)
  obtain a b where e: "e = (a, b)" by fastforce
  have "map_of m a = None" if "k = a" using Cons.prems e by (simp add: hm_ok_def map_of_eq_None_iff)
  then show ?case using Cons e by (auto simp: hm_ok_def split: option.split)
qed simp

lemma map_of_filter_snd:
  "hm_ok m \<Longrightarrow> map_of (filter (\<lambda>e. P (snd e)) m) k = (case map_of m k of None \<Rightarrow> None | Some v \<Rightarrow> if P v then Some v else None)"
  using map_of_filter [of m "\<lambda>_ v. P v" k] by (simp add: case_prod_beta')

lemma hm_ok_simps [simp]: "hm_ok []" "hm_ok m \<Longrightarrow> hm_ok (hm_remove k m)" "hm_ok m \<Longrightarrow> hm_ok (hm_insert k v m)"
  "hm_ok m \<Longrightarrow> hm_ok (filter P m)"
  by (auto simp: hm_ok_def hm_insert_def hm_remove_def distinct_map_filter)

lemma set_hm_remove: "e \<in> set (hm_remove k m) \<longleftrightarrow> e \<in> set m \<and> fst e \<noteq> k"
  by (auto simp: hm_remove_def)

lemma set_hm_insert: "e \<in> set (hm_insert k v m) \<longleftrightarrow> e = (k, v) \<or> (e \<in> set m \<and> fst e \<noteq> k)"
  by (auto simp: hm_insert_def hm_remove_def)

lemma count_filter_le: "length (filter P (filter Q m)) \<le> length (filter P m)"
  by (induction m) auto

lemma count_hm_remove: "length (filter P (hm_remove k m)) \<le> length (filter P m)"
  unfolding hm_remove_def by (rule count_filter_le)

section \<open>The state\<close>

record mcp_session =
  ms_client_id :: string
  ms_connection_id :: string
  ms_created_at :: nat
  ms_last_used_at :: nat

record approval_rule_key =
  rk_client_id :: string
  rk_connection_id :: string
  rk_tool :: string
  rk_target_key :: string

datatype approval_decision = Reject | Once | Session | Persistent

definition approved :: "approval_decision \<Rightarrow> bool" where
  "approved d \<longleftrightarrow> d \<noteq> Reject"

fun audit_outcome :: "approval_decision \<Rightarrow> string" where
  "audit_outcome Reject = ''rejected''"
| "audit_outcome Once = ''approved-once''"
| "audit_outcome Session = ''approved-session''"
| "audit_outcome Persistent = ''approved-rule''"

record approval_policy =
  ap_target_key :: "string option"
  ap_can_allow_session :: bool
  ap_persistent_command :: "string option"

definition default_policy :: approval_policy where
  "default_policy = \<lparr>ap_target_key = None, ap_can_allow_session = False, ap_persistent_command = None\<rparr>"

record mcp_approval =
  av_id :: string
  av_request_id :: string
  av_client_id :: string
  av_connection_id :: string
  av_tool :: string
  av_risk :: string
  av_target :: string
  av_preview :: string
  av_can_allow_session :: bool
  av_can_save_rule :: bool
  av_created_at :: nat
  av_expires_at :: nat

record pending_approval =
  pa_view :: mcp_approval
  pa_rule_key :: "approval_rule_key option"
  pa_decision :: bool

record active_request =
  ar_client_id :: string
  ar_cancelled :: bool

record rate_limit_state =
  rl_reads :: "nat list"
  rl_writes :: "nat list"

record auth_failure_state =
  af_failures :: nat
  af_retry_after :: nat

record mcp_runtime =
  rt_running :: bool
  rt_address :: "string option"
  rt_generation :: "string option"
  rt_sessions :: "(string, mcp_session) hash_map"
  rt_approvals :: "(string, pending_approval) hash_map"
  rt_rate_limits :: "(string, rate_limit_state) hash_map"
  rt_in_flight :: "(string, nat) hash_map"
  rt_active_requests :: "(string, active_request) hash_map"
  rt_transfer_targets :: "string list"
  rt_session_rules :: "approval_rule_key list"
  rt_confirmed_connections :: "(string \<times> string) list"
  rt_auth_failures :: "(string, auth_failure_state) hash_map"
  rt_external :: "string list"
  rt_waiting :: "string list"
  rt_answers :: "(string, approval_decision) hash_map"

definition new_runtime :: mcp_runtime where
  "new_runtime = \<lparr>rt_running = False, rt_address = None, rt_generation = None, rt_sessions = [], rt_approvals = [],
     rt_rate_limits = [], rt_in_flight = [], rt_active_requests = [], rt_transfer_targets = [], rt_session_rules = [],
     rt_confirmed_connections = [], rt_auth_failures = [], rt_external = [], rt_waiting = [], rt_answers = []\<rparr>"

text \<open>\<open>sender.send\<close>: it fails when the receiver is gone.\<close>

definition send_decision :: "string \<Rightarrow> approval_decision \<Rightarrow> mcp_runtime \<Rightarrow> unit app_result \<times> mcp_runtime" where
  "send_decision i d rt = (if i \<in> set (rt_waiting rt) then (Inr (), rt\<lparr>rt_answers := hm_insert i d (rt_answers rt)\<rparr>)
     else (Inl Unavailable, rt))"

text \<open>A removed approval whose decision is still open is answered with a rejection.\<close>

definition reject_pending :: "string \<times> pending_approval \<Rightarrow> mcp_runtime \<Rightarrow> mcp_runtime" where
  "reject_pending e rt = (if pa_decision (snd e) then snd (send_decision (fst e) Reject rt) else rt)"

definition drop_approvals :: "(pending_approval \<Rightarrow> bool) \<Rightarrow> mcp_runtime \<Rightarrow> mcp_runtime" where
  "drop_approvals P rt = fold reject_pending (filter (\<lambda>e. P (snd e)) (rt_approvals rt))
     (rt\<lparr>rt_approvals := filter (\<lambda>e. \<not> P (snd e)) (rt_approvals rt)\<rparr>)"

definition drop_sessions :: "(mcp_session \<Rightarrow> bool) \<Rightarrow> mcp_runtime \<Rightarrow> mcp_runtime" where
  "drop_sessions P rt = rt\<lparr>rt_sessions := filter (\<lambda>e. \<not> P (snd e)) (rt_sessions rt),
     rt_external := filter (\<lambda>i. i \<notin> fst ` set (filter (\<lambda>e. P (snd e)) (rt_sessions rt))) (rt_external rt)\<rparr>"

definition cancel_requests :: "(string \<Rightarrow> active_request \<Rightarrow> bool) \<Rightarrow> mcp_runtime \<Rightarrow> mcp_runtime" where
  "cancel_requests P rt = rt\<lparr>rt_active_requests :=
     map (\<lambda>(i, r). (i, if P i r then r\<lparr>ar_cancelled := True\<rparr> else r)) (rt_active_requests rt)\<rparr>"

section \<open>Starting and stopping\<close>

definition start_manager :: "string \<Rightarrow> string \<Rightarrow> mcp_runtime \<Rightarrow> mcp_runtime" where
  "start_manager address generation rt = (if rt_running rt then rt
     else rt\<lparr>rt_running := True, rt_address := Some address, rt_generation := Some generation\<rparr>)"

text \<open>The result of \<open>stop\<close> tells whether a stop is recorded in the audit trail.\<close>

definition stop_manager :: "mcp_runtime \<Rightarrow> bool \<times> mcp_runtime" where
  "stop_manager rt = (rt_running rt,
     fold reject_pending (rt_approvals rt)
       ((drop_sessions (\<lambda>_. True) rt)\<lparr>rt_approvals := [], rt_rate_limits := [], rt_active_requests := [], rt_in_flight := [],
          rt_transfer_targets := [], rt_session_rules := [], rt_confirmed_connections := [], rt_auth_failures := [],
          rt_running := False, rt_address := None, rt_generation := None\<rparr>))"

section \<open>Rates and authentication failures\<close>

text \<open>Requests of the last minute leave the queue in the order in which they came.\<close>

definition slide :: "nat \<Rightarrow> nat list \<Rightarrow> nat list" where
  "slide now q = dropWhile (\<lambda>t. 60000 \<le> now - t) q"

definition rate_limit :: "bool \<Rightarrow> nat" where
  "rate_limit write = (if write then 10 else 60)"

definition rate_step :: "nat \<Rightarrow> nat \<Rightarrow> nat list \<Rightarrow> bool \<times> nat list" where
  "rate_step limit now q = (let q = slide now q in if limit \<le> length q then (False, q) else (True, q @ [now]))"

definition rate_state :: "string \<Rightarrow> mcp_runtime \<Rightarrow> rate_limit_state" where
  "rate_state client rt = (case map_of (rt_rate_limits rt) client of Some st \<Rightarrow> st | None \<Rightarrow> \<lparr>rl_reads = [], rl_writes = []\<rparr>)"

definition authorize_rate :: "nat \<Rightarrow> string \<Rightarrow> bool \<Rightarrow> mcp_runtime \<Rightarrow> unit app_result \<times> mcp_runtime" where
  "authorize_rate now client write rt =
     (let st = rate_state client rt;
          (ok, q) = rate_step (rate_limit write) now (if write then rl_writes st else rl_reads st);
          st = (if write then st\<lparr>rl_writes := q\<rparr> else st\<lparr>rl_reads := q\<rparr>)
      in (if ok then Inr () else Inl Unavailable, rt\<lparr>rt_rate_limits := hm_insert client st (rt_rate_limits rt)\<rparr>))"

definition check_auth_backoff :: "nat \<Rightarrow> string \<Rightarrow> mcp_runtime \<Rightarrow> unit app_result" where
  "check_auth_backoff now client rt = (case map_of (rt_auth_failures rt) client of
     Some st \<Rightarrow> guard (\<not> now < af_retry_after st) Unavailable | None \<Rightarrow> Inr ())"

definition backoff_ms :: "nat \<Rightarrow> nat" where
  "backoff_ms failures = min (100 * 2 ^ min failures 6) 5000"

definition record_auth_failure :: "nat \<Rightarrow> string \<Rightarrow> mcp_runtime \<Rightarrow> mcp_runtime" where
  "record_auth_failure now client rt =
     (let failures = (case map_of (rt_auth_failures rt) client of None \<Rightarrow> 1 | Some st \<Rightarrow> min (af_failures st + 1) (2 ^ 32 - 1))
      in rt\<lparr>rt_auth_failures := hm_insert client \<lparr>af_failures = failures, af_retry_after = now + backoff_ms failures\<rparr> (rt_auth_failures rt)\<rparr>)"

definition clear_auth_failure :: "string \<Rightarrow> mcp_runtime \<Rightarrow> mcp_runtime" where
  "clear_auth_failure client rt = rt\<lparr>rt_auth_failures := hm_remove client (rt_auth_failures rt)\<rparr>"

section \<open>Permits\<close>

definition in_flight :: "string \<Rightarrow> mcp_runtime \<Rightarrow> nat" where
  "in_flight client rt = (case map_of (rt_in_flight rt) client of None \<Rightarrow> 0 | Some n \<Rightarrow> n)"

definition acquire_execution :: "string \<Rightarrow> mcp_runtime \<Rightarrow> unit app_result \<times> mcp_runtime" where
  "acquire_execution client rt =
     (if 2 \<le> in_flight client rt then (Inl Unavailable, rt)
      else (Inr (), rt\<lparr>rt_in_flight := hm_insert client (in_flight client rt + 1) (rt_in_flight rt)\<rparr>))"

definition release_execution :: "string \<Rightarrow> mcp_runtime \<Rightarrow> mcp_runtime" where
  "release_execution client rt = (case map_of (rt_in_flight rt) client of None \<Rightarrow> rt
     | Some n \<Rightarrow> rt\<lparr>rt_in_flight := (if n - 1 = 0 then hm_remove client (rt_in_flight rt)
                                 else hm_insert client (n - 1) (rt_in_flight rt))\<rparr>)"

definition acquire_transfer_target :: "string \<Rightarrow> mcp_runtime \<Rightarrow> unit app_result \<times> mcp_runtime" where
  "acquire_transfer_target key rt =
     (if key \<in> set (rt_transfer_targets rt) then (Inl Unavailable, rt)
      else (Inr (), rt\<lparr>rt_transfer_targets := key # rt_transfer_targets rt\<rparr>))"

definition release_transfer_target :: "string \<Rightarrow> mcp_runtime \<Rightarrow> mcp_runtime" where
  "release_transfer_target key rt = rt\<lparr>rt_transfer_targets := filter (\<lambda>k. k \<noteq> key) (rt_transfer_targets rt)\<rparr>"

definition register_request :: "string \<Rightarrow> string \<Rightarrow> bool \<Rightarrow> mcp_runtime \<Rightarrow> unit app_result \<times> mcp_runtime" where
  "register_request request_id client cancelled rt =
     (if map_of (rt_active_requests rt) request_id \<noteq> None then (Inl Validation, rt)
      else (Inr (), rt\<lparr>rt_active_requests := hm_insert request_id \<lparr>ar_client_id = client, ar_cancelled = cancelled\<rparr> (rt_active_requests rt)\<rparr>))"

definition release_request :: "string \<Rightarrow> mcp_runtime \<Rightarrow> mcp_runtime" where
  "release_request request_id rt = rt\<lparr>rt_active_requests := hm_remove request_id (rt_active_requests rt)\<rparr>"

section \<open>Sessions\<close>

definition SESSION_IDLE_TTL :: nat where "SESSION_IDLE_TTL = 15 * 60 * 1000"
definition SESSION_MAX_TTL :: nat where "SESSION_MAX_TTL = 8 * 60 * 60 * 1000"

definition session_expired :: "nat \<Rightarrow> mcp_session \<Rightarrow> bool" where
  "session_expired now s \<longleftrightarrow> SESSION_IDLE_TTL \<le> now - ms_last_used_at s \<or> SESSION_MAX_TTL \<le> now - ms_created_at s"

definition remove_expired_sessions :: "nat \<Rightarrow> mcp_runtime \<Rightarrow> mcp_runtime" where
  "remove_expired_sessions now rt = drop_sessions (session_expired now) rt"

text \<open>\<open>session_id\<close> is the fresh \<open>mcp-\<close> identifier, \<open>connection_id\<close> the profile's.\<close>

definition open_session :: "nat \<Rightarrow> string \<Rightarrow> string \<Rightarrow> string \<Rightarrow> mcp_runtime \<Rightarrow> string app_result \<times> mcp_runtime" where
  "open_session now session_id client connection_id rt =
     (let rt = remove_expired_sessions now rt in
      if 4 \<le> length (filter (\<lambda>e. ms_client_id (snd e) = client) (rt_sessions rt)) then (Inl Unavailable, rt)
      else (Inr session_id, rt\<lparr>rt_external := session_id # filter (\<lambda>i. i \<noteq> session_id) (rt_external rt),
         rt_sessions := hm_insert session_id \<lparr>ms_client_id = client, ms_connection_id = connection_id,
            ms_created_at = now, ms_last_used_at = now\<rparr> (rt_sessions rt)\<rparr>))"

definition get_session :: "nat \<Rightarrow> string \<Rightarrow> string \<Rightarrow> mcp_runtime \<Rightarrow> string app_result \<times> mcp_runtime" where
  "get_session now client session_id rt =
     (let rt = remove_expired_sessions now rt in
      case map_of (rt_sessions rt) session_id of None \<Rightarrow> (Inl NotFound, rt)
      | Some s \<Rightarrow> if ms_client_id s \<noteq> client then (Inl PermissionDenied, rt)
          else (Inr (ms_connection_id s), rt\<lparr>rt_sessions := hm_insert session_id (s\<lparr>ms_last_used_at := now\<rparr>) (rt_sessions rt)\<rparr>))"

definition close_session :: "string \<Rightarrow> string \<Rightarrow> mcp_runtime \<Rightarrow> unit app_result \<times> mcp_runtime" where
  "close_session client session_id rt =
     (case map_of (rt_sessions rt) session_id of None \<Rightarrow> (Inl NotFound, rt)
      | Some s \<Rightarrow> if ms_client_id s \<noteq> client then (Inl PermissionDenied, rt)
          else (Inr (), rt\<lparr>rt_sessions := hm_remove session_id (rt_sessions rt),
                          rt_external := filter (\<lambda>i. i \<noteq> session_id) (rt_external rt)\<rparr>))"

section \<open>Approvals\<close>

definition MAX_PENDING_PER_CLIENT :: nat where "MAX_PENDING_PER_CLIENT = 10"
definition MAX_PENDING_GLOBAL :: nat where "MAX_PENDING_GLOBAL = 50"
definition APPROVAL_TTL :: nat where "APPROVAL_TTL = 120 * 1000"

text \<open>What a tool asks approval for: the arguments of \<open>request_approval\<close>, without the names that are only shown.\<close>

record approval_ask =
  aa_client_id :: string
  aa_connection_id :: string
  aa_request_id :: string
  aa_tool :: string
  aa_risk :: string
  aa_target :: string
  aa_preview :: string
  aa_policy :: approval_policy

definition rule_key :: "approval_ask \<Rightarrow> approval_rule_key option" where
  "rule_key a = map_option (\<lambda>target. \<lparr>rk_client_id = aa_client_id a, rk_connection_id = aa_connection_id a,
     rk_tool = aa_tool a, rk_target_key = target\<rparr>) (ap_target_key (aa_policy a))"

definition approval_view :: "nat \<Rightarrow> string \<Rightarrow> approval_ask \<Rightarrow> mcp_approval" where
  "approval_view now i a = \<lparr>av_id = i, av_request_id = aa_request_id a, av_client_id = aa_client_id a,
     av_connection_id = aa_connection_id a, av_tool = aa_tool a, av_risk = aa_risk a, av_target = aa_target a,
     av_preview = aa_preview a, av_can_allow_session = ap_can_allow_session (aa_policy a),
     av_can_save_rule = (ap_persistent_command (aa_policy a) \<noteq> None), av_created_at = now, av_expires_at = now + APPROVAL_TTL\<rparr>"

text \<open>
  \<open>request_approval\<close> in its pieces: a rule answers at once; otherwise the request is filed, waits for a decision
  until the approval expires (the sender then finds no receiver), takes it from the list, and remembers a rule for
  the session. \<open>persistent\<close> tells which rules the database has.
\<close>

definition by_rule :: "(approval_rule_key \<Rightarrow> bool) \<Rightarrow> approval_ask \<Rightarrow> mcp_runtime \<Rightarrow> approval_decision option" where
  "by_rule persistent a rt = (case rule_key a of None \<Rightarrow> None
     | Some k \<Rightarrow> if ap_can_allow_session (aa_policy a) \<and> k \<in> set (rt_session_rules rt) then Some Session
         else if ap_persistent_command (aa_policy a) \<noteq> None \<and> persistent k then Some Persistent else None)"

definition file_approval :: "nat \<Rightarrow> string \<Rightarrow> approval_ask \<Rightarrow> mcp_runtime \<Rightarrow> unit app_result \<times> mcp_runtime" where
  "file_approval now i a rt =
     (if MAX_PENDING_GLOBAL \<le> length (rt_approvals rt)
         \<or> MAX_PENDING_PER_CLIENT \<le> length (filter (\<lambda>e. av_client_id (pa_view (snd e)) = aa_client_id a) (rt_approvals rt))
      then (Inl Unavailable, rt)
      else (Inr (), rt\<lparr>rt_approvals := hm_insert i \<lparr>pa_view = approval_view now i a, pa_rule_key = rule_key a, pa_decision = True\<rparr> (rt_approvals rt),
                      rt_waiting := i # rt_waiting rt\<rparr>))"

definition wake :: "string \<Rightarrow> mcp_runtime \<Rightarrow> approval_decision \<times> mcp_runtime" where
  "wake i rt = (case map_of (rt_answers rt) i of Some d \<Rightarrow> d | None \<Rightarrow> Reject,
     rt\<lparr>rt_waiting := filter (\<lambda>j. j \<noteq> i) (rt_waiting rt), rt_answers := hm_remove i (rt_answers rt)\<rparr>)"

definition leave_list :: "string \<Rightarrow> mcp_runtime \<Rightarrow> mcp_runtime" where
  "leave_list i rt = rt\<lparr>rt_approvals := hm_remove i (rt_approvals rt)\<rparr>"

definition remember_session_rule :: "approval_ask \<Rightarrow> approval_decision \<Rightarrow> mcp_runtime \<Rightarrow> mcp_runtime" where
  "remember_session_rule a d rt = (case rule_key a of None \<Rightarrow> rt
     | Some k \<Rightarrow> if d = Session \<and> ap_can_allow_session (aa_policy a)
         then rt\<lparr>rt_session_rules := List.insert k (rt_session_rules rt)\<rparr> else rt)"

definition confirm_connection :: "string \<Rightarrow> string \<Rightarrow> mcp_runtime \<Rightarrow> mcp_runtime" where
  "confirm_connection client connection_id rt =
     rt\<lparr>rt_confirmed_connections := List.insert (client, connection_id) (rt_confirmed_connections rt)\<rparr>"

definition approvals :: "mcp_runtime \<Rightarrow> mcp_approval list" where
  "approvals rt = sort_key av_created_at (map (\<lambda>e. pa_view (snd e)) (rt_approvals rt))"

definition select_decision :: "string \<Rightarrow> pending_approval \<Rightarrow> approval_decision option" where
  "select_decision decision p =
     (if decision = ''reject'' then Some Reject
      else if decision = ''once'' then Some Once
      else if decision = ''session'' \<and> av_can_allow_session (pa_view p) \<and> pa_rule_key p \<noteq> None then Some Session
      else if decision = ''persistent'' \<and> av_can_save_rule (pa_view p) \<and> pa_rule_key p \<noteq> None then Some Persistent
      else None)"

definition decide :: "string \<Rightarrow> string \<Rightarrow> mcp_runtime \<Rightarrow> unit app_result \<times> mcp_runtime" where
  "decide i decision rt = (case map_of (rt_approvals rt) i of None \<Rightarrow> (Inl NotFound, rt)
     | Some p \<Rightarrow> (case select_decision decision p of None \<Rightarrow> (Inl Validation, rt)
        | Some d \<Rightarrow> if pa_decision p
            then send_decision i d (rt\<lparr>rt_approvals := hm_insert i (p\<lparr>pa_decision := False\<rparr>) (rt_approvals rt)\<rparr>)
            else (Inl Unavailable, rt)))"

section \<open>Cancelling and invalidating\<close>

definition cancel_request :: "string \<Rightarrow> mcp_runtime \<Rightarrow> mcp_runtime" where
  "cancel_request request_id rt =
     drop_approvals (\<lambda>p. av_request_id (pa_view p) = request_id) (cancel_requests (\<lambda>i _. i = request_id) rt)"

definition cancel_client_requests :: "string \<Rightarrow> mcp_runtime \<Rightarrow> mcp_runtime" where
  "cancel_client_requests client rt = cancel_requests (\<lambda>_ r. ar_client_id r = client) rt"

definition drop_client_approvals :: "string \<Rightarrow> mcp_runtime \<Rightarrow> mcp_runtime" where
  "drop_client_approvals client rt = drop_approvals (\<lambda>p. av_client_id (pa_view p) = client) rt"

definition drop_client_rules :: "string \<Rightarrow> mcp_runtime \<Rightarrow> mcp_runtime" where
  "drop_client_rules client rt =
     rt\<lparr>rt_session_rules := filter (\<lambda>k. rk_client_id k \<noteq> client) (rt_session_rules rt),
        rt_confirmed_connections := filter (\<lambda>c. fst c \<noteq> client) (rt_confirmed_connections rt)\<rparr>"

definition invalidate_client_authorizations :: "string \<Rightarrow> mcp_runtime \<Rightarrow> mcp_runtime" where
  "invalidate_client_authorizations client rt =
     (let rt = drop_sessions (\<lambda>s. ms_client_id s = client) rt;
          rt = drop_client_approvals client rt;
          rt = cancel_client_requests client rt;
          rt = drop_client_rules client rt
      in rt\<lparr>rt_rate_limits := hm_remove client (rt_rate_limits rt)\<rparr>)"

text \<open>
  \<open>revoke_runtime_access\<close> lists the sessions in one critical section and removes them in the next;
  \<open>cancel_client_requests\<close> is the third.
\<close>

definition client_sessions :: "string \<Rightarrow> mcp_runtime \<Rightarrow> string list" where
  "client_sessions client rt = map fst (filter (\<lambda>e. ms_client_id (snd e) = client) (rt_sessions rt))"

definition revoke_listed :: "string \<Rightarrow> string list \<Rightarrow> mcp_runtime \<Rightarrow> mcp_runtime" where
  "revoke_listed client session_ids rt =
     drop_client_rules client (drop_client_approvals client
       (rt\<lparr>rt_sessions := filter (\<lambda>e. fst e \<notin> set session_ids) (rt_sessions rt),
          rt_external := filter (\<lambda>i. i \<notin> set session_ids) (rt_external rt)\<rparr>))"

definition revoke_runtime_access :: "string \<Rightarrow> mcp_runtime \<Rightarrow> mcp_runtime" where
  "revoke_runtime_access client rt = cancel_client_requests client (revoke_listed client (client_sessions client rt) rt)"

section \<open>Frame rules\<close>

text \<open>\<open>reject_pending\<close> and with it \<open>drop_approvals\<close> touch only the answers.\<close>

lemma reject_pending_answers: "\<exists>as. reject_pending e rt = rt\<lparr>rt_answers := as\<rparr>"
proof (cases "pa_decision (snd e) \<and> fst e \<in> set (rt_waiting rt)")
  case True
  then have "reject_pending e rt = rt\<lparr>rt_answers := hm_insert (fst e) Reject (rt_answers rt)\<rparr>"
    by (simp add: reject_pending_def send_decision_def)
  then show ?thesis by blast
next
  case False
  then have "reject_pending e rt = rt\<lparr>rt_answers := rt_answers rt\<rparr>"
    by (auto simp: reject_pending_def send_decision_def)
  then show ?thesis by blast
qed

lemma fold_reject_answers: "\<exists>as. fold reject_pending es rt = rt\<lparr>rt_answers := as\<rparr>"
proof (induction es arbitrary: rt)
  case Nil
  have "rt = rt\<lparr>rt_answers := rt_answers rt\<rparr>" by simp
  then show ?case by (metis fold_simps(1))
next
  case (Cons e es)
  obtain as where "reject_pending e rt = rt\<lparr>rt_answers := as\<rparr>" using reject_pending_answers by blast
  moreover obtain bs where "fold reject_pending es (rt\<lparr>rt_answers := as\<rparr>) = rt\<lparr>rt_answers := as, rt_answers := bs\<rparr>"
    using Cons.IH by blast
  ultimately show ?case by auto
qed

lemma drop_approvals_eq:
  "\<exists>as. drop_approvals P rt = rt\<lparr>rt_approvals := filter (\<lambda>e. \<not> P (snd e)) (rt_approvals rt), rt_answers := as\<rparr>"
  unfolding drop_approvals_def by (rule fold_reject_answers)

lemma fold_reject_others:
  "(\<And>e. e \<in> set es \<Longrightarrow> fst e \<noteq> i) \<Longrightarrow> map_of (rt_answers (fold reject_pending es rt)) i = map_of (rt_answers rt) i"
proof (induction es arbitrary: rt)
  case (Cons e es)
  have "map_of (rt_answers (reject_pending e rt)) i = map_of (rt_answers rt) i"
    using Cons.prems [of e] by (simp add: reject_pending_def send_decision_def)
  then show ?case using Cons by simp
qed simp

lemma fold_reject_only:
  "map_of (rt_answers (fold reject_pending es rt)) i = map_of (rt_answers rt) i
    \<or> map_of (rt_answers (fold reject_pending es rt)) i = Some Reject"
proof (induction es arbitrary: rt)
  case (Cons e es)
  have "map_of (rt_answers (reject_pending e rt)) i = map_of (rt_answers rt) i
     \<or> map_of (rt_answers (reject_pending e rt)) i = Some Reject"
    by (simp add: reject_pending_def send_decision_def)
  then show ?case using Cons [of "reject_pending e rt"] by auto
qed simp

lemma fold_reject_simps [simp]:
  "rt_sessions (fold reject_pending es rt) = rt_sessions rt" "rt_approvals (fold reject_pending es rt) = rt_approvals rt"
  "rt_rate_limits (fold reject_pending es rt) = rt_rate_limits rt" "rt_in_flight (fold reject_pending es rt) = rt_in_flight rt"
  "rt_active_requests (fold reject_pending es rt) = rt_active_requests rt" "rt_transfer_targets (fold reject_pending es rt) = rt_transfer_targets rt"
  "rt_session_rules (fold reject_pending es rt) = rt_session_rules rt" "rt_confirmed_connections (fold reject_pending es rt) = rt_confirmed_connections rt"
  "rt_auth_failures (fold reject_pending es rt) = rt_auth_failures rt" "rt_external (fold reject_pending es rt) = rt_external rt"
  "rt_waiting (fold reject_pending es rt) = rt_waiting rt" "rt_running (fold reject_pending es rt) = rt_running rt"
  using fold_reject_answers [of es rt] by auto

lemma drop_approvals_simps [simp]:
  "rt_sessions (drop_approvals P rt) = rt_sessions rt" "rt_approvals (drop_approvals P rt) = filter (\<lambda>e. \<not> P (snd e)) (rt_approvals rt)"
  "rt_rate_limits (drop_approvals P rt) = rt_rate_limits rt" "rt_in_flight (drop_approvals P rt) = rt_in_flight rt"
  "rt_active_requests (drop_approvals P rt) = rt_active_requests rt" "rt_transfer_targets (drop_approvals P rt) = rt_transfer_targets rt"
  "rt_session_rules (drop_approvals P rt) = rt_session_rules rt" "rt_confirmed_connections (drop_approvals P rt) = rt_confirmed_connections rt"
  "rt_external (drop_approvals P rt) = rt_external rt" "rt_waiting (drop_approvals P rt) = rt_waiting rt"
  using drop_approvals_eq [of P rt] by auto

lemma drop_sessions_simps [simp]:
  "rt_sessions (drop_sessions P rt) = filter (\<lambda>e. \<not> P (snd e)) (rt_sessions rt)" "rt_approvals (drop_sessions P rt) = rt_approvals rt"
  "rt_in_flight (drop_sessions P rt) = rt_in_flight rt" "rt_session_rules (drop_sessions P rt) = rt_session_rules rt"
  "rt_waiting (drop_sessions P rt) = rt_waiting rt" "rt_answers (drop_sessions P rt) = rt_answers rt"
  "rt_active_requests (drop_sessions P rt) = rt_active_requests rt" "rt_rate_limits (drop_sessions P rt) = rt_rate_limits rt"
  "rt_confirmed_connections (drop_sessions P rt) = rt_confirmed_connections rt" "rt_transfer_targets (drop_sessions P rt) = rt_transfer_targets rt"
  by (simp_all add: drop_sessions_def)

lemma cancel_requests_simps [simp]:
  "rt_sessions (cancel_requests P rt) = rt_sessions rt" "rt_approvals (cancel_requests P rt) = rt_approvals rt"
  "rt_in_flight (cancel_requests P rt) = rt_in_flight rt" "rt_session_rules (cancel_requests P rt) = rt_session_rules rt"
  "rt_waiting (cancel_requests P rt) = rt_waiting rt" "rt_answers (cancel_requests P rt) = rt_answers rt"
  "rt_external (cancel_requests P rt) = rt_external rt" "rt_rate_limits (cancel_requests P rt) = rt_rate_limits rt"
  "rt_confirmed_connections (cancel_requests P rt) = rt_confirmed_connections rt" "rt_transfer_targets (cancel_requests P rt) = rt_transfer_targets rt"
  by (simp_all add: cancel_requests_def)

lemma drop_client_rules_simps [simp]:
  "rt_sessions (drop_client_rules c rt) = rt_sessions rt" "rt_approvals (drop_client_rules c rt) = rt_approvals rt"
  "rt_in_flight (drop_client_rules c rt) = rt_in_flight rt" "rt_waiting (drop_client_rules c rt) = rt_waiting rt"
  "rt_answers (drop_client_rules c rt) = rt_answers rt" "rt_external (drop_client_rules c rt) = rt_external rt"
  "rt_active_requests (drop_client_rules c rt) = rt_active_requests rt" "rt_rate_limits (drop_client_rules c rt) = rt_rate_limits rt"
  "rt_session_rules (drop_client_rules c rt) = filter (\<lambda>k. rk_client_id k \<noteq> c) (rt_session_rules rt)"
  "rt_confirmed_connections (drop_client_rules c rt) = filter (\<lambda>p. fst p \<noteq> c) (rt_confirmed_connections rt)"
  by (simp_all add: drop_client_rules_def)

end
