(* ===== verification/McpStore.thy ===== *)
theory McpStore
  imports McpPolicy McpRuntime "HOL-Library.Option_ord"
begin

text \<open>
  The tables of the MCP broker (\<open>mcp.rs\<close>, migrations 0009 to 0013) and the statements over them: clients, grants,
  approval rules, grants for local paths, and the audit trail. A table is a list of rows in \<open>rowid\<close> order; a time is
  its RFC 3339 text, which SQLite compares as text; identifiers that the code draws at random are arguments.
  \<open>sha\<close> gives the hexadecimal digits of SHA-256.
\<close>

section \<open>Tables\<close>

record mcp_client =
  mc_id :: string
  mc_name :: string
  mc_status :: string
  mc_executable_path :: "string option"
  mc_executable_sha256 :: "string option"
  mc_client_secret_sha256 :: "string option"
  mc_created_at :: string
  mc_updated_at :: string
  mc_last_used_at :: "string option"
  mc_revoked_at :: "string option"
  mc_show_hostnames :: bool

record mcp_grant =
  mg_id :: string
  mg_client_id :: string
  mg_connection_id :: string
  mg_tool :: string
  mg_remote_root :: string
  mg_created_at :: string
  mg_expires_at :: "string option"

record mcp_rule =
  mr_id :: string
  mr_key :: approval_rule_key
  mr_created_at :: string
  mr_last_used_at :: "string option"

record mcp_local_grant =
  lg_id :: string
  lg_client_id :: string
  lg_direction :: string
  lg_display_name :: string
  lg_persistent :: bool
  lg_created_at :: string
  lg_expires_at :: "string option"
  lg_revoked_at :: "string option"

record mcp_audit_event =
  ae_id :: string
  ae_request_id :: "string option"
  ae_client_id :: "string option"
  ae_connection_id :: "string option"
  ae_tool :: string
  ae_target :: string
  ae_risk :: string
  ae_outcome :: string
  ae_duration_ms :: "nat option"
  ae_transferred_bytes :: "nat option"
  ae_truncated :: bool
  ae_created_at :: string

text \<open>Of a connection the broker uses its protocol; \<open>md_bookmarks\<close> are the stored local capabilities.\<close>

record mcp_db =
  md_clients :: "mcp_client list"
  md_grants :: "mcp_grant list"
  md_rules :: "mcp_rule list"
  md_local_grants :: "mcp_local_grant list"
  md_audit :: "mcp_audit_event list"
  md_connections :: "string \<rightharpoonup> string"
  md_bookmarks :: "string list"

text \<open>\<open>INSERT\<close> under the uniqueness constraints of the schema.\<close>

definition insert_client :: "mcp_client \<Rightarrow> mcp_db \<Rightarrow> app_error + mcp_db" where
  "insert_client r d = rbind (guard (mc_id r \<notin> mc_id ` set (md_clients d)) Storage) (\<lambda>_. Inr (d\<lparr>md_clients := md_clients d @ [r]\<rparr>))"

definition grant_key :: "mcp_grant \<Rightarrow> string \<times> string \<times> string \<times> string" where
  "grant_key g = (mg_client_id g, mg_connection_id g, mg_tool g, mg_remote_root g)"

definition insert_grant :: "mcp_grant \<Rightarrow> mcp_db \<Rightarrow> app_error + mcp_db" where
  "insert_grant r d = rbind (guard (mg_id r \<notin> mg_id ` set (md_grants d) \<and> grant_key r \<notin> grant_key ` set (md_grants d)
       \<and> mg_client_id r \<in> mc_id ` set (md_clients d) \<and> md_connections d (mg_connection_id r) \<noteq> None) Storage)
     (\<lambda>_. Inr (d\<lparr>md_grants := md_grants d @ [r]\<rparr>))"

section \<open>Audit\<close>

text \<open>An event of the broker's own has no request and no client; of a request it has the risk of its tool.\<close>

record audit_input =
  ai_request_id :: "string option"
  ai_client_id :: "string option"
  ai_connection_id :: "string option"
  ai_tool :: string
  ai_target :: string
  ai_risk :: string
  ai_outcome :: string
  ai_duration_ms :: "nat option"
  ai_transferred_bytes :: "nat option"
  ai_truncated :: bool

definition audit_event :: "string \<Rightarrow> string \<Rightarrow> string \<Rightarrow> audit_input" where
  "audit_event tool risk outcome = \<lparr>ai_request_id = None, ai_client_id = None, ai_connection_id = None, ai_tool = tool,
     ai_target = [], ai_risk = risk, ai_outcome = outcome, ai_duration_ms = None, ai_transferred_bytes = None, ai_truncated = False\<rparr>"

definition audit_request :: "string \<Rightarrow> string \<Rightarrow> string \<Rightarrow> string \<Rightarrow> audit_input" where
  "audit_request request_id client tool outcome =
     (audit_event tool (if tool \<in> set WRITE_TOOLS then ''medium'' else ''low'') outcome)
       \<lparr>ai_client_id := Some client, ai_request_id := Some request_id\<rparr>"

definition MAX_AUDIT_EVENTS :: nat where "MAX_AUDIT_EVENTS = 4096"

definition append_audit :: "string \<Rightarrow> string \<Rightarrow> audit_input \<Rightarrow> mcp_db \<Rightarrow> mcp_db" where
  "append_audit now i e d = d\<lparr>md_audit := keep_newest MAX_AUDIT_EVENTS ae_id ae_created_at (\<lambda>_. True)
     (md_audit d @ [\<lparr>ae_id = i, ae_request_id = ai_request_id e, ae_client_id = ai_client_id e, ae_connection_id = ai_connection_id e,
        ae_tool = ai_tool e, ae_target = ai_target e, ae_risk = ai_risk e, ae_outcome = ai_outcome e, ae_duration_ms = ai_duration_ms e,
        ae_transferred_bytes = ai_transferred_bytes e, ae_truncated = ai_truncated e, ae_created_at = now\<rparr>])\<rparr>"

definition list_audit :: "mcp_db \<Rightarrow> mcp_audit_event list" where
  "list_audit d = newest MAX_AUDIT_EVENTS ae_created_at (md_audit d)"

definition resource_recent_audit :: "string \<Rightarrow> mcp_db \<Rightarrow> mcp_audit_event list" where
  "resource_recent_audit client d = newest 100 ae_created_at (filter (\<lambda>e. ae_client_id e = Some client) (md_audit d))"

definition approval_audit :: "string \<Rightarrow> string \<Rightarrow> string \<Rightarrow> string \<Rightarrow> string \<Rightarrow> string \<Rightarrow> approval_decision \<Rightarrow> audit_input" where
  "approval_audit request_id client tool connection_id risk target d =
     (audit_event tool risk (audit_outcome d))\<lparr>ai_request_id := Some request_id, ai_client_id := Some client,
        ai_connection_id := Some connection_id, ai_target := target\<rparr>"

section \<open>Clients\<close>

definition create_client :: "string \<Rightarrow> string \<Rightarrow> string \<Rightarrow> string \<Rightarrow> mcp_db \<Rightarrow> app_error + mcp_db" where
  "create_client now i audit_id name d =
     (let name = str_trim name in
      rbind (guard (name \<noteq> [] \<and> length name \<le> 128 \<and> CHR 0x00 \<notin> set name) Validation) (\<lambda>_.
      rbind (insert_client \<lparr>mc_id = i, mc_name = name, mc_status = ''active'', mc_executable_path = None, mc_executable_sha256 = None,
          mc_client_secret_sha256 = None, mc_created_at = now, mc_updated_at = now, mc_last_used_at = None, mc_revoked_at = None,
          mc_show_hostnames = False\<rparr> d) (\<lambda>d.
        Inr (append_audit now audit_id ((audit_event ''client'' ''info'' ''registered'')\<lparr>ai_client_id := Some i\<rparr>) d))))"

text \<open>A client with more than one granted root makes the list of all clients fail.\<close>

definition client_roots :: "mcp_db \<Rightarrow> string \<Rightarrow> string list" where
  "client_roots d client = remdups (map mg_remote_root (filter (\<lambda>g. mg_client_id g = client) (md_grants d)))"

definition list_clients :: "mcp_db \<Rightarrow> mcp_client list app_result" where
  "list_clients d = (if list_ex (\<lambda>c. 1 < length (client_roots d (mc_id c))) (md_clients d) then Inl Storage
     else Inr (rev (sort_key mc_created_at (md_clients d))))"

definition get_client :: "mcp_db \<Rightarrow> string \<Rightarrow> mcp_client app_result" where
  "get_client d i = rbind (list_clients d) (\<lambda>cs. ok_or (fetch_optional (filter (\<lambda>c. mc_id c = i) cs)) NotFound)"

text \<open>\<open>sha secret\<close> is compared with the digest that the sidecar registered.\<close>

definition authenticate_client :: "(string \<Rightarrow> string) \<Rightarrow> string \<Rightarrow> broker_request \<Rightarrow> mcp_db \<Rightarrow> app_error + (mcp_client \<times> mcp_db)" where
  "authenticate_client sha now rq d =
     rbind (get_client d (rq_client_id rq)) (\<lambda>client.
     rbind (guard (mc_status client = ''active'') PermissionDenied) (\<lambda>_.
     rbind (ok_or (mc_client_secret_sha256 client) PermissionDenied) (\<lambda>expected.
     rbind (guard (constant_time_equal expected (''sha256:'' @ sha (rq_client_secret rq))) PermissionDenied) (\<lambda>_.
     rbind (guard (mc_executable_path client \<noteq> None \<and> mc_executable_sha256 client \<noteq> None
          \<and> mc_executable_path client = rq_executable_path rq \<and> mc_executable_sha256 client = rq_executable_sha256 rq) PermissionDenied) (\<lambda>_.
       Inr (client, d\<lparr>md_clients := sql_update (\<lambda>c. mc_id c = rq_client_id rq) (\<lambda>c. c\<lparr>mc_last_used_at := Some now\<rparr>) (md_clients d)\<rparr>))))))"

definition bind_executable :: "string \<Rightarrow> string \<Rightarrow> string \<Rightarrow> string \<Rightarrow> string \<Rightarrow> mcp_db \<Rightarrow> mcp_db" where
  "bind_executable now i path digest secret_digest d = d\<lparr>md_clients :=
     sql_update (\<lambda>c. mc_id c = i \<and> mc_status c = ''active'')
       (\<lambda>c. c\<lparr>mc_executable_path := Some path, mc_executable_sha256 := Some digest, mc_client_secret_sha256 := Some secret_digest, mc_updated_at := now\<rparr>)
       (md_clients d)\<rparr>"

text \<open>\<open>provisioned\<close> is what the sidecar printed, \<open>None\<close> when it failed or printed no text.\<close>

definition client_config ::
    "string \<Rightarrow> string \<Rightarrow> string \<Rightarrow> string \<Rightarrow> string option \<Rightarrow> mcp_client \<Rightarrow> mcp_db \<Rightarrow> app_error + mcp_db" where
  "client_config now audit_id path digest provisioned client d =
     rbind (guard (mc_status client = ''active'') PermissionDenied) (\<lambda>_.
     rbind (ok_or provisioned Unavailable) (\<lambda>out.
     rbind (guard (valid_sha256_digest (str_trim out)) Storage) (\<lambda>_.
       Inr (append_audit now audit_id ((audit_event ''client'' ''info'' ''executable-bound'')\<lparr>ai_client_id := Some (mc_id client), ai_target := ''cnshell-mcp-sidecar''\<rparr>)
              (bind_executable now (mc_id client) path digest (str_trim out) d)))))"

section \<open>Grants\<close>

record grant_input =
  gi_client_id :: string
  gi_connection_ids :: "string list"
  gi_tools :: "string list"
  gi_remote_root :: string
  gi_show_hostnames :: bool

fun insert_grants :: "(nat \<Rightarrow> string) \<Rightarrow> nat \<Rightarrow> string \<Rightarrow> string \<Rightarrow> string \<Rightarrow> (string \<times> string) list \<Rightarrow> mcp_db \<Rightarrow> app_error + mcp_db" where
  "insert_grants ids n now client root [] d = Inr d"
| "insert_grants ids n now client root ((c, t) # rest) d =
     rbind (insert_grant \<lparr>mg_id = ids n, mg_client_id = client, mg_connection_id = c, mg_tool = t, mg_remote_root = root,
        mg_created_at = now, mg_expires_at = None\<rparr> d) (\<lambda>d. insert_grants ids (n + 1) now client root rest d)"

definition save_grants :: "(string \<Rightarrow> string) \<Rightarrow> (nat \<Rightarrow> string) \<Rightarrow> string \<Rightarrow> string \<Rightarrow> grant_input \<Rightarrow> mcp_db \<Rightarrow> app_error + mcp_db" where
  "save_grants sha ids audit_id now input d =
     rbind (get_client d (gi_client_id input)) (\<lambda>client.
     rbind (guard (mc_status client = ''active'') PermissionDenied) (\<lambda>_.
     rbind (guard (length (gi_connection_ids input) \<le> 256 \<and> length (gi_tools input) \<le> length WRITE_TOOLS + length READ_TOOLS) Validation) (\<lambda>_.
     rbind (normalize_remote_path (gi_remote_root input)) (\<lambda>root.
     rbind (guard (list_all known_tool (gi_tools input)) Validation) (\<lambda>_.
     rbind (rmap (\<lambda>c. rbind (ok_or (md_connections d c) NotFound) (\<lambda>p. guard (p = ''ssh'') Validation)) (gi_connection_ids input)) (\<lambda>_.
     rbind (insert_grants ids 0 now (gi_client_id input) root
              (concat (map (\<lambda>c. map (Pair c) (gi_tools input)) (gi_connection_ids input)))
              (d\<lparr>md_grants := sql_delete (\<lambda>g. mg_client_id g = gi_client_id input) (md_grants d),
                 md_rules := sql_delete (\<lambda>r. rk_client_id (mr_key r) = gi_client_id input) (md_rules d)\<rparr>)) (\<lambda>d.
       Inr (append_audit now audit_id ((audit_event ''grant'' ''medium'' ''updated'')\<lparr>ai_client_id := Some (gi_client_id input),
              ai_target := ''connections:'' @ string_of_nat (length (gi_connection_ids input)) @ '';tools:'' @ string_of_nat (length (gi_tools input))
                 @ '';root:'' @ path_summary sha root\<rparr>)
            (d\<lparr>md_clients := sql_update (\<lambda>c. mc_id c = gi_client_id input)
                 (\<lambda>c. c\<lparr>mc_updated_at := now, mc_show_hostnames := gi_show_hostnames input\<rparr>) (md_clients d)\<rparr>)))))))))"

definition live_until :: "string \<Rightarrow> string option \<Rightarrow> bool" where
  "live_until now expires_at = (case expires_at of None \<Rightarrow> True | Some t \<Rightarrow> now < t)"

text \<open>The result of \<open>require_tool_grant\<close> is the first granted root that holds the path.\<close>

definition require_tool_grant :: "string \<Rightarrow> string \<Rightarrow> string \<Rightarrow> string \<Rightarrow> string option \<Rightarrow> mcp_db \<Rightarrow> string app_result" where
  "require_tool_grant now client connection_id tool path d =
     ok_or (fetch_optional (filter (\<lambda>root. case path of None \<Rightarrow> True | Some p \<Rightarrow> remote_path_is_within p root)
       (map mg_remote_root (filter (\<lambda>g. mg_client_id g = client \<and> mg_connection_id g = connection_id \<and> mg_tool g = tool
          \<and> live_until now (mg_expires_at g)) (md_grants d))))) PermissionDenied"

definition granted_connection_ids :: "string \<Rightarrow> string \<Rightarrow> string \<Rightarrow> mcp_db \<Rightarrow> string list" where
  "granted_connection_ids now client tool d = remdups (map mg_connection_id
     (filter (\<lambda>g. mg_client_id g = client \<and> mg_tool g = tool \<and> live_until now (mg_expires_at g)) (md_grants d)))"

section \<open>Approval rules\<close>

definition persistent_rule_exists :: "mcp_db \<Rightarrow> approval_rule_key \<Rightarrow> bool" where
  "persistent_rule_exists d k \<longleftrightarrow> 0 < sql_count (\<lambda>r. mr_key r = k) (md_rules d)"

definition touch_rule :: "string \<Rightarrow> approval_rule_key \<Rightarrow> mcp_db \<Rightarrow> mcp_db" where
  "touch_rule now k d = d\<lparr>md_rules := sql_update (\<lambda>r. mr_key r = k) (\<lambda>r. r\<lparr>mr_last_used_at := Some now\<rparr>) (md_rules d)\<rparr>"

definition MAX_RULES :: nat where "MAX_RULES = 256"

definition save_persistent_rule ::
    "(string \<Rightarrow> string) \<Rightarrow> string \<Rightarrow> string \<Rightarrow> string \<Rightarrow> approval_rule_key \<Rightarrow> string \<Rightarrow> mcp_db \<Rightarrow> app_error + mcp_db" where
  "save_persistent_rule sha i audit_id now k command d =
     rbind (guard (rk_tool k = ''cnshell_run_command'' \<and> can_save_command_rule command \<and> rk_target_key k = command_summary sha command) PermissionDenied) (\<lambda>_.
     rbind (guard (persistent_rule_exists d k \<or> sql_count (\<lambda>r. rk_client_id (mr_key r) = rk_client_id k) (md_rules d) < MAX_RULES) Validation) (\<lambda>_.
     (let d = (if persistent_rule_exists d k then touch_rule now k d
               else d\<lparr>md_rules := md_rules d @ [\<lparr>mr_id = i, mr_key = k, mr_created_at = now, mr_last_used_at = Some now\<rparr>]\<rparr>)
      in Inr (append_audit now audit_id ((audit_event ''approval-rule'' ''low'' ''created'')\<lparr>ai_client_id := Some (rk_client_id k),
            ai_connection_id := Some (rk_connection_id k), ai_target := rk_target_key k\<rparr>) d))))"

definition list_approval_rules :: "string \<Rightarrow> mcp_db \<Rightarrow> mcp_rule list app_result" where
  "list_approval_rules client d = rbind (get_client d client) (\<lambda>c. rbind (guard (mc_status c = ''active'') PermissionDenied) (\<lambda>_.
     Inr (newest MAX_RULES (\<lambda>r. [mr_created_at r, mr_id r])
       (filter (\<lambda>r. rk_client_id (mr_key r) = client \<and> md_connections d (rk_connection_id (mr_key r)) \<noteq> None) (md_rules d)))))"

definition revoke_approval_rule :: "string \<Rightarrow> string \<Rightarrow> string \<Rightarrow> mcp_db \<Rightarrow> app_error + mcp_db" where
  "revoke_approval_rule now audit_id i d =
     rbind (ok_or (fetch_optional (filter (\<lambda>r. mr_id r = i) (md_rules d))) NotFound) (\<lambda>r.
       Inr (append_audit now audit_id ((audit_event ''approval-rule'' ''medium'' ''revoked'')\<lparr>ai_client_id := Some (rk_client_id (mr_key r)),
              ai_connection_id := Some (rk_connection_id (mr_key r)), ai_target := rk_target_key (mr_key r)\<rparr>)
            (d\<lparr>md_rules := sql_delete (\<lambda>r. mr_id r = i) (md_rules d)\<rparr>)))"

section \<open>Grants for local paths\<close>

definition active_local_grant :: "string \<Rightarrow> string \<Rightarrow> string \<Rightarrow> string \<Rightarrow> mcp_db \<Rightarrow> mcp_local_grant app_result" where
  "active_local_grant now client i direction d =
     rbind (guard (i \<noteq> [] \<and> length i \<le> 128) Validation) (\<lambda>_.
       ok_or (fetch_optional (filter (\<lambda>g. lg_id g = i \<and> lg_client_id g = client \<and> lg_direction g = direction
          \<and> lg_revoked_at g = None \<and> live_until now (lg_expires_at g)) (md_local_grants d))) PermissionDenied)"

text \<open>The statement that revokes counts the rows it changed; the bookmark goes after it.\<close>

definition consume_local_grant :: "string \<Rightarrow> mcp_local_grant \<Rightarrow> mcp_db \<Rightarrow> app_error + mcp_db" where
  "consume_local_grant now g d =
     (if lg_persistent g then Inr d
      else if sql_count (\<lambda>r. lg_id r = lg_id g \<and> lg_revoked_at r = None) (md_local_grants d) \<noteq> 1 then Inl PermissionDenied
      else Inr (d\<lparr>md_local_grants := sql_update (\<lambda>r. lg_id r = lg_id g \<and> lg_revoked_at r = None) (\<lambda>r. r\<lparr>lg_revoked_at := Some now\<rparr>) (md_local_grants d),
                  md_bookmarks := filter (\<lambda>b. b \<noteq> lg_id g) (md_bookmarks d)\<rparr>))"

text \<open>\<open>picked\<close> is the chosen path's kind and name, \<open>None\<close> when the dialog was cancelled; \<open>expiry\<close> is a day after \<open>now\<close>.\<close>

definition create_local_grant ::
    "string \<Rightarrow> string \<Rightarrow> string \<Rightarrow> string \<Rightarrow> string \<Rightarrow> string \<Rightarrow> string \<Rightarrow> bool \<Rightarrow> (local_kind \<times> string) option \<Rightarrow> mcp_db \<Rightarrow> app_error + (mcp_local_grant option \<times> mcp_db)" where
  "create_local_grant now expiry i audit_id client direction selection persistent picked d =
     rbind (get_client d client) (\<lambda>c.
     rbind (guard (mc_status c = ''active'') PermissionDenied) (\<lambda>_.
     rbind (guard (direction \<in> set [''upload'', ''download'']) Validation) (\<lambda>_.
     rbind (guard (selection \<in> set [''file'', ''directory''] \<and> \<not> (direction = ''download'' \<and> selection \<noteq> ''directory'')) Validation) (\<lambda>_.
     (case picked of None \<Rightarrow> Inr (None, d)
      | Some (kind, name) \<Rightarrow>
         rbind (guard (\<not> (selection = ''file'' \<and> kind \<noteq> LocalFile \<or> selection = ''directory'' \<and> kind \<noteq> LocalDir)) Validation) (\<lambda>_.
         rbind (guard (i \<notin> lg_id ` set (md_local_grants d)) Storage) (\<lambda>_.
         (let g = \<lparr>lg_id = i, lg_client_id = client, lg_direction = direction, lg_display_name = name, lg_persistent = persistent,
                lg_created_at = now, lg_expires_at = (if persistent then None else Some expiry), lg_revoked_at = None\<rparr>
          in Inr (Some g, append_audit now audit_id ((audit_event ''local-grant'' ''medium'' ''created'')\<lparr>ai_client_id := Some client,
                ai_target := direction @ '':'' @ selection\<rparr>) (d\<lparr>md_local_grants := md_local_grants d @ [g], md_bookmarks := i # md_bookmarks d\<rparr>))))))))))"

definition revoke_local_grant :: "string \<Rightarrow> string \<Rightarrow> string \<Rightarrow> mcp_db \<Rightarrow> app_error + mcp_db" where
  "revoke_local_grant now audit_id i d =
     rbind (ok_or (fetch_optional (filter (\<lambda>g. lg_id g = i \<and> lg_revoked_at g = None) (md_local_grants d))) NotFound) (\<lambda>g.
       Inr (append_audit now audit_id ((audit_event ''local-grant'' ''medium'' ''revoked'')\<lparr>ai_client_id := Some (lg_client_id g), ai_target := ''local-capability''\<rparr>)
         (d\<lparr>md_local_grants := sql_update (\<lambda>g. lg_id g = i \<and> lg_revoked_at g = None) (\<lambda>g. g\<lparr>lg_revoked_at := Some now\<rparr>) (md_local_grants d),
            md_bookmarks := filter (\<lambda>b. b \<noteq> i) (md_bookmarks d)\<rparr>)))"

definition list_local_grants :: "string \<Rightarrow> mcp_db \<Rightarrow> mcp_local_grant list app_result" where
  "list_local_grants client d = rbind (get_client d client) (\<lambda>_.
     Inr (rev (sort_key lg_created_at (filter (\<lambda>g. lg_client_id g = client) (md_local_grants d)))))"

section \<open>Secrets\<close>

text \<open>
  The system keychain holds one secret per client; \<open>fresh\<close> is a new random secret, \<open>is_uuid\<close> whether the identifier
  parses. Failures of the keychain itself are left out.
\<close>

definition client_account :: "string \<Rightarrow> string" where
  "client_account i = ''client-v2:'' @ i"

definition provision_client_secret :: "(string \<Rightarrow> string) \<Rightarrow> bool \<Rightarrow> string \<Rightarrow> string \<Rightarrow> (string \<rightharpoonup> string) \<Rightarrow> app_error + (string \<times> (string \<rightharpoonup> string))" where
  "provision_client_secret sha is_uuid fresh i keychain =
     rbind (guard is_uuid Validation) (\<lambda>_. case keychain (client_account i) of
       Some secret \<Rightarrow> Inr (''sha256:'' @ sha secret, keychain)
     | None \<Rightarrow> Inr (''sha256:'' @ sha fresh, keychain(client_account i \<mapsto> fresh)))"

definition revoke_client_secret :: "(string \<Rightarrow> string) \<Rightarrow> bool \<Rightarrow> string \<Rightarrow> string \<Rightarrow> (string \<rightharpoonup> string) \<Rightarrow> app_error + (string \<rightharpoonup> string)" where
  "revoke_client_secret sha is_uuid i expected keychain =
     rbind (guard is_uuid Validation) (\<lambda>_. rbind (guard (valid_sha256_digest expected) Validation) (\<lambda>_.
       case keychain (client_account i) of None \<Rightarrow> Inr keychain
       | Some secret \<Rightarrow> rbind (guard (constant_time_equal expected (''sha256:'' @ sha secret)) PermissionDenied) (\<lambda>_.
           Inr (keychain(client_account i := None)))))"

text \<open>
  Before the sidecar is run to remove a secret: \<open>managed\<close> and \<open>registered\<close> are the canonical paths, \<open>digest\<close> that of the
  managed executable. \<open>runs\<close> tells whether the sidecar succeeded without output.
\<close>

definition cleanup_sidecar_client_secret ::
    "string option \<Rightarrow> string option \<Rightarrow> string \<Rightarrow> string \<Rightarrow> bool \<Rightarrow> string \<Rightarrow> string \<Rightarrow> unit app_result" where
  "cleanup_sidecar_client_secret managed registered digest bundled runs registered_sha expected =
     rbind (guard (valid_sha256_digest expected) PermissionDenied) (\<lambda>_.
     rbind (ok_or managed Storage) (\<lambda>m. rbind (ok_or registered Storage) (\<lambda>r.
     rbind (guard (m = r) PermissionDenied) (\<lambda>_.
     rbind (guard (cleanup_sidecar_digest_is_trusted registered_sha digest bundled) PermissionDenied) (\<lambda>_.
       guard runs Unavailable)))))"

section \<open>Revoking a client\<close>

text \<open>
  \<open>removed\<close> tells which bookmarks could be deleted, \<open>cleaned\<close> whether the sidecar removed the client's secret. The
  revocation itself is committed first and stands whatever the clean-up does.
\<close>

definition revoke_status :: "string \<Rightarrow> string \<Rightarrow> mcp_db \<Rightarrow> app_error + (mcp_client \<times> mcp_db)" where
  "revoke_status now i d =
     rbind (ok_or (fetch_optional (filter (\<lambda>c. mc_id c = i \<and> mc_status c = ''active'') (md_clients d))) NotFound) (\<lambda>c.
       Inr (c, d\<lparr>md_clients := sql_update (\<lambda>c. mc_id c = i \<and> mc_status c = ''active'')
         (\<lambda>c. c\<lparr>mc_status := ''revoked'', mc_updated_at := now, mc_revoked_at := Some now\<rparr>) (md_clients d)\<rparr>))"

fun delete_local_grants :: "(string \<Rightarrow> bool) \<Rightarrow> string \<Rightarrow> string list \<Rightarrow> mcp_db \<Rightarrow> bool \<times> mcp_db" where
  "delete_local_grants removed client [] d = (False, d)"
| "delete_local_grants removed client (i # is) d =
     (if removed i
      then delete_local_grants removed client is (d\<lparr>md_bookmarks := filter (\<lambda>b. b \<noteq> i) (md_bookmarks d),
             md_local_grants := sql_delete (\<lambda>g. lg_id g = i \<and> lg_client_id g = client) (md_local_grants d)\<rparr>)
      else (True, snd (delete_local_grants removed client is d)))"

definition clean_client :: "string \<Rightarrow> string \<Rightarrow> (string \<Rightarrow> bool) \<Rightarrow> bool \<Rightarrow> mcp_client \<Rightarrow> mcp_db \<Rightarrow> bool \<times> mcp_db" where
  "clean_client now i removed cleaned c d =
     (let ids = map lg_id (filter (\<lambda>g. lg_client_id g = i \<and> lg_revoked_at g = None) (md_local_grants d));
          d = d\<lparr>md_local_grants := sql_update (\<lambda>g. lg_client_id g = i \<and> lg_revoked_at g = None) (\<lambda>g. g\<lparr>lg_revoked_at := Some now\<rparr>) (md_local_grants d)\<rparr>;
          (failed, d) = delete_local_grants removed i ids d
      in if mc_executable_path c = None \<or> mc_executable_sha256 c = None \<or> mc_client_secret_sha256 c = None then (failed, d)
         else if cleaned then (failed, d\<lparr>md_clients := sql_update (\<lambda>c. mc_id c = i \<and> mc_status c = ''revoked'') (\<lambda>c. c\<lparr>mc_client_secret_sha256 := None\<rparr>) (md_clients d)\<rparr>)
         else (True, d))"

definition revoke_client :: "string \<Rightarrow> string \<Rightarrow> (string \<Rightarrow> bool) \<Rightarrow> bool \<Rightarrow> string \<Rightarrow> mcp_runtime \<times> mcp_db \<Rightarrow> app_error + (mcp_runtime \<times> mcp_db)" where
  "revoke_client now audit_id removed cleaned i s =
     rbind (revoke_status now i (snd s)) (\<lambda>(c, d).
       (let (failed, d) = clean_client now i removed cleaned c d
        in Inr (revoke_runtime_access i (fst s),
             append_audit now audit_id ((audit_event ''client'' ''medium'' (if failed then ''revoked-cleanup-pending'' else ''revoked''))\<lparr>ai_client_id := Some i\<rparr>) d)))"

text \<open>
  When the broker starts it retries the clean-up of at most 256 revoked clients, the latest first; \<open>cleaned c\<close> tells
  whether the sidecar removes the secret of \<open>c\<close>.
\<close>

definition retry_client :: "string \<Rightarrow> string \<Rightarrow> (string \<Rightarrow> bool) \<Rightarrow> (mcp_client \<Rightarrow> bool) \<Rightarrow> mcp_client \<Rightarrow> mcp_db \<Rightarrow> mcp_db" where
  "retry_client now audit_id removed cleaned c d =
     (let ids = map lg_id (filter (\<lambda>g. lg_client_id g = mc_id c) (md_local_grants d));
          (failed, d) = delete_local_grants removed (mc_id c) ids d;
          registered = mc_executable_path c \<noteq> None \<and> mc_executable_sha256 c \<noteq> None \<and> mc_client_secret_sha256 c \<noteq> None;
          failed = (failed \<or> registered \<and> \<not> cleaned c);
          d = (if registered \<and> cleaned c
               then d\<lparr>md_clients := sql_update (\<lambda>x. mc_id x = mc_id c \<and> mc_status x = ''revoked'') (\<lambda>x. x\<lparr>mc_client_secret_sha256 := None\<rparr>) (md_clients d)\<rparr>
               else d)
      in if (ids \<noteq> [] \<or> registered) \<and> \<not> failed
         then append_audit now audit_id ((audit_event ''client'' ''info'' ''revoked-cleanup-completed'')\<lparr>ai_client_id := Some (mc_id c)\<rparr>) d else d)"

definition retry_revoked_client_cleanup :: "string \<Rightarrow> (string \<Rightarrow> string) \<Rightarrow> (string \<Rightarrow> bool) \<Rightarrow> (mcp_client \<Rightarrow> bool) \<Rightarrow> mcp_db \<Rightarrow> mcp_db" where
  "retry_revoked_client_cleanup now audit_id removed cleaned d =
     fold (\<lambda>c. retry_client now (audit_id (mc_id c)) removed cleaned c)
       (newest 256 mc_revoked_at (filter (\<lambda>c. mc_status c = ''revoked'') (md_clients d))) d"

section \<open>What the statements promise\<close>

lemma append_audit_simps [simp]:
  "md_clients (append_audit now i e d) = md_clients d" "md_grants (append_audit now i e d) = md_grants d"
  "md_rules (append_audit now i e d) = md_rules d" "md_local_grants (append_audit now i e d) = md_local_grants d"
  "md_connections (append_audit now i e d) = md_connections d" "md_bookmarks (append_audit now i e d) = md_bookmarks d"
  by (simp_all add: append_audit_def)

lemma audit_bounded:
  assumes "distinct (map ae_id (md_audit d))" "i \<notin> ae_id ` set (md_audit d)"
  shows "length (md_audit (append_audit now i e d)) \<le> MAX_AUDIT_EVENTS"
proof -
  have "length (keep_newest MAX_AUDIT_EVENTS ae_id ae_created_at (\<lambda>_. True) (md_audit d @ [r])) \<le> MAX_AUDIT_EVENTS"
    if "ae_id r = i" for r :: mcp_audit_event
    using sql_count_keep_newest [of ae_id "md_audit d @ [r]" "\<lambda>_. True" MAX_AUDIT_EVENTS ae_created_at] that assms
    by (simp add: sql_count_def)
  then show ?thesis by (simp add: append_audit_def)
qed

lemma sql_update_all:
  "(\<And>c. c \<in> set cs \<Longrightarrow> \<not> p c \<Longrightarrow> Q c) \<Longrightarrow> (\<And>c. c \<in> set cs \<Longrightarrow> p c \<Longrightarrow> Q (f c)) \<Longrightarrow> \<forall>c \<in> set (sql_update p f cs). Q c"
  by (auto simp: sql_update_def)

lemma get_client_mem: "get_client d i = Inr c \<Longrightarrow> c \<in> set (md_clients d) \<and> mc_id c = i"
  by (auto simp: get_client_def list_clients_def res_iff split: if_splits dest!: fetch_optional_Some_mem)

subsection \<open>Authentication\<close>

lemma authenticate_Inr: "authenticate_client sha now rq d = Inr (c, d') \<Longrightarrow>
    c \<in> set (md_clients d) \<and> mc_id c = rq_client_id rq \<and> mc_status c = ''active''
    \<and> mc_client_secret_sha256 c = Some (''sha256:'' @ sha (rq_client_secret rq))
    \<and> mc_executable_path c = rq_executable_path rq \<and> mc_executable_sha256 c = rq_executable_sha256 rq
    \<and> mc_executable_path c \<noteq> None \<and> mc_executable_sha256 c \<noteq> None"
  by (auto simp: authenticate_client_def res_iff simp del: fetch_optional_None_iff dest!: get_client_mem)

text \<open>A revoked client is not authenticated, whatever it presents and whatever the clean-up did.\<close>

lemma revoked_is_out:
  assumes "revoke_client now audit_id removed cleaned i s = Inr s'" "distinct (map mc_id (md_clients (snd s)))" "rq_client_id rq = i"
  shows "authenticate_client sha t rq (snd s') \<noteq> Inr r"
proof
  assume ok: "authenticate_client sha t rq (snd s') = Inr r"
  obtain c d where st: "revoke_status now i (snd s) = Inr (c, d)" and s': "md_clients (snd s') = md_clients (snd (clean_client now i removed cleaned c d))"
    using assms(1) by (auto simp: revoke_client_def res_iff Let_def case_prod_beta)
  have local_grants: "md_clients (snd (delete_local_grants removed i ids d)) = md_clients d" for ids d
    by (induction ids arbitrary: d) auto
  have clients: "md_clients (d\<lparr>md_clients := X\<rparr>) = X" for d :: mcp_db and X by simp
  have e: "d = snd s\<lparr>md_clients := sql_update (\<lambda>c. mc_id c = i \<and> mc_status c = ''active'')
      (\<lambda>c. c\<lparr>mc_status := ''revoked'', mc_updated_at := now, mc_revoked_at := Some now\<rparr>) (md_clients (snd s))\<rparr>"
    using st by (auto simp only: revoke_status_def res_iff prod.inject sum.inject)
  have d: "md_clients d = sql_update (\<lambda>c. mc_id c = i \<and> mc_status c = ''active'')
      (\<lambda>c. c\<lparr>mc_status := ''revoked'', mc_updated_at := now, mc_revoked_at := Some now\<rparr>) (md_clients (snd s))"
    unfolding e by (rule clients)
  let ?out = "\<lambda>c. mc_id c = i \<longrightarrow> mc_status c \<noteq> ''active''"
  have out: "\<forall>c \<in> set (md_clients d). ?out c" unfolding d by (rule sql_update_all) (blast, simp)
  have "md_clients (snd (clean_client now i removed cleaned c d)) = md_clients d
     \<or> md_clients (snd (clean_client now i removed cleaned c d))
        = sql_update (\<lambda>c. mc_id c = i \<and> mc_status c = ''revoked'') (\<lambda>c. c\<lparr>mc_client_secret_sha256 := None\<rparr>) (md_clients d)"
    by (simp add: clean_client_def Let_def case_prod_beta local_grants)
  moreover have "\<forall>c \<in> set (sql_update (\<lambda>c. mc_id c = i \<and> mc_status c = ''revoked'') (\<lambda>c. c\<lparr>mc_client_secret_sha256 := None\<rparr>) (md_clients d)). ?out c"
    by (rule sql_update_all) (use out in \<open>blast, simp\<close>)
  ultimately have "\<forall>c \<in> set (md_clients (snd s')). ?out c" unfolding s' using out by (elim disjE) (simp_all only:)
  moreover obtain c' d' where "r = (c', d')" by fastforce
  ultimately show False using authenticate_Inr [of sha t rq "snd s'" c' d'] ok assms(3) by auto
qed

subsection \<open>Grants\<close>

definition grant_row :: "(nat \<Rightarrow> string) \<Rightarrow> string \<Rightarrow> string \<Rightarrow> string \<Rightarrow> nat \<times> string \<times> string \<Rightarrow> mcp_grant" where
  "grant_row ids now client root e = (case e of (n, c, t) \<Rightarrow> \<lparr>mg_id = ids n, mg_client_id = client, mg_connection_id = c, mg_tool = t,
     mg_remote_root = root, mg_created_at = now, mg_expires_at = None\<rparr>)"

lemma insert_grants_rows:
  "insert_grants ids n now client root cts d = Inr d' \<Longrightarrow>
    md_grants d' = md_grants d @ map (grant_row ids now client root) (zip [n..<n + length cts] cts)
    \<and> md_rules d' = md_rules d \<and> md_clients d' = md_clients d \<and> md_connections d' = md_connections d"
proof (induction ids n now client root cts d arbitrary: d' rule: insert_grants.induct)
  case (2 ids n now client root c t rest d)
  let ?r = "grant_row ids now client root (n, c, t)"
  obtain d1 where d1: "insert_grant ?r d = Inr d1" "insert_grants ids (n + 1) now client root rest d1 = Inr d'"
    using 2(2) by (auto simp: res_iff grant_row_def)
  have e: "d1 = d\<lparr>md_grants := md_grants d @ [?r]\<rparr>" using d1(1) by (auto simp: insert_grant_def res_iff)
  note IH = 2(1) [OF d1(2)]
  have "[n..<n + length ((c, t) # rest)] = n # [n + 1..<n + 1 + length rest]" by (simp add: upt_conv_Cons del: upt_Suc)
  then show ?case using IH e by (simp del: upt_Suc)
qed simp

lemma save_grants_rows:
  assumes "save_grants sha ids audit_id now input d = Inr d'"
  obtains root rows where "normalize_remote_path (gi_remote_root input) = Inr root"
    "md_grants d' = sql_delete (\<lambda>g. mg_client_id g = gi_client_id input) (md_grants d) @ map (grant_row ids now (gi_client_id input) root) rows"
    "map snd rows = concat (map (\<lambda>c. map (Pair c) (gi_tools input)) (gi_connection_ids input))"
    "md_rules d' = sql_delete (\<lambda>r. rk_client_id (mr_key r) = gi_client_id input) (md_rules d)"
proof -
  let ?cts = "concat (map (\<lambda>c. map (Pair c) (gi_tools input)) (gi_connection_ids input))"
  obtain root d1 where r: "normalize_remote_path (gi_remote_root input) = Inr root"
    "insert_grants ids 0 now (gi_client_id input) root ?cts
              (d\<lparr>md_grants := sql_delete (\<lambda>g. mg_client_id g = gi_client_id input) (md_grants d),
                 md_rules := sql_delete (\<lambda>r. rk_client_id (mr_key r) = gi_client_id input) (md_rules d)\<rparr>) = Inr d1"
    "md_grants d' = md_grants d1" "md_rules d' = md_rules d1"
    using assms by (auto simp: save_grants_def res_iff)
  then show ?thesis using insert_grants_rows [OF r(2)] by (intro that [of root "zip [0..<length ?cts] ?cts"]) simp_all
qed


definition sample_client :: mcp_client where
  "sample_client = \<lparr>mc_id = ''c'', mc_name = ''agent'', mc_status = ''active'', mc_executable_path = None, mc_executable_sha256 = None,
     mc_client_secret_sha256 = None, mc_created_at = ''t'', mc_updated_at = ''t'', mc_last_used_at = None, mc_revoked_at = None,
     mc_show_hostnames = False\<rparr>"

definition sample_mcp_db :: mcp_db where
  "sample_mcp_db = \<lparr>md_clients = [sample_client], md_grants = [], md_rules = [], md_local_grants = [], md_audit = [],
     md_connections = [''h'' \<mapsto> ''ssh''], md_bookmarks = []\<rparr>"

definition sample_grants :: grant_input where
  "sample_grants = \<lparr>gi_client_id = ''c'', gi_connection_ids = [''h''], gi_tools = [''cnshell_file_read''], gi_remote_root = ''/srv'',
     gi_show_hostnames = False\<rparr>"

lemma sample_root: "normalize_remote_path ''/srv'' = Inr ''/srv''"
  by (simp add: normalize_remote_path_def starts_with_def components_def path_of_def)

lemma sample_save: "\<exists>d. save_grants (\<lambda>_. []) (\<lambda>n. ''g'') ''a'' ''t'' sample_grants sample_mcp_db = Inr d"
proof -
  have known: "list_all known_tool [''cnshell_file_read'']" by code_simp
  have client: "get_client sample_mcp_db ''c'' = Inr sample_client"
    by (simp add: get_client_def list_clients_def client_roots_def sample_mcp_db_def sample_client_def fetch_optional_def)
  show ?thesis using known client sample_root
    by (simp add: save_grants_def sample_grants_def sample_client_def WRITE_TOOLS_def READ_TOOLS_def sample_mcp_db_def insert_grant_def sql_delete_def)
qed


subsection \<open>Rules and local grants\<close>

lemma rule_exists_keys: "persistent_rule_exists d k \<longleftrightarrow> k \<in> set (map mr_key (md_rules d))"
  unfolding persistent_rule_exists_def sql_count_pos by auto

lemma save_persistent_rule_Inr:
  assumes "save_persistent_rule sha i audit_id now k command d = Inr d'"
  shows "can_save_command_rule command \<and> rk_tool k = ''cnshell_run_command'' \<and> rk_target_key k = command_summary sha command
    \<and> persistent_rule_exists d' k
    \<and> (\<forall>k'. persistent_rule_exists d' k' \<longleftrightarrow> k' = k \<or> persistent_rule_exists d k')"
proof -
  have g: "can_save_command_rule command" "rk_tool k = ''cnshell_run_command''" "rk_target_key k = command_summary sha command"
    using assms by (auto simp: save_persistent_rule_def res_iff)
  have "persistent_rule_exists d' k' \<longleftrightarrow> k' = k \<or> persistent_rule_exists d k'" for k'
  proof -
    have "map mr_key (md_rules d') = map mr_key (md_rules d) @ (if persistent_rule_exists d k then [] else [k])"
      using assms unfolding save_persistent_rule_def by (auto simp: res_iff Let_def touch_rule_def map_sql_update split: if_splits)
    then have "set (map mr_key (md_rules d')) = set (map mr_key (md_rules d)) \<union> (if persistent_rule_exists d k then {} else {k})" by simp
    then show ?thesis unfolding rule_exists_keys by auto
  qed
  then show ?thesis using g by blast
qed

definition rules_bounded :: "mcp_db \<Rightarrow> bool" where
  "rules_bounded d \<longleftrightarrow> (\<forall>client. sql_count (\<lambda>r. rk_client_id (mr_key r) = client) (md_rules d) \<le> MAX_RULES)"

lemma sql_count_update: "(\<And>r. p r \<Longrightarrow> q (f r) = q r) \<Longrightarrow> sql_count q (sql_update p f rows) = sql_count q rows"
  by (simp add: sql_count_def filter_sql_update length_sql_update)

lemma save_persistent_rule_bounded:
  "save_persistent_rule sha i audit_id now k command d = Inr d' \<Longrightarrow> rules_bounded d \<Longrightarrow> rules_bounded d'"
  unfolding save_persistent_rule_def rules_bounded_def
  by (auto simp: res_iff Let_def touch_rule_def sql_count_update sql_count_append Suc_le_eq split: if_splits)

text \<open>A local grant that is not persistent can be used for one transfer.\<close>

lemma one_time_grant:
  assumes "consume_local_grant now g d = Inr d'" "\<not> lg_persistent g"
  shows "consume_local_grant later g d' = Inl PermissionDenied" "active_local_grant later client (lg_id g) direction d' \<noteq> Inr g'"
proof -
  have rows: "md_local_grants d' = sql_update (\<lambda>r. lg_id r = lg_id g \<and> lg_revoked_at r = None) (\<lambda>r. r\<lparr>lg_revoked_at := Some now\<rparr>) (md_local_grants d)"
    using assms by (auto simp: consume_local_grant_def split: if_splits)
  have used: "\<forall>r \<in> set (md_local_grants d'). \<not> (lg_id r = lg_id g \<and> lg_revoked_at r = None)"
    unfolding rows by (rule sql_update_all) auto
  then have "sql_count (\<lambda>r. lg_id r = lg_id g \<and> lg_revoked_at r = None) (md_local_grants d') = 0"
    by (simp add: sql_count_def filter_empty_conv)
  then show "consume_local_grant later g d' = Inl PermissionDenied" using assms(2) by (simp add: consume_local_grant_def)
  show "active_local_grant later client (lg_id g) direction d' \<noteq> Inr g'"
    using used by (auto simp: active_local_grant_def res_iff dest!: fetch_optional_Some_mem)
qed

end
