(* ===== verification/McpTools.thy ===== *)
theory McpTools
  imports McpStore
begin

text \<open>
  The tools of the MCP broker (\<open>mcp.rs\<close>): the handler of each tool with its checks in their order, the request for
  approval, and the calls to the remote side. What the handlers call in other modules (SFTP, pooled SSH commands,
  bookmarks, the list of connections) and \<open>request_approval\<close> as a whole are parameters, in an environment record;
  each of them may change the shared state (requests of other clients run meanwhile) and takes time. The log records
  grants that were found, approvals that were answered, and calls to the remote side; it is not part of the program.
\<close>

section \<open>Texts shown to the user\<close>

text \<open>In UTF-8.\<close>

definition text_recursive :: string where
  "text_recursive = map char_of [239 :: nat, 188, 136, 233, 128, 146, 229, 189, 146, 239, 188, 137]"

definition text_open_target :: string where
  "text_open_target = map char_of [230 :: nat, 137, 147, 229, 188, 128, 231, 159, 173, 230, 156, 159, 32, 83, 83, 72, 32, 228, 188,
     154, 232, 175, 157]"

definition text_open_preview :: string where
  "text_open_preview = map char_of [229 :: nat, 133, 129, 232, 174, 184, 230, 173, 164, 32, 77, 67, 80, 32, 229, 174, 162, 230, 136,
     183, 231, 171, 175, 229, 156, 168, 230, 156, 172, 230, 172, 161, 32, 67, 78, 115, 104, 101, 108, 108, 32,
     232, 191, 144, 232, 161, 140, 230, 156, 159, 233, 151, 180, 230, 137, 147, 229, 188, 128, 232, 175, 165,
     232, 191, 158, 230, 142, 165, 231, 154, 132, 231, 159, 173, 230, 156, 159, 228, 188, 154, 232, 175, 157,
     227, 128, 130, 232, 191, 158, 230, 142, 165, 229, 175, 134, 231, 160, 129, 227, 128, 129, 231, 167, 129,
     233, 146, 165, 229, 146, 140, 229, 164, 135, 230, 179, 168, 228, 184, 141, 228, 188, 154, 230, 143, 144,
     228, 190, 155, 231, 187, 153, 229, 174, 162, 230, 136, 183, 231, 171, 175, 227, 128, 130]"

definition text_command_target :: string where
  "text_command_target = map char_of [232 :: nat, 191, 156, 231, 171, 175, 229, 145, 189, 228, 187, 164]"

definition text_directory :: string where
  "text_directory = map char_of [229 :: nat, 183, 165, 228, 189, 156, 231, 155, 174, 229, 189, 149, 239, 188, 154, 232, 191, 158,
     230, 142, 165, 233, 187, 152, 232, 174, 164, 231, 155, 174, 229, 189, 149, 10, 232, 182, 133, 230, 151,
     182, 239, 188, 154]"

definition text_seconds :: string where
  "text_seconds = map char_of [32 :: nat, 231, 167, 146, 10, 10]"

definition text_new_file :: string where
  "text_new_file = map char_of [230 :: nat, 150, 176, 229, 187, 186, 230, 150, 135, 228, 187, 182, 10, 43, 43, 43, 32, 230, 150,
     176, 229, 134, 133, 229, 174, 185, 10]"

definition text_overwrite :: string where
  "text_overwrite = map char_of [232 :: nat, 166, 134, 231, 155, 150, 230, 150, 135, 228, 187, 182, 239, 188, 136, 229, 174, 161,
     230, 137, 185, 229, 144, 142, 228, 187, 141, 228, 188, 154, 229, 134, 141, 230, 172, 161, 230, 160, 161,
     233, 170, 140, 32, 101, 120, 112, 101, 99, 116, 101, 100, 83, 104, 97, 50, 53, 54, 239, 188, 137, 10, 45,
     45, 45, 32, 229, 189, 147, 229, 137, 141, 229, 134, 133, 229, 174, 185, 10]"

definition text_new_content :: string where
  "text_new_content = map char_of [10 :: nat, 43, 43, 43, 32, 230, 150, 176, 229, 134, 133, 229, 174, 185, 10]"

definition text_upload :: string where
  "text_upload = map char_of [228 :: nat, 184, 138, 228, 188, 160, 32]"

definition text_download :: string where
  "text_download = map char_of [228 :: nat, 184, 139, 232, 189, 189, 32]"

definition text_to :: string where
  "text_to = map char_of [10 :: nat, 229, 136, 176, 32]"

definition text_into_grant :: string where
  "text_into_grant = map char_of [10 :: nat, 229, 136, 176, 230, 142, 136, 230, 157, 131, 231, 155, 174, 229, 189, 149, 229, 134,
     133, 231, 154, 132, 32]"

section \<open>The world of a handler\<close>

record shared =
  sh_runtime :: mcp_runtime
  sh_db :: mcp_db
  sh_now :: nat
  sh_clock :: string
  sh_cancelled :: bool

datatype remote_call =
    Boundary string string bool
  | ListBounded string string bool
  | ReadRange string string nat nat
  | SystemInfo
  | ExecuteCommand string string nat
  | WriteText string string string "string option"
  | MakeDirectory string string
  | RenamePath string string string string "string option"
  | DeletePath string string bool
  | PathKind string string
  | ValidateRemoteTree string
  | TransferDirectory string "string list" string string string
  | TransferFile string "string list" string string string

datatype event =
    Granted string string string "string option" string
  | Asked approval_ask approval_decision
  | Called string remote_call

record tool_world =
  tw_shared :: shared
  tw_log :: "event list"

type_synonym 'a tool = "tool_world \<Rightarrow> 'a app_result \<times> tool_world"

record text_range =
  tr_content :: string
  tr_next_offset :: "nat option"
  tr_sha256 :: string

record command_output =
  co_exit_code :: int
  co_stdout :: string
  co_stderr :: string
  co_truncated :: bool

record profile =
  pf_id :: string
  pf_name :: string
  pf_protocol :: string
  pf_tags :: "string list"
  pf_has_credential :: bool
  pf_host :: string
  pf_username :: string
  pf_port :: nat

record env =
  en_sha :: "string \<Rightarrow> string"
  en_id :: "shared \<Rightarrow> string"
  en_approve :: "approval_ask \<Rightarrow> shared \<Rightarrow> approval_decision app_result \<times> shared"
  en_connections :: "shared \<Rightarrow> profile list app_result"
  en_call :: "string \<Rightarrow> remote_call \<Rightarrow> shared \<Rightarrow> unit app_result \<times> shared"
  en_list :: "string \<Rightarrow> remote_call \<Rightarrow> shared \<Rightarrow> string list app_result \<times> shared"
  en_read :: "string \<Rightarrow> remote_call \<Rightarrow> shared \<Rightarrow> text_range app_result \<times> shared"
  en_text :: "string \<Rightarrow> remote_call \<Rightarrow> shared \<Rightarrow> string app_result \<times> shared"
  en_command :: "string \<Rightarrow> remote_call \<Rightarrow> shared \<Rightarrow> command_output app_result \<times> shared"
  en_info :: "string \<Rightarrow> remote_call \<Rightarrow> shared \<Rightarrow> (string \<rightharpoonup> string) app_result \<times> shared"
  en_transfer :: "string \<Rightarrow> remote_call \<Rightarrow> shared \<Rightarrow> (string \<times> nat) app_result \<times> shared"
  en_encoded_len :: "string list \<Rightarrow> string option \<Rightarrow> nat"
  en_local :: "string \<Rightarrow> shared \<Rightarrow> (string list \<times> local_fs) app_result"
  en_local_tree :: "string list \<Rightarrow> shared \<Rightarrow> unit app_result"

definition pure :: "'a app_result \<Rightarrow> 'a tool" where
  "pure m w = (m, w)"

definition reads :: "(shared \<Rightarrow> 'a app_result) \<Rightarrow> 'a tool" where
  "reads f w = (f (tw_shared w), w)"

definition on_runtime :: "(shared \<Rightarrow> mcp_runtime \<Rightarrow> 'a app_result \<times> mcp_runtime) \<Rightarrow> 'a tool" where
  "on_runtime f w = (let (r, rt) = f (tw_shared w) (sh_runtime (tw_shared w))
     in (r, w\<lparr>tw_shared := (tw_shared w)\<lparr>sh_runtime := rt\<rparr>\<rparr>))"

definition on_db :: "(shared \<Rightarrow> mcp_db \<Rightarrow> app_error + mcp_db) \<Rightarrow> unit tool" where
  "on_db f w = (case f (tw_shared w) (sh_db (tw_shared w)) of Inl e \<Rightarrow> (Inl e, w)
     | Inr d \<Rightarrow> (Inr (), w\<lparr>tw_shared := (tw_shared w)\<lparr>sh_db := d\<rparr>\<rparr>))"

definition call :: "(string \<Rightarrow> remote_call \<Rightarrow> shared \<Rightarrow> 'a app_result \<times> shared) \<Rightarrow> string \<Rightarrow> remote_call \<Rightarrow> 'a tool" where
  "call f sid c w = (let (r, sh) = f sid c (tw_shared w) in (r, w\<lparr>tw_shared := sh, tw_log := tw_log w @ [Called sid c]\<rparr>))"

section \<open>Checks\<close>

definition tool_grant :: "mcp_client \<Rightarrow> string \<Rightarrow> string \<Rightarrow> string option \<Rightarrow> string tool" where
  "tool_grant client connection_id tool path w =
     (case require_tool_grant (sh_clock (tw_shared w)) (mc_id client) connection_id tool path (sh_db (tw_shared w)) of
        Inl e \<Rightarrow> (Inl e, w) | Inr root \<Rightarrow> (Inr root, w\<lparr>tw_log := tw_log w @ [Granted (mc_id client) connection_id tool path root]\<rparr>))"

definition session_of :: "mcp_client \<Rightarrow> string \<Rightarrow> string tool" where
  "session_of client sid = on_runtime (\<lambda>sh. get_session (sh_now sh) (mc_id client) sid)"

definition ensure_not_cancelled :: "unit tool" where
  "ensure_not_cancelled = reads (\<lambda>sh. guard (\<not> sh_cancelled sh) Unavailable)"

definition get_connection :: "string \<Rightarrow> string tool" where
  "get_connection connection_id = reads (\<lambda>sh. ok_or (md_connections (sh_db sh) connection_id) NotFound)"

text \<open>\<open>request_approval\<close>, the audit of its outcome, and the error of a tool that was not approved.\<close>

definition ask :: "env \<Rightarrow> approval_ask \<Rightarrow> approval_decision tool" where
  "ask e a w = (case en_approve e a (tw_shared w) of (Inl err, sh) \<Rightarrow> (Inl err, w\<lparr>tw_shared := sh\<rparr>)
     | (Inr d, sh) \<Rightarrow> (Inr d, w\<lparr>tw_shared := sh, tw_log := tw_log w @ [Asked a d]\<rparr>))"

definition audit_approval :: "env \<Rightarrow> approval_ask \<Rightarrow> string \<Rightarrow> approval_decision \<Rightarrow> unit tool" where
  "audit_approval e a target d = on_db (\<lambda>sh db. Inr (append_audit (sh_clock sh) (en_id e sh)
     (approval_audit (aa_request_id a) (aa_client_id a) (aa_tool a) (aa_connection_id a) (aa_risk a) target d) db))"

definition must_approve :: "env \<Rightarrow> approval_ask \<Rightarrow> string \<Rightarrow> unit tool" where
  "must_approve e a audit_target = sbind (ask e a) (\<lambda>d. sbind (audit_approval e a audit_target d) (\<lambda>_. pure (guard (approved d) PermissionDenied)))"

definition ask_for :: "mcp_client \<Rightarrow> broker_request \<Rightarrow> string \<Rightarrow> string \<Rightarrow> string \<Rightarrow> string \<Rightarrow> approval_policy \<Rightarrow> approval_ask" where
  "ask_for client rq connection_id risk target preview policy =
     \<lparr>aa_client_id = mc_id client, aa_connection_id = connection_id, aa_request_id = rq_request_id rq, aa_tool = rq_tool rq,
      aa_risk = risk, aa_target = target, aa_preview = preview, aa_policy = policy\<rparr>"

definition approve_path_operation :: "env \<Rightarrow> mcp_client \<Rightarrow> broker_request \<Rightarrow> string \<Rightarrow> string \<Rightarrow> string \<Rightarrow> unit tool" where
  "approve_path_operation e client rq connection_id target risk =
     sbind (get_connection connection_id) (\<lambda>_.
       must_approve e (ask_for client rq connection_id risk target target default_policy) (path_summary (en_sha e) target))"

definition approve_transfer :: "env \<Rightarrow> mcp_client \<Rightarrow> broker_request \<Rightarrow> string \<Rightarrow> string \<Rightarrow> string \<Rightarrow> unit tool" where
  "approve_transfer e client rq connection_id target preview =
     sbind (get_connection connection_id) (\<lambda>_.
       must_approve e (ask_for client rq connection_id ''medium'' target preview default_policy) (path_summary (en_sha e) target))"

section \<open>Handlers\<close>

text \<open>Arguments that do not fit the tool are rejected when they are decoded.\<close>

datatype tool_args =
    ListConnectionsArgs "string option" "nat option" "string option"
  | OpenSessionArgs string
  | SessionArgs string
  | FileListArgs string string "string option" "nat option" bool
  | FileReadArgs string string "nat option" "nat option"
  | SystemInfoArgs string "string list"
  | RunCommandArgs string string "nat option"
  | FileWriteArgs string string string "string option"
  | FilePathArgs string string
  | FileRenameArgs string string string "string option"
  | FileDeleteArgs string string bool
  | FileTransferArgs string string string string string

record shown_connection =
  sc_id :: string
  sc_name :: string
  sc_protocol :: string
  sc_tags :: "string list"
  sc_has_credential :: "bool option"
  sc_address :: "(string \<times> string \<times> nat) option"

datatype tool_result =
    Connections "shown_connection list" "string option"
  | SessionOpened string string
  | SessionClosed
  | FileListing string "string list" "string option"
  | FileContent string text_range
  | SystemFields "string \<rightharpoonup> string"
  | CommandOutput command_output
  | FileWritten string string
  | PathCreated string
  | PathRenamed string string
  | PathDeleted string
  | FileTransferred string string nat
  | ConnectionResource "shown_connection list" bool
  | AuditResource "mcp_audit_event list"

definition clamp :: "nat \<Rightarrow> nat \<Rightarrow> nat \<Rightarrow> nat" where
  "clamp lo hi n = max lo (min hi n)"

definition shown :: "mcp_client \<Rightarrow> profile \<Rightarrow> shown_connection" where
  "shown client p = \<lparr>sc_id = pf_id p, sc_name = pf_name p, sc_protocol = pf_protocol p, sc_tags = pf_tags p,
     sc_has_credential = Some (pf_has_credential p),
     sc_address = (if mc_show_hostnames client then Some (pf_host p, pf_username p, pf_port p) else None)\<rparr>"

definition list_connections :: "env \<Rightarrow> mcp_client \<Rightarrow> string option \<Rightarrow> nat option \<Rightarrow> string option \<Rightarrow> tool_result tool" where
  "list_connections e client cursor limit tag =
     (let limit = clamp 1 100 (case limit of None \<Rightarrow> 100 | Some n \<Rightarrow> n) in
      sbind (pure (decode_cursor cursor)) (\<lambda>offset.
      sbind (reads (\<lambda>sh. Inr (granted_connection_ids (sh_clock sh) (mc_id client) ''cnshell_list_connections'' (sh_db sh)))) (\<lambda>allowed.
      sbind (reads (en_connections e)) (\<lambda>profiles.
        (let cs = sort_key sc_name (map (shown client)
                    (filter (\<lambda>p. case tag of None \<Rightarrow> True | Some t \<Rightarrow> t \<in> set (pf_tags p))
                      (filter (\<lambda>p. pf_protocol p = ''ssh'' \<and> pf_id p \<in> set allowed) profiles)))
         in pure (Inr (Connections (page offset limit cs)
              (if offset + limit < length cs then Some (encode_cursor (offset + limit)) else None))))))))"

definition open_session_tool :: "env \<Rightarrow> mcp_client \<Rightarrow> broker_request \<Rightarrow> string \<Rightarrow> tool_result tool" where
  "open_session_tool e client rq connection_id =
     sbind (tool_grant client connection_id ''cnshell_open_session'' None) (\<lambda>_.
     sbind (get_connection connection_id) (\<lambda>protocol.
     sbind (pure (guard (protocol = ''ssh'') Validation)) (\<lambda>_.
     sbind (reads (\<lambda>sh. Inr ((mc_id client, connection_id) \<in> set (rt_confirmed_connections (sh_runtime sh))))) (\<lambda>confirmed.
     sbind (if confirmed then pure (Inr ())
            else sbind (must_approve e (ask_for client rq connection_id ''low'' text_open_target text_open_preview default_policy) ''session-open'')
                   (\<lambda>_. on_runtime (\<lambda>sh rt. (Inr (), confirm_connection (mc_id client) connection_id rt)))) (\<lambda>_.
     sbind (on_runtime (\<lambda>sh. open_session (sh_now sh) (''mcp-'' @ en_id e sh) (mc_id client) connection_id)) (\<lambda>sid.
       pure (Inr (SessionOpened sid connection_id))))))))"

definition close_session_tool :: "mcp_client \<Rightarrow> string \<Rightarrow> tool_result tool" where
  "close_session_tool client sid =
     sbind (on_runtime (\<lambda>_. close_session (mc_id client) sid)) (\<lambda>_. pure (Inr SessionClosed))"

definition file_list :: "env \<Rightarrow> mcp_client \<Rightarrow> broker_request \<Rightarrow> string \<Rightarrow> string \<Rightarrow> string option \<Rightarrow> nat option \<Rightarrow> bool \<Rightarrow> tool_result tool" where
  "file_list e client rq sid raw_path cursor limit show_hidden =
     sbind (session_of client sid) (\<lambda>connection_id.
     sbind (pure (normalize_remote_path raw_path)) (\<lambda>path.
     sbind (tool_grant client connection_id (rq_tool rq) (Some path)) (\<lambda>root.
     sbind (call (en_call e) sid (Boundary path root False)) (\<lambda>_.
     sbind (pure (decode_cursor cursor)) (\<lambda>offset.
     (let limit = clamp 1 500 (case limit of None \<Rightarrow> 100 | Some n \<Rightarrow> n) in
      sbind (call (en_list e) sid (ListBounded path root show_hidden)) (\<lambda>entries.
      sbind (pure (bounded_file_list_response (en_encoded_len e) (page offset limit entries) offset (length entries))) (\<lambda>(es, next).
        pure (Inr (FileListing path es next))))))))))"

definition file_read :: "env \<Rightarrow> mcp_client \<Rightarrow> broker_request \<Rightarrow> string \<Rightarrow> string \<Rightarrow> nat option \<Rightarrow> nat option \<Rightarrow> tool_result tool" where
  "file_read e client rq sid raw_path offset max_bytes =
     sbind (session_of client sid) (\<lambda>connection_id.
     sbind (pure (normalize_remote_path raw_path)) (\<lambda>path.
     sbind (tool_grant client connection_id (rq_tool rq) (Some path)) (\<lambda>root.
     sbind (call (en_call e) sid (Boundary path root False)) (\<lambda>_.
     sbind (call (en_read e) sid (ReadRange path root (case offset of None \<Rightarrow> 0 | Some n \<Rightarrow> n)
              (clamp 1 (256 * 1024) (case max_bytes of None \<Rightarrow> 64 * 1024 | Some n \<Rightarrow> n)))) (\<lambda>range.
       pure (Inr (FileContent path range)))))))"

definition system_info :: "env \<Rightarrow> mcp_client \<Rightarrow> broker_request \<Rightarrow> string \<Rightarrow> string list \<Rightarrow> tool_result tool" where
  "system_info e client rq sid wanted =
     sbind (session_of client sid) (\<lambda>connection_id.
     sbind (tool_grant client connection_id (rq_tool rq) None) (\<lambda>_.
     sbind (call (en_info e) sid SystemInfo) (\<lambda>info.
     sbind (pure (select_system_info_fields info wanted)) (\<lambda>selected. pure (Inr (SystemFields selected))))))"

definition command_ask :: "env \<Rightarrow> mcp_client \<Rightarrow> broker_request \<Rightarrow> string \<Rightarrow> string \<Rightarrow> nat \<Rightarrow> approval_ask" where
  "command_ask e client rq connection_id command timeout =
     ask_for client rq connection_id (command_risk command) text_command_target
       (text_directory @ string_of_nat timeout @ text_seconds @ command)
       \<lparr>ap_target_key = Some (command_summary (en_sha e) command), ap_can_allow_session = (command_risk command \<noteq> ''high''),
        ap_persistent_command = (if can_save_command_rule command then Some command else None)\<rparr>"

definition run_command :: "env \<Rightarrow> mcp_client \<Rightarrow> broker_request \<Rightarrow> string \<Rightarrow> string \<Rightarrow> nat option \<Rightarrow> tool_result tool" where
  "run_command e client rq sid command timeout_seconds =
     sbind (pure (guard (command \<noteq> [] \<and> length command \<le> 16 * 1024 \<and> CHR 0x00 \<notin> set command) Validation)) (\<lambda>_.
     sbind (session_of client sid) (\<lambda>connection_id.
     sbind (tool_grant client connection_id (rq_tool rq) None) (\<lambda>_.
     sbind (get_connection connection_id) (\<lambda>_.
     (let timeout = clamp 1 600 (case timeout_seconds of None \<Rightarrow> 30 | Some n \<Rightarrow> n) in
      sbind (must_approve e (command_ask e client rq connection_id command timeout) (command_summary (en_sha e) command)) (\<lambda>_.
      sbind (call (en_command e) sid (ExecuteCommand connection_id command timeout)) (\<lambda>out. pure (Inr (CommandOutput out)))))))))"

text \<open>The preview reads the path as it was given, not the normalised one.\<close>

definition file_write_preview :: "env \<Rightarrow> string \<Rightarrow> string \<Rightarrow> string \<Rightarrow> string option \<Rightarrow> string \<Rightarrow> string tool" where
  "file_write_preview e sid raw_path content expected root = (case expected of
     None \<Rightarrow> pure (Inr (text_new_file @ prefixed_preview_lines (bounded_preview content (16 * 1024)) ''+ ''))
   | Some sha \<Rightarrow> sbind (call (en_read e) sid (ReadRange raw_path root 0 (16 * 1024))) (\<lambda>existing.
       sbind (pure (guard (tr_sha256 existing = sha) Remote)) (\<lambda>_.
         pure (Inr (text_overwrite @ prefixed_preview_lines (bounded_preview (tr_content existing) (16 * 1024)) ''- ''
           @ text_new_content @ prefixed_preview_lines (bounded_preview content (16 * 1024)) ''+ '')))))"

definition file_write :: "env \<Rightarrow> mcp_client \<Rightarrow> broker_request \<Rightarrow> string \<Rightarrow> string \<Rightarrow> string \<Rightarrow> string option \<Rightarrow> tool_result tool" where
  "file_write e client rq sid raw_path content expected =
     sbind (pure (guard (length content \<le> 256 * 1024) Validation)) (\<lambda>_.
     sbind (session_of client sid) (\<lambda>connection_id.
     sbind (pure (normalize_remote_path raw_path)) (\<lambda>path.
     sbind (tool_grant client connection_id (rq_tool rq) (Some path)) (\<lambda>root.
     sbind (call (en_call e) sid (Boundary path root True)) (\<lambda>_.
     sbind (get_connection connection_id) (\<lambda>_.
     sbind (file_write_preview e sid raw_path content expected root) (\<lambda>preview.
     sbind (must_approve e (ask_for client rq connection_id ''medium'' path preview default_policy) (path_summary (en_sha e) path)) (\<lambda>_.
     sbind ensure_not_cancelled (\<lambda>_.
     sbind (call (en_call e) sid (Boundary path root True)) (\<lambda>_.
     sbind (call (en_text e) sid (WriteText path root content expected)) (\<lambda>sha. pure (Inr (FileWritten path sha)))))))))))))"

definition file_mkdir :: "env \<Rightarrow> mcp_client \<Rightarrow> broker_request \<Rightarrow> string \<Rightarrow> string \<Rightarrow> tool_result tool" where
  "file_mkdir e client rq sid raw_path =
     sbind (session_of client sid) (\<lambda>connection_id.
     sbind (pure (normalize_remote_path raw_path)) (\<lambda>path.
     sbind (pure (guard (path \<noteq> ''/'') Validation)) (\<lambda>_.
     sbind (tool_grant client connection_id (rq_tool rq) (Some path)) (\<lambda>root.
     sbind (call (en_call e) sid (Boundary path root True)) (\<lambda>_.
     sbind (approve_path_operation e client rq connection_id path ''low'') (\<lambda>_.
     sbind ensure_not_cancelled (\<lambda>_.
     sbind (call (en_call e) sid (Boundary path root True)) (\<lambda>_.
     sbind (call (en_call e) sid (MakeDirectory path root)) (\<lambda>_. pure (Inr (PathCreated path)))))))))))"

definition rename_target :: "string \<Rightarrow> string \<Rightarrow> string" where
  "rename_target source destination = source @ '' -> '' @ destination"

definition file_rename :: "env \<Rightarrow> mcp_client \<Rightarrow> broker_request \<Rightarrow> string \<Rightarrow> string \<Rightarrow> string \<Rightarrow> string option \<Rightarrow> tool_result tool" where
  "file_rename e client rq sid raw_source raw_destination expected =
     sbind (session_of client sid) (\<lambda>connection_id.
     sbind (pure (normalize_remote_path raw_source)) (\<lambda>source.
     sbind (pure (normalize_remote_path raw_destination)) (\<lambda>destination.
     sbind (pure (guard (source \<noteq> ''/'' \<and> destination \<noteq> ''/'') Validation)) (\<lambda>_.
     sbind (tool_grant client connection_id (rq_tool rq) (Some source)) (\<lambda>source_root.
     sbind ensure_not_cancelled (\<lambda>_.
     sbind (tool_grant client connection_id (rq_tool rq) (Some destination)) (\<lambda>destination_root.
     sbind (call (en_call e) sid (Boundary source source_root False)) (\<lambda>_.
     sbind (call (en_call e) sid (Boundary destination destination_root True)) (\<lambda>_.
     sbind (approve_path_operation e client rq connection_id (rename_target source destination) ''medium'') (\<lambda>_.
     sbind ensure_not_cancelled (\<lambda>_.
     sbind (call (en_call e) sid (Boundary source source_root False)) (\<lambda>_.
     sbind (call (en_call e) sid (Boundary destination destination_root True)) (\<lambda>_.
     sbind (call (en_call e) sid (RenamePath source destination source_root destination_root expected)) (\<lambda>_.
       pure (Inr (PathRenamed source destination))))))))))))))))"

definition delete_target :: "string \<Rightarrow> bool \<Rightarrow> string" where
  "delete_target path recursive = path @ (if recursive then text_recursive else [])"

definition file_delete :: "env \<Rightarrow> mcp_client \<Rightarrow> broker_request \<Rightarrow> string \<Rightarrow> string \<Rightarrow> bool \<Rightarrow> tool_result tool" where
  "file_delete e client rq sid raw_path recursive =
     sbind (session_of client sid) (\<lambda>connection_id.
     sbind (pure (normalize_remote_path raw_path)) (\<lambda>path.
     sbind (pure (guard (path \<noteq> ''/'') Validation)) (\<lambda>_.
     sbind (tool_grant client connection_id (rq_tool rq) (Some path)) (\<lambda>root.
     sbind (pure (guard (path \<noteq> root) PermissionDenied)) (\<lambda>_.
     sbind (call (en_call e) sid (Boundary path root False)) (\<lambda>_.
     sbind (approve_path_operation e client rq connection_id (delete_target path recursive) (if recursive then ''high'' else ''medium'')) (\<lambda>_.
     sbind ensure_not_cancelled (\<lambda>_.
     sbind (call (en_call e) sid (Boundary path root False)) (\<lambda>_.
     sbind (call (en_call e) sid (DeletePath path root recursive)) (\<lambda>_. pure (Inr (PathDeleted path))))))))))))"

definition release_after :: "(mcp_runtime \<Rightarrow> mcp_runtime) \<Rightarrow> 'a tool \<Rightarrow> 'a tool" where
  "release_after f m w = (let (r, w') = m w in (r, w'\<lparr>tw_shared := (tw_shared w')\<lparr>sh_runtime := f (sh_runtime (tw_shared w'))\<rparr>\<rparr>))"

text \<open>The permit for a transfer target is held until the handler returns.\<close>

definition with_target :: "env \<Rightarrow> string \<Rightarrow> 'a tool \<Rightarrow> 'a tool" where
  "with_target e target m =
     (let key = ''sha256:'' @ en_sha e target in
      sbind (on_runtime (\<lambda>_. acquire_transfer_target key)) (\<lambda>_. release_after (release_transfer_target key) m))"

definition kind_text :: "local_kind \<Rightarrow> string" where
  "kind_text k = (if k = LocalDir then ''directory'' else ''file'')"

definition file_upload :: "env \<Rightarrow> mcp_client \<Rightarrow> broker_request \<Rightarrow> string \<Rightarrow> string \<Rightarrow> string \<Rightarrow> string \<Rightarrow> string \<Rightarrow> tool_result tool" where
  "file_upload e client rq sid grant_id relative raw_path policy =
     sbind (pure (validate_conflict_policy policy)) (\<lambda>_.
     sbind (session_of client sid) (\<lambda>connection_id.
     sbind (pure (normalize_remote_path raw_path)) (\<lambda>path.
     sbind (tool_grant client connection_id (rq_tool rq) (Some path)) (\<lambda>root.
     sbind (call (en_call e) sid (Boundary path root True)) (\<lambda>_.
     sbind (reads (\<lambda>sh. active_local_grant (sh_clock sh) (mc_id client) grant_id ''upload'' (sh_db sh))) (\<lambda>g.
     sbind (reads (en_local e (lg_id g))) (\<lambda>(local_root, fs).
     sbind (pure (resolve_local_grant_path fs local_root relative False)) (\<lambda>local_path.
     sbind (pure (ok_or (lf_meta fs local_path) Storage)) (\<lambda>kind.
     sbind (pure (guard (kind = LocalDir \<or> kind = LocalFile) Validation)) (\<lambda>_.
     sbind (approve_transfer e client rq connection_id path
              (text_upload @ lg_display_name g @ '' ('' @ kind_text kind @ '')'' @ text_to @ path)) (\<lambda>_.
     sbind ensure_not_cancelled (\<lambda>_.
     sbind (call (en_call e) sid (Boundary path root True)) (\<lambda>_.
     with_target e path (
       sbind (if kind = LocalDir then reads (en_local_tree e local_path) else pure (Inr ())) (\<lambda>_.
       sbind (on_db (\<lambda>sh. consume_local_grant (sh_clock sh) g)) (\<lambda>_.
       sbind (call (en_transfer e) sid ((if kind = LocalDir then TransferDirectory else TransferFile) ''upload'' local_path path policy root)) (\<lambda>(final, n).
         pure (Inr (FileTransferred final (kind_text kind) (if kind = LocalDir then 0 else n))))))))))))))))))))"

definition local_text :: "string list \<Rightarrow> string" where
  "local_text p = path_of p"

definition file_download :: "env \<Rightarrow> mcp_client \<Rightarrow> broker_request \<Rightarrow> string \<Rightarrow> string \<Rightarrow> string \<Rightarrow> string \<Rightarrow> string \<Rightarrow> tool_result tool" where
  "file_download e client rq sid grant_id relative raw_path policy =
     sbind (pure (validate_conflict_policy policy)) (\<lambda>_.
     sbind (pure (guard (relative \<noteq> []) Validation)) (\<lambda>_.
     sbind (session_of client sid) (\<lambda>connection_id.
     sbind (pure (normalize_remote_path raw_path)) (\<lambda>path.
     sbind (tool_grant client connection_id (rq_tool rq) (Some path)) (\<lambda>root.
     sbind (call (en_call e) sid (Boundary path root False)) (\<lambda>_.
     sbind (reads (\<lambda>sh. active_local_grant (sh_clock sh) (mc_id client) grant_id ''download'' (sh_db sh))) (\<lambda>g.
     sbind (reads (en_local e (lg_id g))) (\<lambda>(local_root, fs).
     sbind (pure (resolve_local_grant_path fs local_root relative True)) (\<lambda>local_path.
     sbind (call (en_text e) sid (PathKind path root)) (\<lambda>kind.
     sbind (approve_transfer e client rq connection_id path
              (text_download @ path @ '' ('' @ kind @ '')'' @ text_into_grant @ relative)) (\<lambda>_.
     sbind ensure_not_cancelled (\<lambda>_.
     sbind (call (en_call e) sid (Boundary path root False)) (\<lambda>_.
     with_target e (local_text local_path) (
       sbind (if kind = ''directory'' then call (en_call e) sid (ValidateRemoteTree path) else pure (Inr ())) (\<lambda>_.
       sbind (on_db (\<lambda>sh. consume_local_grant (sh_clock sh) g)) (\<lambda>_.
       sbind (call (en_transfer e) sid ((if kind = ''directory'' then TransferDirectory else TransferFile) ''download'' local_path path policy root)) (\<lambda>(_, n).
         pure (Inr (FileTransferred path kind (if kind = ''directory'' then 0 else n))))))))))))))))))))"

definition execute_tool :: "env \<Rightarrow> mcp_client \<Rightarrow> broker_request \<Rightarrow> tool_args \<Rightarrow> tool_result tool" where
  "execute_tool e client rq args =
     (let tool = rq_tool rq in
      case args of
        ListConnectionsArgs cursor limit tag \<Rightarrow> if tool = ''cnshell_list_connections'' then list_connections e client cursor limit tag else pure (Inl Validation)
      | OpenSessionArgs c \<Rightarrow> if tool = ''cnshell_open_session'' then open_session_tool e client rq c else pure (Inl Validation)
      | SessionArgs sid \<Rightarrow> if tool = ''cnshell_close_session'' then close_session_tool client sid else pure (Inl Validation)
      | FileListArgs sid p cursor limit h \<Rightarrow> if tool = ''cnshell_file_list'' then file_list e client rq sid p cursor limit h else pure (Inl Validation)
      | FileReadArgs sid p off n \<Rightarrow> if tool = ''cnshell_file_read'' then file_read e client rq sid p off n else pure (Inl Validation)
      | SystemInfoArgs sid fs \<Rightarrow> if tool = ''cnshell_system_info'' then system_info e client rq sid fs else pure (Inl Validation)
      | RunCommandArgs sid c t \<Rightarrow> if tool = ''cnshell_run_command'' then run_command e client rq sid c t else pure (Inl Validation)
      | FileWriteArgs sid p c x \<Rightarrow> if tool = ''cnshell_file_write'' then file_write e client rq sid p c x else pure (Inl Validation)
      | FilePathArgs sid p \<Rightarrow> if tool = ''cnshell_file_mkdir'' then file_mkdir e client rq sid p else pure (Inl Validation)
      | FileRenameArgs sid a b x \<Rightarrow> if tool = ''cnshell_file_rename'' then file_rename e client rq sid a b x else pure (Inl Validation)
      | FileDeleteArgs sid p r \<Rightarrow> if tool = ''cnshell_file_delete'' then file_delete e client rq sid p r else pure (Inl Validation)
      | FileTransferArgs sid g rel p policy \<Rightarrow>
          if tool = ''cnshell_file_upload'' then file_upload e client rq sid g rel p policy
          else if tool = ''cnshell_file_download'' then file_download e client rq sid g rel p policy else pure (Inl Validation))"

section \<open>Requests\<close>

definition resource_connections :: "env \<Rightarrow> mcp_client \<Rightarrow> tool_result tool" where
  "resource_connections e client =
     sbind (reads (\<lambda>sh. Inr (granted_connection_ids (sh_clock sh) (mc_id client) ''cnshell_list_connections'' (sh_db sh)))) (\<lambda>allowed.
     sbind (reads (en_connections e)) (\<lambda>profiles.
       (let cs = sort_key sc_name (map (\<lambda>p. (shown client p)\<lparr>sc_has_credential := None\<rparr>)
                   (filter (\<lambda>p. pf_protocol p = ''ssh'' \<and> pf_id p \<in> set allowed) profiles))
        in pure (Inr (ConnectionResource (take 256 cs) (256 < length cs))))))"

definition execute_operation :: "env \<Rightarrow> mcp_client \<Rightarrow> broker_request \<Rightarrow> tool_args \<Rightarrow> tool_result tool" where
  "execute_operation e client rq args =
     (if rq_tool rq = ''resource:connections'' then resource_connections e client
      else if rq_tool rq = ''resource:audit-recent'' then reads (\<lambda>sh. Inr (AuditResource (resource_recent_audit (mc_id client) (sh_db sh))))
      else execute_tool e client rq args)"

definition transferred :: "tool_result \<Rightarrow> nat" where
  "transferred r = (case r of FileTransferred _ _ n \<Rightarrow> n | _ \<Rightarrow> 0)"

definition truncated :: "tool_result \<Rightarrow> bool" where
  "truncated r = (case r of FileContent _ part \<Rightarrow> tr_next_offset part \<noteq> None | CommandOutput out \<Rightarrow> co_truncated out
     | ConnectionResource _ t \<Rightarrow> t | _ \<Rightarrow> False)"

text \<open>The outcome of the operation goes into the audit trail, and the result of the request is the operation's.\<close>

definition audited :: "env \<Rightarrow> mcp_client \<Rightarrow> broker_request \<Rightarrow> tool_result tool \<Rightarrow> tool_result tool" where
  "audited e client rq m w =
     (let started = sh_now (tw_shared w);
          (r, w') = m w;
          input = (audit_request (rq_request_id rq) (mc_id client) (rq_tool rq) (if is_ok r then ''completed'' else ''failed''))
                    \<lparr>ai_duration_ms := Some (sh_now (tw_shared w') - started)\<rparr>;
          input = (case r of Inl _ \<Rightarrow> input
             | Inr x \<Rightarrow> input\<lparr>ai_transferred_bytes := Some (transferred x), ai_truncated := truncated x\<rparr>)
      in (r, snd (on_db (\<lambda>sh d. Inr (append_audit (sh_clock sh) (en_id e sh) input d)) w')))"

definition authenticate :: "env \<Rightarrow> broker_request \<Rightarrow> mcp_client tool" where
  "authenticate e rq w =
     (let sh = tw_shared w in
      case authenticate_client (en_sha e) (sh_clock sh) rq (sh_db sh) of
        Inr (client, d) \<Rightarrow> (Inr client, w\<lparr>tw_shared := sh\<lparr>sh_db := d, sh_runtime := clear_auth_failure (rq_client_id rq) (sh_runtime sh)\<rparr>\<rparr>)
      | Inl err \<Rightarrow> (Inl err, w\<lparr>tw_shared := sh\<lparr>sh_runtime := record_auth_failure (sh_now sh) (rq_client_id rq) (sh_runtime sh),
            sh_db := append_audit (sh_clock sh) (en_id e sh) ((audit_event ''authentication'' ''medium'' ''failed'')\<lparr>ai_client_id := Some (rq_client_id rq)\<rparr>) (sh_db sh)\<rparr>\<rparr>))"

definition execute_request :: "env \<Rightarrow> string \<Rightarrow> string \<Rightarrow> broker_request \<Rightarrow> tool_args \<Rightarrow> tool_result tool" where
  "execute_request e generation broker_token rq args =
     sbind (pure (validate_broker_request generation broker_token rq)) (\<lambda>_.
     sbind (reads (\<lambda>sh. check_auth_backoff (sh_now sh) (rq_client_id rq) (sh_runtime sh))) (\<lambda>_.
     sbind (authenticate e rq) (\<lambda>client.
     sbind (on_runtime (\<lambda>_. acquire_execution (mc_id client))) (\<lambda>_.
     release_after (release_execution (mc_id client)) (
       sbind (on_runtime (\<lambda>sh. register_request (rq_request_id rq) (mc_id client) (sh_cancelled sh))) (\<lambda>_.
       release_after (release_request (rq_request_id rq)) (
         sbind (on_runtime (\<lambda>sh. authorize_rate (sh_now sh) (mc_id client) (rq_tool rq \<in> set WRITE_TOOLS))) (\<lambda>_.
           audited e client rq (execute_operation e client rq args)))))))))"

text \<open>The answer on the wire: the identifier of the request, and a result or the code of the error.\<close>

definition broker_response :: "broker_request \<Rightarrow> 'a app_result \<Rightarrow> string \<times> (string + 'a)" where
  "broker_response rq r = (rq_request_id rq, map_err app_error_code r)"

section \<open>The client's side\<close>

text \<open>
  \<open>broker_operation_call\<close> in the sidecar: what it requires of the discovery file and of the address before it sends
  the request, and the error it makes of an answer. The length is that of the encoded request.
\<close>

record discovery =
  dc_is_symlink :: bool
  dc_len :: nat
  dc_document :: "(nat \<times> string \<times> string \<times> string) option"

definition client_request ::
    "string \<Rightarrow> string \<Rightarrow> string option \<Rightarrow> string \<times> string \<Rightarrow> string \<Rightarrow> (broker_request \<Rightarrow> nat) \<Rightarrow> discovery option \<Rightarrow> string \<Rightarrow> (string \<times> broker_request) app_result" where
  "client_request client_id client_name secret executable request_id encoded_len discovery operation =
     rbind (guard (known_broker_operation operation) Validation) (\<lambda>_.
     rbind (ok_or discovery Unavailable) (\<lambda>dc.
     rbind (guard (\<not> dc_is_symlink dc \<and> dc_len dc \<le> 16 * 1024) PermissionDenied) (\<lambda>_.
     rbind (ok_or (dc_document dc) Storage) (\<lambda>(schema_version, generation, broker_token, address).
     rbind (guard (schema_version = 1) Unavailable) (\<lambda>_.
     rbind (guard (32 \<le> length broker_token) Storage) (\<lambda>_.
     rbind (ok_or secret PermissionDenied) (\<lambda>secret.
     (let rq = \<lparr>rq_protocol_version = 1, rq_generation = generation, rq_broker_token = broker_token, rq_client_id = client_id,
            rq_client_secret = secret, rq_client_name = client_name, rq_executable_path = Some (fst executable),
            rq_executable_sha256 = Some (''sha256:'' @ snd executable), rq_request_id = request_id, rq_tool = operation\<rparr>
      in rbind (guard (encoded_len rq \<le> MAX_BROKER_MESSAGE_BYTES) Validation) (\<lambda>_.
         rbind (ok_or (case rsplit_once (CHR '':'') address of None \<Rightarrow> None
             | Some (host, port) \<Rightarrow> if parse_unsigned (2 ^ 16 - 1) port = None then None else parse_ip (trim_chars (\<lambda>c. c = CHR ''['' \<or> c = CHR '']'') host)) Storage) (\<lambda>ip.
         rbind (guard (is_loopback ip) PermissionDenied) (\<lambda>_. Inr (address, rq))))))))))))"

definition response_error :: "string \<Rightarrow> app_error" where
  "response_error code =
     (if code = ''not_found'' then NotFound else if code = ''invalid_params'' then Validation
      else if code = ''authentication'' then Authentication else if code = ''permission_denied'' then PermissionDenied
      else if code = ''remote'' then Remote else if code = ''unavailable'' then Unavailable else Internal)"

definition client_result :: "nat \<Rightarrow> (bool \<times> 'a option \<times> string option) option \<Rightarrow> 'a app_result" where
  "client_result len response =
     rbind (guard (len \<noteq> 0 \<and> len \<le> MAX_BROKER_MESSAGE_BYTES) Storage) (\<lambda>_.
     rbind (ok_or response Storage) (\<lambda>(success, result, code).
       if success then ok_or result Internal
       else Inl (response_error (case code of None \<Rightarrow> ''internal'' | Some c \<Rightarrow> c))))"

text \<open>Errors reach the client as they left the broker, except storage errors and those about host keys.\<close>

lemma response_error_code:
  "response_error (app_error_code err) =
     (case err of Storage \<Rightarrow> Internal | HostKeyUnknown _ _ \<Rightarrow> Internal | HostKeyChanged _ _ \<Rightarrow> Internal | _ \<Rightarrow> err)"
  by (cases err) (simp_all add: response_error_def)

end
