(* ===== verification/McpConsent.thy ===== *)
theory McpConsent
  imports McpTools
begin

text \<open>
  No tool of the MCP broker changes anything on a remote host, and none runs a command there, before a grant for it
  was found and the user, or a rule of the user, approved a request that shows it.
\<close>

section \<open>What a call needs\<close>

fun mutating :: "remote_call \<Rightarrow> bool" where
  "mutating (ExecuteCommand _ _ _) = True"
| "mutating (WriteText _ _ _ _) = True"
| "mutating (MakeDirectory _ _) = True"
| "mutating (RenamePath _ _ _ _ _) = True"
| "mutating (DeletePath _ _ _) = True"
| "mutating (TransferDirectory _ _ _ _ _) = True"
| "mutating (TransferFile _ _ _ _ _) = True"
| "mutating _ = False"

text \<open>What the user sees in the request for approval.\<close>

fun displays :: "approval_ask \<Rightarrow> remote_call \<Rightarrow> bool" where
  "displays a (ExecuteCommand connection_id command timeout) \<longleftrightarrow> aa_connection_id a = connection_id
     \<and> aa_preview a = text_directory @ string_of_nat timeout @ text_seconds @ command"
| "displays a (WriteText path root content expected) \<longleftrightarrow> aa_target a = path"
| "displays a (MakeDirectory path root) \<longleftrightarrow> aa_target a = path"
| "displays a (RenamePath source destination r r' expected) \<longleftrightarrow> aa_target a = rename_target source destination"
| "displays a (DeletePath path root recursive) \<longleftrightarrow> aa_target a = delete_target path recursive \<and> (recursive \<longrightarrow> aa_risk a = ''high'')"
| "displays a (TransferDirectory direction local_path path policy root) \<longleftrightarrow> aa_target a = path"
| "displays a (TransferFile direction local_path path policy root) \<longleftrightarrow> aa_target a = path"
| "displays a _ \<longleftrightarrow> True"

text \<open>The grants a call rests on: each path lies under the root that was granted for the connection and the tool.\<close>

definition path_granted :: "event set \<Rightarrow> string \<Rightarrow> string \<Rightarrow> string \<Rightarrow> string \<Rightarrow> string \<Rightarrow> bool" where
  "path_granted past client connection_id tool path root \<longleftrightarrow>
     Granted client connection_id tool (Some path) root \<in> past \<and> remote_path_is_within path root"

fun granted :: "event set \<Rightarrow> string \<Rightarrow> string \<Rightarrow> string \<Rightarrow> remote_call \<Rightarrow> bool" where
  "granted past cl c t (ExecuteCommand connection_id command timeout) \<longleftrightarrow> (\<exists>root. Granted cl c t None root \<in> past)"
| "granted past cl c t (WriteText path root content expected) \<longleftrightarrow> path_granted past cl c t path root"
| "granted past cl c t (MakeDirectory path root) \<longleftrightarrow> path_granted past cl c t path root \<and> path \<noteq> ''/''"
| "granted past cl c t (RenamePath source destination r r' expected) \<longleftrightarrow> path_granted past cl c t source r
     \<and> path_granted past cl c t destination r' \<and> source \<noteq> ''/'' \<and> destination \<noteq> ''/''"
| "granted past cl c t (DeletePath path root recursive) \<longleftrightarrow> path_granted past cl c t path root \<and> path \<noteq> root \<and> path \<noteq> ''/''"
| "granted past cl c t (TransferDirectory direction local_path path policy root) \<longleftrightarrow> path_granted past cl c t path root"
| "granted past cl c t (TransferFile direction local_path path policy root) \<longleftrightarrow> path_granted past cl c t path root"
| "granted past cl c t _ \<longleftrightarrow> True"

definition allowed :: "string \<Rightarrow> broker_request \<Rightarrow> event set \<Rightarrow> remote_call \<Rightarrow> bool" where
  "allowed client rq past c \<longleftrightarrow> (\<exists>a d. Asked a d \<in> past \<and> approved d \<and> aa_client_id a = client
     \<and> aa_request_id a = rq_request_id rq \<and> aa_tool a = rq_tool rq \<and> displays a c
     \<and> granted past client (aa_connection_id a) (rq_tool rq) c)"

definition consented :: "string \<Rightarrow> broker_request \<Rightarrow> event list \<Rightarrow> bool" where
  "consented client rq log \<longleftrightarrow> (\<forall>before sid c after. log = before @ Called sid c # after \<longrightarrow> mutating c \<longrightarrow> allowed client rq (set before) c)"

lemma granted_mono: "granted past cl c t x \<Longrightarrow> past \<subseteq> past' \<Longrightarrow> granted past' cl c t x"
  by (cases x) (auto simp: path_granted_def)

lemma allowed_mono: "allowed cl rq past x \<Longrightarrow> past \<subseteq> past' \<Longrightarrow> allowed cl rq past' x"
  unfolding allowed_def using granted_mono by blast

lemma consented_Nil [simp]: "consented cl rq []"
  by (simp add: consented_def)

lemma consented_snoc:
  assumes "consented cl rq log" "\<And>sid c. ev = Called sid c \<Longrightarrow> mutating c \<Longrightarrow> allowed cl rq (set log) c"
  shows "consented cl rq (log @ [ev])"
  unfolding consented_def
proof (intro allI impI)
  fix before sid c after
  assume e: "log @ [ev] = before @ Called sid c # after" and m: "mutating c"
  show "allowed cl rq (set before) c"
  proof (cases after rule: rev_cases)
    case Nil
    then show ?thesis using e m assms(2) by simp
  next
    case (snoc as x)
    then have "log = before @ Called sid c # as" using e by simp
    then show ?thesis using assms(1) m unfolding consented_def by blast
  qed
qed

section \<open>Rules for handlers\<close>

text \<open>\<open>safe F m\<close>: \<open>m\<close> may follow a log that holds the events \<open>F\<close>.\<close>

definition safe :: "string \<Rightarrow> broker_request \<Rightarrow> event set \<Rightarrow> 'a tool \<Rightarrow> bool" where
  "safe cl rq F m \<longleftrightarrow> (\<forall>w. consented cl rq (tw_log w) \<longrightarrow> F \<subseteq> set (tw_log w) \<longrightarrow>
     consented cl rq (tw_log (snd (m w))) \<and> set (tw_log w) \<subseteq> set (tw_log (snd (m w))))"

lemma safeD:
  assumes "safe cl rq F m" "consented cl rq (tw_log w)" "F \<subseteq> set (tw_log w)" "m w = (r, w')"
  shows "consented cl rq (tw_log w')" "set (tw_log w) \<subseteq> set (tw_log w')"
proof -
  have "consented cl rq (tw_log (snd (m w))) \<and> set (tw_log w) \<subseteq> set (tw_log (snd (m w)))"
    using assms(1-3) unfolding safe_def by blast
  then show "consented cl rq (tw_log w')" "set (tw_log w) \<subseteq> set (tw_log w')" using assms(4) by simp_all
qed

lemma safe_cont:
  assumes "safe cl rq F k" "consented cl rq (tw_log w')" "F \<subseteq> set (tw_log w')" "set (tw_log w) \<subseteq> set (tw_log w')"
  shows "consented cl rq (tw_log (snd (k w'))) \<and> set (tw_log w) \<subseteq> set (tw_log (snd (k w')))"
  using safeD [OF assms(1-3), of "fst (k w')" "snd (k w')"] assms(4) by auto

definition quiet :: "'a tool \<Rightarrow> ('a \<Rightarrow> bool) \<Rightarrow> bool" where
  "quiet m R \<longleftrightarrow> (\<forall>w. tw_log (snd (m w)) = tw_log w \<and> (\<forall>x. fst (m w) = Inr x \<longrightarrow> R x))"

lemma safe_seq:
  assumes "safe cl rq F m" "\<And>x. safe cl rq F (k x)"
  shows "safe cl rq F (sbind m k)"
  unfolding safe_def
proof (intro allI impI)
  fix w :: tool_world
  assume w: "consented cl rq (tw_log w)" "F \<subseteq> set (tw_log w)"
  obtain r w' where m: "m w = (r, w')" by fastforce
  have w': "consented cl rq (tw_log w')" "set (tw_log w) \<subseteq> set (tw_log w')" using safeD [OF assms(1) w m] by blast+
  show "consented cl rq (tw_log (snd (sbind m k w))) \<and> set (tw_log w) \<subseteq> set (tw_log (snd (sbind m k w)))"
  proof (cases r)
    case (Inl e)
    then show ?thesis using m w' by simp
  next
    case (Inr x)
    have "F \<subseteq> set (tw_log w')" using w(2) w'(2) by blast
    then show ?thesis using safe_cont [OF assms(2) w'(1) _ w'(2)] m Inr by simp
  qed
qed

lemma safe_quiet: "quiet m R \<Longrightarrow> safe cl rq F m"
  by (simp add: quiet_def safe_def)

lemma safe_quiet_seq:
  assumes "quiet m R" "\<And>x. R x \<Longrightarrow> safe cl rq F (k x)"
  shows "safe cl rq F (sbind m k)"
  unfolding safe_def
proof (intro allI impI)
  fix w :: tool_world
  assume w: "consented cl rq (tw_log w)" "F \<subseteq> set (tw_log w)"
  obtain r w' where m: "m w = (r, w')" by fastforce
  have w': "tw_log w' = tw_log w" "\<And>x. r = Inr x \<Longrightarrow> R x" using assms(1) m by (auto simp: quiet_def dest: spec [of _ w])
  show "consented cl rq (tw_log (snd (sbind m k w))) \<and> set (tw_log w) \<subseteq> set (tw_log (snd (sbind m k w)))"
  proof (cases r)
    case (Inl e)
    then show ?thesis using m w w' by simp
  next
    case (Inr x)
    then have "safe cl rq F (k x)" using w'(2) assms(2) by blast
    then show ?thesis using safe_cont [of cl rq F "k x" w' w] m Inr w w'(1) by simp
  qed
qed

lemma quiet_pure: "quiet (pure m) (\<lambda>x. m = Inr x)"
  by (simp add: quiet_def pure_def)

lemma quiet_reads: "quiet (reads f) (\<lambda>_. True)"
  by (simp add: quiet_def reads_def)

lemma quiet_on_runtime: "quiet (on_runtime f) (\<lambda>_. True)"
  by (simp add: quiet_def on_runtime_def case_prod_beta Let_def)

lemma quiet_on_db: "quiet (on_db f) (\<lambda>_. True)"
  by (simp add: quiet_def on_db_def split: sum.split)

lemma quiet_get_connection: "quiet (get_connection c) (\<lambda>_. True)"
  unfolding get_connection_def by (rule quiet_reads)

lemma quiet_not_cancelled: "quiet ensure_not_cancelled (\<lambda>_. True)"
  unfolding ensure_not_cancelled_def by (rule quiet_reads)

lemma quiet_session_of: "quiet (session_of client sid) (\<lambda>_. True)"
  unfolding session_of_def by (rule quiet_on_runtime)

lemmas quiet_rules = safe_quiet_seq [OF quiet_reads] safe_quiet_seq [OF quiet_on_runtime] safe_quiet_seq [OF quiet_on_db]
  safe_quiet_seq [OF quiet_get_connection] safe_quiet_seq [OF quiet_not_cancelled] safe_quiet_seq [OF quiet_session_of]

lemma safe_pure: "safe cl rq F (pure m)"
  using quiet_pure by (rule safe_quiet)

lemma safe_pure_seq: "(\<And>x. m = Inr x \<Longrightarrow> safe cl rq F (k x)) \<Longrightarrow> safe cl rq F (sbind (pure m) k)"
  using quiet_pure by (rule safe_quiet_seq)

text \<open>An event that is appended, and the facts it adds.\<close>

lemma safe_event:
  assumes "\<And>w. m w = (Inl (err w), f w) \<and> tw_log (f w) = tw_log w
      \<or> (\<exists>x ev. m w = (Inr x, f w) \<and> tw_log (f w) = tw_log w @ [ev] \<and> E x ev)"
    and "\<And>x ev sid c. E x ev \<Longrightarrow> ev = Called sid c \<Longrightarrow> mutating c \<Longrightarrow> allowed cl rq F c"
    and "\<And>x ev. E x ev \<Longrightarrow> safe cl rq (insert ev F) (k x)"
  shows "safe cl rq F (sbind m k)"
  unfolding safe_def
proof (intro allI impI)
  fix w :: tool_world
  assume w: "consented cl rq (tw_log w)" "F \<subseteq> set (tw_log w)"
  consider "m w = (Inl (err w), f w)" "tw_log (f w) = tw_log w"
    | x ev where "m w = (Inr x, f w)" "tw_log (f w) = tw_log w @ [ev]" "E x ev"
    using assms(1) [of w] by blast
  then show "consented cl rq (tw_log (snd (sbind m k w))) \<and> set (tw_log w) \<subseteq> set (tw_log (snd (sbind m k w)))"
  proof cases
    case 1
    then show ?thesis using w by simp
  next
    case 2
    have "consented cl rq (tw_log w @ [ev])"
      using w(1) by (rule consented_snoc) (use assms(2) [OF 2(3)] allowed_mono w(2) in blast)
    moreover have "insert ev F \<subseteq> set (tw_log (f w))" using 2(2) w(2) by auto
    moreover have "set (tw_log w) \<subseteq> set (tw_log (f w))" using 2(2) by auto
    ultimately show ?thesis using safe_cont [OF assms(3) [OF 2(3)], of "f w" w] 2(1,2) by simp
  qed
qed

lemma require_tool_grant_within: "require_tool_grant now cl c tool (Some p) d = Inr root \<Longrightarrow> remote_path_is_within p root"
  by (auto simp: require_tool_grant_def res_iff dest!: fetch_optional_Some_mem)

lemma safe_tool_grant:
  assumes "\<And>root. (\<And>p. path = Some p \<Longrightarrow> remote_path_is_within p root)
      \<Longrightarrow> safe cl rq (insert (Granted (mc_id client) connection_id tool path root) F) (k root)"
  shows "safe cl rq F (sbind (tool_grant client connection_id tool path) k)"
proof (rule safe_event [where err = "\<lambda>w. case fst (tool_grant client connection_id tool path w) of Inl e \<Rightarrow> e | Inr _ \<Rightarrow> Storage"
      and f = "\<lambda>w. snd (tool_grant client connection_id tool path w)"
      and E = "\<lambda>root ev. ev = Granted (mc_id client) connection_id tool path root \<and> (\<forall>p. path = Some p \<longrightarrow> remote_path_is_within p root)"])
  show "safe cl rq (insert ev F) (k root)"
    if "ev = Granted (mc_id client) connection_id tool path root \<and> (\<forall>p. path = Some p \<longrightarrow> remote_path_is_within p root)" for root ev
    using assms that by blast
qed (auto simp: tool_grant_def dest: require_tool_grant_within split: sum.splits)

lemma safe_ask:
  assumes "\<And>d. safe cl rq (insert (Asked a d) F) (k d)"
  shows "safe cl rq F (sbind (ask e a) k)"
proof (rule safe_event [where err = "\<lambda>w. case fst (ask e a w) of Inl e \<Rightarrow> e | Inr _ \<Rightarrow> Storage"
      and f = "\<lambda>w. snd (ask e a w)" and E = "\<lambda>d ev. ev = Asked a d"])
  show "safe cl rq (insert ev F) (k d)" if "ev = Asked a d" for d ev using assms that by simp
qed (auto simp: ask_def split: sum.splits prod.splits)

lemma safe_call:
  assumes "mutating c \<Longrightarrow> allowed cl rq F c" "\<And>x. safe cl rq F (k x)"
  shows "safe cl rq F (sbind (call f sid c) k)"
  unfolding safe_def
proof (intro allI impI)
  fix w :: tool_world
  assume w: "consented cl rq (tw_log w)" "F \<subseteq> set (tw_log w)"
  obtain r sh where f: "f sid c (tw_shared w) = (r, sh)" by fastforce
  let ?w = "w\<lparr>tw_shared := sh, tw_log := tw_log w @ [Called sid c]\<rparr>"
  have m: "call f sid c w = (r, ?w)" using f by (simp add: call_def)
  have "allowed cl rq (set (tw_log w)) c" if "mutating c" using assms(1) allowed_mono w(2) that by blast
  then have "consented cl rq (tw_log w @ [Called sid c])" using w(1) by (intro consented_snoc) auto
  then have c: "consented cl rq (tw_log ?w)" by simp
  show "consented cl rq (tw_log (snd (sbind (call f sid c) k w))) \<and> set (tw_log w) \<subseteq> set (tw_log (snd (sbind (call f sid c) k w)))"
  proof (cases r)
    case (Inl e)
    then show ?thesis using m c by auto
  next
    case (Inr x)
    have "F \<subseteq> set (tw_log ?w)" using w(2) by auto
    moreover have "set (tw_log w) \<subseteq> set (tw_log ?w)" by auto
    ultimately show ?thesis using safe_cont [OF assms(2) c, of w x] m Inr by simp
  qed
qed

lemma sbind_assoc: "sbind (sbind m f) g = sbind m (\<lambda>x. sbind (f x) g)"
  by (rule ext) (auto simp: sbind_def split: prod.split sum.split)

lemma safe_must_approve:
  assumes "\<And>d. approved d \<Longrightarrow> safe cl rq (insert (Asked a d) F) (k ())"
  shows "safe cl rq F (sbind (must_approve e a t) k)"
  unfolding must_approve_def sbind_assoc audit_approval_def
proof (rule safe_ask, rule quiet_rules(3), rule safe_pure_seq)
  fix d and u :: unit
  assume "guard (approved d) PermissionDenied = Inr u"
  then have "approved d" by (simp add: res_iff)
  then show "safe cl rq (insert (Asked a d) F) (k u)" using assms by simp
qed

lemma safe_with_target: "safe cl rq F m \<Longrightarrow> safe cl rq F (with_target e target m)"
proof -
  assume "safe cl rq F m"
  then have "safe cl rq F (release_after f m)" for f
    by (simp add: safe_def release_after_def case_prod_beta Let_def)
  then show ?thesis unfolding with_target_def Let_def by (rule quiet_rules(2))
qed

section \<open>The handlers\<close>

lemmas step_rules = quiet_rules safe_pure_seq safe_tool_grant safe_must_approve safe_pure

lemma safe_approve_path:
  "(\<And>d. approved d \<Longrightarrow> safe cl rq (insert (Asked (ask_for client rq connection_id risk target target default_policy) d) F) (k ()))
    \<Longrightarrow> safe cl rq F (sbind (approve_path_operation e client rq connection_id target risk) k)"
  unfolding approve_path_operation_def sbind_assoc by (intro quiet_rules(4) safe_must_approve)

lemma safe_approve_transfer:
  "(\<And>d. approved d \<Longrightarrow> safe cl rq (insert (Asked (ask_for client rq connection_id ''medium'' target preview default_policy) d) F) (k ()))
    \<Longrightarrow> safe cl rq F (sbind (approve_transfer e client rq connection_id target preview) k)"
  unfolding approve_transfer_def sbind_assoc by (intro quiet_rules(4) safe_must_approve)

lemma ask_for_simps [simp]:
  "aa_client_id (ask_for client rq c risk target preview policy) = mc_id client" "aa_request_id (ask_for client rq c risk target preview policy) = rq_request_id rq"
  "aa_tool (ask_for client rq c risk target preview policy) = rq_tool rq" "aa_connection_id (ask_for client rq c risk target preview policy) = c"
  "aa_target (ask_for client rq c risk target preview policy) = target" "aa_preview (ask_for client rq c risk target preview policy) = preview"
  "aa_risk (ask_for client rq c risk target preview policy) = risk"
  by (simp_all add: ask_for_def)

lemma allowed_asked:
  "approved d \<Longrightarrow> displays (ask_for client rq c risk target preview policy) x
    \<Longrightarrow> granted (insert (Asked (ask_for client rq c risk target preview policy) d) past) (mc_id client) c (rq_tool rq) x
    \<Longrightarrow> allowed (mc_id client) rq (insert (Asked (ask_for client rq c risk target preview policy) d) past) x"
  unfolding allowed_def by (intro exI [of _ "ask_for client rq c risk target preview policy"] exI [of _ d]) simp

lemmas handler_rules = quiet_rules safe_pure_seq safe_pure safe_tool_grant safe_approve_path safe_approve_transfer safe_must_approve safe_call

lemma safe_mkdir: "safe (mc_id client) rq F (file_mkdir e client rq sid p)"
  unfolding file_mkdir_def
  by (intro handler_rules; (rule allowed_asked)?; simp add: path_granted_def res_iff)

lemma safe_delete: "safe (mc_id client) rq F (file_delete e client rq sid p recursive)"
  unfolding file_delete_def
  by (intro handler_rules; (rule allowed_asked)?; simp add: path_granted_def res_iff)

lemma safe_rename: "safe (mc_id client) rq F (file_rename e client rq sid a b x)"
  unfolding file_rename_def
  by (intro handler_rules; (rule allowed_asked)?; simp add: path_granted_def res_iff)

lemma safe_prod: "(\<And>a b. safe cl rq F (f a b)) \<Longrightarrow> safe cl rq F (case p of (a, b) \<Rightarrow> f a b)"
  by (cases p) simp

lemma safe_if: "(b \<Longrightarrow> safe cl rq F m) \<Longrightarrow> (\<not> b \<Longrightarrow> safe cl rq F m') \<Longrightarrow> safe cl rq F (if b then m else m')"
  by simp

lemma safe_run_command: "safe (mc_id client) rq F (run_command e client rq sid c t)"
  unfolding run_command_def Let_def command_ask_def
  by (intro handler_rules; (rule allowed_asked)?; auto simp: path_granted_def res_iff)

lemma safe_call_only: "(mutating c \<Longrightarrow> allowed cl rq F c) \<Longrightarrow> safe cl rq F (call f sid c)"
proof -
  assume a: "mutating c \<Longrightarrow> allowed cl rq F c"
  have "sbind (call f sid c) (\<lambda>x w. (Inr x, w)) = call f sid c"
    by (rule ext) (auto simp: sbind_def split: prod.split sum.split)
  moreover have "safe cl rq F (\<lambda>w. (Inr x, w))" for x :: 'a by (simp add: safe_def)
  ultimately show ?thesis using safe_call [OF a, of "\<lambda>x w. (Inr x, w)" f sid] by simp
qed

lemma safe_preview: "safe (mc_id client) rq F (file_write_preview e sid p c x root)"
  unfolding file_write_preview_def by (cases x; simp; intro handler_rules; simp)

lemma safe_write: "safe (mc_id client) rq F (file_write e client rq sid p c x)"
  unfolding file_write_def
  by (intro handler_rules safe_seq [OF safe_preview]; (rule allowed_asked)?; simp add: path_granted_def res_iff)

lemma safe_ask_only: "safe cl rq F (must_approve e a t)"
proof -
  have "sbind (must_approve e a t) (\<lambda>x w. (Inr x, w)) = must_approve e a t"
    by (rule ext) (auto simp: sbind_def split: prod.split sum.split)
  moreover have "safe cl rq F' (\<lambda>w. (Inr x, w))" for x :: unit and F' by (simp add: safe_def)
  ultimately show ?thesis using safe_must_approve [of cl rq a F "\<lambda>x w. (Inr x, w)" e t] by simp
qed

lemma safe_open: "safe (mc_id client) rq F (open_session_tool e client rq c)"
  unfolding open_session_tool_def
  by (intro handler_rules safe_seq [where m = "if _ then _ else _"] safe_if safe_quiet [OF quiet_on_runtime] safe_seq [OF safe_ask_only])

lemma safe_close: "safe cl rq F (close_session_tool client sid)"
  unfolding close_session_tool_def by (intro handler_rules)

lemma safe_list: "safe (mc_id client) rq F (file_list e client rq sid p cursor limit h)"
  unfolding file_list_def Let_def by (intro handler_rules safe_prod; simp)

lemma safe_read: "safe (mc_id client) rq F (file_read e client rq sid p offset n)"
  unfolding file_read_def by (intro handler_rules; simp)

lemma safe_info: "safe (mc_id client) rq F (system_info e client rq sid fs)"
  unfolding system_info_def by (intro handler_rules; simp)

lemma safe_connections: "safe cl rq F (list_connections e client cursor limit tag)"
  unfolding list_connections_def Let_def by (intro handler_rules)

lemma safe_upload: "safe (mc_id client) rq F (file_upload e client rq sid g rel p policy)"
  unfolding file_upload_def
  by (intro handler_rules safe_prod safe_with_target safe_seq [where m = "if _ then _ else _"] safe_if safe_quiet [OF quiet_reads];
      (rule allowed_asked)?; simp add: path_granted_def res_iff)

lemma safe_download: "safe (mc_id client) rq F (file_download e client rq sid g rel p policy)"
  unfolding file_download_def
  by (intro handler_rules safe_prod safe_with_target safe_seq [where m = "if _ then _ else _"] safe_if safe_call_only;
      (rule allowed_asked)?; simp add: path_granted_def res_iff)

lemma safe_execute: "safe (mc_id client) rq {} (execute_tool e client rq args)"
  by (cases args) (simp_all add: execute_tool_def Let_def safe_pure safe_mkdir safe_delete safe_rename safe_run_command safe_write safe_open
      safe_close safe_list safe_read safe_info safe_connections safe_upload safe_download)

lemma quiet_authenticate: "quiet (authenticate e rq) (\<lambda>c. mc_id c = rq_client_id rq)"
  unfolding quiet_def authenticate_def by (auto simp: Let_def dest: authenticate_Inr split: sum.splits prod.splits)

lemma safe_release_after: "safe cl rq F m \<Longrightarrow> safe cl rq F (release_after f m)"
  by (simp add: safe_def release_after_def case_prod_beta Let_def)

lemma safe_audited: "safe cl rq F m \<Longrightarrow> safe cl rq F (audited e client rq' m)"
proof -
  assume m: "safe cl rq F m"
  have "tw_log (snd (audited e client rq' m w)) = tw_log (snd (m w))" for w
    using quiet_on_db unfolding quiet_def audited_def by (simp add: Let_def case_prod_beta)
  then show ?thesis using m by (simp add: safe_def)
qed

lemma safe_operation: "safe (mc_id client) rq {} (execute_operation e client rq args)"
  unfolding execute_operation_def resource_connections_def Let_def
  by (intro safe_if safe_execute handler_rules safe_quiet [OF quiet_reads])

lemma safe_request: "safe (rq_client_id rq) rq {} (execute_request e generation broker_token rq args)"
  unfolding execute_request_def
proof (intro safe_pure_seq quiet_rules safe_quiet_seq [OF quiet_authenticate] safe_release_after safe_audited)
  show "safe (rq_client_id rq) rq {} (execute_operation e client rq args)" if "mc_id client = rq_client_id rq" for client
    using safe_operation [of client rq e args] that by simp
qed

lemma refused_request:
  assumes "tw_log w = []" "tw_log (snd (execute_request e generation broker_token rq args w)) \<noteq> []"
  shows "rq_broker_token rq = broker_token \<and> is_ok (authenticate_client (en_sha e) (sh_clock (tw_shared w)) rq (sh_db (tw_shared w)))"
proof (rule ccontr)
  assume bad: "\<not> ?thesis"
  show False
  proof (cases "validate_broker_request generation broker_token rq")
    case (Inl err)
    then show False using assms by (simp add: execute_request_def sbind_def pure_def)
  next
    case (Inr u)
    then have "rq_broker_token rq = broker_token" using validate_broker_request_iff by simp
    then obtain err where a: "authenticate_client (en_sha e) (sh_clock (tw_shared w)) rq (sh_db (tw_shared w)) = Inl err"
      using bad by (auto simp: is_ok_def split: sum.splits)
    have "tw_log (snd (authenticate e rq w)) = []" "\<exists>e'. fst (authenticate e rq w) = Inl e'"
      using a assms(1) by (simp_all add: authenticate_def Let_def)
    then show False using Inr assms
      by (cases "check_auth_backoff (sh_now (tw_shared w)) (rq_client_id rq) (sh_runtime (tw_shared w))")
        (auto simp: execute_request_def sbind_def pure_def reads_def split: prod.splits sum.splits)
  qed
qed


definition sample_env :: "approval_decision \<Rightarrow> env" where
  "sample_env d = \<lparr>en_sha = (\<lambda>_. []), en_id = (\<lambda>_. []), en_approve = (\<lambda>_ sh. (Inr d, sh)), en_connections = (\<lambda>_. Inr []),
     en_call = (\<lambda>_ _ sh. (Inr (), sh)), en_list = (\<lambda>_ _ sh. (Inl Remote, sh)), en_read = (\<lambda>_ _ sh. (Inl Remote, sh)),
     en_text = (\<lambda>_ _ sh. (Inl Remote, sh)), en_command = (\<lambda>_ _ sh. (Inl Remote, sh)), en_info = (\<lambda>_ _ sh. (Inl Remote, sh)), en_transfer = (\<lambda>_ _ sh. (Inl Remote, sh)),
     en_encoded_len = (\<lambda>_ _. 0), en_local = (\<lambda>_ _. Inl Storage), en_local_tree = (\<lambda>_ _. Inl Storage)\<rparr>"

definition sample_tool_world :: tool_world where
  "sample_tool_world = \<lparr>tw_shared = \<lparr>
     sh_runtime = new_runtime\<lparr>rt_sessions := [(''s'', \<lparr>ms_client_id = ''c'', ms_connection_id = ''h'', ms_created_at = 0, ms_last_used_at = 0\<rparr>)]\<rparr>,
     sh_db = sample_mcp_db\<lparr>md_clients := [sample_client\<lparr>mc_executable_path := Some ''/bin/mcp'', mc_executable_sha256 := Some ''sha256:1'',
        mc_client_secret_sha256 := Some ''sha256:''\<rparr>], md_grants := [\<lparr>mg_id = ''g'', mg_client_id = ''c'', mg_connection_id = ''h'', mg_tool = ''cnshell_file_mkdir'',
        mg_remote_root = ''/srv'', mg_created_at = ''t'', mg_expires_at = None\<rparr>]\<rparr>,
     sh_now = 1, sh_clock = ''t'', sh_cancelled = False\<rparr>, tw_log = []\<rparr>"

definition sample_request :: broker_request where
  "sample_request = \<lparr>rq_protocol_version = 1, rq_generation = ''g'', rq_broker_token = ''b'', rq_client_id = ''c'', rq_client_secret = ''s'',
     rq_client_name = ''agent'', rq_executable_path = Some ''/bin/mcp'', rq_executable_sha256 = Some ''sha256:1'', rq_request_id = ''r'', rq_tool = ''cnshell_file_mkdir''\<rparr>"

definition sample_log :: "event list" where
  "sample_log = tw_log (snd (execute_request (sample_env Once) ''g'' ''b'' sample_request (FilePathArgs ''s'' ''/srv/x'') sample_tool_world))"

lemma sample_mkdir: "map (\<lambda>ev. case ev of Called _ c \<Rightarrow> Some c | _ \<Rightarrow> None) sample_log
  = [None, Some (Boundary ''/srv/x'' ''/srv'' True), None, Some (Boundary ''/srv/x'' ''/srv'' True), Some (MakeDirectory ''/srv/x'' ''/srv'')]"
proof -
  have path: "normalize_remote_path ''/srv/x'' = Inr ''/srv/x''"
    by (simp add: normalize_remote_path_def starts_with_def components_def path_of_def)
  have within: "remote_path_is_within ''/srv/x'' ''/srv''" by (simp add: remote_path_is_within_def strip_prefix_def starts_with_def)
  have valid: "validate_broker_request ''g'' ''b'' sample_request = Inr ()"
    by (simp add: validate_broker_request_iff sample_request_def known_broker_operation_def known_tool_def WRITE_TOOLS_def)
  show ?thesis
    by (simp add: sample_log_def execute_request_def valid [unfolded sample_request_def One_nat_def] sbind_def pure_def reads_def check_auth_backoff_def authenticate_def authenticate_client_def get_client_def list_clients_def client_roots_def
        sql_update_def clear_auth_failure_def hm_remove_def hm_insert_def on_runtime_def acquire_execution_def in_flight_def
        release_after_def register_request_def authorize_rate_def rate_step_def slide_def rate_limit_def rate_state_def audited_def
        execute_operation_def execute_tool_def sample_request_def file_mkdir_def session_of_def sample_tool_world_def get_session_def
        remove_expired_sessions_def drop_sessions_def session_expired_def SESSION_IDLE_TTL_def SESSION_MAX_TTL_def new_runtime_def sample_client_def
        path tool_grant_def require_tool_grant_def live_until_def within call_def sample_env_def approve_path_operation_def get_connection_def
        sample_mcp_db_def must_approve_def ask_def audit_approval_def on_db_def approved_def ensure_not_cancelled_def append_audit_def WRITE_TOOLS_def Let_def)
qed


text \<open>Without approval the same request ends before the directory is created.\<close>

lemma approved_or_denied: "must_approve e a t w = (Inr u, w') \<Longrightarrow> \<exists>d. Asked a d \<in> set (tw_log w') \<and> approved d"
  by (auto simp: must_approve_def res_iff ask_def audit_approval_def on_db_def pure_def split: sum.splits prod.splits)

end
