(* ===== verification/McpLimits.thy ===== *)
theory McpLimits
  imports McpRuntime
begin

text \<open>
  The limits of the MCP broker: the rate queues against the history of all admitted requests, the pause after failed
  authentications, and what a client is left with when its authorisations are withdrawn.
\<close>

section \<open>Rates\<close>

text \<open>A call asks at a time for a read or a write of a client.\<close>

record rate_call =
  rc_at :: nat
  rc_client :: string
  rc_write :: bool

definition queue_of :: "string \<Rightarrow> bool \<Rightarrow> mcp_runtime \<Rightarrow> nat list" where
  "queue_of client write rt = (if write then rl_writes (rate_state client rt) else rl_reads (rate_state client rt))"

fun rate_run :: "rate_call list \<Rightarrow> mcp_runtime \<Rightarrow> bool list" where
  "rate_run [] rt = []"
| "rate_run (c # cs) rt = (let (r, rt') = authorize_rate (rc_at c) (rc_client c) (rc_write c) rt in is_ok r # rate_run cs rt')"

text \<open>
  The promise: a call is admitted if fewer than the limit of the same client and kind were admitted in the minute
  before it.
\<close>

definition recent :: "rate_call \<Rightarrow> rate_call list \<Rightarrow> rate_call list" where
  "recent c history = filter (\<lambda>h. rc_client h = rc_client c \<and> rc_write h = rc_write c \<and> rc_at c - rc_at h < 60000) history"

fun rate_spec :: "rate_call list \<Rightarrow> rate_call list \<Rightarrow> bool list" where
  "rate_spec history [] = []"
| "rate_spec history (c # cs) =
     (if length (recent c history) < rate_limit (rc_write c) then True # rate_spec (history @ [c]) cs
      else False # rate_spec history cs)"

fun admitted :: "bool list \<Rightarrow> rate_call list \<Rightarrow> rate_call list" where
  "admitted (b # bs) (c # cs) = (if b then c # admitted bs cs else admitted bs cs)"
| "admitted _ _ = []"

definition times :: "string \<Rightarrow> bool \<Rightarrow> rate_call list \<Rightarrow> nat list" where
  "times client write history = map rc_at (filter (\<lambda>h. rc_client h = client \<and> rc_write h = write) history)"

text \<open>The queue is the history of its client and kind without a beginning that is older than a minute.\<close>

definition rate_rel :: "nat \<Rightarrow> rate_call list \<Rightarrow> mcp_runtime \<Rightarrow> bool" where
  "rate_rel now history rt \<longleftrightarrow> sorted (map rc_at history) \<and> (\<forall>h \<in> set history. rc_at h \<le> now)
     \<and> (\<forall>client write. \<exists>old. times client write history = old @ queue_of client write rt \<and> (\<forall>t \<in> set old. 60000 \<le> now - t))"

lemma slide_sorted: "sorted q \<Longrightarrow> slide now q = filter (\<lambda>t. now - t < 60000) q"
proof (induction q)
  case (Cons t q)
  show ?case
  proof (cases "60000 \<le> now - t")
    case True
    then show ?thesis using Cons by (simp add: slide_def)
  next
    case False
    then have "filter (\<lambda>t. now - t < 60000) q = q" using Cons.prems by (intro filter_True) fastforce
    then show ?thesis using False by (simp add: slide_def)
  qed
qed (simp add: slide_def)

lemma sorted_times: "sorted (map rc_at history) \<Longrightarrow> sorted (times client write history)"
  unfolding times_def by (rule sorted_filter)

lemma queue_authorize:
  "queue_of client write (snd (authorize_rate now c w rt)) =
     (if client = c \<and> write = w then snd (rate_step (rate_limit w) now (queue_of c w rt)) else queue_of client write rt)"
  by (auto simp: authorize_rate_def queue_of_def rate_state_def Let_def split: prod.split)

lemma authorize_iff: "is_ok (fst (authorize_rate now c w rt)) = fst (rate_step (rate_limit w) now (queue_of c w rt))"
  by (auto simp: authorize_rate_def queue_of_def Let_def split: prod.split)

lemma rate_rel_recent:
  assumes "rate_rel now history rt" "now \<le> rc_at c"
  shows "length (slide (rc_at c) (queue_of (rc_client c) (rc_write c) rt)) = length (recent c history)"
proof -
  let ?q = "queue_of (rc_client c) (rc_write c) rt"
  obtain old where old: "times (rc_client c) (rc_write c) history = old @ ?q" "\<forall>t \<in> set old. 60000 \<le> now - t"
    using assms(1) unfolding rate_rel_def by blast
  have "sorted (times (rc_client c) (rc_write c) history)" using assms(1) sorted_times by (simp add: rate_rel_def)
  then have "sorted ?q" using old(1) by (simp add: sorted_append)
  then have "slide (rc_at c) ?q = filter (\<lambda>t. rc_at c - t < 60000) ?q" by (rule slide_sorted)
  also have "\<dots> = filter (\<lambda>t. rc_at c - t < 60000) (old @ ?q)" using old(2) assms(2) by (auto simp: filter_empty_conv)
  also have "\<dots> = map rc_at (recent c history)"
    unfolding old(1) [symmetric] times_def recent_def by (simp add: filter_map comp_def conj_commute conj_left_commute)
  finally show ?thesis by simp
qed

lemma rate_rel_step:
  assumes "rate_rel now history rt" "now \<le> rc_at c"
    and "admit \<longleftrightarrow> length (recent c history) < rate_limit (rc_write c)"
  shows "rate_rel (rc_at c) (if admit then history @ [c] else history) (snd (authorize_rate (rc_at c) (rc_client c) (rc_write c) rt))"
proof -
  let ?h = "if admit then history @ [c] else history"
  let ?rt = "snd (authorize_rate (rc_at c) (rc_client c) (rc_write c) rt)"
  have sorted: "sorted (map rc_at history)" "\<forall>h \<in> set history. rc_at h \<le> now" using assms(1) by (auto simp: rate_rel_def)
  have "\<exists>old. times client wr ?h = old @ queue_of client wr ?rt \<and> (\<forall>t \<in> set old. 60000 \<le> rc_at c - t)" for client wr
  proof -
    obtain old where old: "times client wr history = old @ queue_of client wr rt" "\<forall>t \<in> set old. 60000 \<le> now - t"
      using assms(1) unfolding rate_rel_def by blast
    show ?thesis
    proof (cases "client = rc_client c \<and> wr = rc_write c")
      case False
      then have other: "\<not> (rc_client c = client \<and> rc_write c = wr)" by blast
      have "times client wr ?h = times client wr history" unfolding times_def by (cases admit) (simp_all add: other)
      moreover have "queue_of client wr ?rt = queue_of client wr rt" unfolding queue_authorize using False by (simp only: if_False)
      moreover have "\<forall>t \<in> set old. 60000 \<le> rc_at c - t" using old(2) assms(2) by fastforce
      ultimately show ?thesis using old(1) by auto
    next
      case True
      let ?q = "queue_of client wr rt"
      let ?aged = "takeWhile (\<lambda>t. 60000 \<le> rc_at c - t) ?q"
      have q: "?q = ?aged @ slide (rc_at c) ?q" by (simp add: slide_def)
      have aged: "60000 \<le> rc_at c - t" if "t \<in> set (old @ ?aged)" for t
        using that old(2) assms(2) by (force dest: set_takeWhileD)
      have "length (slide (rc_at c) ?q) = length (recent c history)" using rate_rel_recent [OF assms(1,2)] True by simp
      then have "queue_of client wr ?rt = slide (rc_at c) ?q @ (if admit then [rc_at c] else [])"
        using True assms(3) by (simp add: queue_authorize rate_step_def Let_def)
      moreover have "times client wr ?h = times client wr history @ (if admit then [rc_at c] else [])"
        using True by (simp add: times_def)
      ultimately have "times client wr ?h = (old @ ?aged) @ queue_of client wr ?rt" using old(1) q by simp
      then show ?thesis using aged by blast
    qed
  qed
  moreover have "sorted (map rc_at ?h)" "\<forall>h \<in> set ?h. rc_at h \<le> rc_at c" using sorted assms(2) by (auto simp: sorted_append)
  ultimately show ?thesis unfolding rate_rel_def by blast
qed

lemma rate_run_spec:
  "rate_rel now history rt \<Longrightarrow> sorted (now # map rc_at cs) \<Longrightarrow> rate_run cs rt = rate_spec history cs"
proof (induction cs arbitrary: now history rt)
  case (Cons c cs)
  let ?admit = "length (recent c history) < rate_limit (rc_write c)"
  let ?rt = "snd (authorize_rate (rc_at c) (rc_client c) (rc_write c) rt)"
  have later: "now \<le> rc_at c" using Cons.prems(2) by simp
  have "rate_rel (rc_at c) (if ?admit then history @ [c] else history) ?rt"
    using Cons.prems(1) later by (rule rate_rel_step) simp
  then have "rate_run cs ?rt = rate_spec (if ?admit then history @ [c] else history) cs"
    using Cons.IH Cons.prems(2) by simp
  moreover have "is_ok (fst (authorize_rate (rc_at c) (rc_client c) (rc_write c) rt)) = ?admit"
    using rate_rel_recent [OF Cons.prems(1) later] by (auto simp: authorize_iff rate_step_def Let_def)
  ultimately show ?case by (simp add: case_prod_beta Let_def)
qed simp

text \<open>C37: The rate limiter keeps one queue per client and kind and forgets what is older than a minute; for calls in the
  order of time it admits exactly the calls that the full history of admitted requests allows: fewer than 10 writes
  (60 reads) of that client in the last minute.\<close>

theorem rate_queue_refines: "sorted (map rc_at cs) \<Longrightarrow> rate_run cs new_runtime = rate_spec [] cs"
proof -
  assume "sorted (map rc_at cs)"
  moreover have "rate_rel 0 [] new_runtime"
    by (simp add: rate_rel_def times_def queue_of_def rate_state_def new_runtime_def)
  ultimately show ?thesis using rate_run_spec [of 0 "[]" new_runtime cs] by simp
qed

definition writes_at :: "nat list \<Rightarrow> rate_call list" where
  "writes_at ts = map (\<lambda>t. \<lparr>rc_at = t, rc_client = ''c'', rc_write = True\<rparr>) ts"

theorem rate_queue_refines_witness:
  "rate_run (writes_at [0, 1, 2, 3, 4, 5, 6, 7, 8, 9, 10, 60000]) new_runtime = [True, True, True, True, True, True, True, True, True, True, False, True]"
proof -
  have "rate_spec [] (writes_at [0, 1, 2, 3, 4, 5, 6, 7, 8, 9, 10, 60000]) = [True, True, True, True, True, True, True, True, True, True, False, True]"
    by (simp add: writes_at_def recent_def rate_limit_def)
  moreover have "sorted (map rc_at (writes_at [0, 1, 2, 3, 4, 5, 6, 7, 8, 9, 10, 60000]))" by (simp add: writes_at_def)
  ultimately show ?thesis using rate_queue_refines [of "writes_at [0, 1, 2, 3, 4, 5, 6, 7, 8, 9, 10, 60000]"] by simp
qed

definition window :: "string \<Rightarrow> bool \<Rightarrow> nat \<Rightarrow> rate_call list \<Rightarrow> rate_call list" where
  "window client write start cs =
     filter (\<lambda>c. rc_client c = client \<and> rc_write c = write \<and> start \<le> rc_at c \<and> rc_at c < start + 60000) cs"

lemma window_append: "window client wr start (a @ b) = window client wr start a @ window client wr start b"
  by (simp add: window_def)

lemma spec_window:
  "(\<And>start. length (window client wr start history) \<le> rate_limit wr) \<Longrightarrow> sorted (map rc_at (history @ cs))
    \<Longrightarrow> length (window client wr start (history @ admitted (rate_spec history cs) cs)) \<le> rate_limit wr"
proof (induction cs arbitrary: history)
  case (Cons c cs)
  show ?case
  proof (cases "length (recent c history) < rate_limit (rc_write c)")
    case False
    have "sorted (map rc_at (history @ cs))" using Cons.prems(2) by (simp add: sorted_append)
    then show ?thesis using Cons.IH [of history] Cons.prems(1) False by simp
  next
    case True
    have "length (window client wr start (history @ [c])) \<le> rate_limit wr" for start
    proof (cases "window client wr start [c] = []")
      case True
      then show ?thesis using Cons.prems(1) by (simp add: window_append)
    next
      case False
      then have c: "rc_client c = client" "rc_write c = wr" "start \<le> rc_at c" "rc_at c < start + 60000"
        by (auto simp: window_def split: if_splits)
      have "\<forall>h \<in> set history. rc_at h \<le> rc_at c" using Cons.prems(2) by (auto simp: sorted_append)
      then have "window client wr start history = filter (\<lambda>h. start \<le> rc_at h \<and> rc_at h < start + 60000) (recent c history)"
        using c by (auto simp: window_def recent_def intro!: filter_cong)
      then have "length (window client wr start history) \<le> length (recent c history)" by simp
      then have "length (window client wr start history) < rate_limit wr" using \<open>length (recent c history) < _\<close> c(2) by simp
      moreover have "window client wr start [c] = [c]" using c by (simp add: window_def)
      ultimately show ?thesis by (simp add: window_append)
    qed
    then show ?thesis using Cons.IH [of "history @ [c]"] Cons.prems(2) True by simp
  qed
qed simp

text \<open>However the requests of all clients interleave, no minute holds more than 10 admitted writes or 60 admitted
  reads of one client.\<close>

theorem rate_window:
  "sorted (map rc_at cs) \<Longrightarrow> length (window client write start (admitted (rate_run cs new_runtime) cs)) \<le> rate_limit write"
  using spec_window [of client "write" "[]" cs start] rate_run_spec [of 0 "[]" new_runtime cs]
  by (simp add: rate_rel_def times_def queue_of_def rate_state_def new_runtime_def window_def)

theorem rate_window_witness:
  "length (window ''c'' True 5 (admitted (rate_run (writes_at [0, 7, 60000]) new_runtime) (writes_at [0, 7, 60000]))) \<le> 10"
  using rate_window [of "writes_at [0, 7, 60000]" "''c''" True 5] by (simp add: writes_at_def rate_limit_def)

section \<open>Authentication failures\<close>

lemma backoff_bounds: "1 \<le> failures \<Longrightarrow> 200 \<le> backoff_ms failures \<and> backoff_ms failures \<le> 5000"
proof -
  assume "1 \<le> failures"
  then have "(2 :: nat) ^ 1 \<le> 2 ^ min failures 6" by (intro power_increasing) simp_all
  then show ?thesis by (simp add: backoff_ms_def)
qed

lemma backoff_after_failure:
  "t < now + 200 \<Longrightarrow> check_auth_backoff t client (record_auth_failure now client rt) = Inl Unavailable"
  "now + 5000 \<le> t \<Longrightarrow> check_auth_backoff t client (record_auth_failure now client rt) = Inr ()"
proof -
  define failures where "failures = (case map_of (rt_auth_failures rt) client of None \<Rightarrow> 1 | Some st \<Rightarrow> min (af_failures st + 1) (2 ^ 32 - 1))"
  have "1 \<le> failures" by (simp add: failures_def split: option.split)
  then have b: "200 \<le> backoff_ms failures" "backoff_ms failures \<le> 5000" using backoff_bounds by blast+
  have c: "check_auth_backoff t client (record_auth_failure now client rt) = guard (\<not> t < now + backoff_ms failures) Unavailable"
    by (simp add: check_auth_backoff_def record_auth_failure_def failures_def Let_def)
  show "t < now + 200 \<Longrightarrow> check_auth_backoff t client (record_auth_failure now client rt) = Inl Unavailable" using b c by simp
  show "now + 5000 \<le> t \<Longrightarrow> check_auth_backoff t client (record_auth_failure now client rt) = Inr ()" using b c by simp
qed

section \<open>Sessions\<close>

text \<open>A session is used only by the client that opened it, and only while it has not expired.\<close>

lemma get_session_Inr:
  "get_session now client i rt = (Inr connection_id, rt') \<Longrightarrow> hm_ok (rt_sessions rt) \<Longrightarrow>
    \<exists>s. map_of (rt_sessions rt) i = Some s \<and> ms_client_id s = client \<and> ms_connection_id s = connection_id \<and> \<not> session_expired now s"
  by (auto simp: get_session_def Let_def remove_expired_sessions_def map_of_filter_snd [where P = "\<lambda>s. \<not> session_expired now s"] split: option.splits if_splits)

section \<open>Withdrawn authorisations\<close>

lemma fold_reject_answer:
  "(i, p) \<in> set es \<Longrightarrow> pa_decision p \<Longrightarrow> i \<in> set (rt_waiting rt) \<Longrightarrow> map_of (rt_answers (fold reject_pending es rt)) i = Some Reject"
proof (induction es arbitrary: rt)
  case (Cons e es)
  have w: "i \<in> set (rt_waiting (reject_pending e rt))" using Cons.prems(3) by (simp add: reject_pending_def send_decision_def)
  show ?case
  proof (cases "(i, p) \<in> set es")
    case True
    then show ?thesis using Cons.IH [OF _ Cons.prems(2) w] by simp
  next
    case False
    then have "map_of (rt_answers (reject_pending e rt)) i = Some Reject"
      using Cons.prems by (auto simp: reject_pending_def send_decision_def)
    then show ?thesis using fold_reject_only [of es "reject_pending e rt" i] by auto
  qed
qed simp

lemma invalidate_simps:
  "rt_sessions (invalidate_client_authorizations c rt) = filter (\<lambda>e. ms_client_id (snd e) \<noteq> c) (rt_sessions rt)"
  "rt_approvals (invalidate_client_authorizations c rt) = filter (\<lambda>e. av_client_id (pa_view (snd e)) \<noteq> c) (rt_approvals rt)"
  "rt_session_rules (invalidate_client_authorizations c rt) = filter (\<lambda>k. rk_client_id k \<noteq> c) (rt_session_rules rt)"
  "rt_confirmed_connections (invalidate_client_authorizations c rt) = filter (\<lambda>k. fst k \<noteq> c) (rt_confirmed_connections rt)"
  "rt_active_requests (invalidate_client_authorizations c rt) =
     map (\<lambda>(i, r). (i, if ar_client_id r = c then r\<lparr>ar_cancelled := True\<rparr> else r)) (rt_active_requests rt)"
  "rt_rate_limits (invalidate_client_authorizations c rt) = hm_remove c (rt_rate_limits rt)"
  by (simp_all add: invalidate_client_authorizations_def Let_def drop_client_approvals_def cancel_client_requests_def cancel_requests_def)

lemma invalidate_answers:
  "rt_answers (invalidate_client_authorizations c rt) =
     rt_answers (fold reject_pending (filter (\<lambda>e. av_client_id (pa_view (snd e)) = c) (rt_approvals rt)) 
       ((drop_sessions (\<lambda>s. ms_client_id s = c) rt)\<lparr>rt_approvals := filter (\<lambda>e. av_client_id (pa_view (snd e)) \<noteq> c) (rt_approvals rt)\<rparr>))"
  by (simp add: invalidate_client_authorizations_def Let_def drop_client_approvals_def cancel_client_requests_def drop_approvals_def)

text \<open>After a client's authorisations are withdrawn it has no session, no open approval, no session rule and no
  confirmed connection, all its running requests are flagged as cancelled, a request of it that waits for an
  undecided approval is woken with a rejection, and what other clients have is untouched.\<close>

theorem invalidate_withdraws:
  assumes "(i, p) \<in> set (rt_approvals rt)" "av_client_id (pa_view p) = c" "pa_decision p" "i \<in> set (rt_waiting rt)"
  shows "(\<forall>e \<in> set (rt_sessions (invalidate_client_authorizations c rt)). ms_client_id (snd e) \<noteq> c)
    \<and> (\<forall>e \<in> set (rt_approvals (invalidate_client_authorizations c rt)). av_client_id (pa_view (snd e)) \<noteq> c)
    \<and> (\<forall>k \<in> set (rt_session_rules (invalidate_client_authorizations c rt)). rk_client_id k \<noteq> c)
    \<and> (\<forall>k \<in> set (rt_confirmed_connections (invalidate_client_authorizations c rt)). fst k \<noteq> c)
    \<and> (\<forall>e \<in> set (rt_active_requests (invalidate_client_authorizations c rt)). ar_client_id (snd e) = c \<longrightarrow> ar_cancelled (snd e))
    \<and> fst (wake i (invalidate_client_authorizations c rt)) = Reject
    \<and> filter (\<lambda>e. ms_client_id (snd e) \<noteq> c) (rt_sessions rt) = rt_sessions (invalidate_client_authorizations c rt)
    \<and> filter (\<lambda>e. av_client_id (pa_view (snd e)) \<noteq> c) (rt_approvals rt) = rt_approvals (invalidate_client_authorizations c rt)"
proof -
  have "map_of (rt_answers (invalidate_client_authorizations c rt)) i = Some Reject"
    unfolding invalidate_answers by (rule fold_reject_answer [of i p]) (use assms in simp_all)
  then have "fst (wake i (invalidate_client_authorizations c rt)) = Reject" by (simp add: wake_def)
  then show ?thesis unfolding invalidate_simps by auto
qed

definition sample_ask :: approval_ask where
  "sample_ask = \<lparr>aa_client_id = ''c'', aa_connection_id = ''h'', aa_request_id = ''r'', aa_tool = ''cnshell_run_command'',
     aa_risk = ''low'', aa_target = ''command'', aa_preview = ''id'',
     aa_policy = \<lparr>ap_target_key = Some ''command:sha256:0'', ap_can_allow_session = True, ap_persistent_command = Some ''id''\<rparr>\<rparr>"

theorem invalidate_withdraws_witness:
  "fst (wake ''a'' (invalidate_client_authorizations ''c'' (snd (file_approval 0 ''a'' sample_ask new_runtime)))) = Reject
   \<and> rt_approvals (snd (file_approval 0 ''a'' sample_ask new_runtime)) \<noteq> []"
  using invalidate_withdraws [of "''a''" "\<lparr>pa_view = approval_view 0 ''a'' sample_ask, pa_rule_key = rule_key sample_ask, pa_decision = True\<rparr>"
      "snd (file_approval 0 ''a'' sample_ask new_runtime)" "''c''"]
  by (simp add: file_approval_def new_runtime_def MAX_PENDING_GLOBAL_def MAX_PENDING_PER_CLIENT_def hm_insert_def hm_remove_def
      approval_view_def sample_ask_def)

end
