(* ===== verification/McpBroker.thy ===== *)
theory McpBroker
  imports McpStore McpLimits
begin

text \<open>
  The requests of the MCP broker as tasks that interleave at the critical sections of the manager's lock, with the
  user who decides approvals and the events that withdraw them. What the user decided, which task filed which
  approval, and whether the broker was stopped, is recorded beside the state; the program has no such record.
\<close>

section \<open>Tasks\<close>

text \<open>
  A task is one \<open>execute_request\<close>: it holds the execution permit from \<open>Permitted\<close> to \<open>Leaving\<close> and the request permit
  from \<open>Registered\<close> to \<open>Returning\<close>; \<open>Asking\<close> to \<open>Answered\<close> are the parts of \<open>request_approval\<close>; an \<open>Approved\<close> task may
  perform its operation.
\<close>

datatype phase = Queued | Permitted | Registered | Running | Asking approval_ask | Waiting string approval_ask
  | Woken string approval_ask approval_decision | Answered string approval_ask approval_decision
  | Approved approval_ask approval_decision | Returning | Leaving | Finished

record task =
  tk_client :: string
  tk_request :: string
  tk_phase :: phase

record broker =
  br_rt :: mcp_runtime
  br_db :: mcp_db
  br_tasks :: "task list"
  br_filed :: "(string \<times> nat \<times> approval_ask) set"
  br_decisions :: "(string \<times> approval_decision) set"
  br_stopped :: bool

definition in_phase :: "nat \<Rightarrow> task \<Rightarrow> phase \<Rightarrow> broker \<Rightarrow> bool" where
  "in_phase t k p s \<longleftrightarrow> t < length (br_tasks s) \<and> k = br_tasks s ! t \<and> tk_phase k = p"

definition go :: "nat \<Rightarrow> phase \<Rightarrow> broker \<Rightarrow> broker" where
  "go t p s = s\<lparr>br_tasks := (br_tasks s)[t := (br_tasks s ! t)\<lparr>tk_phase := p\<rparr>]\<rparr>"

definition set_rt :: "mcp_runtime \<Rightarrow> broker \<Rightarrow> broker" where
  "set_rt rt s = s\<lparr>br_rt := rt\<rparr>"

text \<open>What a rule saves besides the session rules: the command of the policy, when the decision is a persistent one.\<close>

definition saves :: "approval_ask \<Rightarrow> approval_decision \<Rightarrow> (approval_rule_key \<times> string) option" where
  "saves a d = (case (rule_key a, ap_persistent_command (aa_policy a)) of
     (Some k, Some command) \<Rightarrow> if d = Persistent then Some (k, command) else None | _ \<Rightarrow> None)"

text \<open>Events that change the manager's state without touching a task.\<close>

inductive runtime_event :: "mcp_runtime \<Rightarrow> mcp_runtime \<Rightarrow> bool" where
  "runtime_event rt (cancel_request r rt)"
| "runtime_event rt (invalidate_client_authorizations c rt)"
| "runtime_event rt (revoke_listed c ids rt)"
| "runtime_event rt (cancel_client_requests c rt)"
| "runtime_event rt (start_manager address generation rt)"
| "runtime_event rt (record_auth_failure now c rt)"
| "runtime_event rt (clear_auth_failure c rt)"
| "i \<notin> fst ` set (rt_sessions rt) \<Longrightarrow> runtime_event rt (snd (open_session now i c connection_id rt))"
| "runtime_event rt (snd (get_session now c i rt))"
| "runtime_event rt (snd (close_session c i rt))"
| "runtime_event rt (confirm_connection c connection_id rt)"
| "runtime_event rt (snd (acquire_transfer_target key rt))"
| "runtime_event rt (release_transfer_target key rt)"

inductive broker_step :: "(string \<Rightarrow> string) \<Rightarrow> broker \<Rightarrow> broker \<Rightarrow> bool" for sha where
  arrive: "broker_step sha s (s\<lparr>br_tasks := br_tasks s @ [\<lparr>tk_client = c, tk_request = r, tk_phase = Queued\<rparr>]\<rparr>)"
| permit: "in_phase t k Queued s \<Longrightarrow> acquire_execution (tk_client k) (br_rt s) = (res, rt)
    \<Longrightarrow> broker_step sha s (go t (if is_ok res then Permitted else Finished) (set_rt rt s))"
| register: "in_phase t k Permitted s \<Longrightarrow> register_request (tk_request k) (tk_client k) cancelled (br_rt s) = (res, rt)
    \<Longrightarrow> broker_step sha s (go t (if is_ok res then Registered else Leaving) (set_rt rt s))"
| rate: "in_phase t k Registered s \<Longrightarrow> authorize_rate now (tk_client k) write (br_rt s) = (res, rt)
    \<Longrightarrow> broker_step sha s (go t (if is_ok res then Running else Returning) (set_rt rt s))"
| ask: "in_phase t k Running s \<Longrightarrow> aa_client_id a = tk_client k \<Longrightarrow> aa_request_id a = tk_request k \<Longrightarrow> broker_step sha s (go t (Asking a) s)"
| rule: "in_phase t k (Asking a) s \<Longrightarrow> by_rule (persistent_rule_exists (br_db s)) a (br_rt s) = Some d
    \<Longrightarrow> broker_step sha s (go t (Approved a d) s)"
| file_ask: "in_phase t k (Asking a) s \<Longrightarrow> by_rule (persistent_rule_exists (br_db s)) a (br_rt s) = None
    \<Longrightarrow> i \<notin> fst ` br_filed s \<Longrightarrow> file_approval now i a (br_rt s) = (Inr (), rt)
    \<Longrightarrow> broker_step sha s (go t (Waiting i a) (set_rt rt (s\<lparr>br_filed := insert (i, t, a) (br_filed s)\<rparr>)))"
| refuse: "in_phase t k (Asking a) s \<Longrightarrow> by_rule (persistent_rule_exists (br_db s)) a (br_rt s) = None \<Longrightarrow> file_approval now i a (br_rt s) = (Inl e, rt) \<Longrightarrow> broker_step sha s (go t Returning (set_rt rt s))"
| wake: "in_phase t k (Waiting i a) s \<Longrightarrow> wake i (br_rt s) = (d, rt) \<Longrightarrow> broker_step sha s (go t (Woken i a d) (set_rt rt s))"
| leave: "in_phase t k (Woken i a d) s \<Longrightarrow> broker_step sha s (go t (Answered i a d) (set_rt (leave_list i (br_rt s)) s))"
| remember: "in_phase t k (Answered i a d) s \<Longrightarrow> saves a d = None
    \<Longrightarrow> broker_step sha s (go t (if approved d then Approved a d else Returning) (set_rt (remember_session_rule a d (br_rt s)) s))"
| save: "in_phase t k (Answered i a d) s \<Longrightarrow> saves a d = Some (key, command)
    \<Longrightarrow> save_persistent_rule sha new_id audit_id now key command (br_db s) = Inr d'
    \<Longrightarrow> broker_step sha s (go t (Approved a d) (s\<lparr>br_db := d'\<rparr>))"
| not_saved: "in_phase t k (Answered i a d) s \<Longrightarrow> saves a d = Some (key, command)
    \<Longrightarrow> save_persistent_rule sha new_id audit_id now key command (br_db s) = Inl e \<Longrightarrow> broker_step sha s (go t Returning s)"
| perform: "in_phase t k (Approved a d) s \<Longrightarrow> broker_step sha s (go t Running s)"
| return: "in_phase t k Running s \<Longrightarrow> broker_step sha s (go t Returning s)"
| drop_request: "in_phase t k Returning s \<Longrightarrow> broker_step sha s (go t Leaving (set_rt (release_request (tk_request k) (br_rt s)) s))"
| drop_execution: "in_phase t k Leaving s \<Longrightarrow> broker_step sha s (go t Finished (set_rt (release_execution (tk_client k) (br_rt s)) s))"
| decided: "map_of (rt_approvals (br_rt s)) i = Some p \<Longrightarrow> select_decision decision p = Some d \<Longrightarrow> decide i decision (br_rt s) = (Inr (), rt)
    \<Longrightarrow> broker_step sha s (set_rt rt (s\<lparr>br_decisions := insert (i, d) (br_decisions s)\<rparr>))"
| not_decided: "decide i decision (br_rt s) = (Inl e, rt) \<Longrightarrow> broker_step sha s (set_rt rt s)"
| event: "runtime_event (br_rt s) rt \<Longrightarrow> broker_step sha s (set_rt rt s)"
| stop: "broker_step sha s (set_rt (snd (stop_manager (br_rt s))) (s\<lparr>br_stopped := True\<rparr>))"
| database: "set (map mr_key (md_rules d)) \<subseteq> set (map mr_key (md_rules (br_db s))) \<Longrightarrow> broker_step sha s (s\<lparr>br_db := d\<rparr>)"

definition broker_start :: "mcp_db \<Rightarrow> broker" where
  "broker_start d = \<lparr>br_rt = new_runtime, br_db = d, br_tasks = [], br_filed = {}, br_decisions = {}, br_stopped = False\<rparr>"

inductive broker_reachable :: "(string \<Rightarrow> string) \<Rightarrow> mcp_db \<Rightarrow> broker \<Rightarrow> bool" for sha d where
  start: "broker_reachable sha d (broker_start d)"
| step: "broker_reachable sha d s \<Longrightarrow> broker_step sha s s' \<Longrightarrow> broker_reachable sha d s'"

lemma go_simps [simp]:
  "br_rt (go t p s) = br_rt s" "br_db (go t p s) = br_db s" "br_filed (go t p s) = br_filed s"
  "br_decisions (go t p s) = br_decisions s" "br_stopped (go t p s) = br_stopped s" "length (br_tasks (go t p s)) = length (br_tasks s)"
  "br_rt (set_rt rt s) = rt" "br_db (set_rt rt s) = br_db s" "br_filed (set_rt rt s) = br_filed s" "br_tasks (set_rt rt s) = br_tasks s"
  "br_decisions (set_rt rt s) = br_decisions s" "br_stopped (set_rt rt s) = br_stopped s"
  by (simp_all add: go_def set_rt_def)

section \<open>The manager's state is well-formed\<close>

definition runtime_ok :: "mcp_runtime \<Rightarrow> bool" where
  "runtime_ok rt \<longleftrightarrow> hm_ok (rt_sessions rt) \<and> hm_ok (rt_approvals rt) \<and> hm_ok (rt_in_flight rt) \<and> hm_ok (rt_active_requests rt)
     \<and> hm_ok (rt_rate_limits rt) \<and> hm_ok (rt_auth_failures rt) \<and> distinct (rt_transfer_targets rt) \<and> distinct (rt_session_rules rt)
     \<and> set (rt_external rt) = fst ` set (rt_sessions rt)
     \<and> (\<forall>c. length (filter (\<lambda>e. ms_client_id (snd e) = c) (rt_sessions rt)) \<le> 4)
     \<and> length (rt_approvals rt) \<le> MAX_PENDING_GLOBAL
     \<and> (\<forall>c. length (filter (\<lambda>e. av_client_id (pa_view (snd e)) = c) (rt_approvals rt)) \<le> MAX_PENDING_PER_CLIENT)
     \<and> (\<forall>c n. map_of (rt_in_flight rt) c = Some n \<longrightarrow> 1 \<le> n \<and> n \<le> 2)
     \<and> (\<forall>c st. map_of (rt_rate_limits rt) c = Some st \<longrightarrow> length (rl_reads st) \<le> 60 \<and> length (rl_writes st) \<le> 10)"

lemma count_hm_insert: "length (filter P (hm_insert k v m)) \<le> (if P (k, v) then 1 else 0) + length (filter P m)"
  using count_hm_remove [of P k m] by (simp add: hm_insert_def)

lemma count_insert_room:
  assumes "P (k, v) \<Longrightarrow> length (filter P m) < n" "length (filter P m) \<le> n"
  shows "length (filter P (hm_insert k v m)) \<le> n"
  using count_hm_insert [of P k v m] assms by (cases "P (k, v)") auto

lemma fst_hm_remove [simp]: "fst ` set (hm_remove k m) = fst ` set m - {k}"
  by (auto simp: hm_remove_def)

lemma fst_hm_insert [simp]: "fst ` set (hm_insert k v m) = insert k (fst ` set m)"
  by (auto simp: hm_insert_def)

lemma runtime_ok_new: "runtime_ok new_runtime"
  by (simp add: runtime_ok_def new_runtime_def)

lemma length_hm_remove: "length (hm_remove k m) \<le> length m"
  by (simp add: hm_remove_def)

lemma count_filter_bound: "length (filter P m) \<le> n \<Longrightarrow> length (filter P (filter Q m)) \<le> n"
  using count_filter_le [of P Q m] by simp

lemma count_conj_bound:
  "length (filter P m) \<le> n \<Longrightarrow> length (filter (\<lambda>x. Q x \<and> P x) m) \<le> n"
  "length (filter P m) \<le> n \<Longrightarrow> length (filter (\<lambda>x. P x \<and> Q x) m) \<le> n"
  using count_filter_bound [of P m n Q] by (simp_all add: conj_commute)

lemma fst_filter_not: "hm_ok m \<Longrightarrow> fst ` set m - fst ` set (filter P m) = fst ` set (filter (\<lambda>e. \<not> P e) m)"
  by (auto simp: hm_ok_def distinct_map inj_on_def image_iff)

lemma runtime_ok_drop_sessions:
  assumes "runtime_ok rt"
  shows "runtime_ok (drop_sessions P rt)"
proof -
  have "set (rt_external (drop_sessions P rt)) = fst ` set (rt_sessions rt) - fst ` set (filter (\<lambda>e. P (snd e)) (rt_sessions rt))"
    using assms by (auto simp: drop_sessions_def runtime_ok_def)
  also have "\<dots> = fst ` set (filter (\<lambda>e. \<not> P (snd e)) (rt_sessions rt))"
    using assms fst_filter_not [of "rt_sessions rt" "\<lambda>e. P (snd e)"] by (simp add: runtime_ok_def)
  finally show ?thesis using assms by (simp add: runtime_ok_def drop_sessions_def count_filter_bound count_conj_bound)
qed

lemma runtime_ok_fold_reject: "runtime_ok (fold reject_pending es rt) \<longleftrightarrow> runtime_ok rt"
  by (simp add: runtime_ok_def)

lemma runtime_ok_drop_approvals: "runtime_ok rt \<Longrightarrow> runtime_ok (drop_approvals P rt)"
  unfolding drop_approvals_def runtime_ok_fold_reject
  by (auto simp: runtime_ok_def count_filter_bound count_conj_bound intro: le_trans [OF length_filter_le])

lemma hm_ok_map: "(\<And>e. fst (f e) = fst e) \<Longrightarrow> hm_ok (map f m) \<longleftrightarrow> hm_ok m"
  by (simp add: hm_ok_def comp_def)

lemma runtime_ok_cancel: "runtime_ok rt \<Longrightarrow> runtime_ok (cancel_requests P rt)"
proof -
  have "hm_ok (map (\<lambda>(i, r). (i, if P i r then r\<lparr>ar_cancelled := True\<rparr> else r)) m) \<longleftrightarrow> hm_ok m" for m
    by (rule hm_ok_map) auto
  then show "runtime_ok rt \<Longrightarrow> runtime_ok (cancel_requests P rt)"
    by (simp add: runtime_ok_def cancel_requests_def)
qed

lemma runtime_ok_drop_rules: "runtime_ok rt \<Longrightarrow> runtime_ok (drop_client_rules c rt)"
  by (simp add: runtime_ok_def drop_client_rules_def)

lemma runtime_ok_revoke_listed: "runtime_ok rt \<Longrightarrow> runtime_ok (revoke_listed c ids rt)"
proof -
  assume ok: "runtime_ok rt"
  have "runtime_ok (rt\<lparr>rt_sessions := filter (\<lambda>e. fst e \<notin> set ids) (rt_sessions rt), rt_external := filter (\<lambda>i. i \<notin> set ids) (rt_external rt)\<rparr>)"
    using ok by (auto simp: runtime_ok_def count_filter_bound count_conj_bound)
  then show ?thesis unfolding revoke_listed_def drop_client_approvals_def
    by (intro runtime_ok_drop_rules runtime_ok_drop_approvals)
qed

lemma runtime_ok_invalidate: "runtime_ok rt \<Longrightarrow> runtime_ok (invalidate_client_authorizations c rt)"
proof -
  assume "runtime_ok rt"
  then have "runtime_ok (drop_client_rules c (cancel_client_requests c (drop_client_approvals c (drop_sessions (\<lambda>s. ms_client_id s = c) rt))))"
    unfolding drop_client_approvals_def cancel_client_requests_def
    by (intro runtime_ok_drop_rules runtime_ok_cancel runtime_ok_drop_approvals runtime_ok_drop_sessions)
  then show ?thesis by (simp add: invalidate_client_authorizations_def Let_def runtime_ok_def split: if_splits)
qed

lemma count_entry:
  "distinct (map fst m) \<Longrightarrow> map_of m i = Some v \<Longrightarrow> length (filter Q m) = length (filter Q (hm_remove i m)) + (if Q (i, v) then 1 else 0)"
proof (induction m)
  case (Cons e m)
  show ?case
  proof (cases "fst e = i")
    case True
    then have "hm_remove i m = m" using Cons.prems(1) unfolding hm_remove_def by (intro filter_True) (force simp: image_iff)
    then show ?thesis using True Cons.prems by (cases e) (simp add: hm_remove_def)
  next
    case False
    then show ?thesis using Cons by (cases e) (auto simp: hm_remove_def)
  qed
qed simp

lemma runtime_ok_sessions:
  assumes "runtime_ok rt"
  shows "runtime_ok (snd (get_session now c i rt))" "runtime_ok (snd (close_session c i rt))"
    "i \<notin> fst ` set (rt_sessions rt) \<Longrightarrow> runtime_ok (snd (open_session now i c connection_id rt))"
proof -
  let ?rt = "remove_expired_sessions now rt"
  have ok: "runtime_ok ?rt" unfolding remove_expired_sessions_def using assms by (rule runtime_ok_drop_sessions)
  show "runtime_ok (snd (get_session now c i rt))"
  proof (cases "map_of (rt_sessions ?rt) i")
    case None
    then show ?thesis using ok by (simp add: get_session_def Let_def)
  next
    case (Some s)
    let ?s = "s\<lparr>ms_last_used_at := now\<rparr>"
    have "length (filter (\<lambda>e. ms_client_id (snd e) = cl) (hm_insert i ?s (rt_sessions ?rt))) \<le> 4" for cl
    proof -
      have d: "distinct (map fst (rt_sessions ?rt))" using ok by (simp add: runtime_ok_def hm_ok_def)
      have "length (filter (\<lambda>e. ms_client_id (snd e) = cl) (rt_sessions ?rt)) = length (filter (\<lambda>e. ms_client_id (snd e) = cl) (hm_remove i (rt_sessions ?rt)))
          + (if ms_client_id s = cl then 1 else 0)"
        using count_entry [OF d Some, of "\<lambda>e. ms_client_id (snd e) = cl"] by simp
      moreover have "length (filter (\<lambda>e. ms_client_id (snd e) = cl) (rt_sessions ?rt)) \<le> 4" using ok by (simp add: runtime_ok_def)
      ultimately show ?thesis by (cases "ms_client_id s = cl") (simp_all add: hm_insert_def)
    qed
    moreover have "i \<in> fst ` set (rt_sessions ?rt)" using Some map_of_SomeD by force
    ultimately have "runtime_ok (?rt\<lparr>rt_sessions := hm_insert i ?s (rt_sessions ?rt)\<rparr>)"
      using ok by (simp add: runtime_ok_def insert_absorb)
    then show ?thesis using ok Some by (simp add: get_session_def Let_def)
  qed
  have "runtime_ok (rt\<lparr>rt_sessions := hm_remove i (rt_sessions rt), rt_external := filter (\<lambda>j. j \<noteq> i) (rt_external rt)\<rparr>)"
    using assms count_hm_remove by (auto simp: runtime_ok_def intro: le_trans [OF count_hm_remove])
  then show "runtime_ok (snd (close_session c i rt))" using assms by (simp add: close_session_def split: option.split)
  show "runtime_ok (snd (open_session now i c connection_id rt))" if fresh: "i \<notin> fst ` set (rt_sessions rt)"
  proof (cases "4 \<le> length (filter (\<lambda>e. ms_client_id (snd e) = c) (rt_sessions ?rt))")
    case True
    then show ?thesis using ok by (simp add: open_session_def Let_def)
  next
    case False
    let ?s = "\<lparr>ms_client_id = c, ms_connection_id = connection_id, ms_created_at = now, ms_last_used_at = now\<rparr>"
    have "length (filter (\<lambda>e. ms_client_id (snd e) = cl) (hm_insert i ?s (rt_sessions ?rt))) \<le> 4" for cl
      using False ok by (intro count_insert_room) (simp_all add: runtime_ok_def)
    then have "runtime_ok (?rt\<lparr>rt_external := i # filter (\<lambda>j. j \<noteq> i) (rt_external ?rt), rt_sessions := hm_insert i ?s (rt_sessions ?rt)\<rparr>)"
      using ok by (auto simp: runtime_ok_def)
    then show ?thesis using False by (simp add: open_session_def Let_def)
  qed
qed

lemma runtime_ok_permits:
  assumes "runtime_ok rt"
  shows "runtime_ok (snd (acquire_execution c rt))" "runtime_ok (release_execution c rt)"
    "runtime_ok (snd (register_request r c cancelled rt))" "runtime_ok (release_request r rt)"
    "runtime_ok (snd (acquire_transfer_target key rt))" "runtime_ok (release_transfer_target key rt)"
proof -
  show "runtime_ok (snd (acquire_execution c rt))"
    using assms by (auto simp: acquire_execution_def runtime_ok_def)
  have flights: "map_of (rt_in_flight rt) c' = Some n \<Longrightarrow> 1 \<le> n \<and> n \<le> 2" for c' n using assms by (simp add: runtime_ok_def)
  show "runtime_ok (release_execution c rt)"
  proof (cases "map_of (rt_in_flight rt) c")
    case None
    then show ?thesis using assms by (simp add: release_execution_def)
  next
    case (Some n)
    then have "n - 1 \<le> 2" using flights [OF Some] by linarith
    then show ?thesis using assms Some
      by (cases "n - 1 = 0") (auto simp: release_execution_def runtime_ok_def)
  qed
  show "runtime_ok (snd (register_request r c cancelled rt))" "runtime_ok (release_request r rt)"
    "runtime_ok (snd (acquire_transfer_target key rt))" "runtime_ok (release_transfer_target key rt)"
    using assms by (simp_all add: register_request_def release_request_def acquire_transfer_target_def release_transfer_target_def runtime_ok_def)
qed

lemma rate_step_length: "length q \<le> limit \<Longrightarrow> length (snd (rate_step limit now q)) \<le> limit"
  using length_dropWhile_le [of "\<lambda>t. 60000 \<le> now - t" q] by (simp add: rate_step_def slide_def Let_def)

lemma runtime_ok_rate: "runtime_ok rt \<Longrightarrow> runtime_ok (snd (authorize_rate now c w rt))"
proof -
  assume ok: "runtime_ok rt"
  have st: "length (rl_reads (rate_state c rt)) \<le> 60" "length (rl_writes (rate_state c rt)) \<le> 10"
    using ok by (auto simp: rate_state_def runtime_ok_def split: option.split)
  show ?thesis
    using ok st rate_step_length [of "rl_reads (rate_state c rt)" 60 now] rate_step_length [of "rl_writes (rate_state c rt)" 10 now]
    by (cases w) (simp_all add: authorize_rate_def Let_def case_prod_beta runtime_ok_def rate_limit_def)
qed

lemma runtime_ok_approvals:
  assumes "runtime_ok rt"
  shows "runtime_ok (snd (file_approval now i a rt))" "runtime_ok (snd (wake i rt))" "runtime_ok (leave_list i rt)"
    "runtime_ok (remember_session_rule a d rt)" "runtime_ok (snd (decide i decision rt))" "runtime_ok (confirm_connection c cid rt)"
proof -
  let ?new = "\<lparr>pa_view = approval_view now i a, pa_rule_key = rule_key a, pa_decision = True\<rparr>"
  show "runtime_ok (snd (file_approval now i a rt))"
  proof (cases "is_ok (fst (file_approval now i a rt))")
    case False
    then show ?thesis using assms by (auto simp: file_approval_def)
  next
    case True
    then have room: "length (rt_approvals rt) < MAX_PENDING_GLOBAL"
      "length (filter (\<lambda>e. av_client_id (pa_view (snd e)) = aa_client_id a) (rt_approvals rt)) < MAX_PENDING_PER_CLIENT"
      by (auto simp: file_approval_def split: if_splits)
    have "length (hm_insert i ?new (rt_approvals rt)) \<le> MAX_PENDING_GLOBAL"
      using room(1) length_hm_remove [of i "rt_approvals rt"] by (simp add: hm_insert_def)
    moreover have "length (filter (\<lambda>e. av_client_id (pa_view (snd e)) = cl) (hm_insert i ?new (rt_approvals rt))) \<le> MAX_PENDING_PER_CLIENT" for cl
      using room(2) assms by (intro count_insert_room) (simp_all add: runtime_ok_def approval_view_def)
    ultimately show ?thesis using assms room by (simp add: file_approval_def runtime_ok_def)
  qed
  show "runtime_ok (snd (wake i rt))" using assms by (simp add: wake_def runtime_ok_def)
  show "runtime_ok (leave_list i rt)"
    using assms length_hm_remove [of i "rt_approvals rt"] count_hm_remove
    by (auto simp: leave_list_def runtime_ok_def intro: le_trans [OF count_hm_remove])
  show "runtime_ok (remember_session_rule a d rt)" using assms by (simp add: remember_session_rule_def runtime_ok_def split: option.split)
  show "runtime_ok (confirm_connection c cid rt)" using assms by (simp add: confirm_connection_def runtime_ok_def)
  have "runtime_ok (rt\<lparr>rt_approvals := hm_insert i (p\<lparr>pa_decision := False\<rparr>) (rt_approvals rt)\<rparr>)" if p: "map_of (rt_approvals rt) i = Some p" for p
  proof -
    have m: "(i, p) \<in> set (rt_approvals rt)" "hm_ok (rt_approvals rt)" using p assms by (auto simp: runtime_ok_def dest: map_of_SomeD)
    note count = count_entry [OF m(2) [unfolded hm_ok_def] p]
    have "length (filter (\<lambda>e. av_client_id (pa_view (snd e)) = cl) (hm_insert i (p\<lparr>pa_decision := False\<rparr>) (rt_approvals rt))) \<le> MAX_PENDING_PER_CLIENT" for cl
    proof -
      have "length (filter (\<lambda>e. av_client_id (pa_view (snd e)) = cl) (rt_approvals rt)) \<le> MAX_PENDING_PER_CLIENT" using assms by (simp add: runtime_ok_def)
      then show ?thesis using count [of "\<lambda>e. av_client_id (pa_view (snd e)) = cl"]
        by (cases "av_client_id (pa_view p) = cl") (simp_all add: hm_insert_def)
    qed
    moreover have "length (hm_insert i (p\<lparr>pa_decision := False\<rparr>) (rt_approvals rt)) \<le> MAX_PENDING_GLOBAL"
      using count [of "\<lambda>_. True"] assms by (simp add: hm_insert_def runtime_ok_def)
    ultimately show ?thesis using assms by (simp add: runtime_ok_def)
  qed
  then show "runtime_ok (snd (decide i decision rt))"
    using assms by (auto simp: decide_def send_decision_def runtime_ok_def split: option.split)
qed

lemma runtime_ok_start_stop: "runtime_ok rt \<Longrightarrow> runtime_ok (start_manager address generation rt)"
  "runtime_ok rt \<Longrightarrow> runtime_ok (snd (stop_manager rt))"
  "runtime_ok rt \<Longrightarrow> runtime_ok (record_auth_failure now c rt)" "runtime_ok rt \<Longrightarrow> runtime_ok (clear_auth_failure c rt)"
proof -
  show "runtime_ok rt \<Longrightarrow> runtime_ok (start_manager address generation rt)" by (simp add: start_manager_def runtime_ok_def)
  show "runtime_ok rt \<Longrightarrow> runtime_ok (snd (stop_manager rt))"
    unfolding stop_manager_def snd_conv runtime_ok_fold_reject
    using runtime_ok_drop_sessions [of rt "\<lambda>_. True"] by (simp add: runtime_ok_def)
  show "runtime_ok rt \<Longrightarrow> runtime_ok (record_auth_failure now c rt)" by (simp add: record_auth_failure_def runtime_ok_def Let_def)
  show "runtime_ok rt \<Longrightarrow> runtime_ok (clear_auth_failure c rt)" by (simp add: clear_auth_failure_def runtime_ok_def)
qed

lemma runtime_ok_event: "runtime_event rt rt' \<Longrightarrow> runtime_ok rt \<Longrightarrow> runtime_ok rt'"
proof (induction rule: runtime_event.induct)
  case (1 rt r)
  then show ?case unfolding cancel_request_def by (intro runtime_ok_drop_approvals runtime_ok_cancel)
next
  case (4 rt c)
  then show ?case unfolding cancel_client_requests_def by (rule runtime_ok_cancel)
qed (simp_all add: runtime_ok_invalidate runtime_ok_revoke_listed runtime_ok_start_stop runtime_ok_sessions runtime_ok_approvals runtime_ok_permits)

lemmas runtime_ok_ops = runtime_ok_permits runtime_ok_rate runtime_ok_approvals runtime_ok_start_stop

lemma runtime_ok_res: "f = (res, rt') \<Longrightarrow> runtime_ok (snd f) \<Longrightarrow> runtime_ok rt'"
  by simp

lemma broker_step_ok: "broker_step sha s s' \<Longrightarrow> runtime_ok (br_rt s) \<Longrightarrow> runtime_ok (br_rt s')"
proof (induction rule: broker_step.induct)
  case (event s rt)
  then show ?case using runtime_ok_event by simp
qed (simp_all add: runtime_ok_ops runtime_ok_res [OF _ runtime_ok_permits(1)] runtime_ok_res [OF _ runtime_ok_permits(3)]
    runtime_ok_res [OF _ runtime_ok_rate] runtime_ok_res [OF _ runtime_ok_approvals(1)] runtime_ok_res [OF _ runtime_ok_approvals(2)]
    runtime_ok_res [OF _ runtime_ok_approvals(5)])

text \<open>C35: In every state that requests, the user and the application can bring about, the manager's tables are well-formed
  and within their limits: no duplicate keys, the SSH sessions of the broker are exactly those that the SSH session
  manager keeps for it, at most 4 sessions and 10 open approvals per client, 50 open approvals at all, at most 2
  counted executions per client, at most 60 reads and 10 writes in a rate queue.\<close>

theorem broker_state_ok: "broker_reachable sha d s \<Longrightarrow> runtime_ok (br_rt s)"
  by (induction rule: broker_reachable.induct) (simp_all add: broker_start_def runtime_ok_new broker_step_ok)

theorem broker_state_ok_witness: "runtime_ok (br_rt (broker_start sample_mcp_db))"
  using broker_state_ok [OF broker_reachable.start [of "\<lambda>_. []" sample_mcp_db]] .

section \<open>At most two requests of a client execute\<close>

definition holds_permit :: "string \<Rightarrow> task \<Rightarrow> bool" where
  "holds_permit c k \<longleftrightarrow> tk_client k = c \<and> tk_phase k \<noteq> Queued \<and> tk_phase k \<noteq> Finished"

definition executing :: "string \<Rightarrow> broker \<Rightarrow> nat" where
  "executing c s = length (filter (holds_permit c) (br_tasks s))"

lemma count_update: "t < length xs \<Longrightarrow>
    length (filter P (xs[t := x])) + (if P (xs ! t) then 1 else 0) = length (filter P xs) + (if P x then 1 else 0)"
proof (induction xs arbitrary: t)
  case (Cons y ys)
  then show ?case by (cases t) auto
qed simp

lemma executing_go:
  "t < length (br_tasks s) \<Longrightarrow> executing c (go t p s) + (if holds_permit c (br_tasks s ! t) then 1 else 0)
     = executing c s + (if tk_client (br_tasks s ! t) = c \<and> p \<noteq> Queued \<and> p \<noteq> Finished then 1 else 0)"
  using count_update [of t "br_tasks s" "holds_permit c"] by (simp add: executing_def go_def holds_permit_def)

lemma executing_go_same:
  "t < length (br_tasks s) \<Longrightarrow> tk_phase (br_tasks s ! t) \<noteq> Queued \<Longrightarrow> tk_phase (br_tasks s ! t) \<noteq> Finished \<Longrightarrow> p \<noteq> Queued \<Longrightarrow> p \<noteq> Finished
    \<Longrightarrow> executing c (go t p s) = executing c s"
  using executing_go [of t s c p] by (simp add: holds_permit_def split: if_splits)

lemma executing_simps [simp]: "executing c (set_rt rt s) = executing c s"
  "executing c (s\<lparr>br_db := d\<rparr>) = executing c s" "executing c (s\<lparr>br_filed := f\<rparr>) = executing c s" "executing c (s\<lparr>br_decisions := ds\<rparr>) = executing c s"
  "executing c (s\<lparr>br_stopped := b\<rparr>) = executing c s"
  by (simp_all add: executing_def set_rt_def)

lemma in_flight_cong: "rt_in_flight rt' = rt_in_flight rt \<Longrightarrow> in_flight c rt' = in_flight c rt"
  by (simp add: in_flight_def)

lemma in_flight_ops:
  "rt_in_flight (snd (register_request r c b rt)) = rt_in_flight rt" "rt_in_flight (snd (authorize_rate now c w rt)) = rt_in_flight rt"
  "rt_in_flight (snd (file_approval now i a rt)) = rt_in_flight rt" "rt_in_flight (snd (wake i rt)) = rt_in_flight rt"
  "rt_in_flight (leave_list i rt) = rt_in_flight rt" "rt_in_flight (remember_session_rule a d rt) = rt_in_flight rt"
  "rt_in_flight (release_request r rt) = rt_in_flight rt" "rt_in_flight (snd (decide i decision rt)) = rt_in_flight rt"
  by (simp_all add: register_request_def authorize_rate_def case_prod_beta Let_def file_approval_def wake_def leave_list_def
      remember_session_rule_def release_request_def decide_def send_decision_def split: option.split)

lemma in_flight_event: "runtime_event rt rt' \<Longrightarrow> rt_in_flight rt' = rt_in_flight rt"
  by (induction rule: runtime_event.induct)
    (simp_all add: cancel_request_def invalidate_client_authorizations_def Let_def drop_client_approvals_def revoke_listed_def
      cancel_client_requests_def start_manager_def record_auth_failure_def clear_auth_failure_def open_session_def get_session_def
      remove_expired_sessions_def close_session_def confirm_connection_def acquire_transfer_target_def release_transfer_target_def split: option.split)

lemma in_flight_acquire: "in_flight c (snd (acquire_execution c' rt)) = (if c = c' \<and> is_ok (fst (acquire_execution c' rt)) then in_flight c rt + 1 else in_flight c rt)"
  by (auto simp: acquire_execution_def in_flight_def)

lemma in_flight_release: "runtime_ok rt \<Longrightarrow> in_flight c (release_execution c' rt) = (if c = c' then in_flight c rt - 1 else in_flight c rt)"
  by (auto simp: release_execution_def in_flight_def split: option.splits)

lemma in_flight_res: "f = (res, rt') \<Longrightarrow> rt_in_flight (snd f) = rt_in_flight rt \<Longrightarrow> rt_in_flight rt' = rt_in_flight rt"
  by simp

lemma executing_keep:
  assumes "in_phase t k p s" "p \<noteq> Queued" "p \<noteq> Finished" "q \<noteq> Queued" "q \<noteq> Finished"
    and "br_tasks s' = br_tasks s" "rt_in_flight rt = rt_in_flight (br_rt s)" "\<And>c. executing c s = in_flight c (br_rt s)"
  shows "executing c (go t q s') = in_flight c rt"
proof -
  have "executing c (go t q s') = executing c s'" using assms(1-6) by (intro executing_go_same) (auto simp: in_phase_def)
  also have "\<dots> = executing c s" using assms(6) by (simp add: executing_def)
  finally show ?thesis using assms(7,8) by (simp add: in_flight_def)
qed

lemma executing_step:
  assumes "broker_step sha s s'" "runtime_ok (br_rt s)" "\<not> br_stopped s'" "\<And>c. executing c s = in_flight c (br_rt s)"
  shows "executing c s' = in_flight c (br_rt s')"
  using assms
proof (induction rule: broker_step.induct)
  case (arrive s c r)
  then show ?case by (simp add: executing_def holds_permit_def)
next
  case (permit t k s res rt)
  then have t: "t < length (br_tasks s)" "k = br_tasks s ! t" "tk_phase k = Queued" by (auto simp: in_phase_def)
  show ?case
    using executing_go [of t "set_rt rt s" c "if is_ok res then Permitted else Finished"] in_flight_acquire [of c "tk_client k" "br_rt s"] permit t
    by (auto simp: holds_permit_def split: if_splits)
next
  case (drop_execution t k s)
  then have t: "t < length (br_tasks s)" "k = br_tasks s ! t" "tk_phase k = Leaving" by (auto simp: in_phase_def)
  show ?case
    using executing_go [of t "set_rt (release_execution (tk_client k) (br_rt s)) s" c Finished] in_flight_release [of "br_rt s" c "tk_client k"] drop_execution t
    by (auto simp: holds_permit_def split: if_splits)
next
  case (event s rt)
  then show ?case using in_flight_event by (simp add: in_flight_def)
next
  case (stop s)
  then show ?case by simp
next
  case (decided s i p decision d rt)
  then show ?case using in_flight_res [OF decided(3) in_flight_ops(8)] by (simp add: in_flight_def)
next
  case (not_decided i decision s e rt)
  then show ?case using in_flight_res [OF not_decided(1) in_flight_ops(8)] by (simp add: in_flight_def)
next
  case (register t k s cancelled res rt)
  show ?case unfolding go_simps by (rule executing_keep [OF register(1)])
      (use register in_flight_res [OF register(2) in_flight_ops(1)] in simp_all)
next
  case (rate t k s now w res rt)
  show ?case unfolding go_simps by (rule executing_keep [OF rate(1)]) (use rate in_flight_res [OF rate(2) in_flight_ops(2)] in simp_all)
next
  case (file_ask t k a s i now rt)
  show ?case unfolding go_simps by (rule executing_keep [OF file_ask(1)]) (use file_ask in_flight_res [OF file_ask(4) in_flight_ops(3)] in simp_all)
next
  case (refuse t k a s now i e rt)
  show ?case unfolding go_simps by (rule executing_keep [OF refuse(1)]) (use refuse in_flight_res [OF refuse(3) in_flight_ops(3)] in simp_all)
next
  case (wake t k i a s d rt)
  show ?case unfolding go_simps by (rule executing_keep [OF wake(1)]) (use wake in_flight_res [OF wake(2) in_flight_ops(4)] in simp_all)
qed (auto intro!: executing_keep simp: in_flight_ops)

text \<open>C36: As long as the broker has not been stopped, at most two requests of a client are between taking and returning
  their execution permit, however requests, refusals, approvals and withdrawals interleave.\<close>

theorem two_requests_execute: "broker_reachable sha d s \<Longrightarrow> \<not> br_stopped s \<Longrightarrow> executing c s \<le> 2"
proof -
  assume s: "broker_reachable sha d s" "\<not> br_stopped s"
  have "\<not> br_stopped s \<Longrightarrow> executing c s = in_flight c (br_rt s)" for c
    using s(1)
  proof (induction arbitrary: c rule: broker_reachable.induct)
    case start
    then show ?case by (simp add: broker_start_def executing_def in_flight_def new_runtime_def)
  next
    case (step s s')
    have "\<not> br_stopped s" using step(2,4) by (cases rule: broker_step.cases) (auto simp: go_def set_rt_def)
    then show ?case using executing_step [OF step(2) broker_state_ok [OF step(1)] step(4)] step(3) by blast
  qed
  then have "executing c s = in_flight c (br_rt s)" using s(2) by blast
  moreover have "in_flight c (br_rt s) \<le> 2"
    using broker_state_ok [OF s(1)] by (simp add: in_flight_def runtime_ok_def split: option.split)
  ultimately show ?thesis by simp
qed

definition queued_task :: task where
  "queued_task = \<lparr>tk_client = ''c'', tk_request = ''r'', tk_phase = Queued\<rparr>"

definition one_executing :: broker where
  "one_executing = go 0 Permitted (set_rt (snd (acquire_execution ''c'' new_runtime)) ((broker_start sample_mcp_db)\<lparr>br_tasks := [queued_task]\<rparr>))"

lemma one_executing: "broker_reachable sha sample_mcp_db one_executing" "\<not> br_stopped one_executing" "executing ''c'' one_executing = 1"
proof -
  have "broker_step sha (broker_start sample_mcp_db) ((broker_start sample_mcp_db)\<lparr>br_tasks := [queued_task]\<rparr>)"
    using broker_step.arrive [of sha "broker_start sample_mcp_db" "''c''" "''r''"] by (simp add: broker_start_def queued_task_def)
  then have r: "broker_reachable sha sample_mcp_db ((broker_start sample_mcp_db)\<lparr>br_tasks := [queued_task]\<rparr>)"
    by (rule broker_reachable.step [OF broker_reachable.start])
  have a: "acquire_execution ''c'' new_runtime = (Inr (), snd (acquire_execution ''c'' new_runtime))"
    by (simp add: acquire_execution_def in_flight_def new_runtime_def)
  have "broker_step sha ((broker_start sample_mcp_db)\<lparr>br_tasks := [queued_task]\<rparr>) one_executing"
    using broker_step.permit [of 0 queued_task "(broker_start sample_mcp_db)\<lparr>br_tasks := [queued_task]\<rparr>" "Inr ()" "snd (acquire_execution ''c'' new_runtime)" sha] a
    by (simp add: in_phase_def queued_task_def broker_start_def one_executing_def)
  then show "broker_reachable sha sample_mcp_db one_executing" by (rule broker_reachable.step [OF r])
  show "\<not> br_stopped one_executing" "executing ''c'' one_executing = 1"
    by (simp_all add: one_executing_def broker_start_def executing_def go_def set_rt_def holds_permit_def queued_task_def)
qed

theorem two_requests_execute_witness: "\<not> br_stopped one_executing \<and> executing ''c'' one_executing = 1 \<and> executing ''c'' one_executing \<le> 2"
  using two_requests_execute [OF one_executing(1) [of "\<lambda>_. []"] one_executing(2), of "''c''"] one_executing(2,3) by simp

text \<open>
  Stopping forgets the permits of requests that still run: after it the counts start again at zero, and when the old
  requests return theirs, they take them from the new ones.
\<close>

lemma stop_forgets_permits: "in_flight c (snd (stop_manager rt)) = 0"
  by (simp add: stop_manager_def in_flight_def)

lemma old_permit_frees_new:
  "in_flight c rt = 2 \<Longrightarrow> fst (acquire_execution c rt) = Inl Unavailable"
  "in_flight c rt = 2 \<Longrightarrow> runtime_ok rt \<Longrightarrow> fst (acquire_execution c (release_execution c rt)) = Inr ()"
  by (simp_all add: acquire_execution_def in_flight_release)

end
