(* ===== verification/McpApproval.thy ===== *)
theory McpApproval
  imports McpBroker
begin

text \<open>
  An approval of the MCP broker goes back to a decision of the user: to the one decision on the very request, or to a
  rule that a decision created for the same client, connection, tool and target.
\<close>

section \<open>Where approvals come from\<close>

definition filed_and_decided :: "broker \<Rightarrow> approval_ask \<Rightarrow> approval_decision \<Rightarrow> bool" where
  "filed_and_decided s a d \<longleftrightarrow> (\<exists>i t. (i, t, a) \<in> br_filed s \<and> (i, d) \<in> br_decisions s)"

text \<open>A rule of the session, or a stored one that is not of the database \<open>d\<close> the broker started with.\<close>

definition session_rule_granted :: "broker \<Rightarrow> approval_rule_key \<Rightarrow> bool" where
  "session_rule_granted s k \<longleftrightarrow> (\<exists>a. filed_and_decided s a Session \<and> rule_key a = Some k \<and> ap_can_allow_session (aa_policy a))"

definition stored_rule_granted :: "mcp_db \<Rightarrow> broker \<Rightarrow> approval_rule_key \<Rightarrow> bool" where
  "stored_rule_granted d s k \<longleftrightarrow> persistent_rule_exists d k
     \<or> (\<exists>a. filed_and_decided s a Persistent \<and> rule_key a = Some k \<and> ap_persistent_command (aa_policy a) \<noteq> None)"

definition user_approved :: "mcp_db \<Rightarrow> broker \<Rightarrow> nat \<Rightarrow> approval_ask \<Rightarrow> approval_decision \<Rightarrow> bool" where
  "user_approved d s t a decision \<longleftrightarrow> approved decision \<and>
     ((\<exists>i. (i, t, a) \<in> br_filed s \<and> (i, decision) \<in> br_decisions s)
      \<or> (\<exists>k. decision = Session \<and> rule_key a = Some k \<and> ap_can_allow_session (aa_policy a) \<and> session_rule_granted s k)
      \<or> (\<exists>k. decision = Persistent \<and> rule_key a = Some k \<and> ap_persistent_command (aa_policy a) \<noteq> None \<and> stored_rule_granted d s k))"

section \<open>The invariant\<close>

text \<open>What is true of the manager's state given what was filed and decided.\<close>

definition rt_consent :: "(string \<times> nat \<times> approval_ask) set \<Rightarrow> (string \<times> approval_decision) set \<Rightarrow> mcp_runtime \<Rightarrow> bool" where
  "rt_consent filed decisions rt \<longleftrightarrow>
     (\<forall>i p. (i, p) \<in> set (rt_approvals rt) \<longrightarrow> (\<exists>t a now. (i, t, a) \<in> filed \<and> pa_rule_key p = rule_key a \<and> pa_view p = approval_view now i a))
     \<and> (\<forall>i p d. (i, p) \<in> set (rt_approvals rt) \<longrightarrow> pa_decision p \<longrightarrow> (i, d) \<notin> decisions)
     \<and> (\<forall>i d. map_of (rt_answers rt) i = Some d \<longrightarrow> d = Reject \<or> (i, d) \<in> decisions)
     \<and> (\<forall>k \<in> set (rt_session_rules rt). \<exists>i t a. (i, t, a) \<in> filed \<and> (i, Session) \<in> decisions \<and> rule_key a = Some k \<and> ap_can_allow_session (aa_policy a))"

text \<open>What is true of the records themselves: one request per identifier, one decision per request, allowed by its policy.\<close>

definition records_ok :: "(string \<times> nat \<times> approval_ask) set \<Rightarrow> (string \<times> approval_decision) set \<Rightarrow> bool" where
  "records_ok filed decisions \<longleftrightarrow>
     (\<forall>i t a t' a'. (i, t, a) \<in> filed \<longrightarrow> (i, t', a') \<in> filed \<longrightarrow> t = t' \<and> a = a')
     \<and> (\<forall>i d d'. (i, d) \<in> decisions \<longrightarrow> (i, d') \<in> decisions \<longrightarrow> d = d')
     \<and> (\<forall>i d. (i, d) \<in> decisions \<longrightarrow> (\<exists>t a. (i, t, a) \<in> filed \<and> (d = Session \<longrightarrow> ap_can_allow_session (aa_policy a))
          \<and> (d = Persistent \<longrightarrow> ap_persistent_command (aa_policy a) \<noteq> None)))"

definition phase_consent :: "mcp_db \<Rightarrow> broker \<Rightarrow> nat \<Rightarrow> phase \<Rightarrow> bool" where
  "phase_consent d0 s t p = (case p of
     Waiting i a \<Rightarrow> (i, t, a) \<in> br_filed s
   | Woken i a d \<Rightarrow> (i, t, a) \<in> br_filed s \<and> (d = Reject \<or> (i, d) \<in> br_decisions s)
   | Answered i a d \<Rightarrow> (i, t, a) \<in> br_filed s \<and> (d = Reject \<or> (i, d) \<in> br_decisions s)
   | Approved a d \<Rightarrow> user_approved d0 s t a d
   | _ \<Rightarrow> True)"

definition consent_inv :: "mcp_db \<Rightarrow> broker \<Rightarrow> bool" where
  "consent_inv d0 s \<longleftrightarrow> rt_consent (br_filed s) (br_decisions s) (br_rt s) \<and> records_ok (br_filed s) (br_decisions s)
     \<and> (\<forall>t < length (br_tasks s). phase_consent d0 s t (tk_phase (br_tasks s ! t)))
     \<and> (\<forall>k. persistent_rule_exists (br_db s) k \<longrightarrow> stored_rule_granted d0 s k)"

text \<open>Changes of the manager's state that add neither approvals nor rules nor answers other than rejections.\<close>

definition withdraws :: "mcp_runtime \<Rightarrow> mcp_runtime \<Rightarrow> bool" where
  "withdraws rt rt' \<longleftrightarrow> set (rt_approvals rt') \<subseteq> set (rt_approvals rt) \<and> set (rt_session_rules rt') \<subseteq> set (rt_session_rules rt)
     \<and> (\<forall>i. map_of (rt_answers rt') i = map_of (rt_answers rt) i \<or> map_of (rt_answers rt') i = None \<or> map_of (rt_answers rt') i = Some Reject)"

lemma withdraws_consent: "withdraws rt rt' \<Longrightarrow> rt_consent filed decisions rt \<Longrightarrow> rt_consent filed decisions rt'"
proof -
  assume w: "withdraws rt rt'" and c: "rt_consent filed decisions rt"
  have sub: "set (rt_approvals rt') \<subseteq> set (rt_approvals rt)" "set (rt_session_rules rt') \<subseteq> set (rt_session_rules rt)"
    and ans: "map_of (rt_answers rt') i = Some d \<Longrightarrow> d = Reject \<or> map_of (rt_answers rt) i = Some d" for i d
    using w unfolding withdraws_def by (blast, blast, metis option.distinct(1) option.inject)
  have "\<forall>i d. map_of (rt_answers rt') i = Some d \<longrightarrow> d = Reject \<or> (i, d) \<in> decisions"
    using c ans unfolding rt_consent_def by blast
  then show ?thesis using c sub unfolding rt_consent_def by blast
qed

lemma withdraws_refl: "rt_approvals rt' = rt_approvals rt \<Longrightarrow> rt_session_rules rt' = rt_session_rules rt \<Longrightarrow> rt_answers rt' = rt_answers rt
    \<Longrightarrow> withdraws rt rt'"
  by (simp add: withdraws_def)

lemma withdraws_drop: "withdraws rt (drop_approvals P rt)"
  unfolding withdraws_def drop_approvals_def
  using fold_reject_only [of "filter (\<lambda>e. P (snd e)) (rt_approvals rt)" "rt\<lparr>rt_approvals := filter (\<lambda>e. \<not> P (snd e)) (rt_approvals rt)\<rparr>"]
  by auto

lemma withdraws_trans: "withdraws a b \<Longrightarrow> withdraws b c \<Longrightarrow> withdraws a c"
  unfolding withdraws_def by (metis (no_types, lifting) subset_trans)

lemma withdraws_event: "runtime_event rt rt' \<Longrightarrow> withdraws rt rt'"
proof (induction rule: runtime_event.induct)
  case (1 rt r)
  have "withdraws rt (cancel_requests (\<lambda>i _. i = r) rt)" by (rule withdraws_refl) simp_all
  then show ?case unfolding cancel_request_def using withdraws_drop by (rule withdraws_trans)
next
  case (2 rt c)
  let ?a = "drop_sessions (\<lambda>s. ms_client_id s = c) rt"
  have "withdraws rt ?a" by (rule withdraws_refl) simp_all
  then have b: "withdraws rt (drop_client_approvals c ?a)" unfolding drop_client_approvals_def using withdraws_drop by (rule withdraws_trans)
  have "withdraws (drop_client_approvals c ?a) (invalidate_client_authorizations c rt)"
    by (auto simp: withdraws_def invalidate_client_authorizations_def Let_def cancel_client_requests_def)
  with b show ?case by (rule withdraws_trans)
next
  case (3 rt c ids)
  let ?a = "rt\<lparr>rt_sessions := filter (\<lambda>e. fst e \<notin> set ids) (rt_sessions rt), rt_external := filter (\<lambda>i. i \<notin> set ids) (rt_external rt)\<rparr>"
  have "withdraws rt ?a" by (rule withdraws_refl) simp_all
  then have "withdraws rt (drop_client_approvals c ?a)" unfolding drop_client_approvals_def using withdraws_drop by (rule withdraws_trans)
  moreover have "withdraws (drop_client_approvals c ?a) (drop_client_rules c (drop_client_approvals c ?a))" by (auto simp: withdraws_def)
  ultimately show ?case unfolding revoke_listed_def by (rule withdraws_trans)
qed (rule withdraws_refl; simp add: cancel_client_requests_def start_manager_def record_auth_failure_def Let_def clear_auth_failure_def open_session_def
      get_session_def remove_expired_sessions_def close_session_def confirm_connection_def acquire_transfer_target_def release_transfer_target_def
      split: option.split)+

lemma withdraws_stop: "withdraws rt (snd (stop_manager rt))"
proof -
  have "\<exists>rt0. snd (stop_manager rt) = fold reject_pending (rt_approvals rt) rt0 \<and> rt_answers rt0 = rt_answers rt
      \<and> rt_approvals rt0 = [] \<and> rt_session_rules rt0 = []"
    unfolding stop_manager_def snd_conv by (intro exI conjI, rule refl) simp_all
  then obtain rt0 where rt0: "snd (stop_manager rt) = fold reject_pending (rt_approvals rt) rt0" "rt_answers rt0 = rt_answers rt"
      "rt_approvals rt0 = []" "rt_session_rules rt0 = []" by blast
  show ?thesis unfolding withdraws_def rt0(1) using fold_reject_only [of "rt_approvals rt" rt0] rt0(2-4) by auto
qed

section \<open>The steps\<close>

lemma phase_consent_mono:
  assumes "phase_consent d0 s t p" "br_filed s \<subseteq> br_filed s'" "br_decisions s \<subseteq> br_decisions s'"
  shows "phase_consent d0 s' t p"
proof -
  have "filed_and_decided s a d \<Longrightarrow> filed_and_decided s' a d" for a d using assms(2,3) unfolding filed_and_decided_def by blast
  then have "session_rule_granted s k \<Longrightarrow> session_rule_granted s' k" "stored_rule_granted d0 s k \<Longrightarrow> stored_rule_granted d0 s' k" for k
    unfolding session_rule_granted_def stored_rule_granted_def by blast+
  then have "user_approved d0 s t a d \<Longrightarrow> user_approved d0 s' t a d" for a d
    using assms(2,3) unfolding user_approved_def by blast
  then show ?thesis using assms by (cases p) (auto simp: phase_consent_def)
qed

lemma stored_mono:
  "stored_rule_granted d0 s k \<Longrightarrow> br_filed s \<subseteq> br_filed s' \<Longrightarrow> br_decisions s \<subseteq> br_decisions s' \<Longrightarrow> stored_rule_granted d0 s' k"
  unfolding stored_rule_granted_def filed_and_decided_def by blast

text \<open>A step of one task: the others keep their phases.\<close>

lemma consent_go:
  assumes "consent_inv d0 s" "in_phase t k p s" "br_tasks s' = br_tasks s" "br_filed s \<subseteq> br_filed s'" "br_decisions s' = br_decisions s"
    and "rt_consent (br_filed s') (br_decisions s') (br_rt s')" "records_ok (br_filed s') (br_decisions s')"
    and "phase_consent d0 s' t q" "\<And>key. persistent_rule_exists (br_db s') key \<Longrightarrow> stored_rule_granted d0 s' key"
  shows "consent_inv d0 (go t q s')"
proof -
  have at_s: "phase_consent d0 s' t' (tk_phase (br_tasks (go t q s') ! t'))" if "t' < length (br_tasks s')" for t'
  proof (cases "t' = t")
    case True
    then show ?thesis using assms(8) that by (simp add: go_def)
  next
    case False
    have "phase_consent d0 s t' (tk_phase (br_tasks s ! t'))" using assms(1,3) that by (simp add: consent_inv_def)
    moreover have "br_decisions s \<subseteq> br_decisions s'" unfolding assms(5) ..
    ultimately have "phase_consent d0 s' t' (tk_phase (br_tasks s ! t'))" using assms(4) by (metis phase_consent_mono)
    then show ?thesis using False assms(3) by (simp add: go_def)
  qed
  have "phase_consent d0 (go t q s') t' (tk_phase (br_tasks (go t q s') ! t'))" if "t' < length (br_tasks s')" for t'
    by (rule phase_consent_mono [OF at_s [OF that]]) simp_all
  moreover have "stored_rule_granted d0 (go t q s') key" if "persistent_rule_exists (br_db s') key" for key
    using assms(9) [OF that] by (rule stored_mono) simp_all
  ultimately show ?thesis using assms(6,7) by (simp add: consent_inv_def)
qed

lemma consent_go_same:
  assumes "consent_inv d0 s" "in_phase t k p s" "withdraws (br_rt s) rt" "phase_consent d0 s t q"
  shows "consent_inv d0 (go t q (set_rt rt s))"
proof (rule consent_go [OF assms(1,2)])
  show "rt_consent (br_filed (set_rt rt s)) (br_decisions (set_rt rt s)) (br_rt (set_rt rt s))"
    using withdraws_consent [OF assms(3)] assms(1) by (simp add: consent_inv_def)
  have same: "stored_rule_granted d0 (set_rt rt s) = stored_rule_granted d0 s"
    by (rule ext) (simp add: stored_rule_granted_def filed_and_decided_def)
  show "stored_rule_granted d0 (set_rt rt s) key" if "persistent_rule_exists (br_db (set_rt rt s)) key" for key
    using assms(1) that unfolding same by (simp add: consent_inv_def)
  show "phase_consent d0 (set_rt rt s) t q" using assms(4) by (rule phase_consent_mono) simp_all
qed (use assms(1) in \<open>simp_all add: consent_inv_def\<close>)

lemma withdraws_res: "f = (res, rt') \<Longrightarrow> withdraws rt (snd f) \<Longrightarrow> withdraws rt rt'"
  by simp

lemma withdraws_ops:
  "withdraws rt (snd (acquire_execution c rt))" "withdraws rt (release_execution c rt)" "withdraws rt (snd (register_request r c b rt))"
  "withdraws rt (release_request r rt)" "withdraws rt (snd (authorize_rate now c w rt))" "withdraws rt (snd (wake i rt))" "withdraws rt (leave_list i rt)"
  by (auto simp: withdraws_def acquire_execution_def release_execution_def register_request_def release_request_def authorize_rate_def
      Let_def case_prod_beta wake_def leave_list_def set_hm_remove split: option.split)

lemma simple_phase: "(\<And>i a. q \<noteq> Waiting i a) \<Longrightarrow> (\<And>i a d. q \<noteq> Woken i a d) \<Longrightarrow> (\<And>i a d. q \<noteq> Answered i a d) \<Longrightarrow> (\<And>a d. q \<noteq> Approved a d)
    \<Longrightarrow> phase_consent d0 s t q"
  by (cases q) (auto simp: phase_consent_def)

lemma in_phase_consent: "consent_inv d0 s \<Longrightarrow> in_phase t k p s \<Longrightarrow> phase_consent d0 s t p"
  unfolding consent_inv_def in_phase_def by auto

lemma consent_other:
  assumes "consent_inv d0 s" "br_tasks s' = br_tasks s" "br_filed s \<subseteq> br_filed s'" "br_decisions s \<subseteq> br_decisions s'"
    and "rt_consent (br_filed s') (br_decisions s') (br_rt s')" "records_ok (br_filed s') (br_decisions s')"
    and "\<And>key. persistent_rule_exists (br_db s') key \<Longrightarrow> persistent_rule_exists (br_db s) key"
  shows "consent_inv d0 s'"
proof -
  have "phase_consent d0 s t (tk_phase (br_tasks s ! t))" if "t < length (br_tasks s)" for t
    using assms(1) that by (simp add: consent_inv_def)
  then have "phase_consent d0 s' t (tk_phase (br_tasks s ! t))" if "t < length (br_tasks s)" for t
    using assms(3,4) that by (metis phase_consent_mono)
  moreover have "stored_rule_granted d0 s' key" if "persistent_rule_exists (br_db s') key" for key
  proof -
    have "stored_rule_granted d0 s key" using assms(1,7) that by (simp add: consent_inv_def)
    then show ?thesis using assms(3,4) by (rule stored_mono)
  qed
  ultimately show ?thesis using assms(2,5,6) by (simp add: consent_inv_def)
qed

lemma set_rt_same: "set_rt (br_rt s) s = s"
  by (simp add: set_rt_def)

lemma withdraws_same: "withdraws rt rt"
  by (simp add: withdraws_def)

lemma consent_go_idle: "consent_inv d0 s \<Longrightarrow> in_phase t k p s \<Longrightarrow> phase_consent d0 s t q \<Longrightarrow> consent_inv d0 (go t q s)"
  using consent_go_same [OF _ _ withdraws_same [of "br_rt s"]] by (simp add: set_rt_same)

lemma inv_parts: "consent_inv d0 s \<Longrightarrow> rt_consent (br_filed s) (br_decisions s) (br_rt s)"
  "consent_inv d0 s \<Longrightarrow> records_ok (br_filed s) (br_decisions s)"
  "consent_inv d0 s \<Longrightarrow> persistent_rule_exists (br_db s) key \<Longrightarrow> stored_rule_granted d0 s key"
  by (auto simp: consent_inv_def)

lemma consent_by_rule:
  assumes "consent_inv d0 s" "by_rule (persistent_rule_exists (br_db s)) a (br_rt s) = Some d"
  shows "user_approved d0 s t a d"
proof -
  obtain k where k: "rule_key a = Some k"
    and d: "d = Session \<and> ap_can_allow_session (aa_policy a) \<and> k \<in> set (rt_session_rules (br_rt s))
       \<or> d = Persistent \<and> ap_persistent_command (aa_policy a) \<noteq> None \<and> persistent_rule_exists (br_db s) k"
    using assms(2) by (auto simp: by_rule_def split: option.splits if_splits)
  have "session_rule_granted s k" if "k \<in> set (rt_session_rules (br_rt s))"
    using inv_parts(1) [OF assms(1)] that unfolding rt_consent_def session_rule_granted_def filed_and_decided_def by blast
  moreover have "stored_rule_granted d0 s k" if "persistent_rule_exists (br_db s) k" using inv_parts(3) [OF assms(1) that] .
  ultimately show ?thesis using k d unfolding user_approved_def approved_def by auto
qed

lemma consent_file:
  assumes "rt_consent filed decisions rt" "records_ok filed decisions" "i \<notin> fst ` filed" "file_approval now i a rt = (Inr (), rt')"
  shows "rt_consent (insert (i, t, a) filed) decisions rt'" "records_ok (insert (i, t, a) filed) decisions"
proof -
  have rt': "rt_approvals rt' = hm_insert i \<lparr>pa_view = approval_view now i a, pa_rule_key = rule_key a, pa_decision = True\<rparr> (rt_approvals rt)"
    "rt_answers rt' = rt_answers rt" "rt_session_rules rt' = rt_session_rules rt"
    using assms(4) by (auto simp: file_approval_def split: if_splits)
  have undecided: "(i, d) \<notin> decisions" for d using assms(2,3) unfolding records_ok_def by (metis fst_conv image_eqI)
  have "\<exists>t' b now'. (j, t', b) \<in> insert (i, t, a) filed \<and> pa_rule_key p = rule_key b \<and> pa_view p = approval_view now' j b"
    if "(j, p) \<in> set (rt_approvals rt')" for j p
  proof (cases "(j, p) \<in> set (rt_approvals rt)")
    case True
    then show ?thesis using assms(1) unfolding rt_consent_def by blast
  next
    case False
    then have "j = i" "p = \<lparr>pa_view = approval_view now i a, pa_rule_key = rule_key a, pa_decision = True\<rparr>"
      using that unfolding rt' set_hm_insert by auto
    then show ?thesis by (intro exI [of _ t] exI [of _ a] exI [of _ now]) simp
  qed
  moreover have "(j, d) \<notin> decisions" if "(j, p) \<in> set (rt_approvals rt')" "pa_decision p" for j p d
    using that assms(1) undecided unfolding rt' set_hm_insert rt_consent_def by auto
  ultimately show "rt_consent (insert (i, t, a) filed) decisions rt'"
    using assms(1) unfolding rt_consent_def rt'(2,3) by blast
  have "(i, t', a') \<notin> filed" for t' a' using assms(3) by force
  then show "records_ok (insert (i, t, a) filed) decisions" using assms(2) unfolding records_ok_def by blast
qed

lemma decide_cases:
  assumes "decide i decision rt = (res, rt')"
  obtains "rt' = rt" "\<not> is_ok res"
  | p where "map_of (rt_approvals rt) i = Some p" "pa_decision p" "\<not> is_ok res"
      "rt' = rt\<lparr>rt_approvals := hm_insert i (p\<lparr>pa_decision := False\<rparr>) (rt_approvals rt)\<rparr>"
  | p d where "map_of (rt_approvals rt) i = Some p" "pa_decision p" "select_decision decision p = Some d" "is_ok res"
      "rt' = rt\<lparr>rt_approvals := hm_insert i (p\<lparr>pa_decision := False\<rparr>) (rt_approvals rt), rt_answers := hm_insert i d (rt_answers rt)\<rparr>"
proof (cases "map_of (rt_approvals rt) i")
  case None
  then show ?thesis using assms that(1) by (auto simp: decide_def)
next
  case (Some p)
  show ?thesis
  proof (cases "select_decision decision p")
    case None
    then show ?thesis using assms that(1) Some by (auto simp: decide_def)
  next
    case d: (Some d)
    consider "\<not> pa_decision p" | "pa_decision p" "i \<notin> set (rt_waiting rt)" | "pa_decision p" "i \<in> set (rt_waiting rt)" by blast
    then show ?thesis
    proof cases
      case 1
      then have "decide i decision rt = (Inl Unavailable, rt)" using Some d by (simp add: decide_def)
      then show ?thesis using assms that(1) by simp
    next
      case 2
      then have "decide i decision rt = (Inl Unavailable, rt\<lparr>rt_approvals := hm_insert i (p\<lparr>pa_decision := False\<rparr>) (rt_approvals rt)\<rparr>)"
        using Some d by (simp add: decide_def send_decision_def)
      then show ?thesis using assms that(2) [OF Some 2(1)] by simp
    next
      case 3
      then have "decide i decision rt = (Inr (), rt\<lparr>rt_approvals := hm_insert i (p\<lparr>pa_decision := False\<rparr>) (rt_approvals rt),
          rt_answers := hm_insert i d (rt_answers rt)\<rparr>)"
        using Some d by (simp add: decide_def send_decision_def)
      then show ?thesis using assms that(3) [OF Some 3(1) d] by simp
    qed
  qed
qed

lemma consent_not_decided:
  assumes "rt_consent filed decisions rt" "decide i decision rt = (Inl e, rt')"
  shows "rt_consent filed decisions rt'"
  using assms(2)
proof (cases rule: decide_cases)
  case 1
  then show ?thesis using assms(1) by simp
next
  case (2 p)
  then have "(i, p) \<in> set (rt_approvals rt)" by (auto dest: map_of_SomeD)
  then show ?thesis using assms(1) unfolding rt_consent_def 2(4) by (auto simp: set_hm_insert)
next
  case (3 p d)
  then show ?thesis by simp
qed

lemma consent_decided:
  assumes "rt_consent filed decisions rt" "records_ok filed decisions" "decide i decision rt = (Inr (), rt')"
    "map_of (rt_approvals rt) i = Some p" "select_decision decision p = Some d"
  shows "rt_consent filed (insert (i, d) decisions) rt'" "records_ok filed (insert (i, d) decisions)"
proof -
  have rt': "pa_decision p"
    "rt' = rt\<lparr>rt_approvals := hm_insert i (p\<lparr>pa_decision := False\<rparr>) (rt_approvals rt), rt_answers := hm_insert i d (rt_answers rt)\<rparr>"
    using assms(3) by (cases rule: decide_cases; use assms(4,5) in simp)+
  have p: "(i, p) \<in> set (rt_approvals rt)" using assms(4) by (rule map_of_SomeD)
  obtain t a now where f: "(i, t, a) \<in> filed" "pa_rule_key p = rule_key a" "pa_view p = approval_view now i a"
    using assms(1) p unfolding rt_consent_def by blast
  have undecided: "(i, d') \<notin> decisions" for d' using assms(1) p rt'(1) unfolding rt_consent_def by blast
  have "\<exists>t a now. (j, t, a) \<in> filed \<and> pa_rule_key q = rule_key a \<and> pa_view q = approval_view now j a" if "(j, q) \<in> set (rt_approvals rt')" for j q
  proof (cases "(j, q) \<in> set (rt_approvals rt)")
    case True
    then show ?thesis using assms(1) unfolding rt_consent_def by blast
  next
    case False
    then have "j = i" "q = p\<lparr>pa_decision := False\<rparr>" using that unfolding rt'(2) by (auto simp: set_hm_insert)
    then show ?thesis using f by (intro exI [of _ t] exI [of _ a] exI [of _ now]) simp
  qed
  moreover have "(j, d') \<notin> insert (i, d) decisions" if "(j, q) \<in> set (rt_approvals rt')" "pa_decision q" for j q d'
    using that assms(1) unfolding rt'(2) rt_consent_def by (auto simp: set_hm_insert)
  moreover have "d' = Reject \<or> (j, d') \<in> insert (i, d) decisions" if "map_of (rt_answers rt') j = Some d'" for j d'
    using that assms(1) unfolding rt'(2) rt_consent_def by (auto split: if_splits)
  moreover have "\<forall>k \<in> set (rt_session_rules rt'). \<exists>j t a. (j, t, a) \<in> filed \<and> (j, Session) \<in> insert (i, d) decisions \<and> rule_key a = Some k \<and> ap_can_allow_session (aa_policy a)"
  proof -
    have "rt_session_rules rt' = rt_session_rules rt" unfolding rt'(2) by simp
    then show ?thesis using assms(1) unfolding rt_consent_def by (metis insertI2)
  qed
  ultimately show "rt_consent filed (insert (i, d) decisions) rt'" unfolding rt_consent_def by blast
  have "d = Session \<longrightarrow> ap_can_allow_session (aa_policy a)" "d = Persistent \<longrightarrow> ap_persistent_command (aa_policy a) \<noteq> None"
    using assms(5) f(3) by (auto simp: select_decision_def approval_view_def split: if_splits)
  then show "records_ok filed (insert (i, d) decisions)" using assms(2) undecided f(1) unfolding records_ok_def by blast
qed

lemma consent_remember:
  assumes "rt_consent filed decisions rt" "(i, t, a) \<in> filed" "d = Reject \<or> (i, d) \<in> decisions"
  shows "rt_consent filed decisions (remember_session_rule a d rt)"
proof (cases "\<exists>k. rule_key a = Some k \<and> d = Session \<and> ap_can_allow_session (aa_policy a)")
  case True
  then obtain k where k: "rule_key a = Some k" "d = Session" "ap_can_allow_session (aa_policy a)" by blast
  then have "remember_session_rule a d rt = rt\<lparr>rt_session_rules := List.insert k (rt_session_rules rt)\<rparr>" by (simp add: remember_session_rule_def)
  moreover have "(i, Session) \<in> decisions" using assms(3) k(2) by simp
  ultimately show ?thesis using assms(1,2) k unfolding rt_consent_def by (simp, blast)
next
  case False
  then have "remember_session_rule a d rt = rt" by (auto simp: remember_session_rule_def split: option.split)
  then show ?thesis using assms(1) by simp
qed

lemma saved_rule_granted:
  assumes "consent_inv d0 s" "(i, t, a) \<in> br_filed s" "(i, Persistent) \<in> br_decisions s" "saves a Persistent = Some (key, command)"
  shows "stored_rule_granted d0 s key"
  using assms(2-4) unfolding stored_rule_granted_def filed_and_decided_def saves_def by (fastforce split: option.splits)

lemma answered_user_approved: "(i, t, a) \<in> br_filed s \<Longrightarrow> d = Reject \<or> (i, d) \<in> br_decisions s \<Longrightarrow> approved d \<Longrightarrow> user_approved d0 s t a d"
  unfolding user_approved_def approved_def by blast

lemma consent_step: "broker_step sha s s' \<Longrightarrow> consent_inv d0 s \<Longrightarrow> consent_inv d0 s'"
proof (induction rule: broker_step.induct)
  case (arrive s c r)
  let ?s = "s\<lparr>br_tasks := br_tasks s @ [\<lparr>tk_client = c, tk_request = r, tk_phase = Queued\<rparr>]\<rparr>"
  have keep: "phase_consent d0 ?s t p" if "phase_consent d0 s t p" for t p using that by (rule phase_consent_mono) simp_all
  have stored: "stored_rule_granted d0 ?s k" if "stored_rule_granted d0 s k" for k using that by (rule stored_mono) simp_all
  have "phase_consent d0 ?s t (tk_phase (br_tasks ?s ! t))" if "t < length (br_tasks ?s)" for t
  proof (cases "t < length (br_tasks s)")
    case True
    then have "phase_consent d0 s t (tk_phase (br_tasks s ! t))" using arrive by (simp add: consent_inv_def)
    then show ?thesis using keep True by (simp add: nth_append)
  next
    case False
    then have "tk_phase (br_tasks ?s ! t) = Queued" using that by (simp add: nth_append)
    then show ?thesis by (simp add: phase_consent_def)
  qed
  moreover have "\<forall>k. persistent_rule_exists (br_db ?s) k \<longrightarrow> stored_rule_granted d0 ?s k" using stored inv_parts(3) [OF arrive] by simp
  ultimately show ?case using inv_parts(1,2) [OF arrive] unfolding consent_inv_def by simp
next
  case (permit t k s res rt)
  show ?case by (rule consent_go_same [OF permit(3,1) withdraws_res [OF permit(2) withdraws_ops(1)]]) (simp add: simple_phase)
next
  case (register t k s cancelled res rt)
  show ?case by (rule consent_go_same [OF register(3,1) withdraws_res [OF register(2) withdraws_ops(3)]]) (simp add: simple_phase)
next
  case (rate t k s now w res rt)
  show ?case by (rule consent_go_same [OF rate(3,1) withdraws_res [OF rate(2) withdraws_ops(5)]]) (simp add: simple_phase)
next
  case (rule t k a s d)
  show ?case by (rule consent_go_idle [OF rule(3,1)]) (simp add: phase_consent_def consent_by_rule [OF rule(3,2)])
next
  case (file_ask t k a s i now rt)
  note f = consent_file [OF inv_parts(1,2) [OF file_ask(5)] file_ask(3,4), of t]
  have stored: "stored_rule_granted d0 (set_rt rt (s\<lparr>br_filed := insert (i, t, a) (br_filed s)\<rparr>)) key" if "persistent_rule_exists (br_db s) key" for key
    using inv_parts(3) [OF file_ask(5) that] by (rule stored_mono) auto
  show ?case by (rule consent_go [OF file_ask(5,1)]) (use f stored in \<open>auto simp: phase_consent_def\<close>)
next
  case (refuse t k a s now i e rt)
  have "rt = br_rt s" using refuse(3) by (auto simp: file_approval_def split: if_splits)
  then show ?case using consent_go_idle [OF refuse(4,1)] by (simp add: set_rt_same simple_phase)
next
  case (wake t k i a s d rt)
  have "d = Reject \<or> (i, d) \<in> br_decisions s"
    using wake(2) inv_parts(1) [OF wake(3)] by (auto simp: wake_def rt_consent_def split: option.splits)
  moreover have "(i, t, a) \<in> br_filed s" using in_phase_consent [OF wake(3,1)] by (simp add: phase_consent_def)
  ultimately show ?case
    by (intro consent_go_same [OF wake(3,1) withdraws_res [OF wake(2) withdraws_ops(6)]]) (simp add: phase_consent_def)
next
  case (leave t k i a d s)
  show ?case
    by (rule consent_go_same [OF leave(2,1) withdraws_ops(7)]) (use in_phase_consent [OF leave(2,1)] in \<open>simp add: phase_consent_def\<close>)
next
  case (remember t k i a d s)
  have p: "(i, t, a) \<in> br_filed s" "d = Reject \<or> (i, d) \<in> br_decisions s" using in_phase_consent [OF remember(3,1)] by (auto simp: phase_consent_def)
  let ?s = "set_rt (remember_session_rule a d (br_rt s)) s"
  have "user_approved d0 ?s t a d" if "approved d" by (rule answered_user_approved) (use p that in simp_all)
  then have q: "phase_consent d0 ?s t (if approved d then Approved a d else Returning)" by (simp add: phase_consent_def)
  have stored: "stored_rule_granted d0 ?s key" if "persistent_rule_exists (br_db s) key" for key
    using inv_parts(3) [OF remember(3) that] by (rule stored_mono) simp_all
  show ?case
    by (rule consent_go [OF remember(3,1) _ _ _ _ _ q]) (use consent_remember [OF inv_parts(1) [OF remember(3)] p] inv_parts(2) [OF remember(3)] stored in simp_all)
next
  case (save t k i a d s key command new_id audit_id now d')
  have d: "d = Persistent" using save(2) by (auto simp: saves_def split: option.splits if_splits)
  have p: "(i, t, a) \<in> br_filed s" "(i, Persistent) \<in> br_decisions s" using in_phase_consent [OF save(4,1)] d by (auto simp: phase_consent_def)
  let ?s = "s\<lparr>br_db := d'\<rparr>"
  have q: "phase_consent d0 ?s t (Approved a d)"
    unfolding phase_consent_def phase.case by (rule answered_user_approved [of i]) (use p d in \<open>simp_all add: approved_def\<close>)
  have "stored_rule_granted d0 s key'" if "persistent_rule_exists d' key'" for key'
  proof -
    have "key' = key \<or> persistent_rule_exists (br_db s) key'" using save_persistent_rule_Inr [OF save(3)] that by simp
    then show ?thesis
    proof
      assume k: "key' = key"
      show ?thesis unfolding k by (rule saved_rule_granted [OF save(4) p save(2) [unfolded d]])
    qed (rule inv_parts(3) [OF save(4)])
  qed
  then have stored: "stored_rule_granted d0 ?s key'" if "persistent_rule_exists d' key'" for key'
    using that stored_mono [of d0 s key' ?s] by simp
  show ?case by (rule consent_go [OF save(4,1) _ _ _ _ _ q]) (use inv_parts(1,2) [OF save(4)] stored in simp_all)
next
  case (drop_request t k s)
  show ?case by (rule consent_go_same [OF drop_request(2,1) withdraws_ops(4)]) (simp add: simple_phase)
next
  case (drop_execution t k s)
  show ?case by (rule consent_go_same [OF drop_execution(2,1) withdraws_ops(2)]) (simp add: simple_phase)
next
  case (decided s i p decision d rt)
  note f = consent_decided [OF inv_parts(1,2) [OF decided(4)] decided(3,1,2)]
  show ?case by (rule consent_other [OF decided(4)]) (use f in auto)
next
  case (not_decided i decision s e rt)
  show ?case
    by (rule consent_other [OF not_decided(2)]) (use consent_not_decided [OF inv_parts(1) [OF not_decided(2)] not_decided(1)] inv_parts(2) [OF not_decided(2)] in simp_all)
next
  case (event s rt)
  show ?case
    by (rule consent_other [OF event(2)]) (use withdraws_consent [OF withdraws_event [OF event(1)] inv_parts(1) [OF event(2)]] inv_parts(2) [OF event(2)] in simp_all)
next
  case (stop s)
  show ?case
    by (rule consent_other [OF stop]) (use withdraws_consent [OF withdraws_stop inv_parts(1) [OF stop]] inv_parts(2) [OF stop] in simp_all)
next
  case (database d s)
  show ?case
    by (rule consent_other [OF database(2)]) (use inv_parts(1,2) [OF database(2)] database(1) in \<open>auto simp: rule_exists_keys\<close>)
qed (rule consent_go_idle; (assumption | simp add: simple_phase))+

text \<open>C16: Whatever requests, decisions, cancellations, withdrawals and stops interleave: a request is approved only with
  a decision other than a rejection, and this decision is the one the user made on exactly this request, or the
  request's policy lets a rule answer and the user granted that rule for the same client, connection, tool and target
  before: for the session on a request whose policy allows it, or stored on a request whose command may be saved
  (unless the database already had the rule when the application started).\<close>

theorem approvals_are_the_users:
  assumes "broker_reachable sha d s" "in_phase t k (Approved a decision) s"
  shows "user_approved d s t a decision"
proof -
  have "consent_inv d s" using assms(1)
  proof (induction rule: broker_reachable.induct)
    case start
    show ?case
      by (simp add: consent_inv_def broker_start_def rt_consent_def records_ok_def new_runtime_def stored_rule_granted_def)
  next
    case (step s s')
    then show ?case by (blast intro: consent_step)
  qed
  then have "phase_consent d s t (Approved a decision)" using assms(2) by (rule in_phase_consent)
  then show ?thesis by (simp add: phase_consent_def)
qed

section \<open>A run\<close>

definition one_task :: "phase \<Rightarrow> mcp_runtime \<Rightarrow> (string \<times> nat \<times> approval_ask) set \<Rightarrow> (string \<times> approval_decision) set \<Rightarrow> broker" where
  "one_task p rt filed decisions = \<lparr>br_rt = rt, br_db = sample_mcp_db, br_tasks = [\<lparr>tk_client = ''c'', tk_request = ''r'', tk_phase = p\<rparr>],
     br_filed = filed, br_decisions = decisions, br_stopped = False\<rparr>"

lemma one_task_simps [simp]:
  "go 0 p (one_task q rt f d) = one_task p rt f d" "set_rt rt' (one_task q rt f d) = one_task q rt' f d" "br_rt (one_task q rt f d) = rt"
  "br_db (one_task q rt f d) = sample_mcp_db" "br_filed (one_task q rt f d) = f" "br_decisions (one_task q rt f d) = d"
  "(one_task q rt f d)\<lparr>br_filed := f'\<rparr> = one_task q rt f' d" "(one_task q rt f d)\<lparr>br_decisions := d'\<rparr> = one_task q rt f d'"
  "in_phase 0 \<lparr>tk_client = ''c'', tk_request = ''r'', tk_phase = p\<rparr> p (one_task p rt f d)"
  by (simp_all add: one_task_def go_def set_rt_def in_phase_def)

definition running_rt :: mcp_runtime where
  "running_rt = snd (authorize_rate 0 ''c'' True (snd (register_request ''r'' ''c'' False (snd (acquire_execution ''c'' new_runtime)))))"

definition filed_rt :: mcp_runtime where
  "filed_rt = snd (file_approval 0 ''a'' sample_ask running_rt)"

definition decided_rt :: mcp_runtime where
  "decided_rt = snd (decide ''a'' ''session'' filed_rt)"

lemma running_reachable: "broker_reachable sha sample_mcp_db (one_task Running running_rt {} {})"
proof -
  let ?k = "\<lambda>p. \<lparr>tk_client = ''c'', tk_request = ''r'', tk_phase = p\<rparr>"
  let ?a = "snd (acquire_execution ''c'' new_runtime)" and ?r = "snd (register_request ''r'' ''c'' False (snd (acquire_execution ''c'' new_runtime)))"
  have "broker_step sha (broker_start sample_mcp_db) (one_task Queued new_runtime {} {})"
    using broker_step.arrive [of sha "broker_start sample_mcp_db" "''c''" "''r''"] by (simp add: broker_start_def one_task_def)
  then have q: "broker_reachable sha sample_mcp_db (one_task Queued new_runtime {} {})" by (rule broker_reachable.step [OF broker_reachable.start])
  have "broker_step sha (one_task Queued new_runtime {} {}) (one_task Permitted ?a {} {})"
    using broker_step.permit [of 0 "?k Queued" "one_task Queued new_runtime {} {}" "Inr ()" ?a sha]
    by (simp add: acquire_execution_def in_flight_def new_runtime_def)
  note p = broker_reachable.step [OF q this]
  have "broker_step sha (one_task Permitted ?a {} {}) (one_task Registered ?r {} {})"
    using broker_step.register [of 0 "?k Permitted" "one_task Permitted ?a {} {}" False "Inr ()" ?r sha]
    by (simp add: register_request_def acquire_execution_def in_flight_def new_runtime_def)
  note r = broker_reachable.step [OF p this]
  have "broker_step sha (one_task Registered ?r {} {}) (one_task Running running_rt {} {})"
    using broker_step.rate [of 0 "?k Registered" "one_task Registered ?r {} {}" 0 True "Inr ()" running_rt sha]
    by (simp add: running_rt_def authorize_rate_def rate_step_def slide_def rate_limit_def rate_state_def register_request_def
        acquire_execution_def in_flight_def new_runtime_def)
  then show ?thesis by (rule broker_reachable.step [OF r])
qed

lemma running_rt_simps: "rt_approvals running_rt = []" "rt_session_rules running_rt = []" "rt_waiting running_rt = []" "rt_answers running_rt = []"
  by (simp_all add: running_rt_def authorize_rate_def case_prod_beta Let_def register_request_def acquire_execution_def in_flight_def new_runtime_def)

lemma sample_ask_simps: "rule_key sample_ask = Some \<lparr>rk_client_id = ''c'', rk_connection_id = ''h'', rk_tool = ''cnshell_run_command'', rk_target_key = ''command:sha256:0''\<rparr>"
  "ap_can_allow_session (aa_policy sample_ask)" "aa_client_id sample_ask = ''c''" "aa_request_id sample_ask = ''r''"
  by (simp_all add: sample_ask_def rule_key_def)

lemma filed: "file_approval 0 ''a'' sample_ask running_rt = (Inr (), filed_rt)"
  by (simp add: filed_rt_def file_approval_def running_rt_simps MAX_PENDING_GLOBAL_def MAX_PENDING_PER_CLIENT_def)

lemma filed_rt_simps: "rt_approvals filed_rt = [(''a'', \<lparr>pa_view = approval_view 0 ''a'' sample_ask, pa_rule_key = rule_key sample_ask, pa_decision = True\<rparr>)]"
  "rt_waiting filed_rt = [''a'']" "rt_answers filed_rt = []" "rt_session_rules filed_rt = []"
  by (simp_all add: filed_rt_def file_approval_def running_rt_simps MAX_PENDING_GLOBAL_def MAX_PENDING_PER_CLIENT_def hm_insert_def hm_remove_def)

lemma decided: "decide ''a'' ''session'' filed_rt = (Inr (), decided_rt)" "rt_answers decided_rt = [(''a'', Session)]"
  "rt_approvals decided_rt = [(''a'', \<lparr>pa_view = approval_view 0 ''a'' sample_ask, pa_rule_key = rule_key sample_ask, pa_decision = False\<rparr>)]"
  "rt_session_rules decided_rt = []"
  by (simp_all add: decided_rt_def decide_def filed_rt_simps select_decision_def approval_view_def sample_ask_simps send_decision_def hm_insert_def hm_remove_def)

lemma decided_reachable: "broker_reachable sha sample_mcp_db (one_task (Waiting ''a'' sample_ask) decided_rt {(''a'', 0, sample_ask)} {(''a'', Session)})"
proof -
  let ?k = "\<lambda>p. \<lparr>tk_client = ''c'', tk_request = ''r'', tk_phase = p\<rparr>" and ?f = "{(''a'', 0, sample_ask)}"
  have "broker_step sha (one_task Running running_rt {} {}) (one_task (Asking sample_ask) running_rt {} {})"
    using broker_step.ask [of 0 "?k Running" "one_task Running running_rt {} {}" sample_ask sha] by (simp add: sample_ask_simps)
  note a = broker_reachable.step [OF running_reachable this]
  have no_rule: "by_rule (persistent_rule_exists sample_mcp_db) sample_ask running_rt = None"
    by (simp add: by_rule_def sample_ask_simps running_rt_simps persistent_rule_exists_def sample_mcp_db_def)
  have "broker_step sha (one_task (Asking sample_ask) running_rt {} {}) (one_task (Waiting ''a'' sample_ask) filed_rt ?f {})"
    using broker_step.file_ask [of 0 "?k (Asking sample_ask)" sample_ask "one_task (Asking sample_ask) running_rt {} {}" "''a''" 0 filed_rt sha] no_rule filed
    by simp
  note w = broker_reachable.step [OF a this]
  have "broker_step sha (one_task (Waiting ''a'' sample_ask) filed_rt ?f {}) (one_task (Waiting ''a'' sample_ask) decided_rt ?f {(''a'', Session)})"
    using broker_step.decided [of "one_task (Waiting ''a'' sample_ask) filed_rt ?f {}" "''a''" _ "''session''" Session decided_rt sha] decided(1)
    by (simp add: filed_rt_simps select_decision_def approval_view_def sample_ask_simps)
  then show ?thesis by (rule broker_reachable.step [OF w])
qed

text \<open>From a state in which the user has decided, the task goes on to the approval.\<close>

lemma approved_reachable:
  assumes "broker_reachable sha sample_mcp_db (one_task (Waiting ''a'' sample_ask) rt f d)" "rt_answers rt = [(''a'', Session)]"
  shows "\<exists>rt'. broker_reachable sha sample_mcp_db (one_task (Approved sample_ask Session) rt' f d)
    \<and> the (rule_key sample_ask) \<in> set (rt_session_rules rt')"
proof -
  let ?k = "\<lambda>p. \<lparr>tk_client = ''c'', tk_request = ''r'', tk_phase = p\<rparr>"
  let ?w = "snd (wake ''a'' rt)"
  let ?l = "leave_list ''a'' ?w"
  have "wake ''a'' rt = (Session, ?w)" using assms(2) by (simp add: wake_def)
  then have "broker_step sha (one_task (Waiting ''a'' sample_ask) rt f d) (one_task (Woken ''a'' sample_ask Session) ?w f d)"
    using broker_step.wake [of 0 "?k (Waiting ''a'' sample_ask)" "''a''" sample_ask "one_task (Waiting ''a'' sample_ask) rt f d" Session ?w sha] by simp
  note a = broker_reachable.step [OF assms(1) this]
  have "broker_step sha (one_task (Woken ''a'' sample_ask Session) ?w f d) (one_task (Answered ''a'' sample_ask Session) ?l f d)"
    using broker_step.leave [of 0 "?k (Woken ''a'' sample_ask Session)" "''a''" sample_ask Session "one_task (Woken ''a'' sample_ask Session) ?w f d" sha] by simp
  note b = broker_reachable.step [OF a this]
  have "saves sample_ask Session = None" by (simp add: saves_def split: option.split)
  then have "broker_step sha (one_task (Answered ''a'' sample_ask Session) ?l f d) (one_task (Approved sample_ask Session) (remember_session_rule sample_ask Session ?l) f d)"
    using broker_step.remember [of 0 "?k (Answered ''a'' sample_ask Session)" "''a''" sample_ask Session "one_task (Answered ''a'' sample_ask Session) ?l f d" sha]
    by (simp add: approved_def)
  note c = broker_reachable.step [OF b this]
  show ?thesis by (intro exI conjI, rule c) (simp add: remember_session_rule_def sample_ask_simps)
qed

theorem approvals_are_the_users_witness:
  "\<exists>s. broker_reachable (\<lambda>_. []) sample_mcp_db s \<and> user_approved sample_mcp_db s 0 sample_ask Session"
proof -
  obtain rt where "broker_reachable (\<lambda>_. []) sample_mcp_db (one_task (Approved sample_ask Session) rt {(''a'', 0, sample_ask)} {(''a'', Session)})"
    using approved_reachable [OF decided_reachable decided(2)] by blast
  then show ?thesis using approvals_are_the_users by (metis one_task_simps(9))
qed

text \<open>
  A decision that was sent but not yet received survives the withdrawal of all authorisations of the client: the task
  goes on, and the rule it then adds stays for the session.
\<close>

lemma late_rule_survives:
  "\<exists>rt. broker_reachable sha sample_mcp_db (one_task (Approved sample_ask Session) rt {(''a'', 0, sample_ask)} {(''a'', Session)})
     \<and> the (rule_key sample_ask) \<in> set (rt_session_rules rt)
     \<and> broker_reachable sha sample_mcp_db (one_task (Waiting ''a'' sample_ask) (invalidate_client_authorizations ''c'' decided_rt) {(''a'', 0, sample_ask)} {(''a'', Session)})"
proof -
  let ?rt = "invalidate_client_authorizations ''c'' decided_rt"
  have "broker_step sha (one_task (Waiting ''a'' sample_ask) decided_rt {(''a'', 0, sample_ask)} {(''a'', Session)})
      (one_task (Waiting ''a'' sample_ask) ?rt {(''a'', 0, sample_ask)} {(''a'', Session)})"
    using broker_step.event [of "one_task (Waiting ''a'' sample_ask) decided_rt {(''a'', 0, sample_ask)} {(''a'', Session)}" ?rt sha] runtime_event.intros(2)
    by simp
  note r = broker_reachable.step [OF decided_reachable this]
  have "rt_answers ?rt = [(''a'', Session)]"
    by (simp add: invalidate_answers decided reject_pending_def drop_sessions_def)
  then show ?thesis using approved_reachable [OF r] r by blast
qed

text \<open>Whoever knows the identifier of a request can cancel it: \<open>cancel_request\<close> asks for no client.\<close>

lemma cancel_needs_no_owner:
  "map_of (rt_active_requests rt) r = Some q \<Longrightarrow> \<exists>q'. (r, q') \<in> set (rt_active_requests (cancel_request r rt)) \<and> ar_cancelled q'"
  by (force simp: cancel_request_def cancel_requests_def dest!: map_of_SomeD)

end
