(* ===== verification/TeamCrypto.thy ===== *)
theory TeamCrypto
  imports DeskText
begin

text \<open>
  What the team features of the desktop share: the cryptographic and encoding crates as a parameter
  (\<open>uuid\<close>, \<open>base64\<close>, \<open>sha2\<close>, \<open>chrono\<close>, \<open>x25519_dalek\<close>, \<open>hkdf\<close>, \<open>aes_gcm\<close>, \<open>ed25519_dalek\<close>), their
  documented laws, and the device identities of \<open>team_share.rs\<close>. Byte strings are lists of bytes.
\<close>

section \<open>Third-party functions\<close>

text \<open>
  \<open>seal\<close> and \<open>unseal\<close> are AES-256-GCM under a 32-byte key: key, nonce, associated data, message.
  HKDF-SHA256 to 32 bytes never fails. Instants are integers (nanoseconds).
\<close>

record crypto =
  uuid_ok :: "string \<Rightarrow> bool"
  b64_encode :: "string \<Rightarrow> string"
  b64_decode :: "string \<Rightarrow> string option"
  b64_std_encode :: "string \<Rightarrow> string"
  b64_std_decode :: "string \<Rightarrow> string option"
  sha256_hex :: "string \<Rightarrow> string"
  to_rfc3339 :: "int \<Rightarrow> string"
  parse_rfc3339 :: "string \<Rightarrow> int option"
  x25519_public :: "string \<Rightarrow> string"
  x25519 :: "string \<Rightarrow> string \<Rightarrow> string"
  contributory :: "string \<Rightarrow> bool"
  hkdf :: "string \<Rightarrow> string \<Rightarrow> string \<Rightarrow> string"
  seal :: "string \<Rightarrow> string \<Rightarrow> string \<Rightarrow> string \<Rightarrow> string option"
  unseal :: "string \<Rightarrow> string \<Rightarrow> string \<Rightarrow> string \<Rightarrow> string option"
  ed_public :: "string \<Rightarrow> string"
  ed_key_ok :: "string \<Rightarrow> bool"
  ed_signature_ok :: "string \<Rightarrow> bool"
  ed_sign :: "string \<Rightarrow> string \<Rightarrow> string"
  ed_verify :: "string \<Rightarrow> string \<Rightarrow> string \<Rightarrow> bool"

text \<open>
  The laws the crates document: decoding undoes encoding, base64 has four digits for three bytes, a date and time in nanoseconds
  (up to 2262) is read as it was written, a sealed message opens under the same key,
  nonce and associated data and is 16 bytes longer, both ends of an X25519 exchange compute the same
  secret, and a signature verifies under the public key of its secret.
\<close>

definition crypto_laws :: "crypto \<Rightarrow> bool" where
  "crypto_laws C \<longleftrightarrow>
     (\<forall>b. b64_decode C (b64_encode C b) = Some b) \<and> (\<forall>b. b64_std_decode C (b64_std_encode C b) = Some b)
   \<and> (\<forall>b. length (b64_std_encode C b) \<le> 4 * ((length b + 2) div 3))
   \<and> (\<forall>t. 0 \<le> t \<and> t < 2 ^ 63 \<longrightarrow> parse_rfc3339 C (to_rfc3339 C t) = Some t)
   \<and> (\<forall>k n a m c. seal C k n a m = Some c \<longrightarrow> unseal C k n a c = Some m \<and> length c = length m + 16)
   \<and> (\<forall>s t. x25519 C s (x25519_public C t) = x25519 C t (x25519_public C s))
   \<and> (\<forall>s. length (x25519_public C s) = 32 \<and> length (ed_public C s) = 32 \<and> ed_key_ok C (ed_public C s))
   \<and> (\<forall>s m. ed_signature_ok C (ed_sign C s m) \<and> ed_verify C (ed_public C s) m (ed_sign C s m))"

lemma crypto_lawsD:
  assumes "crypto_laws C"
  shows "b64_decode C (b64_encode C b) = Some b" "b64_std_decode C (b64_std_encode C b) = Some b"
    and "length (b64_std_encode C b) \<le> 4 * ((length b + 2) div 3)"
    and "0 \<le> instant \<Longrightarrow> instant < 2 ^ 63 \<Longrightarrow> parse_rfc3339 C (to_rfc3339 C instant) = Some instant"
    and "seal C k n a m = Some c \<Longrightarrow> unseal C k n a c = Some m" "seal C k n a m = Some c \<Longrightarrow> length c = length m + 16"
    and "x25519 C s (x25519_public C t) = x25519 C t (x25519_public C s)"
    and "length (x25519_public C s) = 32" "length (ed_public C s) = 32" "ed_key_ok C (ed_public C s)"
    and "ed_signature_ok C (ed_sign C s m)" "ed_verify C (ed_public C s) m (ed_sign C s m)"
  using assms unfolding crypto_laws_def by blast+

definition NUL :: string where
  "NUL = [char_of (0 :: nat)]"

text \<open>Decimal notation of an \<open>i64\<close>.\<close>

definition string_of_int :: "int \<Rightarrow> string" where
  "string_of_int n = (if n < 0 then CHR ''-'' # string_of_nat (nat (- n)) else string_of_nat (nat n))"

section \<open>Texts\<close>

definition valid_uuid :: "crypto \<Rightarrow> string \<Rightarrow> bool" where
  "valid_uuid C v \<longleftrightarrow> length v \<le> 64 \<and> uuid_ok C v"

definition clean_name :: "string \<Rightarrow> string app_result" where
  "clean_name raw =
     (let v = str_trim raw in if v = [] \<or> 256 < length v \<or> has_control v then Inl Validation else Inr v)"

text \<open>\<open>Path::file_name\<close>, \<open>Path::extension\<close> and \<open>Path::parent\<close> of an absolute path.\<close>

definition path_extension :: "string \<Rightarrow> string option" where
  "path_extension path =
     (let cs = components path in
      if cs = [] \<or> last cs = ''..'' then None
      else case rsplit_once (CHR ''.'') (last cs) of
          Some (stem, ext) \<Rightarrow> if stem = [] then None else Some ext
        | None \<Rightarrow> None)"

definition path_parent :: "string \<Rightarrow> string option" where
  "path_parent path = (let cs = components path in if cs = [] then None else Some (path_of (butlast cs)))"

definition is_absolute :: "string \<Rightarrow> bool" where
  "is_absolute path \<longleftrightarrow> starts_with ''/'' path"

section \<open>Device keys\<close>

record team_device =
  td_id :: string
  td_workspace_id :: string
  td_member_id :: string
  td_name :: string
  td_encryption_public_key :: string
  td_signing_public_key :: string
  td_fingerprint :: string
  td_is_local :: bool
  td_status :: string
  td_created_at :: string
  td_updated_at :: string
  td_revoked_at :: "string option"

definition encode_key :: "crypto \<Rightarrow> string \<Rightarrow> string \<Rightarrow> string" where
  "encode_key C kind bytes = kind @ '':'' @ b64_encode C bytes"

definition decode_key :: "crypto \<Rightarrow> string \<Rightarrow> string \<Rightarrow> string app_result" where
  "decode_key C v kind =
     rbind (ok_or (strip_prefix (kind @ '':'') v) Validation) (\<lambda>encoded.
     rbind (ok_or (b64_decode C encoded) Validation) (\<lambda>bytes.
     rbind (guard (length bytes = 32) Validation) (\<lambda>_. Inr bytes)))"

definition device_fingerprint :: "crypto \<Rightarrow> string \<Rightarrow> string \<Rightarrow> string" where
  "device_fingerprint C encryption signing = ''sha256:'' @ sha256_hex C (''cnshell-team-device-v1'' @ NUL @ encryption @ signing)"

definition validated_device_keys :: "crypto \<Rightarrow> team_device \<Rightarrow> (string \<times> string) app_result" where
  "validated_device_keys C v =
     rbind (decode_key C (td_encryption_public_key v) ''x25519'') (\<lambda>encryption.
     rbind (decode_key C (td_signing_public_key v) ''ed25519'') (\<lambda>signing.
     rbind (guard (td_fingerprint v = device_fingerprint C encryption signing) Validation) (\<lambda>_.
     Inr (encryption, signing))))"

lemma decode_encode_key: "crypto_laws C \<Longrightarrow> length bytes = 32 \<Longrightarrow> decode_key C (encode_key C kind bytes) kind = Inr bytes"
  by (simp add: decode_key_def encode_key_def crypto_lawsD strip_prefix_def)

text \<open>The identity that a device publishes for its two secrets.\<close>

definition owns_keys :: "crypto \<Rightarrow> string \<Rightarrow> string \<Rightarrow> team_device \<Rightarrow> bool" where
  "owns_keys C x_secret ed_secret v \<longleftrightarrow>
     td_encryption_public_key v = encode_key C ''x25519'' (x25519_public C x_secret)
   \<and> td_signing_public_key v = encode_key C ''ed25519'' (ed_public C ed_secret)
   \<and> td_fingerprint v = device_fingerprint C (x25519_public C x_secret) (ed_public C ed_secret)"

lemma validated_own_keys:
  "crypto_laws C \<Longrightarrow> owns_keys C x e v \<Longrightarrow> validated_device_keys C v = Inr (x25519_public C x, ed_public C e)"
  by (simp add: validated_device_keys_def owns_keys_def decode_encode_key crypto_lawsD)

section \<open>Signatures\<close>

text \<open>\<open>ed25519:<base64url>\<close> over a canonical text, as signed and as checked.\<close>

definition signature_text :: "crypto \<Rightarrow> string \<Rightarrow> string \<Rightarrow> string" where
  "signature_text C secret payload = ''ed25519:'' @ b64_encode C (ed_sign C secret payload)"

definition decode_signature :: "crypto \<Rightarrow> string option \<Rightarrow> string app_result" where
  "decode_signature C v =
     rbind (ok_or (case v of None \<Rightarrow> None | Some s \<Rightarrow> strip_prefix ''ed25519:'' s) Validation) (\<lambda>encoded.
     rbind (ok_or (b64_decode C encoded) Validation) (\<lambda>bytes.
     rbind (guard (ed_signature_ok C bytes) Validation) (\<lambda>_. Inr bytes)))"

definition decode_nonce :: "crypto \<Rightarrow> string \<Rightarrow> string app_result" where
  "decode_nonce C v =
     rbind (ok_or (b64_decode C v) Validation) (\<lambda>bytes.
     rbind (guard (length bytes = 12) Validation) (\<lambda>_. Inr bytes))"

text \<open>Both checks of a received signature: the key of the signer, then the signature.\<close>

definition verify_signature :: "crypto \<Rightarrow> team_device \<Rightarrow> string option \<Rightarrow> string option \<Rightarrow> unit app_result" where
  "verify_signature C signer payload v =
     rbind (validated_device_keys C signer) (\<lambda>(_, signing).
     rbind (guard (ed_key_ok C signing) Validation) (\<lambda>_.
     rbind (ok_or payload Internal) (\<lambda>payload.
     rbind (decode_signature C v) (\<lambda>sig. guard (ed_verify C signing payload sig) Authentication))))"

lemma decode_signature_text: "crypto_laws C \<Longrightarrow> decode_signature C (Some (signature_text C s m)) = Inr (ed_sign C s m)"
  by (simp add: decode_signature_def signature_text_def crypto_lawsD strip_prefix_def)

lemma decode_encode_nonce: "crypto_laws C \<Longrightarrow> length n = 12 \<Longrightarrow> decode_nonce C (b64_encode C n) = Inr n"
  by (simp add: decode_nonce_def crypto_lawsD)

lemma verify_own_signature:
  "crypto_laws C \<Longrightarrow> owns_keys C x e v \<Longrightarrow> verify_signature C v (Some m) (Some (signature_text C e m)) = Inr ()"
  by (simp add: verify_signature_def validated_own_keys decode_signature_text crypto_lawsD)

section \<open>An instance\<close>

text \<open>A toy instance on which the laws hold, for the concrete examples: no secrecy, only the algebra.\<close>

definition pad32 :: "string \<Rightarrow> string" where
  "pad32 s = take 32 (s @ replicate 32 (CHR ''0''))"

definition toy_crypto :: crypto where
  "toy_crypto = \<lparr>uuid_ok = (\<lambda>s. s \<noteq> [] \<and> CHR ''!'' \<notin> set s), b64_encode = (\<lambda>b. b), b64_decode = Some, b64_std_encode = (\<lambda>b. b),
     b64_std_decode = Some, sha256_hex = (\<lambda>b. [char_of (length b mod 256)]), to_rfc3339 = (\<lambda>t. string_of_nat (nat t)),
     parse_rfc3339 = (\<lambda>s. Some (int (nat_of_string s))), x25519_public = pad32, x25519 = (\<lambda>s p. pad32 []),
     contributory = (\<lambda>_. True), hkdf = (\<lambda>salt ikm info. ikm), seal = (\<lambda>k n a m. Some (m @ replicate 16 (CHR ''t''))),
     unseal = (\<lambda>k n a c. Some (take (length c - 16) c)), ed_public = pad32, ed_key_ok = (\<lambda>_. True), ed_signature_ok = (\<lambda>_. True),
     ed_sign = (\<lambda>s m. pad32 s), ed_verify = (\<lambda>p m sig. sig = p)\<rparr>"

lemma toy_crypto_laws: "crypto_laws toy_crypto"
  by (auto simp: crypto_laws_def toy_crypto_def pad32_def nat_of_string_of_nat)

end
