(* ===== verification/TeamLocal.thy ===== *)
theory TeamLocal
  imports TeamCrypto "HOL-Library.List_Lexorder" "HOL-Library.Char_ord"
begin

text \<open>
  The local team directory of the desktop (\<open>team.rs\<close> and the device registry of \<open>team_share.rs\<close>)
  over the tables of the migrations 0006 and 0007: workspaces, members, devices, audit events. An
  operation takes the random identifiers and the readings of the clock it uses, by order of use, and
  returns its result with the tables it commits; a failure commits nothing.
\<close>

section \<open>Tables\<close>

record team_workspace_row =
  tw_id :: string
  tw_name :: string
  tw_local_member_id :: string
  tw_key_epoch :: i64
  tw_created_at :: string
  tw_updated_at :: string
  tw_local_device_id :: "string option"

record team_member =
  tm_id :: string
  tm_workspace_id :: string
  tm_display_name :: string
  tm_role :: string
  tm_status :: string
  tm_joined_at :: string
  tm_updated_at :: string
  tm_removed_at :: "string option"

record team_audit_event =
  ta_id :: string
  ta_workspace_id :: string
  ta_actor_member_id :: string
  ta_action :: string
  ta_target_type :: string
  ta_target_id :: string
  ta_created_at :: string

record team_db =
  db_workspaces :: "team_workspace_row list"
  db_members :: "team_member list"
  db_devices :: "team_device list"
  db_events :: "team_audit_event list"

record team_workspace =
  wv_id :: string
  wv_name :: string
  wv_local_member_id :: string
  wv_local_role :: string
  wv_key_epoch :: i64
  wv_created_at :: string
  wv_updated_at :: string

text \<open>\<open>COLLATE NOCASE\<close> folds the ASCII letters.\<close>

definition nocase :: "string \<Rightarrow> string" where
  "nocase = to_ascii_lowercase"

definition insert_workspace_row :: "team_workspace_row \<Rightarrow> team_db \<Rightarrow> team_db app_result" where
  "insert_workspace_row w d = rbind (guard (tw_id w \<notin> tw_id ` set (db_workspaces d)) Storage) (\<lambda>_.
     Inr (d\<lparr>db_workspaces := db_workspaces d @ [w]\<rparr>))"

definition insert_member_row :: "team_member \<Rightarrow> team_db \<Rightarrow> team_db app_result" where
  "insert_member_row m d = rbind (guard (tm_id m \<notin> tm_id ` set (db_members d)) Storage) (\<lambda>_.
     Inr (d\<lparr>db_members := db_members d @ [m]\<rparr>))"

text \<open>The index of 0007 allows one active local device for each workspace.\<close>

definition insert_device_row :: "team_device \<Rightarrow> team_db \<Rightarrow> team_db app_result" where
  "insert_device_row v d = rbind (guard (td_id v \<notin> td_id ` set (db_devices d)
       \<and> \<not> (td_is_local v \<and> td_status v = ''active'' \<and> list_ex (\<lambda>u. td_workspace_id u = td_workspace_id v \<and> td_is_local u
              \<and> td_status u = ''active'') (db_devices d))) Storage) (\<lambda>_.
     Inr (d\<lparr>db_devices := db_devices d @ [v]\<rparr>))"

definition insert_event_row :: "team_audit_event \<Rightarrow> team_db \<Rightarrow> team_db app_result" where
  "insert_event_row e d = rbind (guard (ta_id e \<notin> ta_id ` set (db_events d)) Storage) (\<lambda>_.
     Inr (d\<lparr>db_events := db_events d @ [e]\<rparr>))"

lemmas insert_row_defs = insert_workspace_row_def insert_member_row_def insert_device_row_def insert_event_row_def

interpretation team_workspaces: keyed_table db_workspaces "\<lambda>f d. d\<lparr>db_workspaces := f (db_workspaces d)\<rparr>" tw_id insert_workspace_row
  by unfold_locales (auto simp: insert_row_defs res_iff)

interpretation team_members: keyed_table db_members "\<lambda>f d. d\<lparr>db_members := f (db_members d)\<rparr>" tm_id insert_member_row
  by unfold_locales (auto simp: insert_row_defs res_iff)

interpretation team_devices: keyed_table db_devices "\<lambda>f d. d\<lparr>db_devices := f (db_devices d)\<rparr>" td_id insert_device_row
  by unfold_locales (auto simp: insert_row_defs res_iff)

interpretation team_events: keyed_table db_events "\<lambda>f d. d\<lparr>db_events := f (db_events d)\<rparr>" ta_id insert_event_row
  by unfold_locales (auto simp: insert_row_defs res_iff)

section \<open>Roles and authorization\<close>

definition MAX_WORKSPACES :: nat where "MAX_WORKSPACES = 32"
definition MAX_MEMBERS :: nat where "MAX_MEMBERS = 256"
definition MAX_AUDIT_EXPORT :: nat where "MAX_AUDIT_EXPORT = 4096"

definition ROLES :: "string list" where
  "ROLES = [''owner'', ''admin'', ''operator'', ''viewer'']"

definition OWNER_PERMISSIONS :: "string list" where
  "OWNER_PERMISSIONS = [''workspaceRead'', ''workspaceDelete'', ''workspaceExport'', ''memberRead'', ''memberManage'', ''ownerManage'',
     ''connectionRead'', ''connectionManage'', ''connectionUse'', ''terminalView'', ''terminalControl'', ''shareCreate'', ''shareManage'',
     ''auditRead'', ''auditExport'']"

definition ADMIN_PERMISSIONS :: "string list" where
  "ADMIN_PERMISSIONS = [''workspaceRead'', ''workspaceExport'', ''memberRead'', ''memberManage'', ''connectionRead'', ''connectionManage'',
     ''connectionUse'', ''terminalView'', ''terminalControl'', ''shareCreate'', ''shareManage'', ''auditRead'', ''auditExport'']"

definition OPERATOR_PERMISSIONS :: "string list" where
  "OPERATOR_PERMISSIONS = [''workspaceRead'', ''memberRead'', ''connectionRead'', ''connectionUse'', ''terminalView'', ''terminalControl'',
     ''shareCreate'']"

definition VIEWER_PERMISSIONS :: "string list" where
  "VIEWER_PERMISSIONS = [''workspaceRead'', ''memberRead'', ''connectionRead'', ''terminalView'']"

definition permissions :: "string \<Rightarrow> string list app_result" where
  "permissions role =
     (if role = ''owner'' then Inr OWNER_PERMISSIONS
      else if role = ''admin'' then Inr ADMIN_PERMISSIONS
      else if role = ''operator'' then Inr OPERATOR_PERMISSIONS
      else if role = ''viewer'' then Inr VIEWER_PERMISSIONS
      else Inl Validation)"

definition require_permission :: "string \<Rightarrow> string \<Rightarrow> unit app_result" where
  "require_permission role permission = rbind (permissions role) (\<lambda>ps. guard (permission \<in> set ps) PermissionDenied)"

record team_authorization =
  au_member_id :: string
  au_role :: string
  au_key_epoch :: i64
  au_local_device_id :: "string option"

text \<open>The rows of the join of both authorization queries: the workspace and its local member, while active.\<close>

definition local_rows :: "string \<Rightarrow> team_db \<Rightarrow> (team_workspace_row \<times> team_member) list" where
  "local_rows workspace_id d = [(w, m). w \<leftarrow> db_workspaces d, m \<leftarrow> db_members d,
     tm_id m = tw_local_member_id w \<and> tm_workspace_id m = tw_id w \<and> tw_id w = workspace_id \<and> tm_status m = ''active'']"

definition local_row :: "crypto \<Rightarrow> string \<Rightarrow> team_db \<Rightarrow> (team_workspace_row \<times> team_member) app_result" where
  "local_row C workspace_id d = rbind (guard (valid_uuid C workspace_id) Validation) (\<lambda>_.
     ok_or (fetch_optional (local_rows workspace_id d)) NotFound)"

definition local_authorization :: "crypto \<Rightarrow> string \<Rightarrow> team_db \<Rightarrow> (string \<times> string) app_result" where
  "local_authorization C workspace_id d =
     rbind (local_row C workspace_id d) (\<lambda>(w, m). Inr (tw_local_member_id w, tm_role m))"

definition authorize :: "crypto \<Rightarrow> string \<Rightarrow> string \<Rightarrow> team_db \<Rightarrow> team_authorization app_result" where
  "authorize C workspace_id permission d =
     rbind (local_row C workspace_id d) (\<lambda>(w, m).
     rbind (require_permission (tm_role m) permission) (\<lambda>_.
     Inr \<lparr>au_member_id = tw_local_member_id w, au_role = tm_role m, au_key_epoch = tw_key_epoch w,
          au_local_device_id = tw_local_device_id w\<rparr>))"

section \<open>Audit\<close>

definition audit :: "crypto \<Rightarrow> string \<Rightarrow> int \<Rightarrow> string \<Rightarrow> string \<Rightarrow> string \<Rightarrow> string \<Rightarrow> string \<Rightarrow> team_db \<Rightarrow> team_db app_result" where
  "audit C uuid t workspace_id actor action target_type target_id d =
     rbind (insert_event_row \<lparr>ta_id = uuid, ta_workspace_id = workspace_id, ta_actor_member_id = actor, ta_action = action,
        ta_target_type = target_type, ta_target_id = target_id, ta_created_at = to_rfc3339 C t\<rparr> d) (\<lambda>d.
     Inr (d\<lparr>db_events := keep_newest MAX_AUDIT_EXPORT ta_id ta_created_at (\<lambda>e. ta_workspace_id e = workspace_id) (db_events d)\<rparr>))"

definition record_local_audit :: "crypto \<Rightarrow> string \<Rightarrow> int \<Rightarrow> string \<Rightarrow> string \<Rightarrow> string \<Rightarrow> string \<Rightarrow> team_db \<Rightarrow> team_db app_result" where
  "record_local_audit C uuid t workspace_id action target_type target_id d =
     rbind (local_authorization C workspace_id d) (\<lambda>(actor, _). audit C uuid t workspace_id actor action target_type target_id d)"

definition list_audit :: "crypto \<Rightarrow> string \<Rightarrow> team_db \<Rightarrow> team_audit_event list app_result" where
  "list_audit C workspace_id d =
     rbind (local_authorization C workspace_id d) (\<lambda>(_, role).
     rbind (require_permission role ''auditRead'') (\<lambda>_.
     Inr (newest MAX_AUDIT_EXPORT ta_created_at (filter (\<lambda>e. ta_workspace_id e = workspace_id) (db_events d)))))"

section \<open>Workspaces and members\<close>

definition workspace_view :: "team_workspace_row \<times> team_member \<Rightarrow> team_workspace" where
  "workspace_view = (\<lambda>(w, m). \<lparr>wv_id = tw_id w, wv_name = tw_name w, wv_local_member_id = tw_local_member_id w, wv_local_role = tm_role m,
     wv_key_epoch = tw_key_epoch w, wv_created_at = tw_created_at w, wv_updated_at = tw_updated_at w\<rparr>)"

definition list_workspaces :: "team_db \<Rightarrow> team_workspace list" where
  "list_workspaces d = map workspace_view (sort_key (\<lambda>(w, m). nocase (tw_name w))
     [(w, m). w \<leftarrow> db_workspaces d, m \<leftarrow> db_members d,
        tm_id m = tw_local_member_id w \<and> tm_workspace_id m = tw_id w \<and> tm_status m = ''active''])"

definition create_workspace ::
    "crypto \<Rightarrow> (nat \<Rightarrow> string) \<Rightarrow> (nat \<Rightarrow> int) \<Rightarrow> string \<Rightarrow> string \<Rightarrow> team_db \<Rightarrow> (team_workspace \<times> team_db) app_result" where
  "create_workspace C ids clock raw_name raw_owner d =
     rbind (clean_name raw_name) (\<lambda>name.
     rbind (clean_name raw_owner) (\<lambda>owner_name.
     rbind (guard (length (db_workspaces d) < MAX_WORKSPACES) Validation) (\<lambda>_.
     (let workspace_id = ids 0; owner_id = ids 1; now = to_rfc3339 C (clock 0);
          w = \<lparr>tw_id = workspace_id, tw_name = name, tw_local_member_id = owner_id, tw_key_epoch = 1, tw_created_at = now,
               tw_updated_at = now, tw_local_device_id = None\<rparr>;
          m = \<lparr>tm_id = owner_id, tm_workspace_id = workspace_id, tm_display_name = owner_name, tm_role = ''owner'', tm_status = ''active'',
               tm_joined_at = now, tm_updated_at = now, tm_removed_at = None\<rparr>
      in rbind (insert_workspace_row w d) (\<lambda>d.
         rbind (insert_member_row m d) (\<lambda>d.
         rbind (audit C (ids 2) (clock 1) workspace_id owner_id ''workspace-created'' ''workspace'' workspace_id d) (\<lambda>d.
         Inr (workspace_view (w, m), d))))))))"

definition list_members :: "crypto \<Rightarrow> string \<Rightarrow> team_db \<Rightarrow> team_member list app_result" where
  "list_members C workspace_id d =
     rbind (local_authorization C workspace_id d) (\<lambda>(_, role).
     rbind (require_permission role ''memberRead'') (\<lambda>_.
     (let ms = sort_key (\<lambda>m. nocase (tm_display_name m)) (filter (\<lambda>m. tm_workspace_id m = workspace_id) (db_members d))
      in Inr (filter (\<lambda>m. tm_status m = ''active'') ms @ filter (\<lambda>m. tm_status m \<noteq> ''active'') ms))))"

definition permission_report :: "crypto \<Rightarrow> string \<Rightarrow> team_db \<Rightarrow> (string \<times> string \<times> string \<times> string list) app_result" where
  "permission_report C workspace_id d =
     rbind (local_authorization C workspace_id d) (\<lambda>(member_id, role).
     rbind (permissions role) (\<lambda>ps. Inr (workspace_id, member_id, role, ps)))"

definition is_member :: "string \<Rightarrow> string \<Rightarrow> team_member \<Rightarrow> bool" where
  "is_member workspace_id member_id m \<longleftrightarrow> tm_id m = member_id \<and> tm_workspace_id m = workspace_id"

definition active_owner :: "string \<Rightarrow> team_member \<Rightarrow> bool" where
  "active_owner workspace_id m \<longleftrightarrow> tm_workspace_id m = workspace_id \<and> tm_role m = ''owner'' \<and> tm_status m = ''active''"

definition keeps_last_owner :: "string \<Rightarrow> team_db \<Rightarrow> unit app_result" where
  "keeps_last_owner workspace_id d = guard (1 < sql_count (active_owner workspace_id) (db_members d)) Validation"

text \<open>\<open>key_epoch=key_epoch+1\<close>.\<close>

definition advance_epoch :: "string \<Rightarrow> string \<Rightarrow> team_db \<Rightarrow> team_db" where
  "advance_epoch workspace_id now d = d\<lparr>db_workspaces := sql_update (\<lambda>w. tw_id w = workspace_id)
     (\<lambda>w. w\<lparr>tw_key_epoch := tw_key_epoch w + 1, tw_updated_at := now\<rparr>) (db_workspaces d)\<rparr>"

record save_member_input =
  sm_workspace_id :: string
  sm_member_id :: "string option"
  sm_display_name :: string
  sm_role :: string

definition save_member_checks :: "string \<Rightarrow> string \<Rightarrow> save_member_input \<Rightarrow> team_db \<Rightarrow> team_member option app_result" where
  "save_member_checks actor_role member_id input d =
     (let ws = sm_workspace_id input; existing = fetch_optional (filter (is_member ws member_id) (db_members d)) in
      rbind (case fetch_optional (filter (\<lambda>m. tm_id m = member_id) (db_members d)) of
               None \<Rightarrow> Inr () | Some m \<Rightarrow> guard (tm_workspace_id m = ws) Validation) (\<lambda>_.
      rbind (if sm_role input = ''owner'' \<or> (\<exists>m. existing = Some m \<and> tm_role m = ''owner'')
             then require_permission actor_role ''ownerManage'' else Inr ()) (\<lambda>_.
      rbind (if existing = None
             then guard (sql_count (\<lambda>m. tm_workspace_id m = ws \<and> tm_status m = ''active'') (db_members d) < MAX_MEMBERS) Validation
             else Inr ()) (\<lambda>_.
      rbind (if \<exists>m. existing = Some m \<and> tm_role m = ''owner'' \<and> sm_role input \<noteq> ''owner'' \<and> tm_status m = ''active''
             then keeps_last_owner ws d else Inr ()) (\<lambda>_.
      Inr existing)))))"

definition save_action :: "team_member option \<Rightarrow> bool \<Rightarrow> string" where
  "save_action existing role_changed = (case existing of
     None \<Rightarrow> ''member-added''
   | Some m \<Rightarrow> if \<not> role_changed then ''member-updated''
       else if tm_status m = ''removed'' then ''member-restored'' else ''member-role-changed'')"

definition upsert_member :: "team_member \<Rightarrow> team_db \<Rightarrow> team_db" where
  "upsert_member m d = (if tm_id m \<in> tm_id ` set (db_members d)
     then d\<lparr>db_members := sql_update (\<lambda>r. tm_id r = tm_id m) (\<lambda>r. r\<lparr>tm_display_name := tm_display_name m, tm_role := tm_role m,
            tm_status := ''active'', tm_updated_at := tm_updated_at m, tm_removed_at := None\<rparr>) (db_members d)\<rparr>
     else d\<lparr>db_members := db_members d @ [m]\<rparr>)"

definition member_row :: "crypto \<Rightarrow> (nat \<Rightarrow> int) \<Rightarrow> save_member_input \<Rightarrow> string \<Rightarrow> string \<Rightarrow> team_member option \<Rightarrow> team_member" where
  "member_row C clock input member_id display_name existing = (let now = to_rfc3339 C (clock 0) in
     \<lparr>tm_id = member_id, tm_workspace_id = sm_workspace_id input, tm_display_name = display_name, tm_role = sm_role input,
      tm_status = ''active'', tm_joined_at = (case existing of None \<Rightarrow> now | Some m \<Rightarrow> tm_joined_at m), tm_updated_at = now,
      tm_removed_at = None\<rparr>)"

text \<open>A new role, and a member that comes back, advance the epoch.\<close>

definition role_changed :: "team_member option \<Rightarrow> team_member \<Rightarrow> bool" where
  "role_changed existing m = (case existing of None \<Rightarrow> False | Some e \<Rightarrow> tm_role e \<noteq> tm_role m \<or> tm_status e \<noteq> ''active'')"

definition write_member ::
    "crypto \<Rightarrow> (nat \<Rightarrow> string) \<Rightarrow> (nat \<Rightarrow> int) \<Rightarrow> string \<Rightarrow> team_member option \<Rightarrow> team_member \<Rightarrow> team_db \<Rightarrow> (team_member \<times> team_db) app_result" where
  "write_member C ids clock actor existing m d =
     (let d = upsert_member m d;
          d = (if role_changed existing m then advance_epoch (tm_workspace_id m) (tm_updated_at m) d else d)
      in rbind (audit C (ids 1) (clock 1) (tm_workspace_id m) actor (save_action existing (role_changed existing m)) ''member'' (tm_id m) d) (\<lambda>d.
         Inr (m, d)))"

definition save_member ::
    "crypto \<Rightarrow> (nat \<Rightarrow> string) \<Rightarrow> (nat \<Rightarrow> int) \<Rightarrow> save_member_input \<Rightarrow> team_db \<Rightarrow> (team_member \<times> team_db) app_result" where
  "save_member C ids clock input d =
     rbind (guard (sm_role input \<in> set ROLES) Validation) (\<lambda>_.
     rbind (clean_name (sm_display_name input)) (\<lambda>display_name.
     rbind (local_authorization C (sm_workspace_id input) d) (\<lambda>(actor, actor_role).
     rbind (require_permission actor_role ''memberManage'') (\<lambda>_.
     (let member_id = (case sm_member_id input of Some i \<Rightarrow> i | None \<Rightarrow> ids 0) in
      rbind (guard (valid_uuid C member_id) Validation) (\<lambda>_.
      rbind (save_member_checks actor_role member_id input d) (\<lambda>existing.
      write_member C ids clock actor existing (member_row C clock input member_id display_name existing) d)))))))"

text \<open>A member that is not active any more is left as it is, and nothing is audited.\<close>

definition remove_member :: "crypto \<Rightarrow> string \<Rightarrow> (nat \<Rightarrow> int) \<Rightarrow> string \<Rightarrow> string \<Rightarrow> team_db \<Rightarrow> team_db app_result" where
  "remove_member C uuid clock workspace_id member_id d =
     rbind (guard (valid_uuid C member_id) Validation) (\<lambda>_.
     rbind (local_authorization C workspace_id d) (\<lambda>(actor, actor_role).
     rbind (require_permission actor_role ''memberManage'') (\<lambda>_.
     rbind (guard (actor \<noteq> member_id) Validation) (\<lambda>_.
     rbind (ok_or (fetch_optional (filter (is_member workspace_id member_id) (db_members d))) NotFound) (\<lambda>target.
     if tm_status target \<noteq> ''active'' then Inr d
     else
       rbind (if tm_role target = ''owner''
              then rbind (require_permission actor_role ''ownerManage'') (\<lambda>_. keeps_last_owner workspace_id d) else Inr ()) (\<lambda>_.
       (let now = to_rfc3339 C (clock 0);
            d = d\<lparr>db_members := sql_update (is_member workspace_id member_id)
                   (\<lambda>m. m\<lparr>tm_status := ''removed'', tm_removed_at := Some now, tm_updated_at := now\<rparr>) (db_members d)\<rparr>;
            d = d\<lparr>db_devices := sql_update (\<lambda>v. td_member_id v = member_id \<and> td_workspace_id v = workspace_id \<and> td_status v = ''active'')
                   (\<lambda>v. v\<lparr>td_status := ''revoked'', td_revoked_at := Some now, td_updated_at := now\<rparr>) (db_devices d)\<rparr>
        in audit C uuid (clock 1) workspace_id actor ''member-removed'' ''member'' member_id (advance_epoch workspace_id now d))))))))"

end
