(* ===== verification/TeamDevices.thy ===== *)
theory TeamDevices
  imports TeamLocal
begin

text \<open>
  The device registry of the desktop (\<open>team_share.rs\<close>) and the exports of \<open>team.rs\<close>: what reads and
  writes files and the credential store besides the tables.
\<close>

section \<open>Files and the credential store\<close>

text \<open>
  What the file system answers (\<open>symlink_metadata\<close>, \<open>is_dir\<close>, \<open>canonicalize\<close>, \<open>read\<close>), whether the
  next atomic write goes through, and whether the \<open>n\<close>-th entry can be stored in the credential store.
\<close>

datatype file_kind = RegularFile | Directory | SymbolicLink

record host_env =
  he_meta :: "string \<Rightarrow> (file_kind \<times> nat) option"
  he_is_dir :: "string \<Rightarrow> bool"
  he_canonical :: "string \<Rightarrow> string option"
  he_read :: "string \<Rightarrow> string option"
  he_write_ok :: bool
  he_store_ok :: "nat \<Rightarrow> bool"
  he_id :: "nat \<Rightarrow> string"
  he_clock :: "nat \<Rightarrow> int"
  he_random :: "nat \<Rightarrow> string"

record team_world =
  wd_db :: team_db
  wd_store :: "string \<Rightarrow> string option"
  wd_files :: "string \<Rightarrow> string option"

definition MAX_PATH_BYTES :: nat where "MAX_PATH_BYTES = 16 * 1024"
definition MAX_DEVICE_BUNDLE_BYTES :: nat where "MAX_DEVICE_BUNDLE_BYTES = 64 * 1024"

text \<open>A temporary file is renamed over the target, so that a failed write leaves the target alone.\<close>

definition export_target_ok :: "host_env \<Rightarrow> string \<Rightarrow> string \<Rightarrow> unit app_result" where
  "export_target_ok H extension path =
     rbind (guard (length path \<le> MAX_PATH_BYTES) Validation) (\<lambda>_.
     rbind (guard (is_absolute path \<and> path_extension path = Some extension) Validation) (\<lambda>_.
     guard (case path_parent path of None \<Rightarrow> False | Some parent \<Rightarrow> he_is_dir H parent) Validation))"

definition put_file :: "host_env \<Rightarrow> string \<Rightarrow> string \<Rightarrow> team_world \<Rightarrow> unit app_result \<times> team_world" where
  "put_file H path payload w =
     (if he_write_ok H then (Inr (), w\<lparr>wd_files := (wd_files w)(path \<mapsto> payload)\<rparr>) else (Inl Storage, w))"

definition atomic_write :: "host_env \<Rightarrow> string \<Rightarrow> string \<Rightarrow> string \<Rightarrow> team_world \<Rightarrow> unit app_result \<times> team_world" where
  "atomic_write H path extension payload w =
     (case export_target_ok H extension path of Inl e \<Rightarrow> (Inl e, w) | Inr _ \<Rightarrow> put_file H path payload w)"

definition validate_input_file :: "host_env \<Rightarrow> string \<Rightarrow> string \<Rightarrow> nat \<Rightarrow> string app_result" where
  "validate_input_file H path extension max_bytes =
     rbind (guard (length path \<le> MAX_PATH_BYTES) Validation) (\<lambda>_.
     rbind (guard (is_absolute path \<and> path_extension path = Some extension) Validation) (\<lambda>_.
     rbind (ok_or (he_meta H path) Storage) (\<lambda>(kind, size).
     rbind (guard (kind = RegularFile \<and> 0 < size \<and> size \<le> max_bytes) Validation) (\<lambda>_.
     ok_or (he_canonical H path) Storage))))"

text \<open>The entries \<open>device:<id>:<kind>\<close> of the credential store.\<close>

definition key_account :: "string \<Rightarrow> string \<Rightarrow> string" where
  "key_account device_id kind = ''device:'' @ device_id @ '':'' @ kind"

definition save_private_key ::
    "crypto \<Rightarrow> host_env \<Rightarrow> nat \<Rightarrow> string \<Rightarrow> string \<Rightarrow> string \<Rightarrow> team_world \<Rightarrow> unit app_result \<times> team_world" where
  "save_private_key C H n device_id kind bytes w =
     (if he_store_ok H n then (Inr (), w\<lparr>wd_store := (wd_store w)(key_account device_id kind \<mapsto> b64_encode C bytes)\<rparr>)
      else (Inl Storage, w))"

definition load_private_key :: "crypto \<Rightarrow> (string \<Rightarrow> string option) \<Rightarrow> string \<Rightarrow> string \<Rightarrow> string app_result" where
  "load_private_key C store device_id kind =
     rbind (ok_or (store (key_account device_id kind)) Unavailable) (\<lambda>v.
     rbind (ok_or (b64_decode C v) Storage) (\<lambda>bytes.
     rbind (guard (length bytes = 32) Storage) (\<lambda>_. Inr bytes)))"

definition delete_private_keys :: "string \<Rightarrow> team_world \<Rightarrow> team_world" where
  "delete_private_keys device_id w =
     w\<lparr>wd_store := (wd_store w)(key_account device_id ''x25519'' := None, key_account device_id ''ed25519'' := None)\<rparr>"

section \<open>Devices\<close>

definition list_devices :: "crypto \<Rightarrow> string \<Rightarrow> team_db \<Rightarrow> team_device list app_result" where
  "list_devices C workspace_id d =
     rbind (authorize C workspace_id ''memberRead'' d) (\<lambda>_.
     (let vs = sort_key (\<lambda>v. nocase (td_name v)) (filter (\<lambda>v. td_workspace_id v = workspace_id) (db_devices d));
          by_local = (\<lambda>vs. filter td_is_local vs @ filter (\<lambda>v. \<not> td_is_local v) vs);
          vs = by_local (filter (\<lambda>v. td_status v = ''active'') vs) @ by_local (filter (\<lambda>v. td_status v \<noteq> ''active'') vs)
      in rbind (rmap (validated_device_keys C) vs) (\<lambda>_. Inr vs)))"

definition own_device_rows :: "string \<Rightarrow> string \<Rightarrow> string \<Rightarrow> team_db \<Rightarrow> team_device list" where
  "own_device_rows device_id workspace_id member_id d = filter (\<lambda>v. td_id v = device_id \<and> td_workspace_id v = workspace_id
     \<and> td_member_id v = member_id \<and> td_is_local v \<and> td_status v = ''active'') (db_devices d)"

definition new_device :: "crypto \<Rightarrow> host_env \<Rightarrow> string \<Rightarrow> string \<Rightarrow> string \<Rightarrow> team_device" where
  "new_device C H workspace_id member_id name =
     (let now = to_rfc3339 C (he_clock H 0); encryption = x25519_public C (he_random H 0); signing = ed_public C (he_random H 1)
      in \<lparr>td_id = he_id H 0, td_workspace_id = workspace_id, td_member_id = member_id, td_name = name,
          td_encryption_public_key = encode_key C ''x25519'' encryption, td_signing_public_key = encode_key C ''ed25519'' signing,
          td_fingerprint = device_fingerprint C encryption signing, td_is_local = True, td_status = ''active'', td_created_at = now,
          td_updated_at = now, td_revoked_at = None\<rparr>)"

definition register_local_device :: "crypto \<Rightarrow> host_env \<Rightarrow> team_device \<Rightarrow> team_db \<Rightarrow> team_db app_result" where
  "register_local_device C H v d =
     rbind (insert_device_row v d) (\<lambda>d.
       audit C (he_id H 1) (he_clock H 1) (td_workspace_id v) (td_member_id v) ''device-created'' ''device'' (td_id v)
         (d\<lparr>db_workspaces := sql_update (\<lambda>w. tw_id w = td_workspace_id v \<and> tw_local_device_id w = None)
            (\<lambda>w. w\<lparr>tw_local_device_id := Some (td_id v), tw_updated_at := td_created_at v\<rparr>) (db_workspaces d)\<rparr>))"

text \<open>The secrets of a device that could not be registered are deleted again.\<close>

definition ensure_local_device ::
    "crypto \<Rightarrow> host_env \<Rightarrow> string \<Rightarrow> string \<Rightarrow> team_world \<Rightarrow> team_device app_result \<times> team_world" where
  "ensure_local_device C H workspace_id raw_name w =
     (case authorize C workspace_id ''workspaceRead'' (wd_db w) of Inl e \<Rightarrow> (Inl e, w) | Inr au \<Rightarrow>
       (case au_local_device_id au of
          Some device_id \<Rightarrow> (ok_or (fetch_optional (own_device_rows device_id workspace_id (au_member_id au) (wd_db w))) Storage, w)
        | None \<Rightarrow>
          (case clean_name raw_name of Inl e \<Rightarrow> (Inl e, w) | Inr name \<Rightarrow>
            (let v = new_device C H workspace_id (au_member_id au) name in
             case save_private_key C H 0 (td_id v) ''x25519'' (he_random H 0) w of (Inl e, w) \<Rightarrow> (Inl e, w) | (Inr _, w) \<Rightarrow>
              (case save_private_key C H 1 (td_id v) ''ed25519'' (he_random H 1) w of
                 (Inl e, w) \<Rightarrow> (Inl e, delete_private_keys (td_id v) w)
               | (Inr _, w) \<Rightarrow>
                  (case register_local_device C H v (wd_db w) of
                     Inl e \<Rightarrow> (Inl e, delete_private_keys (td_id v) w)
                   | Inr d \<Rightarrow> (Inr v, w\<lparr>wd_db := d\<rparr>)))))))"

record device_bundle =
  bu_schema_version :: nat
  bu_workspace_id :: string
  bu_member_id :: string
  bu_device_id :: string
  bu_name :: string
  bu_encryption_public_key :: string
  bu_signing_public_key :: string
  bu_fingerprint :: string

definition bundle_of :: "string \<Rightarrow> team_device \<Rightarrow> device_bundle" where
  "bundle_of workspace_id v = \<lparr>bu_schema_version = 1, bu_workspace_id = workspace_id, bu_member_id = td_member_id v,
     bu_device_id = td_id v, bu_name = td_name v, bu_encryption_public_key = td_encryption_public_key v,
     bu_signing_public_key = td_signing_public_key v, bu_fingerprint = td_fingerprint v\<rparr>"

definition export_local_device ::
    "crypto \<Rightarrow> host_env \<Rightarrow> (device_bundle \<Rightarrow> string option) \<Rightarrow> string \<Rightarrow> string \<Rightarrow> team_world \<Rightarrow> unit app_result \<times> team_world" where
  "export_local_device C H json workspace_id path w =
     (case rbind (authorize C workspace_id ''workspaceRead'' (wd_db w)) (\<lambda>au.
           rbind (ok_or (au_local_device_id au) Unavailable) (\<lambda>device_id.
           rbind (ok_or (fetch_optional (filter (\<lambda>v. td_id v = device_id \<and> td_workspace_id v = workspace_id \<and> td_status v = ''active'')
                    (db_devices (wd_db w)))) NotFound) (\<lambda>v.
           rbind (validated_device_keys C v) (\<lambda>_. ok_or (json (bundle_of workspace_id v)) Internal)))) of
        Inl e \<Rightarrow> (Inl e, w)
      | Inr payload \<Rightarrow> atomic_write H path ''cnshelldevice'' payload w)"

text \<open>The check of a bundle against itself, and against the tables.\<close>

definition bundle_keys :: "crypto \<Rightarrow> string \<Rightarrow> device_bundle \<Rightarrow> string app_result" where
  "bundle_keys C workspace_id b =
     rbind (guard (bu_schema_version b = 1 \<and> bu_workspace_id b = workspace_id \<and> uuid_ok C (bu_member_id b) \<and> uuid_ok C (bu_device_id b))
        Validation) (\<lambda>_.
     rbind (clean_name (bu_name b)) (\<lambda>name.
     rbind (decode_key C (bu_encryption_public_key b) ''x25519'') (\<lambda>encryption.
     rbind (decode_key C (bu_signing_public_key b) ''ed25519'') (\<lambda>signing.
     rbind (guard (ed_key_ok C signing) Validation) (\<lambda>_.
     rbind (guard (bu_fingerprint b = device_fingerprint C encryption signing) Validation) (\<lambda>_. Inr name))))))"

definition member_role :: "string \<Rightarrow> string \<Rightarrow> team_db \<Rightarrow> string app_result" where
  "member_role member_id workspace_id d =
     ok_or (map_option tm_role (fetch_optional (filter (\<lambda>m. is_member workspace_id member_id m \<and> tm_status m = ''active'') (db_members d)))) Validation"

definition import_checks :: "team_authorization \<Rightarrow> device_bundle \<Rightarrow> string \<Rightarrow> team_db \<Rightarrow> team_device option app_result" where
  "import_checks au b workspace_id d =
     (let existing = fetch_optional (filter (\<lambda>v. td_id v = bu_device_id b \<and> td_workspace_id v = workspace_id) (db_devices d)) in
      rbind (member_role (bu_member_id b) workspace_id d) (\<lambda>role.
      rbind (if role = ''owner'' then require_permission (au_role au) ''ownerManage'' else Inr ()) (\<lambda>_.
      rbind (case fetch_optional (filter (\<lambda>v. td_id v = bu_device_id b) (db_devices d)) of
               None \<Rightarrow> Inr () | Some v \<Rightarrow> guard (td_workspace_id v = workspace_id) Validation) (\<lambda>_.
      rbind (case existing of None \<Rightarrow> Inr () | Some v \<Rightarrow>
               guard (\<not> td_is_local v \<and> td_member_id v = bu_member_id b \<and> td_encryption_public_key v = bu_encryption_public_key b
                 \<and> td_signing_public_key v = bu_signing_public_key b \<and> td_fingerprint v = bu_fingerprint b \<and> td_status v = ''active'')
                 Validation) (\<lambda>_.
      rbind (guard (\<not> (existing = None
               \<and> 512 \<le> sql_count (\<lambda>v. td_workspace_id v = workspace_id \<and> td_status v = ''active'') (db_devices d))) Validation) (\<lambda>_.
      Inr existing))))))"

definition upsert_device :: "team_device \<Rightarrow> team_db \<Rightarrow> team_db" where
  "upsert_device v d = (if td_id v \<in> td_id ` set (db_devices d)
     then d\<lparr>db_devices := sql_update (\<lambda>r. td_id r = td_id v) (\<lambda>r. r\<lparr>td_name := td_name v, td_updated_at := td_updated_at v\<rparr>) (db_devices d)\<rparr>
     else d\<lparr>db_devices := db_devices d @ [v]\<rparr>)"

definition import_bundle :: "crypto \<Rightarrow> host_env \<Rightarrow> team_authorization \<Rightarrow> string \<Rightarrow> device_bundle \<Rightarrow> team_db \<Rightarrow> (team_device \<times> team_db) app_result" where
  "import_bundle C H au workspace_id b d =
     rbind (bundle_keys C workspace_id b) (\<lambda>name.
     rbind (import_checks au b workspace_id d) (\<lambda>existing.
     (let now = to_rfc3339 C (he_clock H 0);
          v = \<lparr>td_id = bu_device_id b, td_workspace_id = workspace_id, td_member_id = bu_member_id b, td_name = name,
               td_encryption_public_key = bu_encryption_public_key b, td_signing_public_key = bu_signing_public_key b,
               td_fingerprint = bu_fingerprint b, td_is_local = False, td_status = ''active'',
               td_created_at = (case existing of None \<Rightarrow> now | Some e \<Rightarrow> td_created_at e), td_updated_at = now, td_revoked_at = None\<rparr>
      in rbind (audit C (he_id H 0) (he_clock H 1) workspace_id (au_member_id au) ''device-imported'' ''device'' (td_id v) (upsert_device v d))
           (\<lambda>d. Inr (v, d)))))"

definition import_device ::
    "crypto \<Rightarrow> host_env \<Rightarrow> (string \<Rightarrow> device_bundle option) \<Rightarrow> string \<Rightarrow> string \<Rightarrow> team_db \<Rightarrow> (team_device \<times> team_db) app_result" where
  "import_device C H parse workspace_id path d =
     rbind (authorize C workspace_id ''shareManage'' d) (\<lambda>au.
     rbind (validate_input_file H path ''cnshelldevice'' MAX_DEVICE_BUNDLE_BYTES) (\<lambda>path.
     rbind (ok_or (he_read H path) Storage) (\<lambda>text.
     rbind (ok_or (parse text) Validation) (\<lambda>b. import_bundle C H au workspace_id b d))))"

definition revoke_device_rows :: "crypto \<Rightarrow> host_env \<Rightarrow> team_authorization \<Rightarrow> string \<Rightarrow> string \<Rightarrow> team_db \<Rightarrow> team_db app_result" where
  "revoke_device_rows C H au workspace_id device_id d =
     (let now = to_rfc3339 C (he_clock H 0);
          d = d\<lparr>db_devices := sql_update (\<lambda>v. td_id v = device_id \<and> td_workspace_id v = workspace_id)
                 (\<lambda>v. v\<lparr>td_status := ''revoked'', td_revoked_at := Some now, td_updated_at := now\<rparr>) (db_devices d)\<rparr>;
          d = d\<lparr>db_workspaces := sql_update (\<lambda>w. tw_id w = workspace_id)
                 (\<lambda>w. w\<lparr>tw_local_device_id := (if tw_local_device_id w = Some device_id then None else tw_local_device_id w),
                        tw_key_epoch := tw_key_epoch w + 1, tw_updated_at := now\<rparr>) (db_workspaces d)\<rparr>
      in audit C (he_id H 0) (he_clock H 1) workspace_id (au_member_id au) ''device-revoked'' ''device'' device_id d)"

definition revoke_device :: "crypto \<Rightarrow> host_env \<Rightarrow> string \<Rightarrow> string \<Rightarrow> team_world \<Rightarrow> unit app_result \<times> team_world" where
  "revoke_device C H workspace_id device_id w =
     (case rbind (authorize C workspace_id ''shareManage'' (wd_db w)) (\<lambda>au.
           rbind (guard (uuid_ok C device_id) Validation) (\<lambda>_.
           rbind (ok_or (fetch_optional (filter (\<lambda>v. td_id v = device_id \<and> td_workspace_id v = workspace_id) (db_devices (wd_db w)))) NotFound)
             (\<lambda>v. Inr (au, v)))) of
        Inl e \<Rightarrow> (Inl e, w)
      | Inr (au, v) \<Rightarrow>
         (if td_status v = ''revoked'' then (Inr (), w)
          else (case rbind (member_role (td_member_id v) workspace_id (wd_db w)) (\<lambda>role.
                     rbind (if role = ''owner'' then require_permission (au_role au) ''ownerManage'' else Inr ()) (\<lambda>_.
                     revoke_device_rows C H au workspace_id device_id (wd_db w))) of
                  Inl e \<Rightarrow> (Inl e, w)
                | Inr d \<Rightarrow> (Inr (), (if td_is_local v then delete_private_keys device_id else id) (w\<lparr>wd_db := d\<rparr>)))))"

section \<open>Exports\<close>

text \<open>
  The two documents that \<open>team.rs\<close> exports, before they are written as JSON. A document whose audit
  event cannot be stored is removed again.
\<close>

datatype team_export =
    AuditExport string string "team_audit_event list"
  | WorkspaceExport string team_workspace "team_member list" "team_device list" "team_audit_event list"

definition write_export ::
    "crypto \<Rightarrow> host_env \<Rightarrow> string \<Rightarrow> string \<Rightarrow> string \<Rightarrow> string \<Rightarrow> string \<Rightarrow> team_world \<Rightarrow> unit app_result \<times> team_world" where
  "write_export C H path payload workspace_id actor action w =
     (case put_file H path payload w of
        (Inl e, w) \<Rightarrow> (Inl e, w)
      | (Inr _, w) \<Rightarrow>
         (case audit C (he_id H 0) (he_clock H 1) workspace_id actor action ''workspace'' workspace_id (wd_db w) of
            Inl e \<Rightarrow> (Inl e, w\<lparr>wd_files := (wd_files w)(path := None)\<rparr>)
          | Inr d \<Rightarrow> (Inr (), w\<lparr>wd_db := d\<rparr>)))"

definition export_audit ::
    "crypto \<Rightarrow> host_env \<Rightarrow> (team_export \<Rightarrow> string option) \<Rightarrow> string \<Rightarrow> string \<Rightarrow> team_world \<Rightarrow> nat app_result \<times> team_world" where
  "export_audit C H json workspace_id path w =
     (case rbind (export_target_ok H ''json'' path) (\<lambda>_.
           rbind (local_authorization C workspace_id (wd_db w)) (\<lambda>(actor, role).
           rbind (require_permission role ''auditExport'') (\<lambda>_.
           (let events = newest MAX_AUDIT_EXPORT ta_created_at (filter (\<lambda>e. ta_workspace_id e = workspace_id) (db_events (wd_db w))) in
            rbind (ok_or (json (AuditExport workspace_id (to_rfc3339 C (he_clock H 0)) events)) Internal) (\<lambda>payload.
            Inr (actor, payload, length events)))))) of
        Inl e \<Rightarrow> (Inl e, w)
      | Inr (actor, payload, n) \<Rightarrow>
         (case write_export C H path payload workspace_id actor ''audit-exported'' w of
            (Inl e, w) \<Rightarrow> (Inl e, w) | (Inr _, w) \<Rightarrow> (Inr n, w)))"

text \<open>The workspace document needs a target that is no link; the rows of its tables are in the order of their times.\<close>

definition export_workspace ::
    "crypto \<Rightarrow> host_env \<Rightarrow> (team_export \<Rightarrow> string option) \<Rightarrow> string \<Rightarrow> string \<Rightarrow> team_world \<Rightarrow> unit app_result \<times> team_world" where
  "export_workspace C H json workspace_id path w =
     (case rbind (guard (length path \<le> MAX_PATH_BYTES) Validation) (\<lambda>_.
           rbind (guard (is_absolute path \<and> path_extension path = Some ''json'') Validation) (\<lambda>_.
           rbind (guard (case he_meta H path of Some (SymbolicLink, _) \<Rightarrow> False | _ \<Rightarrow> True) Validation) (\<lambda>_.
           rbind (export_target_ok H ''json'' path) (\<lambda>_.
           rbind (local_authorization C workspace_id (wd_db w)) (\<lambda>(actor, role).
           rbind (require_permission role ''workspaceExport'') (\<lambda>_.
           rbind (ok_or (fetch_optional [(u, m). u \<leftarrow> db_workspaces (wd_db w), m \<leftarrow> db_members (wd_db w),
                    tm_id m = tw_local_member_id u \<and> tm_workspace_id m = tw_id u \<and> tw_id u = workspace_id]) Storage) (\<lambda>um.
           (let d = wd_db w;
                members = sort_key tm_joined_at (sort_key tm_id (filter (\<lambda>m. tm_workspace_id m = workspace_id) (db_members d)));
                devices = sort_key td_created_at (sort_key td_id (filter (\<lambda>v. td_workspace_id v = workspace_id) (db_devices d)));
                events = take MAX_AUDIT_EXPORT (sort_key ta_created_at (filter (\<lambda>e. ta_workspace_id e = workspace_id) (db_events d)))
            in rbind (ok_or (json (WorkspaceExport (to_rfc3339 C (he_clock H 0)) (workspace_view um) members devices events)) Internal)
                 (\<lambda>payload. Inr (actor, payload)))))))))) of
        Inl e \<Rightarrow> (Inl e, w)
      | Inr (actor, payload) \<Rightarrow> write_export C H path payload workspace_id actor ''workspace-exported'' w)"

end
