(* ===== verification/Collaboration.thy ===== *)
theory Collaboration
  imports TeamDevices "HOL-Library.AList"
begin

text \<open>
  End-to-end encrypted terminal rooms on the desktop (\<open>collaboration.rs\<close>): the rooms this device
  hosts and the rooms of others it has joined. Tables of rooms and participants are association lists
  by identifier. An operation reads the team tables and runs as one step on the manager, with the
  checks the code repeats under its second lock.
\<close>

section \<open>Frames, invitations and rooms\<close>

record frame =
  fr_schema_version :: nat
  fr_workspace_id :: string
  fr_room_id :: string
  fr_key_epoch :: i64
  fr_sender_member_id :: string
  fr_sender_device_id :: string
  fr_direction :: string
  fr_kind :: string
  fr_sequence :: u64
  fr_lease_id :: "string option"
  fr_lease_generation :: u64
  fr_nonce :: string
  fr_ciphertext :: string
  fr_signature :: "string option"

record invitation =
  in_schema_version :: nat
  in_room_id :: string
  in_workspace_id :: string
  in_key_epoch :: i64
  in_host_member_id :: string
  in_host_device_id :: string
  in_recipient_member_id :: string
  in_recipient_device_id :: string
  in_ephemeral_public_key :: string
  in_key_nonce :: string
  in_wrapped_room_key :: string
  in_replay_from_sequence :: u64
  in_next_input_sequence :: u64
  in_created_at :: string
  in_expires_at :: string
  in_signature :: "string option"

text \<open>Canonical JSON (\<open>serde_jcs\<close>) of both.\<close>

record codec =
  jcs_frame :: "frame \<Rightarrow> string option"
  jcs_invitation :: "invitation \<Rightarrow> string option"

record participant =
  pt_member_id :: string
  pt_device_id :: string
  pt_role :: string
  pt_joined_at :: string
  pt_next_input_sequence :: u64

record lease =
  le_id :: string
  le_member_id :: string
  le_device_id :: string
  le_expires_at :: string
  le_generation :: u64

record stored_frame =
  sf_frame :: frame
  sf_bytes :: nat
  sf_created_at :: int

record room =
  rm_id :: string
  rm_workspace_id :: string
  rm_terminal_session_id :: string
  rm_host_member_id :: string
  rm_host_device_id :: string
  rm_key_epoch :: i64
  rm_status :: string
  rm_participants :: "(string \<times> participant) list"
  rm_control_lease :: "(lease \<times> int) option"
  rm_next_output_sequence :: u64
  rm_lease_generation :: u64
  rm_room_key :: string
  rm_replay :: "stored_frame list"
  rm_replay_bytes :: nat
  rm_encrypted_transport :: bool
  rm_created_at :: string

record client_room =
  cl_workspace_id :: string
  cl_host_member_id :: string
  cl_host_device_id :: string
  cl_local_member_id :: string
  cl_local_device_id :: string
  cl_key_epoch :: i64
  cl_room_key :: string
  cl_next_output_sequence :: u64
  cl_next_input_sequence :: u64
  cl_status :: string

record collaboration =
  co_rooms :: "(string \<times> room) list"
  co_client_rooms :: "(string \<times> client_room) list"

record plain_frame =
  pf_room_id :: string
  pf_sequence :: u64
  pf_kind :: string
  pf_data_base64 :: string

text \<open>
  What an operation draws from outside: the wall clock (\<open>Utc::now\<close>) and the monotonic clock
  (\<open>Instant::now\<close>), both in nanoseconds, an identifier, random bytes, and the private keys.
\<close>

record drawn =
  dr_now :: int
  dr_instant :: int
  dr_uuid :: string
  dr_random :: "nat \<Rightarrow> string"
  dr_store :: "string \<Rightarrow> string option"

definition secs :: "nat \<Rightarrow> int" where
  "secs n = int n * 1000000000"

definition MAX_ROOMS :: nat where "MAX_ROOMS = 16"
definition MAX_PARTICIPANTS :: nat where "MAX_PARTICIPANTS = 64"
definition MAX_FRAME_BYTES :: nat where "MAX_FRAME_BYTES = 64 * 1024"
definition MAX_REPLAY_FRAMES :: nat where "MAX_REPLAY_FRAMES = 512"
definition MAX_REPLAY_BYTES :: nat where "MAX_REPLAY_BYTES = 4 * 1024 * 1024"
definition MAX_ENVELOPE_BYTES :: nat where "MAX_ENVELOPE_BYTES = 128 * 1024"
definition REPLAY_TTL :: int where "REPLAY_TTL = secs (5 * 60)"
definition INVITATION_TTL :: int where "INVITATION_TTL = secs (5 * 60)"

text \<open>\<open>u64::checked_add(1)\<close>.\<close>

definition next_u64 :: "u64 \<Rightarrow> u64 option" where
  "next_u64 n = (if n + 1 < 2 ^ 64 then Some (n + 1) else None)"

section \<open>Rooms\<close>

definition expire_lease :: "int \<Rightarrow> room \<Rightarrow> room" where
  "expire_lease instant r = (case rm_control_lease r of
     None \<Rightarrow> r | Some (_, expires) \<Rightarrow> if expires \<le> instant then r\<lparr>rm_control_lease := None\<rparr> else r)"

text \<open>The window of the replay: the oldest frames go while they are too old, too many or too big.\<close>

fun prune :: "int \<Rightarrow> stored_frame list \<Rightarrow> nat \<Rightarrow> stored_frame list \<times> nat" where
  "prune instant [] bytes = ([], bytes)"
| "prune instant (f # fs) bytes =
     (if REPLAY_TTL < instant - sf_created_at f \<or> MAX_REPLAY_FRAMES < length (f # fs) \<or> MAX_REPLAY_BYTES < bytes
      then prune instant fs (bytes - sf_bytes f) else (f # fs, bytes))"

definition prune_replay :: "int \<Rightarrow> room \<Rightarrow> room" where
  "prune_replay instant r = (case prune instant (rm_replay r) (rm_replay_bytes r) of
     (fs, bytes) \<Rightarrow> r\<lparr>rm_replay := fs, rm_replay_bytes := bytes\<rparr>)"

definition replay_from_sequence :: "room \<Rightarrow> u64" where
  "replay_from_sequence r = (case rm_replay r of f # _ \<Rightarrow> fr_sequence (sf_frame f) - 1 | [] \<Rightarrow> rm_next_output_sequence r - 1)"

record room_view =
  rv_id :: string
  rv_workspace_id :: string
  rv_terminal_session_id :: string
  rv_host_member_id :: string
  rv_host_device_id :: string
  rv_key_epoch :: i64
  rv_status :: string
  rv_participants :: "participant list"
  rv_control_lease :: "lease option"
  rv_next_output_sequence :: u64
  rv_created_at :: string

definition snapshot :: "room \<Rightarrow> room_view" where
  "snapshot r = \<lparr>rv_id = rm_id r, rv_workspace_id = rm_workspace_id r, rv_terminal_session_id = rm_terminal_session_id r,
     rv_host_member_id = rm_host_member_id r, rv_host_device_id = rm_host_device_id r, rv_key_epoch = rm_key_epoch r,
     rv_status = rm_status r, rv_participants = sort_key pt_joined_at (sort_key pt_device_id (map snd (rm_participants r))),
     rv_control_lease = map_option fst (rm_control_lease r), rv_next_output_sequence = rm_next_output_sequence r,
     rv_created_at = rm_created_at r\<rparr>"

definition zero_key :: string where
  "zero_key = replicate 32 (char_of (0 :: nat))"

definition closed :: "room \<Rightarrow> room" where
  "closed r = r\<lparr>rm_status := ''closed'', rm_control_lease := None, rm_room_key := zero_key, rm_replay := [], rm_replay_bytes := 0\<rparr>"

text \<open>The result of an operation on the manager; \<open>put_room\<close> stores the room it changed.\<close>

type_synonym 'a step = "'a app_result \<times> collaboration"

definition put_room :: "string \<Rightarrow> room \<Rightarrow> collaboration \<Rightarrow> collaboration" where
  "put_room i r s = s\<lparr>co_rooms := AList.update i r (co_rooms s)\<rparr>"

definition put_client :: "string \<Rightarrow> client_room \<Rightarrow> collaboration \<Rightarrow> collaboration" where
  "put_client i r s = s\<lparr>co_client_rooms := AList.update i r (co_client_rooms s)\<rparr>"

definition find_room :: "string \<Rightarrow> collaboration \<Rightarrow> room app_result" where
  "find_room i s = ok_or (map_of (co_rooms s) i) NotFound"

definition find_client :: "string \<Rightarrow> collaboration \<Rightarrow> client_room app_result" where
  "find_client i s = ok_or (map_of (co_client_rooms s) i) NotFound"

text \<open>The view of a room drops an expired lease first.\<close>

definition shown :: "int \<Rightarrow> string \<Rightarrow> room \<Rightarrow> collaboration \<Rightarrow> room_view step" where
  "shown instant i r s = (let r = expire_lease instant r in (Inr (snapshot r), put_room i r s))"

text \<open>An operation whose checks fail leaves the manager as it is; otherwise \<open>f\<close> continues.\<close>

definition with_room :: "('b \<Rightarrow> collaboration \<Rightarrow> 'a step) \<Rightarrow> 'b app_result \<Rightarrow> collaboration \<Rightarrow> 'a step" where
  "with_room f m s = (case m of Inl e \<Rightarrow> (Inl e, s) | Inr x \<Rightarrow> f x s)"

section \<open>Devices\<close>

definition joined_rows :: "string \<Rightarrow> string \<Rightarrow> team_db \<Rightarrow> (team_device \<times> team_member) list" where
  "joined_rows workspace_id device_id d = [(v, m). v \<leftarrow> db_devices d, m \<leftarrow> db_members d,
     tm_id m = td_member_id v \<and> tm_workspace_id m = td_workspace_id v \<and> td_id v = device_id \<and> td_workspace_id v = workspace_id
     \<and> td_status v = ''active'' \<and> tm_status m = ''active'']"

definition device_member_role :: "crypto \<Rightarrow> string \<Rightarrow> string \<Rightarrow> team_db \<Rightarrow> (string \<times> string) app_result" where
  "device_member_role C workspace_id device_id d =
     rbind (guard (uuid_ok C device_id) Validation) (\<lambda>_.
     rbind (ok_or (fetch_optional (joined_rows workspace_id device_id d)) PermissionDenied) (\<lambda>(v, m). Inr (td_member_id v, tm_role m)))"

definition active_device :: "crypto \<Rightarrow> string \<Rightarrow> string \<Rightarrow> string \<Rightarrow> team_db \<Rightarrow> team_device app_result" where
  "active_device C workspace_id device_id member_id d =
     rbind (ok_or (fetch_optional (filter (\<lambda>(v, m). td_member_id v = member_id) (joined_rows workspace_id device_id d))) PermissionDenied)
       (\<lambda>(v, m). rbind (validated_device_keys C v) (\<lambda>_. Inr v))"

definition validate_host :: "room \<Rightarrow> team_authorization \<Rightarrow> unit app_result" where
  "validate_host r au = guard (rm_host_member_id r = au_member_id au \<and> au_local_device_id au = Some (rm_host_device_id r)
     \<and> rm_key_epoch r = au_key_epoch au) PermissionDenied"

text \<open>The room with the authorization of its host, as every operation of the host starts.\<close>

definition hosted :: "crypto \<Rightarrow> team_db \<Rightarrow> string \<Rightarrow> collaboration \<Rightarrow> room app_result" where
  "hosted C d room_id s =
     rbind (find_room room_id s) (\<lambda>r.
     rbind (authorize C (rm_workspace_id r) ''shareManage'' d) (\<lambda>au.
     rbind (validate_host r au) (\<lambda>_. Inr r)))"

section \<open>Keys and frames\<close>

definition room_wrap_aad :: "string \<Rightarrow> string \<Rightarrow> i64 \<Rightarrow> string \<Rightarrow> string" where
  "room_wrap_aad workspace_id room_id key_epoch device_id = ''cnshell-team-room-wrap-v1'' @ NUL @ workspace_id @ NUL @ room_id @ NUL
     @ string_of_int key_epoch @ NUL @ device_id"

definition derive_room_wrapping_key :: "crypto \<Rightarrow> string \<Rightarrow> string \<Rightarrow> string \<Rightarrow> i64 \<Rightarrow> string \<Rightarrow> string" where
  "derive_room_wrapping_key C shared workspace_id room_id key_epoch device_id = hkdf C room_id shared
     (''cnshell-team-room-key-v1'' @ NUL @ workspace_id @ NUL @ string_of_int key_epoch @ NUL @ device_id)"

definition wrap_room_key :: "crypto \<Rightarrow> string \<Rightarrow> string \<Rightarrow> string \<Rightarrow> i64 \<Rightarrow> string \<Rightarrow> string \<Rightarrow> string \<Rightarrow> string app_result" where
  "wrap_room_key C shared workspace_id room_id key_epoch device_id room_key nonce =
     ok_or (seal C (derive_room_wrapping_key C shared workspace_id room_id key_epoch device_id) nonce
        (room_wrap_aad workspace_id room_id key_epoch device_id) room_key) Internal"

definition unwrap_room_key :: "crypto \<Rightarrow> string \<Rightarrow> invitation \<Rightarrow> string \<Rightarrow> string \<Rightarrow> string app_result" where
  "unwrap_room_key C shared v wrapped nonce =
     rbind (ok_or (unseal C (derive_room_wrapping_key C shared (in_workspace_id v) (in_room_id v) (in_key_epoch v) (in_recipient_device_id v))
        nonce (room_wrap_aad (in_workspace_id v) (in_room_id v) (in_key_epoch v) (in_recipient_device_id v)) wrapped) Authentication) (\<lambda>key.
     rbind (guard (length key = 32) Validation) (\<lambda>_. Inr key))"

definition invitation_signing_payload :: "codec \<Rightarrow> invitation \<Rightarrow> string option" where
  "invitation_signing_payload J v = jcs_invitation J (v\<lparr>in_signature := None\<rparr>)"

definition frame_aad :: "codec \<Rightarrow> frame \<Rightarrow> string app_result" where
  "frame_aad J f = ok_or (jcs_frame J (f\<lparr>fr_ciphertext := [], fr_signature := None\<rparr>)) Internal"

definition frame_signing_payload :: "codec \<Rightarrow> frame \<Rightarrow> string option" where
  "frame_signing_payload J f = jcs_frame J (f\<lparr>fr_signature := None\<rparr>)"

definition verify_invitation_signature :: "crypto \<Rightarrow> codec \<Rightarrow> invitation \<Rightarrow> team_device \<Rightarrow> unit app_result" where
  "verify_invitation_signature C J v host = verify_signature C host (invitation_signing_payload J v) (in_signature v)"

definition verify_frame_signature :: "crypto \<Rightarrow> codec \<Rightarrow> frame \<Rightarrow> team_device \<Rightarrow> unit app_result" where
  "verify_frame_signature C J f sender = verify_signature C sender (frame_signing_payload J f) (fr_signature f)"

text \<open>The frame is passed without nonce, ciphertext and signature, which encryption fills in.\<close>

definition encrypt_frame :: "crypto \<Rightarrow> codec \<Rightarrow> drawn \<Rightarrow> string \<Rightarrow> frame \<Rightarrow> string \<Rightarrow> frame app_result" where
  "encrypt_frame C J E room_key f plaintext =
     rbind (guard (plaintext \<noteq> [] \<and> length plaintext \<le> MAX_FRAME_BYTES) Validation) (\<lambda>_.
     (let f = f\<lparr>fr_nonce := b64_encode C (dr_random E 0), fr_ciphertext := [], fr_signature := None\<rparr> in
      rbind (frame_aad J f) (\<lambda>aad.
      rbind (ok_or (seal C room_key (dr_random E 0) aad plaintext) Internal) (\<lambda>ciphertext.
      (let f = f\<lparr>fr_ciphertext := b64_encode C ciphertext\<rparr> in
       rbind (load_private_key C (dr_store E) (fr_sender_device_id f) ''ed25519'') (\<lambda>secret.
       rbind (ok_or (frame_signing_payload J f) Internal) (\<lambda>payload.
       Inr (f\<lparr>fr_signature := Some (signature_text C secret payload)\<rparr>))))))))"

definition decrypt_frame :: "crypto \<Rightarrow> codec \<Rightarrow> string \<Rightarrow> frame \<Rightarrow> string app_result" where
  "decrypt_frame C J room_key f =
     rbind (ok_or (jcs_frame J f) Validation) (\<lambda>text.
     rbind (guard (length text \<le> MAX_ENVELOPE_BYTES) Validation) (\<lambda>_.
     rbind (ok_or (b64_decode C (fr_ciphertext f)) Validation) (\<lambda>ciphertext.
     rbind (guard (16 < length ciphertext \<and> length ciphertext \<le> MAX_FRAME_BYTES + 16) Validation) (\<lambda>_.
     rbind (decode_nonce C (fr_nonce f)) (\<lambda>nonce.
     rbind (frame_aad J f) (\<lambda>aad.
     ok_or (unseal C room_key nonce aad ciphertext) Authentication))))))"

section \<open>Hosting\<close>

definition start ::
    "crypto \<Rightarrow> team_db \<Rightarrow> drawn \<Rightarrow> string \<Rightarrow> string \<Rightarrow> collaboration \<Rightarrow> room_view step" where
  "start C d E workspace_id session s =
     with_room (\<lambda>(au, device_id, member_id, role) s.
       (let s = s\<lparr>co_rooms := filter (\<lambda>e. rm_status (snd e) = ''active'') (co_rooms s)\<rparr> in
        if MAX_ROOMS \<le> length (co_rooms s) then (Inl Validation, s)
        else if list_ex (\<lambda>e. rm_terminal_session_id (snd e) = session \<and> rm_status (snd e) = ''active'') (co_rooms s) then (Inl Validation, s)
        else shown (dr_instant E) (dr_uuid E)
          \<lparr>rm_id = dr_uuid E, rm_workspace_id = workspace_id, rm_terminal_session_id = session, rm_host_member_id = member_id,
           rm_host_device_id = device_id, rm_key_epoch = au_key_epoch au, rm_status = ''active'',
           rm_participants = [(device_id, \<lparr>pt_member_id = member_id, pt_device_id = device_id, pt_role = role,
             pt_joined_at = to_rfc3339 C (dr_now E), pt_next_input_sequence = 1\<rparr>)],
           rm_control_lease = None, rm_next_output_sequence = 1, rm_lease_generation = 0, rm_room_key = dr_random E 0, rm_replay = [],
           rm_replay_bytes = 0, rm_encrypted_transport = False, rm_created_at = to_rfc3339 C (dr_now E)\<rparr> s))
     (rbind (guard (session \<noteq> [] \<and> length session \<le> 128) Validation) (\<lambda>_.
      rbind (authorize C workspace_id ''shareManage'' d) (\<lambda>au.
      rbind (ok_or (au_local_device_id au) Unavailable) (\<lambda>device_id.
      rbind (device_member_role C workspace_id device_id d) (\<lambda>(member_id, role).
      rbind (guard (member_id = au_member_id au) PermissionDenied) (\<lambda>_.
      Inr (au, device_id, member_id, role))))))) s"

text \<open>A device joins, or comes back with the role it has now; it may not have moved to another member.\<close>

definition admit :: "string \<Rightarrow> string \<Rightarrow> string \<Rightarrow> string \<Rightarrow> room \<Rightarrow> room app_result" where
  "admit device_id member_id role joined_at r =
     (case map_of (rm_participants r) device_id of
        None \<Rightarrow> if MAX_PARTICIPANTS \<le> length (rm_participants r) then Inl Validation
          else Inr (r\<lparr>rm_participants := AList.update device_id \<lparr>pt_member_id = member_id, pt_device_id = device_id, pt_role = role,
            pt_joined_at = joined_at, pt_next_input_sequence = 1\<rparr> (rm_participants r)\<rparr>)
      | Some p \<Rightarrow> if pt_member_id p \<noteq> member_id then Inl PermissionDenied
          else Inr (r\<lparr>rm_participants := AList.update device_id (p\<lparr>pt_role := role\<rparr>) (rm_participants r)\<rparr>))"

definition room_active :: "room \<Rightarrow> unit app_result" where
  "room_active r = guard (rm_status r = ''active'') Unavailable"

definition join :: "crypto \<Rightarrow> team_db \<Rightarrow> drawn \<Rightarrow> string \<Rightarrow> string \<Rightarrow> collaboration \<Rightarrow> room_view step" where
  "join C d E room_id device_id s =
     with_room (shown (dr_instant E) room_id)
     (rbind (find_room room_id s) (\<lambda>r.
      rbind (room_active r) (\<lambda>_.
      rbind (authorize C (rm_workspace_id r) ''shareManage'' d) (\<lambda>au.
      rbind (validate_host r au) (\<lambda>_.
      rbind (device_member_role C (rm_workspace_id r) device_id d) (\<lambda>(member_id, role).
      rbind (require_permission role ''terminalView'') (\<lambda>_.
      admit device_id member_id role (to_rfc3339 C (dr_now E)) r))))))) s"

text \<open>The unsigned invitation of a device, and its signature by the host.\<close>

definition invitation_of ::
    "crypto \<Rightarrow> drawn \<Rightarrow> room \<Rightarrow> string \<Rightarrow> string \<Rightarrow> string \<Rightarrow> invitation" where
  "invitation_of C E r member_id device_id wrapped =
     \<lparr>in_schema_version = 1, in_room_id = rm_id r, in_workspace_id = rm_workspace_id r, in_key_epoch = rm_key_epoch r,
      in_host_member_id = rm_host_member_id r, in_host_device_id = rm_host_device_id r, in_recipient_member_id = member_id,
      in_recipient_device_id = device_id, in_ephemeral_public_key = encode_key C ''x25519'' (x25519_public C (dr_random E 0)),
      in_key_nonce = b64_encode C (dr_random E 1), in_wrapped_room_key = b64_encode C wrapped,
      in_replay_from_sequence = replay_from_sequence r,
      in_next_input_sequence = (case map_of (rm_participants r) device_id of Some p \<Rightarrow> pt_next_input_sequence p | None \<Rightarrow> 1),
      in_created_at = to_rfc3339 C (dr_now E), in_expires_at = to_rfc3339 C (dr_now E + INVITATION_TTL), in_signature = None\<rparr>"

definition sign_invitation :: "crypto \<Rightarrow> codec \<Rightarrow> drawn \<Rightarrow> string \<Rightarrow> invitation \<Rightarrow> invitation app_result" where
  "sign_invitation C J E host_device v =
     rbind (load_private_key C (dr_store E) host_device ''ed25519'') (\<lambda>secret.
     rbind (ok_or (invitation_signing_payload J v) Internal) (\<lambda>payload.
     Inr (v\<lparr>in_signature := Some (signature_text C secret payload)\<rparr>)))"

definition create_invitation ::
    "crypto \<Rightarrow> codec \<Rightarrow> team_db \<Rightarrow> drawn \<Rightarrow> string \<Rightarrow> string \<Rightarrow> collaboration \<Rightarrow> invitation step" where
  "create_invitation C J d E room_id device_id s =
     with_room (\<lambda>(r, member_id, host, recipient_public) s.
       (let shared = x25519 C (dr_random E 0) recipient_public in
        case rbind (guard (contributory C shared) Validation) (\<lambda>_.
             wrap_room_key C shared (rm_workspace_id r) (rm_id r) (rm_key_epoch r) device_id (rm_room_key r) (dr_random E 1)) of
          Inl e \<Rightarrow> (Inl e, put_room room_id r s)
        | Inr wrapped \<Rightarrow>
           (let r = prune_replay (dr_instant E) r in
            case sign_invitation C J E (td_id host) (invitation_of C E r member_id device_id wrapped) of
              Inl e \<Rightarrow> (Inl e, put_room room_id r s)
            | Inr v \<Rightarrow> (Inr v, put_room room_id (r\<lparr>rm_encrypted_transport := True\<rparr>) s))))
     (rbind (find_room room_id s) (\<lambda>r.
      rbind (authorize C (rm_workspace_id r) ''shareManage'' d) (\<lambda>au.
      rbind (device_member_role C (rm_workspace_id r) device_id d) (\<lambda>(member_id, role).
      rbind (require_permission role ''terminalView'') (\<lambda>_.
      rbind (active_device C (rm_workspace_id r) device_id member_id d) (\<lambda>recipient.
      rbind (ok_or (au_local_device_id au) Unavailable) (\<lambda>host_device.
      rbind (active_device C (rm_workspace_id r) host_device (au_member_id au) d) (\<lambda>host.
      rbind (validated_device_keys C recipient) (\<lambda>(recipient_public, _).
      rbind (validate_host r au) (\<lambda>_.
      rbind (room_active r) (\<lambda>_.
      rbind (admit device_id member_id role (to_rfc3339 C (dr_now E)) r) (\<lambda>r.
      Inr (r, member_id, host, recipient_public))))))))))))) s"

definition output_frame :: "room \<Rightarrow> frame" where
  "output_frame r = \<lparr>fr_schema_version = 1, fr_workspace_id = rm_workspace_id r, fr_room_id = rm_id r, fr_key_epoch = rm_key_epoch r,
     fr_sender_member_id = rm_host_member_id r, fr_sender_device_id = rm_host_device_id r, fr_direction = ''output'', fr_kind = ''terminal'',
     fr_sequence = rm_next_output_sequence r, fr_lease_id = None, fr_lease_generation = 0, fr_nonce = [], fr_ciphertext = [],
     fr_signature = None\<rparr>"

text \<open>A frame whose size cannot be computed is lost after its number is used.\<close>

definition publish_encrypted_output ::
    "crypto \<Rightarrow> codec \<Rightarrow> team_db \<Rightarrow> drawn \<Rightarrow> string \<Rightarrow> string \<Rightarrow> collaboration \<Rightarrow> frame step" where
  "publish_encrypted_output C J d E room_id bytes s =
     with_room (\<lambda>(r, f, sequence) s.
       (let r = r\<lparr>rm_next_output_sequence := sequence\<rparr> in
        case jcs_frame J f of
          None \<Rightarrow> (Inl Internal, put_room room_id r s)
        | Some text \<Rightarrow> (Inr f, put_room room_id (prune_replay (dr_instant E)
            (r\<lparr>rm_replay_bytes := rm_replay_bytes r + length text,
               rm_replay := rm_replay r @ [\<lparr>sf_frame = f, sf_bytes = length text, sf_created_at = dr_instant E\<rparr>],
               rm_encrypted_transport := True\<rparr>)) s)))
     (rbind (hosted C d room_id s) (\<lambda>r.
      rbind (room_active r) (\<lambda>_.
      rbind (encrypt_frame C J E (rm_room_key r) (output_frame r) bytes) (\<lambda>f.
      rbind (ok_or (next_u64 (rm_next_output_sequence r)) Unavailable) (\<lambda>sequence.
      Inr (r, f, sequence)))))) s"

definition replay_output ::
    "crypto \<Rightarrow> team_db \<Rightarrow> drawn \<Rightarrow> string \<Rightarrow> string \<Rightarrow> u64 \<Rightarrow> collaboration \<Rightarrow> frame list step" where
  "replay_output C d E room_id device_id after s =
     with_room (\<lambda>r s.
       (let r = prune_replay (dr_instant E) r; latest = rm_next_output_sequence r - 1; s = put_room room_id r s in
        if latest < after then (Inl Validation, s)
        else if after = latest then (Inr [], s)
        else (case rm_replay r of
            [] \<Rightarrow> (Inl Unavailable, s)
          | first # _ \<Rightarrow> if sat_add after 1 < fr_sequence (sf_frame first) then (Inl Unavailable, s)
              else (Inr (filter (\<lambda>f. after < fr_sequence f) (map sf_frame (rm_replay r))), s))))
     (rbind (find_room room_id s) (\<lambda>r.
      rbind (authorize C (rm_workspace_id r) ''shareManage'' d) (\<lambda>au.
      rbind (device_member_role C (rm_workspace_id r) device_id d) (\<lambda>(member_id, role).
      rbind (require_permission role ''terminalView'') (\<lambda>_.
      rbind (validate_host r au) (\<lambda>_.
      rbind (guard (rm_status r = ''active'' \<and> (case map_of (rm_participants r) device_id of None \<Rightarrow> False | Some p \<Rightarrow> pt_member_id p = member_id)) PermissionDenied) (\<lambda>_.
      Inr r))))))) s"

definition publish_output :: "crypto \<Rightarrow> team_db \<Rightarrow> string \<Rightarrow> string \<Rightarrow> collaboration \<Rightarrow> plain_frame step" where
  "publish_output C d room_id bytes s =
     with_room (\<lambda>(r, sequence) s.
       (Inr \<lparr>pf_room_id = room_id, pf_sequence = rm_next_output_sequence r, pf_kind = ''output'', pf_data_base64 = b64_std_encode C bytes\<rparr>,
        put_room room_id (r\<lparr>rm_next_output_sequence := sequence\<rparr>) s))
     (rbind (guard (bytes \<noteq> [] \<and> length bytes \<le> MAX_FRAME_BYTES) Validation) (\<lambda>_.
      rbind (hosted C d room_id s) (\<lambda>r.
      rbind (room_active r) (\<lambda>_.
      rbind (guard (\<not> rm_encrypted_transport r) PermissionDenied) (\<lambda>_.
      rbind (ok_or (next_u64 (rm_next_output_sequence r)) Unavailable) (\<lambda>sequence.
      Inr (r, sequence))))))) s"

section \<open>Control\<close>

definition grant_control ::
    "crypto \<Rightarrow> team_db \<Rightarrow> drawn \<Rightarrow> string \<Rightarrow> string \<Rightarrow> u64 \<Rightarrow> collaboration \<Rightarrow> room_view step" where
  "grant_control C d E room_id device_id duration s =
     with_room (\<lambda>(r, member_id, generation).
       shown (dr_instant E) room_id (r\<lparr>rm_lease_generation := generation, rm_control_lease := Some
         (\<lparr>le_id = dr_uuid E, le_member_id = member_id, le_device_id = device_id, le_expires_at = to_rfc3339 C (dr_now E + secs duration),
           le_generation = generation\<rparr>, dr_instant E + secs duration)\<rparr>))
     (rbind (guard (10 \<le> duration \<and> duration \<le> 300) Validation) (\<lambda>_.
      rbind (find_room room_id s) (\<lambda>r.
      rbind (authorize C (rm_workspace_id r) ''shareManage'' d) (\<lambda>au.
      rbind (device_member_role C (rm_workspace_id r) device_id d) (\<lambda>(member_id, role).
      rbind (require_permission role ''terminalControl'') (\<lambda>_.
      rbind (validate_host r au) (\<lambda>_.
      rbind (guard (rm_status r = ''active'' \<and> device_id \<in> fst ` set (rm_participants r)) PermissionDenied) (\<lambda>_.
      rbind (ok_or (next_u64 (rm_lease_generation r)) Unavailable) (\<lambda>generation.
      Inr (r, member_id, generation)))))))))) s"

text \<open>A lease that the relay announced: newer than the last, or the very lease that is held.\<close>

definition apply_control_lease ::
    "crypto \<Rightarrow> team_db \<Rightarrow> drawn \<Rightarrow> string \<Rightarrow> lease \<Rightarrow> collaboration \<Rightarrow> room_view step" where
  "apply_control_lease C d E room_id l s =
     with_room (\<lambda>(r, remaining) s.
       if le_generation l < rm_lease_generation r then (Inl Validation, s)
       else if le_generation l = rm_lease_generation r
       then (if map_option fst (rm_control_lease r) = Some l then shown (dr_instant E) room_id r s else (Inl Validation, s))
       else shown (dr_instant E) room_id
         (r\<lparr>rm_lease_generation := le_generation l, rm_control_lease := Some (l, dr_instant E + remaining)\<rparr>) s)
     (rbind (guard (uuid_ok C (le_id l) \<and> le_generation l \<noteq> 0) Validation) (\<lambda>_.
      rbind (ok_or (parse_rfc3339 C (le_expires_at l)) Validation) (\<lambda>expires.
      rbind (guard (0 < expires - dr_now E \<and> expires - dr_now E \<le> secs 300) Validation) (\<lambda>_.
      rbind (find_room room_id s) (\<lambda>r.
      rbind (authorize C (rm_workspace_id r) ''shareManage'' d) (\<lambda>au.
      rbind (device_member_role C (rm_workspace_id r) (le_device_id l) d) (\<lambda>(member_id, role).
      rbind (guard (member_id = le_member_id l) PermissionDenied) (\<lambda>_.
      rbind (require_permission role ''terminalControl'') (\<lambda>_.
      rbind (validate_host r au) (\<lambda>_.
      rbind (ok_or (map_of (rm_participants r) (le_device_id l)) PermissionDenied) (\<lambda>p.
      rbind (guard (pt_member_id p = le_member_id l) PermissionDenied) (\<lambda>_.
      Inr (r, expires - dr_now E))))))))))))) s"

definition remove_participant ::
    "crypto \<Rightarrow> team_db \<Rightarrow> drawn \<Rightarrow> string \<Rightarrow> string \<Rightarrow> collaboration \<Rightarrow> room_view step" where
  "remove_participant C d E room_id device_id s =
     with_room (\<lambda>r. shown (dr_instant E) room_id
       (r\<lparr>rm_participants := AList.delete device_id (rm_participants r),
          rm_control_lease := (case rm_control_lease r of
             Some (l, _) \<Rightarrow> if le_device_id l = device_id then None else rm_control_lease r | None \<Rightarrow> None)\<rparr>))
     (rbind (hosted C d room_id s) (\<lambda>r.
      rbind (guard (device_id \<noteq> rm_host_device_id r) Validation) (\<lambda>_. Inr r))) s"

definition revoke_control :: "crypto \<Rightarrow> team_db \<Rightarrow> drawn \<Rightarrow> string \<Rightarrow> collaboration \<Rightarrow> room_view step" where
  "revoke_control C d E room_id s =
     with_room (\<lambda>r. shown (dr_instant E) room_id (r\<lparr>rm_control_lease := None\<rparr>)) (hosted C d room_id s) s"

definition status :: "drawn \<Rightarrow> string \<Rightarrow> collaboration \<Rightarrow> room_view step" where
  "status E room_id s = with_room (shown (dr_instant E) room_id) (find_room room_id s) s"

definition close :: "crypto \<Rightarrow> team_db \<Rightarrow> drawn \<Rightarrow> string \<Rightarrow> collaboration \<Rightarrow> room_view step" where
  "close C d E room_id s = with_room (\<lambda>r. shown (dr_instant E) room_id (closed r)) (hosted C d room_id s) s"

definition close_all :: "collaboration \<Rightarrow> collaboration" where
  "close_all s = s\<lparr>co_rooms := map (\<lambda>(i, r). (i, closed r)) (co_rooms s), co_client_rooms := []\<rparr>"

definition close_terminal :: "string \<Rightarrow> collaboration \<Rightarrow> (string \<times> string) list \<times> collaboration" where
  "close_terminal session s =
     (let hit = (\<lambda>r. rm_terminal_session_id r = session \<and> rm_status r = ''active'')
      in (map (\<lambda>(i, r). (rm_workspace_id r, rm_id r)) (filter (\<lambda>(i, r). hit r) (co_rooms s)),
          s\<lparr>co_rooms := map (\<lambda>(i, r). (i, if hit r then closed r else r)) (co_rooms s)\<rparr>))"

section \<open>Input\<close>

definition receive_input ::
    "crypto \<Rightarrow> team_db \<Rightarrow> drawn \<Rightarrow> string \<Rightarrow> string \<Rightarrow> string \<Rightarrow> u64 \<Rightarrow> string \<Rightarrow> collaboration \<Rightarrow> (string \<times> string) step" where
  "receive_input C d E room_id device_id lease_id sequence data s =
     with_room (\<lambda>(r, member_id, bytes) s.
       (let r = expire_lease (dr_instant E) r in
        case rbind (room_active r) (\<lambda>_.
             rbind (ok_or (rm_control_lease r) PermissionDenied) (\<lambda>(l, _).
             rbind (guard (le_id l = lease_id \<and> le_device_id l = device_id \<and> le_member_id l = member_id) PermissionDenied) (\<lambda>_.
             rbind (ok_or (map_of (rm_participants r) device_id) PermissionDenied) (\<lambda>p.
             rbind (guard (pt_next_input_sequence p = sequence) Validation) (\<lambda>_.
             rbind (ok_or (next_u64 (pt_next_input_sequence p)) Unavailable) (\<lambda>n. Inr (p\<lparr>pt_next_input_sequence := n\<rparr>))))))) of
          Inl e \<Rightarrow> (Inl e, put_room room_id r s)
        | Inr p \<Rightarrow> (Inr (rm_terminal_session_id r, bytes),
            put_room room_id (r\<lparr>rm_participants := AList.update device_id p (rm_participants r)\<rparr>) s)))
     (rbind (guard (length data \<le> 128 * 1024) Validation) (\<lambda>_.
      rbind (ok_or (b64_std_decode C data) Validation) (\<lambda>bytes.
      rbind (guard (bytes \<noteq> [] \<and> length bytes \<le> MAX_FRAME_BYTES) Validation) (\<lambda>_.
      rbind (guard (utf8_valid (map of_char bytes)) Validation) (\<lambda>_.
      rbind (find_room room_id s) (\<lambda>r.
      rbind (device_member_role C (rm_workspace_id r) device_id d) (\<lambda>(member_id, role).
      rbind (require_permission role ''terminalControl'') (\<lambda>_.
      rbind (authorize C (rm_workspace_id r) ''shareManage'' d) (\<lambda>au.
      rbind (validate_host r au) (\<lambda>_.
      Inr (r, member_id, bytes))))))))))) s"

definition input_metadata_ok :: "crypto \<Rightarrow> room \<Rightarrow> frame \<Rightarrow> bool" where
  "input_metadata_ok C r f \<longleftrightarrow> fr_schema_version f = 1 \<and> fr_workspace_id f = rm_workspace_id r \<and> fr_direction f = ''input''
     \<and> fr_kind f = ''terminal'' \<and> fr_sequence f \<noteq> 0 \<and> fr_lease_generation f \<noteq> 0
     \<and> (case fr_lease_id f of None \<Rightarrow> False | Some i \<Rightarrow> uuid_ok C i)"

definition input_authorized :: "room \<Rightarrow> frame \<Rightarrow> bool" where
  "input_authorized r f \<longleftrightarrow> (case rm_control_lease r of None \<Rightarrow> False | Some (l, _) \<Rightarrow>
     rm_status r = ''active'' \<and> rm_key_epoch r = fr_key_epoch f
     \<and> (case map_of (rm_participants r) (fr_sender_device_id f) of None \<Rightarrow> False
        | Some p \<Rightarrow> pt_member_id p = fr_sender_member_id f \<and> pt_next_input_sequence p = fr_sequence f)
     \<and> le_id l = (case fr_lease_id f of None \<Rightarrow> [] | Some i \<Rightarrow> i) \<and> le_device_id l = fr_sender_device_id f
     \<and> le_member_id l = fr_sender_member_id f \<and> le_generation l = fr_lease_generation f)"

text \<open>
  An encrypted input frame is checked, decrypted and handed to \<open>receive_input\<close>, which repeats the
  checks with its own readings \<open>E'\<close> of the clocks.
\<close>

definition receive_encrypted_input ::
    "crypto \<Rightarrow> codec \<Rightarrow> team_db \<Rightarrow> drawn \<Rightarrow> drawn \<Rightarrow> frame \<Rightarrow> collaboration \<Rightarrow> (string \<times> string) step" where
  "receive_encrypted_input C J d E E' f s =
     with_room (\<lambda>r s.
       (let r = expire_lease (dr_instant E) r; s = put_room (fr_room_id f) r s in
        with_room (\<lambda>plaintext. receive_input C d E' (fr_room_id f) (fr_sender_device_id f)
            (case fr_lease_id f of None \<Rightarrow> [] | Some i \<Rightarrow> i) (fr_sequence f) (b64_std_encode C plaintext))
          (rbind (guard (input_authorized r f) PermissionDenied) (\<lambda>_.
           rbind (decrypt_frame C J (rm_room_key r) f) (\<lambda>plaintext.
           rbind (guard (utf8_valid (map of_char plaintext)) Validation) (\<lambda>_. Inr plaintext)))) s))
     (rbind (find_room (fr_room_id f) s) (\<lambda>r.
      rbind (guard (input_metadata_ok C r f) Validation) (\<lambda>_.
      rbind (device_member_role C (rm_workspace_id r) (fr_sender_device_id f) d) (\<lambda>(member_id, role).
      rbind (guard (member_id = fr_sender_member_id f) PermissionDenied) (\<lambda>_.
      rbind (require_permission role ''terminalControl'') (\<lambda>_.
      rbind (active_device C (rm_workspace_id r) (fr_sender_device_id f) (fr_sender_member_id f) d) (\<lambda>sender.
      rbind (verify_frame_signature C J f sender) (\<lambda>_.
      rbind (authorize C (rm_workspace_id r) ''shareManage'' d) (\<lambda>au.
      rbind (validate_host r au) (\<lambda>_.
      Inr r)))))))))) s"

section \<open>Rooms of other devices\<close>

definition invitation_shape_ok :: "crypto \<Rightarrow> codec \<Rightarrow> invitation \<Rightarrow> unit app_result" where
  "invitation_shape_ok C J v = rbind (ok_or (jcs_invitation J v) Validation) (\<lambda>text.
     guard (length text \<le> MAX_ENVELOPE_BYTES \<and> in_schema_version v = 1 \<and> uuid_ok C (in_room_id v) \<and> uuid_ok C (in_workspace_id v)
       \<and> 1 \<le> in_key_epoch v \<and> in_next_input_sequence v \<noteq> 0) Validation)"

definition invitation_fresh :: "crypto \<Rightarrow> int \<Rightarrow> invitation \<Rightarrow> unit app_result" where
  "invitation_fresh C now v =
     rbind (ok_or (parse_rfc3339 C (in_created_at v)) Validation) (\<lambda>created.
     rbind (ok_or (parse_rfc3339 C (in_expires_at v)) Validation) (\<lambda>expires.
     guard (now < expires \<and> created \<le> now + secs 60 \<and> created < expires \<and> expires - created \<le> secs 300) Unavailable))"

text \<open>The room key in an invitation, for the device it is addressed to.\<close>

definition open_invitation ::
    "crypto \<Rightarrow> drawn \<Rightarrow> team_device \<Rightarrow> invitation \<Rightarrow> string app_result" where
  "open_invitation C E device v =
     rbind (decode_key C (in_ephemeral_public_key v) ''x25519'') (\<lambda>ephemeral.
     rbind (load_private_key C (dr_store E) (td_id device) ''x25519'') (\<lambda>secret.
     (let shared = x25519 C secret ephemeral in
      rbind (guard (contributory C shared) Authentication) (\<lambda>_.
      rbind (ok_or (b64_decode C (in_wrapped_room_key v)) Validation) (\<lambda>wrapped.
      rbind (guard (length wrapped = 48) Validation) (\<lambda>_.
      rbind (decode_nonce C (in_key_nonce v)) (\<lambda>nonce.
      unwrap_room_key C shared v wrapped nonce)))))))"

definition accept_invitation ::
    "crypto \<Rightarrow> codec \<Rightarrow> team_db \<Rightarrow> drawn \<Rightarrow> invitation \<Rightarrow> collaboration \<Rightarrow> client_room step" where
  "accept_invitation C J d E v s =
     with_room (\<lambda>(key, sequence) s.
       if in_room_id v \<in> fst ` set (co_client_rooms s) \<or> MAX_ROOMS \<le> length (co_client_rooms s) then (Inl Validation, s)
       else (let c = \<lparr>cl_workspace_id = in_workspace_id v, cl_host_member_id = in_host_member_id v, cl_host_device_id = in_host_device_id v,
               cl_local_member_id = in_recipient_member_id v, cl_local_device_id = in_recipient_device_id v, cl_key_epoch = in_key_epoch v,
               cl_room_key = key, cl_next_output_sequence = sequence, cl_next_input_sequence = in_next_input_sequence v,
               cl_status = ''active''\<rparr>
             in (Inr c, put_client (in_room_id v) c s)))
     (rbind (invitation_shape_ok C J v) (\<lambda>_.
      rbind (invitation_fresh C (dr_now E) v) (\<lambda>_.
      rbind (authorize C (in_workspace_id v) ''terminalView'' d) (\<lambda>au.
      rbind (ok_or (au_local_device_id au) Unavailable) (\<lambda>device_id.
      rbind (guard (au_member_id au = in_recipient_member_id v \<and> device_id = in_recipient_device_id v
               \<and> au_key_epoch au = in_key_epoch v) PermissionDenied) (\<lambda>_.
      rbind (active_device C (in_workspace_id v) device_id (au_member_id au) d) (\<lambda>device.
      rbind (active_device C (in_workspace_id v) (in_host_device_id v) (in_host_member_id v) d) (\<lambda>host.
      rbind (verify_invitation_signature C J v host) (\<lambda>_.
      rbind (open_invitation C E device v) (\<lambda>key.
      rbind (ok_or (next_u64 (in_replay_from_sequence v)) Validation) (\<lambda>sequence.
      Inr (key, sequence)))))))))))) s"

text \<open>The client checks an output frame against its room before it looks at its signature and its number.\<close>

definition output_metadata_ok :: "client_room \<Rightarrow> frame \<Rightarrow> bool" where
  "output_metadata_ok c f \<longleftrightarrow> fr_schema_version f = 1 \<and> fr_workspace_id f = cl_workspace_id c \<and> fr_key_epoch f = cl_key_epoch c
     \<and> fr_sender_member_id f = cl_host_member_id c \<and> fr_sender_device_id f = cl_host_device_id c \<and> fr_direction f = ''output''
     \<and> fr_kind f = ''terminal'' \<and> fr_lease_id f = None \<and> fr_lease_generation f = 0 \<and> fr_sequence f \<noteq> 0"

definition validate_client :: "client_room \<Rightarrow> team_authorization \<Rightarrow> unit app_result" where
  "validate_client c au = guard (au_member_id au = cl_local_member_id c \<and> au_local_device_id au = Some (cl_local_device_id c)
     \<and> au_key_epoch au = cl_key_epoch c) PermissionDenied"

definition decrypt_output :: "crypto \<Rightarrow> codec \<Rightarrow> team_db \<Rightarrow> frame \<Rightarrow> collaboration \<Rightarrow> plain_frame step" where
  "decrypt_output C J d f s =
     with_room (\<lambda>(c, plaintext, sequence) s.
       (Inr \<lparr>pf_room_id = fr_room_id f, pf_sequence = fr_sequence f, pf_kind = ''output'', pf_data_base64 = b64_std_encode C plaintext\<rparr>,
        put_client (fr_room_id f) (c\<lparr>cl_next_output_sequence := sequence\<rparr>) s))
     (rbind (find_client (fr_room_id f) s) (\<lambda>c.
      rbind (guard (output_metadata_ok c f) Validation) (\<lambda>_.
      rbind (authorize C (cl_workspace_id c) ''terminalView'' d) (\<lambda>au.
      rbind (validate_client c au) (\<lambda>_.
      rbind (active_device C (cl_workspace_id c) (cl_host_device_id c) (cl_host_member_id c) d) (\<lambda>host.
      rbind (verify_frame_signature C J f host) (\<lambda>_.
      rbind (guard (cl_status c = ''active'' \<and> fr_sequence f = cl_next_output_sequence c) Validation) (\<lambda>_.
      rbind (decrypt_frame C J (cl_room_key c) f) (\<lambda>plaintext.
      rbind (ok_or (next_u64 (cl_next_output_sequence c)) Unavailable) (\<lambda>sequence.
      Inr (c, plaintext, sequence))))))))))) s"

definition encrypt_input ::
    "crypto \<Rightarrow> codec \<Rightarrow> team_db \<Rightarrow> drawn \<Rightarrow> string \<Rightarrow> string \<Rightarrow> u64 \<Rightarrow> string \<Rightarrow> collaboration \<Rightarrow> frame step" where
  "encrypt_input C J d E room_id lease_id generation bytes s =
     with_room (\<lambda>(c, f, sequence) s. (Inr f, put_client room_id (c\<lparr>cl_next_input_sequence := sequence\<rparr>) s))
     (rbind (guard (uuid_ok C lease_id \<and> generation \<noteq> 0) Validation) (\<lambda>_.
      rbind (guard (utf8_valid (map of_char bytes)) Validation) (\<lambda>_.
      rbind (find_client room_id s) (\<lambda>c.
      rbind (authorize C (cl_workspace_id c) ''terminalControl'' d) (\<lambda>au.
      rbind (validate_client c au) (\<lambda>_.
      rbind (guard (cl_status c = ''active'') Unavailable) (\<lambda>_.
      rbind (encrypt_frame C J E (cl_room_key c)
        \<lparr>fr_schema_version = 1, fr_workspace_id = cl_workspace_id c, fr_room_id = room_id, fr_key_epoch = cl_key_epoch c,
         fr_sender_member_id = cl_local_member_id c, fr_sender_device_id = cl_local_device_id c, fr_direction = ''input'',
         fr_kind = ''terminal'', fr_sequence = cl_next_input_sequence c, fr_lease_id = Some lease_id, fr_lease_generation = generation,
         fr_nonce = [], fr_ciphertext = [], fr_signature = None\<rparr> bytes) (\<lambda>f.
      rbind (ok_or (next_u64 (cl_next_input_sequence c)) Unavailable) (\<lambda>sequence.
      Inr (c, f, sequence)))))))))) s"

definition client_status :: "string \<Rightarrow> collaboration \<Rightarrow> client_room app_result" where
  "client_status room_id s = find_client room_id s"

definition close_client :: "string \<Rightarrow> collaboration \<Rightarrow> client_room step" where
  "close_client room_id s =
     with_room (\<lambda>c s. (Inr (c\<lparr>cl_status := ''closed''\<rparr>), s\<lparr>co_client_rooms := AList.delete room_id (co_client_rooms s)\<rparr>))
       (find_client room_id s) s"

end
