(* ===== verification/CollabRooms.thy ===== *)
theory CollabRooms
  imports Collaboration
begin

text \<open>
  What holds of every room of a host in every state that its operations can bring about, over a
  journal of what was published under which number.
\<close>

section \<open>Steps\<close>

text \<open>The text published in a room under a number; plain output is not kept.\<close>

type_synonym journal = "string \<Rightarrow> u64 \<Rightarrow> string option"

text \<open>The credential store of the device, and a draw of \<open>n\<close> random bytes: a key of 32, a nonce of 12.\<close>

definition drawn_ok :: "(string \<Rightarrow> string option) \<Rightarrow> nat \<Rightarrow> drawn \<Rightarrow> bool" where
  "drawn_ok store n E \<longleftrightarrow> dr_store E = store \<and> length (dr_random E 0) = n"

definition note_published :: "string \<Rightarrow> string \<Rightarrow> frame app_result \<Rightarrow> journal \<Rightarrow> journal" where
  "note_published room_id bytes res j = (case res of Inl _ \<Rightarrow> j | Inr f \<Rightarrow> j(room_id := (j room_id)(fr_sequence f \<mapsto> bytes)))"

definition started_id :: "room_view app_result \<Rightarrow> string option" where
  "started_id res = (case res of Inl _ \<Rightarrow> None | Inr v \<Rightarrow> Some (rv_id v))"

text \<open>The operations, each with the team tables and the readings it happens to get; a room gets a fresh identifier.\<close>

inductive collab_step ::
    "crypto \<Rightarrow> codec \<Rightarrow> (string \<Rightarrow> string option) \<Rightarrow> collaboration \<times> journal \<Rightarrow> collaboration \<times> journal \<Rightarrow> bool"
  for C J store where
  start: "drawn_ok store 32 E \<Longrightarrow> j (dr_uuid E) = Map.empty \<Longrightarrow> collab_step C J store (s, j) (snd (start C d E ws session s), j)"
| join: "collab_step C J store (s, j) (snd (join C d E i device s), j)"
| invite: "drawn_ok store 32 E \<Longrightarrow> collab_step C J store (s, j) (snd (create_invitation C J d E i device s), j)"
| publish: "drawn_ok store 12 E \<Longrightarrow> publish_encrypted_output C J d E i bytes s = (res, s')
    \<Longrightarrow> collab_step C J store (s, j) (s', note_published i bytes res j)"
| publish_plain: "collab_step C J store (s, j) (snd (publish_output C d i bytes s), j)"
| replay: "collab_step C J store (s, j) (snd (replay_output C d E i device after s), j)"
| grant: "collab_step C J store (s, j) (snd (grant_control C d E i device duration s), j)"
| lease: "collab_step C J store (s, j) (snd (apply_control_lease C d E i l s), j)"
| remove: "collab_step C J store (s, j) (snd (remove_participant C d E i device s), j)"
| revoke: "collab_step C J store (s, j) (snd (revoke_control C d E i s), j)"
| status: "collab_step C J store (s, j) (snd (status E i s), j)"
| close: "collab_step C J store (s, j) (snd (close C d E i s), j)"
| close_all: "collab_step C J store (s, j) (close_all s, j)"
| close_terminal: "collab_step C J store (s, j) (snd (close_terminal session s), j)"
| input: "collab_step C J store (s, j) (snd (receive_input C d E i device lease_id sequence data s), j)"
| encrypted_input: "collab_step C J store (s, j) (snd (receive_encrypted_input C J d E E' f s), j)"
| accept: "collab_step C J store (s, j) (snd (accept_invitation C J d E v s), j)"
| receive_output: "collab_step C J store (s, j) (snd (decrypt_output C J d f s), j)"
| send: "drawn_ok store 12 E \<Longrightarrow> collab_step C J store (s, j) (snd (encrypt_input C J d E i lease_id generation bytes s), j)"
| leave: "collab_step C J store (s, j) (snd (close_client i s), j)"

definition no_collaboration :: collaboration where
  "no_collaboration = \<lparr>co_rooms = [], co_client_rooms = []\<rparr>"

inductive collab_reachable :: "crypto \<Rightarrow> codec \<Rightarrow> (string \<Rightarrow> string option) \<Rightarrow> collaboration \<times> journal \<Rightarrow> bool"
  for C J store where
  empty: "collab_reachable C J store (no_collaboration, \<lambda>_. Map.empty)"
| step: "collab_reachable C J store s \<Longrightarrow> collab_step C J store s s' \<Longrightarrow> collab_reachable C J store s'"

section \<open>The invariant\<close>

text \<open>A stored frame is the encryption of what the journal has under its number.\<close>

definition genuine :: "crypto \<Rightarrow> codec \<Rightarrow> (string \<Rightarrow> string option) \<Rightarrow> (u64 \<Rightarrow> string option) \<Rightarrow> room \<Rightarrow> frame \<Rightarrow> bool" where
  "genuine C J store published r f \<longleftrightarrow> (\<exists>E bytes. drawn_ok store 12 E \<and> published (fr_sequence f) = Some bytes
     \<and> encrypt_frame C J E (rm_room_key r) (output_frame (r\<lparr>rm_next_output_sequence := fr_sequence f\<rparr>)) bytes = Inr f)"

text \<open>
  The replay holds the frames with the last numbers without a gap, each the one published under its
  number, at most 512 frames and 4 MiB; the lease belongs to a participant and is of a known
  generation; a closed room has no key and no frames left.
\<close>

definition replay_ok :: "crypto \<Rightarrow> codec \<Rightarrow> (string \<Rightarrow> string option) \<Rightarrow> (u64 \<Rightarrow> string option) \<Rightarrow> room \<Rightarrow> bool" where
  "replay_ok C J store published r \<longleftrightarrow>
     map (\<lambda>f. fr_sequence (sf_frame f)) (rm_replay r)
       = [rm_next_output_sequence r - length (rm_replay r) ..< rm_next_output_sequence r]
   \<and> length (rm_replay r) < rm_next_output_sequence r \<and> rm_next_output_sequence r < 2 ^ 64
   \<and> rm_replay_bytes r = sum_list (map sf_bytes (rm_replay r))
   \<and> (\<forall>f \<in> set (rm_replay r). genuine C J store published r (sf_frame f))
   \<and> (rm_replay r \<noteq> [] \<longrightarrow> rm_encrypted_transport r)"

definition replay_bounded :: "room \<Rightarrow> bool" where
  "replay_bounded r \<longleftrightarrow> length (rm_replay r) \<le> MAX_REPLAY_FRAMES \<and> rm_replay_bytes r \<le> MAX_REPLAY_BYTES"

definition members_ok :: "room \<Rightarrow> bool" where
  "members_ok r \<longleftrightarrow> distinct (map fst (rm_participants r)) \<and> length (rm_participants r) \<le> MAX_PARTICIPANTS
   \<and> (\<forall>(i, p) \<in> set (rm_participants r). pt_device_id p = i)
   \<and> rm_host_device_id r \<in> fst ` set (rm_participants r)
   \<and> pred_option (\<lambda>l. le_device_id (fst l) \<in> fst ` set (rm_participants r) \<and> le_generation (fst l) \<le> rm_lease_generation r)
        (rm_control_lease r)"

definition status_ok :: "room \<Rightarrow> bool" where
  "status_ok r \<longleftrightarrow> rm_status r = ''active''
     \<or> rm_status r = ''closed'' \<and> rm_replay r = [] \<and> rm_room_key r = zero_key"

definition room_ok :: "crypto \<Rightarrow> codec \<Rightarrow> (string \<Rightarrow> string option) \<Rightarrow> journal \<Rightarrow> string \<Rightarrow> room \<Rightarrow> bool" where
  "room_ok C J store j i r \<longleftrightarrow> rm_id r = i \<and> replay_ok C J store (j i) r \<and> replay_bounded r \<and> members_ok r \<and> status_ok r
     \<and> (\<forall>q. j i q \<noteq> None \<longrightarrow> q < rm_next_output_sequence r)"

definition rooms_ok :: "crypto \<Rightarrow> codec \<Rightarrow> (string \<Rightarrow> string option) \<Rightarrow> collaboration \<times> journal \<Rightarrow> bool" where
  "rooms_ok C J store sj \<longleftrightarrow> (case sj of (s, j) \<Rightarrow>
     distinct (map fst (co_rooms s)) \<and> length (co_rooms s) \<le> MAX_ROOMS
   \<and> (\<forall>(i, r) \<in> set (co_rooms s). room_ok C J store j i r)
   \<and> distinct (map fst (co_client_rooms s)) \<and> length (co_client_rooms s) \<le> MAX_ROOMS)"


section \<open>Association lists\<close>

lemma entries_update: "e \<in> set (AList.update k v al) \<Longrightarrow> e = (k, v) \<or> e \<in> set al \<and> (distinct (map fst al) \<longrightarrow> fst e \<noteq> k)"
  by (induction al) (auto split: if_splits simp: image_iff)

lemma length_update: "length (AList.update k v al) = (if k \<in> fst ` set al then length al else Suc (length al))"
  using arg_cong [OF update_keys [of k v al], of length] by (auto split: if_splits)

lemma entries_delete: "set (AList.delete k al) = {e \<in> set al. fst e \<noteq> k}"
  by (auto simp: AList.delete_eq)

lemma key_mem: "(k, v) \<in> set al \<Longrightarrow> k \<in> fst ` set al"
  by force

section \<open>Changes of one room\<close>

lemma room_ok_frame:
  assumes "room_ok C J store j i r" "rm_id r' = rm_id r" "rm_replay r' = rm_replay r" "rm_replay_bytes r' = rm_replay_bytes r"
    "rm_next_output_sequence r' = rm_next_output_sequence r" "rm_room_key r' = rm_room_key r" "rm_status r' = rm_status r"
    "output_frame r' = output_frame r" "rm_encrypted_transport r \<longrightarrow> rm_encrypted_transport r'" "members_ok r'"
  shows "room_ok C J store j i r'"
proof -
  have "output_frame (r'\<lparr>rm_next_output_sequence := q\<rparr>) = output_frame (r\<lparr>rm_next_output_sequence := q\<rparr>)" for q
    using assms(8) by (simp add: output_frame_def)
  then have "genuine C J store p r' f = genuine C J store p r f" for p f
    using assms(6) by (simp add: genuine_def)
  then show ?thesis using assms unfolding room_ok_def replay_ok_def replay_bounded_def status_ok_def by simp
qed

lemma members_ok_same:
  "rm_participants r' = rm_participants r \<Longrightarrow> rm_control_lease r' = rm_control_lease r \<Longrightarrow> rm_lease_generation r' = rm_lease_generation r
    \<Longrightarrow> rm_host_device_id r' = rm_host_device_id r \<Longrightarrow> members_ok r' = members_ok r"
  by (simp add: members_ok_def)

lemma members_ok_lease: "members_ok r \<Longrightarrow> members_ok (r\<lparr>rm_control_lease := None\<rparr>)"
  by (simp add: members_ok_def)

lemma room_ok_no_lease: "room_ok C J store j i r \<Longrightarrow> room_ok C J store j i (r\<lparr>rm_control_lease := None\<rparr>)"
  by (rule room_ok_frame, assumption) (simp_all add: output_frame_def members_ok_lease room_ok_def)

lemma room_ok_expire [simp]: "room_ok C J store j i r \<Longrightarrow> room_ok C J store j i (expire_lease t r)"
  by (auto simp: expire_lease_def room_ok_no_lease split: option.split)

lemma room_ok_lease:
  assumes "room_ok C J store j i r" "le_device_id l \<in> fst ` set (rm_participants r)" "le_generation l = g" "rm_lease_generation r \<le> g"
  shows "room_ok C J store j i (r\<lparr>rm_lease_generation := g, rm_control_lease := Some (l, t)\<rparr>)"
  by (rule room_ok_frame [OF assms(1)]) (use assms in \<open>auto simp: output_frame_def room_ok_def members_ok_def\<close>)

lemma room_ok_update_participant:
  assumes "room_ok C J store j i r" "pt_device_id p = k" "k \<notin> fst ` set (rm_participants r) \<longrightarrow> length (rm_participants r) < MAX_PARTICIPANTS"
  shows "room_ok C J store j i (r\<lparr>rm_participants := AList.update k p (rm_participants r)\<rparr>)"
proof (rule room_ok_frame [OF assms(1)])
  have m: "members_ok r" using assms(1) by (simp add: room_ok_def)
  show "members_ok (r\<lparr>rm_participants := AList.update k p (rm_participants r)\<rparr>)"
    using m assms(2,3) unfolding members_ok_def
    by (cases "rm_control_lease r") (auto simp: dom_update distinct_update length_update dest!: entries_update split: if_splits)
qed (simp_all add: output_frame_def)

lemma room_ok_admit:
  assumes "room_ok C J store j i r" "admit device member_id role t r = Inr r'"
  shows "room_ok C J store j i r'"
proof (cases "map_of (rm_participants r) device")
  case None
  then have "device \<notin> fst ` set (rm_participants r)" by (simp add: map_of_eq_None_iff)
  then show ?thesis using assms(2) None by (auto simp: admit_def intro!: room_ok_update_participant [OF assms(1)] split: if_splits)
next
  case (Some p)
  have key: "(device, p) \<in> set (rm_participants r)" using Some by (rule map_of_SomeD)
  have "\<forall>(i, p) \<in> set (rm_participants r). pt_device_id p = i" using assms(1) by (simp add: room_ok_def members_ok_def)
  from bspec [OF this key] have "pt_device_id p = device" by simp
  moreover have "device \<in> fst ` set (rm_participants r)" using imageI [OF key, of fst] by simp
  ultimately show ?thesis using assms(2) Some by (auto simp: admit_def intro!: room_ok_update_participant [OF assms(1)] split: if_splits)
qed

lemma room_ok_remove:
  assumes "room_ok C J store j i r" "device \<noteq> rm_host_device_id r"
  shows "room_ok C J store j i (r\<lparr>rm_participants := AList.delete device (rm_participants r),
     rm_control_lease := (case rm_control_lease r of Some (l, _) \<Rightarrow> if le_device_id l = device then None else rm_control_lease r | None \<Rightarrow> None)\<rparr>)"
proof (rule room_ok_frame [OF assms(1)])
  have m: "members_ok r" using assms(1) by (simp add: room_ok_def)
  let ?ps = "AList.delete device (rm_participants r)"
  have "length ?ps \<le> length (rm_participants r)" by (simp add: AList.delete_eq)
  moreover have keys: "i \<in> fst ` set ?ps \<longleftrightarrow> i \<in> fst ` set (rm_participants r) \<and> i \<noteq> device" for i
    by (force simp: entries_delete)
  moreover have "distinct (map fst ?ps)" using m by (simp add: members_ok_def distinct_delete)
  ultimately show "members_ok (r\<lparr>rm_participants := ?ps,
     rm_control_lease := (case rm_control_lease r of Some (l, _) \<Rightarrow> if le_device_id l = device then None else rm_control_lease r | None \<Rightarrow> None)\<rparr>)"
    using m assms(2) by (cases "rm_control_lease r") (simp_all add: members_ok_def entries_delete split_beta)
qed (simp_all add: output_frame_def)

lemma room_ok_encrypted: "room_ok C J store j i r \<Longrightarrow> room_ok C J store j i (r\<lparr>rm_encrypted_transport := True\<rparr>)"
  by (rule room_ok_frame, assumption) (simp_all add: output_frame_def room_ok_def members_ok_def)

lemma room_ok_closed:
  assumes "room_ok C J store j i r"
  shows "room_ok C J store j i (closed r)"
  using assms unfolding room_ok_def replay_ok_def replay_bounded_def members_ok_def status_ok_def closed_def by simp

section \<open>The replay window\<close>

text \<open>Pruning drops frames from the front until none is too old and the rest is within both limits.\<close>

lemma prune_suffix: "prune t fs b = (fs', b') \<Longrightarrow> \<exists>k. fs' = drop k fs"
proof (induction fs arbitrary: b)
  case (Cons f fs)
  have "\<exists>k. fs' = drop k (f # fs)" if "prune t fs (b - sf_bytes f) = (fs', b')"
    using Cons.IH [OF that] by (metis drop_Suc_Cons)
  then show ?case using Cons.prems by (auto split: if_splits intro: exI [of _ "0"])
qed simp

lemma prune_bytes: "prune t fs b = (fs', b') \<Longrightarrow> b = sum_list (map sf_bytes fs) \<Longrightarrow> b' = sum_list (map sf_bytes fs')"
  by (induction fs arbitrary: b) (auto split: if_splits)

lemma prune_bounds: "prune t fs b = (fs', b') \<Longrightarrow> b = sum_list (map sf_bytes fs) \<Longrightarrow> length fs' \<le> MAX_REPLAY_FRAMES \<and> b' \<le> MAX_REPLAY_BYTES"
  by (induction fs arbitrary: b) (auto split: if_splits)

lemma room_ok_prune:
  assumes "rm_id r = i" "replay_ok C J store (j i) r" "members_ok r" "status_ok r" "\<forall>q. j i q \<noteq> None \<longrightarrow> q < rm_next_output_sequence r"
  shows "room_ok C J store j i (prune_replay t r)"
proof -
  obtain fs b where p: "prune t (rm_replay r) (rm_replay_bytes r) = (fs, b)" by fastforce
  obtain k where fs: "fs = drop k (rm_replay r)" using prune_suffix [OF p] by blast
  have r: "prune_replay t r = r\<lparr>rm_replay := fs, rm_replay_bytes := b\<rparr>" by (simp add: prune_replay_def p)
  have bytes: "rm_replay_bytes r = sum_list (map sf_bytes (rm_replay r))" using assms(2) by (simp add: replay_ok_def)
  have g: "genuine C J store q (r\<lparr>rm_replay := xs, rm_replay_bytes := c\<rparr>) f = genuine C J store q r f" for q f xs c
    by (simp add: genuine_def output_frame_def)
  have "map (\<lambda>f. fr_sequence (sf_frame f)) fs = drop k (map (\<lambda>f. fr_sequence (sf_frame f)) (rm_replay r))"
    by (simp add: fs drop_map)
  also have "\<dots> = [rm_next_output_sequence r - length fs ..< rm_next_output_sequence r]"
    using assms(2) by (cases "k \<le> length (rm_replay r)") (auto simp: replay_ok_def fs)
  finally have seqs: "map (\<lambda>f. fr_sequence (sf_frame f)) fs = [rm_next_output_sequence r - length fs ..< rm_next_output_sequence r]" .
  have "replay_ok C J store (j i) (r\<lparr>rm_replay := fs, rm_replay_bytes := b\<rparr>)"
    using assms(2) seqs prune_bytes [OF p bytes] unfolding replay_ok_def
    by (auto simp: g fs dest: in_set_dropD)
  moreover have "replay_bounded (r\<lparr>rm_replay := fs, rm_replay_bytes := b\<rparr>)"
    using prune_bounds [OF p bytes] by (simp add: replay_bounded_def)
  moreover have "status_ok (r\<lparr>rm_replay := fs, rm_replay_bytes := b\<rparr>)" "members_ok (r\<lparr>rm_replay := fs, rm_replay_bytes := b\<rparr>)"
    using assms(3,4) by (auto simp: status_ok_def fs members_ok_same [of "r\<lparr>rm_replay := drop k (rm_replay r), rm_replay_bytes := b\<rparr>" r])
  ultimately show ?thesis using assms(1,5) by (simp add: r room_ok_def)
qed

lemma room_ok_pruned: "room_ok C J store j i r \<Longrightarrow> room_ok C J store j i (prune_replay t r)"
  by (rule room_ok_prune) (simp_all add: room_ok_def)

lemma encrypt_frame_sequence: "encrypt_frame C J E k f bytes = Inr g \<Longrightarrow> fr_sequence g = fr_sequence f"
  by (auto simp: encrypt_frame_def Let_def res_iff)

text \<open>Publishing appends the frame with the next number.\<close>

lemma room_ok_publish:
  assumes "room_ok C J store j i r" "drawn_ok store 12 E" "rm_status r = ''active''"
    "encrypt_frame C J E (rm_room_key r) (output_frame r) bytes = Inr f" "next_u64 (rm_next_output_sequence r) = Some n"
  shows "room_ok C J store (j(i := (j i)(fr_sequence f \<mapsto> bytes))) i (prune_replay t (r\<lparr>rm_next_output_sequence := n,
     rm_replay_bytes := rm_replay_bytes r + m, rm_replay := rm_replay r @ [\<lparr>sf_frame = f, sf_bytes = m, sf_created_at = t'\<rparr>],
     rm_encrypted_transport := True\<rparr>))"
proof (rule room_ok_prune)
  have seq: "fr_sequence f = rm_next_output_sequence r"
    using encrypt_frame_sequence [OF assms(4)] by (simp add: output_frame_def)
  have n: "n = rm_next_output_sequence r + 1" "n < 2 ^ 64" using assms(5) by (auto simp: next_u64_def split: if_splits)
  have ok: "replay_ok C J store (j i) r" using assms(1) by (simp add: room_ok_def)
  let ?r = "r\<lparr>rm_next_output_sequence := n, rm_replay_bytes := rm_replay_bytes r + m,
     rm_replay := rm_replay r @ [\<lparr>sf_frame = f, sf_bytes = m, sf_created_at = t'\<rparr>], rm_encrypted_transport := True\<rparr>"
  let ?j = "(j i)(fr_sequence f \<mapsto> bytes)"
  have out: "output_frame (?r\<lparr>rm_next_output_sequence := q\<rparr>) = output_frame (r\<lparr>rm_next_output_sequence := q\<rparr>)" for q
    by (simp add: output_frame_def)
  have old: "genuine C J store ?j ?r g" if "genuine C J store (j i) r g" "fr_sequence g < rm_next_output_sequence r" for g
    using that unfolding genuine_def out by (auto simp: seq)
  have below: "fr_sequence (sf_frame g) < rm_next_output_sequence r" if "g \<in> set (rm_replay r)" for g
  proof -
    have "fr_sequence (sf_frame g) \<in> set (map (\<lambda>f. fr_sequence (sf_frame f)) (rm_replay r))" using that by simp
    also have "map (\<lambda>f. fr_sequence (sf_frame f)) (rm_replay r) = [rm_next_output_sequence r - length (rm_replay r) ..< rm_next_output_sequence r]"
      using ok by (simp add: replay_ok_def)
    finally show ?thesis by simp
  qed
  have "output_frame (r\<lparr>rm_next_output_sequence := rm_next_output_sequence r\<rparr>) = output_frame r" by (simp add: output_frame_def)
  then have new: "genuine C J store ?j ?r f"
    unfolding genuine_def out using assms(2,4) seq by auto
  have seqs: "map (\<lambda>f. fr_sequence (sf_frame f)) (rm_replay ?r) = [n - length (rm_replay ?r) ..< n]"
    using ok n(1) seq by (simp add: replay_ok_def)
  show "replay_ok C J store ((j(i := ?j)) i) ?r"
    using ok n seqs new old below unfolding replay_ok_def by simp
  show "\<forall>q. (j(i := ?j)) i q \<noteq> None \<longrightarrow> q < rm_next_output_sequence ?r"
    using assms(1) n(1) seq by (auto simp: room_ok_def less_Suc_eq)
  show "members_ok ?r" "status_ok ?r" "rm_id ?r = i" using assms(1,3) by (simp_all add: room_ok_def members_ok_def status_ok_def)
qed

lemma room_ok_skip:
  assumes "room_ok C J store j i r" "rm_replay r = []" "next_u64 (rm_next_output_sequence r) = Some n"
  shows "room_ok C J store j i (r\<lparr>rm_next_output_sequence := n\<rparr>)"
  using assms unfolding room_ok_def replay_ok_def replay_bounded_def members_ok_def status_ok_def next_u64_def
  by (auto split: if_splits)

section \<open>Every operation keeps the invariant\<close>

lemma find_room_mem: "find_room i s = Inr r \<Longrightarrow> (i, r) \<in> set (co_rooms s)"
  by (auto simp: find_room_def res_iff dest: map_of_SomeD)

lemma rooms_ok_room: "rooms_ok C J store (s, j) \<Longrightarrow> find_room i s = Inr r \<Longrightarrow> room_ok C J store j i r"
  by (auto simp: rooms_ok_def dest!: find_room_mem)

lemma rooms_ok_put:
  assumes "rooms_ok C J store (s, j)" "i \<in> fst ` set (co_rooms s)" "room_ok C J store j' i r" "\<And>k. k \<noteq> i \<Longrightarrow> j' k = j k"
  shows "rooms_ok C J store (put_room i r s, j')"
proof -
  have "room_ok C J store j' k q" if "(k, q) \<in> set (AList.update i r (co_rooms s))" for k q
  proof (cases "k = i")
    case True
    then show ?thesis using that assms(1,3) by (auto simp: rooms_ok_def dest: entries_update)
  next
    case False
    then have "(k, q) \<in> set (co_rooms s)" using that by (auto dest: entries_update)
    then have "room_ok C J store j k q" using assms(1) by (auto simp: rooms_ok_def)
    then show ?thesis using assms(4) [OF False] by (simp add: room_ok_def)
  qed
  then show ?thesis using assms(1,2) by (auto simp: rooms_ok_def put_room_def length_update distinct_update)
qed

lemma rooms_ok_put_room:
  "rooms_ok C J store (s, j) \<Longrightarrow> find_room i s = Inr r \<Longrightarrow> room_ok C J store j i r' \<Longrightarrow> rooms_ok C J store (put_room i r' s, j)"
  by (rule rooms_ok_put) (force dest: find_room_mem)+

lemma rooms_ok_shown:
  "rooms_ok C J store (s, j) \<Longrightarrow> find_room i s = Inr r \<Longrightarrow> room_ok C J store j i r' \<Longrightarrow> rooms_ok C J store (snd (shown t i r' s), j)"
  by (simp add: shown_def Let_def rooms_ok_put_room)

lemma rooms_ok_with_room:
  "rooms_ok C J store (s, j) \<Longrightarrow> (\<And>x. m = Inr x \<Longrightarrow> rooms_ok C J store (snd (f x s), j)) \<Longrightarrow> rooms_ok C J store (snd (with_room f m s), j)"
  by (auto simp: with_room_def split: sum.split)

lemma hosted_Inr: "hosted C d i s = Inr r \<longleftrightarrow> find_room i s = Inr r \<and> (\<exists>au. authorize C (rm_workspace_id r) ''shareManage'' d = Inr au \<and> validate_host r au = Inr ())"
  by (auto simp: hosted_def res_iff)

lemma find_put_room: "find_room i (put_room i r s) = Inr r"
  by (simp add: find_room_def put_room_def update_conv)

lemma rooms_ok_drop_closed:
  assumes "rooms_ok C J store (s, j)"
  shows "rooms_ok C J store (s\<lparr>co_rooms := filter (\<lambda>e. rm_status (snd e) = ''active'') (co_rooms s)\<rparr>, j)"
  using assms le_trans [OF length_filter_le] by (auto simp: rooms_ok_def distinct_map_filter)

lemma rooms_ok_new:
  "rooms_ok C J store (s, j) \<Longrightarrow> room_ok C J store j i r \<Longrightarrow> \<not> MAX_ROOMS \<le> length (co_rooms s) \<Longrightarrow> rooms_ok C J store (put_room i r s, j)"
  unfolding rooms_ok_def put_room_def by (auto simp: length_update distinct_update dest!: entries_update)

lemmas new_room_simps = room_ok_def replay_ok_def replay_bounded_def members_ok_def status_ok_def MAX_PARTICIPANTS_def

lemma keep_start: "rooms_ok C J store (s, j) \<Longrightarrow> j (dr_uuid E) = Map.empty \<Longrightarrow> rooms_ok C J store (snd (start C d E ws session s), j)"
  unfolding start_def
  by (rule rooms_ok_with_room, assumption)
    (auto simp: Let_def shown_def expire_lease_def new_room_simps intro!: rooms_ok_new rooms_ok_drop_closed)

lemma keep_join: "rooms_ok C J store (s, j) \<Longrightarrow> rooms_ok C J store (snd (join C d E i device s), j)"
  unfolding join_def
  by (rule rooms_ok_with_room, assumption) (auto simp: res_iff split_beta intro!: rooms_ok_shown dest: room_ok_admit rooms_ok_room)

lemma keep_invite:
  assumes "rooms_ok C J store (s, j)"
  shows "rooms_ok C J store (snd (create_invitation C J d E i device s), j)"
  unfolding create_invitation_def
  by (rule rooms_ok_with_room [OF assms])
    (auto simp: res_iff split_beta Let_def room_ok_pruned room_ok_encrypted
      intro!: rooms_ok_put_room [OF assms] dest: room_ok_admit [OF rooms_ok_room [OF assms]] split: sum.split)

lemma keep_publish:
  assumes "rooms_ok C J store (s, j)" "drawn_ok store 12 E" "\<forall>f. jcs_frame J f \<noteq> None" "publish_encrypted_output C J d E i bytes s = (res, s')"
  shows "rooms_ok C J store (s', note_published i bytes res j)"
proof (cases res)
  case (Inl e)
  have some: "jcs_frame J f \<noteq> None" for f using assms(3) by simp
  have "s' = s" using assms(4) Inl
    by (auto simp: some publish_encrypted_output_def with_room_def Let_def split: sum.splits option.splits)
  then show ?thesis using assms(1) Inl by (simp add: note_published_def)
next
  case (Inr f)
  then obtain r n out where r: "find_room i s = Inr r" "rm_status r = ''active''"
    "encrypt_frame C J E (rm_room_key r) (output_frame r) bytes = Inr f" "next_u64 (rm_next_output_sequence r) = Some n"
    "jcs_frame J f = Some out"
    "s' = put_room i (prune_replay (dr_instant E) (r\<lparr>rm_next_output_sequence := n, rm_replay_bytes := rm_replay_bytes r + length out,
       rm_replay := rm_replay r @ [\<lparr>sf_frame = f, sf_bytes = length out, sf_created_at = dr_instant E\<rparr>], rm_encrypted_transport := True\<rparr>)) s"
    using assms(4) by (auto simp: publish_encrypted_output_def with_room_def Let_def res_iff hosted_Inr room_active_def split: sum.splits option.splits)
  have "room_ok C J store (note_published i bytes res j) i (prune_replay (dr_instant E) (r\<lparr>rm_next_output_sequence := n,
      rm_replay_bytes := rm_replay_bytes r + length out,
      rm_replay := rm_replay r @ [\<lparr>sf_frame = f, sf_bytes = length out, sf_created_at = dr_instant E\<rparr>], rm_encrypted_transport := True\<rparr>))"
    using room_ok_publish [OF rooms_ok_room [OF assms(1) r(1)] assms(2) r(2-4)] by (simp add: note_published_def Inr)
  from rooms_ok_put [OF assms(1) key_mem [OF find_room_mem [OF r(1)]] this] show ?thesis
    by (simp add: r(6) note_published_def Inr)
qed

lemma room_ok_no_replay: "room_ok C J store j i r \<Longrightarrow> \<not> rm_encrypted_transport r \<Longrightarrow> rm_replay r = []"
  by (auto simp: room_ok_def replay_ok_def)

lemma keep_publish_plain: "rooms_ok C J store (s, j) \<Longrightarrow> rooms_ok C J store (snd (publish_output C d i bytes s), j)"
  unfolding publish_output_def
  by (rule rooms_ok_with_room, assumption)
    (auto simp: res_iff hosted_Inr intro!: rooms_ok_put_room room_ok_skip dest: rooms_ok_room room_ok_no_replay [OF rooms_ok_room])

lemma keep_replay: "rooms_ok C J store (s, j) \<Longrightarrow> rooms_ok C J store (snd (replay_output C d E i device after s), j)"
  unfolding replay_output_def
  by (rule rooms_ok_with_room, assumption)
    (auto simp: res_iff Let_def intro!: rooms_ok_put_room room_ok_pruned dest: rooms_ok_room split: list.split)

lemma keep_grant: "rooms_ok C J store (s, j) \<Longrightarrow> rooms_ok C J store (snd (grant_control C d E i device duration s), j)"
  unfolding grant_control_def
  by (rule rooms_ok_with_room, assumption)
    (auto simp: res_iff next_u64_def intro!: rooms_ok_shown room_ok_lease key_mem dest: rooms_ok_room split: if_splits)

lemma keep_lease: "rooms_ok C J store (s, j) \<Longrightarrow> rooms_ok C J store (snd (apply_control_lease C d E i l s), j)"
  unfolding apply_control_lease_def
  by (rule rooms_ok_with_room, assumption)
    (auto simp: res_iff intro!: rooms_ok_shown room_ok_lease key_mem dest: rooms_ok_room map_of_SomeD)

lemma keep_remove: "rooms_ok C J store (s, j) \<Longrightarrow> rooms_ok C J store (snd (remove_participant C d E i device s), j)"
  unfolding remove_participant_def
  by (rule rooms_ok_with_room, assumption)
    (auto simp: res_iff hosted_Inr intro!: rooms_ok_shown room_ok_remove dest: rooms_ok_room)

lemma keep_revoke: "rooms_ok C J store (s, j) \<Longrightarrow> rooms_ok C J store (snd (revoke_control C d E i s), j)"
  unfolding revoke_control_def
  by (rule rooms_ok_with_room, assumption) (auto simp: hosted_Inr intro!: rooms_ok_shown room_ok_no_lease dest: rooms_ok_room)

lemma keep_status: "rooms_ok C J store (s, j) \<Longrightarrow> rooms_ok C J store (snd (status E i s), j)"
  unfolding status_def by (rule rooms_ok_with_room, assumption) (auto intro!: rooms_ok_shown dest: rooms_ok_room)

lemma keep_close: "rooms_ok C J store (s, j) \<Longrightarrow> rooms_ok C J store (snd (close C d E i s), j)"
  unfolding close_def
  by (rule rooms_ok_with_room, assumption) (auto simp: hosted_Inr intro!: rooms_ok_shown room_ok_closed dest: rooms_ok_room)

lemma keep_close_all: "rooms_ok C J store (s, j) \<Longrightarrow> rooms_ok C J store (close_all s, j)"
  by (force simp: rooms_ok_def close_all_def o_def split_beta intro: room_ok_closed)

lemma keep_close_terminal: "rooms_ok C J store (s, j) \<Longrightarrow> rooms_ok C J store (snd (close_terminal session s), j)"
  by (force simp: rooms_ok_def close_terminal_def Let_def o_def split_beta intro: room_ok_closed)

lemma keep_input: "rooms_ok C J store (s, j) \<Longrightarrow> rooms_ok C J store (snd (receive_input C d E i device lease_id sequence data s), j)"
  unfolding receive_input_def
proof (rule rooms_ok_with_room, assumption, goal_cases)
  case (1 x)
  obtain r member_id bytes where x: "x = (r, member_id, bytes)" by (cases x)
  have find: "find_room i s = Inr r" using 1(2) by (auto simp: x res_iff)
  let ?r = "expire_lease (dr_instant E) r"
  have ok: "room_ok C J store j i ?r" using rooms_ok_room [OF 1(1) find] by simp
  have upd: "room_ok C J store j i (?r\<lparr>rm_participants := AList.update k (p\<lparr>pt_next_input_sequence := n\<rparr>) (rm_participants ?r)\<rparr>)"
    if "map_of (rm_participants ?r) k = Some p" for k p n
  proof (rule room_ok_update_participant [OF ok])
    have mem: "(k, p) \<in> set (rm_participants ?r)" using that by (rule map_of_SomeD)
    have "\<forall>(i, p) \<in> set (rm_participants ?r). pt_device_id p = i" using ok by (simp add: room_ok_def members_ok_def)
    from bspec [OF this mem] show "pt_device_id (p\<lparr>pt_next_input_sequence := n\<rparr>) = k" by simp
    show "k \<notin> fst ` set (rm_participants ?r) \<longrightarrow> length (rm_participants ?r) < MAX_PARTICIPANTS"
      using imageI [OF mem, of fst] by simp
  qed
  show ?case unfolding x prod.case Let_def
    by (auto simp: res_iff intro!: rooms_ok_put_room [OF 1(1) find] ok upd split: sum.split)
qed

lemma keep_encrypted_input:
  assumes "rooms_ok C J store (s, j)"
  shows "rooms_ok C J store (snd (receive_encrypted_input C J d E E' f s), j)"
  unfolding receive_encrypted_input_def
  by (rule rooms_ok_with_room [OF assms])
    (auto simp: Let_def res_iff intro!: rooms_ok_with_room keep_input rooms_ok_put_room [OF assms] dest: rooms_ok_room [OF assms])

text \<open>The operations on the rooms of others leave the hosted rooms alone.\<close>

lemma rooms_ok_clients:
  "rooms_ok C J store (s, j) \<Longrightarrow> co_rooms s' = co_rooms s \<Longrightarrow> distinct (map fst (co_client_rooms s'))
    \<Longrightarrow> length (co_client_rooms s') \<le> MAX_ROOMS \<Longrightarrow> rooms_ok C J store (s', j)"
  by (simp add: rooms_ok_def)

lemma rooms_ok_put_client:
  "rooms_ok C J store (s, j) \<Longrightarrow> i \<in> fst ` set (co_client_rooms s) \<or> length (co_client_rooms s) < MAX_ROOMS
    \<Longrightarrow> rooms_ok C J store (put_client i c s, j)"
  unfolding rooms_ok_def put_client_def by (auto simp: distinct_update length_update)

lemma find_client_mem: "find_client i s = Inr c \<Longrightarrow> i \<in> fst ` set (co_client_rooms s)"
  by (force simp: find_client_def res_iff dest: map_of_SomeD)

lemma keep_accept: "rooms_ok C J store (s, j) \<Longrightarrow> rooms_ok C J store (snd (accept_invitation C J d E v s), j)"
  unfolding accept_invitation_def
  by (rule rooms_ok_with_room, assumption) (auto simp: Let_def intro!: rooms_ok_put_client split: prod.split)

lemma keep_receive_output: "rooms_ok C J store (s, j) \<Longrightarrow> rooms_ok C J store (snd (decrypt_output C J d f s), j)"
  unfolding decrypt_output_def
  by (rule rooms_ok_with_room, assumption) (auto simp: res_iff dest: find_client_mem intro!: rooms_ok_put_client)

lemma keep_send: "rooms_ok C J store (s, j) \<Longrightarrow> rooms_ok C J store (snd (encrypt_input C J d E i lease_id generation bytes s), j)"
  unfolding encrypt_input_def
  by (rule rooms_ok_with_room, assumption) (auto simp: res_iff dest: find_client_mem intro!: rooms_ok_put_client)

lemma keep_leave: "rooms_ok C J store (s, j) \<Longrightarrow> rooms_ok C J store (snd (close_client i s), j)"
  unfolding close_client_def
  by (rule rooms_ok_with_room, assumption)
    (auto simp: rooms_ok_def AList.delete_eq distinct_map_filter intro: le_trans [OF length_filter_le])

lemma step_keeps_rooms_ok:
  assumes "\<forall>f. jcs_frame J f \<noteq> None" "collab_step C J store sj sj'" "rooms_ok C J store sj"
  shows "rooms_ok C J store sj'"
  using assms(2,3)
  by cases (auto intro: keep_start keep_join keep_invite keep_publish [OF _ _ assms(1)] keep_publish_plain keep_replay keep_grant keep_lease
      keep_remove keep_revoke keep_status keep_close keep_close_all keep_close_terminal keep_input keep_encrypted_input keep_accept
      keep_receive_output keep_send keep_leave)

lemma reachable_rooms_ok:
  assumes "\<forall>f. jcs_frame J f \<noteq> None" "collab_reachable C J store sj"
  shows "rooms_ok C J store sj"
  using assms(2)
proof induction
  case empty
  show ?case by (simp add: rooms_ok_def no_collaboration_def)
next
  case (step sj sj')
  then show ?case using step_keeps_rooms_ok [OF assms(1)] by blast
qed

end
