(* ===== verification/CollabDelivery.thy ===== *)
theory CollabDelivery
  imports CollabRooms
begin

text \<open>
  What goes through a terminal room: the output of the host reaches a device that has joined, in
  order and once, also after it was away; input is only taken from the holder of the control lease.
\<close>

section \<open>Frames\<close>

text \<open>A frame that is small enough for the receiver.\<close>

definition fits :: "codec \<Rightarrow> frame \<Rightarrow> bool" where
  "fits J f \<longleftrightarrow> (case jcs_frame J f of None \<Rightarrow> False | Some t \<Rightarrow> length t \<le> MAX_ENVELOPE_BYTES)"

lemma encrypted_frame_fields:
  assumes "encrypt_frame C J E key f bytes = Inr g"
  shows "fr_schema_version g = fr_schema_version f" "fr_workspace_id g = fr_workspace_id f" "fr_room_id g = fr_room_id f"
    "fr_key_epoch g = fr_key_epoch f" "fr_sender_member_id g = fr_sender_member_id f" "fr_sender_device_id g = fr_sender_device_id f"
    "fr_direction g = fr_direction f" "fr_kind g = fr_kind f" "fr_sequence g = fr_sequence f" "fr_lease_id g = fr_lease_id f"
    "fr_lease_generation g = fr_lease_generation f"
  using assms by (auto simp: encrypt_frame_def Let_def res_iff)

lemma decrypt_encrypt_frame:
  assumes C: "crypto_laws C" and n: "length (dr_random E 0) = 12" and f: "encrypt_frame C J E key f bytes = Inr g" "fits J g"
  shows "decrypt_frame C J key g = Inr bytes"
proof -
  let ?f = "f\<lparr>fr_nonce := b64_encode C (dr_random E 0), fr_ciphertext := [], fr_signature := None\<rparr>"
  obtain aad c payload secret where e: "bytes \<noteq> []" "length bytes \<le> MAX_FRAME_BYTES" "frame_aad J ?f = Inr aad"
    "seal C key (dr_random E 0) aad bytes = Some c"
    "g = ?f\<lparr>fr_ciphertext := b64_encode C c, fr_signature := Some (signature_text C secret payload)\<rparr>"
    using f(1) by (auto simp: encrypt_frame_def Let_def res_iff)
  obtain t where t: "jcs_frame J g = Some t" "length t \<le> MAX_ENVELOPE_BYTES"
    using f(2) by (auto simp: fits_def split: option.splits)
  have aad: "frame_aad J g = Inr aad" using e(3) by (simp add: frame_aad_def e(5))
  have c: "b64_decode C (fr_ciphertext g) = Some c" and nonce: "decode_nonce C (fr_nonce g) = Inr (dr_random E 0)"
    using C n by (simp_all add: e(5) crypto_lawsD decode_encode_nonce)
  have "16 < length c" "length c \<le> MAX_FRAME_BYTES + 16" using e(1,2) crypto_lawsD(6) [OF C e(4)] by auto
  then show ?thesis using t c nonce aad crypto_lawsD(5) [OF C e(4)]
    by (simp add: decrypt_frame_def guard_def ok_or_def)
qed

lemma verify_encrypted_frame:
  assumes "crypto_laws C" "encrypt_frame C J E key f bytes = Inr g" "owns_keys C x e sender"
    "load_private_key C (dr_store E) (fr_sender_device_id f) ''ed25519'' = Inr e"
  shows "verify_frame_signature C J g sender = Inr ()"
proof -
  let ?f = "f\<lparr>fr_nonce := b64_encode C (dr_random E 0), fr_ciphertext := [], fr_signature := None\<rparr>"
  obtain c payload where p: "frame_signing_payload J (?f\<lparr>fr_ciphertext := b64_encode C c\<rparr>) = Some payload"
    "g = ?f\<lparr>fr_ciphertext := b64_encode C c, fr_signature := Some (signature_text C e payload)\<rparr>"
    using assms(2,4) by (auto simp: encrypt_frame_def Let_def res_iff)
  then have "frame_signing_payload J g = Some payload" by (simp add: frame_signing_payload_def)
  then show ?thesis using verify_own_signature [OF assms(1,3)] by (simp add: verify_frame_signature_def p(2))
qed

section \<open>Output\<close>

text \<open>The room as a client has it after accepting an invitation.\<close>

definition paired :: "room \<Rightarrow> client_room \<Rightarrow> bool" where
  "paired r c \<longleftrightarrow> cl_workspace_id c = rm_workspace_id r \<and> cl_host_member_id c = rm_host_member_id r
     \<and> cl_host_device_id c = rm_host_device_id r \<and> cl_key_epoch c = rm_key_epoch r \<and> cl_room_key c = rm_room_key r
     \<and> cl_status c = ''active''"

text \<open>The tables of the client authorize it, and have the device of the host, with the key that the host signs with.\<close>

definition client_admitted :: "crypto \<Rightarrow> (string \<Rightarrow> string option) \<Rightarrow> team_db \<Rightarrow> client_room \<Rightarrow> bool" where
  "client_admitted C store d c \<longleftrightarrow> (\<exists>au host x e. authorize C (cl_workspace_id c) ''terminalView'' d = Inr au
     \<and> validate_client c au = Inr () \<and> active_device C (cl_workspace_id c) (cl_host_device_id c) (cl_host_member_id c) d = Inr host
     \<and> owns_keys C x e host \<and> load_private_key C store (cl_host_device_id c) ''ed25519'' = Inr e)"

definition received :: "crypto \<Rightarrow> string \<Rightarrow> u64 \<Rightarrow> string \<Rightarrow> plain_frame" where
  "received C i q bytes = \<lparr>pf_room_id = i, pf_sequence = q, pf_kind = ''output'', pf_data_base64 = b64_std_encode C bytes\<rparr>"

lemma room_of_output: "fr_room_id (output_frame r) = rm_id r" by (simp add: output_frame_def)

text \<open>A frame of the host with the number the client waits for is taken, and the number moves on.\<close>

lemma decrypt_output_genuine:
  assumes C: "crypto_laws C" and g: "genuine C J store published r f" "fits J f" "0 < fr_sequence f" "fr_sequence f + 1 < 2 ^ 64"
    and c: "find_client (rm_id r) s = Inr c" "paired r c" "client_admitted C store d c" "cl_next_output_sequence c = fr_sequence f"
  shows "\<exists>bytes. published (fr_sequence f) = Some bytes \<and> decrypt_output C J d f s
    = (Inr (received C (rm_id r) (fr_sequence f) bytes), put_client (rm_id r) (c\<lparr>cl_next_output_sequence := fr_sequence f + 1\<rparr>) s)"
proof -
  obtain E bytes where e: "drawn_ok store 12 E" "published (fr_sequence f) = Some bytes"
    "encrypt_frame C J E (rm_room_key r) (output_frame (r\<lparr>rm_next_output_sequence := fr_sequence f\<rparr>)) bytes = Inr f"
    using g(1) by (auto simp: genuine_def)
  obtain au host x k where a: "authorize C (cl_workspace_id c) ''terminalView'' d = Inr au" "validate_client c au = Inr ()"
    "active_device C (cl_workspace_id c) (cl_host_device_id c) (cl_host_member_id c) d = Inr host"
    "owns_keys C x k host" "load_private_key C store (cl_host_device_id c) ''ed25519'' = Inr k"
    using c(3) by (auto simp: client_admitted_def)
  have f: "fr_room_id f = rm_id r" "output_metadata_ok c f"
    using c(2) g(3) encrypted_frame_fields [OF e(3)] by (simp_all add: output_metadata_ok_def paired_def output_frame_def)
  have plain: "decrypt_frame C J (cl_room_key c) f = Inr bytes"
    using decrypt_encrypt_frame [OF C _ e(3) g(2)] e(1) c(2) by (simp add: drawn_ok_def paired_def)
  have sig: "verify_frame_signature C J f host = Inr ()"
    using verify_encrypted_frame [OF C e(3) a(4)] a(5) e(1) c(2) by (simp add: drawn_ok_def output_frame_def paired_def)
  have "cl_status c = ''active''" using c(2) by (simp add: paired_def)
  then show ?thesis using e(2) c(1,4) a(1-3) f plain sig g(4)
    by (simp add: decrypt_output_def with_room_def next_u64_def received_def guard_def ok_or_def)
qed

text \<open>The frames one after the other.\<close>

fun receive_all :: "crypto \<Rightarrow> codec \<Rightarrow> team_db \<Rightarrow> frame list \<Rightarrow> collaboration \<Rightarrow> plain_frame list step" where
  "receive_all C J d [] = sreturn []"
| "receive_all C J d (f # fs) = sbind (decrypt_output C J d f) (\<lambda>p. sbind (receive_all C J d fs) (\<lambda>ps. sreturn (p # ps)))"

lemma find_put_client: "find_client i (put_client i c s) = Inr c"
  by (simp add: find_client_def put_client_def update_conv)

lemma client_next [simp]:
  "paired r (c\<lparr>cl_next_output_sequence := q\<rparr>) = paired r c"
  "client_admitted C store d (c\<lparr>cl_next_output_sequence := q\<rparr>) = client_admitted C store d c"
  by (simp_all add: paired_def client_admitted_def validate_client_def)

lemma receive_window:
  assumes "crypto_laws C" "n < 2 ^ 64" "paired r c" "client_admitted C store d c"
  shows "\<forall>f \<in> set fs. genuine C J store published r f \<and> fits J f \<Longrightarrow> map fr_sequence fs = [q..<n] \<Longrightarrow> 0 < q \<Longrightarrow> q \<le> n
    \<Longrightarrow> find_client (rm_id r) s = Inr (c\<lparr>cl_next_output_sequence := q\<rparr>)
    \<Longrightarrow> \<exists>texts s'. map published [q..<n] = map Some texts
         \<and> receive_all C J d fs s = (Inr (map2 (received C (rm_id r)) [q..<n] texts), s')
         \<and> find_client (rm_id r) s' = Inr (c\<lparr>cl_next_output_sequence := n\<rparr>)"
proof (induction fs arbitrary: q s)
  case Nil
  then have "q = n" by (metis le_antisym linorder_not_less list.map(1) upt_eq_Nil_conv)
  then show ?case using Nil by (simp add: sreturn_def)
next
  case (Cons f fs)
  from Cons.prems(2) have "q < n" by (cases "q < n") auto
  with Cons.prems(2) have seq: "fr_sequence f = q" "map fr_sequence fs = [q + 1..<n]" by (simp_all add: upt_conv_Cons)
  obtain bytes where b: "published q = Some bytes" "decrypt_output C J d f s
      = (Inr (received C (rm_id r) q bytes), put_client (rm_id r) (c\<lparr>cl_next_output_sequence := q + 1\<rparr>) s)"
    using decrypt_output_genuine [OF assms(1) _ _ _ _ Cons.prems(5), of J store published f] Cons.prems(1,3) assms \<open>q < n\<close> seq(1)
    by auto
  obtain texts s' where t: "map published [q + 1..<n] = map Some texts"
    "receive_all C J d fs (put_client (rm_id r) (c\<lparr>cl_next_output_sequence := q + 1\<rparr>) s)
      = (Inr (map2 (received C (rm_id r)) [q + 1..<n] texts), s')"
    "find_client (rm_id r) s' = Inr (c\<lparr>cl_next_output_sequence := n\<rparr>)"
    using Cons.IH [OF _ seq(2), of "put_client (rm_id r) (c\<lparr>cl_next_output_sequence := q + 1\<rparr>) s"] Cons.prems(1) \<open>q < n\<close>
    by (auto simp: find_put_client)
  have "map published [q..<n] = map Some (bytes # texts)"
    "receive_all C J d (f # fs) s = (Inr (map2 (received C (rm_id r)) [q..<n] (bytes # texts)), s')"
    using b t(1,2) \<open>q < n\<close> by (simp_all add: upt_conv_Cons sbind_def sreturn_def)
  then show ?case using t(3) by blast
qed

text \<open>The device may see the room, and has joined it.\<close>

definition may_view :: "crypto \<Rightarrow> team_db \<Rightarrow> string \<Rightarrow> room \<Rightarrow> bool" where
  "may_view C d device_id r \<longleftrightarrow> rm_status r = ''active''
     \<and> (\<exists>au member_id role p. authorize C (rm_workspace_id r) ''shareManage'' d = Inr au \<and> validate_host r au = Inr ()
          \<and> device_member_role C (rm_workspace_id r) device_id d = Inr (member_id, role) \<and> require_permission role ''terminalView'' = Inr ()
          \<and> map_of (rm_participants r) device_id = Some p \<and> pt_member_id p = member_id)"

text \<open>What the host still has is given out from the number asked for, without a gap.\<close>

lemma replay_output_window:
  assumes ok: "room_ok C J store j i r" and r: "find_room i s = Inr r" "may_view C d device r"
    and after: "replay_from_sequence (prune_replay (dr_instant E) r) \<le> after" "after < rm_next_output_sequence r"
  shows "\<exists>fs. fst (replay_output C d E i device after s) = Inr fs \<and> map fr_sequence fs = [after + 1..<rm_next_output_sequence r]
    \<and> set fs \<subseteq> sf_frame ` set (rm_replay (prune_replay (dr_instant E) r))"
proof -
  let ?r = "prune_replay (dr_instant E) r"
  have same: "rm_next_output_sequence ?r = rm_next_output_sequence r" by (simp add: prune_replay_def split: prod.split)
  have seqs: "map (\<lambda>f. fr_sequence (sf_frame f)) (rm_replay ?r) = [rm_next_output_sequence r - length (rm_replay ?r)..<rm_next_output_sequence r]"
    and len: "length (rm_replay ?r) < rm_next_output_sequence r" and small: "rm_next_output_sequence r < 2 ^ 64"
    using room_ok_pruned [OF ok, of "dr_instant E"] by (simp_all add: room_ok_def replay_ok_def same)
  have run: "fst (replay_output C d E i device after s) =
     (if rm_next_output_sequence r - 1 < after then Inl Validation
      else if after = rm_next_output_sequence r - 1 then Inr []
      else case rm_replay ?r of [] \<Rightarrow> Inl Unavailable
        | first # _ \<Rightarrow> if sat_add after 1 < fr_sequence (sf_frame first) then Inl Unavailable
            else Inr (filter (\<lambda>f. after < fr_sequence f) (map sf_frame (rm_replay ?r))))"
    using r by (auto simp: replay_output_def with_room_def may_view_def Let_def same guard_def split: list.split)
  show ?thesis
  proof (cases "after = rm_next_output_sequence r - 1")
    case True
    then show ?thesis using run after len by simp
  next
    case False
    then obtain first rest where fs: "rm_replay ?r = first # rest"
      using after by (cases "rm_replay ?r") (auto simp: replay_from_sequence_def same)
    have "fr_sequence (sf_frame first) = rm_next_output_sequence r - length (rm_replay ?r)"
      using seqs len by (simp add: fs upt_conv_Cons)
    moreover have "fr_sequence (sf_frame first) - 1 \<le> after" using after(1) by (simp add: replay_from_sequence_def fs)
    ultimately have low: "rm_next_output_sequence r - length (rm_replay ?r) \<le> after + 1" "fr_sequence (sf_frame first) \<le> after + 1" by auto
    let ?fs = "filter (\<lambda>f. after < fr_sequence f) (map sf_frame (rm_replay ?r))"
    have "fst (replay_output C d E i device after s) = Inr ?fs"
      using run False after(2) low(2) small by (auto simp: fs sat_add_def u64_max_def)
    moreover have "map fr_sequence ?fs = filter ((<) after) (map (\<lambda>f. fr_sequence (sf_frame f)) (rm_replay ?r))"
      by (simp add: filter_map o_def)
    moreover have "filter ((<) after) [a..<n] = [after + 1..<n]" if "a \<le> after + 1" for a n
      using that by (induction n) auto
    ultimately show ?thesis using low(1) seqs by (intro exI [of _ ?fs]) auto
  qed
qed

lemma replay_kept: "f \<in> set (rm_replay (prune_replay t r)) \<Longrightarrow> f \<in> set (rm_replay r)"
  by (auto simp: prune_replay_def dest: prune_suffix in_set_dropD split: prod.splits)

text \<open>Whatever is taken once is refused from then on.\<close>

lemma decrypt_output_Inr:
  assumes "decrypt_output C J d f s = (Inr p, s')"
  shows "\<exists>c. find_client (fr_room_id f) s = Inr c \<and> fr_sequence f = cl_next_output_sequence c
    \<and> find_client (fr_room_id f) s' = Inr (c\<lparr>cl_next_output_sequence := fr_sequence f + 1\<rparr>)"
  using assms
  by (auto simp: decrypt_output_def with_room_def res_iff next_u64_def find_put_client split: sum.splits if_splits)

lemma decrypt_output_stale:
  assumes "find_client (fr_room_id f) s = Inr c" "fr_sequence f \<noteq> cl_next_output_sequence c"
  shows "\<exists>e. decrypt_output C J d f s = (Inl e, s)"
  using assms by (auto simp: decrypt_output_def with_room_def res_iff split: sum.splits)

section \<open>Input\<close>

lemma expire_lease_Some:
  "rm_control_lease (expire_lease t r) = Some (l, e) \<longleftrightarrow> rm_control_lease r = Some (l, e) \<and> t < e"
  by (auto simp: expire_lease_def split: option.split)

lemma expire_lease_same [simp]:
  "rm_id (expire_lease t r) = rm_id r" "rm_status (expire_lease t r) = rm_status r" "rm_participants (expire_lease t r) = rm_participants r"
  "rm_key_epoch (expire_lease t r) = rm_key_epoch r" "rm_room_key (expire_lease t r) = rm_room_key r"
  "rm_workspace_id (expire_lease t r) = rm_workspace_id r" "rm_terminal_session_id (expire_lease t r) = rm_terminal_session_id r"
  "rm_host_member_id (expire_lease t r) = rm_host_member_id r" "rm_host_device_id (expire_lease t r) = rm_host_device_id r"
  "validate_host (expire_lease t r) au = validate_host r au"
  by (auto simp: expire_lease_def validate_host_def split: option.split)

text \<open>What a frame of input has to show.\<close>

definition input_allowed :: "crypto \<Rightarrow> codec \<Rightarrow> team_db \<Rightarrow> int \<Rightarrow> room \<Rightarrow> frame \<Rightarrow> bool" where
  "input_allowed C J d instant r f \<longleftrightarrow> rm_status r = ''active'' \<and> fr_key_epoch f = rm_key_epoch r
     \<and> (\<exists>l expires. rm_control_lease r = Some (l, expires) \<and> instant < expires \<and> fr_lease_id f = Some (le_id l)
          \<and> fr_lease_generation f = le_generation l \<and> le_device_id l = fr_sender_device_id f \<and> le_member_id l = fr_sender_member_id f)
     \<and> (\<exists>p. map_of (rm_participants r) (fr_sender_device_id f) = Some p \<and> pt_member_id p = fr_sender_member_id f
          \<and> pt_next_input_sequence p = fr_sequence f)
     \<and> (\<exists>role. device_member_role C (rm_workspace_id r) (fr_sender_device_id f) d = Inr (fr_sender_member_id f, role)
          \<and> require_permission role ''terminalControl'' = Inr ())
     \<and> (\<exists>sender. active_device C (rm_workspace_id r) (fr_sender_device_id f) (fr_sender_member_id f) d = Inr sender
          \<and> verify_frame_signature C J f sender = Inr ())"

lemma receive_input_Inr:
  assumes "receive_input C d E i device lease_id q data s = (Inr (session, bytes), s')"
  shows "\<exists>r p. find_room i s = Inr r \<and> session = rm_terminal_session_id r \<and> b64_std_decode C data = Some bytes
    \<and> pred_option (\<lambda>(l, t). dr_instant E < t) (rm_control_lease r) \<and> map_of (rm_participants r) device = Some p
    \<and> find_room i s' = Inr ((expire_lease (dr_instant E) r)\<lparr>rm_participants := AList.update device (p\<lparr>pt_next_input_sequence := q + 1\<rparr>) (rm_participants r)\<rparr>)"
  using assms
  by (auto simp: receive_input_def with_room_def Let_def res_iff next_u64_def find_put_room expire_lease_Some split: sum.splits if_splits)

lemma receive_encrypted_input_Inr:
  assumes "crypto_laws C" "receive_encrypted_input C J d E E' f s = (Inr (session, bytes), s')"
  shows "\<exists>r. find_room (fr_room_id f) s = Inr r \<and> input_allowed C J d (max (dr_instant E) (dr_instant E')) r f
    \<and> decrypt_frame C J (rm_room_key r) f = Inr bytes \<and> session = rm_terminal_session_id r
    \<and> (\<exists>r' p. find_room (fr_room_id f) s' = Inr r' \<and> map_of (rm_participants r') (fr_sender_device_id f) = Some p
          \<and> pt_next_input_sequence p = fr_sequence f + 1)"
proof -
  obtain r role sender plaintext where r: "find_room (fr_room_id f) s = Inr r" "input_metadata_ok C r f"
    "device_member_role C (rm_workspace_id r) (fr_sender_device_id f) d = Inr (fr_sender_member_id f, role)"
    "require_permission role ''terminalControl'' = Inr ()"
    "active_device C (rm_workspace_id r) (fr_sender_device_id f) (fr_sender_member_id f) d = Inr sender"
    "verify_frame_signature C J f sender = Inr ()" "input_authorized (expire_lease (dr_instant E) r) f"
    "decrypt_frame C J (rm_room_key r) f = Inr plaintext"
    and go: "receive_input C d E' (fr_room_id f) (fr_sender_device_id f) (case fr_lease_id f of None \<Rightarrow> [] | Some i \<Rightarrow> i) (fr_sequence f)
      (b64_std_encode C plaintext) (put_room (fr_room_id f) (expire_lease (dr_instant E) r) s) = (Inr (session, bytes), s')"
    using assms(2) by (auto simp: receive_encrypted_input_def with_room_def Let_def res_iff split: sum.splits)
  obtain p where p: "session = rm_terminal_session_id r" "bytes = plaintext"
    "pred_option (\<lambda>(l, t). dr_instant E' < t) (rm_control_lease (expire_lease (dr_instant E) r))"
    "find_room (fr_room_id f) s' = Inr ((expire_lease (dr_instant E') (expire_lease (dr_instant E) r))
       \<lparr>rm_participants := AList.update (fr_sender_device_id f) (p\<lparr>pt_next_input_sequence := fr_sequence f + 1\<rparr>) (rm_participants r)\<rparr>)"
    using receive_input_Inr [OF go] by (auto simp: find_put_room crypto_lawsD [OF assms(1)])
  have "input_allowed C J d (max (dr_instant E) (dr_instant E')) r f"
    using r(2-7) p(3) unfolding input_allowed_def input_authorized_def input_metadata_ok_def
    by (auto simp: expire_lease_Some split: option.splits)
  then show ?thesis using r(1,8) p(1,2,4) by (auto simp: update_conv)
qed

lemma receive_encrypted_input_stale:
  assumes "find_room (fr_room_id f) s = Inr r" "map_of (rm_participants r) (fr_sender_device_id f) = Some p"
    "pt_next_input_sequence p \<noteq> fr_sequence f"
  shows "\<exists>e. fst (receive_encrypted_input C J d E E' f s) = Inl e"
  using assms
  by (auto simp: receive_encrypted_input_def with_room_def Let_def res_iff input_authorized_def split: sum.splits option.splits)

end
