(* ===== verification/CollabInvite.thy ===== *)
theory CollabInvite
  imports CollabDelivery
begin

text \<open>
  The invitation that carries the key of a room to a device, and the way of an input frame from the
  device to the terminal of the host.
\<close>

section \<open>Invitations\<close>

lemma joined_rows_mem:
  "(v, m) \<in> set (joined_rows ws device d) \<Longrightarrow> td_id v = device \<and> td_workspace_id v = ws \<and> tm_id m = td_member_id v \<and> td_status v = ''active'' \<and> tm_status m = ''active''"
  by (auto simp: joined_rows_def)

lemma active_device_Inr:
  "active_device C ws device member d = Inr v \<Longrightarrow> td_id v = device \<and> td_workspace_id v = ws \<and> td_member_id v = member \<and> td_status v = ''active''"
  by (auto simp: active_device_def res_iff dest!: fetch_optional_Some_mem joined_rows_mem)

text \<open>What the tables of the guest have to say: it is authorized, its device is its own, and the device of the host is known.\<close>

record guest =
  gu_device :: string
  gu_member :: string
  gu_secret :: string
  gu_store :: "string \<Rightarrow> string option"
  gu_db :: team_db

definition guest_admitted :: "crypto \<Rightarrow> (string \<Rightarrow> string option) \<Rightarrow> guest \<Rightarrow> room \<Rightarrow> bool" where
  "guest_admitted C store g r \<longleftrightarrow> (\<exists>au v e host x k.
     authorize C (rm_workspace_id r) ''terminalView'' (gu_db g) = Inr au \<and> au_local_device_id au = Some (gu_device g)
   \<and> au_member_id au = gu_member g \<and> au_key_epoch au = rm_key_epoch r
   \<and> active_device C (rm_workspace_id r) (gu_device g) (gu_member g) (gu_db g) = Inr v \<and> owns_keys C (gu_secret g) e v
   \<and> load_private_key C (gu_store g) (gu_device g) ''x25519'' = Inr (gu_secret g)
   \<and> active_device C (rm_workspace_id r) (rm_host_device_id r) (rm_host_member_id r) (gu_db g) = Inr host \<and> owns_keys C x k host
   \<and> load_private_key C store (rm_host_device_id r) ''ed25519'' = Inr k)"

text \<open>The tables of the host have the device of the guest with the same key.\<close>

definition guest_known :: "crypto \<Rightarrow> team_db \<Rightarrow> guest \<Rightarrow> room \<Rightarrow> bool" where
  "guest_known C d g r \<longleftrightarrow> (\<exists>role v e. device_member_role C (rm_workspace_id r) (gu_device g) d = Inr (gu_member g, role)
     \<and> active_device C (rm_workspace_id r) (gu_device g) (gu_member g) d = Inr v \<and> owns_keys C (gu_secret g) e v)"

lemma create_invitation_Inr:
  assumes "crypto_laws C" "create_invitation C J d E i device s = (Inr v, s')" "find_room i s = Inr r" "guest_known C d g r" "gu_device g = device"
  shows "\<exists>r' wrapped key payload. let shared = x25519 C (dr_random E 0) (x25519_public C (gu_secret g)) in
     v = (invitation_of C E r' (gu_member g) device wrapped)\<lparr>in_signature := Some (signature_text C key payload)\<rparr>
   \<and> rm_id r' = rm_id r \<and> rm_workspace_id r' = rm_workspace_id r \<and> rm_host_member_id r' = rm_host_member_id r
   \<and> rm_host_device_id r' = rm_host_device_id r \<and> rm_key_epoch r' = rm_key_epoch r
   \<and> load_private_key C (dr_store E) (rm_host_device_id r) ''ed25519'' = Inr key
   \<and> invitation_signing_payload J (invitation_of C E r' (gu_member g) device wrapped) = Some payload
   \<and> contributory C shared
   \<and> wrap_room_key C shared (rm_workspace_id r) (rm_id r) (rm_key_epoch r) device (rm_room_key r) (dr_random E 1) = Inr wrapped"
proof -
  obtain role u e where g: "device_member_role C (rm_workspace_id r) device d = Inr (gu_member g, role)"
    "active_device C (rm_workspace_id r) device (gu_member g) d = Inr u" "owns_keys C (gu_secret g) e u"
    using assms(4,5) by (auto simp: guest_known_def)
  note keys = validated_own_keys [OF assms(1) g(3)]
  obtain au hd host r1 where h: "authorize C (rm_workspace_id r) ''shareManage'' d = Inr au" "au_local_device_id au = Some hd"
    "active_device C (rm_workspace_id r) hd (au_member_id au) d = Inr host" "validate_host r au = Inr ()"
    "admit device (gu_member g) role (to_rfc3339 C (dr_now E)) r = Inr r1"
    and go: "(let shared = x25519 C (dr_random E 0) (x25519_public C (gu_secret g)) in
        case rbind (guard (contributory C shared) Validation) (\<lambda>_.
             wrap_room_key C shared (rm_workspace_id r1) (rm_id r1) (rm_key_epoch r1) device (rm_room_key r1) (dr_random E 1)) of
          Inl e \<Rightarrow> (Inl e, put_room i r1 s)
        | Inr wrapped \<Rightarrow>
           (let r = prune_replay (dr_instant E) r1 in
            case sign_invitation C J E (td_id host) (invitation_of C E r (gu_member g) device wrapped) of
              Inl e \<Rightarrow> (Inl e, put_room i r s)
            | Inr v \<Rightarrow> (Inr v, put_room i (r\<lparr>rm_encrypted_transport := True\<rparr>) s))) = (Inr v, s')"
    using assms(2,3) by (auto simp: create_invitation_def with_room_def res_iff g keys split: sum.splits)
  have r1: "rm_id r1 = rm_id r" "rm_workspace_id r1 = rm_workspace_id r" "rm_host_member_id r1 = rm_host_member_id r"
    "rm_host_device_id r1 = rm_host_device_id r" "rm_key_epoch r1 = rm_key_epoch r" "rm_room_key r1 = rm_room_key r"
    using h(5) by (auto simp: admit_def split: option.splits if_splits)
  let ?r = "prune_replay (dr_instant E) r1"
  have r2: "rm_id ?r = rm_id r" "rm_workspace_id ?r = rm_workspace_id r" "rm_host_member_id ?r = rm_host_member_id r"
    "rm_host_device_id ?r = rm_host_device_id r" "rm_key_epoch ?r = rm_key_epoch r"
    using r1 by (auto simp: prune_replay_def split: prod.split)
  have host: "td_id host = rm_host_device_id r"
    using active_device_Inr [OF h(3)] h(2,4) by (auto simp: validate_host_def res_iff)
  show ?thesis
    using go r1 r2 host by (auto simp: Let_def res_iff sign_invitation_def split: sum.splits intro!: exI [of _ ?r])
qed

text \<open>The guest gets the key of the room out of the invitation, by the other end of the key exchange.\<close>

lemma open_own_invitation:
  assumes C: "crypto_laws C" and n: "length (dr_random E 1) = 12" "length (rm_room_key r) = 32"
    and w: "wrap_room_key C (x25519 C (dr_random E 0) (x25519_public C secret)) (rm_workspace_id r) (rm_id r) (rm_key_epoch r) device
      (rm_room_key r) (dr_random E 1) = Inr wrapped" "contributory C (x25519 C (dr_random E 0) (x25519_public C secret))"
    and v: "v = (invitation_of C E r' member device wrapped)\<lparr>in_signature := sig\<rparr>" "rm_id r' = rm_id r" "rm_workspace_id r' = rm_workspace_id r"
      "rm_key_epoch r' = rm_key_epoch r"
    and k: "load_private_key C (dr_store E') (td_id u) ''x25519'' = Inr secret"
  shows "open_invitation C E' u v = Inr (rm_room_key r)"
proof -
  have x: "x25519 C secret (x25519_public C (dr_random E 0)) = x25519 C (dr_random E 0) (x25519_public C secret)"
    by (rule crypto_lawsD(7) [OF C])
  obtain sealed where s: "seal C (derive_room_wrapping_key C (x25519 C (dr_random E 0) (x25519_public C secret)) (rm_workspace_id r) (rm_id r)
      (rm_key_epoch r) device) (dr_random E 1) (room_wrap_aad (rm_workspace_id r) (rm_id r) (rm_key_epoch r) device) (rm_room_key r) = Some sealed"
    "sealed = wrapped"
    using w(1) by (auto simp: wrap_room_key_def res_iff)
  have "length wrapped = 48" using crypto_lawsD(6) [OF C s(1)] n(2) s(2) by simp
  then show ?thesis
    using k w(2) v n crypto_lawsD(5) [OF C s(1)] s(2)
    by (simp add: open_invitation_def invitation_of_def decode_encode_key [OF C] crypto_lawsD(8) [OF C] x crypto_lawsD(1) [OF C]
        decode_encode_nonce [OF C] unwrap_room_key_def guard_def ok_or_def Let_def)
qed

lemma authorize_uuid: "authorize C ws perm d = Inr au \<Longrightarrow> uuid_ok C ws"
  by (auto simp: authorize_def local_row_def valid_uuid_def res_iff)

definition invitation_fits :: "codec \<Rightarrow> invitation \<Rightarrow> bool" where
  "invitation_fits J v \<longleftrightarrow> (case jcs_invitation J v of None \<Rightarrow> False | Some t \<Rightarrow> length t \<le> MAX_ENVELOPE_BYTES)"

lemma accept_own_invitation:
  assumes C: "crypto_laws C" and inv: "create_invitation C J d E i (gu_device g) s = (Inr v, s')" "find_room i s = Inr r" "guest_known C d g r"
    and n: "length (dr_random E 1) = 12" "length (rm_room_key r) = 32" and adm: "guest_admitted C (dr_store E) g r"
    and st: "dr_store E' = gu_store g"
    and t: "0 \<le> dr_now E" "dr_now E < 2 ^ 62" "dr_now E \<le> dr_now E' + secs 60" "dr_now E' < dr_now E + secs 300"
    and v: "invitation_fits J v" "uuid_ok C (rm_id r)" "1 \<le> rm_key_epoch r" "in_next_input_sequence v \<noteq> 0" "in_replay_from_sequence v + 1 < 2 ^ 64"
    and free: "rm_id r \<notin> fst ` set (co_client_rooms sg)" "length (co_client_rooms sg) < MAX_ROOMS"
  shows "\<exists>c. accept_invitation C J (gu_db g) E' v sg = (Inr c, put_client (rm_id r) c sg) \<and> paired r c
    \<and> cl_local_device_id c = gu_device g \<and> cl_local_member_id c = gu_member g
    \<and> cl_next_output_sequence c = in_replay_from_sequence v + 1 \<and> cl_next_input_sequence c = in_next_input_sequence v"
proof -
  obtain au u e host x k where a: "authorize C (rm_workspace_id r) ''terminalView'' (gu_db g) = Inr au" "au_local_device_id au = Some (gu_device g)"
    "au_member_id au = gu_member g" "au_key_epoch au = rm_key_epoch r"
    "active_device C (rm_workspace_id r) (gu_device g) (gu_member g) (gu_db g) = Inr u" "owns_keys C (gu_secret g) e u"
    "load_private_key C (gu_store g) (gu_device g) ''x25519'' = Inr (gu_secret g)"
    "active_device C (rm_workspace_id r) (rm_host_device_id r) (rm_host_member_id r) (gu_db g) = Inr host" "owns_keys C x k host"
    "load_private_key C (dr_store E) (rm_host_device_id r) ''ed25519'' = Inr k"
    using adm by (auto simp: guest_admitted_def)
  let ?shared = "x25519 C (dr_random E 0) (x25519_public C (gu_secret g))"
  obtain r' wrapped payload where i: "v = (invitation_of C E r' (gu_member g) (gu_device g) wrapped)\<lparr>in_signature := Some (signature_text C k payload)\<rparr>"
    "rm_id r' = rm_id r" "rm_workspace_id r' = rm_workspace_id r" "rm_host_member_id r' = rm_host_member_id r"
    "rm_host_device_id r' = rm_host_device_id r" "rm_key_epoch r' = rm_key_epoch r"
    "invitation_signing_payload J (invitation_of C E r' (gu_member g) (gu_device g) wrapped) = Some payload" "contributory C ?shared"
    "wrap_room_key C ?shared (rm_workspace_id r) (rm_id r) (rm_key_epoch r) (gu_device g) (rm_room_key r) (dr_random E 1) = Inr wrapped"
    using create_invitation_Inr [OF C inv refl] a(10) by (auto simp: Let_def)
  have id: "td_id u = gu_device g" using active_device_Inr [OF a(5)] by simp
  have key: "open_invitation C E' u v = Inr (rm_room_key r)"
    by (rule open_own_invitation [OF C n i(9,8,1,2,3,6)]) (simp add: id st a(7))
  have v_fields: "in_workspace_id v = rm_workspace_id r" "in_room_id v = rm_id r" "in_key_epoch v = rm_key_epoch r"
    "in_host_member_id v = rm_host_member_id r" "in_host_device_id v = rm_host_device_id r" "in_recipient_member_id v = gu_member g"
    "in_recipient_device_id v = gu_device g" "in_schema_version v = 1"
    "in_created_at v = to_rfc3339 C (dr_now E)" "in_expires_at v = to_rfc3339 C (dr_now E + INVITATION_TTL)"
    using i(2-6) by (simp_all add: i(1) invitation_of_def)
  have "invitation_signing_payload J v = Some payload" using i(7) by (simp add: i(1) invitation_signing_payload_def invitation_of_def)
  then have sig: "verify_invitation_signature C J v host = Inr ()"
    using verify_own_signature [OF C a(9)] by (simp add: verify_invitation_signature_def) (simp add: i(1))
  have shape: "invitation_shape_ok C J v = Inr ()"
    using v(1-4) authorize_uuid [OF a(1)] by (auto simp: invitation_shape_ok_def invitation_fits_def v_fields ok_or_def guard_def split: option.splits)
  have fresh: "invitation_fresh C (dr_now E') v = Inr ()"
    using t crypto_lawsD(4) [OF C, of "dr_now E"] crypto_lawsD(4) [OF C, of "dr_now E + INVITATION_TTL"]
    by (simp add: invitation_fresh_def v_fields ok_or_def guard_def INVITATION_TTL_def secs_def)
  show ?thesis
    using a(1-5,8) sig shape fresh key v(5) free
    by (simp add: accept_invitation_def with_room_def v_fields guard_def ok_or_def next_u64_def paired_def Let_def)
qed

section \<open>Input\<close>

text \<open>The host takes input of the client: it still hosts the room, and the client holds the lease, until after both checks.\<close>

definition takes_input :: "crypto \<Rightarrow> (string \<Rightarrow> string option) \<Rightarrow> team_db \<Rightarrow> int \<Rightarrow> room \<Rightarrow> client_room \<Rightarrow> string \<Rightarrow> u64 \<Rightarrow> bool" where
  "takes_input C store d instant r c lease_id generation \<longleftrightarrow> rm_status r = ''active''
   \<and> (\<exists>au. authorize C (rm_workspace_id r) ''shareManage'' d = Inr au \<and> validate_host r au = Inr ())
   \<and> (\<exists>l expires. rm_control_lease r = Some (l, expires) \<and> instant < expires \<and> le_id l = lease_id \<and> le_generation l = generation
        \<and> le_device_id l = cl_local_device_id c \<and> le_member_id l = cl_local_member_id c)
   \<and> (\<exists>p. map_of (rm_participants r) (cl_local_device_id c) = Some p \<and> pt_member_id p = cl_local_member_id c
        \<and> pt_next_input_sequence p = cl_next_input_sequence c \<and> cl_next_input_sequence c \<noteq> 0)
   \<and> (\<exists>role. device_member_role C (rm_workspace_id r) (cl_local_device_id c) d = Inr (cl_local_member_id c, role)
        \<and> require_permission role ''terminalControl'' = Inr ())
   \<and> (\<exists>sender x k. active_device C (rm_workspace_id r) (cl_local_device_id c) (cl_local_member_id c) d = Inr sender
        \<and> owns_keys C x k sender \<and> load_private_key C store (cl_local_device_id c) ''ed25519'' = Inr k)"

lemma receive_input_accepts:
  assumes C: "crypto_laws C" and b: "bytes \<noteq> []" "length bytes \<le> MAX_FRAME_BYTES" "utf8_valid (map of_char bytes)"
    and r: "find_room i s = Inr r" "takes_input C store d (dr_instant E) r c lease_id generation" and q: "cl_next_input_sequence c + 1 < 2 ^ 64"
  shows "fst (receive_input C d E i (cl_local_device_id c) lease_id (cl_next_input_sequence c) (b64_std_encode C bytes) s)
    = Inr (rm_terminal_session_id r, bytes)"
proof -
  have small: "length (b64_std_encode C bytes) \<le> 128 * 1024"
    using crypto_lawsD(3) [OF C, of bytes] b(2) by (simp add: MAX_FRAME_BYTES_def)
  obtain l t p au role where a: "rm_status r = ''active''" "authorize C (rm_workspace_id r) ''shareManage'' d = Inr au" "validate_host r au = Inr ()"
    "rm_control_lease r = Some (l, t)" "dr_instant E < t" "le_id l = lease_id" "le_device_id l = cl_local_device_id c"
    "le_member_id l = cl_local_member_id c" "map_of (rm_participants r) (cl_local_device_id c) = Some p"
    "pt_next_input_sequence p = cl_next_input_sequence c"
    "device_member_role C (rm_workspace_id r) (cl_local_device_id c) d = Inr (cl_local_member_id c, role)"
    "require_permission role ''terminalControl'' = Inr ()"
    using r(2) by (auto simp: takes_input_def)
  have e: "expire_lease (dr_instant E) r = r" using a(4,5) by (simp add: expire_lease_def)
  show ?thesis using a b r(1) q small
    by (simp add: receive_input_def with_room_def guard_def ok_or_def crypto_lawsD(2) [OF C] e Let_def room_active_def next_u64_def)
qed

lemma receive_own_input:
  assumes C: "crypto_laws C" and f: "encrypt_input C J dc Ec i lease_id generation bytes sc = (Inr f, sc')" "length (dr_random Ec 0) = 12" "fits J f"
    and c: "find_client i sc = Inr c" "paired r c"
    and r: "find_room i sh = Inr r" "takes_input C (dr_store Ec) d (max (dr_instant E) (dr_instant E')) r c lease_id generation"
  shows "fst (receive_encrypted_input C J d E E' f sh) = Inr (rm_terminal_session_id r, bytes)"
proof -
  let ?f = "\<lparr>fr_schema_version = 1, fr_workspace_id = cl_workspace_id c, fr_room_id = i, fr_key_epoch = cl_key_epoch c,
         fr_sender_member_id = cl_local_member_id c, fr_sender_device_id = cl_local_device_id c, fr_direction = ''input'',
         fr_kind = ''terminal'', fr_sequence = cl_next_input_sequence c, fr_lease_id = Some lease_id, fr_lease_generation = generation,
         fr_nonce = [], fr_ciphertext = [], fr_signature = None\<rparr>"
  have e: "uuid_ok C lease_id" "generation \<noteq> 0" "utf8_valid (map of_char bytes)" "encrypt_frame C J Ec (cl_room_key c) ?f bytes = Inr f"
    "cl_next_input_sequence c + 1 < 2 ^ 64"
    using f(1) c(1) by (auto simp: encrypt_input_def with_room_def res_iff next_u64_def split: sum.splits if_splits)
  note fields = encrypted_frame_fields [OF e(4), simplified]
  have b: "bytes \<noteq> []" "length bytes \<le> MAX_FRAME_BYTES" using e(4) by (auto simp: encrypt_frame_def res_iff)
  obtain l t p au role sender x k where a: "rm_status r = ''active''" "authorize C (rm_workspace_id r) ''shareManage'' d = Inr au" "validate_host r au = Inr ()"
    "rm_control_lease r = Some (l, t)" "max (dr_instant E) (dr_instant E') < t" "le_id l = lease_id" "le_generation l = generation"
    "le_device_id l = cl_local_device_id c" "le_member_id l = cl_local_member_id c"
    "map_of (rm_participants r) (cl_local_device_id c) = Some p" "pt_member_id p = cl_local_member_id c"
    "pt_next_input_sequence p = cl_next_input_sequence c" "cl_next_input_sequence c \<noteq> 0"
    "device_member_role C (rm_workspace_id r) (cl_local_device_id c) d = Inr (cl_local_member_id c, role)"
    "require_permission role ''terminalControl'' = Inr ()"
    "active_device C (rm_workspace_id r) (cl_local_device_id c) (cl_local_member_id c) d = Inr sender" "owns_keys C x k sender"
    "load_private_key C (dr_store Ec) (cl_local_device_id c) ''ed25519'' = Inr k"
    using r(2) unfolding takes_input_def by blast
  have ex: "expire_lease (dr_instant E) r = r" using a(4,5) by (simp add: expire_lease_def)
  have plain: "decrypt_frame C J (rm_room_key r) f = Inr bytes"
    using decrypt_encrypt_frame [OF C f(2) e(4) f(3)] c(2) by (simp add: paired_def)
  have sig: "verify_frame_signature C J f sender = Inr ()"
    using verify_encrypted_frame [OF C e(4) a(17)] a(18) by simp
  have meta: "input_metadata_ok C r f"
    using c(2) e(1,2) a(13) by (simp add: input_metadata_ok_def fields paired_def)
  have auth: "input_authorized r f"
    using c(2) a(1,4,6-12) by (simp add: input_authorized_def fields paired_def)
  have "takes_input C (dr_store Ec) d (dr_instant E') r c lease_id generation" using r(2) unfolding takes_input_def by fastforce
  from receive_input_accepts [OF C b e(3) find_put_room this e(5)] show ?thesis
    using a(2,3,14-16) e(3) r(1) plain sig meta auth
    by (simp add: receive_encrypted_input_def with_room_def fields guard_def ex Let_def)
qed

end
