(* ===== verification/CollabExample.thy ===== *)
theory CollabExample
  imports CollabInvite "HOL-Library.Code_Target_Nat" "HOL-Library.Code_Target_Int"
begin

text \<open>
  A room with one guest over the toy cryptography, as the operations bring it about: what the concrete
  examples of the properties start from.
\<close>

definition toy_codec :: codec where
  "toy_codec = \<lparr>jcs_frame = (\<lambda>f. Some (fr_nonce f @ fr_ciphertext f)), jcs_invitation = (\<lambda>v. Some (in_room_id v))\<rparr>"

definition toy_store :: "string \<Rightarrow> string option" where
  "toy_store = (\<lambda>_. Some (pad32 ''k''))"

definition toy_drawn :: "nat \<Rightarrow> string \<Rightarrow> int \<Rightarrow> drawn" where
  "toy_drawn n uuid t = \<lparr>dr_now = t, dr_instant = t, dr_uuid = uuid, dr_random = (\<lambda>i. replicate (if i = 0 then n else 12) (CHR ''n'')),
     dr_store = toy_store\<rparr>"

definition toy_member :: "string \<Rightarrow> string \<Rightarrow> team_member" where
  "toy_member i role = \<lparr>tm_id = i, tm_workspace_id = ''w'', tm_display_name = i, tm_role = role, tm_status = ''active'',
     tm_joined_at = [], tm_updated_at = [], tm_removed_at = None\<rparr>"

definition toy_device :: "string \<Rightarrow> string \<Rightarrow> bool \<Rightarrow> team_device" where
  "toy_device i member local = \<lparr>td_id = i, td_workspace_id = ''w'', td_member_id = member, td_name = i,
     td_encryption_public_key = encode_key toy_crypto ''x25519'' (x25519_public toy_crypto (pad32 ''k'')),
     td_signing_public_key = encode_key toy_crypto ''ed25519'' (ed_public toy_crypto (pad32 ''k'')),
     td_fingerprint = device_fingerprint toy_crypto (x25519_public toy_crypto (pad32 ''k'')) (ed_public toy_crypto (pad32 ''k'')),
     td_is_local = local, td_status = ''active'', td_created_at = [], td_updated_at = [], td_revoked_at = None\<rparr>"

text \<open>The tables of the host \<open>o\<close> on device \<open>h\<close>, and of the operator \<open>p\<close> on device \<open>g\<close>.\<close>

definition toy_tables :: "string \<Rightarrow> string \<Rightarrow> team_db" where
  "toy_tables member device = \<lparr>db_workspaces = [\<lparr>tw_id = ''w'', tw_name = ''w'', tw_local_member_id = member, tw_key_epoch = 1,
     tw_created_at = [], tw_updated_at = [], tw_local_device_id = Some device\<rparr>],
     db_members = [toy_member ''o'' ''owner'', toy_member ''p'' ''operator''],
     db_devices = [toy_device ''h'' ''o'' (device = ''h''), toy_device ''g'' ''p'' (device = ''g'')], db_events = []\<rparr>"

abbreviation "toy_host \<equiv> toy_tables ''o'' ''h''"
abbreviation "toy_guest \<equiv> toy_tables ''p'' ''g''"

text \<open>The room of the host once \<open>g\<close> is invited: what is published, the lease and the counter of \<open>g\<close> vary.\<close>

definition toy_guest_participant :: "u64 \<Rightarrow> participant" where
  "toy_guest_participant q = \<lparr>pt_member_id = ''p'', pt_device_id = ''g'', pt_role = ''operator'', pt_joined_at = ''2'', pt_next_input_sequence = q\<rparr>"

definition toy_room :: "stored_frame list \<Rightarrow> (lease \<times> int) option \<Rightarrow> u64 \<Rightarrow> (string \<times> participant) list \<Rightarrow> room" where
  "toy_room fs l g ps = \<lparr>rm_id = ''i'', rm_workspace_id = ''w'', rm_terminal_session_id = ''s'', rm_host_member_id = ''o'',
     rm_host_device_id = ''h'', rm_key_epoch = 1, rm_status = ''active'',
     rm_participants = (''h'', \<lparr>pt_member_id = ''o'', pt_device_id = ''h'', pt_role = ''owner'', pt_joined_at = ''1'',
       pt_next_input_sequence = 1\<rparr>) # ps, rm_control_lease = l, rm_next_output_sequence = length fs + 1, rm_lease_generation = g,
     rm_room_key = replicate 32 (CHR ''n''), rm_replay = fs, rm_replay_bytes = sum_list (map sf_bytes fs),
     rm_encrypted_transport = (ps \<noteq> []), rm_created_at = ''1''\<rparr>"

definition toy_state :: "room \<Rightarrow> collaboration" where
  "toy_state r = \<lparr>co_rooms = [(''i'', r)], co_client_rooms = []\<rparr>"

abbreviation "toy_guests q \<equiv> [(''g'', toy_guest_participant q)]"

definition toy_frame :: frame where
  "toy_frame = \<lparr>fr_schema_version = 1, fr_workspace_id = ''w'', fr_room_id = ''i'', fr_key_epoch = 1, fr_sender_member_id = ''o'',
     fr_sender_device_id = ''h'', fr_direction = ''output'', fr_kind = ''terminal'', fr_sequence = 1, fr_lease_id = None,
     fr_lease_generation = 0, fr_nonce = ''nnnnnnnnnnnn'', fr_ciphertext = ''hellotttttttttttttttt'',
     fr_signature = Some ''ed25519:k0000000000000000000000000000000''\<rparr>"

abbreviation "toy_stored \<equiv> [\<lparr>sf_frame = toy_frame, sf_bytes = 33, sf_created_at = 3\<rparr>]"

lemma toy_start: "snd (start toy_crypto toy_host (toy_drawn 32 ''i'' 1) ''w'' ''s'' no_collaboration) = toy_state (toy_room [] None 0 [])"
  by code_simp


definition toy_invitation :: invitation where
  "toy_invitation = \<lparr>in_schema_version = 1, in_room_id = ''i'', in_workspace_id = ''w'', in_key_epoch = 1, in_host_member_id = ''o'',
     in_host_device_id = ''h'', in_recipient_member_id = ''p'', in_recipient_device_id = ''g'',
     in_ephemeral_public_key = ''x25519:'' @ replicate 32 (CHR ''n''), in_key_nonce = ''nnnnnnnnnnnn'',
     in_wrapped_room_key = replicate 32 (CHR ''n'') @ replicate 16 (CHR ''t''),
     in_replay_from_sequence = 0, in_next_input_sequence = 1, in_created_at = ''2'', in_expires_at = ''300000000002'',
     in_signature = Some ''ed25519:k0000000000000000000000000000000''\<rparr>"

lemma toy_invite: "create_invitation toy_crypto toy_codec toy_host (toy_drawn 32 [] 2) ''i'' ''g'' (toy_state (toy_room [] None 0 []))
    = (Inr toy_invitation, toy_state (toy_room [] None 0 (toy_guests 1)))"
  by code_simp

lemma toy_publish: "publish_encrypted_output toy_crypto toy_codec toy_host (toy_drawn 12 [] 3) ''i'' ''hello'' (toy_state (toy_room [] None 0 (toy_guests 1)))
    = (Inr toy_frame, toy_state (toy_room toy_stored None 0 (toy_guests 1)))"
  by code_simp

definition toy_journal :: journal where
  "toy_journal = note_published ''i'' ''hello'' (Inr toy_frame) (\<lambda>_. Map.empty)"

lemma toy_drawn_ok: "drawn_ok toy_store n (toy_drawn n u t)" "dr_store (toy_drawn n u t) = toy_store"
  by (simp_all add: drawn_ok_def toy_drawn_def)

lemma toy_reachable: "collab_reachable toy_crypto toy_codec toy_store (toy_state (toy_room toy_stored None 0 (toy_guests 1)), toy_journal)"
proof -
  have "collab_reachable toy_crypto toy_codec toy_store (toy_state (toy_room [] None 0 []), \<lambda>_. Map.empty)"
    unfolding toy_start [symmetric] by (rule collab_reachable.step [OF collab_reachable.empty collab_step.start [OF toy_drawn_ok(1)]]) simp
  from collab_reachable.step [OF this collab_step.invite [OF toy_drawn_ok(1)], of toy_host "[]" 2 "''i''" "''g''"]
  have "collab_reachable toy_crypto toy_codec toy_store (toy_state (toy_room [] None 0 (toy_guests 1)), \<lambda>_. Map.empty)"
    by (simp add: toy_invite)
  then show ?thesis
    unfolding toy_journal_def by (rule collab_reachable.step [OF _ collab_step.publish [OF toy_drawn_ok(1) toy_publish]])
qed

lemma toy_codec_total: "\<forall>f. jcs_frame toy_codec f \<noteq> None"
  by (simp add: toy_codec_def)

lemma toy_find_room: "find_room ''i'' (toy_state r) = Inr r"
  by (simp add: toy_state_def find_room_def ok_or_def)

text \<open>The room as the guest has it, and what both sides know of each other.\<close>

definition toy_client :: "u64 \<Rightarrow> u64 \<Rightarrow> client_room" where
  "toy_client q p = \<lparr>cl_workspace_id = ''w'', cl_host_member_id = ''o'', cl_host_device_id = ''h'', cl_local_member_id = ''p'',
     cl_local_device_id = ''g'', cl_key_epoch = 1, cl_room_key = replicate 32 (CHR ''n''), cl_next_output_sequence = q,
     cl_next_input_sequence = p, cl_status = ''active''\<rparr>"

definition toy_joined :: "u64 \<Rightarrow> u64 \<Rightarrow> collaboration" where
  "toy_joined q p = \<lparr>co_rooms = [], co_client_rooms = [(''i'', toy_client q p)]\<rparr>"

lemma toy_find_client: "find_client ''i'' (toy_joined q p) = Inr (toy_client q p)"
  by (simp add: toy_joined_def find_client_def ok_or_def)

lemma toy_paired: "paired (toy_room fs l g ps) (toy_client q p)"
  by (simp add: paired_def toy_room_def toy_client_def)

lemma toy_owns_keys: "owns_keys toy_crypto (pad32 ''k'') (pad32 ''k'') (toy_device i m l)"
  by (simp add: owns_keys_def toy_device_def)

lemma toy_tables_know:
  "active_device toy_crypto ''w'' ''h'' ''o'' toy_guest = Inr (toy_device ''h'' ''o'' False)"
  "active_device toy_crypto ''w'' ''g'' ''p'' toy_guest = Inr (toy_device ''g'' ''p'' True)"
  "active_device toy_crypto ''w'' ''g'' ''p'' toy_host = Inr (toy_device ''g'' ''p'' False)"
  "authorize toy_crypto ''w'' ''terminalView'' toy_guest = Inr \<lparr>au_member_id = ''p'', au_role = ''operator'', au_key_epoch = 1, au_local_device_id = Some ''g''\<rparr>"
  "authorize toy_crypto ''w'' ''shareManage'' toy_host = Inr \<lparr>au_member_id = ''o'', au_role = ''owner'', au_key_epoch = 1, au_local_device_id = Some ''h''\<rparr>"
  "device_member_role toy_crypto ''w'' ''g'' toy_host = Inr (''p'', ''operator'')"
  "require_permission ''operator'' ''terminalView'' = Inr ()" "require_permission ''operator'' ''terminalControl'' = Inr ()"
  by code_simp+

lemma toy_keys: "load_private_key toy_crypto toy_store i kind = Inr (pad32 ''k'')"
  by (simp add: load_private_key_def toy_store_def toy_crypto_def ok_or_def guard_def pad32_def)

lemma toy_client_admitted: "client_admitted toy_crypto toy_store toy_guest (toy_client q p)"
  unfolding client_admitted_def
  by (intro exI [of _ "toy_device ''h'' ''o'' False"] exI [of _ "pad32 ''k''"] exI conjI)
    (auto simp: toy_client_def toy_tables_know toy_owns_keys toy_keys validate_client_def guard_def)

lemma toy_may_view: "may_view toy_crypto toy_host ''g'' (toy_room fs l g (toy_guests q))"
  by (simp add: may_view_def toy_room_def toy_tables_know validate_host_def guard_def toy_guest_participant_def)

lemma toy_frame_fits: "fits toy_codec toy_frame"
  by (simp add: fits_def toy_codec_def toy_frame_def MAX_ENVELOPE_BYTES_def)

definition toy_guest_side :: guest where
  "toy_guest_side = \<lparr>gu_device = ''g'', gu_member = ''p'', gu_secret = pad32 ''k'', gu_store = toy_store, gu_db = toy_guest\<rparr>"

end
