(* ===== verification/CollabProperties.thy ===== *)
theory CollabProperties
  imports CollabExample
begin

text \<open>
  The properties of terminal rooms: the rooms of a host stay sound, a device gets the key from its
  invitation, output arrives once and in order, also after an interruption, and input comes from the
  holder of the control lease.
\<close>

section \<open>The rooms of a host\<close>

text \<open>C18: In every state that the operations can bring about, each room of the host is sound: the
  replay holds the last published frames in order and without a gap, at most 512 of them and 4 MiB,
  each the encryption of what was published under its number; every number is used once; there are at
  most 64 participants, the host among them; the control lease belongs to a participant; a closed room
  has lost its key and its frames.\<close>

theorem hosted_rooms_sound:
  "\<forall>f. jcs_frame J f \<noteq> None \<Longrightarrow> collab_reachable C J store (s, j) \<Longrightarrow> find_room i s = Inr r \<Longrightarrow> room_ok C J store j i r"
  by (rule rooms_ok_room [OF reachable_rooms_ok])

theorem hosted_rooms_sound_witness:
  "room_ok toy_crypto toy_codec toy_store toy_journal ''i'' (toy_room toy_stored None 0 (toy_guests 1))"
  by (rule hosted_rooms_sound [OF toy_codec_total toy_reachable toy_find_room])

section \<open>Invitations\<close>

text \<open>C19: The device that an invitation is addressed to accepts it within its five minutes and then
  has the key of the room, the numbers to go on with, and the host to listen to.\<close>

theorem invitation_accepted:
  assumes "crypto_laws C" "create_invitation C J d E i (gu_device g) s = (Inr v, s')" "find_room i s = Inr r"
    and "guest_known C d g r" "guest_admitted C (dr_store E) g r" "dr_store E' = gu_store g"
    and "length (dr_random E 1) = 12" "length (rm_room_key r) = 32" "invitation_fits J v" "uuid_ok C (rm_id r)" "1 \<le> rm_key_epoch r"
    and "in_next_input_sequence v \<noteq> 0" "in_replay_from_sequence v + 1 < 2 ^ 64"
    and "0 \<le> dr_now E" "dr_now E < 2 ^ 62" "dr_now E \<le> dr_now E' + secs 60" "dr_now E' < dr_now E + secs 300"
    and "rm_id r \<notin> fst ` set (co_client_rooms sg)" "length (co_client_rooms sg) < MAX_ROOMS"
  shows "\<exists>c. accept_invitation C J (gu_db g) E' v sg = (Inr c, put_client (rm_id r) c sg) \<and> paired r c
    \<and> cl_local_device_id c = gu_device g \<and> cl_local_member_id c = gu_member g
    \<and> cl_next_output_sequence c = in_replay_from_sequence v + 1 \<and> cl_next_input_sequence c = in_next_input_sequence v"
  using accept_own_invitation [OF assms(1-4,7,8,5,6,14-17,9-13,18,19)] .

theorem invitation_accepted_witness:
  "\<exists>c. accept_invitation toy_crypto toy_codec toy_guest (toy_drawn 12 [] 3) toy_invitation no_collaboration = (Inr c, put_client ''i'' c no_collaboration)"
proof -
  let ?r = "toy_room [] None 0 []" let ?g = toy_guest_side
  have v: "create_invitation toy_crypto toy_codec toy_host (toy_drawn 32 [] 2) ''i'' (gu_device ?g) (toy_state ?r)
      = (Inr toy_invitation, toy_state (toy_room [] None 0 (toy_guests 1)))"
    using toy_invite by (simp add: toy_guest_side_def)
  have known: "guest_known toy_crypto toy_host ?g ?r"
    by (auto simp: guest_known_def toy_room_def toy_guest_side_def toy_tables_know intro!: toy_owns_keys)
  have adm: "guest_admitted toy_crypto (dr_store (toy_drawn 32 [] 2)) ?g ?r"
    unfolding guest_admitted_def
    by (intro exI [of _ "toy_device ''g'' ''p'' True"] exI [of _ "toy_device ''h'' ''o'' False"] exI [of _ "pad32 ''k''"] exI conjI)
      (auto simp: toy_room_def toy_guest_side_def toy_tables_know toy_owns_keys toy_keys toy_drawn_ok)
  have "invitation_fits toy_codec toy_invitation" by (simp add: invitation_fits_def toy_codec_def toy_invitation_def MAX_ENVELOPE_BYTES_def)
  then show ?thesis
    using invitation_accepted [OF toy_crypto_laws v toy_find_room known adm, of "toy_drawn 12 [] 3" no_collaboration]
    by (auto simp: toy_guest_side_def toy_drawn_def toy_room_def toy_crypto_def toy_invitation_def no_collaboration_def MAX_ROOMS_def secs_def)
qed

section \<open>Output\<close>

text \<open>C13: What the host publishes, a paired device decrypts to the same bytes under the same number;
  its counter moves on, and the frame is refused from then on.\<close>

theorem output_delivered:
  assumes "crypto_laws C" "drawn_ok store 12 E" "publish_encrypted_output C J dh E i bytes sh = (Inr f, sh')" "fits J f"
    and "find_room i sh = Inr r" "rm_id r = i" "0 < rm_next_output_sequence r"
    and "find_client i sc = Inr c" "paired r c" "client_admitted C store dc c" "cl_next_output_sequence c = rm_next_output_sequence r"
  shows "\<exists>sc'. decrypt_output C J dc f sc = (Inr (received C i (rm_next_output_sequence r) bytes), sc')
    \<and> (\<forall>J' d'. \<exists>e. decrypt_output C J' d' f sc' = (Inl e, sc'))"
proof -
  have f: "encrypt_frame C J E (rm_room_key r) (output_frame r) bytes = Inr f" "rm_next_output_sequence r + 1 < 2 ^ 64"
    using assms(3,5) by (auto simp: publish_encrypted_output_def with_room_def hosted_Inr res_iff next_u64_def Let_def
        split: sum.splits option.splits if_splits)
  have q: "fr_sequence f = rm_next_output_sequence r" "fr_room_id f = i"
    using encrypted_frame_fields [OF f(1)] assms(6) by (simp_all add: output_frame_def)
  have "output_frame (r\<lparr>rm_next_output_sequence := rm_next_output_sequence r\<rparr>) = output_frame r" by (simp add: output_frame_def)
  then have "genuine C J store [fr_sequence f \<mapsto> bytes] r f"
    using assms(2) f(1) by (auto simp: genuine_def q)
  from decrypt_output_genuine [OF assms(1) this assms(4) _ _ _ assms(9,10), of sc]
  have run: "decrypt_output C J dc f sc = (Inr (received C i (rm_next_output_sequence r) bytes),
      put_client i (c\<lparr>cl_next_output_sequence := rm_next_output_sequence r + 1\<rparr>) sc)"
    using assms(6-8,11) f(2) q by simp
  then show ?thesis
    using decrypt_output_stale [of f "put_client i (c\<lparr>cl_next_output_sequence := rm_next_output_sequence r + 1\<rparr>) sc"]
    by (auto simp: q find_put_client)
qed

theorem output_delivered_witness:
  "\<exists>sc'. decrypt_output toy_crypto toy_codec toy_guest toy_frame (toy_joined 1 1) = (Inr (received toy_crypto ''i'' 1 ''hello''), sc')"
  using output_delivered [OF toy_crypto_laws toy_drawn_ok(1) toy_publish toy_frame_fits toy_find_room _ _ toy_find_client toy_paired
      toy_client_admitted, of 1 1]
  by (auto simp: toy_room_def toy_client_def)

text \<open>C11: A device that was away catches up. As long as the host still has the frames after the last
  number the device has seen, it hands them out, and decrypting them one after the other gives exactly
  what was published under the numbers in between; the device then waits for the next number of the
  host.\<close>

theorem client_catches_up:
  assumes "crypto_laws C" "\<forall>f. jcs_frame J f \<noteq> None" "collab_reachable C J store (s, j)"
    and "find_room i s = Inr r" "may_view C dh device r"
    and "replay_from_sequence (prune_replay (dr_instant E) r) \<le> after" "after < rm_next_output_sequence r"
    and "\<forall>f \<in> set (rm_replay r). fits J (sf_frame f)"
    and "find_client i sc = Inr (c\<lparr>cl_next_output_sequence := after + 1\<rparr>)" "paired r c" "client_admitted C store dc c"
  shows "\<exists>fs texts sc'. fst (replay_output C dh E i device after s) = Inr fs
    \<and> map (j i) [after + 1..<rm_next_output_sequence r] = map Some texts
    \<and> receive_all C J dc fs sc = (Inr (map2 (received C i) [after + 1..<rm_next_output_sequence r] texts), sc')
    \<and> find_client i sc' = Inr (c\<lparr>cl_next_output_sequence := rm_next_output_sequence r\<rparr>)"
proof -
  have ok: "room_ok C J store j i r" by (rule rooms_ok_room [OF reachable_rooms_ok [OF assms(2,3)] assms(4)])
  obtain fs where fs: "fst (replay_output C dh E i device after s) = Inr fs" "map fr_sequence fs = [after + 1..<rm_next_output_sequence r]"
    "set fs \<subseteq> sf_frame ` set (rm_replay (prune_replay (dr_instant E) r))"
    using replay_output_window [OF ok assms(4-7)] by blast
  have r: "rm_id r = i" "rm_next_output_sequence r < 2 ^ 64" using ok by (simp_all add: room_ok_def replay_ok_def)
  have "genuine C J store (j i) r f \<and> fits J f" if mem: "f \<in> set fs" for f
  proof -
    obtain x where x: "x \<in> set (rm_replay (prune_replay (dr_instant E) r))" "f = sf_frame x" using mem fs(3) by blast
    then have "x \<in> set (rm_replay r)" using replay_kept by blast
    then show ?thesis using x(2) ok assms(8) by (auto simp: room_ok_def replay_ok_def)
  qed
  then have "\<forall>f \<in> set fs. genuine C J store (j i) r f \<and> fits J f" by blast
  from receive_window [OF assms(1) r(2) assms(10,11) this fs(2), of sc] show ?thesis
    using fs(1) assms(7,9) r(1) by fastforce
qed

theorem client_catches_up_witness:
  "\<exists>fs sc'. fst (replay_output toy_crypto toy_host (toy_drawn 12 [] 9) ''i'' ''g'' 0 (toy_state (toy_room toy_stored None 0 (toy_guests 1)))) = Inr fs
    \<and> receive_all toy_crypto toy_codec toy_guest fs (toy_joined 1 1) = (Inr [received toy_crypto ''i'' 1 ''hello''], sc')"
proof -
  let ?r = "toy_room toy_stored None 0 (toy_guests 1)"
  have "replay_from_sequence (prune_replay (dr_instant (toy_drawn 12 [] 9)) ?r) \<le> 0"
    by (simp add: toy_room_def toy_drawn_def prune_replay_def replay_from_sequence_def toy_frame_def REPLAY_TTL_def secs_def
        MAX_REPLAY_FRAMES_def MAX_REPLAY_BYTES_def)
  moreover have "toy_client 1 1 = (toy_client 1 1)\<lparr>cl_next_output_sequence := 0 + 1\<rparr>" by (simp add: toy_client_def)
  then have "find_client ''i'' (toy_joined 1 1) = Inr ((toy_client 1 1)\<lparr>cl_next_output_sequence := 0 + 1\<rparr>)"
    using toy_find_client by metis
  ultimately show ?thesis
    using client_catches_up [OF toy_crypto_laws toy_codec_total toy_reachable toy_find_room toy_may_view _ _ _ _ toy_paired toy_client_admitted,
        of "toy_drawn 12 [] 9" 0 "toy_joined 1 1" 1 1] toy_frame_fits
    by (auto simp: toy_room_def toy_journal_def note_published_def toy_frame_def)
qed

section \<open>Input\<close>


text \<open>C20: A line that the holder of the lease sends arrives: the frame its device encrypts is taken by
  the host, which hands exactly those bytes to the terminal session of the room.\<close>

theorem input_delivered:
  assumes "crypto_laws C" "encrypt_input C J dc Ec i lease_id generation bytes sc = (Inr f, sc')" "length (dr_random Ec 0) = 12" "fits J f"
    and "find_client i sc = Inr c" "paired r c" "find_room i sh = Inr r"
    and "takes_input C (dr_store Ec) d (max (dr_instant E) (dr_instant E')) r c lease_id generation"
  shows "fst (receive_encrypted_input C J d E E' f sh) = Inr (rm_terminal_session_id r, bytes)"
  by (rule receive_own_input [OF assms])

abbreviation "toy_lease \<equiv> (\<lparr>le_id = ''l'', le_member_id = ''p'', le_device_id = ''g'', le_expires_at = ''60000000004'', le_generation = 1\<rparr>, 60000000004)"

lemma toy_takes_input:
  "t < 60000000004 \<Longrightarrow> takes_input toy_crypto toy_store toy_host t (toy_room fs (Some toy_lease) 1 (toy_guests 1)) (toy_client q 1) ''l'' 1"
  unfolding takes_input_def
  by (auto simp: toy_room_def toy_client_def toy_guest_participant_def toy_tables_know toy_keys validate_host_def guard_def intro!: exI toy_owns_keys)

definition toy_input :: frame where
  "toy_input = \<lparr>fr_schema_version = 1, fr_workspace_id = ''w'', fr_room_id = ''i'', fr_key_epoch = 1, fr_sender_member_id = ''p'',
     fr_sender_device_id = ''g'', fr_direction = ''input'', fr_kind = ''terminal'', fr_sequence = 1, fr_lease_id = Some ''l'',
     fr_lease_generation = 1, fr_nonce = ''nnnnnnnnnnnn'', fr_ciphertext = ''lstttttttttttttttt'',
     fr_signature = Some ''ed25519:k0000000000000000000000000000000''\<rparr>"

lemma toy_send: "encrypt_input toy_crypto toy_codec toy_guest (toy_drawn 12 [] 5) ''i'' ''l'' 1 ''ls'' (toy_joined 1 1) = (Inr toy_input, toy_joined 1 2)"
  by code_simp

lemma toy_input_fits: "fits toy_codec toy_input"
  by (simp add: fits_def toy_codec_def toy_input_def MAX_ENVELOPE_BYTES_def)

theorem input_delivered_witness:
  "fst (receive_encrypted_input toy_crypto toy_codec toy_host (toy_drawn 12 [] 6) (toy_drawn 12 [] 7) toy_input
    (toy_state (toy_room [] (Some toy_lease) 1 (toy_guests 1)))) = Inr (''s'', ''ls'')"
  using input_delivered [OF toy_crypto_laws toy_send _ toy_input_fits toy_find_client toy_paired toy_find_room, of toy_host
      "toy_drawn 12 [] 6" "toy_drawn 12 [] 7" "[]" "Some toy_lease" 1 "toy_guests 1"] toy_takes_input [of 7 "[]" 1]
  by (simp add: toy_drawn_def toy_room_def)


end
