(* ===== verification/TeamDirectory.thy ===== *)
theory TeamDirectory
  imports TeamDevices
begin

text \<open>
  What holds of the local team directory in every state its operations can bring about.
\<close>

section \<open>Steps\<close>

inductive team_step :: "crypto \<Rightarrow> team_world \<Rightarrow> team_world \<Rightarrow> bool" for C where
  create: "create_workspace C ids clock name owner (wd_db w) = Inr (v, d) \<Longrightarrow> team_step C w (w\<lparr>wd_db := d\<rparr>)"
| save: "save_member C ids clock input (wd_db w) = Inr (m, d) \<Longrightarrow> team_step C w (w\<lparr>wd_db := d\<rparr>)"
| remove: "remove_member C uuid clock ws member (wd_db w) = Inr d \<Longrightarrow> team_step C w (w\<lparr>wd_db := d\<rparr>)"
| record_audit: "record_local_audit C uuid t ws action target_type target (wd_db w) = Inr d \<Longrightarrow> team_step C w (w\<lparr>wd_db := d\<rparr>)"
| ensure: "team_step C w (snd (ensure_local_device C H ws name w))"
| export_device: "team_step C w (snd (export_local_device C H json ws path w))"
| import: "import_device C H parse ws path (wd_db w) = Inr (v, d) \<Longrightarrow> team_step C w (w\<lparr>wd_db := d\<rparr>)"
| revoke: "team_step C w (snd (revoke_device C H ws device w))"
| export_audit: "team_step C w (snd (export_audit C H render ws path w))"
| export_workspace: "team_step C w (snd (export_workspace C H render ws path w))"

definition no_team :: team_db where
  "no_team = \<lparr>db_workspaces = [], db_members = [], db_devices = [], db_events = []\<rparr>"

inductive team_reachable :: "crypto \<Rightarrow> team_world \<Rightarrow> bool" for C where
  empty: "wd_db w = no_team \<Longrightarrow> team_reachable C w"
| step: "team_reachable C w \<Longrightarrow> team_step C w w' \<Longrightarrow> team_reachable C w'"

section \<open>The invariant\<close>

definition team_keys_ok :: "team_db \<Rightarrow> bool" where
  "team_keys_ok d \<longleftrightarrow> distinct (map tw_id (db_workspaces d)) \<and> distinct (map tm_id (db_members d))
     \<and> distinct (map td_id (db_devices d)) \<and> distinct (map ta_id (db_events d))"

definition owners_ok :: "team_db \<Rightarrow> bool" where
  "owners_ok d \<longleftrightarrow> (\<forall>w \<in> set (db_workspaces d). \<exists>m \<in> set (db_members d). active_owner (tw_id w) m)"

definition roles_ok :: "team_db \<Rightarrow> bool" where
  "roles_ok d \<longleftrightarrow> (\<forall>m \<in> set (db_members d). tm_role m \<in> set ROLES)"

definition local_active :: "string \<Rightarrow> team_device \<Rightarrow> bool" where
  "local_active ws v \<longleftrightarrow> td_workspace_id v = ws \<and> td_is_local v \<and> td_status v = ''active''"

definition devices_ok :: "crypto \<Rightarrow> team_db \<Rightarrow> bool" where
  "devices_ok C d \<longleftrightarrow> (\<forall>ws. sql_count (local_active ws) (db_devices d) \<le> 1)
     \<and> (\<forall>v \<in> set (db_devices d). \<exists>ks. validated_device_keys C v = Inr ks)"

definition events_ok :: "team_db \<Rightarrow> bool" where
  "events_ok d \<longleftrightarrow> (\<forall>ws. sql_count (\<lambda>e. ta_workspace_id e = ws) (db_events d) \<le> MAX_AUDIT_EXPORT)"

definition team_ok :: "crypto \<Rightarrow> team_db \<Rightarrow> bool" where
  "team_ok C d \<longleftrightarrow> team_keys_ok d \<and> owners_ok d \<and> roles_ok d \<and> devices_ok C d \<and> events_ok d"

lemmas team_ok_defs = team_ok_def team_keys_ok_def owners_ok_def roles_ok_def devices_ok_def events_ok_def

section \<open>Audit\<close>

lemma audit_tables:
  "audit C uuid t ws actor action tt target d = Inr d'
    \<Longrightarrow> db_workspaces d' = db_workspaces d \<and> db_members d' = db_members d \<and> db_devices d' = db_devices d"
  by (auto simp: audit_def insert_event_row_def res_iff)

lemma audit_keeps:
  assumes "audit C uuid t ws actor action tt target d = Inr d'" "team_ok C d"
  shows "team_ok C d'"
proof -
  let ?e = "\<lparr>ta_id = uuid, ta_workspace_id = ws, ta_actor_member_id = actor, ta_action = action, ta_target_type = tt, ta_target_id = target,
    ta_created_at = to_rfc3339 C t\<rparr>"
  let ?rows = "db_events d @ [?e]"
  have new: "ta_id ?e \<notin> ta_id ` set (db_events d)"
    and rows: "db_events d' = keep_newest MAX_AUDIT_EXPORT ta_id ta_created_at (\<lambda>e. ta_workspace_id e = ws) ?rows"
    using assms(1) by (auto simp: audit_def insert_event_row_def res_iff)
  have key: "distinct (map ta_id ?rows)" using assms(2) new by (simp add: team_ok_def team_keys_ok_def)
  have "sql_count (\<lambda>e. ta_workspace_id e = x) (db_events d') \<le> MAX_AUDIT_EXPORT" for x
  proof (cases "x = ws")
    case True
    then show ?thesis unfolding rows by (simp only: sql_count_keep_newest [OF key])
  next
    case False
    then have "sql_count (\<lambda>e. ta_workspace_id e = x) (db_events d') = sql_count (\<lambda>e. ta_workspace_id e = x) ?rows"
      unfolding rows sql_count_def by (subst filter_keep_newest_frame) auto
    then show ?thesis using False assms(2) by (simp add: team_ok_def events_ok_def sql_count_append)
  qed
  moreover have "distinct (map ta_id (db_events d'))" using key unfolding rows by (rule distinct_keep_newest)
  ultimately show ?thesis
    using assms(2) audit_tables [OF assms(1)] unfolding team_ok_defs by simp
qed

section \<open>Members\<close>

text \<open>Among several owners there is another one.\<close>

lemma another_owner:
  assumes "keeps_last_owner ws d = Inr ()" "distinct (map tm_id (db_members d))"
  shows "\<exists>m \<in> set (db_members d). active_owner ws m \<and> tm_id m \<noteq> i"
proof (rule ccontr)
  assume "\<not> ?thesis"
  then have "tm_id m = i" if "m \<in> set (filter (active_owner ws) (db_members d))" for m using that by auto
  then have "\<forall>m \<in> set (filter (active_owner ws) (db_members d)). tm_id m = i" by blast
  moreover have "distinct (map tm_id (filter (active_owner ws) (db_members d)))" using assms(2) by (simp add: distinct_map_filter)
  ultimately have "length (filter (active_owner ws) (db_members d)) \<le> 1"
    by (cases "filter (active_owner ws) (db_members d)" rule: list.exhaust) (auto, metis image_eqI list.set_intros(1) neq_Nil_conv)
  then show False using assms(1) by (simp add: keeps_last_owner_def sql_count_def res_iff)
qed

text \<open>A change of one member that is no owner any more only if the workspace has another one.\<close>

lemma owners_ok_change:
  assumes "owners_ok d" "distinct (map tm_id (db_members d))" "m \<in> set (db_members d)"
    and "db_members d' = sql_update (\<lambda>r. tm_id r = tm_id m) f (db_members d)" "tw_id ` set (db_workspaces d') = tw_id ` set (db_workspaces d)"
    and "\<And>ws. active_owner ws m \<Longrightarrow> \<not> active_owner ws (f m) \<Longrightarrow> keeps_last_owner ws d = Inr ()"
  shows "owners_ok d'"
  unfolding owners_ok_def
proof
  fix w assume "w \<in> set (db_workspaces d')"
  then have "tw_id w \<in> tw_id ` set (db_workspaces d)" using assms(5) by blast
  then obtain q where q: "q \<in> set (db_members d)" "active_owner (tw_id w) q" using assms(1) by (auto simp: owners_ok_def)
  have stays: "r \<in> set (db_members d')" if "r \<in> set (db_members d)" "tm_id r \<noteq> tm_id m" for r
    using that assms(4) by (simp add: set_sql_update)
  show "\<exists>m \<in> set (db_members d'). active_owner (tw_id w) m"
  proof (cases "tm_id q = tm_id m")
    case False
    then show ?thesis using q stays by blast
  next
    case True
    then have "q = m" using q(1) assms(2,3) by (auto simp: distinct_map inj_on_def)
    show ?thesis
    proof (cases "active_owner (tw_id w) (f m)")
      case True
      then show ?thesis using assms(3,4) by (auto simp: set_sql_update)
    next
      case False
      then show ?thesis using another_owner [OF assms(6) assms(2)] q \<open>q = m\<close> stays by blast
    qed
  qed
qed

lemma owners_ok_frame:
  "owners_ok d \<Longrightarrow> set (db_members d) \<subseteq> set (db_members d') \<Longrightarrow> tw_id ` set (db_workspaces d') \<subseteq> tw_id ` set (db_workspaces d) \<Longrightarrow> owners_ok d'"
  unfolding owners_ok_def by (smt (verit, best) image_iff subset_iff)

lemma advance_epoch_same:
  "db_members (advance_epoch ws now d) = db_members d" "db_devices (advance_epoch ws now d) = db_devices d"
  "db_events (advance_epoch ws now d) = db_events d" "map tw_id (db_workspaces (advance_epoch ws now d)) = map tw_id (db_workspaces d)"
  by (simp_all add: advance_epoch_def map_sql_update)

lemma workspace_ids: "map tw_id xs = map tw_id ys \<Longrightarrow> tw_id ` set xs = tw_id ` set ys"
  by (metis list.set_map)

lemma team_ok_advance: "team_ok C d \<Longrightarrow> team_ok C (advance_epoch ws now d)"
  using owners_ok_frame [of d "advance_epoch ws now d"] workspace_ids [OF advance_epoch_same(4)]
  unfolding team_ok_def team_keys_ok_def roles_ok_def devices_ok_def events_ok_def by (simp add: advance_epoch_same)

lemma create_workspace_ok:
  assumes "create_workspace C ids clock name owner d = Inr (v, d')" "team_ok C d"
  shows "team_ok C d'"
proof -
  let ?w = "\<lambda>n. \<lparr>tw_id = ids 0, tw_name = n, tw_local_member_id = ids 1, tw_key_epoch = 1, tw_created_at = to_rfc3339 C (clock 0),
    tw_updated_at = to_rfc3339 C (clock 0), tw_local_device_id = None\<rparr>"
  let ?m = "\<lambda>n. \<lparr>tm_id = ids 1, tm_workspace_id = ids 0, tm_display_name = n, tm_role = ''owner'', tm_status = ''active'',
    tm_joined_at = to_rfc3339 C (clock 0), tm_updated_at = to_rfc3339 C (clock 0), tm_removed_at = None\<rparr>"
  obtain n u where r: "ids 0 \<notin> tw_id ` set (db_workspaces d)" "ids 1 \<notin> tm_id ` set (db_members d)"
    and go: "audit C (ids 2) (clock 1) (ids 0) (ids 1) ''workspace-created'' ''workspace'' (ids 0)
      (d\<lparr>db_workspaces := db_workspaces d @ [?w n], db_members := db_members d @ [?m u]\<rparr>) = Inr d'"
    using assms(1) by (auto simp: create_workspace_def Let_def res_iff insert_workspace_row_def insert_member_row_def)
  have "active_owner (ids 0) (?m u)" by (simp add: active_owner_def)
  then have "team_ok C (d\<lparr>db_workspaces := db_workspaces d @ [?w n], db_members := db_members d @ [?m u]\<rparr>)"
    using assms(2) r unfolding team_ok_defs by (simp add: ROLES_def ball_Un bex_Un)
  then show ?thesis by (rule audit_keeps [OF go])
qed

lemma save_member_checks_Inr:
  assumes "save_member_checks actor_role i input d = Inr existing" "distinct (map tm_id (db_members d))"
  shows "existing = None \<and> i \<notin> tm_id ` set (db_members d)
    \<or> (\<exists>m \<in> set (db_members d). existing = Some m \<and> is_member (sm_workspace_id input) i m
         \<and> (tm_role m = ''owner'' \<and> sm_role input \<noteq> ''owner'' \<and> tm_status m = ''active'' \<longrightarrow> keeps_last_owner (sm_workspace_id input) d = Inr ()))"
proof (cases "fetch_optional (filter (\<lambda>m. tm_id m = i) (db_members d))")
  case None
  then have "filter (\<lambda>m. tm_id m = i) (db_members d) = []" by (simp add: fetch_optional_None_iff)
  then have "i \<notin> tm_id ` set (db_members d)" "filter (is_member (sm_workspace_id input) i) (db_members d) = []"
    by (auto simp: filter_empty_conv is_member_def)
  then show ?thesis using assms(1) by (auto simp: save_member_checks_def Let_def res_iff)
next
  case (Some m)
  then have m: "m \<in> set (db_members d)" "tm_id m = i" by (auto dest: fetch_optional_Some_mem)
  have mem: "is_member (sm_workspace_id input) i m"
    using assms(1) Some m(2) by (auto simp: save_member_checks_def Let_def res_iff is_member_def)
  have unique: "r = m" if "r \<in> set (filter (is_member (sm_workspace_id input) i) (db_members d))" for r
    using that m assms(2) by (auto simp: is_member_def distinct_map inj_on_def)
  have "m \<in> set (filter (is_member (sm_workspace_id input) i) (db_members d))" using m(1) mem by simp
  then have e: "fetch_optional (filter (is_member (sm_workspace_id input) i) (db_members d)) = Some m"
    by (rule fetch_optional_unique) (rule unique)
  have "existing = Some m \<and> (tm_role m = ''owner'' \<and> sm_role input \<noteq> ''owner'' \<and> tm_status m = ''active''
      \<longrightarrow> keeps_last_owner (sm_workspace_id input) d = Inr ())"
    using assms(1) unfolding save_member_checks_def Let_def e Some by (auto simp: res_iff)
  then show ?thesis using m(1) mem by blast
qed

lemma save_member_Inr:
  assumes "save_member C ids clock input d = Inr (m, d')"
  shows "\<exists>existing actor role i. sm_role input \<in> set ROLES \<and> save_member_checks role i input d = Inr existing
    \<and> tm_id m = i \<and> tm_workspace_id m = sm_workspace_id input \<and> tm_role m = sm_role input \<and> tm_status m = ''active''
    \<and> audit C (ids 1) (clock 1) (tm_workspace_id m) actor (save_action existing (role_changed existing m)) ''member'' (tm_id m)
      (if role_changed existing m then advance_epoch (tm_workspace_id m) (tm_updated_at m) (upsert_member m d) else upsert_member m d) = Inr d'"
proof -
  obtain name actor role existing i where s: "sm_role input \<in> set ROLES" "save_member_checks role i input d = Inr existing"
    "write_member C ids clock actor existing (member_row C clock input i name existing) d = Inr (m, d')"
    using assms unfolding save_member_def Let_def by (auto simp: res_iff)
  have m: "m = member_row C clock input i name existing" using s(3) by (auto simp: write_member_def Let_def res_iff)
  have "audit C (ids 1) (clock 1) (tm_workspace_id m) actor (save_action existing (role_changed existing m)) ''member'' (tm_id m)
      (if role_changed existing m then advance_epoch (tm_workspace_id m) (tm_updated_at m) (upsert_member m d) else upsert_member m d) = Inr d'"
    using s(3) unfolding m [symmetric] by (auto simp: write_member_def Let_def res_iff)
  moreover have "tm_id m = i" "tm_workspace_id m = sm_workspace_id input" "tm_role m = sm_role input" "tm_status m = ''active''"
    by (simp_all add: m member_row_def Let_def)
  ultimately show ?thesis using s(1,2) by blast
qed

lemma save_member_ok:
  assumes "save_member C ids clock input d = Inr (m, d')" "team_ok C d"
  shows "team_ok C d'"
proof -
  have key: "distinct (map tm_id (db_members d))" using assms(2) by (simp add: team_ok_def team_keys_ok_def)
  obtain existing actor role i where s: "sm_role input \<in> set ROLES" "save_member_checks role i input d = Inr existing"
    "tm_id m = i" "tm_workspace_id m = sm_workspace_id input" "tm_role m = sm_role input" "tm_status m = ''active''"
    and go: "audit C (ids 1) (clock 1) (tm_workspace_id m) actor (save_action existing (role_changed existing m)) ''member'' (tm_id m)
      (if role_changed existing m then advance_epoch (tm_workspace_id m) (tm_updated_at m) (upsert_member m d) else upsert_member m d) = Inr d'"
    using save_member_Inr [OF assms(1)] by blast
  let ?d = "upsert_member m d"
  have tables: "db_workspaces ?d = db_workspaces d" "db_devices ?d = db_devices d" "db_events ?d = db_events d"
    by (simp_all add: upsert_member_def)
  let ?f = "\<lambda>r. r\<lparr>tm_display_name := tm_display_name m, tm_role := tm_role m, tm_status := ''active'', tm_updated_at := tm_updated_at m, tm_removed_at := None\<rparr>"
  have "owners_ok ?d \<and> distinct (map tm_id (db_members ?d)) \<and> roles_ok ?d"
  proof (cases "existing")
    case None
    then have fresh: "i \<notin> tm_id ` set (db_members d)" using save_member_checks_Inr [OF s(2) key] by auto
    then have "db_members ?d = db_members d @ [m]" using s(3) by (simp add: upsert_member_def)
    then show ?thesis using assms(2) fresh s(1,3,5) owners_ok_frame [of d ?d] by (auto simp: team_ok_defs tables)
  next
    case (Some r)
    then have r: "r \<in> set (db_members d)" "tm_id r = i" "tm_workspace_id r = sm_workspace_id input"
      "tm_role r = ''owner'' \<and> sm_role input \<noteq> ''owner'' \<and> tm_status r = ''active'' \<Longrightarrow> keeps_last_owner (sm_workspace_id input) d = Inr ()"
      using save_member_checks_Inr [OF s(2) key] by (auto simp: is_member_def)
    have mem: "db_members ?d = sql_update (\<lambda>q. tm_id q = tm_id r) ?f (db_members d)"
      using r(1,2) s(3) by (auto simp: upsert_member_def)
    have "owners_ok ?d"
    proof (rule owners_ok_change [OF _ key r(1) mem])
      show "owners_ok d" using assms(2) by (simp add: team_ok_def)
      show "keeps_last_owner ws d = Inr ()" if "active_owner ws r" "\<not> active_owner ws (?f r)" for ws
        using that r(3,4) s(5) by (auto simp: active_owner_def)
    qed (simp add: tables)
    then show ?thesis using assms(2) s(1,5) unfolding mem team_ok_defs by (auto simp: map_sql_update set_sql_update)
  qed
  then have "team_ok C ?d" using assms(2) tables by (simp add: team_ok_defs)
  then have "team_ok C (if role_changed existing m then advance_epoch (tm_workspace_id m) (tm_updated_at m) ?d else ?d)"
    by (simp add: team_ok_advance)
  then show ?thesis by (rule audit_keeps [OF go])
qed

section \<open>Removal and devices\<close>

lemma sql_count_update_le: "(\<And>r. q r \<Longrightarrow> p (f r) \<Longrightarrow> p r) \<Longrightarrow> sql_count p (sql_update q f rows) \<le> sql_count p rows"
  by (induction rows) (auto simp: sql_update_def)

text \<open>Marking devices as revoked keeps their keys and makes none of them active.\<close>

lemma devices_ok_revoke:
  assumes "devices_ok C d"
    "db_devices d' = sql_update q (\<lambda>v. v\<lparr>td_status := ''revoked'', td_revoked_at := x, td_updated_at := y\<rparr>) (db_devices d)"
  shows "devices_ok C d'"
proof -
  have "sql_count (local_active ws) (db_devices d') \<le> 1" for ws
    using sql_count_update_le [of q "local_active ws" "\<lambda>v. v\<lparr>td_status := ''revoked'', td_revoked_at := x, td_updated_at := y\<rparr>" "db_devices d"]
      assms by (force simp: devices_ok_def local_active_def intro: le_trans)
  moreover have "validated_device_keys C (v\<lparr>td_status := ''revoked'', td_revoked_at := x, td_updated_at := y\<rparr>) = validated_device_keys C v" for v
    by (simp add: validated_device_keys_def)
  ultimately show ?thesis using assms by (auto simp: devices_ok_def set_sql_update)
qed

lemma remove_member_Inr:
  assumes "remove_member C uuid clock ws i d = Inr d'" "distinct (map tm_id (db_members d))"
  shows "d' = d \<or> (\<exists>m actor. m \<in> set (db_members d) \<and> is_member ws i m \<and> (tm_role m = ''owner'' \<longrightarrow> keeps_last_owner ws d = Inr ())
    \<and> audit C uuid (clock 1) ws actor ''member-removed'' ''member'' i (advance_epoch ws (to_rfc3339 C (clock 0))
        (d\<lparr>db_members := sql_update (is_member ws i)
              (\<lambda>m. m\<lparr>tm_status := ''removed'', tm_removed_at := Some (to_rfc3339 C (clock 0)), tm_updated_at := to_rfc3339 C (clock 0)\<rparr>) (db_members d),
            db_devices := sql_update (\<lambda>v. td_member_id v = i \<and> td_workspace_id v = ws \<and> td_status v = ''active'')
              (\<lambda>v. v\<lparr>td_status := ''revoked'', td_revoked_at := Some (to_rfc3339 C (clock 0)), td_updated_at := to_rfc3339 C (clock 0)\<rparr>) (db_devices d)\<rparr>)) = Inr d')"
proof -
  obtain m where m: "fetch_optional (filter (is_member ws i) (db_members d)) = Some m"
    using assms(1) by (auto simp: remove_member_def res_iff)
  then have "m \<in> set (db_members d)" "is_member ws i m" by (auto dest: fetch_optional_Some_mem)
  then show ?thesis using assms(1) m by (auto simp: remove_member_def res_iff Let_def split: if_splits)
qed

lemma remove_member_ok:
  assumes "remove_member C uuid clock ws i d = Inr d'" "team_ok C d"
  shows "team_ok C d'"
proof -
  have key: "distinct (map tm_id (db_members d))" using assms(2) by (simp add: team_ok_def team_keys_ok_def)
  let ?now = "to_rfc3339 C (clock 0)"
  let ?f = "\<lambda>m. m\<lparr>tm_status := ''removed'', tm_removed_at := Some ?now, tm_updated_at := ?now\<rparr>"
  let ?g = "\<lambda>v. v\<lparr>td_status := ''revoked'', td_revoked_at := Some ?now, td_updated_at := ?now\<rparr>"
  let ?q = "\<lambda>v. td_member_id v = i \<and> td_workspace_id v = ws \<and> td_status v = ''active''"
  let ?d = "d\<lparr>db_members := sql_update (is_member ws i) ?f (db_members d), db_devices := sql_update ?q ?g (db_devices d)\<rparr>"
  consider "d' = d" | m actor where "m \<in> set (db_members d)" "is_member ws i m" "tm_role m = ''owner'' \<longrightarrow> keeps_last_owner ws d = Inr ()"
      "audit C uuid (clock 1) ws actor ''member-removed'' ''member'' i (advance_epoch ws ?now ?d) = Inr d'"
    using remove_member_Inr [OF assms(1) key] by blast
  then show ?thesis
  proof cases
    case 1
    then show ?thesis using assms(2) by simp
  next
    case 2
    have same: "tm_id r = tm_id m \<longleftrightarrow> is_member ws i r" if "r \<in> set (db_members d)" for r
      using that 2(1,2) key by (auto simp: is_member_def distinct_map inj_on_def)
    have mem: "db_members ?d = sql_update (\<lambda>r. tm_id r = tm_id m) ?f (db_members d)"
      using same by (auto simp: sql_update_def)
    have "owners_ok ?d"
      by (rule owners_ok_change [OF _ key 2(1) mem]) (use assms(2) 2(2,3) in \<open>auto simp: team_ok_def active_owner_def is_member_def\<close>)
    moreover have "devices_ok C ?d" by (rule devices_ok_revoke [of C d]) (use assms(2) in \<open>simp_all add: team_ok_def\<close>)
    moreover have "roles_ok ?d" using assms(2) by (auto simp: team_ok_def roles_ok_def set_sql_update)
    moreover have "team_keys_ok ?d" using assms(2) by (simp add: team_ok_def team_keys_ok_def map_sql_update)
    moreover have "events_ok ?d" using assms(2) by (simp add: team_ok_def events_ok_def)
    ultimately have "team_ok C ?d" unfolding team_ok_def by blast
    then show ?thesis using audit_keeps [OF 2(4)] team_ok_advance by blast
  qed
qed

text \<open>Registering, importing and revoking a device.\<close>

lemma team_ok_devices:
  assumes "team_ok C d" "db_members d' = db_members d" "map tw_id (db_workspaces d') = map tw_id (db_workspaces d)" "db_events d' = db_events d"
    "distinct (map td_id (db_devices d'))" "devices_ok C d'"
  shows "team_ok C d'"
  using assms owners_ok_frame [of d d'] workspace_ids [OF assms(3)] by (simp add: team_ok_def team_keys_ok_def roles_ok_def events_ok_def)

lemma new_device_owns_keys: "owns_keys C (he_random H 0) (he_random H 1) (new_device C H ws member name)"
  by (simp add: owns_keys_def new_device_def Let_def)

lemma register_local_device_ok:
  assumes "register_local_device C H v d = Inr d'" "team_ok C d" "validated_device_keys C v = Inr ks"
  shows "team_ok C d'"
proof -
  let ?ws = "sql_update (\<lambda>w. tw_id w = td_workspace_id v \<and> tw_local_device_id w = None)
            (\<lambda>w. w\<lparr>tw_local_device_id := Some (td_id v), tw_updated_at := td_created_at v\<rparr>) (db_workspaces d)"
  let ?d = "d\<lparr>db_devices := db_devices d @ [v], db_workspaces := ?ws\<rparr>"
  have new: "td_id v \<notin> td_id ` set (db_devices d)"
    "\<not> (td_is_local v \<and> td_status v = ''active'' \<and> list_ex (\<lambda>u. td_workspace_id u = td_workspace_id v \<and> td_is_local u \<and> td_status u = ''active'') (db_devices d))"
    and go: "audit C (he_id H 1) (he_clock H 1) (td_workspace_id v) (td_member_id v) ''device-created'' ''device'' (td_id v) ?d = Inr d'"
    using assms(1) by (auto simp: register_local_device_def insert_device_row_def res_iff)
  have "sql_count (local_active ws) (db_devices d @ [v]) \<le> 1" for ws
  proof (cases "local_active ws v")
    case True
    then have "\<not> (\<exists>u \<in> set (db_devices d). local_active ws u)" using new(2) by (auto simp: local_active_def list_ex_iff)
    then have "sql_count (local_active ws) (db_devices d) = 0" using sql_count_pos [of "local_active ws" "db_devices d"] by blast
    then show ?thesis by (simp add: sql_count_append)
  next
    case False
    then show ?thesis using assms(2) by (simp add: sql_count_append team_ok_def devices_ok_def)
  qed
  then have "devices_ok C ?d" using assms(2,3) by (auto simp: team_ok_def devices_ok_def)
  then have "team_ok C ?d" using assms(2) new(1)
    by (intro team_ok_devices [OF assms(2)]) (simp_all add: map_sql_update team_ok_def team_keys_ok_def)
  then show ?thesis by (rule audit_keeps [OF go])
qed

lemma ensure_local_device_ok:
  "crypto_laws C \<Longrightarrow> team_ok C (wd_db w) \<Longrightarrow> team_ok C (wd_db (snd (ensure_local_device C H ws name w)))"
  by (auto simp: ensure_local_device_def save_private_key_def delete_private_keys_def Let_def split: sum.split option.split
      intro: register_local_device_ok validated_own_keys new_device_owns_keys)

lemma bundle_keys_valid:
  "bundle_keys C ws b = Inr name \<Longrightarrow> td_encryption_public_key v = bu_encryption_public_key b \<Longrightarrow> td_signing_public_key v = bu_signing_public_key b
    \<Longrightarrow> td_fingerprint v = bu_fingerprint b \<Longrightarrow> \<exists>ks. validated_device_keys C v = Inr ks"
  by (auto simp: bundle_keys_def validated_device_keys_def res_iff)

lemma upsert_device_ok:
  assumes "team_ok C d" "\<not> td_is_local v" "validated_device_keys C v = Inr ks"
  shows "team_ok C (upsert_device v d)"
proof -
  let ?f = "\<lambda>r. r\<lparr>td_name := td_name v, td_updated_at := td_updated_at v\<rparr>"
  have keep: "validated_device_keys C (r\<lparr>td_name := a, td_updated_at := b\<rparr>) = validated_device_keys C r" for r a b
    by (simp add: validated_device_keys_def)
  have one: "sql_count (local_active ws) (db_devices d) \<le> 1" for ws using assms(1) by (simp add: team_ok_def devices_ok_def)
  have "sql_count (local_active ws) (sql_update (\<lambda>r. td_id r = td_id v) ?f (db_devices d)) \<le> sql_count (local_active ws) (db_devices d)" for ws
    by (rule sql_count_update_le) (simp add: local_active_def)
  then have upd: "sql_count (local_active ws) (sql_update (\<lambda>r. td_id r = td_id v) ?f (db_devices d)) \<le> 1" for ws
    using one le_trans by blast
  have "devices_ok C (upsert_device v d)"
    using assms one upd by (auto simp: devices_ok_def upsert_device_def team_ok_def set_sql_update keep sql_count_append local_active_def)
  moreover have "distinct (map td_id (db_devices (upsert_device v d)))"
    using assms(1) by (auto simp: upsert_device_def team_ok_def team_keys_ok_def map_sql_update)
  ultimately show ?thesis by (intro team_ok_devices [OF assms(1)]) (simp_all add: upsert_device_def)
qed

lemma import_device_ok:
  assumes "import_device C H parse ws path d = Inr (v, d')" "team_ok C d"
  shows "team_ok C d'"
proof -
  obtain au b where imported: "import_bundle C H au ws b d = Inr (v, d')"
    using assms(1) by (auto simp: import_device_def res_iff)
  then have b: "\<exists>name. bundle_keys C ws b = Inr name" "td_encryption_public_key v = bu_encryption_public_key b"
    "td_signing_public_key v = bu_signing_public_key b" "td_fingerprint v = bu_fingerprint b" "\<not> td_is_local v"
    and go: "audit C (he_id H 0) (he_clock H 1) ws (au_member_id au) ''device-imported'' ''device'' (td_id v) (upsert_device v d) = Inr d'"
    by (auto simp: import_bundle_def res_iff Let_def)
  obtain ks where "validated_device_keys C v = Inr ks" using b(1) bundle_keys_valid [OF _ b(2-4)] by blast
  from audit_keeps [OF go upsert_device_ok [OF assms(2) b(5) this]] show ?thesis .
qed

lemma revoke_device_rows_ok:
  assumes "revoke_device_rows C H au ws device d = Inr d'" "team_ok C d"
  shows "team_ok C d'"
proof -
  let ?now = "to_rfc3339 C (he_clock H 0)"
  let ?d = "d\<lparr>db_devices := sql_update (\<lambda>v. td_id v = device \<and> td_workspace_id v = ws)
       (\<lambda>v. v\<lparr>td_status := ''revoked'', td_revoked_at := Some ?now, td_updated_at := ?now\<rparr>) (db_devices d),
     db_workspaces := sql_update (\<lambda>w. tw_id w = ws)
       (\<lambda>w. w\<lparr>tw_local_device_id := (if tw_local_device_id w = Some device then None else tw_local_device_id w),
              tw_key_epoch := tw_key_epoch w + 1, tw_updated_at := ?now\<rparr>) (db_workspaces d)\<rparr>"
  have go: "audit C (he_id H 0) (he_clock H 1) ws (au_member_id au) ''device-revoked'' ''device'' device ?d = Inr d'"
    using assms(1) by (simp add: revoke_device_rows_def Let_def)
  have "devices_ok C ?d" by (rule devices_ok_revoke [of C d]) (use assms(2) in \<open>simp_all add: team_ok_def\<close>)
  then have "team_ok C ?d"
    using assms(2) by (intro team_ok_devices [OF assms(2)]) (simp_all add: map_sql_update team_ok_def team_keys_ok_def)
  then show ?thesis by (rule audit_keeps [OF go])
qed

lemma revoke_device_ok: "team_ok C (wd_db w) \<Longrightarrow> team_ok C (wd_db (snd (revoke_device C H ws device w)))"
  by (auto simp: revoke_device_def delete_private_keys_def res_iff split: sum.split intro: revoke_device_rows_ok)

section \<open>Exports\<close>

lemma atomic_write_db [simp]: "wd_db (snd (atomic_write H path ext payload w)) = wd_db w"
  by (simp add: atomic_write_def put_file_def split: sum.split)

lemma export_local_device_db [simp]: "wd_db (snd (export_local_device C H json ws path w)) = wd_db w"
  by (simp add: export_local_device_def split: sum.split)

lemma write_export_ok: "team_ok C (wd_db w) \<Longrightarrow> team_ok C (wd_db (snd (write_export C H path payload ws actor action w)))"
  by (auto simp: write_export_def put_file_def split: sum.split intro: audit_keeps)

lemma export_audit_ok: "team_ok C (wd_db w) \<Longrightarrow> team_ok C (wd_db (snd (export_audit C H render ws path w)))"
  using write_export_ok [of C w] by (auto simp: export_audit_def split: sum.split prod.split) (metis snd_conv)+

lemma export_workspace_ok: "team_ok C (wd_db w) \<Longrightarrow> team_ok C (wd_db (snd (export_workspace C H render ws path w)))"
  using write_export_ok [of C w] by (auto simp: export_workspace_def split: sum.split prod.split)

section \<open>Every state\<close>

lemma team_step_ok: "team_step C w w' \<Longrightarrow> crypto_laws C \<Longrightarrow> team_ok C (wd_db w) \<Longrightarrow> team_ok C (wd_db w')"
  by (induction rule: team_step.induct)
    (auto intro: create_workspace_ok save_member_ok remove_member_ok import_device_ok ensure_local_device_ok revoke_device_ok export_audit_ok
      export_workspace_ok audit_keeps simp: record_local_audit_def res_iff)

lemma team_reachable_ok: "team_reachable C w \<Longrightarrow> crypto_laws C \<Longrightarrow> team_ok C (wd_db w)"
proof (induction rule: team_reachable.induct)
  case (empty w)
  then show ?case by (simp add: team_ok_defs no_team_def)
qed (blast intro: team_step_ok)

end
