(* ===== verification/TeamAccess.thy ===== *)
theory TeamAccess
  imports RelayModels TeamDirectory Collaboration
begin

text \<open>
  The properties of the team directory: it stays sound, it grants what the relay grants, and a removed
  member or a revoked device is locked out of the terminal rooms.
\<close>

section \<open>Key epochs\<close>

lemma authorize_workspace:
  "authorize C ws permission d = Inr au \<Longrightarrow> \<exists>w \<in> set (db_workspaces d). tw_id w = ws \<and> au_key_epoch au = tw_key_epoch w"
  by (auto simp: authorize_def local_row_def local_rows_def res_iff dest!: fetch_optional_Some_mem)

text \<open>A room is bound to the epoch it was opened in: once the epoch moves on, no operation of its host passes.\<close>

lemma hosted_epoch:
  assumes "hosted C d i s = Inr r" "distinct (map tw_id (db_workspaces d))"
    and "db_workspaces d' = sql_update (\<lambda>w. tw_id w = rm_workspace_id r) f (db_workspaces d)" "\<And>w. tw_key_epoch (f w) = tw_key_epoch w + 1"
    and "\<And>w. tw_id (f w) = tw_id w"
  shows "\<exists>e. hosted C d' i s = Inl e"
proof (rule ccontr)
  assume "\<not> ?thesis"
  then obtain r' where "hosted C d' i s = Inr r'" by (cases "hosted C d' i s") auto
  moreover have "find_room i s = Inr r" using assms(1) by (auto simp: hosted_def res_iff)
  ultimately obtain au' where a': "authorize C (rm_workspace_id r) ''shareManage'' d' = Inr au'" "rm_key_epoch r = au_key_epoch au'"
    by (auto simp: hosted_def res_iff validate_host_def)
  obtain au where a: "authorize C (rm_workspace_id r) ''shareManage'' d = Inr au" "rm_key_epoch r = au_key_epoch au"
    using assms(1) by (auto simp: hosted_def res_iff validate_host_def)
  obtain w where w: "w \<in> set (db_workspaces d)" "tw_id w = rm_workspace_id r" "au_key_epoch au = tw_key_epoch w"
    using authorize_workspace [OF a(1)] by blast
  obtain w' where w': "w' \<in> set (db_workspaces d')" "tw_id w' = rm_workspace_id r" "au_key_epoch au' = tw_key_epoch w'"
    using authorize_workspace [OF a'(1)] by blast
  obtain u where u: "u \<in> set (db_workspaces d)" "tw_id u = rm_workspace_id r" "w' = f u"
    using w'(1,2) assms(3,5) by (auto simp: set_sql_update)
  have "u = w" using u(1,2) w(1,2) assms(2) by (auto simp: distinct_map inj_on_def)
  then show False using a(2) a'(2) w(3) w'(3) u(3) assms(4) by simp
qed

lemma remove_active_member:
  assumes "remove_member C uuid ck ws i d = Inr d'" "distinct (map tm_id (db_members d))"
    "m \<in> set (db_members d)" "is_member ws i m" "tm_status m = ''active''"
  shows "db_workspaces d' = db_workspaces (advance_epoch ws (to_rfc3339 C (ck 0)) d) \<and> db_members d' = sql_update (is_member ws i)
    (\<lambda>m. m\<lparr>tm_status := ''removed'', tm_removed_at := Some (to_rfc3339 C (ck 0)), tm_updated_at := to_rfc3339 C (ck 0)\<rparr>) (db_members d)"
proof -
  have unique: "r = m" if "r \<in> set (filter (is_member ws i) (db_members d))" for r
    using that assms(2-4) by (auto simp: is_member_def distinct_map inj_on_def)
  have "m \<in> set (filter (is_member ws i) (db_members d))" using assms(3,4) by simp
  then have "fetch_optional (filter (is_member ws i) (db_members d)) = Some m"
    by (rule fetch_optional_unique) (rule unique)
  then show ?thesis using assms(1,5)
    by (auto simp: remove_member_def res_iff Let_def advance_epoch_def dest!: audit_tables split: if_splits)
qed

lemma revoke_active_device:
  assumes "revoke_device C H ws device w = (Inr (), w')" "distinct (map td_id (db_devices (wd_db w)))"
    "v \<in> set (db_devices (wd_db w))" "td_id v = device" "td_workspace_id v = ws" "td_status v \<noteq> ''revoked''"
  shows "(\<exists>now. db_workspaces (wd_db w') = sql_update (\<lambda>u. tw_id u = ws)
      (\<lambda>u. u\<lparr>tw_local_device_id := (if tw_local_device_id u = Some device then None else tw_local_device_id u),
             tw_key_epoch := tw_key_epoch u + 1, tw_updated_at := now\<rparr>) (db_workspaces (wd_db w)))
    \<and> (\<forall>u \<in> set (db_devices (wd_db w')). td_id u = device \<and> td_workspace_id u = ws \<longrightarrow> td_status u = ''revoked'')"
proof -
  have unique: "r = v" if "r \<in> set (filter (\<lambda>v. td_id v = device \<and> td_workspace_id v = ws) (db_devices (wd_db w)))" for r
    using that assms(2-5) by (auto simp: distinct_map inj_on_def)
  have "v \<in> set (filter (\<lambda>v. td_id v = device \<and> td_workspace_id v = ws) (db_devices (wd_db w)))" using assms(3-5) by simp
  then have "fetch_optional (filter (\<lambda>v. td_id v = device \<and> td_workspace_id v = ws) (db_devices (wd_db w))) = Some v"
    by (rule fetch_optional_unique) (rule unique)
  then obtain au d where d: "revoke_device_rows C H au ws device (wd_db w) = Inr d" "wd_db w' = d"
    using assms(1,6) by (auto simp: revoke_device_def res_iff delete_private_keys_def split: sum.splits if_splits)
  note t = audit_tables [OF d(1) [unfolded revoke_device_rows_def Let_def]]
  have "db_workspaces (wd_db w') = sql_update (\<lambda>u. tw_id u = ws)
      (\<lambda>u. u\<lparr>tw_local_device_id := (if tw_local_device_id u = Some device then None else tw_local_device_id u),
             tw_key_epoch := tw_key_epoch u + 1, tw_updated_at := to_rfc3339 C (he_clock H 0)\<rparr>) (db_workspaces (wd_db w))"
    unfolding d(2) t [THEN conjunct1] by simp
  moreover have "\<forall>u \<in> set (db_devices (wd_db w')). td_id u = device \<and> td_workspace_id u = ws \<longrightarrow> td_status u = ''revoked''"
    unfolding d(2) t [THEN conjunct2, THEN conjunct2] by (simp add: set_sql_update ball_Un) blast
  ultimately show ?thesis by blast
qed

section \<open>Properties\<close>


definition sample_world :: team_world where
  "sample_world = \<lparr>wd_db = no_team, wd_store = Map.empty, wd_files = Map.empty\<rparr>"

definition sample_ids :: "nat \<Rightarrow> string" where
  "sample_ids n = (CHR ''i'') # string_of_nat n"

lemma sample_created: "is_ok (create_workspace toy_crypto sample_ids (\<lambda>_. 5) ''team'' ''ann'' no_team)"
  by code_simp


definition SHARED_PERMISSIONS :: "string list" where
  "SHARED_PERMISSIONS = [''memberRead'', ''memberManage'', ''terminalView'', ''terminalControl'', ''shareManage'']"

lemma is_ok_unit: "is_ok m \<longleftrightarrow> m = Inr ()"
  by (cases m) simp_all

text \<open>C39: The desktop and the relay agree on every permission that both of them check, for every role.\<close>

theorem permissions_agree:
  assumes "permission \<in> set SHARED_PERMISSIONS"
  shows "TeamLocal.require_permission role permission = Inr () \<longleftrightarrow> RelayModels.require_permission role permission = Inr ()"
proof (cases "role \<in> set ROLES")
  case True
  have "list_all (\<lambda>role. list_all (\<lambda>p. is_ok (TeamLocal.require_permission role p) = is_ok (RelayModels.require_permission role p)) SHARED_PERMISSIONS) ROLES"
    by code_simp
  then have "is_ok (TeamLocal.require_permission role permission) = is_ok (RelayModels.require_permission role permission)"
    using True assms by (simp add: list_all_iff)
  then show ?thesis by (simp only: is_ok_unit)
next
  case False
  then show ?thesis using assms
    by (auto simp: SHARED_PERMISSIONS_def permission_iff TeamLocal.require_permission_def permissions_def ROLES_def)
qed

theorem permissions_agree_witness:
  "TeamLocal.require_permission ''operator'' ''terminalControl'' = Inr () \<longleftrightarrow> RelayModels.require_permission ''operator'' ''terminalControl'' = Inr ()"
  by (rule permissions_agree) (simp add: SHARED_PERMISSIONS_def)

text \<open>C21: Once an active member is removed, no device counts for that member any more, and the rooms
  opened before are bound to an old epoch: no operation of their host passes.\<close>

theorem removed_member_locked_out:
  assumes "team_keys_ok d" "remove_member C uuid ck ws i d = Inr d'"
    and "m \<in> set (db_members d)" "is_member ws i m" "tm_status m = ''active''"
    and "hosted C d room s = Inr r" "rm_workspace_id r = ws"
  shows "(\<forall>device role. device_member_role C ws device d' \<noteq> Inr (i, role)) \<and> (\<exists>e. hosted C d' room s = Inl e)"
proof -
  note tables = remove_active_member [OF assms(2) _ assms(3-5)]
  have keys: "distinct (map tm_id (db_members d))" "distinct (map tw_id (db_workspaces d))" using assms(1) by (simp_all add: team_keys_ok_def)
  have "device_member_role C ws device d' \<noteq> Inr (i, role)" for device role
  proof
    assume "device_member_role C ws device d' = Inr (i, role)"
    then obtain n where "n \<in> set (db_members d')" "is_member ws i n" "tm_status n = ''active''"
      by (auto simp: device_member_role_def joined_rows_def is_member_def res_iff dest!: fetch_optional_Some_mem)
    then show False using tables [OF keys(1)] by (auto simp: set_sql_update)
  qed
  moreover have "\<exists>e. hosted C d' room s = Inl e"
  proof (rule hosted_epoch [OF assms(6) keys(2)])
    show "db_workspaces d' = sql_update (\<lambda>w. tw_id w = rm_workspace_id r)
        (\<lambda>w. w\<lparr>tw_key_epoch := tw_key_epoch w + 1, tw_updated_at := to_rfc3339 C (ck 0)\<rparr>) (db_workspaces d)"
      using tables [OF keys(1)] assms(7) by (simp add: advance_epoch_def)
  qed simp_all
  ultimately show ?thesis by blast
qed

text \<open>The owner \<open>o\<close> on device \<open>h\<close> with an operator \<open>p\<close> on device \<open>g\<close>, and a room that \<open>o\<close> hosts.\<close>

definition sample_person :: "string \<Rightarrow> string \<Rightarrow> team_member" where
  "sample_person i role = \<lparr>tm_id = i, tm_workspace_id = ''w'', tm_display_name = i, tm_role = role, tm_status = ''active'',
     tm_joined_at = [], tm_updated_at = [], tm_removed_at = None\<rparr>"

definition sample_device :: "string \<Rightarrow> string \<Rightarrow> team_device" where
  "sample_device i member = \<lparr>td_id = i, td_workspace_id = ''w'', td_member_id = member, td_name = i, td_encryption_public_key = [],
     td_signing_public_key = [], td_fingerprint = [], td_is_local = (member = ''o''), td_status = ''active'', td_created_at = [],
     td_updated_at = [], td_revoked_at = None\<rparr>"

definition sample_team :: team_db where
  "sample_team = \<lparr>db_workspaces = [\<lparr>tw_id = ''w'', tw_name = ''w'', tw_local_member_id = ''o'', tw_key_epoch = 1,
     tw_created_at = [], tw_updated_at = [], tw_local_device_id = Some ''h''\<rparr>],
     db_members = [sample_person ''o'' ''owner'', sample_person ''p'' ''operator''],
     db_devices = [sample_device ''h'' ''o'', sample_device ''g'' ''p''], db_events = []\<rparr>"

definition sample_room :: room where
  "sample_room = \<lparr>rm_id = ''i'', rm_workspace_id = ''w'', rm_terminal_session_id = ''s'', rm_host_member_id = ''o'',
     rm_host_device_id = ''h'', rm_key_epoch = 1, rm_status = ''active'', rm_participants = [], rm_control_lease = None,
     rm_next_output_sequence = 1, rm_lease_generation = 0, rm_room_key = zero_key, rm_replay = [], rm_replay_bytes = 0,
     rm_encrypted_transport = False, rm_created_at = []\<rparr>"

definition sample_collaboration :: collaboration where
  "sample_collaboration = \<lparr>co_rooms = [(''i'', sample_room)], co_client_rooms = []\<rparr>"

lemma sample_team_facts:
  "team_keys_ok sample_team" "hosted toy_crypto sample_team ''i'' sample_collaboration = Inr sample_room"
  "rm_workspace_id sample_room = ''w''" "sample_person ''p'' ''operator'' \<in> set (db_members sample_team)"
  "sample_device ''g'' ''p'' \<in> set (db_devices sample_team)"
  by code_simp+

theorem removed_member_locked_out_witness:
  "\<exists>d'. remove_member toy_crypto ''e'' (\<lambda>_. 5) ''w'' ''p'' sample_team = Inr d'
    \<and> (\<forall>device role. device_member_role toy_crypto ''w'' device d' \<noteq> Inr (''p'', role))"
proof -
  have "is_ok (remove_member toy_crypto ''e'' (\<lambda>_. 5) ''w'' ''p'' sample_team)" by code_simp
  then obtain d' where d': "remove_member toy_crypto ''e'' (\<lambda>_. 5) ''w'' ''p'' sample_team = Inr d'"
    by (auto simp: is_ok_def split: sum.splits)
  moreover have "is_member ''w'' ''p'' (sample_person ''p'' ''operator'')" "tm_status (sample_person ''p'' ''operator'') = ''active''"
    by code_simp+
  ultimately show ?thesis
    using removed_member_locked_out [OF sample_team_facts(1) d' sample_team_facts(4) _ _ sample_team_facts(2,3)] by blast
qed

definition sample_host :: host_env where
  "sample_host = \<lparr>he_meta = (\<lambda>_. None), he_is_dir = (\<lambda>_. True), he_canonical = (\<lambda>_. None), he_read = (\<lambda>_. None), he_write_ok = True,
     he_store_ok = (\<lambda>_. True), he_id = sample_ids, he_clock = (\<lambda>_. 5), he_random = (\<lambda>_. [])\<rparr>"

text \<open>C22: A revoked device no longer counts for any member, and the rooms opened before are closed to
  every operation of their host.\<close>

theorem revoked_device_locked_out:
  assumes "team_keys_ok (wd_db w)" "revoke_device C H ws device w = (Inr (), w')"
    and "v \<in> set (db_devices (wd_db w))" "td_id v = device" "td_workspace_id v = ws" "td_status v = ''active''"
    and "hosted C (wd_db w) room s = Inr r" "rm_workspace_id r = ws"
  shows "(\<exists>e. device_member_role C ws device (wd_db w') = Inl e) \<and> (\<exists>e. hosted C (wd_db w') room s = Inl e)"
proof -
  have keys: "distinct (map td_id (db_devices (wd_db w)))" "distinct (map tw_id (db_workspaces (wd_db w)))"
    using assms(1) by (simp_all add: team_keys_ok_def)
  obtain now where tables: "db_workspaces (wd_db w') = sql_update (\<lambda>u. tw_id u = ws)
      (\<lambda>u. u\<lparr>tw_local_device_id := (if tw_local_device_id u = Some device then None else tw_local_device_id u),
             tw_key_epoch := tw_key_epoch u + 1, tw_updated_at := now\<rparr>) (db_workspaces (wd_db w))"
    "\<forall>u \<in> set (db_devices (wd_db w')). td_id u = device \<and> td_workspace_id u = ws \<longrightarrow> td_status u = ''revoked''"
    using revoke_active_device [OF assms(2) keys(1) assms(3-5)] assms(6) by auto
  have "\<exists>e. device_member_role C ws device (wd_db w') = Inl e"
  proof (rule ccontr)
    assume "\<not> ?thesis"
    then obtain x where "device_member_role C ws device (wd_db w') = Inr x"
      by (cases "device_member_role C ws device (wd_db w')") auto
    then show False using tables(2)
      by (auto simp: device_member_role_def joined_rows_def res_iff dest!: fetch_optional_Some_mem)
  qed
  moreover have "\<exists>e. hosted C (wd_db w') room s = Inl e"
    by (rule hosted_epoch [OF assms(7) keys(2) tables(1) [folded assms(8)]]) simp_all
  ultimately show ?thesis by blast
qed

theorem revoked_device_locked_out_witness:
  "\<exists>w'. revoke_device toy_crypto sample_host ''w'' ''g'' (sample_world\<lparr>wd_db := sample_team\<rparr>) = (Inr (), w')
    \<and> (\<exists>e. device_member_role toy_crypto ''w'' ''g'' (wd_db w') = Inl e)"
proof -
  let ?w = "sample_world\<lparr>wd_db := sample_team\<rparr>"
  have "is_ok (fst (revoke_device toy_crypto sample_host ''w'' ''g'' ?w))" by code_simp
  then obtain w' where w': "revoke_device toy_crypto sample_host ''w'' ''g'' ?w = (Inr (), w')"
    by (cases "revoke_device toy_crypto sample_host ''w'' ''g'' ?w") (auto simp: is_ok_unit)
  moreover have "td_id (sample_device ''g'' ''p'') = ''g''" "td_workspace_id (sample_device ''g'' ''p'') = ''w''"
    "td_status (sample_device ''g'' ''p'') = ''active''"
    by code_simp+
  ultimately show ?thesis
    using revoked_device_locked_out [of ?w toy_crypto sample_host "''w''" "''g''" w' "sample_device ''g'' ''p''" "''i''" sample_collaboration sample_room]
      sample_team_facts by auto
qed

end
