(* ===== verification/RelayClient.thy ===== *)
theory RelayClient
  imports Collaboration
begin

text \<open>
  The online side of a terminal room (\<open>team_relay_terminal.rs\<close>): the queue of frames that wait for
  the relay, the messages of the relay, and the task \<open>run_room\<close> that connects, reconnects and
  forwards. A turn of its \<open>select!\<close> is one step, given the event that was ready and whether the
  socket took what was sent.
\<close>

section \<open>State\<close>

definition MAX_PENDING_FRAMES :: nat where "MAX_PENDING_FRAMES = 512"
definition MAX_PENDING_BYTES :: nat where "MAX_PENDING_BYTES = 4 * 1024 * 1024"
definition MAX_SOCKET_MESSAGE_BYTES :: nat where "MAX_SOCKET_MESSAGE_BYTES = 128 * 1024"

record member_view =
  mv_member_id :: string
  mv_device_id :: string
  mv_role :: string
  mv_joined_at :: string

text \<open>Why a room reconnects or failed; the texts of the messages are not kept.\<close>

datatype reason =
    Failure app_error
  | ConnectFailed
  | Refreshing
  | HeartbeatLost
  | SendFailed
  | Disconnected
  | PeerClosed
  | BadMessage
  | IdentityChanged
  | ServerSays string

record relay_session =
  ts_room_id :: string
  ts_workspace_id :: string
  ts_mode :: string
  ts_terminal_session_id :: "string option"
  ts_local_member_id :: string
  ts_local_device_id :: string
  ts_status :: string
  ts_last_error :: "reason option"
  ts_last_output_sequence :: u64
  ts_participants :: "member_view list"
  ts_control_lease :: "lease option"
  ts_created_at :: string

datatype server_message =
    Ready u64 u64
  | Accepted string u64
  | ServerFrame frame
  | Control "lease option"
  | Participants "member_view list"
  | ServerClosed
  | ServerError string string

datatype server_action = NoAction | NowReady | SendNext | Reconnect reason | RoomClosed

record queued =
  qf_frame :: frame
  qf_bytes :: nat

text \<open>What a step does outside: events for the frontend, input for a terminal, messages on the socket.\<close>

datatype effect =
    Emit string relay_session "u64 option" "string option"
  | TerminalInput string string
  | SendFrame frame
  | SendPing
  | SendPong
  | SendClose

text \<open>The task waits for its next attempt, connects, is connected (ready or not, until a deadline) or is over.\<close>

datatype phase = Waiting | Connecting | Connected bool int | Finished

text \<open>A room: its session, the channel from the senders to the task, the counter of bytes, and the task.\<close>

record managed_room =
  mr_session :: relay_session
  mr_channel :: "queued list"
  mr_bytes :: nat
  mr_close :: bool
  mr_pending :: "queued list"
  mr_attempt :: nat
  mr_next_connect :: int
  mr_phase :: phase

section \<open>The queue\<close>

definition reserve_pending_bytes :: "nat \<Rightarrow> nat \<Rightarrow> nat app_result" where
  "reserve_pending_bytes bytes current =
     rbind (guard (current + bytes < 2 ^ 64) Unavailable) (\<lambda>_.
     rbind (guard (current + bytes \<le> MAX_PENDING_BYTES) Unavailable) (\<lambda>_. Inr (current + bytes)))"

definition release_pending_bytes :: "nat \<Rightarrow> nat \<Rightarrow> nat" where
  "release_pending_bytes bytes current = current - bytes"

fun confirm_front :: "queued list \<times> nat \<Rightarrow> queued list \<times> nat" where
  "confirm_front ([], b) = ([], b)"
| "confirm_front (q # qs, b) = (qs, release_pending_bytes (qf_bytes q) b)"

fun drop_confirmed :: "u64 \<Rightarrow> queued list \<Rightarrow> nat \<Rightarrow> queued list \<times> nat" where
  "drop_confirmed expected [] b = ([], b)"
| "drop_confirmed expected (q # qs) b =
     (if fr_sequence (qf_frame q) < expected then drop_confirmed expected qs (release_pending_bytes (qf_bytes q) b) else (q # qs, b))"

text \<open>The queue without what the relay has already committed; a gap is an error, after the drop.\<close>

definition reconcile_pending :: "u64 \<Rightarrow> queued list \<times> nat \<Rightarrow> unit app_result \<times> queued list \<times> nat" where
  "reconcile_pending expected = (\<lambda>(qs, b). let (qs, b) = drop_confirmed expected qs b in
     (guard (case qs of [] \<Rightarrow> True | q # _ \<Rightarrow> fr_sequence (qf_frame q) \<le> expected) Unavailable, qs, b))"

definition acknowledge_front :: "string \<Rightarrow> u64 \<Rightarrow> queued list \<times> nat \<Rightarrow> bool \<times> queued list \<times> nat" where
  "acknowledge_front direction sequence p =
     (if case fst p of [] \<Rightarrow> False | q # _ \<Rightarrow> fr_direction (qf_frame q) = direction \<and> fr_sequence (qf_frame q) = sequence
      then (True, confirm_front p) else (False, p))"

section \<open>Sending\<close>

definition validate_send_state :: "string \<Rightarrow> relay_session \<Rightarrow> unit app_result" where
  "validate_send_state mode t =
     rbind (guard (ts_mode t = mode) PermissionDenied) (\<lambda>_. guard (ts_status t \<notin> {''failed'', ''closed''}) Unavailable)"

text \<open>The reservation for the largest message is cut down to the size of the frame.\<close>

definition finish_reserved_frame :: "codec \<Rightarrow> frame \<Rightarrow> managed_room \<Rightarrow> unit app_result \<times> managed_room" where
  "finish_reserved_frame J f r =
     (case jcs_frame J f of
        None \<Rightarrow> (Inl Validation, r\<lparr>mr_bytes := release_pending_bytes MAX_SOCKET_MESSAGE_BYTES (mr_bytes r)\<rparr>)
      | Some t \<Rightarrow>
         (if MAX_SOCKET_MESSAGE_BYTES < length t
          then (Inl Validation, r\<lparr>mr_bytes := release_pending_bytes MAX_SOCKET_MESSAGE_BYTES (mr_bytes r)\<rparr>)
          else (Inr (), r\<lparr>mr_bytes := release_pending_bytes (MAX_SOCKET_MESSAGE_BYTES - length t) (mr_bytes r),
                  mr_channel := mr_channel r @ [\<lparr>qf_frame = f, qf_bytes = length t\<rparr>]\<rparr>)))"

text \<open>
  A send takes a place in the channel (the task is still there and the channel has room: otherwise
  the sender waits), reserves bytes, lets the manager encrypt, and gives the bytes back when that
  fails. The lock of the room keeps the order of the numbers in the channel.
\<close>

definition send_frame ::
    "codec \<Rightarrow> string \<Rightarrow> (collaboration \<Rightarrow> frame step) \<Rightarrow> managed_room \<Rightarrow> collaboration \<Rightarrow> unit app_result \<times> managed_room \<times> collaboration" where
  "send_frame J mode encrypt r s =
     (case rbind (validate_send_state mode (mr_session r)) (\<lambda>_.
           rbind (guard (mr_phase r \<noteq> Finished) Unavailable) (\<lambda>_.
           reserve_pending_bytes MAX_SOCKET_MESSAGE_BYTES (mr_bytes r))) of
        Inl e \<Rightarrow> (Inl e, r, s)
      | Inr b \<Rightarrow>
         (case encrypt s of
            (Inl e, s) \<Rightarrow> (Inl e, r\<lparr>mr_bytes := release_pending_bytes MAX_SOCKET_MESSAGE_BYTES b\<rparr>, s)
          | (Inr f, s) \<Rightarrow> (case finish_reserved_frame J f (r\<lparr>mr_bytes := b\<rparr>) of (res, r) \<Rightarrow> (res, r, s))))"

definition encrypt_and_enqueue_output ::
    "crypto \<Rightarrow> codec \<Rightarrow> team_db \<Rightarrow> drawn \<Rightarrow> string \<Rightarrow> string \<Rightarrow> managed_room \<Rightarrow> collaboration \<Rightarrow> unit app_result \<times> managed_room \<times> collaboration" where
  "encrypt_and_enqueue_output C J d E room_id bytes = send_frame J ''host'' (publish_encrypted_output C J d E room_id bytes)"

definition encrypt_and_enqueue_input ::
    "crypto \<Rightarrow> codec \<Rightarrow> team_db \<Rightarrow> drawn \<Rightarrow> string \<Rightarrow> string \<Rightarrow> u64 \<Rightarrow> string \<Rightarrow> managed_room \<Rightarrow> collaboration \<Rightarrow> unit app_result \<times> managed_room \<times> collaboration" where
  "encrypt_and_enqueue_input C J d E room_id lease_id generation bytes =
     send_frame J ''participant'' (encrypt_input C J d E room_id lease_id generation bytes)"

section \<open>Changes of the session\<close>

definition set_session :: "(relay_session \<Rightarrow> relay_session) \<Rightarrow> managed_room \<Rightarrow> managed_room" where
  "set_session f r = r\<lparr>mr_session := f (mr_session r)\<rparr>"

definition raise_output :: "u64 \<Rightarrow> managed_room \<Rightarrow> managed_room" where
  "raise_output q = set_session (\<lambda>t. t\<lparr>ts_last_output_sequence := max (ts_last_output_sequence t) q\<rparr>)"

text \<open>Every change that the frontend is told of.\<close>

type_synonym room_step = "effect list \<times> managed_room"

definition announce :: "string \<Rightarrow> managed_room \<Rightarrow> room_step" where
  "announce kind r = ([Emit kind (mr_session r) None None], r)"

definition set_online :: "managed_room \<Rightarrow> room_step" where
  "set_online r = announce ''status'' (set_session (\<lambda>t. t\<lparr>ts_status := ''online'', ts_last_error := None\<rparr>) r)"

definition set_reconnecting :: "reason \<Rightarrow> managed_room \<Rightarrow> room_step" where
  "set_reconnecting why r = announce ''status'' (set_session (\<lambda>t. t\<lparr>ts_status := ''reconnecting'', ts_last_error := Some why\<rparr>) r)"

definition finish_room :: "string \<Rightarrow> reason option \<Rightarrow> managed_room \<Rightarrow> room_step" where
  "finish_room final why r = announce ''status''
     (set_session (\<lambda>t. t\<lparr>ts_status := final, ts_last_error := why, ts_control_lease := None\<rparr>) (r\<lparr>mr_bytes := 0, mr_phase := Finished\<rparr>))"

definition andThen :: "room_step \<Rightarrow> (managed_room \<Rightarrow> room_step) \<Rightarrow> room_step" where
  "andThen p f = (case p of (es, r) \<Rightarrow> (case f r of (es', r) \<Rightarrow> (es @ es', r)))"

section \<open>Messages of the relay\<close>

text \<open>A lease is kept while it has not expired.\<close>

definition unexpired_lease :: "crypto \<Rightarrow> int \<Rightarrow> lease option \<Rightarrow> lease option" where
  "unexpired_lease C now l = (case l of None \<Rightarrow> None | Some l \<Rightarrow>
     (case parse_rfc3339 C (le_expires_at l) of None \<Rightarrow> None | Some expires \<Rightarrow> if now < expires then Some l else None))"

text \<open>The outer functions that a message reaches: the tables, the readings and the terminal.\<close>

record outside =
  ou_db :: team_db
  ou_drawn :: drawn
  ou_again :: drawn
  ou_terminal :: "string \<Rightarrow> string \<Rightarrow> unit app_result"

definition on_ready :: "u64 \<Rightarrow> u64 \<Rightarrow> managed_room \<Rightarrow> server_action app_result \<times> managed_room" where
  "on_ready latest next_input r =
     (let expected = (if ts_mode (mr_session r) = ''host'' then sat_add latest 1 else next_input);
          (res, qs, b) = reconcile_pending expected (mr_pending r, mr_bytes r);
          r = r\<lparr>mr_pending := qs, mr_bytes := b\<rparr>
      in case res of Inl e \<Rightarrow> (Inl e, r)
         | Inr _ \<Rightarrow> (Inr NowReady, if ts_mode (mr_session r) = ''host'' then raise_output latest r else r))"

definition on_accepted :: "string \<Rightarrow> u64 \<Rightarrow> managed_room \<Rightarrow> server_action app_result \<times> managed_room" where
  "on_accepted direction sequence r =
     (case acknowledge_front direction sequence (mr_pending r, mr_bytes r) of (hit, qs, b) \<Rightarrow>
        let r = r\<lparr>mr_pending := qs, mr_bytes := b\<rparr> in
        if hit then (Inr SendNext, if direction = ''output'' then raise_output sequence r else r) else (Inr NoAction, r))"

definition on_frame ::
    "crypto \<Rightarrow> codec \<Rightarrow> outside \<Rightarrow> frame \<Rightarrow> managed_room \<Rightarrow> collaboration \<Rightarrow> server_action app_result \<times> effect list \<times> managed_room \<times> collaboration" where
  "on_frame C J U f r s =
     (let mode = ts_mode (mr_session r) in
      if mode = ''host'' \<and> fr_direction f = ''output'' then (Inr NoAction, [], raise_output (fr_sequence f) r, s)
      else if mode = ''participant'' \<and> fr_direction f = ''output''
      then (case decrypt_output C J (ou_db U) f s of
              (Inl e, s) \<Rightarrow> (Inl e, [], r, s)
            | (Inr p, s) \<Rightarrow>
               (let r = set_session (\<lambda>t. t\<lparr>ts_last_output_sequence := pf_sequence p\<rparr>) r
                in (Inr NoAction, [Emit ''output'' (mr_session r) (Some (pf_sequence p)) (Some (pf_data_base64 p))], r, s)))
      else if mode = ''host'' \<and> fr_direction f = ''input''
      then (case receive_encrypted_input C J (ou_db U) (ou_drawn U) (ou_again U) f s of
              (Inl e, s) \<Rightarrow> (Inl e, [], r, s)
            | (Inr (session, bytes), s) \<Rightarrow>
               (case ou_terminal U session bytes of
                  Inl e \<Rightarrow> (Inl e, [TerminalInput session bytes], r, s)
                | Inr _ \<Rightarrow> (Inr NoAction, [TerminalInput session bytes], r, s)))
      else (Inl PermissionDenied, [], r, s))"

definition on_control ::
    "crypto \<Rightarrow> outside \<Rightarrow> lease option \<Rightarrow> managed_room \<Rightarrow> collaboration \<Rightarrow> server_action app_result \<times> effect list \<times> managed_room \<times> collaboration" where
  "on_control C U l r s =
     (let next = unexpired_lease C (dr_now (ou_drawn U)) l; room_id = ts_room_id (mr_session r);
          keep = (\<lambda>l s. let r = set_session (\<lambda>t. t\<lparr>ts_control_lease := l\<rparr>) r
                        in (Inr NoAction, [Emit ''control'' (mr_session r) None None], r, s))
      in if ts_mode (mr_session r) = ''host''
         then (case (case next of Some l \<Rightarrow> apply_control_lease C (ou_db U) (ou_again U) room_id l s
                                | None \<Rightarrow> revoke_control C (ou_db U) (ou_again U) room_id s) of
                 (Inl e, s) \<Rightarrow> (Inl e, [], r, s)
               | (Inr v, s) \<Rightarrow> keep (rv_control_lease v) s)
         else keep next s)"

definition handle_server_message ::
    "crypto \<Rightarrow> codec \<Rightarrow> outside \<Rightarrow> server_message \<Rightarrow> managed_room \<Rightarrow> collaboration \<Rightarrow> server_action app_result \<times> effect list \<times> managed_room \<times> collaboration" where
  "handle_server_message C J U m r s = (case m of
     Ready latest next_input \<Rightarrow> (case on_ready latest next_input r of (res, r) \<Rightarrow> (res, [], r, s))
   | Accepted direction sequence \<Rightarrow> (case on_accepted direction sequence r of (res, r) \<Rightarrow> (res, [], r, s))
   | ServerFrame f \<Rightarrow> on_frame C J U f r s
   | Control l \<Rightarrow> on_control C U l r s
   | Participants ps \<Rightarrow>
      (let r = set_session (\<lambda>t. t\<lparr>ts_participants := ps\<rparr>) r in (Inr NoAction, [Emit ''participants'' (mr_session r) None None], r, s))
   | ServerClosed \<Rightarrow> (Inr RoomClosed, [], r, s)
   | ServerError code message \<Rightarrow>
      (if code = ''authentication'' then Inr (Reconnect (ServerSays message)) else Inl Remote, [], r, s))"

section \<open>The task of a room\<close>

text \<open>The context of the device session, as \<open>team_relay.rs\<close> provides it.\<close>

record device_context =
  cx_base_url :: string
  cx_workspace_id :: string
  cx_member_id :: string
  cx_device_id :: string
  cx_token :: string
  cx_expires_at :: string

definition reconnect_delay :: "nat \<Rightarrow> int" where
  "reconnect_delay attempt = secs (if attempt \<le> 1 then 1 else if attempt = 2 then 2 else if attempt = 3 then 5 else if attempt = 4 then 10 else 30)"

text \<open>Thirty seconds before the device session expires; an unreadable or past date is now.\<close>

definition token_refresh_deadline :: "crypto \<Rightarrow> drawn \<Rightarrow> string \<Rightarrow> int" where
  "token_refresh_deadline C E expires_at =
     dr_instant E + max 0 ((case parse_rfc3339 C expires_at of None \<Rightarrow> 0 | Some t \<Rightarrow> max 0 (t - dr_now E)) - secs 30)"

text \<open>
  The address of the socket, with the query \<open>afterSequence\<close>, through the URL and HTTP crates
  (parameters): parsing and printing of the base address, and whether the token fits a header.
\<close>

record web =
  wb_scheme :: "string \<Rightarrow> string option"
  wb_rebase :: "string \<Rightarrow> string \<Rightarrow> string \<Rightarrow> string \<Rightarrow> string option"
  wb_header_ok :: "string \<Rightarrow> bool"

definition socket_request :: "web \<Rightarrow> string \<Rightarrow> string \<Rightarrow> u64 \<Rightarrow> string \<Rightarrow> string app_result" where
  "socket_request W base_url room_id after token =
     rbind (ok_or (wb_scheme W base_url) Validation) (\<lambda>scheme.
     rbind (if scheme = ''https'' then Inr ''wss'' else if scheme = ''http'' then Inr ''ws'' else Inl Validation) (\<lambda>scheme.
     rbind (ok_or (wb_rebase W base_url scheme (''/v1/terminal/ws/'' @ room_id) (''afterSequence='' @ string_of_nat after)) Validation) (\<lambda>url.
     rbind (guard (wb_header_ok W (''Bearer '' @ token)) Authentication) (\<lambda>_. Inr url))))"

text \<open>Back to the head of the outer loop, where the close flag is looked at.\<close>

definition again_at :: "int \<Rightarrow> managed_room \<Rightarrow> room_step" where
  "again_at t r = (let r = r\<lparr>mr_next_connect := t, mr_phase := Waiting\<rparr> in
     if mr_close r then finish_room ''closed'' None r else ([], r))"

definition reconnect :: "reason \<Rightarrow> int \<Rightarrow> managed_room \<Rightarrow> room_step" where
  "reconnect why t r = andThen (set_reconnecting why r) (again_at t)"

text \<open>A failed attempt waits longer each time, up to half a minute.\<close>

definition failed_attempt :: "drawn \<Rightarrow> reason \<Rightarrow> managed_room \<Rightarrow> room_step" where
  "failed_attempt E why r = (let n = mr_attempt r + 1 in
     reconnect why (dr_instant E + reconnect_delay n) (r\<lparr>mr_attempt := n\<rparr>))"

definition send_front :: "bool \<Rightarrow> int \<Rightarrow> managed_room \<Rightarrow> room_step" where
  "send_front sent now r = (case mr_pending r of
     [] \<Rightarrow> ([], r)
   | q # _ \<Rightarrow> if sent then ([SendFrame (qf_frame q)], r) else andThen ([SendFrame (qf_frame q)], r) (reconnect SendFailed (now + secs 1)))"

text \<open>
  What the task can be woken by: the close flag, the timers, a command from the channel (or its end),
  the outcome of an attempt to connect, and what the socket brings.
\<close>

datatype incoming =
    Text "server_message option"
  | LongText
  | Binary
  | Ping
  | Pong
  | CloseFrame
  | Broken

datatype event =
    CloseSignal
  | TimerDue
  | NextCommand
  | ChannelEnd
  | Attempt "device_context app_result" "unit app_result"
  | DeadlineDue
  | HeartbeatDue
  | Incoming incoming

definition take_command :: "managed_room \<Rightarrow> managed_room" where
  "take_command r = (case mr_channel r of [] \<Rightarrow> r | q # qs \<Rightarrow> r\<lparr>mr_channel := qs, mr_pending := mr_pending r @ [q]\<rparr>)"

definition waiting_step :: "drawn \<Rightarrow> event \<Rightarrow> managed_room \<Rightarrow> room_step" where
  "waiting_step E ev r = (case ev of
     CloseSignal \<Rightarrow> if mr_close r then finish_room ''closed'' None r else ([], r)
   | TimerDue \<Rightarrow> if mr_next_connect r \<le> dr_instant E then ([], r\<lparr>mr_phase := Connecting\<rparr>) else ([], r)
   | NextCommand \<Rightarrow> ([], take_command r)
   | ChannelEnd \<Rightarrow> finish_room ''closed'' None (r\<lparr>mr_pending := [], mr_bytes := 0\<rparr>)
   | _ \<Rightarrow> ([], r))"

definition connecting_step :: "crypto \<Rightarrow> web \<Rightarrow> drawn \<Rightarrow> event \<Rightarrow> managed_room \<Rightarrow> room_step" where
  "connecting_step C W E ev r = (case ev of
     Attempt context connected \<Rightarrow>
      (case context of
         Inl e \<Rightarrow> failed_attempt E (Failure e) r
       | Inr cx \<Rightarrow>
          (if cx_workspace_id cx \<noteq> ts_workspace_id (mr_session r) \<or> cx_member_id cx \<noteq> ts_local_member_id (mr_session r)
              \<or> cx_device_id cx \<noteq> ts_local_device_id (mr_session r)
           then finish_room ''failed'' (Some IdentityChanged) r
           else case socket_request W (cx_base_url cx) (ts_room_id (mr_session r)) (ts_last_output_sequence (mr_session r)) (cx_token cx) of
               Inl e \<Rightarrow> finish_room ''failed'' (Some (Failure e)) r
             | Inr _ \<Rightarrow>
                (case connected of
                   Inl e \<Rightarrow> failed_attempt E ConnectFailed r
                 | Inr _ \<Rightarrow> ([], r\<lparr>mr_attempt := 0, mr_phase := Connected False (token_refresh_deadline C E (cx_expires_at cx))\<rparr>))))
   | _ \<Rightarrow> ([], r))"

definition after_message :: "bool \<Rightarrow> drawn \<Rightarrow> bool \<Rightarrow> int \<Rightarrow> server_action app_result \<Rightarrow> managed_room \<Rightarrow> room_step" where
  "after_message sent E ready deadline res r = (case res of
     Inl e \<Rightarrow> finish_room ''failed'' (Some (Failure e)) r
   | Inr NoAction \<Rightarrow> ([], r)
   | Inr NowReady \<Rightarrow> andThen (set_online (r\<lparr>mr_phase := Connected True deadline\<rparr>)) (send_front sent (dr_instant E))
   | Inr SendNext \<Rightarrow> if ready then send_front sent (dr_instant E) r else ([], r)
   | Inr (Reconnect why) \<Rightarrow> reconnect why (dr_instant E + secs 1) r
   | Inr RoomClosed \<Rightarrow> finish_room ''closed'' None r)"

definition connected_step ::
    "crypto \<Rightarrow> codec \<Rightarrow> outside \<Rightarrow> bool \<Rightarrow> bool \<Rightarrow> int \<Rightarrow> event \<Rightarrow> managed_room \<Rightarrow> collaboration \<Rightarrow> room_step \<times> collaboration" where
  "connected_step C J U sent ready deadline ev r s =
     (let E = ou_drawn U; now = dr_instant E in
      case ev of
        CloseSignal \<Rightarrow> (if mr_close r then andThen ([SendClose], r) (finish_room ''closed'' None) else ([], r), s)
      | DeadlineDue \<Rightarrow> (if deadline \<le> now then reconnect Refreshing now r else ([], r), s)
      | HeartbeatDue \<Rightarrow> (andThen ([SendPing], r) (if sent then Pair [] else reconnect HeartbeatLost (now + secs 1)), s)
      | NextCommand \<Rightarrow>
         (case mr_channel r of
            [] \<Rightarrow> (([], r), s)
          | _ \<Rightarrow> (let r = take_command r in (if ready \<and> length (mr_pending r) = 1 then send_front sent now r else ([], r), s)))
      | ChannelEnd \<Rightarrow> (andThen ([SendClose], r) (finish_room ''closed'' None), s)
      | Incoming i \<Rightarrow>
         (case i of
            Broken \<Rightarrow> (reconnect Disconnected (now + secs 1) r, s)
          | Text None \<Rightarrow> (finish_room ''failed'' (Some BadMessage) r, s)
          | Text (Some m) \<Rightarrow>
             (case handle_server_message C J U m r s of (res, es, r, s) \<Rightarrow> (andThen (es, r) (after_message sent E ready deadline res), s))
          | Ping \<Rightarrow> (andThen ([SendPong], r) (if sent then Pair [] else again_at (now + secs 1)), s)
          | CloseFrame \<Rightarrow> (reconnect PeerClosed (now + secs 1) r, s)
          | LongText \<Rightarrow> (finish_room ''failed'' (Some BadMessage) r, s)
          | Binary \<Rightarrow> (finish_room ''failed'' (Some BadMessage) r, s)
          | Pong \<Rightarrow> (([], r), s))
      | _ \<Rightarrow> (([], r), s))"

text \<open>One turn of \<open>run_room\<close>.\<close>

definition room_turn ::
    "crypto \<Rightarrow> codec \<Rightarrow> web \<Rightarrow> outside \<Rightarrow> bool \<Rightarrow> event \<Rightarrow> managed_room \<Rightarrow> collaboration \<Rightarrow> room_step \<times> collaboration" where
  "room_turn C J W U sent ev r s = (case mr_phase r of
     Waiting \<Rightarrow> (waiting_step (ou_drawn U) ev r, s)
   | Connecting \<Rightarrow> (connecting_step C W (ou_drawn U) ev r, s)
   | Connected ready deadline \<Rightarrow> connected_step C J U sent ready deadline ev r s
   | Finished \<Rightarrow> (([], r), s))"

section \<open>The manager\<close>

type_synonym relay_rooms = "(string \<times> managed_room) list"

record connect_input =
  ci_room_id :: string
  ci_workspace_id :: string
  ci_mode :: string
  ci_terminal_session_id :: "string option"
  ci_local_member_id :: string
  ci_local_device_id :: string
  ci_after_sequence :: u64
  ci_participants :: "member_view list"
  ci_control_lease :: "lease option"

definition connected_session :: "crypto \<Rightarrow> drawn \<Rightarrow> connect_input \<Rightarrow> relay_session" where
  "connected_session C E v = \<lparr>ts_room_id = ci_room_id v, ts_workspace_id = ci_workspace_id v, ts_mode = ci_mode v,
     ts_terminal_session_id = ci_terminal_session_id v, ts_local_member_id = ci_local_member_id v, ts_local_device_id = ci_local_device_id v,
     ts_status = ''connecting'', ts_last_error = None, ts_last_output_sequence = ci_after_sequence v, ts_participants = ci_participants v,
     ts_control_lease = ci_control_lease v, ts_created_at = to_rfc3339 C (dr_now E)\<rparr>"

definition new_room :: "crypto \<Rightarrow> drawn \<Rightarrow> connect_input \<Rightarrow> managed_room" where
  "new_room C E v = \<lparr>mr_session = connected_session C E v, mr_channel = [], mr_bytes = 0, mr_close = False, mr_pending = [], mr_attempt = 0,
     mr_next_connect = dr_instant E, mr_phase = Waiting\<rparr>"

definition connect_room :: "crypto \<Rightarrow> drawn \<Rightarrow> connect_input \<Rightarrow> relay_rooms \<Rightarrow> relay_session app_result \<times> effect list \<times> relay_rooms" where
  "connect_room C E v rs =
     (if ci_mode v \<notin> {''host'', ''participant''} \<or> \<not> uuid_ok C (ci_room_id v) \<or> \<not> uuid_ok C (ci_workspace_id v) then (Inl Validation, [], rs)
      else let rs = filter (\<lambda>(i, r). ts_status (mr_session r) \<notin> {''closed'', ''failed''}) rs in
        if ci_room_id v \<in> fst ` set rs \<or> 16 \<le> length rs then (Inl Validation, [], rs)
        else let t = connected_session C E v in (Inr t, [Emit ''status'' t None None], AList.update (ci_room_id v) (new_room C E v) rs))"

definition list_rooms :: "relay_rooms \<Rightarrow> relay_session list" where
  "list_rooms rs = sort_key ts_created_at (map (\<lambda>(i, r). mr_session r) rs)"

definition room_status :: "string \<Rightarrow> relay_rooms \<Rightarrow> relay_session app_result" where
  "room_status i rs = ok_or (map_option mr_session (map_of rs i)) NotFound"

text \<open>A control change of the host itself; the room is the view of the collaboration manager.\<close>

definition update_host_control :: "room_view \<Rightarrow> relay_rooms \<Rightarrow> relay_session app_result \<times> effect list \<times> relay_rooms" where
  "update_host_control v rs = (case map_of rs (rv_id v) of
     None \<Rightarrow> (Inl NotFound, [], rs)
   | Some r \<Rightarrow>
      (if ts_mode (mr_session r) \<noteq> ''host'' \<or> ts_workspace_id (mr_session r) \<noteq> rv_workspace_id v then (Inl PermissionDenied, [], rs)
       else let r = set_session (\<lambda>t. t\<lparr>ts_control_lease := rv_control_lease v\<rparr>) r
            in (Inr (mr_session r), [Emit ''control'' (mr_session r) None None], AList.update (rv_id v) r rs)))"

definition request_close :: "managed_room \<Rightarrow> managed_room" where
  "request_close r = set_session (\<lambda>t. t\<lparr>ts_status := ''closed'', ts_control_lease := None\<rparr>) (r\<lparr>mr_close := True\<rparr>)"

definition close_room :: "string \<Rightarrow> relay_rooms \<Rightarrow> relay_session app_result \<times> relay_rooms" where
  "close_room i rs = (case map_of rs i of
     None \<Rightarrow> (Inl NotFound, rs) | Some r \<Rightarrow> (Inr (mr_session (request_close r)), AList.update i (request_close r) rs))"

definition close_all_rooms :: "relay_rooms \<Rightarrow> relay_rooms" where
  "close_all_rooms rs = map (\<lambda>(i, r). (i, request_close r)) rs"

text \<open>Sending through the manager: the room has to be there and its session to allow it.\<close>

definition send_output ::
    "crypto \<Rightarrow> codec \<Rightarrow> team_db \<Rightarrow> drawn \<Rightarrow> string \<Rightarrow> string \<Rightarrow> relay_rooms \<Rightarrow> collaboration \<Rightarrow> unit app_result \<times> relay_rooms \<times> collaboration" where
  "send_output C J d E i bytes rs s = (case map_of rs i of
     None \<Rightarrow> (Inl NotFound, rs, s)
   | Some r \<Rightarrow> (case encrypt_and_enqueue_output C J d E i bytes r s of (res, r, s) \<Rightarrow> (res, AList.update i r rs, s)))"

definition send_input ::
    "crypto \<Rightarrow> codec \<Rightarrow> team_db \<Rightarrow> drawn \<Rightarrow> string \<Rightarrow> string \<Rightarrow> u64 \<Rightarrow> string \<Rightarrow> relay_rooms \<Rightarrow> collaboration \<Rightarrow> unit app_result \<times> relay_rooms \<times> collaboration" where
  "send_input C J d E i lease_id generation bytes rs s = (case map_of rs i of
     None \<Rightarrow> (Inl NotFound, rs, s)
   | Some r \<Rightarrow> (case encrypt_and_enqueue_input C J d E i lease_id generation bytes r s of (res, r, s) \<Rightarrow> (res, AList.update i r rs, s)))"

end
