(* ===== verification/RelayOutbox.thy ===== *)
theory RelayOutbox
  imports RelayClient CollabDelivery
begin

text \<open>
  The output of a host on its way to the relay: the collaboration manager numbers the frames, the
  queue of the room keeps them until the relay has committed them, over any number of connections.
\<close>

section \<open>The numbers of a room\<close>

text \<open>An operation that publishes nothing in room \<open>i\<close>.\<close>

definition numbers_kept :: "string \<Rightarrow> collaboration \<Rightarrow> collaboration \<Rightarrow> bool" where
  "numbers_kept i s s' \<longleftrightarrow> (\<forall>r'. find_room i s' = Inr r' \<longrightarrow> (\<exists>r. find_room i s = Inr r \<and> rm_next_output_sequence r' = rm_next_output_sequence r))"

lemma numbers_kept_refl [simp]: "numbers_kept i s s"
  by (simp add: numbers_kept_def)

lemma numbers_kept_trans: "numbers_kept i s s' \<Longrightarrow> numbers_kept i s' s'' \<Longrightarrow> numbers_kept i s s''"
  unfolding numbers_kept_def by metis

lemma find_put_other: "k \<noteq> i \<Longrightarrow> find_room i (put_room k r s) = find_room i s"
  by (simp add: find_room_def put_room_def update_conv)

lemma numbers_kept_put:
  "find_room k s = Inr r \<Longrightarrow> rm_next_output_sequence r' = rm_next_output_sequence r \<Longrightarrow> numbers_kept i s (put_room k r' s)"
  by (cases "k = i") (auto simp: numbers_kept_def find_put_room find_put_other)

lemma numbers_kept_client [simp]: "numbers_kept i s (put_client k c s)"
  by (simp add: numbers_kept_def find_room_def put_client_def)

lemma numbers_kept_with_room: "(\<And>x. m = Inr x \<Longrightarrow> numbers_kept i s (snd (f x s))) \<Longrightarrow> numbers_kept i s (snd (with_room f m s))"
  by (simp add: with_room_def split: sum.split)

lemma expire_lease_number [simp]: "rm_next_output_sequence (expire_lease t r) = rm_next_output_sequence r"
  by (simp add: expire_lease_def split: option.split)

lemma numbers_kept_shown:
  "find_room k s = Inr r \<Longrightarrow> rm_next_output_sequence r' = rm_next_output_sequence r \<Longrightarrow> numbers_kept i s (snd (shown t k r' s))"
  by (simp add: shown_def Let_def numbers_kept_put)

lemma numbers_kept_lease: "numbers_kept i s (snd (apply_control_lease C d E k l s))"
  unfolding apply_control_lease_def
  by (rule numbers_kept_with_room) (auto simp: res_iff intro!: numbers_kept_shown)

lemma numbers_kept_revoke: "numbers_kept i s (snd (revoke_control C d E k s))"
  unfolding revoke_control_def by (rule numbers_kept_with_room) (auto simp: hosted_Inr intro!: numbers_kept_shown)

lemma numbers_kept_output: "numbers_kept i s (snd (decrypt_output C J d f s))"
  unfolding decrypt_output_def by (rule numbers_kept_with_room) auto

lemma numbers_kept_input: "numbers_kept i s (snd (receive_input C d E k device lease_id q data s))"
  unfolding receive_input_def
  by (rule numbers_kept_with_room) (auto simp: res_iff Let_def intro!: numbers_kept_put split: sum.split)

lemma numbers_kept_then:
  "numbers_kept i s s' \<Longrightarrow> (\<And>x. numbers_kept i s' (snd (g x s'))) \<Longrightarrow> numbers_kept i s (snd (with_room g m s'))"
  using numbers_kept_trans numbers_kept_with_room by metis

lemma numbers_kept_encrypted_input: "numbers_kept i s (snd (receive_encrypted_input C J d E E' f s))"
  unfolding receive_encrypted_input_def
  by (rule numbers_kept_with_room)
    (auto simp: res_iff Let_def intro!: numbers_kept_then [OF numbers_kept_put] numbers_kept_input)

text \<open>Publishing takes the next number.\<close>

lemma publish_numbers:
  assumes "publish_encrypted_output C J d E i bytes s = (res, s')" "\<forall>f. jcs_frame J f \<noteq> None"
  shows "case res of Inl _ \<Rightarrow> s' = s | Inr f \<Rightarrow> \<exists>r r'. find_room i s = Inr r \<and> find_room i s' = Inr r'
    \<and> rm_next_output_sequence r' = rm_next_output_sequence r + 1 \<and> fr_sequence f = rm_next_output_sequence r \<and> fr_direction f = ''output''"
proof -
  have some: "jcs_frame J f \<noteq> None" for f using assms(2) by simp
  have kept: "rm_next_output_sequence (prune_replay t r) = rm_next_output_sequence r" for t r
    by (simp add: prune_replay_def split: prod.split)
  show ?thesis
  proof (cases res)
    case (Inl e)
    then show ?thesis using assms(1)
      by (auto simp: some publish_encrypted_output_def with_room_def Let_def split: sum.splits option.splits)
  next
    case (Inr f)
    then obtain r n where r: "find_room i s = Inr r" "encrypt_frame C J E (rm_room_key r) (output_frame r) bytes = Inr f"
      "next_u64 (rm_next_output_sequence r) = Some n" "\<exists>r'. find_room i s' = Inr r' \<and> rm_next_output_sequence r' = n"
      using assms(1) by (auto simp: publish_encrypted_output_def with_room_def Let_def res_iff hosted_Inr find_put_room kept split: sum.splits option.splits)
    then show ?thesis using Inr encrypted_frame_fields [OF r(2)]
      by (auto simp: next_u64_def output_frame_def split: if_splits)
  qed
qed

section \<open>The queue\<close>

text \<open>
  The queue holds everything that was published except a part that the relay has committed, which
  are the first \<open>c\<close> frames; the counter is the size of the queue.
\<close>

definition queue :: "managed_room \<Rightarrow> queued list" where
  "queue r = mr_pending r @ mr_channel r"

definition queue_ok :: "frame list \<Rightarrow> nat \<Rightarrow> managed_room \<Rightarrow> bool" where
  "queue_ok published c r \<longleftrightarrow> (\<exists>m \<le> c. map qf_frame (queue r) = drop m published)
     \<and> mr_bytes r = sum_list (map qf_bytes (queue r)) \<and> mr_bytes r \<le> MAX_PENDING_BYTES"

definition task_ok :: "frame list \<Rightarrow> nat \<Rightarrow> managed_room \<Rightarrow> bool" where
  "task_ok published c r \<longleftrightarrow> ts_mode (mr_session r) = ''host'' \<and> (mr_phase r \<noteq> Finished \<longrightarrow> queue_ok published c r)"

text \<open>The frames that a step puts on the socket.\<close>

definition sent_frames :: "effect list \<Rightarrow> frame set" where
  "sent_frames es = {f. SendFrame f \<in> set es}"

definition taken :: "frame list \<Rightarrow> queued list \<Rightarrow> frame set" where
  "taken published ch = set (take (length published - length ch) published)"

text \<open>A step that leaves the channel at \<open>ch\<close> sends only frames that the task has taken from it.\<close>

definition step_ok :: "frame list \<Rightarrow> nat \<Rightarrow> queued list \<Rightarrow> room_step \<Rightarrow> bool" where
  "step_ok published c ch p \<longleftrightarrow> task_ok published c (snd p) \<and> mr_channel (snd p) = ch \<and> sent_frames (fst p) \<subseteq> taken published ch"

lemma queue_ok_same:
  "mr_pending r' = mr_pending r \<Longrightarrow> mr_channel r' = mr_channel r \<Longrightarrow> mr_bytes r' = mr_bytes r \<Longrightarrow> queue_ok p c r' = queue_ok p c r"
  by (simp add: queue_ok_def queue_def)

lemma queue_ok_set [simp]:
  "queue_ok p c (set_session f r) = queue_ok p c r" "queue_ok p c (r\<lparr>mr_phase := ph\<rparr>) = queue_ok p c r"
  "queue_ok p c (r\<lparr>mr_attempt := n\<rparr>) = queue_ok p c r" "queue_ok p c (r\<lparr>mr_next_connect := t\<rparr>) = queue_ok p c r"
  "queue_ok p c (r\<lparr>mr_close := b\<rparr>) = queue_ok p c r"
  by (rule queue_ok_same; simp add: set_session_def)+

lemma set_session_simps [simp]:
  "mr_phase (set_session f r) = mr_phase r" "mr_pending (set_session f r) = mr_pending r" "mr_channel (set_session f r) = mr_channel r"
  "mr_close (set_session f r) = mr_close r" "mr_session (set_session f r) = f (mr_session r)" "mr_bytes (set_session f r) = mr_bytes r"
  by (simp_all add: set_session_def)

lemma queue_ok_mono: "queue_ok p c r \<Longrightarrow> c \<le> c' \<Longrightarrow> queue_ok p c' r"
  unfolding queue_ok_def using le_trans by blast

lemma step_ok_nothing: "task_ok p c r \<Longrightarrow> mr_channel r = ch \<Longrightarrow> step_ok p c ch ([], r)"
  by (simp add: step_ok_def sent_frames_def)

lemma step_ok_andThen:
  assumes "step_ok p c ch s" "\<And>r. snd s = r \<Longrightarrow> step_ok p c ch (f r)"
  shows "step_ok p c ch (andThen s f)"
  using assms by (cases s; cases "f (snd s)") (auto simp: andThen_def step_ok_def sent_frames_def)

lemma step_ok_effect: "task_ok p c r \<Longrightarrow> (\<And>f. e \<noteq> SendFrame f) \<Longrightarrow> mr_channel r = ch \<Longrightarrow> step_ok p c ch ([e], r)"
  by (auto simp: step_ok_def sent_frames_def)

lemma step_ok_finish: "ts_mode (mr_session r) = ''host'' \<Longrightarrow> mr_channel r = ch \<Longrightarrow> step_ok p c ch (finish_room final why r)"
  by (simp add: finish_room_def announce_def step_ok_def sent_frames_def task_ok_def)

lemma step_ok_reconnecting: "task_ok p c r \<Longrightarrow> mr_channel r = ch \<Longrightarrow> step_ok p c ch (set_reconnecting why r)"
  by (simp add: set_reconnecting_def announce_def step_ok_def sent_frames_def task_ok_def)

lemma step_ok_again: "task_ok p c r \<Longrightarrow> mr_phase r \<noteq> Finished \<Longrightarrow> mr_channel r = ch \<Longrightarrow> step_ok p c ch (again_at t r)"
  unfolding again_at_def Let_def by (auto simp: task_ok_def intro!: step_ok_finish step_ok_nothing)

lemma set_reconnecting_phase [simp]: "mr_phase (snd (set_reconnecting why r)) = mr_phase r"
  by (simp add: set_reconnecting_def announce_def)

lemma step_ok_reconnect: "task_ok p c r \<Longrightarrow> mr_phase r \<noteq> Finished \<Longrightarrow> mr_channel r = ch \<Longrightarrow> step_ok p c ch (reconnect why t r)"
  unfolding reconnect_def using step_ok_reconnecting [of p c r ch why]
  by (intro step_ok_andThen step_ok_again) (auto simp: step_ok_def)

lemma step_ok_failed_attempt: "task_ok p c r \<Longrightarrow> mr_phase r \<noteq> Finished \<Longrightarrow> mr_channel r = ch \<Longrightarrow> step_ok p c ch (failed_attempt E why r)"
  unfolding failed_attempt_def Let_def by (rule step_ok_reconnect) (simp_all add: task_ok_def)

text \<open>What is sent is the front of the queue.\<close>

lemma front_taken:
  assumes "queue_ok p c r" "mr_pending r = q # qs"
  shows "qf_frame q \<in> taken p (mr_channel r)"
proof -
  obtain m where m: "qf_frame q # map qf_frame (qs @ mr_channel r) = drop m p" using assms by (auto simp: queue_ok_def queue_def)
  then have "length p - m = Suc (length qs + length (mr_channel r))" by (metis length_Cons length_append length_drop length_map)
  then have "m < length p - length (mr_channel r)" by simp
  moreover from this have "p ! m = qf_frame q" using m by (metis hd_drop_conv_nth list.sel(1) diff_le_self order_less_le_trans)
  ultimately show ?thesis
    unfolding taken_def by (metis in_set_conv_nth length_take min.absorb2 diff_le_self nth_take)
qed

lemma front_published: "queue_ok p c r \<Longrightarrow> mr_pending r = q # qs \<Longrightarrow> qf_frame q \<in> set p"
  using front_taken in_set_takeD unfolding taken_def by metis

lemma step_ok_send_front:
  assumes "task_ok p c r" "mr_phase r \<noteq> Finished" "mr_channel r = ch"
  shows "step_ok p c ch (send_front sent now r)"
proof (cases "mr_pending r")
  case Nil
  then show ?thesis using assms by (simp add: send_front_def step_ok_nothing)
next
  case (Cons q qs)
  then have "qf_frame q \<in> taken p (mr_channel r)" using assms by (intro front_taken [of p c r]) (auto simp: task_ok_def)
  then have "step_ok p c ch ([SendFrame (qf_frame q)], r)" using assms(1,3) by (simp add: step_ok_def sent_frames_def)
  then show ?thesis using Cons assms by (auto simp: send_front_def intro!: step_ok_andThen step_ok_reconnect)
qed

lemma task_ok_take: "task_ok p c r \<Longrightarrow> task_ok p c (take_command r)"
  by (cases "mr_channel r") (auto simp: take_command_def task_ok_def queue_ok_def queue_def)

section \<open>Confirmations\<close>

text \<open>Frames that the relay has committed may leave the front of the queue.\<close>

lemma drop_confirmed_ok:
  assumes "map fr_sequence published = [base..<base + length published]" "expected \<le> base + c"
  shows "map qf_frame (qs @ ch) = drop m published \<Longrightarrow> m \<le> c \<Longrightarrow> b = sum_list (map qf_bytes (qs @ ch))
    \<Longrightarrow> drop_confirmed expected qs b = (qs', b') \<Longrightarrow> (\<exists>m' \<le> c. map qf_frame (qs' @ ch) = drop m' published)
      \<and> b' = sum_list (map qf_bytes (qs' @ ch)) \<and> b' \<le> b"
proof (induction qs arbitrary: m b)
  case Nil
  then show ?case by auto
next
  case (Cons q qs)
  have m: "m < length published" using Cons.prems(1) by (metis drop_all list.distinct(1) list.map_disc_iff append_Cons linorder_not_less)
  have "drop m published = published ! m # drop (Suc m) published" using m by (simp add: Cons_nth_drop_Suc)
  with Cons.prems(1) have q: "qf_frame q = published ! m" "map qf_frame (qs @ ch) = drop (Suc m) published" by simp_all
  have "fr_sequence (published ! m) = base + m" using arg_cong [OF assms(1), of "\<lambda>xs. xs ! m"] m by simp
  then have seq: "fr_sequence (qf_frame q) = base + m" using q(1) by simp
  show ?case
  proof (cases "fr_sequence (qf_frame q) < expected")
    case True
    then have "Suc m \<le> c" using seq assms(2) by simp
    moreover have "drop_confirmed expected qs (release_pending_bytes (qf_bytes q) b) = (qs', b')" using Cons.prems(4) True by simp
    moreover have "release_pending_bytes (qf_bytes q) b = sum_list (map qf_bytes (qs @ ch))"
      using Cons.prems(3) by (simp add: release_pending_bytes_def)
    ultimately show ?thesis using Cons.IH [OF q(2)] Cons.prems(3) by (fastforce simp: release_pending_bytes_def)
  next
    case False
    then show ?thesis using Cons.prems by auto
  qed
qed

lemma on_ready_ok:
  assumes "map fr_sequence published = [base..<base + length published]" "latest + 1 \<le> base + c" "ts_mode (mr_session r) = ''host''"
    "queue_ok published c r"
  shows "queue_ok published c (snd (on_ready latest next_input r))"
proof -
  obtain qs b where d: "drop_confirmed (sat_add latest 1) (mr_pending r) (mr_bytes r) = (qs, b)" by fastforce
  have "sat_add latest 1 \<le> base + c" using assms(2) by (simp add: sat_add_def)
  then have "(\<exists>m \<le> c. map qf_frame (qs @ mr_channel r) = drop m published) \<and> b = sum_list (map qf_bytes (qs @ mr_channel r)) \<and> b \<le> mr_bytes r"
    using assms(4) drop_confirmed_ok [OF assms(1) _ _ _ _ d] unfolding queue_ok_def queue_def by blast
  moreover have "mr_bytes r \<le> MAX_PENDING_BYTES" using assms(4) by (simp add: queue_ok_def)
  ultimately have "queue_ok published c (r\<lparr>mr_pending := qs, mr_bytes := b\<rparr>)" by (auto simp: queue_ok_def queue_def)
  then show ?thesis using assms(3) by (simp add: on_ready_def reconcile_pending_def d Let_def raise_output_def guard_def del: One_nat_def)
qed

lemma on_accepted_ok:
  assumes "map fr_sequence published = [base..<base + length published]" "\<forall>f \<in> set published. fr_direction f = ''output''"
    "direction = ''output'' \<longrightarrow> sequence < base + c" "queue_ok published c r"
  shows "queue_ok published c (snd (on_accepted direction sequence r))"
proof (cases "mr_pending r")
  case Nil
  then have "queue_ok published c (r\<lparr>mr_pending := []\<rparr>)" using assms(4) queue_ok_same [of "r\<lparr>mr_pending := []\<rparr>" r] by simp
  then show ?thesis using Nil by (simp add: on_accepted_def acknowledge_front_def Let_def)
next
  case (Cons q qs)
  show ?thesis
  proof (cases "fr_direction (qf_frame q) = direction \<and> fr_sequence (qf_frame q) = sequence")
    case False
    have "queue_ok published c (r\<lparr>mr_pending := q # qs\<rparr>)" using assms(4) Cons queue_ok_same [of "r\<lparr>mr_pending := q # qs\<rparr>" r] by simp
    then show ?thesis using Cons False by (auto simp: on_accepted_def acknowledge_front_def Let_def)
  next
    case True
    have "direction = ''output''" using True front_published [OF assms(4) Cons] assms(2) by simp
    have "sequence < base + c" using assms(3) \<open>direction = ''output''\<close> by simp
    obtain m where m: "m \<le> c" "map qf_frame (mr_pending r @ mr_channel r) = drop m published"
      "mr_bytes r = sum_list (map qf_bytes (mr_pending r @ mr_channel r))" "mr_bytes r \<le> MAX_PENDING_BYTES"
      using assms(4) by (auto simp: queue_ok_def queue_def)
    have lt: "m < length published" using m(2) Cons by (metis drop_all list.distinct(1) list.map_disc_iff append_Cons linorder_not_less)
    have "drop m published = published ! m # drop (Suc m) published" using lt by (simp add: Cons_nth_drop_Suc)
    with m(2) Cons have q: "qf_frame q = published ! m" "map qf_frame (qs @ mr_channel r) = drop (Suc m) published" by simp_all
    have "fr_sequence (published ! m) = base + m" using arg_cong [OF assms(1), of "\<lambda>xs. xs ! m"] lt by simp
    then have "Suc m \<le> c" using q(1) True \<open>sequence < base + c\<close> by simp
    then have "queue_ok published c (r\<lparr>mr_pending := qs, mr_bytes := release_pending_bytes (qf_bytes q) (mr_bytes r)\<rparr>)"
      using q(2) m(3,4) Cons by (auto simp: queue_ok_def queue_def release_pending_bytes_def)
    then show ?thesis using Cons True by (simp add: on_accepted_def acknowledge_front_def Let_def raise_output_def)
  qed
qed

section \<open>A turn of the task\<close>

text \<open>What the relay may say when it has committed \<open>c\<close> frames: nothing that it has not committed is confirmed.\<close>

definition relay_says :: "u64 \<Rightarrow> nat \<Rightarrow> event \<Rightarrow> bool" where
  "relay_says base c ev \<longleftrightarrow> (case ev of
     Incoming (Text (Some (Ready latest _))) \<Rightarrow> latest + 1 \<le> base + c
   | Incoming (Text (Some (Accepted direction sequence))) \<Rightarrow> direction = ''output'' \<longrightarrow> sequence < base + c
   | _ \<Rightarrow> True)"

lemma on_ready_frame: "mr_phase (snd (on_ready a b r)) = mr_phase r \<and> mr_channel (snd (on_ready a b r)) = mr_channel r \<and> ts_mode (mr_session (snd (on_ready a b r))) = ts_mode (mr_session r)"
  by (simp add: on_ready_def Let_def raise_output_def split: sum.split prod.split)

lemma on_accepted_frame:
  "mr_phase (snd (on_accepted a b r)) = mr_phase r \<and> mr_channel (snd (on_accepted a b r)) = mr_channel r \<and> ts_mode (mr_session (snd (on_accepted a b r))) = ts_mode (mr_session r)"
  by (simp add: on_accepted_def Let_def raise_output_def split: prod.split)

lemma handle_server_message_ok:
  assumes seqs: "map fr_sequence published = [base..<base + length published]" "\<forall>f \<in> set published. fr_direction f = ''output''"
    and m: "relay_says base c (Incoming (Text (Some m)))" and r: "ts_mode (mr_session r) = ''host''" "queue_ok published c r"
    and h: "handle_server_message C J U m r s = (res, es, r', s')"
  shows "ts_mode (mr_session r') = ''host'' \<and> queue_ok published c r' \<and> mr_phase r' = mr_phase r \<and> mr_channel r' = mr_channel r \<and> sent_frames es = {} \<and> numbers_kept i s s'"
proof (cases m)
  case (Ready latest next_input)
  then have "latest + 1 \<le> base + c" using m by (simp add: relay_says_def)
  from on_ready_ok [OF seqs(1) this r(1,2), of next_input] on_ready_frame [of latest next_input r] show ?thesis
    using h r(1) Ready by (auto simp: handle_server_message_def sent_frames_def split: prod.splits)
next
  case (Accepted direction sequence)
  then have "direction = ''output'' \<longrightarrow> sequence < base + c" using m by (simp add: relay_says_def)
  from on_accepted_ok [OF seqs this r(2)] on_accepted_frame [of direction sequence r] show ?thesis
    using h r(1) Accepted by (auto simp: handle_server_message_def sent_frames_def split: prod.splits)
next
  case (ServerFrame f)
  have "numbers_kept i s (snd (receive_encrypted_input C J (ou_db U) (ou_drawn U) (ou_again U) f s))" by (rule numbers_kept_encrypted_input)
  then show ?thesis using h r ServerFrame
    by (auto simp: handle_server_message_def on_frame_def raise_output_def sent_frames_def Let_def split: if_splits prod.splits sum.splits)
next
  case (Control l)
  have "numbers_kept i s (snd (apply_control_lease C (ou_db U) (ou_again U) (ts_room_id (mr_session r)) l s))"
    "numbers_kept i s (snd (revoke_control C (ou_db U) (ou_again U) (ts_room_id (mr_session r)) s))" for l
    by (rule numbers_kept_lease numbers_kept_revoke)+
  note kept = this
  show ?thesis
  proof (cases "unexpired_lease C (dr_now (ou_drawn U)) l")
    case None
    then show ?thesis using h r Control kept(2)
      by (auto simp: handle_server_message_def on_control_def sent_frames_def Let_def split: prod.splits sum.splits)
  next
    case (Some l')
    then show ?thesis using h r Control kept(1) [of l']
      by (auto simp: handle_server_message_def on_control_def sent_frames_def Let_def split: prod.splits sum.splits)
  qed
qed (use h r in \<open>auto simp: handle_server_message_def sent_frames_def Let_def split: if_splits\<close>)

lemma after_message_ok:
  assumes "task_ok p c r" "mr_phase r \<noteq> Finished" "mr_channel r = ch"
  shows "step_ok p c ch (after_message sent E ready deadline res r)"
proof (cases res)
  case (Inl e)
  then show ?thesis using assms by (simp add: after_message_def step_ok_finish task_ok_def)
next
  case (Inr action)
  show ?thesis
  proof (cases action)
    case NowReady
    let ?r = "r\<lparr>mr_phase := Connected True deadline\<rparr>"
    have r: "task_ok p c ?r" using assms by (simp add: task_ok_def)
    have "step_ok p c ch (set_online ?r)"
      using r assms(3) by (simp add: set_online_def announce_def step_ok_def sent_frames_def task_ok_def)
    moreover have "mr_phase (snd (set_online ?r)) \<noteq> Finished" by (simp add: set_online_def announce_def)
    ultimately have "step_ok p c ch (andThen (set_online ?r) (send_front sent (dr_instant E)))"
      by (intro step_ok_andThen step_ok_send_front) (auto simp: step_ok_def)
    then show ?thesis using Inr NowReady by (simp add: after_message_def)
  qed (use Inr assms in \<open>auto simp: after_message_def step_ok_nothing step_ok_send_front step_ok_reconnect step_ok_finish task_ok_def\<close>)
qed

text \<open>A turn may also take a command out of the channel.\<close>

definition turn_ok :: "frame list \<Rightarrow> nat \<Rightarrow> managed_room \<Rightarrow> room_step \<Rightarrow> bool" where
  "turn_ok published c r p \<longleftrightarrow> (\<exists>ch. length ch \<le> length (mr_channel r) \<and> step_ok published c ch p)"

lemma step_ok_turn: "step_ok p c (mr_channel r) q \<Longrightarrow> turn_ok p c r q"
  unfolding turn_ok_def by blast

lemma turn_ok_take: "step_ok p c (mr_channel (take_command r)) q \<Longrightarrow> turn_ok p c r q"
  unfolding turn_ok_def by (rule exI, rule conjI) (auto simp: take_command_def split: list.split)

lemma waiting_step_ok: "task_ok p c r \<Longrightarrow> mr_phase r = Waiting \<Longrightarrow> turn_ok p c r (waiting_step E ev r)"
  using turn_ok_take [OF step_ok_nothing [OF task_ok_take refl]]
  by (cases ev) (auto simp: waiting_step_def task_ok_def intro!: step_ok_turn step_ok_finish step_ok_nothing)

lemma connecting_step_ok: "task_ok p c r \<Longrightarrow> mr_phase r = Connecting \<Longrightarrow> step_ok p c (mr_channel r) (connecting_step C W E ev r)"
  unfolding connecting_step_def
  by (auto split: event.split sum.split intro!: step_ok_finish step_ok_nothing step_ok_failed_attempt) (auto simp: task_ok_def)

lemma connected_command_ok:
  assumes "task_ok p c r" "mr_phase r \<noteq> Finished" "connected_step C J U sent ready deadline NextCommand r s = (q, s')"
  shows "turn_ok p c r q \<and> s' = s"
proof -
  have "task_ok p c (take_command r)" "mr_phase (take_command r) \<noteq> Finished"
    using task_ok_take [OF assms(1)] assms(2) by (simp_all add: take_command_def split: list.split)
  then show ?thesis using assms(3) step_ok_turn [OF step_ok_nothing [OF assms(1) refl]]
    by (auto simp: connected_step_def Let_def intro!: turn_ok_take step_ok_nothing step_ok_send_front split: list.splits if_splits)
qed

lemma connected_step_ok:
  assumes seqs: "map fr_sequence published = [base..<base + length published]" "\<forall>f \<in> set published. fr_direction f = ''output''"
    and ev: "relay_says base c ev" "ev \<noteq> NextCommand" and r: "task_ok published c r" "mr_phase r = Connected ready deadline"
    and run: "connected_step C J U sent ready deadline ev r s = (p, s')"
  shows "step_ok published c (mr_channel r) p \<and> numbers_kept i s s'"
proof -
  have host: "ts_mode (mr_session r) = ''host''" and live: "mr_phase r \<noteq> Finished" using r by (simp_all add: task_ok_def)
  note steps = step_ok_nothing [OF r(1)] step_ok_finish step_ok_reconnect [OF r(1) live] step_ok_again [OF r(1) live]
  show ?thesis
  proof (cases ev)
    case CloseSignal
    then show ?thesis using run host
      by (auto simp: connected_step_def Let_def steps intro!: step_ok_andThen step_ok_effect [OF r(1)])
  next
    case HeartbeatDue
    then show ?thesis using run
      by (auto simp: connected_step_def Let_def steps intro!: step_ok_andThen step_ok_effect [OF r(1)])
  next
    case ChannelEnd
    then show ?thesis using run host
      by (auto simp: connected_step_def Let_def steps intro!: step_ok_andThen step_ok_effect [OF r(1)])
  next
    case (Incoming j)
    show ?thesis
    proof (cases "\<exists>m. j = Text (Some m)")
      case True
      then obtain m where m: "j = Text (Some m)" by blast
      obtain res es r1 s1 where h: "handle_server_message C J U m r s = (res, es, r1, s1)" by (metis prod_cases4)
      have q: "queue_ok published c r" using r(1) live by (simp add: task_ok_def)
      from handle_server_message_ok [OF seqs _ host q h, of i] ev have
        k: "ts_mode (mr_session r1) = ''host''" "queue_ok published c r1" "mr_phase r1 = mr_phase r" "mr_channel r1 = mr_channel r" "sent_frames es = {}" "numbers_kept i s s1"
        by (auto simp: Incoming m)
      have t: "task_ok published c r1" using k by (simp add: task_ok_def)
      have "step_ok published c (mr_channel r) (andThen (es, r1) (after_message sent (ou_drawn U) ready deadline res))"
        using t k live by (intro step_ok_andThen) (auto simp: step_ok_def [of _ _ _ "(es, r1)"] intro!: after_message_ok)
      then show ?thesis using run k(6) by (simp add: connected_step_def Let_def Incoming m h)
    next
      case False
      then show ?thesis using run host Incoming
        by (cases j; cases "\<exists>m. j = Text m")
          (auto simp: connected_step_def Let_def steps split: option.splits intro!: step_ok_andThen step_ok_effect [OF r(1)])
    qed
  next
    case NextCommand
    then show ?thesis using ev(2) by simp
  qed (use run in \<open>auto simp: connected_step_def Let_def steps split: if_splits\<close>)
qed

lemma room_turn_ok:
  assumes "map fr_sequence published = [base..<base + length published]" "\<forall>f \<in> set published. fr_direction f = ''output''"
    and "relay_says base c ev" "task_ok published c r" "room_turn C J W U sent ev r s = (p, s')"
  shows "turn_ok published c r p \<and> numbers_kept i s s'"
proof (cases "mr_phase r")
  case (Connected ready deadline)
  then have run: "connected_step C J U sent ready deadline ev r s = (p, s')" using assms(5) by (simp add: room_turn_def)
  show ?thesis
  proof (cases "ev = NextCommand")
    case True
    then show ?thesis using connected_command_ok [OF assms(4)] run Connected by (metis numbers_kept_refl phase.distinct(11))
  next
    case False
    from connected_step_ok [OF assms(1-3) this assms(4) Connected run] show ?thesis using step_ok_turn by blast
  qed
next
  case Connecting
  then show ?thesis using assms step_ok_turn [OF connecting_step_ok] by (auto simp: room_turn_def)
next
  case Waiting
  then show ?thesis using assms waiting_step_ok by (auto simp: room_turn_def)
qed (use assms in \<open>auto simp: room_turn_def intro!: step_ok_turn step_ok_nothing\<close>)


section \<open>The link\<close>

text \<open>
  The host with one of its rooms, what it has published there, what has reached the relay and what the
  relay has committed. The relay commits a frame that it has received when the number is the next one.
\<close>

record link =
  ln_room :: managed_room
  ln_manager :: collaboration
  ln_published :: "frame list"
  ln_wire :: "frame set"
  ln_committed :: "frame list"

definition sendable :: "codec \<Rightarrow> frame \<Rightarrow> bool" where
  "sendable J f \<longleftrightarrow> (case jcs_frame J f of None \<Rightarrow> False | Some t \<Rightarrow> length t \<le> MAX_SOCKET_MESSAGE_BYTES)"

definition newly_queued :: "managed_room \<Rightarrow> managed_room \<Rightarrow> frame list" where
  "newly_queued r r' = map qf_frame (drop (length (mr_channel r)) (mr_channel r'))"

inductive link_step :: "crypto \<Rightarrow> codec \<Rightarrow> string \<Rightarrow> u64 \<Rightarrow> link \<Rightarrow> link \<Rightarrow> bool" for C J i base where
  publish: "encrypt_and_enqueue_output C J d E i bytes (ln_room l) (ln_manager l) = (res, r, s) \<Longrightarrow>
    length (mr_channel (ln_room l)) < MAX_PENDING_FRAMES \<Longrightarrow>
    (\<And>f. fst (publish_encrypted_output C J d E i bytes (ln_manager l)) = Inr f \<Longrightarrow> sendable J f) \<Longrightarrow>
    link_step C J i base l (l\<lparr>ln_room := r, ln_manager := s, ln_published := ln_published l @ newly_queued (ln_room l) r\<rparr>)"
| turn: "relay_says base (length (ln_committed l)) ev \<Longrightarrow> room_turn C J W U sent ev (ln_room l) (ln_manager l) = ((es, r), s) \<Longrightarrow>
    link_step C J i base l (l\<lparr>ln_room := r, ln_manager := s, ln_wire := ln_wire l \<union> sent_frames es\<rparr>)"
| commit: "f \<in> ln_wire l \<Longrightarrow> fr_sequence f = base + length (ln_committed l) \<Longrightarrow>
    link_step C J i base l (l\<lparr>ln_committed := ln_committed l @ [f]\<rparr>)"
| elsewhere: "numbers_kept i (ln_manager l) s \<Longrightarrow> link_step C J i base l (l\<lparr>ln_manager := s\<rparr>)"
| close: "link_step C J i base l (l\<lparr>ln_room := request_close (ln_room l)\<rparr>)"

definition link_start :: "managed_room \<Rightarrow> collaboration \<Rightarrow> link" where
  "link_start r s = \<lparr>ln_room = r, ln_manager = s, ln_published = [], ln_wire = {}, ln_committed = []\<rparr>"

definition link_ok :: "string \<Rightarrow> u64 \<Rightarrow> link \<Rightarrow> bool" where
  "link_ok i base l \<longleftrightarrow>
     map fr_sequence (ln_published l) = [base..<base + length (ln_published l)]
     \<and> (\<forall>f \<in> set (ln_published l). fr_direction f = ''output'')
     \<and> (\<forall>r. find_room i (ln_manager l) = Inr r \<longrightarrow> rm_next_output_sequence r = base + length (ln_published l))
     \<and> ln_committed l = take (length (ln_committed l)) (ln_published l)
     \<and> ln_wire l \<subseteq> taken (ln_published l) (mr_channel (ln_room l))
     \<and> set (ln_committed l) \<subseteq> ln_wire l
     \<and> task_ok (ln_published l) (length (ln_committed l)) (ln_room l)"

lemma numbers_keptE:
  "numbers_kept i s s' \<Longrightarrow> \<forall>r. find_room i s = Inr r \<longrightarrow> rm_next_output_sequence r = n \<Longrightarrow> \<forall>r. find_room i s' = Inr r \<longrightarrow> rm_next_output_sequence r = n"
  unfolding numbers_kept_def by metis

lemma taken_mono: "length ch' \<le> length ch \<Longrightarrow> taken p ch \<subseteq> taken p ch'"
  unfolding taken_def by (rule set_take_subset_set_take) simp

lemma task_ok_mono: "task_ok p c r \<Longrightarrow> c \<le> c' \<Longrightarrow> task_ok p c' r"
  unfolding task_ok_def using queue_ok_mono by blast

lemma turn_link_ok:
  assumes l: "link_ok i base l" and ev: "relay_says base (length (ln_committed l)) ev"
    and run: "room_turn C J W U sent ev (ln_room l) (ln_manager l) = ((es, r), s)"
  shows "link_ok i base (l\<lparr>ln_room := r, ln_manager := s, ln_wire := ln_wire l \<union> sent_frames es\<rparr>)"
proof -
  have "turn_ok (ln_published l) (length (ln_committed l)) (ln_room l) (es, r)" "numbers_kept i (ln_manager l) s"
    using room_turn_ok [OF _ _ ev _ run] l by (auto simp: link_ok_def)
  then obtain ch where ch: "length ch \<le> length (mr_channel (ln_room l))" "mr_channel r = ch" "sent_frames es \<subseteq> taken (ln_published l) ch"
    "task_ok (ln_published l) (length (ln_committed l)) r" "numbers_kept i (ln_manager l) s"
    by (auto simp: turn_ok_def step_ok_def)
  have "ln_wire l \<subseteq> taken (ln_published l) ch" using l taken_mono [OF ch(1), of "ln_published l"] by (auto simp: link_ok_def)
  moreover have "\<forall>r. find_room i s = Inr r \<longrightarrow> rm_next_output_sequence r = base + length (ln_published l)"
    using l by (intro numbers_keptE [OF ch(5)]) (simp add: link_ok_def)
  moreover have "set (ln_committed l) \<subseteq> ln_wire l \<union> sent_frames es" using l unfolding link_ok_def by blast
  ultimately show ?thesis using l ch(2-4) by (simp add: link_ok_def)
qed

lemma commit_link_ok:
  assumes l: "link_ok i base l" and f: "f \<in> ln_wire l" "fr_sequence f = base + length (ln_committed l)"
  shows "link_ok i base (l\<lparr>ln_committed := ln_committed l @ [f]\<rparr>)"
proof -
  let ?p = "ln_published l" and ?c = "length (ln_committed l)"
  have p: "map fr_sequence ?p = [base..<base + length ?p]" using l by (simp add: link_ok_def)
  have "f \<in> set ?p" using l f(1) by (auto simp: link_ok_def taken_def dest: in_set_takeD)
  then obtain k where k: "k < length ?p" "?p ! k = f" by (meson in_set_conv_nth)
  have "fr_sequence (?p ! k) = base + k" using arg_cong [OF p, of "\<lambda>xs. xs ! k"] k(1) by simp
  then have "take (Suc ?c) ?p = take ?c ?p @ [f]" using k f(2) by (simp add: take_Suc_conv_app_nth)
  then show ?thesis using l f(1) task_ok_mono [of ?p ?c "ln_room l" "Suc ?c"] by (auto simp: link_ok_def)
qed

text \<open>Publishing appends the frame with the next number, or nothing.\<close>

lemma enqueue_output:
  assumes run: "encrypt_and_enqueue_output C J d E i bytes r s = (res, r', s')" and J: "\<forall>f. jcs_frame J f \<noteq> None"
    and send: "\<And>f. fst (publish_encrypted_output C J d E i bytes s) = Inr f \<Longrightarrow> sendable J f"
  shows "(s' = s \<and> r' = r) \<or> (\<exists>f n. publish_encrypted_output C J d E i bytes s = (Inr f, s') \<and> mr_phase r \<noteq> Finished
    \<and> r' = r\<lparr>mr_bytes := mr_bytes r + n, mr_channel := mr_channel r @ [\<lparr>qf_frame = f, qf_bytes = n\<rparr>]\<rparr> \<and> mr_bytes r + n \<le> MAX_PENDING_BYTES)"
proof (cases "rbind (validate_send_state ''host'' (mr_session r)) (\<lambda>_. rbind (guard (mr_phase r \<noteq> Finished) Unavailable) (\<lambda>_.
    reserve_pending_bytes MAX_SOCKET_MESSAGE_BYTES (mr_bytes r)))")
  case (Inl e)
  then show ?thesis using run by (simp add: encrypt_and_enqueue_output_def send_frame_def)
next
  case (Inr b)
  then have b: "b = mr_bytes r + MAX_SOCKET_MESSAGE_BYTES" "b \<le> MAX_PENDING_BYTES" "mr_phase r \<noteq> Finished"
    by (auto simp: res_iff reserve_pending_bytes_def)
  obtain pr s1 where pub: "publish_encrypted_output C J d E i bytes s = (pr, s1)" by fastforce
  show ?thesis
  proof (cases pr)
    case (Inl e)
    then show ?thesis using run pub publish_numbers [OF pub J] Inr b(1)
      by (simp add: encrypt_and_enqueue_output_def send_frame_def release_pending_bytes_def)
  next
    case f: (Inr f)
    obtain t where t: "jcs_frame J f = Some t" "length t \<le> MAX_SOCKET_MESSAGE_BYTES"
      using send [of f] pub f by (auto simp: sendable_def split: option.splits)
    then have "r' = r\<lparr>mr_bytes := mr_bytes r + length t, mr_channel := mr_channel r @ [\<lparr>qf_frame = f, qf_bytes = length t\<rparr>]\<rparr> \<and> s' = s1"
      using run pub f Inr b(1) by (auto simp: encrypt_and_enqueue_output_def send_frame_def finish_reserved_frame_def release_pending_bytes_def)
    then show ?thesis using pub f b t(2) by auto
  qed
qed

lemma publish_link_ok:
  assumes l: "link_ok i base l" and J: "\<forall>f. jcs_frame J f \<noteq> None"
    and run: "encrypt_and_enqueue_output C J d E i bytes (ln_room l) (ln_manager l) = (res, r, s)"
    and send: "\<And>f. fst (publish_encrypted_output C J d E i bytes (ln_manager l)) = Inr f \<Longrightarrow> sendable J f"
  shows "link_ok i base (l\<lparr>ln_room := r, ln_manager := s, ln_published := ln_published l @ newly_queued (ln_room l) r\<rparr>)"
proof -
  let ?p = "ln_published l" and ?c = "length (ln_committed l)" and ?ch = "mr_channel (ln_room l)"
  consider "s = ln_manager l" "r = ln_room l"
    | f n where "publish_encrypted_output C J d E i bytes (ln_manager l) = (Inr f, s)" "mr_phase (ln_room l) \<noteq> Finished"
      "r = (ln_room l)\<lparr>mr_bytes := mr_bytes (ln_room l) + n, mr_channel := ?ch @ [\<lparr>qf_frame = f, qf_bytes = n\<rparr>]\<rparr>"
      "mr_bytes (ln_room l) + n \<le> MAX_PENDING_BYTES"
    using enqueue_output [OF run J send] by blast
  then show ?thesis
  proof cases
    case 1
    then show ?thesis using l by (simp add: link_ok_def newly_queued_def)
  next
    case (2 f n)
    obtain m m' where n: "find_room i (ln_manager l) = Inr m" "find_room i s = Inr m'"
      "rm_next_output_sequence m' = rm_next_output_sequence m + 1" "fr_sequence f = rm_next_output_sequence m" "fr_direction f = ''output''"
      using publish_numbers [OF 2(1) J] by auto
    have "rm_next_output_sequence m = base + length ?p" using l n(1) by (simp add: link_ok_def)
    note n = n this
    have new: "newly_queued (ln_room l) r = [f]" using 2(3) by (simp add: newly_queued_def)
    have q: "queue_ok ?p ?c (ln_room l)" and host: "ts_mode (mr_session (ln_room l)) = ''host''" using l 2(2) by (simp_all add: link_ok_def task_ok_def)
    from q obtain k where k: "k \<le> ?c" "map qf_frame (queue (ln_room l)) = drop k ?p" by (auto simp: queue_ok_def)
    have c: "?c \<le> length ?p" using l by (metis link_ok_def length_take min.cobounded1 min.commute)
    have "map qf_frame (queue r) = drop k (?p @ [f])" using k c 2(3) by (simp add: queue_def)
    then have "queue_ok (?p @ [f]) ?c r" using q k(1) 2(3,4) by (auto simp: queue_ok_def queue_def)
    then have "task_ok (?p @ [f]) ?c r" using host 2(3) by (simp add: task_ok_def)
    moreover have "taken (?p @ [f]) (mr_channel r) = taken ?p ?ch" using 2(3) by (simp add: taken_def)
    ultimately show ?thesis using l n c by (simp add: link_ok_def new)
  qed
qed

lemma link_step_ok:
  assumes "link_step C J i base l l'" "link_ok i base l" "\<forall>f. jcs_frame J f \<noteq> None"
  shows "link_ok i base l'"
  using assms
proof (induction rule: link_step.induct)
  case (publish d E bytes l res r s)
  then show ?case using publish_link_ok by blast
next
  case (turn l ev W U sent es r s)
  then show ?case using turn_link_ok by blast
next
  case (commit f l)
  then show ?case using commit_link_ok by blast
next
  case (elsewhere l s)
  have "\<forall>r. find_room i s = Inr r \<longrightarrow> rm_next_output_sequence r = base + length (ln_published l)"
    using elsewhere(2) by (intro numbers_keptE [OF elsewhere(1)]) (simp add: link_ok_def)
  then show ?case using elsewhere(2) by (simp add: link_ok_def)
next
  case (close l)
  then show ?case
    using queue_ok_same [of "request_close (ln_room l)" "ln_room l"]
    by (simp add: link_ok_def task_ok_def request_close_def)
qed

lemma link_start_ok:
  assumes "ci_mode v = ''host''" "\<forall>r. find_room i s = Inr r \<longrightarrow> rm_next_output_sequence r = base"
  shows "link_ok i base (link_start (new_room C E v) s)"
  using assms by (simp add: link_ok_def link_start_def taken_def task_ok_def queue_ok_def queue_def new_room_def connected_session_def)

lemma link_reachable_ok:
  assumes "(link_step C J i base)\<^sup>*\<^sup>* (link_start (new_room C E v) s) l"
    and "ci_mode v = ''host''" "\<forall>r. find_room i s = Inr r \<longrightarrow> rm_next_output_sequence r = base" "\<forall>f. jcs_frame J f \<noteq> None"
  shows "link_ok i base l"
  using assms(1)
proof (induction rule: rtranclp_induct)
  case base
  show ?case using assms by (simp add: link_start_ok)
next
  case (step l l')
  then show ?case using link_step_ok assms(4) by blast
qed

section \<open>Draining\<close>

lemma published_sequence:
  "map fr_sequence published = [base..<base + length published] \<Longrightarrow> k < length published \<Longrightarrow> fr_sequence (published ! k) = base + k"
  by (drule arg_cong [of _ _ "\<lambda>xs. xs ! k"]) simp

lemma drop_confirmed_exact:
  assumes "map fr_sequence published = [base..<base + length published]" "c + length ch \<le> length published"
  shows "map qf_frame (qs @ ch) = drop m published \<Longrightarrow> m \<le> c \<Longrightarrow> drop_confirmed (base + c) qs b = (qs', b')
    \<Longrightarrow> map qf_frame (qs' @ ch) = drop c published"
proof (induction qs arbitrary: m b)
  case Nil
  from arg_cong [OF Nil.prems(1), of length] have "length ch = length published - m" by simp
  moreover have "m \<le> length published" using Nil.prems(2) assms(2) by simp
  ultimately have "m = c" using Nil.prems(2) assms(2) by simp
  then show ?case using Nil by simp
next
  case (Cons q qs)
  have m: "m < length published" using Cons.prems(1) by (metis drop_all list.distinct(1) list.map_disc_iff append_Cons linorder_not_less)
  have "drop m published = published ! m # drop (Suc m) published" using m by (simp add: Cons_nth_drop_Suc)
  with Cons.prems(1) have q: "qf_frame q = published ! m" "map qf_frame (qs @ ch) = drop (Suc m) published" by simp_all
  have seq: "fr_sequence (qf_frame q) = base + m" using published_sequence [OF assms(1) m] q(1) by simp
  show ?case
  proof (cases "m < c")
    case True
    then show ?thesis using Cons.IH [OF q(2)] Cons.prems(3) seq by simp
  next
    case False
    then show ?thesis using Cons.prems seq by auto
  qed
qed

lemma committed_taken:
  assumes l: "link_ok i base l" and live: "mr_phase (ln_room l) \<noteq> Finished"
  shows "length (ln_committed l) + length (mr_channel (ln_room l)) \<le> length (ln_published l)"
proof (rule ccontr)
  let ?p = "ln_published l" and ?c = "length (ln_committed l)" and ?ch = "length (mr_channel (ln_room l))"
  assume less: "\<not> ?thesis"
  have com: "ln_committed l = take ?c ?p" and p: "map fr_sequence ?p = [base..<base + length ?p]"
    and sub: "set (ln_committed l) \<subseteq> taken ?p (mr_channel (ln_room l))" using l by (auto simp: link_ok_def)
  have c: "?c \<le> length ?p" using com by (metis length_take min.cobounded1 min.commute)
  show False
  proof (cases "?c = 0")
    case True
    obtain m where "map qf_frame (queue (ln_room l)) = drop m ?p" using l live by (auto simp: link_ok_def task_ok_def queue_ok_def)
    from arg_cong [OF this, of length] show False using less True by (simp add: queue_def)
  next
    case False
    then have "?p ! (?c - 1) \<in> set (take ?c ?p)" using c by (metis diff_less in_set_conv_nth length_take min.absorb2 less_numeral_extra(1) nth_take not_gr_zero)
    then have "?p ! (?c - 1) \<in> set (take (length ?p - ?ch) ?p)" using sub com unfolding taken_def by (metis subsetD)
    then obtain k where k: "k < length ?p - ?ch" "?p ! k = ?p ! (?c - 1)" unfolding in_set_conv_nth by auto
    have "fr_sequence (?p ! k) = base + k" by (rule published_sequence [OF p]) (use k(1) in simp)
    moreover have "fr_sequence (?p ! (?c - 1)) = base + (?c - 1)" by (rule published_sequence [OF p]) (use c False in arith)
    ultimately have "base + k = base + (?c - 1)" using k(2) by simp
    then show False using k(1) less False by simp
  qed
qed

text \<open>A connection in flow: nothing in the queue is committed, and its front is on the wire.\<close>

definition flowing :: "string \<Rightarrow> u64 \<Rightarrow> link \<Rightarrow> bool" where
  "flowing i base l \<longleftrightarrow> link_ok i base l \<and> (\<exists>deadline. mr_phase (ln_room l) = Connected True deadline)
     \<and> map qf_frame (queue (ln_room l)) = drop (length (ln_committed l)) (ln_published l)
     \<and> (\<forall>q qs. mr_pending (ln_room l) = q # qs \<longrightarrow> qf_frame q \<in> ln_wire l)"

lemma send_front_sent: "send_front True now r = (map (SendFrame \<circ> qf_frame) (take 1 (mr_pending r)), r)"
  by (simp add: send_front_def split: list.split)

lemma flow_command:
  assumes l: "flowing i base l" "mr_pending (ln_room l) = []" "mr_channel (ln_room l) = q # qs"
  shows "\<exists>l'. link_step C J i base l l' \<and> flowing i base l' \<and> ln_published l' = ln_published l \<and> ln_committed l' = ln_committed l
    \<and> mr_pending (ln_room l') = [q]"
proof -
  obtain deadline where ph: "mr_phase (ln_room l) = Connected True deadline" using l(1) by (auto simp: flowing_def)
  let ?r = "take_command (ln_room l)"
  have r: "mr_pending ?r = [q]" "mr_channel ?r = qs" "mr_phase ?r = Connected True deadline" using l(2,3) ph by (simp_all add: take_command_def)
  have run: "room_turn C J W U True NextCommand (ln_room l) (ln_manager l) = (([SendFrame (qf_frame q)], ?r), ln_manager l)" for W U
    using ph l(3) r by (simp add: room_turn_def connected_step_def Let_def send_front_sent)
  have ev: "relay_says base (length (ln_committed l)) NextCommand" by (simp add: relay_says_def)
  let ?l = "l\<lparr>ln_room := ?r, ln_manager := ln_manager l, ln_wire := ln_wire l \<union> sent_frames [SendFrame (qf_frame q)]\<rparr>"
  have "link_ok i base ?l" using turn_link_ok [OF _ ev run] l(1) by (simp add: flowing_def)
  then have "flowing i base ?l" using l r by (simp add: flowing_def queue_def sent_frames_def)
  then show ?thesis using link_step.turn [OF ev run, of i] r(1) by (intro exI [of _ ?l]) simp
qed

lemma flow_acknowledge:
  assumes l: "flowing i base l" "mr_pending (ln_room l) = q # qs"
  shows "\<exists>l'. (link_step C J i base)\<^sup>*\<^sup>* l l' \<and> flowing i base l' \<and> ln_published l' = ln_published l
    \<and> length (ln_committed l') = Suc (length (ln_committed l))"
proof -
  obtain deadline where ph: "mr_phase (ln_room l) = Connected True deadline" using l(1) by (auto simp: flowing_def)
  let ?p = "ln_published l" and ?c = "length (ln_committed l)"
  have p: "map fr_sequence ?p = [base..<base + length ?p]" and out: "\<forall>f \<in> set ?p. fr_direction f = ''output''"
    using l(1) by (simp_all add: flowing_def link_ok_def)
  have q: "qf_frame q # map qf_frame (qs @ mr_channel (ln_room l)) = drop ?c ?p" "qf_frame q \<in> ln_wire l"
    using l by (auto simp: flowing_def queue_def)
  then have c: "?c < length ?p" by (metis drop_all list.distinct(1) linorder_not_less)
  then have f: "qf_frame q = ?p ! ?c" "map qf_frame (qs @ mr_channel (ln_room l)) = drop (Suc ?c) ?p"
    using q(1) by (metis Cons_nth_drop_Suc list.inject)+
  then have seq: "fr_sequence (qf_frame q) = base + ?c" "fr_direction (qf_frame q) = ''output''"
    using published_sequence [OF p c] out c by simp_all
  let ?l = "l\<lparr>ln_committed := ln_committed l @ [qf_frame q]\<rparr>"
  have ok: "link_ok i base ?l" using commit_link_ok [OF _ q(2) seq(1)] l(1) by (simp add: flowing_def)
  let ?ev = "Incoming (Text (Some (Accepted ''output'' (base + ?c))))"
  let ?r = "raise_output (base + ?c) ((ln_room l)\<lparr>mr_pending := qs, mr_bytes := release_pending_bytes (qf_bytes q) (mr_bytes (ln_room l))\<rparr>)"
  let ?es = "map (SendFrame \<circ> qf_frame) (take 1 qs)"
  have ev: "relay_says base (length (ln_committed ?l)) ?ev" by (simp add: relay_says_def)
  have run: "room_turn C J W U True ?ev (ln_room ?l) (ln_manager ?l) = ((?es, ?r), ln_manager ?l)" for W U
    using ph l(2) seq
    by (simp add: room_turn_def connected_step_def handle_server_message_def on_accepted_def acknowledge_front_def Let_def andThen_def
        after_message_def send_front_sent raise_output_def)
  let ?l' = "?l\<lparr>ln_room := ?r, ln_manager := ln_manager ?l, ln_wire := ln_wire ?l \<union> sent_frames ?es\<rparr>"
  have "link_ok i base ?l'" by (rule turn_link_ok [OF ok ev run])
  then have "flowing i base ?l'" using f(2) ph by (auto simp: flowing_def queue_def sent_frames_def raise_output_def)
  moreover have "(link_step C J i base)\<^sup>*\<^sup>* l ?l'"
    using link_step.commit [OF q(2) seq(1)] link_step.turn [OF ev run] by (meson converse_rtranclp_into_rtranclp r_into_rtranclp)
  ultimately show ?thesis by (intro exI [of _ ?l']) simp
qed

lemma flow_drains:
  "flowing i base l \<Longrightarrow> n = length (ln_published l) - length (ln_committed l)
    \<Longrightarrow> \<exists>l'. (link_step C J i base)\<^sup>*\<^sup>* l l' \<and> ln_published l' = ln_published l \<and> ln_committed l' = ln_published l"
proof (induction n arbitrary: l)
  case 0
  then have "ln_committed l = ln_published l" by (metis flowing_def link_ok_def diff_is_0_eq take_all)
  then show ?case by blast
next
  case (Suc n)
  have "queue (ln_room l) \<noteq> []" using Suc.prems by (auto simp: flowing_def)
  have "\<exists>l1 q qs. (link_step C J i base)\<^sup>*\<^sup>* l l1 \<and> flowing i base l1 \<and> ln_published l1 = ln_published l
    \<and> ln_committed l1 = ln_committed l \<and> mr_pending (ln_room l1) = q # qs"
  proof (cases "mr_pending (ln_room l)")
    case Nil
    then obtain q qs where "mr_channel (ln_room l) = q # qs" using \<open>queue (ln_room l) \<noteq> []\<close> by (cases "mr_channel (ln_room l)") (auto simp: queue_def)
    from flow_command [OF Suc.prems(1) Nil this, of C J] show ?thesis by blast
  qed (use Suc.prems(1) in blast)
  then obtain l1 q qs where l1: "(link_step C J i base)\<^sup>*\<^sup>* l l1" "flowing i base l1" "ln_published l1 = ln_published l"
    "ln_committed l1 = ln_committed l" "mr_pending (ln_room l1) = q # qs"
    by blast
  obtain l2 where l2: "(link_step C J i base)\<^sup>*\<^sup>* l1 l2" "flowing i base l2" "ln_published l2 = ln_published l"
    "length (ln_committed l2) = Suc (length (ln_committed l))"
    using flow_acknowledge [OF l1(2,5)] l1(3,4) by metis
  have "n = length (ln_published l2) - length (ln_committed l2)" using Suc.prems(2) l2(3,4) by simp
  from Suc.IH [OF l2(2) this] l2(3) obtain l3 where "(link_step C J i base)\<^sup>*\<^sup>* l2 l3" "ln_published l3 = ln_published l" "ln_committed l3 = ln_published l"
    by metis
  then show ?case using l1(1) l2(1) by (meson rtranclp_trans)
qed

text \<open>The first message of a connection brings it into flow.\<close>

lemma ready_flows:
  assumes l: "link_ok i base l" "mr_phase (ln_room l) = Connected False deadline" and b: "0 < base" "base + length (ln_published l) < 2 ^ 64"
  shows "\<exists>l'. link_step C J i base l l' \<and> flowing i base l' \<and> ln_published l' = ln_published l"
proof -
  let ?p = "ln_published l" and ?c = "length (ln_committed l)" and ?r = "ln_room l"
  have p: "map fr_sequence ?p = [base..<base + length ?p]" and host: "ts_mode (mr_session ?r) = ''host''" and q: "queue_ok ?p ?c ?r"
    using l by (simp_all add: link_ok_def task_ok_def)
  have taken: "?c + length (mr_channel ?r) \<le> length ?p" using committed_taken [OF l(1)] l(2) by simp
  obtain qs bs where d: "drop_confirmed (base + ?c) (mr_pending ?r) (mr_bytes ?r) = (qs, bs)" by fastforce
  from q obtain m where m: "m \<le> ?c" "map qf_frame (mr_pending ?r @ mr_channel ?r) = drop m ?p" by (auto simp: queue_ok_def queue_def)
  have rest: "map qf_frame (qs @ mr_channel ?r) = drop ?c ?p" by (rule drop_confirmed_exact [OF p taken m(2,1) d])
  have front: "fr_sequence (qf_frame q) = base + ?c" if "qs = q # qs'" for q qs'
  proof -
    have "qf_frame q # map qf_frame (qs' @ mr_channel ?r) = drop ?c ?p" using rest that by simp
    then have "?c < length ?p" "qf_frame q = ?p ! ?c"
      by (metis drop_all list.distinct(1) linorder_not_less, metis drop_all list.distinct(1) linorder_not_less Cons_nth_drop_Suc list.inject)
    then show ?thesis using published_sequence [OF p] by simp
  qed
  have sat: "sat_add (base + ?c - 1) 1 = base + ?c" using b taken by (simp add: sat_add_def u64_max_def)
  let ?r1 = "raise_output (base + ?c - 1) (?r\<lparr>mr_pending := qs, mr_bytes := bs\<rparr>)"
  have ready: "on_ready (base + ?c - 1) 1 ?r = (Inr NowReady, ?r1)"
    using host front by (simp add: on_ready_def sat reconcile_pending_def d Let_def guard_def del: One_nat_def split: list.split)
  let ?r2 = "snd (set_online (?r1\<lparr>mr_phase := Connected True deadline\<rparr>))"
  have r2: "mr_pending ?r2 = qs" "mr_channel ?r2 = mr_channel ?r" "mr_phase ?r2 = Connected True deadline"
    by (simp_all add: set_online_def announce_def set_session_def raise_output_def)
  let ?es = "fst (set_online (?r1\<lparr>mr_phase := Connected True deadline\<rparr>)) @ map (SendFrame \<circ> qf_frame) (take 1 qs)"
  let ?ev = "Incoming (Text (Some (Ready (base + ?c - 1) 1)))"
  have ev: "relay_says base ?c ?ev" using b(1) by (simp add: relay_says_def)
  have run: "room_turn C J W U True ?ev ?r (ln_manager l) = ((?es, ?r2), ln_manager l)" for W U
    using l(2) r2(1)
    by (simp add: room_turn_def connected_step_def handle_server_message_def ready Let_def andThen_def after_message_def send_front_sent
        split_beta del: One_nat_def)
  let ?l = "l\<lparr>ln_room := ?r2, ln_manager := ln_manager l, ln_wire := ln_wire l \<union> sent_frames ?es\<rparr>"
  have "link_ok i base ?l" by (rule turn_link_ok [OF l(1) ev run])
  then have "flowing i base ?l" using rest r2 by (auto simp: flowing_def queue_def sent_frames_def)
  then show ?thesis using link_step.turn [OF ev run] by (intro exI [of _ ?l]) simp
qed

end
