(* ===== verification/RelayLink.thy ===== *)
theory RelayLink
  imports RelayOutbox CollabExample
begin

text \<open>
  The properties of the output of a host on its way through the relay, over any number of
  connections: nothing is lost, repeated or reordered, and what waits is delivered.
\<close>

section \<open>An example\<close>

text \<open>The room of the toy host has published one frame and has just been connected.\<close>

definition toy_connect :: connect_input where
  "toy_connect = \<lparr>ci_room_id = ''i'', ci_workspace_id = ''w'', ci_mode = ''host'', ci_terminal_session_id = Some ''s'',
     ci_local_member_id = ''o'', ci_local_device_id = ''h'', ci_after_sequence = 0, ci_participants = [], ci_control_lease = None\<rparr>"

definition toy_context :: device_context where
  "toy_context = \<lparr>cx_base_url = ''b'', cx_workspace_id = ''w'', cx_member_id = ''o'', cx_device_id = ''h'', cx_token = ''t'', cx_expires_at = ''9''\<rparr>"

definition toy_web :: web where
  "toy_web = \<lparr>wb_scheme = (\<lambda>_. Some ''https''), wb_rebase = (\<lambda>b s p q. Some (s @ b @ p @ q)), wb_header_ok = (\<lambda>_. True)\<rparr>"

definition toy_outside :: outside where
  "toy_outside = \<lparr>ou_db = toy_host, ou_drawn = toy_drawn 12 [] 4, ou_again = toy_drawn 12 [] 4, ou_terminal = (\<lambda>_ _. Inr ())\<rparr>"

definition toy_managed :: "queued list \<Rightarrow> phase \<Rightarrow> managed_room" where
  "toy_managed ch ph = (new_room toy_crypto (toy_drawn 12 [] 2) toy_connect)\<lparr>mr_channel := ch, mr_bytes := sum_list (map qf_bytes ch), mr_phase := ph\<rparr>"

abbreviation "toy_queued \<equiv> \<lparr>qf_frame = toy_frame, qf_bytes = 33\<rparr>"

definition toy_link :: "phase \<Rightarrow> link" where
  "toy_link ph = \<lparr>ln_room = toy_managed [toy_queued] ph, ln_manager = toy_state (toy_room toy_stored None 0 (toy_guests 1)),
     ln_published = [toy_frame], ln_wire = {}, ln_committed = []\<rparr>"

abbreviation "toy_link_start \<equiv> link_start (new_room toy_crypto (toy_drawn 12 [] 2) toy_connect) (toy_state (toy_room [] None 0 (toy_guests 1)))"

lemma toy_encoded: "jcs_frame toy_codec toy_frame = Some ''nnnnnnnnnnnnhellotttttttttttttttt''"
  by (simp add: toy_codec_def toy_frame_def)

lemma toy_link_published: "link_step toy_crypto toy_codec ''i'' 1 toy_link_start (toy_link Waiting)"
proof -
  let ?r = "new_room toy_crypto (toy_drawn 12 [] 2) toy_connect"
  have run: "encrypt_and_enqueue_output toy_crypto toy_codec toy_host (toy_drawn 12 [] 3) ''i'' ''hello'' ?r (toy_state (toy_room [] None 0 (toy_guests 1)))
      = (Inr (), toy_managed [toy_queued] Waiting, toy_state (toy_room toy_stored None 0 (toy_guests 1)))"
    by (simp add: encrypt_and_enqueue_output_def send_frame_def toy_publish finish_reserved_frame_def validate_send_state_def new_room_def
        connected_session_def toy_connect_def guard_def reserve_pending_bytes_def release_pending_bytes_def MAX_PENDING_BYTES_def
        MAX_SOCKET_MESSAGE_BYTES_def toy_managed_def toy_encoded del: One_nat_def)
  have "link_step toy_crypto toy_codec ''i'' 1 toy_link_start (toy_link_start\<lparr>ln_room := toy_managed [toy_queued] Waiting,
      ln_manager := toy_state (toy_room toy_stored None 0 (toy_guests 1)), ln_published := ln_published toy_link_start @ newly_queued (ln_room toy_link_start)
        (toy_managed [toy_queued] Waiting)\<rparr>)"
  proof (rule link_step.publish)
    show "encrypt_and_enqueue_output toy_crypto toy_codec toy_host (toy_drawn 12 [] 3) ''i'' ''hello'' (ln_room toy_link_start) (ln_manager toy_link_start)
      = (Inr (), toy_managed [toy_queued] Waiting, toy_state (toy_room toy_stored None 0 (toy_guests 1)))"
      using run by (simp add: link_start_def del: One_nat_def)
    show "length (mr_channel (ln_room toy_link_start)) < MAX_PENDING_FRAMES"
      by (simp add: link_start_def new_room_def MAX_PENDING_FRAMES_def)
    show "sendable toy_codec f" if "fst (publish_encrypted_output toy_crypto toy_codec toy_host (toy_drawn 12 [] 3) ''i'' ''hello'' (ln_manager toy_link_start)) = Inr f" for f
      using that by (simp add: link_start_def toy_publish sendable_def toy_encoded MAX_SOCKET_MESSAGE_BYTES_def del: One_nat_def)
  qed
  then show ?thesis by (simp add: link_start_def newly_queued_def toy_link_def toy_managed_def new_room_def)
qed

lemma toy_link_connected:
  "\<exists>deadline. (link_step toy_crypto toy_codec ''i'' 1)\<^sup>*\<^sup>* toy_link_start (toy_link (Connected False deadline))"
proof -
  let ?s = "toy_state (toy_room toy_stored None 0 (toy_guests 1))"
  have run: "room_turn toy_crypto toy_codec toy_web toy_outside True TimerDue (toy_managed [toy_queued] Waiting) ?s
      = (([], toy_managed [toy_queued] Connecting), ?s)"
    by (simp add: room_turn_def waiting_step_def toy_managed_def new_room_def toy_outside_def toy_drawn_def)
  have 1: "link_step toy_crypto toy_codec ''i'' 1 (toy_link Waiting) (toy_link Connecting)"
    using link_step.turn [of 1 "toy_link Waiting" TimerDue toy_crypto toy_codec toy_web toy_outside True "[]" "toy_managed [toy_queued] Connecting" ?s] run
    by (simp add: toy_link_def relay_says_def sent_frames_def)
  let ?ev = "Attempt (Inr toy_context) (Inr ())"
  let ?deadline = "token_refresh_deadline toy_crypto (ou_drawn toy_outside) ''9''"
  have run: "room_turn toy_crypto toy_codec toy_web toy_outside True ?ev (toy_managed [toy_queued] Connecting) ?s
      = (([], toy_managed [toy_queued] (Connected False ?deadline)), ?s)"
    by (simp add: room_turn_def connecting_step_def toy_managed_def new_room_def toy_context_def connected_session_def toy_connect_def
        socket_request_def toy_web_def ok_or_def guard_def)
  have 2: "link_step toy_crypto toy_codec ''i'' 1 (toy_link Connecting) (toy_link (Connected False ?deadline))"
    using link_step.turn [of 1 "toy_link Connecting" ?ev toy_crypto toy_codec toy_web toy_outside True "[]"
        "toy_managed [toy_queued] (Connected False ?deadline)" ?s] run
    by (simp add: toy_link_def relay_says_def sent_frames_def)
  show ?thesis
    using toy_link_published 1 2 by (meson converse_rtranclp_into_rtranclp r_into_rtranclp)
qed

lemma toy_connect_host: "ci_mode toy_connect = ''host''"
  by (simp add: toy_connect_def)

lemma toy_next_number: "\<forall>r. find_room ''i'' (toy_state (toy_room [] None 0 (toy_guests 1))) = Inr r \<longrightarrow> rm_next_output_sequence r = 1"
  by (simp add: toy_find_room toy_room_def)

section \<open>Properties\<close>

text \<open>C14: What the relay commits of the output of a host is, over any number of connections, what the host
  published, in its order, without a gap and without a repetition; as long as the task of the room runs,
  everything that is not committed waits in its queue, and the counter of the queue is exact and at
  most 4 MiB.\<close>

theorem output_exactly_once:
  assumes "(link_step C J i base)\<^sup>*\<^sup>* (link_start (new_room C E v) s) l" "ci_mode v = ''host''"
    and "\<forall>r. find_room i s = Inr r \<longrightarrow> rm_next_output_sequence r = base" "\<forall>f. jcs_frame J f \<noteq> None"
  shows "(\<exists>rest. ln_published l = ln_committed l @ rest \<and> (mr_phase (ln_room l) \<noteq> Finished \<longrightarrow>
      (\<exists>confirmed. map qf_frame (mr_pending (ln_room l) @ mr_channel (ln_room l)) = confirmed @ rest)
      \<and> mr_bytes (ln_room l) = sum_list (map qf_bytes (mr_pending (ln_room l) @ mr_channel (ln_room l))) \<and> mr_bytes (ln_room l) \<le> MAX_PENDING_BYTES))
    \<and> map fr_sequence (ln_published l) = [base..<base + length (ln_published l)]"
proof -
  have ok: "link_ok i base l" by (rule link_reachable_ok [OF assms])
  let ?c = "length (ln_committed l)" and ?p = "ln_published l" and ?r = "ln_room l"
  have split: "?p = ln_committed l @ drop ?c ?p" using ok by (metis link_ok_def append_take_drop_id)
  have "\<exists>confirmed. map qf_frame (mr_pending ?r @ mr_channel ?r) = confirmed @ drop ?c ?p"
    "mr_bytes ?r = sum_list (map qf_bytes (mr_pending ?r @ mr_channel ?r))" "mr_bytes ?r \<le> MAX_PENDING_BYTES"
    if live: "mr_phase ?r \<noteq> Finished"
  proof -
    obtain m where m: "m \<le> ?c" "map qf_frame (queue ?r) = drop m ?p" and b: "mr_bytes ?r = sum_list (map qf_bytes (queue ?r))" "mr_bytes ?r \<le> MAX_PENDING_BYTES"
      using ok live by (auto simp: link_ok_def task_ok_def queue_ok_def)
    have "drop m ?p = take (?c - m) (drop m ?p) @ drop ?c ?p" using m(1) by (metis append_take_drop_id drop_drop le_add_diff_inverse2)
    then show "\<exists>confirmed. map qf_frame (mr_pending ?r @ mr_channel ?r) = confirmed @ drop ?c ?p" using m(2) unfolding queue_def by metis
    show "mr_bytes ?r = sum_list (map qf_bytes (mr_pending ?r @ mr_channel ?r))" "mr_bytes ?r \<le> MAX_PENDING_BYTES"
      using b by (simp_all add: queue_def)
  qed
  then show ?thesis using split ok unfolding link_ok_def by blast
qed

theorem output_exactly_once_witness:
  "\<exists>deadline. let l = toy_link (Connected False deadline) in \<exists>rest confirmed. ln_published l = ln_committed l @ rest
    \<and> map qf_frame (mr_pending (ln_room l) @ mr_channel (ln_room l)) = confirmed @ rest \<and> mr_bytes (ln_room l) \<le> MAX_PENDING_BYTES"
proof -
  obtain deadline where "(link_step toy_crypto toy_codec ''i'' 1)\<^sup>*\<^sup>* toy_link_start (toy_link (Connected False deadline))" using toy_link_connected by blast
  from output_exactly_once [OF this toy_connect_host toy_next_number toy_codec_total] show ?thesis
    by (intro exI [of _ deadline]) (auto simp: Let_def toy_link_def toy_managed_def)
qed

text \<open>C40: Nothing stays in the queue of a host: from any state in which the room has just been connected,
  the first message of the relay and its acknowledgements bring everything published to the relay,
  whatever an earlier connection had left undecided.\<close>

theorem outbox_drains:
  assumes "(link_step C J i base)\<^sup>*\<^sup>* (link_start (new_room C E v) s) l" "ci_mode v = ''host''"
    and "\<forall>r. find_room i s = Inr r \<longrightarrow> rm_next_output_sequence r = base" "\<forall>f. jcs_frame J f \<noteq> None"
    and "mr_phase (ln_room l) = Connected False deadline" "0 < base" "base + length (ln_published l) < 2 ^ 64"
  shows "\<exists>l'. (link_step C J i base)\<^sup>*\<^sup>* l l' \<and> ln_published l' = ln_published l \<and> ln_committed l' = ln_published l"
proof -
  obtain l1 where l1: "link_step C J i base l l1" "flowing i base l1" "ln_published l1 = ln_published l"
    using ready_flows [OF link_reachable_ok [OF assms(1-4)] assms(5-7)] by blast
  then show ?thesis using flow_drains [OF l1(2) refl, of C J] by (metis converse_rtranclp_into_rtranclp)
qed

theorem outbox_drains_witness:
  "\<exists>deadline l'. (link_step toy_crypto toy_codec ''i'' 1)\<^sup>*\<^sup>* (toy_link (Connected False deadline)) l' \<and> ln_committed l' = [toy_frame]"
proof -
  obtain deadline where "(link_step toy_crypto toy_codec ''i'' 1)\<^sup>*\<^sup>* toy_link_start (toy_link (Connected False deadline))" using toy_link_connected by blast
  from outbox_drains [OF this toy_connect_host toy_next_number toy_codec_total, of deadline] show ?thesis
    by (auto simp: toy_link_def toy_managed_def)
qed

end
