(* ===== verification/Spec2Isabelle.thy ===== *)
theory Spec2Isabelle
  imports RelaySystem RelayReplay RelayConfig Telnet ModemSafety ZmodemSafety X11 OpenSsh DeskTasks DeskTunnel McpConsent McpApproval
    CollabProperties TeamAccess RelayLink
begin

text \<open>
  A verification development for CNshell, a desktop SSH workspace (\<open>src/src-tauri\<close>, Rust with a
  TypeScript frontend) and its team relay (\<open>src/services/team-relay\<close>, Rust).

  \<^bold>\<open>The program.\<close> The relay is an HTTP and WebSocket service over one SQLite database: accounts
  with e-mail verification, workspaces with members and devices, device sessions opened by a signed
  challenge, and terminal rooms in which the host device publishes end-to-end encrypted output
  frames and at most one participant at a time holds a lease to send input frames. Every change of
  membership advances the workspace's key epoch and closes its rooms.

  The desktop application runs terminals over SSH, Telnet and other transports, moves files with
  X/Y/Zmodem inside them, forwards X11 and TCP connections, imports the OpenSSH configuration, runs
  commands on many hosts, and offers its sessions to local AI clients through the MCP broker, a
  local service in which every tool call passes authentication, a grant, a rate limit and, unless it
  only reads, the approval of the user. Its team features keep a local directory of workspaces,
  members, roles and device identities, and share terminals in rooms whose frames are encrypted end
  to end: the host wraps the key of the room for each device it invites, signs and numbers its
  output, keeps a window of it for devices that were away, and takes input only from the holder of
  the control lease. A task per online room connects to the relay, reconnects, and keeps what the relay
  has not acknowledged.

  \<^bold>\<open>Theories.\<close>
  \<^item> \<open>Prelude\<close>: results and the question-mark operator (\<open>rbind\<close>, \<open>guard\<close>), transactions
    (\<open>with_tx\<close>), tables as lists with \<open>sql_update\<close>, \<open>sql_delete\<close>, \<open>keep_newest\<close>, the locale
    \<open>keyed_table\<close>, the casts between \<open>u64\<close> and \<open>i64\<close>, and UTF-8 strings.
  \<^item> \<open>RelayModels\<close>: \<open>models.rs\<close>, \<open>error.rs\<close> and the input checks of \<open>store.rs\<close>; the record
    \<open>libs\<close> holds the third-party functions, the record \<open>env\<close> the clock and the random values.
  \<^item> \<open>RelayDb\<close>: the schema of \<open>migrations\<close>, checked inserts, the constraints \<open>keys_ok\<close> and
    \<open>refs_ok\<close>, and the statements several operations share. \<open>keyed_table\<close> is interpreted for
    every table.
  \<^item> \<open>RelayAccounts\<close>, \<open>RelayDevices\<close>, \<open>RelayWorkspaces\<close>: the operations of \<open>RelayStore\<close>
    (\<open>store.rs\<close>), each as a function from the database to a result and the database it leaves.
  \<^item> \<open>RelayRooms\<close>, \<open>RelayFrames\<close>, \<open>RelayReplay\<close>, \<open>RelaySocket\<close>: \<open>TerminalRelay\<close>
    (\<open>terminal.rs\<close>) over the database and the broadcast hubs; \<open>RelaySocket\<close> has one step for
    each branch of the \<open>select!\<close> of \<open>handle_socket\<close>.
  \<^item> \<open>RelayMetrics\<close>, \<open>RelayApi\<close>: \<open>metrics.rs\<close> on 64-bit words and the handlers of \<open>lib.rs\<close>.
  \<^item> \<open>RelayConfig\<close>: the start-up policy of \<open>main.rs\<close> and \<open>email.rs\<close>.
  \<^item> \<open>RelaySample\<close>: a concrete relay on which the theorems are applied.
  \<^item> \<open>DeskBase\<close>, \<open>DeskText\<close>: the errors of \<open>error.rs\<close> of the desktop, its I/O errors, byte
    devices, download folders, and the string and path operations of the standard library.
  \<^item> \<open>Telnet\<close> (\<open>telnet.rs\<close>): the filter byte by byte, the reader loop and the session manager.
  \<^item> \<open>Modem\<close>, \<open>ModemTransfer\<close>, \<open>ModemFiles\<close>, \<open>ModemSafety\<close> (\<open>xymodem.rs\<close>): blocks and
    checksums, the sender and the receiver turn by turn over a byte device, whole files and batches,
    and what a download may do to the folder.
  \<^item> \<open>Zmodem\<close>, \<open>ZmodemTransfer\<close>, \<open>ZmodemSession\<close>, \<open>ZmodemSafety\<close> (\<open>zmodem.rs\<close> and the Zmodem
    part of \<open>ssh.rs\<close>): detection in the terminal output, the drive loops over the protocol engine
    of the \<open>zmodem2\<close> crate (a parameter), and the terminal's state machine.
  \<^item> \<open>X11\<close> (\<open>x11.rs\<close>): displays, the rewriting of the set-up cookie and the bridge.
  \<^item> \<open>OpenSsh\<close> (\<open>openssh.rs\<close>): directives, wildcards, includes, hosts, over a file system that is a
    parameter.
  \<^item> \<open>DeskTasks\<close> (\<open>task.rs\<close>, \<open>batch.rs\<close>) and \<open>DeskTunnel\<close> (\<open>tunnel.rs\<close>): managers as records, each
    locked section as one step.
  \<^item> \<open>McpPolicy\<close>, \<open>McpRuntime\<close>, \<open>McpStore\<close>, \<open>McpTools\<close> (\<open>mcp.rs\<close>, \<open>mcp_protocol.rs\<close>): the pure
    policy (tools, paths, command risk, previews), the state of \<open>McpManager\<close> with one function per
    locked section, the tables with the statements on them, and the handlers of the tools in a monad
    of state, error and a log of the acts visible outside.
  \<^item> \<open>McpLimits\<close>, \<open>McpConsent\<close>, \<open>McpBroker\<close>, \<open>McpApproval\<close>: limits over sequences of calls, the log
    of a request, and the step relation in which requests, the user and the application interleave.
  \<^item> \<open>TeamCrypto\<close>: the cryptographic and encoding crates as the record \<open>crypto\<close>, their documented
    laws \<open>crypto_laws\<close>, a toy instance of them, and device keys and signatures.
  \<^item> \<open>TeamLocal\<close>, \<open>TeamDevices\<close> (\<open>team.rs\<close>, \<open>team_share.rs\<close>): the tables of the team directory with
    \<open>keyed_table\<close> interpreted for each, roles, members and audit; device identities, the credential
    store and the exported files.
  \<^item> \<open>Collaboration\<close> (\<open>collaboration.rs\<close>): every operation of \<open>CollaborationManager\<close> as a function
    from the tables and the manager to a result and the manager it leaves; random bytes and clocks are
    the record \<open>drawn\<close>.
  \<^item> \<open>CollabRooms\<close>, \<open>CollabDelivery\<close>, \<open>CollabInvite\<close>, \<open>CollabProperties\<close>: the step relation of the
    manager with a journal of what was published and the invariant \<open>room_ok\<close>; frames and
    invitations from one device to the other; the properties. \<open>CollabExample\<close> is a room with one
    guest on which they are applied.
  \<^item> \<open>RelayClient\<close> (\<open>team_relay_terminal.rs\<close>): the queue of a room, the messages of the relay, and a turn
    of \<open>run_room\<close> (\<open>room_turn\<close>) by the event its \<open>select!\<close> takes; connections are phases of the task.
    \<open>RelayOutbox\<close> and \<open>RelayLink\<close>: the step relation of a host, its queue and the relay, its invariant
    \<open>link_ok\<close>, and that output is committed once, in order, and in the end.
  \<^item> \<open>TeamDirectory\<close>, \<open>TeamAccess\<close>: the invariant of the tables, the agreement of the permissions
    with those of the relay, and the effect of removing a member or revoking a device on the rooms.

  \<^bold>\<open>What the lemmas show.\<close> Each component proves that its operations keep the uniqueness
  constraints (collection \<open>keeps_keys\<close>), the closed form of its successful operations
  (lemmas named \<open>_Inr\<close>) and its properties (the numbered theorems, each with a witness on the
  concrete relay). For the desktop they show what a peer, a client or a user can make the
  application do: which bytes reach a terminal, an X server or a file, which files a download may
  touch, which requests are approved, within which limits, and that the parsers return and mean what
  their direct descriptions say. For the team features they follow a frame from one device to the
  other: what is published is what arrives, once, in order and after an interruption as well.

  \<^bold>\<open>Bounds and fuel.\<close> A drive of Zmodem runs the 4096 turns of the code, a block is sent and
  received with the 16 retries of the code, both as recursions over that number. The receiver of a
  file recurses over its device, whose input shrinks; an included file is opened at most once, so the
  import recurses by the files not yet opened; the wildcard loop is a \<open>partial_function\<close> proved to
  return by a lexicographic measure. The lists of the relay and the broker are finite tables and need
  no bound.

  \<^bold>\<open>Not modelled.\<close> The texts of error messages; failures of SQLite itself (busy, disk full);
  the interleaving of the statements of one request with another request outside transactions
  (each request is one step); the timing of the password check for an unknown address; the
  routing table and body limit of the HTTP framework; the rendering of JSON (parameters of
  \<open>libs\<close>). On the desktop: failures of the local disk during a transfer, the Kermit process, the
  accept loops and sockets, SSH and SFTP themselves (calls into \<open>libssh2\<close>), the listener, settings,
  audit export and sidecar process of the MCP broker, shells, serial lines, mosh, RDP and other
  device I/O, the vaults, backups and synchronisation, plugins, automation and the AI panel, the
  commands that only forward to these parts, vendored crates and the TypeScript frontend. Of the team
  features: the HTTP client of the relay (\<open>team_relay.rs\<close>) and the shared
  connection files of \<open>team_share.rs\<close>. Secrecy itself is not stated: \<open>crypto_laws\<close> has the algebra of
  the crates, not the hardness of breaking them.
\<close>

end
